(* ===== verification/Prelude.thy ===== *)
theory Prelude
  imports Complex_Main "HOL-Library.Sublist" "HOL-Library.AList"
begin

text \<open>
  Shared vocabulary of the development.

  \<^item> Python dictionaries, which keep insertion order, are association lists with distinct
    keys: \<open>dget\<close>, \<open>dset\<close>, \<open>dpop\<close> model \<open>d.get(k)\<close>, \<open>d[k] = v\<close> and
    \<open>d.pop(k, None)\<close>.
  \<^item> Python strings are \<open>string\<close> values holding their UTF-8 encoding. Substring,
    prefix and suffix tests, splitting on an ASCII character and equality agree with Python's
    on code points because UTF-8 is self-synchronising. Lowering (\<open>py_lower\<close>) is exact
    for every code point whose lower case is ASCII (A-Z, the Kelvin sign, dotted capital I)
    and for the Latin-1 letters; other letters are left as they are.
  \<^item> Parsed JSON documents are the datatype \<open>json\<close>; what \<open>json.loads(path.read_text())\<close>
    can meet on disk is the datatype \<open>disk_file\<close>.
\<close>

section \<open>Rule collections\<close>

named_theorems dict_simps "look-up after an update of a dictionary"
named_theorems str_simps "unfolding of the string operations"

section \<open>Dictionaries\<close>

type_synonym ('k, 'v) dict = "('k \<times> 'v) list"

abbreviation dget :: "('k, 'v) dict \<Rightarrow> 'k \<Rightarrow> 'v option" where
  "dget d k \<equiv> map_of d k"

abbreviation dset :: "'k \<Rightarrow> 'v \<Rightarrow> ('k, 'v) dict \<Rightarrow> ('k, 'v) dict" where
  "dset \<equiv> AList.update"

abbreviation dpop :: "'k \<Rightarrow> ('k, 'v) dict \<Rightarrow> ('k, 'v) dict" where
  "dpop \<equiv> AList.delete"

abbreviation dkeys :: "('k, 'v) dict \<Rightarrow> 'k list" where
  "dkeys d \<equiv> map fst d"

abbreviation dvals :: "('k, 'v) dict \<Rightarrow> 'v list" where
  "dvals d \<equiv> map snd d"

abbreviation dhas :: "('k, 'v) dict \<Rightarrow> 'k \<Rightarrow> bool" where
  "dhas d k \<equiv> map_of d k \<noteq> None"

abbreviation dict_ok :: "('k, 'v) dict \<Rightarrow> bool" where
  "dict_ok d \<equiv> distinct (map fst d)"

lemma dget_dset [dict_simps, simp]: "dget (dset k v d) k' = (if k = k' then Some v else dget d k')"
  by (simp add: update_conv')

lemma dget_dpop [dict_simps, simp]: "dget (dpop k d) k' = (if k = k' then None else dget d k')"
  by (simp add: delete_conv')

lemma dict_ok_dset [intro, simp]: "dict_ok d \<Longrightarrow> dict_ok (dset k v d)"
  by (rule distinct_update)

lemma dict_ok_dpop [intro, simp]: "dict_ok d \<Longrightarrow> dict_ok (dpop k d)"
  by (rule distinct_delete)

lemma dhas_iff_key: "dhas d k \<longleftrightarrow> k \<in> set (dkeys d)"
  by (metis map_of_eq_None_iff set_map)

lemma dget_in_dvals: "dget d k = Some v \<Longrightarrow> v \<in> set (dvals d)"
  by (metis map_of_SomeD snd_conv image_eqI set_map)

lemma dkeys_dset_present: "dhas d k \<Longrightarrow> dkeys (dset k v d) = dkeys d"
  by (metis dhas_iff_key update_keys)

lemma dkeys_dset_absent: "dget d k = None \<Longrightarrow> dset k v d = d @ [(k, v)]"
  by (induction d) auto

lemma dpop_absent: "dget d k = None \<Longrightarrow> dpop k d = d"
  by (simp add: map_of_eq_None_iff delete_notin_dom)

lemma dkeys_dpop [simp]: "set (dkeys (dpop k d)) = set (dkeys d) - {k}"
  by (simp add: delete_keys)

lemma dkeys_dset [simp]: "set (dkeys (dset k v d)) = insert k (set (dkeys d))"
  by (induction d) auto

lemma fst_dset [simp]: "fst ` set (dset k v d) = insert k (fst ` set d)"
  using dkeys_dset [of k v d] by simp

lemma fst_dpop [simp]: "fst ` set (dpop k d) = fst ` set d - {k}"
  using dkeys_dpop [of k d] by simp

lemma dset_subset: "set (dset k v d) \<subseteq> insert (k, v) (set d)"
  by (induction d) auto

lemma dget_in_set: "dget d k = Some v \<Longrightarrow> (k, v) \<in> set d"
  by (rule map_of_SomeD)

lemma dhas_of_set: "(k, v) \<in> set d \<Longrightarrow> dget d k \<noteq> None"
  by (metis dhas_iff_key fst_conv image_eqI set_map)

section \<open>Strings\<close>

text \<open>\<open>needle in hay\<close>\<close>

fun contains :: "'a list \<Rightarrow> 'a list \<Rightarrow> bool" where
  "contains needle [] = (needle = [])"
| "contains needle (c # cs) = (prefix needle (c # cs) \<or> contains needle cs)"

lemma contains_sublist: "contains needle hay \<longleftrightarrow> sublist needle hay"
proof (induction hay)
  case Nil
  then show ?case by simp
next
  case (Cons c cs)
  then show ?case by (simp add: sublist_Cons_right)
qed

text \<open>\<open>s.lower()\<close> on UTF-8: ASCII letters, the Kelvin sign U+212A, the dotted I
  U+0130, and the Latin-1 letters U+00C0..U+00DE except U+00D7.\<close>

definition ascii_lower :: "char \<Rightarrow> char" where
  "ascii_lower c = (if 65 \<le> (of_char c :: nat) \<and> (of_char c :: nat) \<le> 90
                    then char_of ((of_char c :: nat) + 32) else c)"

fun py_lower :: "string \<Rightarrow> string" where
  "py_lower (a # b # c # s) =
     (if a = CHR 0xE2 \<and> b = CHR 0x84 \<and> c = CHR 0xAA then CHR ''k'' # py_lower s
      else if a = CHR 0xC4 \<and> b = CHR 0xB0
        then CHR ''i'' # CHR 0xCC # CHR 0x87 # py_lower (c # s)
      else if a = CHR 0xC3 \<and> 128 \<le> (of_char b :: nat) \<and> (of_char b :: nat) \<le> 158 \<and> of_char b \<noteq> (151 :: nat)
        then a # char_of ((of_char b :: nat) + 32) # py_lower (c # s)
      else ascii_lower a # py_lower (b # c # s))"
| "py_lower [a, b] =
     (if a = CHR 0xC4 \<and> b = CHR 0xB0 then [CHR ''i'', CHR 0xCC, CHR 0x87]
      else if a = CHR 0xC3 \<and> 128 \<le> (of_char b :: nat) \<and> (of_char b :: nat) \<le> 158 \<and> of_char b \<noteq> (151 :: nat)
        then [a, char_of ((of_char b :: nat) + 32)]
      else [ascii_lower a, ascii_lower b])"
| "py_lower [a] = [ascii_lower a]"
| "py_lower [] = []"

text \<open>\<open>s.strip()\<close> for the ASCII white space of Python.\<close>

definition is_space :: "char \<Rightarrow> bool" where
  "is_space c \<longleftrightarrow> c \<in> {CHR '' '', CHR 0x09, CHR 0x0A, CHR 0x0B, CHR 0x0C, CHR 0x0D,
                       CHR 0x1C, CHR 0x1D, CHR 0x1E, CHR 0x1F}"

definition py_lstrip :: "string \<Rightarrow> string" where
  "py_lstrip s = dropWhile is_space s"

definition py_strip :: "string \<Rightarrow> string" where
  "py_strip s = rev (dropWhile is_space (rev (dropWhile is_space s)))"

lemma py_strip_Nil [simp]: "py_strip [] = []"
  by (simp add: py_strip_def)

lemma py_strip_ends:
  assumes "py_strip s \<noteq> []"
  shows "\<not> is_space (hd (py_strip s)) \<and> \<not> is_space (last (py_strip s))"
proof -
  let ?t = "dropWhile is_space s"
  let ?r = "dropWhile is_space (rev ?t)"
  have ne: "?r \<noteq> []" using assms by (simp add: py_strip_def)
  have last: "\<not> is_space (last (py_strip s))"
    using ne by (simp add: py_strip_def last_rev hd_dropWhile)
  have "?t \<noteq> []" using ne by (cases "?t = []") simp_all
  then have "\<not> is_space (hd ?t)" by (rule hd_dropWhile)
  moreover have "rev ?r @ rev (takeWhile is_space (rev ?t)) = ?t"
    by (metis rev_append rev_rev_ident takeWhile_dropWhile_id)
  then have "hd (rev ?r) = hd ?t" using ne by (metis hd_append2 rev_is_Nil_conv)
  ultimately show ?thesis using last by (simp add: py_strip_def)
qed

text \<open>\<open>s.split(sep)\<close> for a one-character separator.\<close>

fun split_on :: "'a \<Rightarrow> 'a list \<Rightarrow> 'a list list" where
  "split_on sep [] = [[]]"
| "split_on sep (c # cs) =
     (if c = sep then [] # split_on sep cs
      else (case split_on sep cs of [] \<Rightarrow> [[c]] | w # ws \<Rightarrow> (c # w) # ws))"

lemma split_on_not_Nil [simp]: "split_on sep s \<noteq> []"
  by (induction s) (auto split: list.splits)

fun join_on :: "'a \<Rightarrow> 'a list list \<Rightarrow> 'a list" where
  "join_on sep [] = []"
| "join_on sep [w] = w"
| "join_on sep (w # v # ws) = w @ sep # join_on sep (v # ws)"

lemma join_split [simp]: "join_on sep (split_on sep s) = s"
proof (induction s)
  case Nil
  then show ?case by simp
next
  case (Cons c cs)
  then show ?case
    by (cases "split_on sep cs"; cases "tl (split_on sep cs)") auto
qed

lemma split_on_no_sep: "w \<in> set (split_on sep s) \<Longrightarrow> sep \<notin> set w"
  by (induction s arbitrary: w) (auto split: list.splits if_splits)

lemma split_on_single: "sep \<notin> set s \<Longrightarrow> split_on sep s = [s]"
  by (induction s) auto

text \<open>\<open>s.rsplit(sep, 1)\<close>: the parts before and after the last separator, if any.\<close>

definition rsplit1 :: "'a \<Rightarrow> 'a list \<Rightarrow> 'a list \<times> 'a list option" where
  "rsplit1 sep s =
     (if sep \<in> set s
      then (rev (tl (dropWhile (\<lambda>c. c \<noteq> sep) (rev s))), Some (rev (takeWhile (\<lambda>c. c \<noteq> sep) (rev s))))
      else (s, None))"

lemma rsplit1_append: "sep \<notin> set t \<Longrightarrow> rsplit1 sep (s @ sep # t) = (s, Some t)"
  by (simp add: rsplit1_def takeWhile_append dropWhile_append)

text \<open>\<open>s.split(sep, 1)\<close>\<close>

definition split1 :: "'a \<Rightarrow> 'a list \<Rightarrow> 'a list \<times> 'a list option" where
  "split1 sep s =
     (if sep \<in> set s
      then (takeWhile (\<lambda>c. c \<noteq> sep) s, Some (tl (dropWhile (\<lambda>c. c \<noteq> sep) s)))
      else (s, None))"

section \<open>JSON documents and what a state file can hold\<close>

datatype json =
    JNull
  | JBool bool
  | JInt int
  | JFloat rat
  | JStr string
  | JArr "json list"
  | JObj "(string \<times> json) list"

text \<open>The outcomes of \<open>path.exists()\<close> / \<open>json.loads(path.read_text())\<close>: no file,
  an \<open>OSError\<close>, a \<open>JSONDecodeError\<close>, a document.\<close>

datatype disk_file = Missing | Unreadable | Garbage | Doc json

section \<open>First match, in order\<close>

text \<open>\<open>next((x for x in xs if p(x)), None)\<close> is the library's \<open>find\<close>.\<close>

lemma find_first:
  "find p xs = Some x \<longleftrightarrow> (\<exists>ys zs. xs = ys @ x # zs \<and> p x \<and> (\<forall>y \<in> set ys. \<not> p y))"
proof
  assume "find p xs = Some x"
  then show "\<exists>ys zs. xs = ys @ x # zs \<and> p x \<and> (\<forall>y \<in> set ys. \<not> p y)"
  proof (induction xs)
    case Nil
    then show ?case by simp
  next
    case (Cons a xs)
    show ?case
    proof (cases "p a")
      case True
      with Cons.prems show ?thesis by (intro exI [of _ "[]"] exI [of _ xs]) simp
    next
      case False
      with Cons obtain ys zs where "xs = ys @ x # zs" "p x" "\<forall>y \<in> set ys. \<not> p y" by auto
      with False show ?thesis by (intro exI [of _ "a # ys"] exI [of _ zs]) simp
    qed
  qed
next
  assume "\<exists>ys zs. xs = ys @ x # zs \<and> p x \<and> (\<forall>y \<in> set ys. \<not> p y)"
  then obtain ys zs where xs: "xs = ys @ x # zs" and p: "p x" "\<forall>y \<in> set ys. \<not> p y" by blast
  from p(2) show "find p xs = Some x"
    unfolding xs by (induction ys) (simp_all add: p(1))
qed

lemma find_append_miss: "(\<And>y. y \<in> set ys \<Longrightarrow> \<not> p y) \<Longrightarrow> find p (ys @ zs) = find p zs"
  by (induction ys) auto

end
