(* ===== verification/Stores.thy ===== *)
theory Stores
  imports Prelude
begin

text \<open>
  What the small JSON-backed stores have in common: a list of named entries, an operation that
  saves an entry under its name, one that deletes a name, a file rewritten after each change
  through a \<open>.tmp\<close> sibling and \<open>os.replace\<close>, and a tolerant load. The locale
  \<open>named_store\<close> is the contract of the two ways the code replaces an entry (in its slot, or at
  the end); the locale \<open>json_codec\<close> is the contract of the JSON form of an entry.
\<close>

section \<open>Decoding: \<open>Cls(**entry)\<close>\<close>

text \<open>\<open>TypeErr\<close> is Python's \<open>TypeError\<close> (unknown or missing keyword, or not a
  mapping). Dataclasses do not check the types of their fields: a value whose JSON type is not
  the declared one is accepted by Python and is outside this typed model, \<open>IllTyped\<close>.\<close>

datatype load_error = TypeErr | IllTyped

definition sbind :: "'e + 'a \<Rightarrow> ('a \<Rightarrow> 'e + 'b) \<Rightarrow> 'e + 'b" where
  "sbind x f = (case x of Inl e \<Rightarrow> Inl e | Inr a \<Rightarrow> f a)"

lemma sbind_simps [simp]: "sbind (Inl e) f = Inl e" "sbind (Inr a) f = f a"
  by (simp_all add: sbind_def)

fun as_str :: "json \<Rightarrow> load_error + string" where
  "as_str (JStr s) = Inr s"
| "as_str _ = Inl IllTyped"

fun as_bool :: "json \<Rightarrow> load_error + bool" where
  "as_bool (JBool b) = Inr b"
| "as_bool _ = Inl IllTyped"

fun as_int :: "json \<Rightarrow> load_error + int" where
  "as_int (JInt n) = Inr n"
| "as_int _ = Inl IllTyped"

fun as_float :: "json \<Rightarrow> load_error + rat" where
  "as_float (JFloat x) = Inr x"
| "as_float (JInt n) = Inr (of_int n)"
| "as_float _ = Inl IllTyped"

fun as_opt :: "(json \<Rightarrow> load_error + 'a) \<Rightarrow> json \<Rightarrow> load_error + 'a option" where
  "as_opt f JNull = Inr None"
| "as_opt f j = sbind (f j) (\<lambda>x. Inr (Some x))"

fun opt_json :: "('a \<Rightarrow> json) \<Rightarrow> 'a option \<Rightarrow> json" where
  "opt_json f None = JNull"
| "opt_json f (Some x) = f x"

lemma as_opt_not_null: "j \<noteq> JNull \<Longrightarrow> as_opt f j = sbind (f j) (\<lambda>x. Inr (Some x))"
  by (cases j) auto

lemma as_opt_opt_json:
  "(\<And>x. g (f x) = Inr x) \<Longrightarrow> (\<And>x. f x \<noteq> JNull) \<Longrightarrow> as_opt g (opt_json f v) = Inr v"
  by (cases v) (simp_all add: as_opt_not_null)

text \<open>A keyword argument, with its default if the dataclass declares one.\<close>

definition kwarg :: "(string \<times> json) list \<Rightarrow> string \<Rightarrow> (json \<Rightarrow> load_error + 'a) \<Rightarrow> 'a option \<Rightarrow> load_error + 'a" where
  "kwarg kvs k f dflt =
     (case map_of kvs k of Some j \<Rightarrow> f j
      | None \<Rightarrow> (case dflt of Some d \<Rightarrow> Inr d | None \<Rightarrow> Inl TypeErr))"

definition kwargs_ok :: "string list \<Rightarrow> string list \<Rightarrow> (string \<times> json) list \<Rightarrow> bool" where
  "kwargs_ok required allowed kvs \<longleftrightarrow>
     list_all (\<lambda>k. k \<in> set allowed) (map fst kvs) \<and> list_all (\<lambda>k. k \<in> set (map fst kvs)) required"

section \<open>The file\<close>

record 'a store =
  st_entries :: "'a list"
  st_file :: disk_file

text \<open>\<open>_save\<close>: the whole list, as one JSON array.\<close>

definition store_save :: "('a \<Rightarrow> json) \<Rightarrow> 'a store \<Rightarrow> 'a store" where
  "store_save enc s = s\<lparr>st_file := Doc (JArr (map enc (st_entries s)))\<rparr>"

lemma store_save_entries [simp]: "st_entries (store_save enc s) = st_entries s"
  by (simp add: store_save_def)

text \<open>\<open>_load\<close>: a missing, unreadable or corrupt file, or a top level that is not a list,
  gives no entries; an entry refused with a \<open>TypeError\<close> is skipped. \<open>None\<close>: the
  file holds an entry outside the typed model.\<close>

fun load_entries :: "(json \<Rightarrow> load_error + 'a) \<Rightarrow> json list \<Rightarrow> 'a list option" where
  "load_entries dec [] = Some []"
| "load_entries dec (j # js) =
     (case dec j of
        Inl TypeErr \<Rightarrow> load_entries dec js
      | Inl IllTyped \<Rightarrow> None
      | Inr x \<Rightarrow> map_option (Cons x) (load_entries dec js))"

fun load_file :: "(json \<Rightarrow> load_error + 'a) \<Rightarrow> disk_file \<Rightarrow> 'a list option" where
  "load_file dec (Doc (JArr js)) = load_entries dec js"
| "load_file dec _ = Some []"

locale json_codec =
  fixes enc :: "'a \<Rightarrow> json" and dec :: "json \<Rightarrow> load_error + 'a"
  assumes dec_enc: "dec (enc x) = Inr x"
begin

lemma load_entries_enc: "load_entries dec (map enc xs) = Some xs"
  by (induction xs) (simp_all add: dec_enc)

lemma reload: "load_file dec (st_file (store_save enc s)) = Some (st_entries s)"
  by (simp add: store_save_def load_entries_enc)

text \<open>A corrupt entry costs that entry only.\<close>

lemma load_skips_bad:
  "dec bad = Inl TypeErr \<Longrightarrow>
   load_file dec (Doc (JArr (map enc xs @ bad # map enc ys))) = Some (xs @ ys)"
  by (induction xs) (simp_all add: dec_enc load_entries_enc)

end

section \<open>Crash-safe replacement\<close>

text \<open>
  \<open>tmp_path.write_text(data); os.replace(tmp_path, path)\<close> as the steps a crash can fall
  between: the temporary file is opened and truncated, filled, then renamed over the target.
\<close>

record two_files =
  main_file :: disk_file
  tmp_file :: disk_file

datatype fs_step = TmpTruncate | TmpFill json | ReplaceMain

fun fs_apply :: "two_files \<Rightarrow> fs_step \<Rightarrow> two_files" where
  "fs_apply f TmpTruncate = f\<lparr>tmp_file := Garbage\<rparr>"
| "fs_apply f (TmpFill j) = f\<lparr>tmp_file := Doc j\<rparr>"
| "fs_apply f ReplaceMain = f\<lparr>main_file := tmp_file f, tmp_file := Missing\<rparr>"

definition save_steps :: "json \<Rightarrow> fs_step list" where
  "save_steps j = [TmpTruncate, TmpFill j, ReplaceMain]"

definition fs_run :: "two_files \<Rightarrow> fs_step list \<Rightarrow> two_files" where
  "fs_run f steps = foldl fs_apply f steps"

lemma take_3_cases: "take n [a, b, c] \<in> {[], [a], [a, b], [a, b, c]}"
  by (cases n; cases "n - 1"; cases "n - 2") (auto simp: take_Cons')

section \<open>Replacing an entry of the same name\<close>

text \<open>In its slot: the loop over \<open>enumerate(self._rules)\<close>.\<close>

fun upsert :: "('a \<Rightarrow> 'k) \<Rightarrow> 'a \<Rightarrow> 'a list \<Rightarrow> 'a list" where
  "upsert key x [] = [x]"
| "upsert key x (y # ys) = (if key y = key x then x # ys else y # upsert key x ys)"

text \<open>At the end: \<open>[p for p in ps if p.name != x.name]\<close>, then \<open>append\<close>.\<close>

definition put_last :: "('a \<Rightarrow> 'k) \<Rightarrow> 'a \<Rightarrow> 'a list \<Rightarrow> 'a list" where
  "put_last key x xs = filter (\<lambda>y. key y \<noteq> key x) xs @ [x]"

definition drop_named :: "('a \<Rightarrow> 'k) \<Rightarrow> 'k \<Rightarrow> 'a list \<Rightarrow> 'a list" where
  "drop_named key k xs = filter (\<lambda>y. key y \<noteq> k) xs"

definition lookup_named :: "('a \<Rightarrow> 'k) \<Rightarrow> 'a list \<Rightarrow> 'k \<Rightarrow> 'a option" where
  "lookup_named key xs k = find (\<lambda>y. key y = k) xs"

lemma lookup_named_simps [simp]:
  "lookup_named key [] k = None"
  "lookup_named key (x # xs) k = (if key x = k then Some x else lookup_named key xs k)"
  by (simp_all add: lookup_named_def)

lemma lookup_named_None: "lookup_named key xs k = None \<longleftrightarrow> k \<notin> key ` set xs"
  by (induction xs) auto

lemma lookup_named_key: "lookup_named key xs k = Some x \<Longrightarrow> key x = k \<and> x \<in> set xs"
  by (induction xs) (auto split: if_splits)

lemma lookup_named_append:
  "lookup_named key (xs @ ys) k =
     (case lookup_named key xs k of Some x \<Rightarrow> Some x | None \<Rightarrow> lookup_named key ys k)"
  by (induction xs) auto

lemma lookup_filter_other:
  "lookup_named key (filter (\<lambda>y. key y \<noteq> k') xs) k = (if k = k' then None else lookup_named key xs k)"
  by (induction xs) auto

lemma keys_upsert:
  "map key (upsert key x xs) = (if key x \<in> key ` set xs then map key xs else map key xs @ [key x])"
  by (induction xs) auto

datatype ('k, 'a) store_op = Put 'a | Del 'k

locale named_store =
  fixes key :: "'a \<Rightarrow> 'k"
    and put :: "'a \<Rightarrow> 'a list \<Rightarrow> 'a list"
    and del :: "'k \<Rightarrow> 'a list \<Rightarrow> 'a list"
  assumes lookup_put:
      "lookup_named key (put x xs) k = (if k = key x then Some x else lookup_named key xs k)"
    and lookup_del: "lookup_named key (del k' xs) k = (if k = k' then None else lookup_named key xs k)"
    and distinct_put: "distinct (map key xs) \<Longrightarrow> distinct (map key (put x xs))"
    and distinct_del: "distinct (map key xs) \<Longrightarrow> distinct (map key (del k xs))"
begin

definition apply_op :: "('k, 'a) store_op \<Rightarrow> 'a list \<Rightarrow> 'a list" where
  "apply_op op xs = (case op of Put x \<Rightarrow> put x xs | Del k \<Rightarrow> del k xs)"

definition abs_op :: "('k, 'a) store_op \<Rightarrow> ('k \<rightharpoonup> 'a) \<Rightarrow> ('k \<rightharpoonup> 'a)" where
  "abs_op op m = (case op of Put x \<Rightarrow> m(key x \<mapsto> x) | Del k \<Rightarrow> m(k := None))"

lemma refines_map: "lookup_named key (apply_op op xs) = abs_op op (lookup_named key xs)"
  by (cases op) (auto simp: apply_op_def abs_op_def lookup_put lookup_del fun_eq_iff)

lemma run_refines_map:
  "lookup_named key (foldl (\<lambda>xs op. apply_op op xs) xs ops)
     = foldl (\<lambda>m op. abs_op op m) (lookup_named key xs) ops"
  by (induction ops arbitrary: xs) (simp_all add: refines_map)

lemma run_distinct:
  "distinct (map key xs) \<Longrightarrow> distinct (map key (foldl (\<lambda>xs op. apply_op op xs) xs ops))"
  by (induction ops arbitrary: xs)
     (auto simp: apply_op_def distinct_put distinct_del split: store_op.split)

lemma put_put: "key x = key y \<Longrightarrow> lookup_named key (put x (put y xs)) = lookup_named key (put x xs)"
  by (auto simp: lookup_put fun_eq_iff)

lemma del_put: "lookup_named key (del (key x) (put x xs)) = lookup_named key (del (key x) xs)"
  by (auto simp: lookup_put lookup_del fun_eq_iff)

end

lemma distinct_map_filter_key: "distinct (map key xs) \<Longrightarrow> distinct (map key (filter p xs))"
  by (induction xs) auto

lemma named_store_upsert: "named_store key (upsert key) (drop_named key)"
proof
  fix x xs k k'
  show "lookup_named key (upsert key x xs) k = (if k = key x then Some x else lookup_named key xs k)"
    by (induction xs) auto
  show "lookup_named key (drop_named key k' xs) k = (if k = k' then None else lookup_named key xs k)"
    by (simp add: drop_named_def lookup_filter_other)
  show "distinct (map key xs) \<Longrightarrow> distinct (map key (upsert key x xs))"
    by (auto simp: keys_upsert)
  show "distinct (map key xs) \<Longrightarrow> distinct (map key (drop_named key k xs))"
    by (simp add: drop_named_def distinct_map_filter_key)
qed

lemma named_store_put_last: "named_store key (put_last key) (drop_named key)"
proof
  fix x xs k k'
  show "lookup_named key (put_last key x xs) k = (if k = key x then Some x else lookup_named key xs k)"
    by (auto simp: put_last_def lookup_named_append lookup_filter_other split: option.split)
  show "lookup_named key (drop_named key k' xs) k = (if k = k' then None else lookup_named key xs k)"
    by (simp add: drop_named_def lookup_filter_other)
  show "distinct (map key xs) \<Longrightarrow> distinct (map key (put_last key x xs))"
    by (auto simp: put_last_def distinct_map_filter_key)
  show "distinct (map key xs) \<Longrightarrow> distinct (map key (drop_named key k xs))"
    by (simp add: drop_named_def distinct_map_filter_key)
qed

section \<open>Stores keyed by a string\<close>

text \<open>\<open>{k: enc(v) for k, v in d.items()}\<close>, and the loop that rebuilds the dictionary and skips
  the entries a constructor refuses with a \<open>TypeError\<close>.\<close>

definition map_json :: "('a \<Rightarrow> json) \<Rightarrow> (string, 'a) dict \<Rightarrow> json" where
  "map_json enc d = JObj (map (\<lambda>(k, v). (k, enc v)) d)"

fun load_items :: "(json \<Rightarrow> load_error + 'a) \<Rightarrow> (string \<times> json) list \<Rightarrow> (string, 'a) dict option" where
  "load_items dec [] = Some []"
| "load_items dec ((k, j) # kvs) =
     (case dec j of
        Inl TypeErr \<Rightarrow> load_items dec kvs
      | Inl IllTyped \<Rightarrow> None
      | Inr x \<Rightarrow> map_option (Cons (k, x)) (load_items dec kvs))"

fun load_map :: "(json \<Rightarrow> load_error + 'a) \<Rightarrow> disk_file \<Rightarrow> (string, 'a) dict option" where
  "load_map dec (Doc (JObj kvs)) = load_items dec kvs"
| "load_map dec _ = Some []"

lemma load_items_enc:
  "(\<And>x. x \<in> set (dvals d) \<Longrightarrow> dec (enc x) = Inr x) \<Longrightarrow> load_items dec (map (\<lambda>(k, v). (k, enc v)) d) = Some d"
proof (induction d)
  case Nil
  then show ?case by simp
next
  case (Cons kv d)
  obtain k v where kv: "kv = (k, v)" by (cases kv)
  have "dec (enc v) = Inr v" by (rule Cons.prems) (simp add: kv)
  moreover have "load_items dec (map (\<lambda>(k, v). (k, enc v)) d) = Some d"
    by (rule Cons.IH) (rule Cons.prems, simp)
  ultimately show ?case by (simp add: kv)
qed

lemma load_map_enc:
  "(\<And>x. x \<in> set (dvals d) \<Longrightarrow> dec (enc x) = Inr x) \<Longrightarrow> load_map dec (Doc (map_json enc d)) = Some d"
  unfolding map_json_def load_map.simps by (rule load_items_enc)

context json_codec
begin

lemma reload_map: "load_map dec (Doc (map_json enc d)) = Some d"
  by (rule load_map_enc) (rule dec_enc)

end

end
