(* ===== verification/Routing.thy ===== *)
theory Routing
  imports Stores
begin

text \<open>
  \<open>engine/routing_rules.py\<close>: the ordered list of routing rules, its store
  (\<open>RoutingRuleStore\<close>) and the first-match evaluation used by every automatic add path.
\<close>

section \<open>RoutingRule\<close>

record routing_rule =
  rr_name :: string
  rr_pattern :: string
  rr_match_field :: string
  rr_destination :: string
  rr_action :: string
  rr_move_to :: string

definition rule_json :: "routing_rule \<Rightarrow> json" where
  "rule_json r = JObj [(''name'', JStr (rr_name r)), (''pattern'', JStr (rr_pattern r)),
     (''match_field'', JStr (rr_match_field r)), (''destination'', JStr (rr_destination r)),
     (''post_complete_action'', JStr (rr_action r)), (''post_complete_move_to'', JStr (rr_move_to r))]"

fun rule_of_json :: "json \<Rightarrow> load_error + routing_rule" where
  "rule_of_json (JObj kvs) =
     (if kwargs_ok [''name'', ''pattern'', ''match_field'', ''destination'']
           [''name'', ''pattern'', ''match_field'', ''destination'', ''post_complete_action'', ''post_complete_move_to''] kvs
      then sbind (kwarg kvs ''name'' as_str None) (\<lambda>n.
           sbind (kwarg kvs ''pattern'' as_str None) (\<lambda>p.
           sbind (kwarg kvs ''match_field'' as_str None) (\<lambda>m.
           sbind (kwarg kvs ''destination'' as_str None) (\<lambda>d.
           sbind (kwarg kvs ''post_complete_action'' as_str (Some ''none'')) (\<lambda>a.
           sbind (kwarg kvs ''post_complete_move_to'' as_str (Some '''')) (\<lambda>t.
           Inr \<lparr>rr_name = n, rr_pattern = p, rr_match_field = m, rr_destination = d,
                rr_action = a, rr_move_to = t\<rparr>))))))
      else Inl TypeErr)"
| "rule_of_json _ = Inl TypeErr"

interpretation rules_json: json_codec rule_json rule_of_json
  by unfold_locales (simp add: rule_json_def kwargs_ok_def kwarg_def)

section \<open>RoutingRuleStore\<close>

type_synonym rule_store = "routing_rule store"

definition rules_init :: "disk_file \<Rightarrow> rule_store option" where
  "rules_init f = map_option (\<lambda>rs. \<lparr>st_entries = rs, st_file = f\<rparr>) (load_file rule_of_json f)"

definition list_rules :: "rule_store \<Rightarrow> routing_rule list" where
  "list_rules s = st_entries s"

definition save_rule :: "routing_rule \<Rightarrow> rule_store \<Rightarrow> rule_store" where
  "save_rule r s = store_save rule_json (s\<lparr>st_entries := upsert rr_name r (st_entries s)\<rparr>)"

definition delete_rule :: "string \<Rightarrow> rule_store \<Rightarrow> rule_store" where
  "delete_rule n s = store_save rule_json (s\<lparr>st_entries := drop_named rr_name n (st_entries s)\<rparr>)"

text \<open>\<open>by_name\<close> is a dictionary comprehension: the last rule of a name wins.\<close>

definition by_name :: "routing_rule list \<Rightarrow> string \<rightharpoonup> routing_rule" where
  "by_name rs = map_of (rev (map (\<lambda>r. (rr_name r, r)) rs))"

definition reorder_list :: "string list \<Rightarrow> routing_rule list \<Rightarrow> routing_rule list" where
  "reorder_list names rs =
     List.map_filter (by_name rs) names @ filter (\<lambda>r. rr_name r \<notin> set names) rs"

definition reorder_rules :: "string list \<Rightarrow> rule_store \<Rightarrow> rule_store" where
  "reorder_rules names s = store_save rule_json (s\<lparr>st_entries := reorder_list names (st_entries s)\<rparr>)"

interpretation rule_names: named_store rr_name "upsert rr_name" "drop_named rr_name"
  by (rule named_store_upsert)

section \<open>Evaluation\<close>

text \<open>\<open>trackers\<close> is \<open>None\<close> when the caller cannot know them yet; \<open>None\<close> and the
  empty list are both falsy.\<close>

definition rule_matches :: "string \<Rightarrow> string list option \<Rightarrow> routing_rule \<Rightarrow> bool" where
  "rule_matches name trackers rule \<longleftrightarrow>
     (let name_lower = (if name \<noteq> [] then py_lower name else []);
          trackers_lower = (case trackers of Some ts \<Rightarrow> map py_lower ts | None \<Rightarrow> []);
          needle = py_lower (rr_pattern rule)
      in rr_pattern rule \<noteq> [] \<and>
         (if rr_match_field rule = ''name'' then name \<noteq> [] \<and> contains needle name_lower
          else if rr_match_field rule = ''tracker''
            then trackers_lower \<noteq> [] \<and> list_ex (contains needle) trackers_lower
          else False))"

definition find_matching_rule :: "routing_rule list \<Rightarrow> string \<Rightarrow> string list option \<Rightarrow> routing_rule option" where
  "find_matching_rule rules name trackers = find (rule_matches name trackers) rules"

definition resolve_destination :: "routing_rule list \<Rightarrow> string \<Rightarrow> string \<Rightarrow> string list option \<Rightarrow> string" where
  "resolve_destination rules default_destination name trackers =
     (case find_matching_rule rules name trackers of Some r \<Rightarrow> rr_destination r | None \<Rightarrow> default_destination)"

section \<open>Facts\<close>

lemma rule_matches_nonblank: "rule_matches name trackers r \<Longrightarrow> rr_pattern r \<noteq> []"
  by (simp add: rule_matches_def Let_def)

lemma rule_matches_tracker_known:
  "rule_matches name trackers r \<Longrightarrow> rr_match_field r = ''tracker'' \<Longrightarrow> \<exists>t ts. trackers = Some (t # ts)"
  by (cases trackers; cases "the trackers") (auto simp: rule_matches_def Let_def)

lemma by_name_distinct:
  assumes "distinct (map rr_name rs)"
  shows "by_name rs n = Some r \<longleftrightarrow> r \<in> set rs \<and> rr_name r = n"
proof -
  have d: "distinct (map fst (rev (map (\<lambda>r. (rr_name r, r)) rs)))"
    using assms by (simp add: rev_map [symmetric] comp_def)
  have "by_name rs n = Some r \<longleftrightarrow> (n, r) \<in> set (rev (map (\<lambda>r. (rr_name r, r)) rs))"
    unfolding by_name_def by (rule map_of_eq_Some_iff [OF d])
  then show ?thesis by auto
qed

lemma map_filter_by_name:
  assumes "distinct (map rr_name rs)" "distinct names"
  shows "distinct (List.map_filter (by_name rs) names)"
    and "set (List.map_filter (by_name rs) names) = {r \<in> set rs. rr_name r \<in> set names}"
proof -
  show "set (List.map_filter (by_name rs) names) = {r \<in> set rs. rr_name r \<in> set names}"
    using by_name_distinct [OF assms(1)] by (auto simp: List.map_filter_def image_iff) (metis option.sel option.distinct(1))+
  have "inj_on (\<lambda>n. the (by_name rs n)) {n. by_name rs n \<noteq> None}"
    by (rule inj_onI) (metis (mono_tags) by_name_distinct [OF assms(1)] mem_Collect_eq option.exhaust_sel)
  then have "inj_on (the \<circ> by_name rs) (set (filter (\<lambda>n. by_name rs n \<noteq> None) names))"
    unfolding comp_def by (rule inj_on_subset) auto
  then show "distinct (List.map_filter (by_name rs) names)"
    using assms(2) by (simp add: List.map_filter_def distinct_map)
qed

lemma reorder_list_set:
  assumes "distinct (map rr_name rs)" "distinct names"
  shows "distinct (reorder_list names rs) \<and> set (reorder_list names rs) = set rs"
  using map_filter_by_name [OF assms] assms(1)
  by (auto simp: reorder_list_def distinct_map)

section \<open>Properties\<close>

text \<open>The rule found is the first, in priority order, that matches, and a rule with a blank
  pattern never is, nor a tracker rule when the trackers are not known or there are none.\<close>

theorem find_matching_rule_first:
  "find_matching_rule rules name trackers = Some r \<longleftrightarrow>
     (\<exists>before later. rules = before @ r # later
        \<and> rule_matches name trackers r
        \<and> rr_pattern r \<noteq> []
        \<and> (rr_match_field r = ''tracker'' \<longrightarrow> (\<exists>t ts. trackers = Some (t # ts)))
        \<and> (\<forall>q \<in> set before. \<not> rule_matches name trackers q))"
proof -
  have "rule_matches name trackers r \<longleftrightarrow> rule_matches name trackers r \<and> rr_pattern r \<noteq> []
      \<and> (rr_match_field r = ''tracker'' \<longrightarrow> (\<exists>t ts. trackers = Some (t # ts)))"
    using rule_matches_nonblank [of name trackers r] rule_matches_tracker_known [of name trackers r] by argo
  then show ?thesis unfolding find_matching_rule_def find_first
    by (cases "rule_matches name trackers r") simp_all
qed

theorem find_matching_rule_first_witness:
  "let r1 = \<lparr>rr_name = ''a'', rr_pattern = [], rr_match_field = ''name'', rr_destination = ''D:'', rr_action = ''none'', rr_move_to = []\<rparr>;
       r2 = \<lparr>rr_name = ''b'', rr_pattern = ''Linux'', rr_match_field = ''name'', rr_destination = ''E:'', rr_action = ''none'', rr_move_to = []\<rparr>
   in \<exists>before later. [r1, r2] = before @ r2 # later \<and> (\<forall>q \<in> set before. \<not> rule_matches ''linux iso'' None q)"
proof -
  define r1 where "r1 = \<lparr>rr_name = ''a'', rr_pattern = [], rr_match_field = ''name'', rr_destination = ''D:'', rr_action = ''none'', rr_move_to = []\<rparr>"
  define r2 where "r2 = \<lparr>rr_name = ''b'', rr_pattern = ''Linux'', rr_match_field = ''name'', rr_destination = ''E:'', rr_action = ''none'', rr_move_to = []\<rparr>"
  have "find_matching_rule [r1, r2] ''linux iso'' None = Some r2"
    unfolding r1_def r2_def by code_simp
  then have "\<exists>before later. [r1, r2] = before @ r2 # later \<and> (\<forall>q \<in> set before. \<not> rule_matches ''linux iso'' None q)"
    unfolding find_matching_rule_first by blast
  then show ?thesis by (simp only: Let_def r1_def r2_def)
qed

text \<open>Saving a rule keeps the priority order: an existing name keeps its slot, a new one goes
  last, and every other rule stays where it was; what the store then holds is what a restart
  reads back from the file.\<close>

theorem save_rule_keeps_slots:
  "map rr_name (list_rules (save_rule r s))
     = (if rr_name r \<in> rr_name ` set (list_rules s)
        then map rr_name (list_rules s) else map rr_name (list_rules s) @ [rr_name r])
   \<and> filter (\<lambda>q. rr_name q \<noteq> rr_name r) (list_rules (save_rule r s))
       = filter (\<lambda>q. rr_name q \<noteq> rr_name r) (list_rules s)
   \<and> map_option list_rules (rules_init (st_file (save_rule r s))) = Some (list_rules (save_rule r s))"
proof -
  have "filter (\<lambda>q. rr_name q \<noteq> rr_name r) (upsert rr_name r rs)
      = filter (\<lambda>q. rr_name q \<noteq> rr_name r) rs" for rs
    by (induction rs) auto
  then show ?thesis
    by (simp add: list_rules_def save_rule_def keys_upsert rules_init_def rules_json.reload
        option.map_comp comp_def)
qed

text \<open>Re-ordering by a list of distinct names permutes the rules of a store whose names are
  distinct: no rule is lost, none is duplicated, and the names left out follow in their old
  order.\<close>

theorem reorder_rules_permutes:
  assumes "distinct (map rr_name (list_rules s))" "distinct names"
  shows "distinct (list_rules (reorder_rules names s))
    \<and> set (list_rules (reorder_rules names s)) = set (list_rules s)
    \<and> (\<exists>front. list_rules (reorder_rules names s)
          = front @ filter (\<lambda>r. rr_name r \<notin> set names) (list_rules s))"
  using reorder_list_set [OF assms] by (auto simp: list_rules_def reorder_rules_def reorder_list_def)

theorem reorder_rules_permutes_witness:
  "let r1 = \<lparr>rr_name = ''a'', rr_pattern = ''x'', rr_match_field = ''name'', rr_destination = ''D:'', rr_action = ''none'', rr_move_to = []\<rparr>;
       r2 = r1\<lparr>rr_name := ''b''\<rparr>; s = \<lparr>st_entries = [r1, r2], st_file = Missing\<rparr>
   in set (list_rules (reorder_rules [''b'', ''zz''] s)) = {r1, r2}"
proof -
  define r1 where "r1 = \<lparr>rr_name = ''a'', rr_pattern = ''x'', rr_match_field = ''name'', rr_destination = ''D:'', rr_action = ''none'', rr_move_to = []\<rparr>"
  define r2 where "r2 = r1\<lparr>rr_name := ''b''\<rparr>"
  define s where "s = \<lparr>st_entries = [r1, r2], st_file = Missing\<rparr>"
  have "distinct (map rr_name (list_rules s))" by (simp add: s_def r1_def r2_def list_rules_def)
  moreover have "distinct [''b'', ''zz'']" by simp
  ultimately have "set (list_rules (reorder_rules [''b'', ''zz''] s)) = set (list_rules s)"
    using reorder_rules_permutes [of s "[''b'', ''zz'']"] by blast
  then show ?thesis by (simp add: s_def list_rules_def Let_def r1_def r2_def)
qed

end
