(* ===== verification/PyRegex.thy ===== *)
theory PyRegex
  imports Prelude
begin

text \<open>
  The fragment of Python's \<open>re\<close> that the source's own patterns use, compiled with
  \<open>re.IGNORECASE\<close>: character classes, sequences, alternatives, \<open>+\<close> and \<open>{m,n}\<close>
  of a class, \<open>\b\<close> and \<open>$\<close>. \<open>re_search\<close> is an executable backtracking matcher;
  \<open>rx_rel\<close> is the declarative meaning, and the two agree (\<open>re_search_rel\<close>).

  A string is matched after \<open>re_fold\<close>: ASCII letters are lowered, the four code points that
  IGNORECASE identifies with an ASCII letter (U+0130, U+0131, U+017F, U+212A) become that letter,
  and the non-ASCII white space of \<open>\s\<close> becomes a space. For \<open>\b\<close> a Latin-1 code point is
  a word character when Python's \<open>isalnum\<close> says so, and every code point from U+0100 on is
  taken as one.
\<close>

section \<open>Folding\<close>

definition byte :: "char \<Rightarrow> nat" where
  "byte c = of_char c"

text \<open>\<open>fold_uni a s\<close>: the ASCII character that the code point starting with byte \<open>a\<close>
  (followed by \<open>s\<close>) folds to, and how many bytes of \<open>s\<close> belong to that code point.\<close>

definition fold_uni :: "char \<Rightarrow> string \<Rightarrow> (char \<times> nat) option" where
  "fold_uni a s =
     (let x = byte a;
          y = (case s of b # _ \<Rightarrow> byte b | [] \<Rightarrow> 0);
          z = (case s of _ # c # _ \<Rightarrow> byte c | _ \<Rightarrow> 0)
      in if x = 0xE2 \<and> y = 0x84 \<and> z = 0xAA then Some (CHR ''k'', 2)
         else if x = 0xE1 \<and> y = 0x9A \<and> z = 0x80 then Some (CHR '' '', 2)
         else if x = 0xE2 \<and> y = 0x80 \<and> ((0x80 \<le> z \<and> z \<le> 0x8A) \<or> z = 0xA8 \<or> z = 0xA9 \<or> z = 0xAF)
           then Some (CHR '' '', 2)
         else if x = 0xE2 \<and> y = 0x81 \<and> z = 0x9F then Some (CHR '' '', 2)
         else if x = 0xE3 \<and> y = 0x80 \<and> z = 0x80 then Some (CHR '' '', 2)
         else if x = 0xC4 \<and> (y = 0xB0 \<or> y = 0xB1) then Some (CHR ''i'', 1)
         else if x = 0xC5 \<and> y = 0xBF then Some (CHR ''s'', 1)
         else if x = 0xC2 \<and> (y = 0x85 \<or> y = 0xA0) then Some (CHR '' '', 1)
         else None)"

fun re_fold :: "string \<Rightarrow> string" where
  "re_fold [] = []"
| "re_fold (a # s) =
     (if byte a < 128 then ascii_lower a # re_fold s
      else (case fold_uni a s of
              Some (d, n) \<Rightarrow> d # re_fold (drop n s)
            | None \<Rightarrow> a # re_fold s))"

abbreviation is_ascii :: "string \<Rightarrow> bool" where
  "is_ascii s \<equiv> list_all (\<lambda>c. byte c < 128) s"

lemma re_fold_ascii: "is_ascii s \<Longrightarrow> re_fold s = map ascii_lower s"
  by (induction s) simp_all

lemma fold_uni_append:
  assumes "is_ascii t"
  shows "fold_uni a (s @ t) = fold_uni a s"
proof -
  consider "s = []" | b where "s = [b]" | b c r where "s = b # c # r"
    by (cases s; cases "tl s") auto
  then show ?thesis
  proof cases
    case 1
    with assms show ?thesis by (cases t; cases "tl t") (auto simp: fold_uni_def Let_def)
  next
    case 2
    with assms show ?thesis by (cases t) (auto simp: fold_uni_def Let_def)
  next
    case 3
    then show ?thesis by (simp add: fold_uni_def)
  qed
qed

lemma fold_uni_length: "fold_uni a s = Some (d, n) \<Longrightarrow> n \<le> length s"
  by (cases s; cases "tl s") (auto simp: fold_uni_def Let_def split: if_splits)

lemma re_fold_append: "is_ascii t \<Longrightarrow> re_fold (s @ t) = re_fold s @ map ascii_lower t"
proof (induction s rule: re_fold.induct)
  case 1
  then show ?case by (simp add: re_fold_ascii)
next
  case (2 a s)
  show ?case
  proof (cases "byte a < 128")
    case True
    with 2 show ?thesis by simp
  next
    case False
    with 2 show ?thesis
      by (cases "fold_uni a s") (auto simp: fold_uni_append dest: fold_uni_length)
  qed
qed

section \<open>Word characters\<close>

definition ascii_word :: "nat \<Rightarrow> bool" where
  "ascii_word n \<longleftrightarrow> (48 \<le> n \<and> n \<le> 57) \<or> (65 \<le> n \<and> n \<le> 90) \<or> (97 \<le> n \<and> n \<le> 122) \<or> n = 95"

text \<open>Second byte of U+0080..U+00BF (after C2) and of U+00C0..U+00FF (after C3).\<close>

definition latin_word :: "nat \<Rightarrow> nat \<Rightarrow> bool" where
  "latin_word lead b \<longleftrightarrow>
     (if lead = 0xC2 then b \<in> {0xAA, 0xB2, 0xB3, 0xB5, 0xB9, 0xBA, 0xBC, 0xBD, 0xBE}
      else b \<noteq> 0x97 \<and> b \<noteq> 0xB7)"

fun word_after :: "string \<Rightarrow> bool" where
  "word_after [] = False"
| "word_after (a # s) =
     (if byte a < 128 then ascii_word (byte a)
      else (case s of b # _ \<Rightarrow> if byte a \<in> {0xC2, 0xC3} then latin_word (byte a) (byte b) else True
            | [] \<Rightarrow> True))"

text \<open>The text before the position is held reversed.\<close>

fun word_before :: "string \<Rightarrow> bool" where
  "word_before [] = False"
| "word_before (b # s) =
     (if byte b < 128 then ascii_word (byte b)
      else (case s of a # _ \<Rightarrow> if byte a \<in> {0xC2, 0xC3} then latin_word (byte a) (byte b) else True
            | [] \<Rightarrow> True))"

section \<open>Patterns and the matcher\<close>

datatype rx =
    Eps
  | Cls "char \<Rightarrow> bool"
  | Seq rx rx
  | Alt rx rx
  | PlusCls "char \<Rightarrow> bool"
  | WordB
  | EndS

fun rx_plus :: "(char \<Rightarrow> bool) \<Rightarrow> string \<Rightarrow> string \<Rightarrow> (string \<Rightarrow> string \<Rightarrow> bool) \<Rightarrow> bool" where
  "rx_plus p pre [] k = False"
| "rx_plus p pre (c # cs) k = (p c \<and> (rx_plus p (c # pre) cs k \<or> k (c # pre) cs))"

primrec rx_match :: "rx \<Rightarrow> string \<Rightarrow> string \<Rightarrow> (string \<Rightarrow> string \<Rightarrow> bool) \<Rightarrow> bool" where
  "rx_match Eps pre post k = k pre post"
| "rx_match (Cls p) pre post k = (case post of [] \<Rightarrow> False | c # cs \<Rightarrow> p c \<and> k (c # pre) cs)"
| "rx_match (Seq r s) pre post k = rx_match r pre post (\<lambda>pre' post'. rx_match s pre' post' k)"
| "rx_match (Alt r s) pre post k = (rx_match r pre post k \<or> rx_match s pre post k)"
| "rx_match (PlusCls p) pre post k = rx_plus p pre post k"
| "rx_match WordB pre post k = (word_before pre \<noteq> word_after post \<and> k pre post)"
| "rx_match EndS pre post k = ((post = [] \<or> post = [CHR 0x0A]) \<and> k pre post)"

fun rx_search :: "rx \<Rightarrow> string \<Rightarrow> string \<Rightarrow> bool" where
  "rx_search r pre [] = rx_match r pre [] (\<lambda>_ _. True)"
| "rx_search r pre (c # cs) = (rx_match r pre (c # cs) (\<lambda>_ _. True) \<or> rx_search r (c # pre) cs)"

definition re_search :: "rx \<Rightarrow> string \<Rightarrow> bool" where
  "re_search r s = rx_search r [] (re_fold s)"

text \<open>\<open>{m,n}\<close> of a class, a literal, an alternative of literals.\<close>

fun rx_opts :: "nat \<Rightarrow> (char \<Rightarrow> bool) \<Rightarrow> rx" where
  "rx_opts 0 p = Eps"
| "rx_opts (Suc n) p = Alt (Seq (Cls p) (rx_opts n p)) Eps"

fun rx_rep :: "nat \<Rightarrow> nat \<Rightarrow> (char \<Rightarrow> bool) \<Rightarrow> rx" where
  "rx_rep 0 n p = rx_opts n p"
| "rx_rep (Suc m) n p = Seq (Cls p) (rx_rep m (n - 1) p)"

primrec rx_lit :: "string \<Rightarrow> rx" where
  "rx_lit [] = Eps"
| "rx_lit (c # cs) = Seq (Cls (\<lambda>d. d = c)) (rx_lit cs)"

fun rx_alts :: "string list \<Rightarrow> rx" where
  "rx_alts [] = Cls (\<lambda>_. False)"
| "rx_alts [w] = rx_lit w"
| "rx_alts (w # ws) = Alt (rx_lit w) (rx_alts ws)"

section \<open>The declarative meaning\<close>

inductive rx_rel :: "rx \<Rightarrow> string \<times> string \<Rightarrow> string \<times> string \<Rightarrow> bool" where
  rel_eps: "rx_rel Eps s s"
| rel_cls: "p c \<Longrightarrow> rx_rel (Cls p) (pre, c # cs) (c # pre, cs)"
| rel_seq: "rx_rel r s t \<Longrightarrow> rx_rel q t u \<Longrightarrow> rx_rel (Seq r q) s u"
| rel_alt1: "rx_rel r s t \<Longrightarrow> rx_rel (Alt r q) s t"
| rel_alt2: "rx_rel q s t \<Longrightarrow> rx_rel (Alt r q) s t"
| rel_plus: "ws \<noteq> [] \<Longrightarrow> list_all p ws \<Longrightarrow> rx_rel (PlusCls p) (pre, ws @ cs) (rev ws @ pre, cs)"
| rel_wordb: "word_before pre \<noteq> word_after post \<Longrightarrow> rx_rel WordB (pre, post) (pre, post)"
| rel_end: "post = [] \<or> post = [CHR 0x0A] \<Longrightarrow> rx_rel EndS (pre, post) (pre, post)"

inductive_simps rx_rel_simps [simp]:
  "rx_rel Eps s t" "rx_rel (Cls p) s t" "rx_rel (Seq r q) s t" "rx_rel (Alt r q) s t"
  "rx_rel (PlusCls p) s t" "rx_rel WordB s t" "rx_rel EndS s t"

lemma rx_plus_rel:
  "rx_plus p pre post k \<longleftrightarrow>
     (\<exists>ws cs. post = ws @ cs \<and> ws \<noteq> [] \<and> list_all p ws \<and> k (rev ws @ pre) cs)"
proof (induction post arbitrary: pre)
  case Nil
  then show ?case by simp
next
  case (Cons c cs)
  show ?case (is "?l = (\<exists>ws cs'. ?P ws cs')")
  proof
    assume ?l
    then have "p c" and "(\<exists>ws cs'. cs = ws @ cs' \<and> ws \<noteq> [] \<and> list_all p ws \<and> k (rev ws @ c # pre) cs') \<or> k (c # pre) cs"
      by (simp_all add: Cons.IH)
    then show "\<exists>ws cs'. ?P ws cs'"
    proof (elim disjE exE conjE)
      fix ws cs' assume "p c" "cs = ws @ cs'" "list_all p ws" "k (rev ws @ c # pre) cs'"
      then show ?thesis by (intro exI [of _ "c # ws"] exI [of _ cs']) simp
    next
      assume "p c" "k (c # pre) cs"
      then show ?thesis by (intro exI [of _ "[c]"] exI [of _ cs]) simp
    qed
  next
    assume "\<exists>ws cs'. ?P ws cs'"
    then obtain ws cs' where w: "c # cs = ws @ cs'" "ws \<noteq> []" "list_all p ws" "k (rev ws @ pre) cs'"
      by blast
    then obtain ws' where ws: "ws = c # ws'" "cs = ws' @ cs'" by (cases ws) auto
    show ?l
    proof (cases "ws' = []")
      case True
      with w ws show ?thesis by simp
    next
      case False
      with w ws have "rx_plus p (c # pre) cs k" unfolding Cons.IH by auto
      with w ws show ?thesis by simp
    qed
  qed
qed

lemma rx_match_rel:
  "rx_match r pre post k \<longleftrightarrow> (\<exists>pre' post'. rx_rel r (pre, post) (pre', post') \<and> k pre' post')"
proof (induction r arbitrary: pre post k)
  case (Cls p)
  then show ?case by (cases post) auto
next
  case (Seq r1 r2)
  then show ?case by (simp only: rx_match.simps rx_rel_simps) fastforce
next
  case (PlusCls p)
  then show ?case by (auto simp: rx_plus_rel)
qed auto

lemma rx_search_rel:
  "rx_search r pre post \<longleftrightarrow>
     (\<exists>xs ys t. post = xs @ ys \<and> rx_rel r (rev xs @ pre, ys) t)"
proof (induction post arbitrary: pre)
  case Nil
  then show ?case by (auto simp: rx_match_rel)
next
  case (Cons c cs)
  show ?case (is "?l = (\<exists>xs ys t. ?P xs ys t)")
  proof
    assume ?l
    then have "(\<exists>t. rx_rel r (pre, c # cs) t) \<or> (\<exists>xs ys t. cs = xs @ ys \<and> rx_rel r (rev xs @ c # pre, ys) t)"
      by (auto simp: rx_match_rel Cons.IH)
    then show "\<exists>xs ys t. ?P xs ys t"
    proof (elim disjE exE conjE)
      fix t assume "rx_rel r (pre, c # cs) t"
      then show ?thesis by (intro exI [of _ "[]"] exI [of _ "c # cs"] exI [of _ t]) simp
    next
      fix xs ys t assume "cs = xs @ ys" "rx_rel r (rev xs @ c # pre, ys) t"
      then show ?thesis by (intro exI [of _ "c # xs"] exI [of _ ys] exI [of _ t]) simp
    qed
  next
    assume "\<exists>xs ys t. ?P xs ys t"
    then obtain xs ys t where h: "c # cs = xs @ ys" "rx_rel r (rev xs @ pre, ys) t" by blast
    then show ?l
    proof (cases xs)
      case Nil
      with h have "\<exists>pre' post'. rx_rel r (pre, c # cs) (pre', post')" by (cases t) auto
      then show ?thesis by (simp add: rx_match_rel)
    next
      case (Cons a xs')
      with h have "rx_search r (c # pre) cs"
        unfolding Cons.IH by (intro exI [of _ xs'] exI [of _ ys] exI [of _ t]) simp
      then show ?thesis by simp
    qed
  qed
qed

lemma re_search_rel:
  "re_search r s \<longleftrightarrow> (\<exists>xs ys t. re_fold s = xs @ ys \<and> rx_rel r (rev xs, ys) t)"
  by (simp add: re_search_def rx_search_rel)

text \<open>Derived patterns.\<close>

lemma rel_lit: "rx_rel (rx_lit w) (pre, post) t \<longleftrightarrow> (\<exists>cs. post = w @ cs \<and> t = (rev w @ pre, cs))"
  by (induction w arbitrary: pre post) auto

lemma rel_alts:
  "rx_rel (rx_alts ws) (pre, post) t \<longleftrightarrow> (\<exists>w \<in> set ws. \<exists>cs. post = w @ cs \<and> t = (rev w @ pre, cs))"
  by (induction ws rule: rx_alts.induct) (auto simp: rel_lit)

lemma rel_opts:
  "rx_rel (rx_opts n p) (pre, post) t \<longleftrightarrow>
     (\<exists>ws cs. post = ws @ cs \<and> length ws \<le> n \<and> list_all p ws \<and> t = (rev ws @ pre, cs))"
proof (induction n arbitrary: pre post)
  case 0
  then show ?case by auto
next
  case (Suc n)
  show ?case (is "_ = (\<exists>ws cs. ?P ws cs)")
  proof
    assume h: "rx_rel (rx_opts (Suc n) p) (pre, post) t"
    show "\<exists>ws cs. ?P ws cs"
    proof (cases "t = (pre, post)")
      case True
      then show ?thesis by (intro exI [of _ "[]"] exI [of _ post]) simp
    next
      case False
      with h obtain c cs ws cs' where
        "post = c # cs" "p c" "cs = ws @ cs'" "length ws \<le> n" "list_all p ws" "t = (rev ws @ c # pre, cs')"
        by (auto simp: Suc.IH)
      then show ?thesis by (intro exI [of _ "c # ws"] exI [of _ cs']) simp
    qed
  next
    assume "\<exists>ws cs. ?P ws cs"
    then obtain ws cs where h: "?P ws cs" by blast
    show "rx_rel (rx_opts (Suc n) p) (pre, post) t"
    proof (cases ws)
      case Nil
      with h show ?thesis by simp
    next
      case (Cons c ws')
      with h have "rx_rel (rx_opts n p) (c # pre, ws' @ cs) t"
        unfolding Suc.IH by (intro exI [of _ ws'] exI [of _ cs]) auto
      with h Cons show ?thesis by auto
    qed
  qed
qed

lemma rel_rep:
  "m \<le> n \<Longrightarrow> rx_rel (rx_rep m n p) (pre, post) t \<longleftrightarrow>
     (\<exists>ws cs. post = ws @ cs \<and> m \<le> length ws \<and> length ws \<le> n \<and> list_all p ws \<and> t = (rev ws @ pre, cs))"
proof (induction m arbitrary: n pre post)
  case 0
  then show ?case by (simp add: rel_opts)
next
  case (Suc m)
  then have mn: "m \<le> n - 1" "n \<noteq> 0" by auto
  show ?case (is "_ = (\<exists>ws cs. ?P ws cs)")
  proof
    assume "rx_rel (rx_rep (Suc m) n p) (pre, post) t"
    then obtain c cs where c: "post = c # cs" "p c" "rx_rel (rx_rep m (n - 1) p) (c # pre, cs) t"
      by (auto)
    then obtain ws cs' where "cs = ws @ cs'" "m \<le> length ws" "length ws \<le> n - 1" "list_all p ws"
      "t = (rev ws @ c # pre, cs')" unfolding Suc.IH [OF mn(1)] by blast
    with c mn show "\<exists>ws cs. ?P ws cs" by (intro exI [of _ "c # ws"] exI [of _ cs']) auto
  next
    assume "\<exists>ws cs. ?P ws cs"
    then obtain ws cs where h: "?P ws cs" by blast
    then obtain c ws' where ws: "ws = c # ws'" by (cases ws) auto
    with h mn have "rx_rel (rx_rep m (n - 1) p) (c # pre, ws' @ cs) t"
      unfolding Suc.IH [OF mn(1)] by (intro exI [of _ ws'] exI [of _ cs]) auto
    with h ws show "rx_rel (rx_rep (Suc m) n p) (pre, post) t" by auto
  qed
qed

end
