(* ===== verification/PyFloat.thy ===== *)
theory PyFloat
  imports Prelude "HOL-Library.Log_Nat"
begin

text \<open>
  Python floats. A float is the rational number it denotes, and each arithmetic operation
  rounds its exact result to 53 significant bits, ties to even (\<open>fl\<close>), as IEEE binary64
  does. The exponent range is unbounded here: overflow, subnormal numbers, infinities and NaN
  do not occur for the quantities the program computes (seconds since the epoch, byte counts,
  ratios). \<open>py_round\<close> is the built-in \<open>round(x)\<close>: nearest integer, ties to even.
  The locale \<open>rounding\<close> states what the components rely on; it is interpreted on
  \<open>fl\<close>.
\<close>

section \<open>round()\<close>

definition py_round :: "rat \<Rightarrow> int" where
  "py_round x =
     (let f = \<lfloor>x\<rfloor>; d = x - of_int f
      in if d < 1 / 2 then f
         else if d > 1 / 2 then f + 1
         else if even f then f else f + 1)"

lemma py_round_of_int [simp]: "py_round (of_int n) = n"
  by (simp add: py_round_def)

lemma py_round_error: "\<bar>of_int (py_round x) - x\<bar> \<le> 1 / 2"
proof -
  have "of_int \<lfloor>x\<rfloor> \<le> x" "x < of_int \<lfloor>x\<rfloor> + 1"
    by (simp, linarith)
  then show ?thesis by (auto simp: py_round_def Let_def abs_le_iff)
qed

lemma py_round_bounds: "\<lfloor>x\<rfloor> \<le> py_round x" "py_round x \<le> \<lfloor>x\<rfloor> + 1"
  by (auto simp: py_round_def Let_def)

lemma py_round_mono:
  assumes "x \<le> y" shows "py_round x \<le> py_round y"
proof (cases "\<lfloor>x\<rfloor> = \<lfloor>y\<rfloor>")
  case True
  with assms show ?thesis by (auto simp: py_round_def Let_def)
next
  case False
  with assms have "\<lfloor>x\<rfloor> + 1 \<le> \<lfloor>y\<rfloor>" using floor_mono [OF assms] by linarith
  with py_round_bounds(2) [of x] py_round_bounds(1) [of y] show ?thesis by linarith
qed

lemma py_round_ge: "of_int n \<le> x \<Longrightarrow> n \<le> py_round x"
  using py_round_mono [of "of_int n" x] by simp

lemma py_round_le: "x \<le> of_int n \<Longrightarrow> py_round x \<le> n"
  using py_round_mono [of x "of_int n"] by simp

lemma py_round_minus: "py_round (- x) = - py_round x"
proof (cases "x = of_int \<lfloor>x\<rfloor>")
  case True
  then show ?thesis by (metis of_int_minus py_round_of_int)
next
  case False
  have le: "of_int \<lfloor>x\<rfloor> \<le> x" "x < of_int \<lfloor>x\<rfloor> + 1" by (simp, linarith)
  with False have "of_int \<lfloor>x\<rfloor> < x" by linarith
  then have "\<lfloor>- x\<rfloor> = - \<lfloor>x\<rfloor> - 1"
    using le by (simp add: floor_eq_iff)
  then show ?thesis by (auto simp: py_round_def Let_def)
qed

section \<open>Rounding to 53 bits\<close>

text \<open>The binary exponent of a positive rational: \<open>2 powi e \<le> x < 2 powi (e + 1)\<close>.\<close>

definition expo :: "rat \<Rightarrow> int" where
  "expo x = (let (p, q) = quotient_of x; e = bitlen p - bitlen q
             in if x < 2 powi e then e - 1 else e)"

definition fl :: "rat \<Rightarrow> rat" where
  "fl x = (if x = 0 then 0
           else let u = 2 powi (expo \<bar>x\<bar> - 52) in of_int (py_round (x / u)) * u)"

definition fadd :: "rat \<Rightarrow> rat \<Rightarrow> rat" where "fadd a b = fl (a + b)"
definition fsub :: "rat \<Rightarrow> rat \<Rightarrow> rat" where "fsub a b = fl (a - b)"
definition fmul :: "rat \<Rightarrow> rat \<Rightarrow> rat" where "fmul a b = fl (a * b)"
definition fdiv :: "rat \<Rightarrow> rat \<Rightarrow> rat" where "fdiv a b = fl (a / b)"

text \<open>Integer division \<open>m / n\<close> of Python ints is correctly rounded.\<close>

definition int_truediv :: "int \<Rightarrow> int \<Rightarrow> rat" where
  "int_truediv m n = fl (of_int m / of_int n)"

lemma powi_pos: "0 < (2::rat) powi e"
  by simp

lemma powi_pow: "0 \<le> e \<Longrightarrow> (2::rat) powi e = 2 ^ nat e"
  by (simp add: power_int_def)

lemma powi_mono: "a \<le> b \<Longrightarrow> (2::rat) powi a \<le> 2 powi b"
  by (simp add: power_int_increasing)

lemma powi_less_imp: "(2::rat) powi a < 2 powi b \<Longrightarrow> a < b"
  using powi_mono [of b a] by linarith

lemma powi_add2: "(2::rat) powi (a + b) = 2 powi a * 2 powi b"
  by (simp add: power_int_add)

lemma bitlen_rat:
  assumes "0 < (p::int)"
  shows "(2::rat) powi (bitlen p - 1) \<le> of_int p" "of_int p < (2::rat) powi bitlen p"
proof -
  have b: "2 ^ nat (bitlen p - 1) \<le> p" "p < 2 ^ nat (bitlen p)" "0 < bitlen p"
    using bitlen_bounds [OF assms] assms bitlen_nonneg [of p] by (auto simp: bitlen_eq_zero_iff order_less_le)
  have "(of_int (2 ^ nat (bitlen p - 1)) :: rat) \<le> of_int p" using b(1) by (subst of_int_le_iff)
  then show "(2::rat) powi (bitlen p - 1) \<le> of_int p" using b(3) by (simp add: powi_pow)
  have "(of_int p :: rat) < of_int (2 ^ nat (bitlen p))" using b(2) by (subst of_int_less_iff)
  then show "of_int p < (2::rat) powi bitlen p" using b(3) by (simp add: powi_pow)
qed

lemma expo_bounds:
  assumes "0 < x"
  shows "2 powi expo x \<le> x" "x < 2 powi (expo x + 1)"
proof -
  obtain p q where pq: "quotient_of x = (p, q)" by (cases "quotient_of x")
  have q: "0 < q" using pq by (rule quotient_of_denom_pos)
  have x: "x = of_int p / of_int q" using pq by (rule quotient_of_div)
  have p: "0 < p" using assms q by (simp add: x zero_less_divide_iff)
  let ?e = "bitlen p - bitlen q"
  note bp = bitlen_rat [OF p] and bq = bitlen_rat [OF q]
  have "2 powi (?e - 1) = (2::rat) powi (bitlen p - 1) / 2 powi bitlen q"
    by (simp add: power_int_diff)
  also have "\<dots> \<le> x" unfolding x
    by (rule frac_le) (use bp bq q p in \<open>auto simp: less_imp_le\<close>)
  finally have lo: "2 powi (?e - 1) \<le> x" .
  have "x < (2::rat) powi bitlen p / 2 powi (bitlen q - 1)"
    unfolding x by (rule frac_less) (use bp bq q p in auto)
  also have "\<dots> = 2 powi (?e + 1)" by (simp add: power_int_diff power_int_add)
  finally have hi: "x < 2 powi (?e + 1)" .
  show "2 powi expo x \<le> x" "x < 2 powi (expo x + 1)"
    using lo hi by (auto simp: expo_def pq Let_def)
qed

lemma expo_unique:
  assumes "2 powi e \<le> x" "x < 2 powi (e + 1)"
  shows "expo x = e"
proof -
  have "0 < x" using assms(1) powi_pos [of e] by linarith
  note b = expo_bounds [OF this]
  have "(2::rat) powi expo x < 2 powi (e + 1)" "(2::rat) powi e < 2 powi (expo x + 1)"
    using b assms by linarith+
  then show ?thesis by (auto dest!: powi_less_imp)
qed

lemma fl_0 [simp]: "fl 0 = 0"
  by (simp add: fl_def)

lemma fl_minus: "fl (- x) = - fl x"
  by (simp add: fl_def Let_def py_round_minus)

text \<open>Numbers with at most 53 significant bits are not rounded.\<close>

lemma fl_exact_pos:
  assumes x: "x = of_int m * 2 powi k" and m: "0 < m" "m \<le> 2 ^ 53"
  shows "fl x = x"
proof -
  have pos: "0 < x" using x m(1) by simp
  let ?e = "expo x - 52"
  have u: "0 < (2::rat) powi ?e" by simp
  have "\<exists>n. x / 2 powi ?e = of_int n"
  proof (cases "?e \<le> k")
    case True
    have "x / 2 powi ?e = of_int m * 2 powi (k - ?e)" by (simp add: x power_int_diff)
    also have "\<dots> = of_int (m * 2 ^ nat (k - ?e))" using True by (simp add: powi_pow)
    finally show ?thesis by blast
  next
    case False
    then have k: "k + 53 \<le> expo x" by linarith
    have "(of_int m :: rat) \<le> of_int (2 ^ 53)" using m(2) by (subst of_int_le_iff)
    then have "x \<le> 2 powi 53 * 2 powi k" unfolding x by (intro mult_right_mono) (simp_all add: powi_pow)
    then have "x \<le> 2 powi (k + 53)" by (simp add: powi_add2 mult.commute)
    moreover have "2 powi (k + 53) \<le> x"
      using powi_mono [OF k] expo_bounds(1) [OF pos] by linarith
    ultimately have "x = 2 powi (k + 53)" by linarith
    moreover from this have "expo x = k + 53" by (intro expo_unique) (simp_all add: power_int_add)
    ultimately have "x / 2 powi ?e = 2 powi 52" by (simp add: power_int_diff power_int_add)
    then have "x / 2 powi ?e = of_int (2 ^ 52)" by (simp add: powi_pow)
    then show ?thesis by blast
  qed
  then obtain n where n: "x / 2 powi ?e = of_int n" ..
  then have "x = of_int n * 2 powi ?e" using u by (simp add: field_simps)
  with n pos show ?thesis by (simp add: fl_def Let_def)
qed

lemma fl_exact:
  assumes "x = of_int m * 2 powi k" "\<bar>m\<bar> \<le> 2 ^ 53"
  shows "fl x = x"
proof (cases "m = 0")
  case True
  with assms show ?thesis by simp
next
  case False
  show ?thesis
  proof (cases "0 < m")
    case True
    with assms show ?thesis by (intro fl_exact_pos [of x m k]) auto
  next
    case neg: False
    with False assms have "fl (- x) = - x" by (intro fl_exact_pos [of "- x" "- m" k]) auto
    then show ?thesis by (simp add: fl_minus)
  qed
qed

lemma fl_of_int [simp]: "\<bar>n\<bar> \<le> 2 ^ 53 \<Longrightarrow> fl (of_int n) = of_int n"
  by (rule fl_exact [of _ n 0]) simp_all

text \<open>The two ends of a binade are representable, so rounding stays inside it.\<close>

lemma fl_binade:
  assumes "0 < x"
  shows "2 powi expo x \<le> fl x" "fl x \<le> 2 powi (expo x + 1)"
proof -
  let ?u = "(2::rat) powi (expo x - 52)"
  have u: "0 < ?u" by simp
  note b = expo_bounds [OF assms]
  have "(of_int (2 ^ 52) :: rat) = 2 powi expo x / ?u"
    by (simp add: power_int_diff)
  also have "\<dots> \<le> x / ?u" using b(1) by (intro divide_right_mono) simp_all
  finally have lo: "2 ^ 52 \<le> py_round (x / ?u)" by (rule py_round_ge)
  have "x / ?u \<le> 2 powi (expo x + 1) / ?u" using b(2) by (intro divide_right_mono) simp_all
  also have "\<dots> = of_int (2 ^ 53)" by (simp add: power_int_diff power_int_add)
  finally have hi: "py_round (x / ?u) \<le> 2 ^ 53" by (rule py_round_le)
  have f: "fl x = of_int (py_round (x / ?u)) * ?u" using assms by (simp add: fl_def Let_def)
  have "(of_int (2 ^ 52) :: rat) \<le> of_int (py_round (x / ?u))" using lo by (subst of_int_le_iff)
  then have "of_int (2 ^ 52) * ?u \<le> fl x" unfolding f by (intro mult_right_mono) simp_all
  then show "2 powi expo x \<le> fl x" by (simp add: power_int_diff)
  have "(of_int (py_round (x / ?u)) :: rat) \<le> of_int (2 ^ 53)" using hi by (subst of_int_le_iff)
  then have "fl x \<le> of_int (2 ^ 53) * ?u" unfolding f by (intro mult_right_mono) simp_all
  then show "fl x \<le> 2 powi (expo x + 1)" by (simp add: power_int_diff power_int_add)
qed

lemma fl_pos: "0 < x \<Longrightarrow> 0 < fl x"
  using fl_binade(1) [of x] powi_pos [of "expo x"] by linarith

lemma fl_nonneg: "0 \<le> x \<Longrightarrow> 0 \<le> fl x"
  using fl_pos [of x] by (cases "x = 0") auto

lemma fl_mono_pos:
  assumes "0 < x" "x \<le> y" shows "fl x \<le> fl y"
proof -
  have y: "0 < y" using assms by linarith
  have "(2::rat) powi expo x < 2 powi (expo y + 1)"
    using expo_bounds(1) [OF assms(1)] expo_bounds(2) [OF y] assms(2) by linarith
  then have le: "expo x \<le> expo y" by (auto dest: powi_less_imp)
  show ?thesis
  proof (cases "expo x = expo y")
    case True
    let ?u = "(2::rat) powi (expo y - 52)"
    have "py_round (x / ?u) \<le> py_round (y / ?u)"
      using assms(2) by (intro py_round_mono divide_right_mono) simp_all
    with True assms y show ?thesis by (simp add: fl_def Let_def mult_right_mono)
  next
    case False
    with le have "(2::rat) powi (expo x + 1) \<le> 2 powi expo y" by (intro powi_mono) linarith
    with fl_binade(2) [OF assms(1)] fl_binade(1) [OF y] show ?thesis by linarith
  qed
qed

lemma fl_mono: "x \<le> y \<Longrightarrow> fl x \<le> fl y"
proof -
  assume le: "x \<le> y"
  consider "0 < x" | "y < 0" | "x \<le> 0" "0 \<le> y" by linarith
  then show "fl x \<le> fl y"
  proof cases
    case 1
    from this le show ?thesis by (rule fl_mono_pos)
  next
    case 2
    with le have "fl (- y) \<le> fl (- x)" by (intro fl_mono_pos) auto
    then show ?thesis by (simp add: fl_minus)
  next
    case 3
    then show ?thesis using fl_nonneg [of "- x"] fl_nonneg [of y] by (simp add: fl_minus)
  qed
qed

section \<open>What the components rely on\<close>

locale rounding =
  fixes rnd :: "rat \<Rightarrow> rat"
  assumes rnd_mono: "x \<le> y \<Longrightarrow> rnd x \<le> rnd y"
    and rnd_int: "\<bar>n\<bar> \<le> 2 ^ 53 \<Longrightarrow> rnd (of_int n) = of_int n"
begin

lemma rnd_zero: "rnd 0 = 0"
  using rnd_int [of 0] by simp

lemma rnd_nonneg: "0 \<le> x \<Longrightarrow> 0 \<le> rnd x"
  using rnd_mono [of 0 x] by (simp add: rnd_zero)

lemma rnd_ge_int: "\<bar>n\<bar> \<le> 2 ^ 53 \<Longrightarrow> of_int n \<le> x \<Longrightarrow> of_int n \<le> rnd x"
  using rnd_mono [of "of_int n" x] by (simp add: rnd_int)

lemma rnd_le_int: "\<bar>n\<bar> \<le> 2 ^ 53 \<Longrightarrow> x \<le> of_int n \<Longrightarrow> rnd x \<le> of_int n"
  using rnd_mono [of x "of_int n"] by (simp add: rnd_int)

text \<open>A rounded quantity that falls short of an integer bound really fell short of it.\<close>

lemma rnd_less_int: "\<bar>n\<bar> \<le> 2 ^ 53 \<Longrightarrow> rnd x < of_int n \<Longrightarrow> x < of_int n"
  using rnd_ge_int [of n x] by (meson leD leI)

end

interpretation binary64: rounding fl
  by unfold_locales (auto intro: fl_mono fl_of_int)

lemma fsub_mono: "a \<le> a' \<Longrightarrow> b' \<le> b \<Longrightarrow> fsub a b \<le> fsub a' b'"
  unfolding fsub_def by (rule fl_mono) linarith

lemma fsub_ge_int: "\<bar>n\<bar> \<le> 2 ^ 53 \<Longrightarrow> b + of_int n \<le> a \<Longrightarrow> of_int n \<le> fsub a b"
  unfolding fsub_def by (rule binary64.rnd_ge_int) (auto simp: algebra_simps)

lemma fsub_nonneg: "b \<le> a \<Longrightarrow> 0 \<le> fsub a b"
  unfolding fsub_def by (rule fl_nonneg) simp

end
