(* ===== verification/Danger_Scanner.thy ===== *)
theory Danger_Scanner
  imports PyRegex PyFloat
begin

text \<open>
  \<open>danger_scanner/\<close>: the metadata-only risk score of each file of a torrent
  (\<open>models.py\<close>, \<open>rules.py\<close>, \<open>scanner.py\<close>) and the cut-off that un-checks files
  (\<open>auto_exclude_indices\<close>), which every automatic add path applies.
\<close>

section \<open>models.py\<close>

datatype risk_level = SAFE | LOW | MEDIUM | HIGH | CRITICAL

fun level_value :: "risk_level \<Rightarrow> nat" where
  "level_value SAFE = 0" | "level_value LOW = 1" | "level_value MEDIUM = 2"
| "level_value HIGH = 3" | "level_value CRITICAL = 4"

lemma level_value_inj [simp]: "level_value a = level_value b \<longleftrightarrow> a = b"
  by (cases a; cases b) simp_all

instantiation risk_level :: linorder
begin

definition less_eq_risk_level :: "risk_level \<Rightarrow> risk_level \<Rightarrow> bool" where
  "less_eq_risk_level a b \<longleftrightarrow> level_value a \<le> level_value b"

definition less_risk_level :: "risk_level \<Rightarrow> risk_level \<Rightarrow> bool" where
  "less_risk_level a b \<longleftrightarrow> level_value a < level_value b"

instance
  by standard (auto simp: less_eq_risk_level_def less_risk_level_def)

end

record file_entry =
  fe_index :: int
  fe_path :: string
  fe_size :: int
  fe_hidden :: bool
  fe_executable_flag :: bool

record file_risk =
  fr_file :: file_entry
  fr_score :: int
  fr_level :: risk_level
  fr_reasons :: "string list"

record scan_result =
  file_risks :: "file_risk list"
  overall_score :: int
  flagged_indices :: "int list"

definition risk_for_index :: "scan_result \<Rightarrow> int \<Rightarrow> file_risk option" where
  "risk_for_index res i = find (\<lambda>fr. fe_index (fr_file fr) = i) (file_risks res)"

section \<open>rules.py: extension sets and patterns\<close>

definition EXECUTABLE_EXTENSIONS :: "string list" where
  "EXECUTABLE_EXTENSIONS =
    [''exe'', ''bat'', ''cmd'', ''com'', ''js'', ''jse'', ''vbs'', ''vbe'', ''wsf'', ''wsh'',
     ''ps1'', ''jar'', ''scr'', ''pif'', ''msi'', ''lnk'', ''hta'', ''cpl'', ''gadget'', ''reg'']"

definition MEDIA_EXTENSIONS :: "string list" where
  "MEDIA_EXTENSIONS =
    [''mp4'', ''mkv'', ''avi'', ''mov'', ''wmv'', ''flv'', ''webm'', ''mp3'', ''flac'', ''wav'',
     ''aac'', ''ogg'', ''m4a'', ''srt'', ''sub'', ''idx'', ''nfo'']"

definition DISK_IMAGE_EXTENSIONS :: "string list" where
  "DISK_IMAGE_EXTENSIONS = [''iso'', ''img'', ''vhd'', ''vhdx'']"

definition MACRO_DOCUMENT_EXTENSIONS :: "string list" where
  "MACRO_DOCUMENT_EXTENSIONS =
    [''docm'', ''xlsm'', ''pptm'', ''dotm'', ''xltm'', ''potm'', ''xlam'', ''ppam'']"

definition KNOWN_BENIGN_EXTENSIONS :: "string list" where
  "KNOWN_BENIGN_EXTENSIONS =
    [''txt'', ''pdf'', ''epub'', ''mobi'', ''azw'', ''azw3'', ''cbz'', ''cbr'',
     ''jpg'', ''jpeg'', ''png'', ''gif'', ''bmp'', ''webp'', ''svg'', ''tiff'', ''ico'',
     ''zip'', ''rar'', ''7z'', ''tar'', ''gz'', ''bz2'', ''xz'',
     ''doc'', ''docx'', ''xls'', ''xlsx'', ''ppt'', ''pptx'', ''odt'', ''ods'', ''odp'', ''rtf'',
     ''csv'', ''json'', ''xml'', ''md'', ''log'']"

definition suspicious_name_pattern :: rx where
  "suspicious_name_pattern =
     Seq WordB (Seq (rx_alts [''keygen'', ''crack'', ''activator'', ''patch'', ''loader'', ''serial'']) WordB)"

definition RTL_OVERRIDE :: string where
  "RTL_OVERRIDE = [CHR 0xE2, CHR 0x80, CHR 0xAE]"

definition alnum_lower :: "char \<Rightarrow> bool" where
  "alnum_lower c \<longleftrightarrow> (97 \<le> byte c \<and> byte c \<le> 122) \<or> (48 \<le> byte c \<and> byte c \<le> 57)"

definition ext_padding :: "char \<Rightarrow> bool" where
  "ext_padding c \<longleftrightarrow> c = CHR ''.'' \<or> is_space c \<or> c = CHR ''_'' \<or> c = CHR ''-''"

definition double_extension_re :: rx where
  "double_extension_re =
     Seq (rx_lit ''.'') (Seq (rx_rep 2 4 alnum_lower) (Seq (PlusCls ext_padding)
       (Seq (rx_alts EXECUTABLE_EXTENSIONS) EndS)))"

definition TINY_EXECUTABLE_SIZE_BYTES :: int where
  "TINY_EXECUTABLE_SIZE_BYTES = 20 * 1024"

definition extension_of :: "string \<Rightarrow> string" where
  "extension_of path =
     (case rsplit1 (CHR ''.'') path of (_, None) \<Rightarrow> [] | (_, Some ext) \<Rightarrow> py_lower ext)"

section \<open>rules.py: the rules\<close>

record rule_hit =
  score_delta :: int
  hit_reason :: string

record scan_context =
  torrent_name :: string
  media_ratio :: rat

type_synonym rule = "file_entry \<Rightarrow> scan_context \<Rightarrow> rule_hit option"

abbreviation e_acute :: string where "e_acute \<equiv> [CHR 0xC3, CHR 0xA9]"
abbreviation e_grave :: string where "e_grave \<equiv> [CHR 0xC3, CHR 0xA8]"
abbreviation e_circ :: string where "e_circ \<equiv> [CHR 0xC3, CHR 0xAA]"
abbreviation a_grave :: string where "a_grave \<equiv> [CHR 0xC3, CHR 0xA0]"
abbreviation apos :: string where "apos \<equiv> [CHR 0x27]"

definition double_extension_rule :: rule where
  "double_extension_rule f ctx =
     (if re_search double_extension_re (fe_path f)
      then Some \<lparr>score_delta = 60,
             hit_reason = ''Double extension masque un ex'' @ e_acute @ ''cutable (ex: .pdf.exe)''\<rparr>
      else None)"

definition executable_extension_rule :: rule where
  "executable_extension_rule f ctx =
     (let ext = extension_of (fe_path f)
      in if ext \<in> set EXECUTABLE_EXTENSIONS
         then Some \<lparr>score_delta = 35, hit_reason = ''Extension ex'' @ e_acute @ ''cutable ('' @ ext @ '')''\<rparr>
         else None)"

definition disk_image_extension_rule :: rule where
  "disk_image_extension_rule f ctx =
     (let ext = extension_of (fe_path f)
      in if ext \<in> set DISK_IMAGE_EXTENSIONS
         then Some \<lparr>score_delta = 25,
                hit_reason = ''Image disque montable ('' @ ext @ '') : contourne l'' @ apos @ ''avertissement SmartScreen du t''
                  @ e_acute @ ''l'' @ e_acute @ ''chargement direct''\<rparr>
         else None)"

definition macro_document_extension_rule :: rule where
  "macro_document_extension_rule f ctx =
     (let ext = extension_of (fe_path f)
      in if ext \<in> set MACRO_DOCUMENT_EXTENSIONS
         then Some \<lparr>score_delta = 20, hit_reason = ''Document bureautique avec macros ('' @ ext @ '')''\<rparr>
         else None)"

definition executable_flag_rule :: rule where
  "executable_flag_rule f ctx =
     (let ext = extension_of (fe_path f)
      in if fe_executable_flag f \<and> ext \<notin> set EXECUTABLE_EXTENSIONS
         then Some \<lparr>score_delta = 30,
                hit_reason = ''Marqu'' @ e_acute @ '' ex'' @ e_acute @ ''cutable au niveau du fichier/torrent (bit ex''
                  @ e_acute @ ''cutable), sans extension ex'' @ e_acute @ ''cutable reconnaissable''\<rparr>
         else None)"

definition media_mismatch_rule :: rule where
  "media_mismatch_rule f ctx =
     (let ext = extension_of (fe_path f)
      in if ext \<in> set EXECUTABLE_EXTENSIONS \<and> 1 / 2 \<le> media_ratio ctx
         then Some \<lparr>score_delta = 20,
                hit_reason = [CHR 0xC3, CHR 0x89] @ ''xecutable inattendu dans un torrent principalement m''
                  @ e_acute @ ''dia''\<rparr>
         else None)"

definition suspicious_name_rule :: rule where
  "suspicious_name_rule f ctx =
     (if contains RTL_OVERRIDE (fe_path f)
      then Some \<lparr>score_delta = 70,
             hit_reason = ''Caract'' @ e_grave @ ''re RTL-override d'' @ e_acute @ ''tect'' @ e_acute
               @ '' (extension probablement falsifi'' @ e_acute @ ''e)''\<rparr>
      else if re_search suspicious_name_pattern (fe_path f)
      then Some \<lparr>score_delta = 30,
             hit_reason = ''Nom de fichier '' @ e_acute @ ''voquant un crack/keygen/activator''\<rparr>
      else None)"

definition size_anomaly_rule :: rule where
  "size_anomaly_rule f ctx =
     (let ext = extension_of (fe_path f)
      in if ext \<in> set EXECUTABLE_EXTENSIONS \<and> 0 < fe_size f \<and> fe_size f < TINY_EXECUTABLE_SIZE_BYTES
         then Some \<lparr>score_delta = 15,
                hit_reason = ''Ex'' @ e_acute @ ''cutable anormalement petit pour son type (possible dropper)''\<rparr>
         else None)"

definition hidden_path_rule :: rule where
  "hidden_path_rule f ctx =
     (if fe_hidden f
      then Some \<lparr>score_delta = 20, hit_reason = ''Fichier marqu'' @ e_acute @ '' cach'' @ e_acute @ '' dans le torrent''\<rparr>
      else None)"

definition KNOWN_EXTENSIONS :: "string list" where
  "KNOWN_EXTENSIONS = EXECUTABLE_EXTENSIONS @ DISK_IMAGE_EXTENSIONS @ MACRO_DOCUMENT_EXTENSIONS
     @ MEDIA_EXTENSIONS @ KNOWN_BENIGN_EXTENSIONS"

definition unknown_extension_rule :: rule where
  "unknown_extension_rule f ctx =
     (let ext = extension_of (fe_path f)
      in if ext \<noteq> [] \<and> ext \<notin> set KNOWN_EXTENSIONS
         then Some \<lparr>score_delta = 15,
                hit_reason = ''Extension inconnue ('' @ ext @ '') : contenu non v'' @ e_acute @ ''rifiable avant t''
                  @ e_acute @ ''l'' @ e_acute @ ''chargement''\<rparr>
         else None)"

definition DEFAULT_RULES :: "rule list" where
  "DEFAULT_RULES = [double_extension_rule, executable_extension_rule, disk_image_extension_rule,
     macro_document_extension_rule, executable_flag_rule, media_mismatch_rule, suspicious_name_rule,
     size_anomaly_rule, hidden_path_rule, unknown_extension_rule]"

definition build_context :: "string \<Rightarrow> file_entry list \<Rightarrow> scan_context" where
  "build_context name files =
     (if files = [] then \<lparr>torrent_name = name, media_ratio = 0\<rparr>
      else let media_count = length (filter (\<lambda>f. extension_of (fe_path f) \<in> set MEDIA_EXTENSIONS) files)
           in \<lparr>torrent_name = name, media_ratio = int_truediv (int media_count) (int (length files))\<rparr>)"

section \<open>scanner.py\<close>

definition MAX_SCORE_PER_FILE :: int where "MAX_SCORE_PER_FILE = 100"

definition LEVEL_THRESHOLDS :: "(int \<times> risk_level) list" where
  "LEVEL_THRESHOLDS = [(80, CRITICAL), (55, HIGH), (30, MEDIUM), (10, LOW)]"

definition score_to_level :: "int \<Rightarrow> risk_level" where
  "score_to_level score =
     (case find (\<lambda>(threshold, level). threshold \<le> score) LEVEL_THRESHOLDS of
        Some (_, level) \<Rightarrow> level | None \<Rightarrow> SAFE)"

text \<open>The inner loop: score and reasons accumulated over the rules.\<close>

fun run_rules :: "rule list \<Rightarrow> file_entry \<Rightarrow> scan_context \<Rightarrow> int \<times> string list \<Rightarrow> int \<times> string list" where
  "run_rules [] f ctx acc = acc"
| "run_rules (rule # rules) f ctx (score, reasons) =
     (case rule f ctx of
        Some hit \<Rightarrow> run_rules rules f ctx (score + score_delta hit, reasons @ [hit_reason hit])
      | None \<Rightarrow> run_rules rules f ctx (score, reasons))"

definition scan_one :: "rule list \<Rightarrow> scan_context \<Rightarrow> file_entry \<Rightarrow> file_risk" where
  "scan_one rules ctx f =
     (let (raw, reasons) = run_rules rules f ctx (0, []);
          score = min raw MAX_SCORE_PER_FILE
      in \<lparr>fr_file = f, fr_score = score, fr_level = score_to_level score, fr_reasons = reasons\<rparr>)"

text \<open>The outer loop over the files.\<close>

fun scan_loop :: "rule list \<Rightarrow> scan_context \<Rightarrow> file_entry list \<Rightarrow> scan_result \<Rightarrow> scan_result" where
  "scan_loop rules ctx [] acc = acc"
| "scan_loop rules ctx (f # fs) acc =
     (let fr = scan_one rules ctx f
      in scan_loop rules ctx fs
           \<lparr>file_risks = file_risks acc @ [fr],
            overall_score = max (overall_score acc) (fr_score fr),
            flagged_indices = (if MEDIUM \<le> fr_level fr then flagged_indices acc @ [fe_index f]
                               else flagged_indices acc)\<rparr>)"

definition scan_files :: "file_entry list \<Rightarrow> string \<Rightarrow> rule list option \<Rightarrow> scan_result" where
  "scan_files files name rules =
     (let rules = (case rules of Some rs \<Rightarrow> rs | None \<Rightarrow> DEFAULT_RULES);
          ctx = build_context name files
      in scan_loop rules ctx files \<lparr>file_risks = [], overall_score = 0, flagged_indices = []\<rparr>)"

definition auto_exclude_indices :: "scan_result \<Rightarrow> int \<Rightarrow> int set" where
  "auto_exclude_indices res threshold =
     set (map (\<lambda>fr. fe_index (fr_file fr)) (filter (\<lambda>fr. threshold \<le> fr_score fr) (file_risks res)))"

section \<open>Facts about the loops\<close>

definition hits :: "rule list \<Rightarrow> file_entry \<Rightarrow> scan_context \<Rightarrow> rule_hit list" where
  "hits rules f ctx = List.map_filter (\<lambda>r. r f ctx) rules"

lemma hits_simps [simp]:
  "hits [] f ctx = []"
  "hits (r # rs) f ctx = (case r f ctx of None \<Rightarrow> hits rs f ctx | Some h \<Rightarrow> h # hits rs f ctx)"
  by (simp_all add: hits_def List.map_filter_simps split: option.split)

lemma run_rules_hits:
  "run_rules rules f ctx (s, rs)
     = (s + sum_list (map score_delta (hits rules f ctx)), rs @ map hit_reason (hits rules f ctx))"
  by (induction rules arbitrary: s rs) (auto split: option.split)

lemma scan_one_simps [simp]:
  "fr_file (scan_one rules ctx f) = f"
  "fr_score (scan_one rules ctx f) = min (sum_list (map score_delta (hits rules f ctx))) MAX_SCORE_PER_FILE"
  "fr_level (scan_one rules ctx f) = score_to_level (fr_score (scan_one rules ctx f))"
  "fr_reasons (scan_one rules ctx f) = map hit_reason (hits rules f ctx)"
  by (simp_all add: scan_one_def run_rules_hits Let_def)

lemma scan_loop_eq:
  "scan_loop rules ctx fs acc =
     \<lparr>file_risks = file_risks acc @ map (scan_one rules ctx) fs,
      overall_score = foldl max (overall_score acc) (map (\<lambda>f. fr_score (scan_one rules ctx f)) fs),
      flagged_indices = flagged_indices acc
        @ map fe_index (filter (\<lambda>f. MEDIUM \<le> fr_level (scan_one rules ctx f)) fs)\<rparr>"
  by (induction fs arbitrary: acc) (simp_all add: Let_def del: scan_one_simps)

lemma foldl_max_ge: "(a::int) \<le> foldl max a xs" "x \<in> set xs \<Longrightarrow> x \<le> foldl max a xs"
  by (induction xs arbitrary: a) (auto, (meson max.bounded_iff order_trans)+)

lemma foldl_max_in: "foldl max (a::int) xs \<in> insert a (set xs)"
  by (induction xs arbitrary: a) (auto simp: max_def split: if_splits)

lemma score_to_level_simp:
  "score_to_level s = (if 80 \<le> s then CRITICAL else if 55 \<le> s then HIGH
     else if 30 \<le> s then MEDIUM else if 10 \<le> s then LOW else SAFE)"
  by (simp add: score_to_level_def LEVEL_THRESHOLDS_def)

lemma flagged_iff_30: "MEDIUM \<le> score_to_level s \<longleftrightarrow> 30 \<le> s"
  by (simp add: score_to_level_simp less_eq_risk_level_def)

lemma score_to_level_mono: "s \<le> t \<Longrightarrow> score_to_level s \<le> score_to_level t"
  by (simp add: score_to_level_simp less_eq_risk_level_def)

lemma default_rules_positive: "r \<in> set DEFAULT_RULES \<Longrightarrow> r f ctx = Some h \<Longrightarrow> 15 \<le> score_delta h"
  by (auto simp: DEFAULT_RULES_def double_extension_rule_def executable_extension_rule_def
      disk_image_extension_rule_def macro_document_extension_rule_def executable_flag_rule_def
      media_mismatch_rule_def suspicious_name_rule_def size_anomaly_rule_def hidden_path_rule_def
      unknown_extension_rule_def Let_def split: if_splits)

lemma hits_mem: "h \<in> set (hits rules f ctx) \<longleftrightarrow> (\<exists>r \<in> set rules. r f ctx = Some h)"
  by (induction rules) (auto split: option.split)

lemma hits_default_nonneg: "h \<in> set (hits DEFAULT_RULES f ctx) \<Longrightarrow> 0 \<le> score_delta h"
  using default_rules_positive by (fastforce simp: hits_mem)

lemma hit_le_total:
  "(\<And>h. h \<in> set hs \<Longrightarrow> (0::int) \<le> g h) \<Longrightarrow> h \<in> set hs \<Longrightarrow> g h \<le> sum_list (map g hs)"
proof (induction hs)
  case Nil
  then show ?case by simp
next
  case (Cons a hs)
  have "0 \<le> sum_list (map g hs)" using Cons.prems(1) by (intro sum_list_nonneg) auto
  with Cons show ?case by fastforce
qed

text \<open>A file that one default rule hits scores at least that rule's points (capped).\<close>

lemma default_score_ge:
  assumes "r \<in> set DEFAULT_RULES" "r f ctx = Some h"
  shows "min (score_delta h) 100 \<le> fr_score (scan_one DEFAULT_RULES ctx f)"
proof -
  have "score_delta h \<le> sum_list (map score_delta (hits DEFAULT_RULES f ctx))"
    using assms by (intro hit_le_total hits_default_nonneg) (auto simp: hits_mem)
  then show ?thesis by (simp add: MAX_SCORE_PER_FILE_def)
qed

lemma scan_files_default:
  "scan_files fs n None =
     (let ctx = build_context n fs; scan = scan_one DEFAULT_RULES ctx
      in \<lparr>file_risks = map scan fs,
          overall_score = foldl max 0 (map (\<lambda>f. fr_score (scan f)) fs),
          flagged_indices = map fe_index (filter (\<lambda>f. 30 \<le> fr_score (scan f)) fs)\<rparr>)"
  by (simp add: scan_files_def Let_def scan_loop_eq flagged_iff_30 del: scan_one_simps(2))

lemma scan_excludes:
  "f \<in> set fs \<Longrightarrow> t \<le> fr_score (scan_one DEFAULT_RULES (build_context n fs) f) \<Longrightarrow>
   fe_index f \<in> auto_exclude_indices (scan_files fs n None) t"
  by (auto simp: auto_exclude_indices_def scan_files_default Let_def simp del: scan_one_simps(2)
      intro!: image_eqI [of _ _ "scan_one DEFAULT_RULES (build_context n fs) f"])

section \<open>The double-extension pattern\<close>


lemma double_extension_hits:
  assumes x: "2 \<le> length x" "length x \<le> 4" "is_ascii x" "list_all alnum_lower (map ascii_lower x)"
    and pad: "pad \<noteq> []" "is_ascii pad" "list_all ext_padding (map ascii_lower pad)"
    and e: "is_ascii e" "map ascii_lower e \<in> set EXECUTABLE_EXTENSIONS"
  shows "re_search double_extension_re (stem @ ''.'' @ x @ pad @ e)"
proof -
  have dot: "is_ascii ''.''" "map ascii_lower ''.'' = ''.''" by (simp_all add: byte_def ascii_lower_def)
  have asc: "is_ascii (''.'' @ x @ pad @ e)" using x pad e dot by simp
  have "re_fold (stem @ ''.'' @ x @ pad @ e)
      = re_fold stem @ ''.'' @ map ascii_lower x @ map ascii_lower pad @ map ascii_lower e"
    unfolding re_fold_append [OF asc] using dot by simp
  moreover define p where "p = rev (re_fold stem)"
  define a where "a = map ascii_lower x"
  define b where "b = map ascii_lower pad"
  define c where "c = map ascii_lower e"
  have 1: "rx_rel (rx_lit ''.'') (p, ''.'' @ a @ b @ c) (''.'' @ p, a @ b @ c)"
    by (simp add: rel_lit)
  have 2: "rx_rel (rx_rep 2 4 alnum_lower) (''.'' @ p, a @ b @ c) (rev a @ ''.'' @ p, b @ c)"
    using x by (intro rel_rep [THEN iffD2] exI [of _ a] exI [of _ "b @ c"]) (simp_all add: a_def)
  have 3: "rx_rel (PlusCls ext_padding) (rev a @ ''.'' @ p, b @ c) (rev b @ rev a @ ''.'' @ p, c)"
    using pad by (intro rel_plus) (simp_all add: b_def)
  have 4: "rx_rel (rx_alts EXECUTABLE_EXTENSIONS) (rev b @ rev a @ ''.'' @ p, c) (rev c @ rev b @ rev a @ ''.'' @ p, [])"
    using e(2) by (intro rel_alts [THEN iffD2] bexI [of _ c]) (simp_all add: c_def)
  have 5: "rx_rel EndS (rev c @ rev b @ rev a @ ''.'' @ p, []) (rev c @ rev b @ rev a @ ''.'' @ p, [])"
    by (rule rel_end) simp
  have "rx_rel double_extension_re (p, ''.'' @ a @ b @ c) (rev c @ rev b @ rev a @ ''.'' @ p, [])"
    unfolding double_extension_re_def by (rule rel_seq [OF 1 rel_seq [OF 2 rel_seq [OF 3 rel_seq [OF 4 5]]]])
  ultimately show ?thesis unfolding re_search_rel a_def b_def c_def p_def by blast
qed

section \<open>The media ratio, exactly\<close>

lemma fl_below_half:
  assumes "x \<le> 1 / 2 - 1 / 2 ^ 53" shows "fl x < 1 / 2"
proof -
  have "(1 / 2 - 1 / 2 ^ 53 :: rat) = of_int (2 ^ 52 - 1) * 2 powi (- 53)"
    by (simp add: power_int_minus field_simps)
  then have "fl (1 / 2 - 1 / 2 ^ 53) = 1 / 2 - 1 / 2 ^ 53" by (rule fl_exact) simp
  then have "fl x \<le> 1 / 2 - 1 / 2 ^ 53" using fl_mono [OF assms] by simp
  then show ?thesis by simp
qed

lemma truediv_half:
  assumes "0 < n" "n \<le> 2 ^ 51"
  shows "1 / 2 \<le> int_truediv m n \<longleftrightarrow> n \<le> 2 * m"
proof
  assume "n \<le> 2 * m"
  then have "(of_int n :: rat) \<le> of_int (2 * m)" by (subst of_int_le_iff)
  then have "(1 / 2 :: rat) \<le> of_int m / of_int n" using assms(1) by (simp add: field_simps)
  then have "fl (1 / 2) \<le> int_truediv m n" unfolding int_truediv_def by (rule fl_mono)
  moreover have "fl (1 / 2) = 1 / 2" by (rule fl_exact [of _ 1 "- 1"]) (simp_all add: power_int_minus)
  ultimately show "1 / 2 \<le> int_truediv m n" by simp
next
  assume h: "1 / 2 \<le> int_truediv m n"
  show "n \<le> 2 * m"
  proof (rule ccontr)
    assume "\<not> n \<le> 2 * m"
    then have "2 * m + 1 \<le> n" by linarith
    then have "(of_int (2 * m + 1) :: rat) \<le> of_int n" by (subst of_int_le_iff)
    then have "of_int m / of_int n \<le> (1 / 2 - 1 / (2 * of_int n) :: rat)"
      using assms(1) by (simp add: field_simps)
    also have "(of_int n :: rat) \<le> of_int (2 ^ 51)" using assms(2) by (subst of_int_le_iff)
    then have "1 / 2 - 1 / (2 * of_int n) \<le> (1 / 2 - 1 / 2 ^ 53 :: rat)"
      using assms(1) by (simp add: field_simps)
    finally have "int_truediv m n < 1 / 2" unfolding int_truediv_def by (rule fl_below_half)
    with h show False by simp
  qed
qed

section \<open>Properties\<close>

text \<open>C10: the scan reports every file once, in the torrent's order, with a score between 0 and
  100 and the level of that score; it flags exactly the files of level MEDIUM or more, and the
  overall score is the largest.\<close>

theorem scan_files_summary:
  assumes "res = scan_files fs n None"
  shows "map fr_file (file_risks res) = fs
    \<and> (\<forall>fr \<in> set (file_risks res). 0 \<le> fr_score fr \<and> fr_score fr \<le> 100
         \<and> fr_level fr = score_to_level (fr_score fr))
    \<and> flagged_indices res = map (\<lambda>fr. fe_index (fr_file fr)) (filter (\<lambda>fr. MEDIUM \<le> fr_level fr) (file_risks res))
    \<and> overall_score res = Max (insert 0 (fr_score ` set (file_risks res)))"
proof -
  let ?scan = "scan_one DEFAULT_RULES (build_context n fs)"
  have res: "file_risks res = map ?scan fs"
    "flagged_indices res = map fe_index (filter (\<lambda>f. 30 \<le> fr_score (?scan f)) fs)"
    "overall_score res = foldl max 0 (map (\<lambda>f. fr_score (?scan f)) fs)"
    by (simp_all add: assms scan_files_default Let_def del: scan_one_simps(2))
  have bounds: "0 \<le> fr_score (?scan f) \<and> fr_score (?scan f) \<le> 100" for f
    using sum_list_nonneg [of "map score_delta (hits DEFAULT_RULES f (build_context n fs))"]
    by (auto simp: MAX_SCORE_PER_FILE_def dest: hits_default_nonneg)
  let ?xs = "map (\<lambda>f. fr_score (?scan f)) fs"
  have set: "fr_score ` set (file_risks res) = set ?xs" by (simp add: res image_image del: scan_one_simps(2))
  have "overall_score res = Max (insert 0 (fr_score ` set (file_risks res)))"
    unfolding set res(3)
  proof (rule Max_eqI [symmetric])
    show "y \<le> foldl max 0 ?xs" if "y \<in> insert 0 (set ?xs)" for y
      using that foldl_max_ge(1) [of 0 ?xs] foldl_max_ge(2) [of y ?xs 0] by (auto simp del: scan_one_simps(2) set_map)
    show "foldl max 0 ?xs \<in> insert 0 (set ?xs)"
      using foldl_max_in [of 0 ?xs] by (simp del: scan_one_simps(2) set_map)
  qed simp
  with bounds show ?thesis
    by (simp add: res flagged_iff_30 comp_def filter_map del: scan_one_simps(2))
qed

theorem scan_files_summary_witness:
  "map fr_file (file_risks (scan_files
      [\<lparr>fe_index = 0, fe_path = ''setup.exe'', fe_size = 1000, fe_hidden = False, fe_executable_flag = False\<rparr>] ''t'' None))
   = [\<lparr>fe_index = 0, fe_path = ''setup.exe'', fe_size = 1000, fe_hidden = False, fe_executable_flag = False\<rparr>]"
  using scan_files_summary [OF refl] by blast

text \<open>A file with an executable extension is flagged whatever its name, size and
  neighbours; so is one whose name holds the right-to-left override, which the default
  cut-off of 60 also un-checks.\<close>

theorem executable_or_rtl_flagged:
  assumes "f \<in> set fs"
    and "extension_of (fe_path f) \<in> set EXECUTABLE_EXTENSIONS \<or> contains RTL_OVERRIDE (fe_path f)"
  shows "fe_index f \<in> set (flagged_indices (scan_files fs n None))
    \<and> (contains RTL_OVERRIDE (fe_path f) \<longrightarrow> fe_index f \<in> auto_exclude_indices (scan_files fs n None) 60)"
proof -
  let ?c = "build_context n fs"
  have ex: "35 \<le> fr_score (scan_one DEFAULT_RULES ?c f)" if "extension_of (fe_path f) \<in> set EXECUTABLE_EXTENSIONS"
    using default_score_ge [of executable_extension_rule f ?c] that
    by (simp add: DEFAULT_RULES_def executable_extension_rule_def Let_def del: scan_one_simps(2))
  have rtl: "70 \<le> fr_score (scan_one DEFAULT_RULES ?c f)" if "contains RTL_OVERRIDE (fe_path f)"
    using default_score_ge [of suspicious_name_rule f ?c] that
    by (simp add: DEFAULT_RULES_def suspicious_name_rule_def del: scan_one_simps(2))
  from ex rtl assms have "30 \<le> fr_score (scan_one DEFAULT_RULES ?c f)" by fastforce
  then have "fe_index f \<in> set (flagged_indices (scan_files fs n None))"
    using assms(1) by (auto simp: scan_files_default Let_def simp del: scan_one_simps(2) intro!: image_eqI [of _ _ f])
  moreover have "fe_index f \<in> auto_exclude_indices (scan_files fs n None) 60" if "contains RTL_OVERRIDE (fe_path f)"
    by (rule scan_excludes [OF assms(1)]) (use rtl [OF that] in \<open>simp del: scan_one_simps(2)\<close>)
  ultimately show ?thesis by blast
qed

theorem executable_or_rtl_flagged_witness:
  "(7 :: int) \<in> set (flagged_indices (scan_files
      [\<lparr>fe_index = 7, fe_path = ''Movie/setup.EXE'', fe_size = 5000000, fe_hidden = False, fe_executable_flag = False\<rparr>] [] None))"
proof -
  let ?f = "\<lparr>fe_index = 7, fe_path = ''Movie/setup.EXE'', fe_size = 5000000, fe_hidden = False, fe_executable_flag = False\<rparr>"
  have "extension_of (fe_path ?f) \<in> set EXECUTABLE_EXTENSIONS" by code_simp
  then have "fe_index ?f \<in> set (flagged_indices (scan_files [?f] [] None))"
    using executable_or_rtl_flagged [of ?f "[?f]" "[]"] by simp
  then show ?thesis by simp
qed

text \<open>A double extension is un-checked at the default cut-off whatever precedes it and
  however the fake and the real extension are padded with dots, white space, underscores and
  dashes, in any letter case.\<close>

theorem double_extension_excluded:
  assumes "f \<in> set fs" and "fe_path f = stem @ ''.'' @ x @ pad @ e"
    and "2 \<le> length x" "length x \<le> 4" "is_ascii x" "list_all alnum_lower (map ascii_lower x)"
    and "pad \<noteq> []" "is_ascii pad" "list_all ext_padding (map ascii_lower pad)"
    and "is_ascii e" "map ascii_lower e \<in> set EXECUTABLE_EXTENSIONS"
  shows "fe_index f \<in> auto_exclude_indices (scan_files fs n None) 60"
proof (rule scan_excludes [OF assms(1)])
  have "re_search double_extension_re (fe_path f)"
    unfolding assms(2) by (rule double_extension_hits) (use assms in auto)
  then show "60 \<le> fr_score (scan_one DEFAULT_RULES (build_context n fs) f)"
    using default_score_ge [of double_extension_rule f "build_context n fs"]
    by (simp add: DEFAULT_RULES_def double_extension_rule_def del: scan_one_simps(2))
qed

theorem double_extension_excluded_witness:
  "(3 :: int) \<in> auto_exclude_indices (scan_files
      [\<lparr>fe_index = 3, fe_path = ''facture.pdf.... .EXE'', fe_size = 90000, fe_hidden = False, fe_executable_flag = False\<rparr>] [] None) 60"
proof -
  let ?f = "\<lparr>fe_index = 3, fe_path = ''facture.pdf.... .EXE'', fe_size = 90000, fe_hidden = False, fe_executable_flag = False\<rparr>"
  have "list_all alnum_lower (map ascii_lower ''pdf'')" "list_all ext_padding (map ascii_lower ''.... .'')"
    "map ascii_lower ''EXE'' \<in> set EXECUTABLE_EXTENSIONS" "is_ascii ''pdf''" "is_ascii ''.... .''" "is_ascii ''EXE''"
    by code_simp+
  then show ?thesis
    using double_extension_excluded [of ?f "[?f]" "''facture''" "''pdf''" "''.... .''" "''EXE''" "[]"] by simp
qed

text \<open>The executable-in-a-media-torrent rule decides exactly by majority: the rounded float
  ratio is at least 0.5 just when half of the files are media, for torrents of up to
  \<open>2 ^ 51\<close> files.\<close>

theorem media_ratio_majority:
  assumes "files \<noteq> []" "int (length files) \<le> 2 ^ 51"
  shows "1 / 2 \<le> media_ratio (build_context n files)
    \<longleftrightarrow> int (length files) \<le> 2 * int (length (filter (\<lambda>f. extension_of (fe_path f) \<in> set MEDIA_EXTENSIONS) files))"
  using truediv_half [of "int (length files)" "int (length (filter (\<lambda>f. extension_of (fe_path f) \<in> set MEDIA_EXTENSIONS) files))"]
    assms by (simp add: build_context_def)

theorem media_ratio_majority_witness:
  "\<not> 1 / 2 \<le> media_ratio (build_context ''t''
      [\<lparr>fe_index = 0, fe_path = ''a.mkv'', fe_size = 1, fe_hidden = False, fe_executable_flag = False\<rparr>,
       \<lparr>fe_index = 1, fe_path = ''b.exe'', fe_size = 1, fe_hidden = False, fe_executable_flag = False\<rparr>,
       \<lparr>fe_index = 2, fe_path = ''c.txt'', fe_size = 1, fe_hidden = False, fe_executable_flag = False\<rparr>])"
proof -
  have "extension_of ''a.mkv'' \<in> set MEDIA_EXTENSIONS" "extension_of ''b.exe'' \<notin> set MEDIA_EXTENSIONS"
    "extension_of ''c.txt'' \<notin> set MEDIA_EXTENSIONS" by code_simp+
  then show ?thesis by (subst media_ratio_majority) simp_all
qed

end
