(* ===== verification/Settings_Data.thy ===== *)
theory Settings_Data
  imports Stores
begin

text \<open>
  \<open>config/settings.py\<close> and \<open>config/settings_history.py\<close>: the settings record with its three
  nested records, its JSON form, \<open>load\<close> and \<open>save\<close>, the journal of changes and the undo of one.

  A record's fields are listed once, in the source's order, in a table of (name, reader, writer);
  \<open>asdict\<close>, \<open>_from_dict\<close> and \<open>setattr\<close> are loops over that table, as they are loops over
  \<open>__dataclass_fields__\<close> in Python. The locale \<open>field_table\<close> is what the loops rely on.
\<close>

section \<open>Tables of fields\<close>

type_synonym 'r field = "string \<times> ('r \<Rightarrow> json) \<times> (json \<Rightarrow> 'r \<Rightarrow> load_error + 'r)"

definition obj_field :: "string \<Rightarrow> ('a \<Rightarrow> json) \<Rightarrow> (json \<Rightarrow> load_error + 'a) \<Rightarrow> ('r \<Rightarrow> 'a)
    \<Rightarrow> (('a \<Rightarrow> 'a) \<Rightarrow> 'r \<Rightarrow> 'r) \<Rightarrow> 'r field" where
  "obj_field n enc dec get upd = (n, \<lambda>s. enc (get s), \<lambda>j s. sbind (dec j) (\<lambda>x. Inr (upd (\<lambda>_. x) s)))"

abbreviation "str_field n \<equiv> obj_field n JStr as_str"
abbreviation "bool_field n \<equiv> obj_field n JBool as_bool"
abbreviation "int_field n \<equiv> obj_field n JInt as_int"
abbreviation "float_field n \<equiv> obj_field n JFloat as_float"

text \<open>\<open>dataclasses.asdict\<close>\<close>

definition asdict :: "'r field list \<Rightarrow> 'r \<Rightarrow> (string \<times> json) list" where
  "asdict F s = map (\<lambda>(n, g, _). (n, g s)) F"

text \<open>\<open>_from_dict(cls, raw)\<close>: starting from the defaults, every known key of \<open>raw\<close>.\<close>

fun from_dict :: "'r field list \<Rightarrow> 'r \<Rightarrow> (string \<times> json) list \<Rightarrow> load_error + 'r" where
  "from_dict F s [] = Inr s"
| "from_dict F s ((k, j) # raw) =
     (case map_of F k of
        None \<Rightarrow> from_dict F s raw
      | Some (g, put) \<Rightarrow> sbind (put j s) (\<lambda>s'. from_dict F s' raw))"

fun obj_of :: "json \<Rightarrow> load_error + (string \<times> json) list" where
  "obj_of (JObj kvs) = Inr kvs"
| "obj_of _ = Inl TypeErr"

text \<open>The writers run one after another over the values of one record.\<close>

fun write_all :: "'r field list \<Rightarrow> 'r \<Rightarrow> 'r \<Rightarrow> load_error + 'r" where
  "write_all [] src s = Inr s"
| "write_all ((n, g, put) # F) src s = sbind (put (g src) s) (write_all F src)"

lemma from_dict_asdict_gen:
  "distinct (map fst F) \<Longrightarrow> set G \<subseteq> set F \<Longrightarrow> from_dict F s (asdict G src) = write_all G src s"
proof (induction G arbitrary: s)
  case Nil
  then show ?case by (simp add: asdict_def)
next
  case (Cons f G)
  obtain n g put where f: "f = (n, g, put)" by (cases f)
  have "map_of F n = Some (g, put)" using Cons.prems f by (intro map_of_is_SomeI) auto
  moreover have "from_dict F t (asdict G src) = write_all G src t" for t
    using Cons by simp
  moreover have "asdict (f # G) src = (n, g src) # asdict G src" by (simp add: asdict_def f)
  ultimately show ?case by (simp add: f)
qed

lemma map_of_asdict: "map_of (asdict F s) k = map_option (\<lambda>(g, _). g s) (map_of F k)"
  by (induction F) (auto simp: asdict_def)

lemma fst_asdict [simp]: "map fst (asdict F s) = map fst F"
  by (simp add: asdict_def case_prod_beta)

locale field_table =
  fixes F :: "'r field list" and start :: 'r
  assumes names: "distinct (map fst F)"
    and writes: "write_all F s start = Inr s"
begin

lemma from_dict_asdict: "from_dict F start (asdict F s) = Inr s"
  using from_dict_asdict_gen [OF names order_refl] writes by simp

text \<open>Unknown keys of an older or newer schema change nothing.\<close>

lemma from_dict_unknown:
  "map_of F k = None \<Longrightarrow> from_dict F s (xs @ (k, j) # ys) = from_dict F s (xs @ ys)"
  by (induction xs arbitrary: s)
     (auto simp: sbind_def split: option.split sum.split)

end

section \<open>ProxySettings, BandwidthSchedule, RssFeedSubscription\<close>

record proxy_settings =
  px_enabled :: bool
  px_proxy_type :: string
  px_host :: string
  px_port :: int
  px_username :: string
  px_password :: string
  px_proxy_peer_connections :: bool
  px_proxy_tracker_connections :: bool
  px_force_proxy :: bool

definition DEFAULT_PROXY :: proxy_settings where
  "DEFAULT_PROXY = \<lparr>px_enabled = False, px_proxy_type = ''none'', px_host = [],
     px_port = 0, px_username = [], px_password = [],
     px_proxy_peer_connections = True, px_proxy_tracker_connections = True, px_force_proxy = True\<rparr>"

definition PROXY_FIELDS :: "proxy_settings field list" where
  "PROXY_FIELDS =
    [bool_field ''enabled'' px_enabled px_enabled_update,
     str_field ''proxy_type'' px_proxy_type px_proxy_type_update,
     str_field ''host'' px_host px_host_update,
     int_field ''port'' px_port px_port_update,
     str_field ''username'' px_username px_username_update,
     str_field ''password'' px_password px_password_update,
     bool_field ''proxy_peer_connections'' px_proxy_peer_connections px_proxy_peer_connections_update,
     bool_field ''proxy_tracker_connections'' px_proxy_tracker_connections px_proxy_tracker_connections_update,
     bool_field ''force_proxy'' px_force_proxy px_force_proxy_update]"

record bandwidth_schedule =
  bs_enabled :: bool
  bs_start_hour :: int
  bs_end_hour :: int
  bs_limited_download_kbps :: int
  bs_limited_upload_kbps :: int

definition DEFAULT_SCHEDULE :: bandwidth_schedule where
  "DEFAULT_SCHEDULE = \<lparr>bs_enabled = False, bs_start_hour = 8, bs_end_hour = 22,
     bs_limited_download_kbps = 0, bs_limited_upload_kbps = 0\<rparr>"

definition SCHEDULE_FIELDS :: "bandwidth_schedule field list" where
  "SCHEDULE_FIELDS =
    [bool_field ''enabled'' bs_enabled bs_enabled_update,
     int_field ''start_hour'' bs_start_hour bs_start_hour_update,
     int_field ''end_hour'' bs_end_hour bs_end_hour_update,
     int_field ''limited_download_kbps'' bs_limited_download_kbps bs_limited_download_kbps_update,
     int_field ''limited_upload_kbps'' bs_limited_upload_kbps bs_limited_upload_kbps_update]"

record rss_feed =
  rf_url :: string
  rf_filter_keyword :: string
  rf_enabled :: bool
  rf_regex_include :: string
  rf_regex_exclude :: string
  rf_resolution_min :: int
  rf_resolution_max :: int
  rf_latest_episode_only :: bool

definition DEFAULT_FEED :: rss_feed where
  "DEFAULT_FEED = \<lparr>rf_url = [], rf_filter_keyword = [], rf_enabled = True,
     rf_regex_include = [], rf_regex_exclude = [], rf_resolution_min = 0,
     rf_resolution_max = 0, rf_latest_episode_only = False\<rparr>"

definition FEED_FIELDS :: "rss_feed field list" where
  "FEED_FIELDS =
    [str_field ''url'' rf_url rf_url_update,
     str_field ''filter_keyword'' rf_filter_keyword rf_filter_keyword_update,
     bool_field ''enabled'' rf_enabled rf_enabled_update,
     str_field ''regex_include'' rf_regex_include rf_regex_include_update,
     str_field ''regex_exclude'' rf_regex_exclude rf_regex_exclude_update,
     int_field ''resolution_min'' rf_resolution_min rf_resolution_min_update,
     int_field ''resolution_max'' rf_resolution_max rf_resolution_max_update,
     bool_field ''latest_episode_only'' rf_latest_episode_only rf_latest_episode_only_update]"

interpretation proxy_table: field_table PROXY_FIELDS DEFAULT_PROXY
  by unfold_locales (simp_all add: PROXY_FIELDS_def DEFAULT_PROXY_def obj_field_def)

interpretation schedule_table: field_table SCHEDULE_FIELDS DEFAULT_SCHEDULE
  by unfold_locales (simp_all add: SCHEDULE_FIELDS_def DEFAULT_SCHEDULE_def obj_field_def)

interpretation feed_table: field_table FEED_FIELDS DEFAULT_FEED
  by unfold_locales (simp_all add: FEED_FIELDS_def DEFAULT_FEED_def obj_field_def)

definition proxy_json :: "proxy_settings \<Rightarrow> json" where
  "proxy_json s = JObj (asdict PROXY_FIELDS s)"

definition proxy_of_json :: "json \<Rightarrow> load_error + proxy_settings" where
  "proxy_of_json j = sbind (obj_of j) (from_dict PROXY_FIELDS DEFAULT_PROXY)"

definition schedule_json :: "bandwidth_schedule \<Rightarrow> json" where
  "schedule_json s = JObj (asdict SCHEDULE_FIELDS s)"

definition schedule_of_json :: "json \<Rightarrow> load_error + bandwidth_schedule" where
  "schedule_of_json j = sbind (obj_of j) (from_dict SCHEDULE_FIELDS DEFAULT_SCHEDULE)"

fun feed_list_of :: "json list \<Rightarrow> load_error + rss_feed list" where
  "feed_list_of [] = Inr []"
| "feed_list_of (j # js) = sbind (obj_of j) (\<lambda>kvs. sbind (from_dict FEED_FIELDS DEFAULT_FEED kvs)
     (\<lambda>f. sbind (feed_list_of js) (\<lambda>fs. Inr (f # fs))))"

definition feeds_json :: "rss_feed list \<Rightarrow> json" where
  "feeds_json fs = JArr (map (\<lambda>f. JObj (asdict FEED_FIELDS f)) fs)"

fun feeds_of_json :: "json \<Rightarrow> load_error + rss_feed list" where
  "feeds_of_json (JArr js) = feed_list_of js"
| "feeds_of_json (JStr []) = Inr []"
| "feeds_of_json (JObj []) = Inr []"
| "feeds_of_json _ = Inl TypeErr"

lemma nested_roundtrip [simp]:
  "proxy_of_json (proxy_json p) = Inr p"
  "schedule_of_json (schedule_json b) = Inr b"
  "feeds_of_json (feeds_json fs) = Inr fs"
proof -
  show "proxy_of_json (proxy_json p) = Inr p"
    by (simp add: proxy_of_json_def proxy_json_def proxy_table.from_dict_asdict)
  show "schedule_of_json (schedule_json b) = Inr b"
    by (simp add: schedule_of_json_def schedule_json_def schedule_table.from_dict_asdict)
  show "feeds_of_json (feeds_json fs) = Inr fs"
    by (induction fs) (simp_all add: feeds_json_def feed_table.from_dict_asdict)
qed

section \<open>Settings\<close>

record settings =
  cfg_schema_version :: int
  cfg_default_download_dir :: string
  cfg_download_rate_limit_kbps :: int
  cfg_upload_rate_limit_kbps :: int
  cfg_danger_auto_exclude_threshold :: int
  cfg_theme :: string
  cfg_appearance_mode :: string
  cfg_language :: string
  cfg_network_interface :: string
  cfg_proxy :: proxy_settings
  cfg_max_active_downloads :: int
  cfg_restrict_discovery :: bool
  cfg_bandwidth_schedule :: bandwidth_schedule
  cfg_default_share_policy_enabled :: bool
  cfg_default_share_ratio_limit :: rat
  cfg_default_share_time_limit_hours :: int
  cfg_default_share_data_limit_mb :: int
  cfg_notifications_enabled :: bool
  cfg_minimize_to_tray :: bool
  cfg_rss_feeds :: "rss_feed list"
  cfg_watch_folder_enabled :: bool
  cfg_watch_folder_path :: string
  cfg_disk_space_warning_enabled :: bool
  cfg_disk_space_warning_threshold_mb :: int
  cfg_auto_resume_on_disk_reconnect :: bool
  cfg_encryption_mode :: string
  cfg_scan_completed_files_with_defender :: bool
  cfg_auto_shutdown_enabled :: bool
  cfg_auto_shutdown_action :: string
  cfg_auto_shutdown_delay_seconds :: int
  cfg_pause_on_battery_enabled :: bool
  cfg_remote_access_enabled :: bool
  cfg_remote_access_port :: int
  cfg_remote_access_token :: string
  cfg_audio_volume :: int
  cfg_launch_at_startup :: bool
  cfg_check_for_updates :: bool
  cfg_dismissed_update_version :: string
  cfg_first_launch_seen :: bool
  cfg_provenance_manifest_enabled :: bool
  cfg_memory_governor_enabled :: bool
  cfg_memory_governor_threshold_percent :: int
  cfg_idle_bandwidth_reduction_enabled :: bool
  cfg_idle_bandwidth_reduction_minutes :: int
  cfg_known_disk_automation_enabled :: bool
  cfg_network_profile_auto_switch_enabled :: bool
  cfg_peer_reputation_enabled :: bool
  cfg_lan_peer_cache_enabled :: bool
  cfg_ip_blocklist_enabled :: bool
  cfg_ip_blocklist_path :: string
  cfg_scheduled_recheck_enabled :: bool
  cfg_scheduled_recheck_interval_days :: int
  cfg_webhook_enabled :: bool
  cfg_webhook_url :: string
  cfg_clipboard_magnet_detection_enabled :: bool

definition DEFAULT_SETTINGS :: settings where
  "DEFAULT_SETTINGS = \<lparr>cfg_schema_version = 1, cfg_default_download_dir = [], cfg_download_rate_limit_kbps = 0,
     cfg_upload_rate_limit_kbps = 0, cfg_danger_auto_exclude_threshold = 60, cfg_theme = ''luna_xp'',
     cfg_appearance_mode = ''light'', cfg_language = ''fr'', cfg_network_interface = [],
     cfg_proxy = DEFAULT_PROXY, cfg_max_active_downloads = 8, cfg_restrict_discovery = True,
     cfg_bandwidth_schedule = DEFAULT_SCHEDULE, cfg_default_share_policy_enabled = False, cfg_default_share_ratio_limit = 0,
     cfg_default_share_time_limit_hours = 0, cfg_default_share_data_limit_mb = 0, cfg_notifications_enabled = True,
     cfg_minimize_to_tray = True, cfg_rss_feeds = [], cfg_watch_folder_enabled = False,
     cfg_watch_folder_path = [], cfg_disk_space_warning_enabled = True, cfg_disk_space_warning_threshold_mb = 1024,
     cfg_auto_resume_on_disk_reconnect = False, cfg_encryption_mode = ''enabled'', cfg_scan_completed_files_with_defender = False,
     cfg_auto_shutdown_enabled = False, cfg_auto_shutdown_action = ''shutdown'', cfg_auto_shutdown_delay_seconds = 60,
     cfg_pause_on_battery_enabled = False, cfg_remote_access_enabled = False, cfg_remote_access_port = 8642,
     cfg_remote_access_token = [], cfg_audio_volume = 70, cfg_launch_at_startup = False,
     cfg_check_for_updates = True, cfg_dismissed_update_version = [], cfg_first_launch_seen = False,
     cfg_provenance_manifest_enabled = False, cfg_memory_governor_enabled = False, cfg_memory_governor_threshold_percent = 90,
     cfg_idle_bandwidth_reduction_enabled = False, cfg_idle_bandwidth_reduction_minutes = 15, cfg_known_disk_automation_enabled = False,
     cfg_network_profile_auto_switch_enabled = False, cfg_peer_reputation_enabled = False, cfg_lan_peer_cache_enabled = False,
     cfg_ip_blocklist_enabled = False, cfg_ip_blocklist_path = [], cfg_scheduled_recheck_enabled = False,
     cfg_scheduled_recheck_interval_days = 30, cfg_webhook_enabled = False, cfg_webhook_url = [],
     cfg_clipboard_magnet_detection_enabled = False\<rparr>"

definition SETTINGS_FIELDS :: "settings field list" where
  "SETTINGS_FIELDS =
    [int_field ''schema_version'' cfg_schema_version cfg_schema_version_update,
     str_field ''default_download_dir'' cfg_default_download_dir cfg_default_download_dir_update,
     int_field ''download_rate_limit_kbps'' cfg_download_rate_limit_kbps cfg_download_rate_limit_kbps_update,
     int_field ''upload_rate_limit_kbps'' cfg_upload_rate_limit_kbps cfg_upload_rate_limit_kbps_update,
     int_field ''danger_auto_exclude_threshold'' cfg_danger_auto_exclude_threshold cfg_danger_auto_exclude_threshold_update,
     str_field ''theme'' cfg_theme cfg_theme_update,
     str_field ''appearance_mode'' cfg_appearance_mode cfg_appearance_mode_update,
     str_field ''language'' cfg_language cfg_language_update,
     str_field ''network_interface'' cfg_network_interface cfg_network_interface_update,
     obj_field ''proxy'' proxy_json proxy_of_json cfg_proxy cfg_proxy_update,
     int_field ''max_active_downloads'' cfg_max_active_downloads cfg_max_active_downloads_update,
     bool_field ''restrict_discovery'' cfg_restrict_discovery cfg_restrict_discovery_update,
     obj_field ''bandwidth_schedule'' schedule_json schedule_of_json cfg_bandwidth_schedule cfg_bandwidth_schedule_update,
     bool_field ''default_share_policy_enabled'' cfg_default_share_policy_enabled cfg_default_share_policy_enabled_update,
     float_field ''default_share_ratio_limit'' cfg_default_share_ratio_limit cfg_default_share_ratio_limit_update,
     int_field ''default_share_time_limit_hours'' cfg_default_share_time_limit_hours cfg_default_share_time_limit_hours_update,
     int_field ''default_share_data_limit_mb'' cfg_default_share_data_limit_mb cfg_default_share_data_limit_mb_update,
     bool_field ''notifications_enabled'' cfg_notifications_enabled cfg_notifications_enabled_update,
     bool_field ''minimize_to_tray'' cfg_minimize_to_tray cfg_minimize_to_tray_update,
     obj_field ''rss_feeds'' feeds_json feeds_of_json cfg_rss_feeds cfg_rss_feeds_update,
     bool_field ''watch_folder_enabled'' cfg_watch_folder_enabled cfg_watch_folder_enabled_update,
     str_field ''watch_folder_path'' cfg_watch_folder_path cfg_watch_folder_path_update,
     bool_field ''disk_space_warning_enabled'' cfg_disk_space_warning_enabled cfg_disk_space_warning_enabled_update,
     int_field ''disk_space_warning_threshold_mb'' cfg_disk_space_warning_threshold_mb cfg_disk_space_warning_threshold_mb_update,
     bool_field ''auto_resume_on_disk_reconnect'' cfg_auto_resume_on_disk_reconnect cfg_auto_resume_on_disk_reconnect_update,
     str_field ''encryption_mode'' cfg_encryption_mode cfg_encryption_mode_update,
     bool_field ''scan_completed_files_with_defender'' cfg_scan_completed_files_with_defender cfg_scan_completed_files_with_defender_update,
     bool_field ''auto_shutdown_enabled'' cfg_auto_shutdown_enabled cfg_auto_shutdown_enabled_update,
     str_field ''auto_shutdown_action'' cfg_auto_shutdown_action cfg_auto_shutdown_action_update,
     int_field ''auto_shutdown_delay_seconds'' cfg_auto_shutdown_delay_seconds cfg_auto_shutdown_delay_seconds_update,
     bool_field ''pause_on_battery_enabled'' cfg_pause_on_battery_enabled cfg_pause_on_battery_enabled_update,
     bool_field ''remote_access_enabled'' cfg_remote_access_enabled cfg_remote_access_enabled_update,
     int_field ''remote_access_port'' cfg_remote_access_port cfg_remote_access_port_update,
     str_field ''remote_access_token'' cfg_remote_access_token cfg_remote_access_token_update,
     int_field ''audio_volume'' cfg_audio_volume cfg_audio_volume_update,
     bool_field ''launch_at_startup'' cfg_launch_at_startup cfg_launch_at_startup_update,
     bool_field ''check_for_updates'' cfg_check_for_updates cfg_check_for_updates_update,
     str_field ''dismissed_update_version'' cfg_dismissed_update_version cfg_dismissed_update_version_update,
     bool_field ''first_launch_seen'' cfg_first_launch_seen cfg_first_launch_seen_update,
     bool_field ''provenance_manifest_enabled'' cfg_provenance_manifest_enabled cfg_provenance_manifest_enabled_update,
     bool_field ''memory_governor_enabled'' cfg_memory_governor_enabled cfg_memory_governor_enabled_update,
     int_field ''memory_governor_threshold_percent'' cfg_memory_governor_threshold_percent cfg_memory_governor_threshold_percent_update,
     bool_field ''idle_bandwidth_reduction_enabled'' cfg_idle_bandwidth_reduction_enabled cfg_idle_bandwidth_reduction_enabled_update,
     int_field ''idle_bandwidth_reduction_minutes'' cfg_idle_bandwidth_reduction_minutes cfg_idle_bandwidth_reduction_minutes_update,
     bool_field ''known_disk_automation_enabled'' cfg_known_disk_automation_enabled cfg_known_disk_automation_enabled_update,
     bool_field ''network_profile_auto_switch_enabled'' cfg_network_profile_auto_switch_enabled cfg_network_profile_auto_switch_enabled_update,
     bool_field ''peer_reputation_enabled'' cfg_peer_reputation_enabled cfg_peer_reputation_enabled_update,
     bool_field ''lan_peer_cache_enabled'' cfg_lan_peer_cache_enabled cfg_lan_peer_cache_enabled_update,
     bool_field ''ip_blocklist_enabled'' cfg_ip_blocklist_enabled cfg_ip_blocklist_enabled_update,
     str_field ''ip_blocklist_path'' cfg_ip_blocklist_path cfg_ip_blocklist_path_update,
     bool_field ''scheduled_recheck_enabled'' cfg_scheduled_recheck_enabled cfg_scheduled_recheck_enabled_update,
     int_field ''scheduled_recheck_interval_days'' cfg_scheduled_recheck_interval_days cfg_scheduled_recheck_interval_days_update,
     bool_field ''webhook_enabled'' cfg_webhook_enabled cfg_webhook_enabled_update,
     str_field ''webhook_url'' cfg_webhook_url cfg_webhook_url_update,
     bool_field ''clipboard_magnet_detection_enabled'' cfg_clipboard_magnet_detection_enabled cfg_clipboard_magnet_detection_enabled_update]"

lemma settings_names: "distinct (map fst SETTINGS_FIELDS)"
  by (simp add: SETTINGS_FIELDS_def obj_field_def)

end
