(* ===== verification/Dpapi.thy ===== *)
theory Dpapi
  imports Prelude
begin

text \<open>
  \<open>engine/dpapi.py\<close>: how \<open>proxy.password\<close> and \<open>remote_access_token\<close> are
  kept in \<open>config.json\<close>. \<open>CryptProtectData\<close> and \<open>CryptUnprotectData\<close> are
  parameters: functions from bytes to bytes that may fail. Base64 and the UTF-8 check of
  \<open>bytes.decode\<close> are written out, the decoder as CPython's non-strict state machine.
\<close>

section \<open>base64\<close>

definition b64_alphabet :: string where
  "b64_alphabet = ''ABCDEFGHIJKLMNOPQRSTUVWXYZabcdefghijklmnopqrstuvwxyz0123456789+/''"

abbreviation b64_char :: "nat \<Rightarrow> char" where
  "b64_char n \<equiv> b64_alphabet ! n"

fun index_of :: "'a list \<Rightarrow> 'a \<Rightarrow> nat option" where
  "index_of [] c = None"
| "index_of (x # xs) c = (if x = c then Some 0 else map_option Suc (index_of xs c))"

definition b64_value :: "char \<Rightarrow> nat option" where
  "b64_value c = index_of b64_alphabet c"

abbreviation ord :: "char \<Rightarrow> nat" where "ord c \<equiv> of_char c"

fun b64encode :: "string \<Rightarrow> string" where
  "b64encode [] = []"
| "b64encode [a] = [b64_char (ord a div 4), b64_char (ord a mod 4 * 16), CHR ''='', CHR ''='']"
| "b64encode [a, b] = [b64_char (ord a div 4), b64_char (ord a mod 4 * 16 + ord b div 16),
     b64_char (ord b mod 16 * 4), CHR ''='']"
| "b64encode (a # b # c # s) = b64_char (ord a div 4) # b64_char (ord a mod 4 * 16 + ord b div 16)
     # b64_char (ord b mod 16 * 4 + ord c div 64) # b64_char (ord c mod 64) # b64encode s"

text \<open>\<open>binascii.a2b_base64\<close>, not strict: \<open>q\<close> is the position in the quad,
  \<open>left\<close> the bits carried over, \<open>p\<close> the pads met in a row. Characters outside the alphabet
  are skipped; a finished pad sequence ends the input; an unfinished quad is an error.\<close>

fun b64_go :: "nat \<Rightarrow> nat \<Rightarrow> nat \<Rightarrow> string \<Rightarrow> string option" where
  "b64_go q left p [] = (if q = 0 then Some [] else None)"
| "b64_go q left p (c # s) =
     (if c = CHR ''='' then (if 2 \<le> q \<and> 4 \<le> q + (p + 1) then Some []
                            else b64_go q left (if 2 \<le> q then p + 1 else p) s)
      else case b64_value c of
        None \<Rightarrow> b64_go q left p s
      | Some v \<Rightarrow>
          (if q = 0 then b64_go 1 v 0 s
           else if q = 1 then map_option (Cons (char_of (left * 4 + v div 16))) (b64_go 2 (v mod 16) 0 s)
           else if q = 2 then map_option (Cons (char_of (left * 16 + v div 4))) (b64_go 3 (v mod 4) 0 s)
           else map_option (Cons (char_of (left * 64 + v))) (b64_go 0 0 0 s)))"

definition is_ascii_str :: "string \<Rightarrow> bool" where
  "is_ascii_str s \<longleftrightarrow> list_all (\<lambda>c. ord c < 128) s"

text \<open>\<open>base64.b64decode(s)\<close> of a string: \<open>ValueError\<close> when it is not ASCII.\<close>

definition b64decode :: "string \<Rightarrow> string option" where
  "b64decode s = (if is_ascii_str s then b64_go 0 0 0 s else None)"

lemma b64_value_char: "n < 64 \<Longrightarrow> b64_value (b64_char n) = Some n"
proof -
  have "list_all (\<lambda>n. b64_value (b64_char n) = Some n) [0..<64]" by code_simp
  then show "n < 64 \<Longrightarrow> b64_value (b64_char n) = Some n" by (simp add: list_all_iff)
qed

lemma b64_char_ascii: "n < 64 \<Longrightarrow> ord (b64_char n) < 128 \<and> b64_char n \<noteq> CHR ''=''"
proof -
  have "list_all (\<lambda>c. ord c < 128 \<and> c \<noteq> CHR ''='') b64_alphabet" "length b64_alphabet = 64"
    by (simp_all add: b64_alphabet_def)
  then show "n < 64 \<Longrightarrow> ord (b64_char n) < 128 \<and> b64_char n \<noteq> CHR ''=''"
    by (simp add: list_all_length)
qed

lemma ord_less: "ord c < 256"
  by (metis of_char_of of_char_mod_256 mod_less_divisor zero_less_numeral)

lemma ord_parts:
  "ord c div 4 < 64" "ord c div 16 < 16" "ord c div 64 < 4"
  using ord_less [of c] by (simp_all add: div_less_iff_less_mult)

lemma six_bits [simp]:
  "ord a mod 4 * 16 < 64" "ord a mod 4 * 16 + ord b div 16 < 64"
  "ord b mod 16 * 4 < 64" "ord b mod 16 * 4 + ord c div 64 < 64"
proof -
  have m: "ord a mod 4 < 4" "ord b mod 16 < 16" by simp_all
  with ord_parts(2) [of b] ord_parts(3) [of c]
  show "ord a mod 4 * 16 < 64" "ord a mod 4 * 16 + ord b div 16 < 64"
    "ord b mod 16 * 4 < 64" "ord b mod 16 * 4 + ord c div 64 < 64" by linarith+
qed

lemma b64_sym [simp]:
  "n < 64 \<Longrightarrow> b64_value (b64_char n) = Some n" "n < 64 \<Longrightarrow> b64_char n \<noteq> CHR ''=''"
  using b64_value_char b64_char_ascii by auto

lemma join_bits:
  "ord a div 4 * 4 + ord a mod 4 = ord a"
  "(ord a mod 4 * 16) div 16 = ord a mod 4" "(ord a mod 4 * 16) mod 16 = 0"
  "(ord a mod 4 * 16 + ord b div 16) div 16 = ord a mod 4"
  "(ord a mod 4 * 16 + ord b div 16) mod 16 = ord b div 16"
  "ord b div 16 * 16 + ord b mod 16 = ord b"
  "(ord b mod 16 * 4) div 4 = ord b mod 16"
  "(ord b mod 16 * 4 + ord c div 64) div 4 = ord b mod 16"
  "(ord b mod 16 * 4 + ord c div 64) mod 4 = ord c div 64"
  "ord c div 64 * 64 + ord c mod 64 = ord c"
  using ord_parts(2) [of b] ord_parts(3) [of c] by simp_all

lemma mod_small: "ord b div 16 mod 16 = ord b div 16" "ord c div 64 mod 4 = ord c div 64"
  using ord_parts(2) [of b] ord_parts(3) [of c] by simp_all

lemma b64_go_encode: "b64_go 0 0 0 (b64encode s) = Some s"
proof (induction s rule: b64encode.induct)
  case (2 a)
  then show ?case using ord_parts(1) [of a] by (simp add: join_bits mod_small)
next
  case (3 a b)
  then show ?case using ord_parts(1) [of a] by (simp add: join_bits mod_small)
next
  case (4 a b c s)
  then show ?case using ord_parts(1) [of a] by (simp add: join_bits mod_small)
qed simp

lemma b64encode_ascii: "is_ascii_str (b64encode s)"
  by (induction s rule: b64encode.induct)
     (simp_all add: is_ascii_str_def b64_char_ascii ord_parts)

lemma b64_roundtrip: "b64decode (b64encode s) = Some s"
  by (simp add: b64decode_def b64encode_ascii b64_go_encode)

section \<open>\<open>bytes.decode(''utf-8'')\<close>\<close>

definition cont :: "char \<Rightarrow> bool" where
  "cont c \<longleftrightarrow> 128 \<le> ord c \<and> ord c < 192"

fun utf8_ok :: "string \<Rightarrow> bool" where
  "utf8_ok [] = True"
| "utf8_ok (a # s) =
     (if ord a < 128 then utf8_ok s
      else if 194 \<le> ord a \<and> ord a < 224 then
        (case s of b # s' \<Rightarrow> cont b \<and> utf8_ok s' | _ \<Rightarrow> False)
      else if 224 \<le> ord a \<and> ord a < 240 then
        (case s of b # c # s' \<Rightarrow> cont b \<and> cont c \<and> (ord a = 224 \<longrightarrow> 160 \<le> ord b)
           \<and> (ord a = 237 \<longrightarrow> ord b < 160) \<and> utf8_ok s' | _ \<Rightarrow> False)
      else if 240 \<le> ord a \<and> ord a < 245 then
        (case s of b # c # d # s' \<Rightarrow> cont b \<and> cont c \<and> cont d \<and> (ord a = 240 \<longrightarrow> 144 \<le> ord b)
           \<and> (ord a = 244 \<longrightarrow> ord b < 144) \<and> utf8_ok s' | _ \<Rightarrow> False)
      else False)"

section \<open>protect and unprotect\<close>

definition DPAPI_PREFIX :: string where
  "DPAPI_PREFIX = ''dpapi:''"

text \<open>\<open>None\<close>: \<open>OSError("CryptProtectData failed")\<close>.\<close>

definition protect :: "(string \<Rightarrow> string option) \<Rightarrow> string \<Rightarrow> string option" where
  "protect crypt plaintext =
     (if plaintext = [] then Some plaintext
      else case crypt plaintext of None \<Rightarrow> None | Some blob \<Rightarrow> Some (DPAPI_PREFIX @ b64encode blob))"

definition unprotect :: "(string \<Rightarrow> string option) \<Rightarrow> string \<Rightarrow> string" where
  "unprotect decrypt value =
     (if \<not> prefix DPAPI_PREFIX value then value
      else case b64decode (drop (length DPAPI_PREFIX) value) of
        None \<Rightarrow> []
      | Some encrypted \<Rightarrow>
          (case decrypt encrypted of
             None \<Rightarrow> []
           | Some plain \<Rightarrow> if utf8_ok plain then plain else []))"

lemma unprotect_protect:
  assumes "\<And>p b. crypt p = Some b \<Longrightarrow> decrypt b = Some p" "utf8_ok s" "protect crypt s = Some v"
  shows "unprotect decrypt v = s"
  using assms
  by (auto simp: protect_def unprotect_def b64_roundtrip DPAPI_PREFIX_def split: if_splits option.splits)

lemma protect_empty: "protect crypt [] = Some []"
  by (simp add: protect_def)

text \<open>What \<open>protect\<close> returns never is the secret itself.\<close>

lemma protect_hides: "protect crypt s = Some v \<Longrightarrow> s \<noteq> [] \<Longrightarrow> prefix DPAPI_PREFIX v"
  by (auto simp: protect_def split: option.splits)

section \<open>Properties\<close>

text \<open>A protected secret is recovered exactly, whatever its characters, on the machine that
  encrypted it; a value saved before the feature existed is returned as it is; a blob that no
  longer decrypts gives the empty string, never an error.\<close>

theorem dpapi_roundtrip:
  assumes "\<And>p b. crypt p = Some b \<Longrightarrow> decrypt b = Some p"
  shows "(utf8_ok s \<and> protect crypt s = Some v \<longrightarrow> unprotect decrypt v = s)
    \<and> (\<not> prefix DPAPI_PREFIX w \<longrightarrow> unprotect decrypt w = w)
    \<and> (protect crypt s = Some v \<and> s \<noteq> [] \<longrightarrow> unprotect (\<lambda>_. None) v = [])"
  using unprotect_protect [of crypt decrypt s v] assms protect_hides [of crypt s v]
  by (auto simp: unprotect_def split: option.split)

theorem dpapi_roundtrip_witness:
  "unprotect (\<lambda>b. Some (rev b)) ''dpapi:b2xsZWg='' = ''hello''"
proof -
  have "protect (\<lambda>p. Some (rev p)) ''hello'' = Some ''dpapi:b2xsZWg=''" by code_simp
  moreover have "utf8_ok ''hello''" by code_simp
  ultimately show ?thesis
    using dpapi_roundtrip [of "\<lambda>p. Some (rev p)" "\<lambda>b. Some (rev b)" "''hello''"] by fastforce
qed

end
