(* ===== verification/Jsonl.thy ===== *)
theory Jsonl
  imports Prelude
begin

text \<open>
  Append-only JSONL files with a cap on their line count: the file half of
  \<open>engine/decision_journal.py\<close> (\<open>_append\<close>, \<open>_trim\<close>, \<open>read_recent_entries\<close>)
  and of \<open>config/settings_history.py\<close> (\<open>_trim_history\<close>, \<open>read_settings_history\<close>; its
  \<open>record_settings_change\<close> is in \<open>Settings\<close>), and \<open>retry_if_dir_vanished\<close> of
  \<open>config/paths.py\<close>. The locale \<open>capped_log\<close> is what the readers rely on.

  A file is its list of lines as \<open>str.splitlines\<close> cuts them. A line that is the whole rendering
  of one entry is \<open>Entry\<close>; an entry whose rendering holds a line boundary of
  \<open>splitlines\<close> (\<open>json.dumps(..., ensure_ascii=False)\<close> leaves U+0085, U+2028 and U+2029 as
  they are) is cut into \<open>Fragment\<close>s. \<open>dumps\<close> and \<open>loads\<close> (of a fragment) are parameters; the
  outcome of each file operation and the size \<open>f.tell()\<close> reports are inputs.
\<close>

section \<open>Lines\<close>

datatype jline = Entry json | Fragment string

type_synonym jsonl = "jline list option"

abbreviation lines_of :: "jsonl \<Rightarrow> jline list" where
  "lines_of f \<equiv> (case f of None \<Rightarrow> [] | Some ls \<Rightarrow> ls)"

definition simple_break :: "char \<Rightarrow> bool" where
  "simple_break c \<longleftrightarrow> c \<in> {CHR 0x0A, CHR 0x0B, CHR 0x0C, CHR 0x1C, CHR 0x1D, CHR 0x1E}"

text \<open>\<open>str.splitlines()\<close> on UTF-8; \<open>cur\<close> is the current line, reversed.\<close>

fun splitlines_go :: "string \<Rightarrow> string \<Rightarrow> string list" where
  "splitlines_go cur [] = (if cur = [] then [] else [rev cur])"
| "splitlines_go cur (a # s) =
     (if a = CHR 0x0D then rev cur # splitlines_go [] (if prefix [CHR 0x0A] s then drop 1 s else s)
      else if simple_break a then rev cur # splitlines_go [] s
      else if a = CHR 0xC2 \<and> prefix [CHR 0x85] s then rev cur # splitlines_go [] (drop 1 s)
      else if a = CHR 0xE2 \<and> (prefix [CHR 0x80, CHR 0xA8] s \<or> prefix [CHR 0x80, CHR 0xA9] s)
        then rev cur # splitlines_go [] (drop 2 s)
      else splitlines_go (a # cur) s)"

definition splitlines :: "string \<Rightarrow> string list" where
  "splitlines s = splitlines_go [] s"

definition entry_lines :: "(json \<Rightarrow> string) \<Rightarrow> json \<Rightarrow> jline list" where
  "entry_lines dumps e =
     (let parts = splitlines (dumps e) in if parts = [dumps e] then [Entry e] else map Fragment parts)"

section \<open>File operations\<close>

datatype attempt = Done | NotFound | OsError

text \<open>\<open>retry_if_dir_vanished\<close>: the outcome of a second attempt replaces a
  \<open>FileNotFoundError\<close>.\<close>

definition retry_if_dir_vanished :: "attempt \<Rightarrow> attempt \<Rightarrow> attempt" where
  "retry_if_dir_vanished first second = (case first of NotFound \<Rightarrow> second | _ \<Rightarrow> first)"

record log_io =
  io_append :: attempt
  io_again :: attempt
  io_read :: bool
  io_write :: bool
  io_tell :: nat

definition MAX_ENTRIES :: nat where "MAX_ENTRIES = 200"
definition TRIM_THRESHOLD_BYTES :: nat where "TRIM_THRESHOLD_BYTES = 64 * 1024"

text \<open>\<open>lines[-n:]\<close>\<close>

definition last_n :: "nat \<Rightarrow> 'a list \<Rightarrow> 'a list" where
  "last_n n xs = drop (length xs - n) xs"

text \<open>\<open>entries[:limit]\<close>\<close>

definition py_take :: "int \<Rightarrow> 'a list \<Rightarrow> 'a list" where
  "py_take n xs = (if 0 \<le> n then take (nat n) xs else take (length xs - nat (- n)) xs)"

section \<open>\<open>engine/decision_journal.py\<close>\<close>

definition journal_trim :: "log_io \<Rightarrow> jsonl \<Rightarrow> jsonl" where
  "journal_trim io f =
     (if \<not> io_read io then f
      else if length (lines_of f) \<le> MAX_ENTRIES then f
      else if io_write io then Some (last_n MAX_ENTRIES (lines_of f)) else f)"

definition journal_append :: "(json \<Rightarrow> string) \<Rightarrow> log_io \<Rightarrow> string \<Rightarrow> string \<Rightarrow> jsonl \<Rightarrow> jsonl" where
  "journal_append dumps io now text f =
     (if io_append io \<noteq> Done then f
      else let entry = JObj [(''timestamp'', JStr now), (''text'', JStr text)];
               f' = Some (lines_of f @ entry_lines dumps entry)
           in if TRIM_THRESHOLD_BYTES < io_tell io then journal_trim io f' else f')"

fun read_lines :: "(string \<Rightarrow> json option) \<Rightarrow> jline list \<Rightarrow> json list" where
  "read_lines loads [] = []"
| "read_lines loads (Entry e # ls) = e # read_lines loads ls"
| "read_lines loads (Fragment s # ls) =
     (if py_strip s = [] then read_lines loads ls
      else case loads (py_strip s) of None \<Rightarrow> read_lines loads ls | Some e \<Rightarrow> e # read_lines loads ls)"

definition read_recent_entries :: "(string \<Rightarrow> json option) \<Rightarrow> bool \<Rightarrow> int \<Rightarrow> jsonl \<Rightarrow> json list" where
  "read_recent_entries loads readable limit f =
     (case f of None \<Rightarrow> []
      | Some ls \<Rightarrow> if readable then py_take limit (rev (read_lines loads ls)) else [])"

section \<open>\<open>config/settings_history.py\<close>\<close>

definition trim_history :: "log_io \<Rightarrow> jsonl \<Rightarrow> jsonl" where
  "trim_history io f =
     (if \<not> io_read io then f
      else if length (lines_of f) \<le> MAX_ENTRIES then f
      else if io_write io then Some (last_n MAX_ENTRIES (lines_of f)) else f)"

text \<open>The part of \<open>record_settings_change\<close> after the diff.\<close>

definition history_append :: "(json \<Rightarrow> string) \<Rightarrow> log_io \<Rightarrow> json \<Rightarrow> jsonl \<Rightarrow> jsonl" where
  "history_append dumps io entry f =
     (if retry_if_dir_vanished (io_append io) (io_again io) \<noteq> Done then f
      else let f' = Some (lines_of f @ entry_lines dumps entry)
           in if TRIM_THRESHOLD_BYTES < io_tell io then trim_history io f' else f')"

definition read_settings_history :: "(string \<Rightarrow> json option) \<Rightarrow> bool \<Rightarrow> int \<Rightarrow> jsonl \<Rightarrow> json list" where
  "read_settings_history loads readable limit f =
     (case f of None \<Rightarrow> []
      | Some ls \<Rightarrow> if readable then py_take limit (rev (read_lines loads ls)) else [])"

section \<open>The contract of a capped log\<close>

locale capped_log =
  fixes append :: "log_io \<Rightarrow> 'e \<Rightarrow> jsonl \<Rightarrow> jsonl"
    and new_lines :: "'e \<Rightarrow> jline list"
  assumes keeps_suffix: "\<exists>k. lines_of (append io e f) = drop k (lines_of f @ new_lines e)
                            \<or> append io e f = f"
    and trims: "append io e f \<noteq> f \<Longrightarrow> TRIM_THRESHOLD_BYTES < io_tell io \<Longrightarrow> io_read io \<Longrightarrow> io_write io
      \<Longrightarrow> length (lines_of (append io e f)) \<le> MAX_ENTRIES"
    and keeps_recent: "length (new_lines e) \<le> MAX_ENTRIES \<Longrightarrow> io_append io = Done
      \<Longrightarrow> suffix (new_lines e) (lines_of (append io e f))"
begin

text \<open>Nothing is invented and nothing is re-ordered: after any series of appends the lines are a
  subsequence of the old lines followed by the new ones.\<close>

lemma run_subseq:
  "subseq (lines_of (foldl (\<lambda>f (io, e). append io e f) f ops)) (lines_of f @ concat (map (\<lambda>(io, e). new_lines e) ops))"
proof (induction ops arbitrary: f)
  case Nil
  then show ?case by simp
next
  case (Cons op ops)
  obtain io e where op: "op = (io, e)" by (cases op)
  have "subseq (lines_of (append io e f)) (lines_of f @ new_lines e)"
    using keeps_suffix [of io e f]
  proof (elim exE disjE)
    fix k assume "lines_of (append io e f) = drop k (lines_of f @ new_lines e)"
    then show ?thesis by (metis suffix_drop suffix_imp_sublist sublist_imp_subseq)
  qed auto
  then have "subseq (lines_of (append io e f) @ concat (map (\<lambda>(io, e). new_lines e) ops))
      (lines_of f @ new_lines e @ concat (map (\<lambda>(io, e). new_lines e) ops))"
    by (metis append_assoc list_emb_append_mono subseq_order.order_refl)
  with Cons [of "append io e f"] show ?case unfolding op by (auto intro: subseq_order.order_trans)
qed

text \<open>The entry appended last is the first one read.\<close>

lemma read_back:
  assumes "new_lines e = [Entry j]" "io_append io = Done"
  shows "hd (rev (read_lines loads (lines_of (append io e f)))) = j
    \<and> read_lines loads (lines_of (append io e f)) \<noteq> []"
proof -
  have "read_lines loads (ls @ [Entry j]) = read_lines loads ls @ [j]" for ls
    by (induction ls rule: read_lines.induct) (auto split: option.split)
  moreover have "suffix [Entry j] (lines_of (append io e f))"
    using keeps_recent [of e io f] assms by (simp add: MAX_ENTRIES_def)
  ultimately show ?thesis by (auto simp: suffix_def)
qed

end

lemma suffix_last_n: "length zs \<le> n \<Longrightarrow> suffix zs (last_n n (xs @ zs))"
  unfolding last_n_def by (metis (no_types) add_diff_cancel_right' append_take_drop_id diff_le_mono2
      drop_append length_append suffix_def append_eq_append_conv2 diff_diff_cancel drop_0 diff_is_0_eq le_diff_conv2)

lemma length_last_n [simp]: "length (last_n n xs) = min n (length xs)"
  by (simp add: last_n_def)

lemma last_n_drop: "\<exists>k. last_n n xs = drop k xs"
  unfolding last_n_def by (rule exI) (rule refl)

lemma all_drop: "\<exists>k. xs = drop k xs"
  by (rule exI [of _ 0]) simp

interpretation journal_log: capped_log
  "\<lambda>io (now, text). journal_append dumps io now text"
  "\<lambda>(now, text). entry_lines dumps (JObj [(''timestamp'', JStr now), (''text'', JStr text)])" for dumps
proof (unfold_locales, goal_cases)
  case (1 io e f)
  then show ?case
    by (cases e) (auto simp: journal_append_def journal_trim_def Let_def simp del: drop_append
        intro: last_n_drop all_drop)
next
  case (2 io e f)
  then show ?case by (cases e) (auto simp: journal_append_def journal_trim_def Let_def split: if_splits)
next
  case (3 e io f)
  then show ?case
    by (cases e) (auto simp: journal_append_def journal_trim_def Let_def suffix_last_n intro: suffixI)
qed

interpretation history_log: capped_log "history_append dumps" "entry_lines dumps" for dumps
proof (unfold_locales, goal_cases)
  case (1 io e f)
  then show ?case
    by (auto simp: history_append_def trim_history_def Let_def simp del: drop_append
        intro: last_n_drop all_drop)
next
  case (2 io e f)
  then show ?case by (auto simp: history_append_def trim_history_def Let_def split: if_splits)
next
  case (3 e io f)
  then show ?case
    by (auto simp: history_append_def trim_history_def retry_if_dir_vanished_def Let_def suffix_last_n intro: suffixI)
qed

end
