(* ===== verification/Settings.thy ===== *)
theory Settings
  imports Settings_Data Dpapi Jsonl
begin

text \<open>
  \<open>config/settings.py\<close> and \<open>config/settings_history.py\<close>: \<open>Settings.load\<close> and \<open>save\<close> on
  the configuration file, with the two secrets encrypted at that boundary, the journal of what
  each save changed and the undo of one save. The tables of fields interpret the
  locale \<open>field_table\<close>.
\<close>

section \<open>Journal of changes\<close>

text \<open>Python's \<open>==\<close> on the values \<open>json.loads\<close> and \<open>asdict\<close> produce.\<close>

fun num_of :: "json \<Rightarrow> rat option" where
  "num_of (JBool b) = Some (if b then 1 else 0)"
| "num_of (JInt n) = Some (of_int n)"
| "num_of (JFloat x) = Some x"
| "num_of _ = None"

fun py_eq :: "json \<Rightarrow> json \<Rightarrow> bool"
  and py_eqs :: "json list \<Rightarrow> json list \<Rightarrow> bool"
  and py_eqd :: "(string \<times> json) list \<Rightarrow> (string \<times> json) list \<Rightarrow> bool" where
  "py_eq JNull j = (j = JNull)"
| "py_eq (JStr s) j = (j = JStr s)"
| "py_eq (JArr xs) j = (case j of JArr ys \<Rightarrow> py_eqs xs ys | _ \<Rightarrow> False)"
| "py_eq (JObj xs) j = (case j of JObj ys \<Rightarrow> length xs = length ys \<and> py_eqd xs ys | _ \<Rightarrow> False)"
| "py_eq (JBool b) j = (num_of j = Some (if b then 1 else 0))"
| "py_eq (JInt n) j = (num_of j = Some (of_int n))"
| "py_eq (JFloat x) j = (num_of j = Some x)"
| "py_eqs [] ys = (ys = [])"
| "py_eqs (x # xs) ys = (case ys of [] \<Rightarrow> False | y # ys' \<Rightarrow> py_eq x y \<and> py_eqs xs ys')"
| "py_eqd [] ys = True"
| "py_eqd ((k, x) # xs) ys = ((case map_of ys k of None \<Rightarrow> False | Some y \<Rightarrow> py_eq x y) \<and> py_eqd xs ys)"

definition EXCLUDED_FIELDS :: "string list" where
  "EXCLUDED_FIELDS = [''proxy'', ''remote_access_token'']"

abbreviation dget_or :: "(string \<times> json) list \<Rightarrow> string \<Rightarrow> json \<Rightarrow> json" where
  "dget_or d k v \<equiv> (case map_of d k of None \<Rightarrow> v | Some x \<Rightarrow> x)"

definition settings_changes :: "(string \<times> json) list \<Rightarrow> (string \<times> json) list \<Rightarrow> (string \<times> json) list" where
  "settings_changes old_data new_data = List.map_filter
     (\<lambda>(k, new_value).
        if k \<in> set EXCLUDED_FIELDS then None
        else let old_value = dget_or old_data k JNull
             in if py_eq old_value new_value then None
                else Some (k, JObj [(''old'', old_value), (''new'', new_value)])) new_data"

text \<open>What the two modules take from the platform.\<close>

record settings_env =
  env_crypt :: "string \<Rightarrow> string option"
  env_decrypt :: "string \<Rightarrow> string option"
  env_dumps :: "json \<Rightarrow> string"
  env_now :: string
  env_log :: log_io
  env_write_ok :: bool
  env_download_dir :: string

definition change_entry :: "string \<Rightarrow> (string \<times> json) list \<Rightarrow> json" where
  "change_entry now changes = JObj [(''timestamp'', JStr now), (''changes'', JObj changes)]"

definition record_settings_change ::
  "settings_env \<Rightarrow> (string \<times> json) list \<Rightarrow> (string \<times> json) list \<Rightarrow> jsonl \<Rightarrow> jsonl" where
  "record_settings_change env old_data new_data f =
     (let changes = settings_changes old_data new_data
      in if changes = [] then f
         else history_append (env_dumps env) (env_log env) (change_entry (env_now env) changes) f)"

section \<open>save\<close>

text \<open>\<open>cd_last\<close> is \<open>_last_saved_config[path]\<close>.\<close>

record config_disk =
  cd_config :: disk_file
  cd_last :: "(string \<times> json) list option"
  cd_history :: jsonl

definition old_data :: "config_disk \<Rightarrow> json option" where
  "old_data d = (case cd_last d of
     Some kvs \<Rightarrow> Some (JObj kvs)
   | None \<Rightarrow> (case cd_config d of Doc JNull \<Rightarrow> None | Doc j \<Rightarrow> Some j | _ \<Rightarrow> None))"

text \<open>\<open>asdict(self)\<close> with the two secrets encrypted; \<open>None\<close>: \<open>protect\<close> raised.\<close>

definition protected_data :: "settings_env \<Rightarrow> settings \<Rightarrow> (string \<times> json) list option" where
  "protected_data env s =
     (case (protect (env_crypt env) (px_password (cfg_proxy s)), protect (env_crypt env) (cfg_remote_access_token s)) of
        (Some pw, Some tok) \<Rightarrow>
          Some (dset ''remote_access_token'' (JStr tok)
            (dset ''proxy'' (JObj (dset ''password'' (JStr pw) (asdict PROXY_FIELDS (cfg_proxy s))))
              (asdict SETTINGS_FIELDS s)))
      | _ \<Rightarrow> None)"

text \<open>The flag is False when the call raised.\<close>

definition save_settings :: "settings_env \<Rightarrow> settings \<Rightarrow> config_disk \<Rightarrow> config_disk \<times> bool" where
  "save_settings env s d =
     (case protected_data env s of
        None \<Rightarrow> (d, False)
      | Some new_data \<Rightarrow>
          if \<not> env_write_ok env then (d, False)
          else let d' = d\<lparr>cd_config := Doc (JObj new_data), cd_last := Some new_data\<rparr>
               in (case old_data d of
                     None \<Rightarrow> (d', True)
                   | Some (JObj old) \<Rightarrow>
                       (d'\<lparr>cd_history := record_settings_change env old new_data (cd_history d)\<rparr>, True)
                   | Some _ \<Rightarrow> (d', False)))"

section \<open>load\<close>

definition unprotect_key :: "settings_env \<Rightarrow> string \<Rightarrow> (string \<times> json) list \<Rightarrow> (string \<times> json) list" where
  "unprotect_key env k d =
     (case map_of d k of Some (JStr v) \<Rightarrow> dset k (JStr (unprotect (env_decrypt env) v)) d | _ \<Rightarrow> d)"

definition settings_of_data :: "settings_env \<Rightarrow> (string \<times> json) list \<Rightarrow> load_error + settings" where
  "settings_of_data env data =
     (let proxy_data = dget_or data ''proxy'' (JObj []);
          schedule_data = dget_or data ''bandwidth_schedule'' (JObj []);
          feeds_data = dget_or data ''rss_feeds'' (JArr []);
          rest = dpop ''rss_feeds'' (dpop ''bandwidth_schedule'' (dpop ''proxy'' data))
      in sbind (obj_of proxy_data) (\<lambda>pd.
         sbind (from_dict SETTINGS_FIELDS DEFAULT_SETTINGS (unprotect_key env ''remote_access_token'' rest)) (\<lambda>s.
         sbind (from_dict PROXY_FIELDS DEFAULT_PROXY (unprotect_key env ''password'' pd)) (\<lambda>p.
         sbind (schedule_of_json schedule_data) (\<lambda>b.
         sbind (feeds_of_json feeds_data) (\<lambda>fs.
         let s' = s\<lparr>cfg_proxy := p, cfg_bandwidth_schedule := b, cfg_rss_feeds := fs\<rparr>
         in Inr (if cfg_default_download_dir s' = [] then s'\<lparr>cfg_default_download_dir := env_download_dir env\<rparr>
                 else s')))))))"

definition load_settings :: "settings_env \<Rightarrow> config_disk \<Rightarrow> (load_error + settings) \<times> config_disk" where
  "load_settings env d =
     (let fresh = DEFAULT_SETTINGS\<lparr>cfg_default_download_dir := env_download_dir env\<rparr>
      in case cd_config d of
           Missing \<Rightarrow> (let (d', ok) = save_settings env fresh d in (if ok then Inr fresh else Inl TypeErr, d'))
         | Unreadable \<Rightarrow> (Inr fresh, d)
         | Garbage \<Rightarrow> (Inr fresh, d)
         | Doc j \<Rightarrow> (sbind (obj_of j) (settings_of_data env), d))"

section \<open>Undoing one save\<close>

fun falsy :: "json \<Rightarrow> bool" where
  "falsy JNull = True"
| "falsy (JBool b) = (\<not> b)"
| "falsy (JInt n) = (n = 0)"
| "falsy (JFloat x) = (x = 0)"
| "falsy (JStr s) = (s = [])"
| "falsy (JArr xs) = (xs = [])"
| "falsy (JObj xs) = (xs = [])"

definition restore_value :: "string \<Rightarrow> json \<Rightarrow> settings \<Rightarrow> load_error + settings" where
  "restore_value k old s =
     (if k = ''bandwidth_schedule'' then
        sbind (schedule_of_json (if falsy old then JObj [] else old)) (\<lambda>b. Inr (s\<lparr>cfg_bandwidth_schedule := b\<rparr>))
      else if k = ''rss_feeds'' then
        sbind (feeds_of_json (if falsy old then JArr [] else old)) (\<lambda>fs. Inr (s\<lparr>cfg_rss_feeds := fs\<rparr>))
      else case map_of SETTINGS_FIELDS k of None \<Rightarrow> Inr s | Some (g, put) \<Rightarrow> put old s)"

fun apply_changes :: "(string \<times> json) list \<Rightarrow> settings \<Rightarrow> load_error + settings" where
  "apply_changes [] s = Inr s"
| "apply_changes ((k, change) # cs) s =
     (if map_of SETTINGS_FIELDS k = None \<or> k \<in> set EXCLUDED_FIELDS then apply_changes cs s
      else sbind (obj_of change) (\<lambda>c. sbind (restore_value k (dget_or c ''old'' JNull) s) (apply_changes cs)))"

definition restore_settings_snapshot ::
  "settings_env \<Rightarrow> json \<Rightarrow> settings \<Rightarrow> config_disk \<Rightarrow> load_error + (settings \<times> config_disk)" where
  "restore_settings_snapshot env entry s d =
     sbind (obj_of entry) (\<lambda>e. sbind (obj_of (dget_or e ''changes'' (JObj []))) (\<lambda>changes.
     sbind (apply_changes changes s) (\<lambda>s'.
       let (d', ok) = save_settings env s' d in if ok then Inr (s', d') else Inl TypeErr)))"

section \<open>Facts: what is saved is what is loaded\<close>

lemma dpop_dset_same: "dpop k (dset k v d) = dpop k d"
  by (induction d) auto

lemma dpop_dset_other: "k \<noteq> k' \<Longrightarrow> dpop k (dset k' v d) = dset k' v (dpop k d)"
  by (induction d) auto

lemma dset_id: "map_of d k = Some v \<Longrightarrow> dset k v d = d"
  by (induction d) (auto split: if_splits)

lemma dset_dset: "dset k v (dset k w d) = dset k v d"
  by (induction d) auto

lemma dpop_asdict: "dpop k (asdict F s) = asdict (filter (\<lambda>f. fst f \<noteq> k) F) s"
  by (induction F) (auto simp: asdict_def)

lemma asdict_secret:
  "map_of (asdict SETTINGS_FIELDS s) ''remote_access_token'' = Some (JStr (cfg_remote_access_token s))"
  "map_of (asdict SETTINGS_FIELDS s) ''bandwidth_schedule'' = Some (schedule_json (cfg_bandwidth_schedule s))"
  "map_of (asdict SETTINGS_FIELDS s) ''rss_feeds'' = Some (feeds_json (cfg_rss_feeds s))"
  "map_of (asdict PROXY_FIELDS p) ''password'' = Some (JStr (px_password p))"
  by (simp_all add: map_of_asdict SETTINGS_FIELDS_def PROXY_FIELDS_def obj_field_def)

definition OWN_FIELDS :: "settings field list" where
  "OWN_FIELDS = filter (\<lambda>f. fst f \<notin> {''proxy'', ''bandwidth_schedule'', ''rss_feeds''}) SETTINGS_FIELDS"

lemma write_own:
  "\<exists>t. write_all OWN_FIELDS s DEFAULT_SETTINGS = Inr t
     \<and> t\<lparr>cfg_proxy := cfg_proxy s, cfg_bandwidth_schedule := cfg_bandwidth_schedule s, cfg_rss_feeds := cfg_rss_feeds s\<rparr> = s"
  by (simp add: OWN_FIELDS_def SETTINGS_FIELDS_def DEFAULT_SETTINGS_def obj_field_def)

lemma unprotect_key_hit:
  "map_of d k = Some (JStr v) \<Longrightarrow> unprotect_key env k d = dset k (JStr (unprotect (env_decrypt env) v)) d"
  by (simp add: unprotect_key_def)

lemma load_saved_data:
  assumes crypt: "\<And>p b. env_crypt env p = Some b \<Longrightarrow> env_decrypt env b = Some p"
    and utf8: "utf8_ok (px_password (cfg_proxy s))" "utf8_ok (cfg_remote_access_token s)"
    and data: "protected_data env s = Some new_data" and dir: "cfg_default_download_dir s \<noteq> []"
  shows "settings_of_data env new_data = Inr s"
proof -
  from data obtain pw tok where p: "protect (env_crypt env) (px_password (cfg_proxy s)) = Some pw"
      "protect (env_crypt env) (cfg_remote_access_token s) = Some tok"
    and nd: "new_data = dset ''remote_access_token'' (JStr tok)
        (dset ''proxy'' (JObj (dset ''password'' (JStr pw) (asdict PROXY_FIELDS (cfg_proxy s)))) (asdict SETTINGS_FIELDS s))"
    by (auto simp: protected_data_def split: option.splits)
  have u: "unprotect (env_decrypt env) pw = px_password (cfg_proxy s)"
    "unprotect (env_decrypt env) tok = cfg_remote_access_token s"
    using unprotect_protect [of "env_crypt env" "env_decrypt env"] crypt utf8 p by blast+
  have own: "dpop ''rss_feeds'' (dpop ''bandwidth_schedule'' (dpop ''proxy'' (asdict SETTINGS_FIELDS s))) = asdict OWN_FIELDS s"
    unfolding dpop_asdict OWN_FIELDS_def filter_filter by (rule arg_cong [of _ _ "\<lambda>G. asdict G s"], rule filter_cong) auto
  have tok: "map_of (asdict OWN_FIELDS s) ''remote_access_token'' = Some (JStr (cfg_remote_access_token s))"
    using asdict_secret(1) [of s] unfolding own [symmetric] by simp
  have rest: "unprotect_key env ''remote_access_token''
       (dpop ''rss_feeds'' (dpop ''bandwidth_schedule'' (dpop ''proxy'' new_data))) = asdict OWN_FIELDS s"
    unfolding nd by (simp add: dpop_dset_other dpop_dset_same own unprotect_key_hit u dset_dset dset_id tok)
  have pd: "unprotect_key env ''password'' (dset ''password'' (JStr pw) (asdict PROXY_FIELDS (cfg_proxy s)))
      = asdict PROXY_FIELDS (cfg_proxy s)"
    by (simp add: unprotect_key_hit u dset_dset dset_id asdict_secret)
  obtain t where t: "from_dict SETTINGS_FIELDS DEFAULT_SETTINGS (asdict OWN_FIELDS s) = Inr t"
    and ts: "t\<lparr>cfg_proxy := cfg_proxy s, cfg_bandwidth_schedule := cfg_bandwidth_schedule s, cfg_rss_feeds := cfg_rss_feeds s\<rparr> = s"
    using write_own [of s] from_dict_asdict_gen [OF settings_names, of OWN_FIELDS DEFAULT_SETTINGS s]
    by (auto simp: OWN_FIELDS_def)
  have ts_dir: "cfg_default_download_dir t = cfg_default_download_dir s"
    using arg_cong [OF ts, of cfg_default_download_dir] by simp
  have keys: "map_of new_data ''proxy'' = Some (JObj (dset ''password'' (JStr pw) (asdict PROXY_FIELDS (cfg_proxy s))))"
    "map_of new_data ''bandwidth_schedule'' = Some (schedule_json (cfg_bandwidth_schedule s))"
    "map_of new_data ''rss_feeds'' = Some (feeds_json (cfg_rss_feeds s))"
    unfolding nd by (simp_all add: asdict_secret)
  show ?thesis
    unfolding settings_of_data_def Let_def keys rest
    using dir ts_dir by (simp add: pd t ts proxy_table.from_dict_asdict)
qed

section \<open>Facts: the journal and the undo\<close>

lemma record_hides_secrets:
  "k \<in> set (map fst (settings_changes old new)) \<Longrightarrow> k \<notin> set EXCLUDED_FIELDS \<and> k \<in> set (map fst new)"
  by (force simp: settings_changes_def List.map_filter_def Let_def split: if_splits)

text \<open>Assigning, one after another, the values \<open>src\<close> has to a record that starts as \<open>new\<close>
  ends in \<open>fin\<close>, and an assignment of the value a field already had in \<open>new\<close> changes
  nothing.\<close>

fun assigns :: "'r field list \<Rightarrow> 'r \<Rightarrow> 'r \<Rightarrow> 'r \<Rightarrow> 'r \<Rightarrow> bool" where
  "assigns [] src new s fin \<longleftrightarrow> s = fin"
| "assigns (f # F) src new s fin \<longleftrightarrow>
     (\<exists>t. snd (snd f) (fst (snd f) src) s = Inr t
        \<and> (py_eq (fst (snd f) src) (fst (snd f) new) \<longrightarrow> t = s) \<and> assigns F src new t fin)"

lemma py_eq_feeds: "py_eq (feeds_json xs) (feeds_json ys) \<longleftrightarrow> xs = ys"
proof -
  have o: "py_eq (JObj (asdict FEED_FIELDS x)) (JObj (asdict FEED_FIELDS y)) \<longleftrightarrow> x = y" for x y
    by (cases x; cases y) (auto simp: asdict_def FEED_FIELDS_def obj_field_def)
  have "py_eqs (map (\<lambda>f. JObj (asdict FEED_FIELDS f)) xs) (map (\<lambda>f. JObj (asdict FEED_FIELDS f)) ys) \<longleftrightarrow> xs = ys"
    using o by (induction xs arbitrary: ys; case_tac ys) (auto simp del: py_eq.simps)
  then show ?thesis by (simp add: feeds_json_def)
qed

lemma py_eq_schedule: "py_eq (schedule_json x) (schedule_json y) \<longleftrightarrow> x = y"
  unfolding schedule_json_def
  by (cases x; cases y) (auto simp: asdict_def SCHEDULE_FIELDS_def obj_field_def)

lemma py_eq_id:
  "py_eq (JStr a) (JStr b) \<longleftrightarrow> a = b" "py_eq (JInt m) (JInt n) \<longleftrightarrow> m = n"
  "py_eq (JFloat x) (JFloat y) \<longleftrightarrow> x = y" "py_eq (JBool p) (JBool q) \<longleftrightarrow> p = q"
  "py_eq (schedule_json c) (schedule_json d) \<longleftrightarrow> c = d" "py_eq (feeds_json es) (feeds_json fs) \<longleftrightarrow> es = fs"
  by (auto simp: py_eq_schedule py_eq_feeds split: if_splits)

lemma fst_obj: "fst (obj_field n enc dec get upd) = n"
  by (simp add: obj_field_def)

lemma assigns_obj:
  assumes "\<And>x. dec (enc x) = Inr x" "\<And>x y. py_eq (enc x) (enc y) \<longleftrightarrow> x = y"
    and "\<And>s. upd (\<lambda>_. get s) s = s"
    and "get s = get new" "assigns F src new (upd (\<lambda>_. get src) s) fin"
  shows "assigns (obj_field n enc dec get upd # F) src new s fin"
  using assms by (auto simp: obj_field_def) metis

lemma assigns_settings:
  "assigns (filter (\<lambda>f. fst f \<notin> set EXCLUDED_FIELDS) SETTINGS_FIELDS) src new new
     (src\<lparr>cfg_proxy := cfg_proxy new, cfg_remote_access_token := cfg_remote_access_token new\<rparr>)"
  apply (simp add: fst_obj SETTINGS_FIELDS_def EXCLUDED_FIELDS_def del: assigns.simps)
  apply (rule assigns_obj, simp, simp only: py_eq_id, simp, simp)+
  apply simp
  done

lemma restore_value_field:
  assumes "map_of SETTINGS_FIELDS n = Some (g, put)"
  shows "restore_value n (g old) s = put (g old) s"
proof -
  have "map_of SETTINGS_FIELDS ''bandwidth_schedule''
      = Some (snd (obj_field ''bandwidth_schedule'' schedule_json schedule_of_json cfg_bandwidth_schedule cfg_bandwidth_schedule_update))"
    "map_of SETTINGS_FIELDS ''rss_feeds''
      = Some (snd (obj_field ''rss_feeds'' feeds_json feeds_of_json cfg_rss_feeds cfg_rss_feeds_update))"
    by (simp_all add: SETTINGS_FIELDS_def obj_field_def)
  moreover have "\<not> falsy (schedule_json b)" for b
    by (simp add: schedule_json_def asdict_def SCHEDULE_FIELDS_def)
  moreover have "falsy (feeds_json fs) \<longleftrightarrow> fs = []" for fs
    by (simp add: feeds_json_def)
  ultimately show ?thesis
    using assms by (auto simp: restore_value_def obj_field_def simp del: falsy.simps)
qed

lemma settings_changes_Cons:
  "settings_changes od ((k, v) # nd) =
     (if k \<in> set EXCLUDED_FIELDS \<or> py_eq (dget_or od k JNull) v then []
      else [(k, JObj [(''old'', dget_or od k JNull), (''new'', v)])]) @ settings_changes od nd"
  by (simp add: settings_changes_def List.map_filter_simps Let_def)

lemma undo_fields:
  assumes "distinct (map fst G)" "set G \<subseteq> set SETTINGS_FIELDS" "assigns (filter (\<lambda>f. fst f \<notin> set EXCLUDED_FIELDS) G) old new s fin"
  shows "apply_changes (settings_changes (asdict SETTINGS_FIELDS old) (asdict G new)) s = Inr fin"
  using assms
proof (induction G arbitrary: s)
  case Nil
  then show ?case by (simp add: asdict_def settings_changes_def List.map_filter_simps)
next
  case (Cons f G)
  obtain n g put where f: "f = (n, g, put)" by (cases f)
  have m: "map_of SETTINGS_FIELDS n = Some (g, put)"
    using Cons.prems(2) f settings_names by (intro map_of_is_SomeI) auto
  have old: "dget_or (asdict SETTINGS_FIELDS old) n JNull = g old" by (simp add: map_of_asdict m)
  have as: "asdict (f # G) new = (n, g new) # asdict G new" by (simp add: f asdict_def)
  show ?case
  proof (cases "n \<in> set EXCLUDED_FIELDS")
    case True
    then show ?thesis unfolding as settings_changes_Cons using Cons f by simp
  next
    case False
    then obtain t where t: "put (g old) s = Inr t" "py_eq (g old) (g new) \<longrightarrow> t = s"
      "assigns (filter (\<lambda>f. fst f \<notin> set EXCLUDED_FIELDS) G) old new t fin"
      using Cons.prems(3) f by auto
    have IH: "apply_changes (settings_changes (asdict SETTINGS_FIELDS old) (asdict G new)) t = Inr fin"
      using Cons.IH [OF _ _ t(3)] Cons.prems(1,2) by simp
    show ?thesis
      unfolding as settings_changes_Cons old
      using False t IH by (auto simp: m restore_value_field [OF m])
  qed
qed

lemma changes_ignore_secrets:
  assumes "k \<in> set EXCLUDED_FIELDS"
  shows "settings_changes (dset k v od) nd = settings_changes od nd"
    and "map_of nd k \<noteq> None \<Longrightarrow> settings_changes od (dset k v nd) = settings_changes od nd"
proof -
  show "settings_changes (dset k v od) nd = settings_changes od nd"
    using assms by (induction nd) (auto simp: settings_changes_Cons settings_changes_def [of _ "[]"])
  show "settings_changes od (dset k v nd) = settings_changes od nd" if "map_of nd k \<noteq> None"
    using assms that by (induction nd) (auto simp: settings_changes_Cons split: if_splits)
qed

lemma undo_changes:
  assumes "protected_data env0 old = Some od" "protected_data env new = Some nd"
  shows "apply_changes (settings_changes od nd) new =
    Inr (old\<lparr>cfg_proxy := cfg_proxy new, cfg_remote_access_token := cfg_remote_access_token new\<rparr>)"
proof -
  have px: "map_of (asdict SETTINGS_FIELDS s) ''proxy'' \<noteq> None" for s
    by (simp add: map_of_asdict SETTINGS_FIELDS_def obj_field_def)
  have "settings_changes od nd = settings_changes (asdict SETTINGS_FIELDS old) (asdict SETTINGS_FIELDS new)"
    using assms asdict_secret(1) px
    by (auto simp: protected_data_def changes_ignore_secrets EXCLUDED_FIELDS_def split: option.splits)
  then show ?thesis using undo_fields [OF settings_names order_refl assigns_settings] by simp
qed

section \<open>Properties\<close>

lemma load_after_save:
  assumes "\<And>p b. env_crypt env p = Some b \<Longrightarrow> env_decrypt env b = Some p"
    and "utf8_ok (px_password (cfg_proxy s))" "utf8_ok (cfg_remote_access_token s)"
    and "cfg_default_download_dir s \<noteq> []"
    and "save_settings env s d = (d', True)"
  shows "fst (load_settings env d') = Inr s"
proof -
  obtain nd where nd: "protected_data env s = Some nd" and d': "cd_config d' = Doc (JObj nd)"
    using assms(5) by (auto simp: save_settings_def Let_def split: option.splits json.splits if_splits)
  have "settings_of_data env nd = Inr s" using load_saved_data [OF assms(1-3) nd assms(4)] by blast
  with d' show ?thesis by (simp add: load_settings_def)
qed

text \<open>What is stored of a secret: nothing of an empty one, and of any other the marker with the base64 of what
  the operating system makes of it.\<close>

definition stored_secret :: "settings_env \<Rightarrow> string \<Rightarrow> string \<Rightarrow> bool" where
  "stored_secret env plain v \<longleftrightarrow>
     (if plain = [] then v = [] else \<exists>b. env_crypt env plain = Some b \<and> v = ''dpapi:'' @ b64encode b)"

lemma protect_stored: "protect (env_crypt env) plain = Some v \<Longrightarrow> stored_secret env plain v"
  by (auto simp: protect_def stored_secret_def DPAPI_PREFIX_def split: option.splits if_splits)

text \<open>C8: what \<open>save\<close> writes, \<open>load\<close> gives back, all 55 fields and the nested ones, whether or
  not a previous file existed, while of the two secrets, the proxy's password and the token of the
  remote access, the file holds only the encrypted form, under the keys where they belong.\<close>

theorem save_then_load:
  assumes "\<And>p b. env_crypt env p = Some b \<Longrightarrow> env_decrypt env b = Some p"
    and "utf8_ok (px_password (cfg_proxy s))" "utf8_ok (cfg_remote_access_token s)"
    and "cfg_default_download_dir s \<noteq> []"
    and "save_settings env s d = (d', True)"
  shows "fst (load_settings env d') = Inr s
    \<and> (\<exists>data proxy token password. cd_config d' = Doc (JObj data)
        \<and> map_of data ''remote_access_token'' = Some (JStr token) \<and> stored_secret env (cfg_remote_access_token s) token
        \<and> map_of data ''proxy'' = Some (JObj proxy)
        \<and> map_of proxy ''password'' = Some (JStr password) \<and> stored_secret env (px_password (cfg_proxy s)) password)"
proof -
  obtain nd where nd: "protected_data env s = Some nd" and d': "cd_config d' = Doc (JObj nd)"
    using assms(5) by (auto simp: save_settings_def Let_def split: option.splits json.splits if_splits)
  obtain token password where p: "protect (env_crypt env) (cfg_remote_access_token s) = Some token"
      "protect (env_crypt env) (px_password (cfg_proxy s)) = Some password"
    using nd by (auto simp: protected_data_def split: option.splits)
  with nd have "map_of nd ''remote_access_token'' = Some (JStr token)"
      "map_of nd ''proxy'' = Some (JObj (dset ''password'' (JStr password) (asdict PROXY_FIELDS (cfg_proxy s))))"
    by (auto simp: protected_data_def)
  moreover have "map_of (dset ''password'' (JStr password) x) ''password'' = Some (JStr password)" for x by simp
  ultimately show ?thesis using d' p [THEN protect_stored] load_after_save [OF assms] by blast
qed

definition demo_env :: settings_env where
  "demo_env = \<lparr>env_crypt = (\<lambda>p. Some (rev p)), env_decrypt = (\<lambda>b. Some (rev b)), env_dumps = (\<lambda>_. ''{}''),
     env_now = ''2026-01-01'', env_log = \<lparr>io_append = Done, io_again = Done, io_read = True, io_write = True, io_tell = 10\<rparr>,
     env_write_ok = True, env_download_dir = ''D:''\<rparr>"

definition demo_settings :: settings where
  "demo_settings = DEFAULT_SETTINGS\<lparr>cfg_default_download_dir := ''D:'', cfg_remote_access_token := ''tok''\<rparr>"

lemma demo_protected: "\<exists>nd. protected_data demo_env demo_settings = Some nd"
  by (simp add: protected_data_def demo_env_def protect_def split: option.split)

theorem save_then_load_witness:
  "let d' = fst (save_settings demo_env demo_settings \<lparr>cd_config = Missing, cd_last = None, cd_history = None\<rparr>)
   in fst (load_settings demo_env d') = Inr demo_settings
     \<and> (\<exists>data. cd_config d' = Doc (JObj data) \<and> map_of data ''remote_access_token'' = Some (JStr ''dpapi:a290''))"
proof -
  let ?d = "\<lparr>cd_config = Missing, cd_last = None, cd_history = None\<rparr>"
  obtain nd where nd: "protected_data demo_env demo_settings = Some nd" using demo_protected by blast
  have env: "env_crypt demo_env = (\<lambda>p. Some (rev p))" "env_decrypt demo_env = (\<lambda>b. Some (rev b))" "env_write_ok demo_env"
    by (simp_all add: demo_env_def)
  have ok: "snd (save_settings demo_env demo_settings ?d)"
    by (simp add: save_settings_def nd env old_data_def Let_def)
  have "px_password (cfg_proxy demo_settings) = []" "cfg_remote_access_token demo_settings = ''tok''"
    "cfg_default_download_dir demo_settings = ''D:''"
    by (simp_all add: demo_settings_def DEFAULT_SETTINGS_def DEFAULT_PROXY_def)
  moreover have "utf8_ok ''tok''" "utf8_ok []" "b64encode (rev ''tok'') = ''a290''" by code_simp+
  ultimately show ?thesis
    using save_then_load [of demo_env demo_settings ?d "fst (save_settings demo_env demo_settings ?d)"] ok env
    by (auto simp: prod_eq_iff Let_def stored_secret_def)
qed

text \<open>C9: the entry a save journals is the first one the history page reads, it names no secret
  field, and restoring it puts back every other field that the save changed, and only those.\<close>

theorem undo_last_save:
  assumes "protected_data env old = Some od" and "old_data d = Some (JObj od)"
    and "save_settings env new d = (d', True)" and "settings_changes od (the (protected_data env new)) \<noteq> []"
    and "io_append (env_log env) = Done"
    and "let e = change_entry (env_now env) (settings_changes od (the (protected_data env new)))
         in entry_lines (env_dumps env) e = [Entry e]"
  shows "\<exists>changes more d''.
      read_settings_history loads True 50 (cd_history d') = change_entry (env_now env) changes # more
    \<and> set (map fst changes) \<inter> {''proxy'', ''remote_access_token''} = {}
    \<and> (restore_settings_snapshot env (change_entry (env_now env) changes) new d' = Inr
         (old\<lparr>cfg_proxy := cfg_proxy new, cfg_remote_access_token := cfg_remote_access_token new\<rparr>, d''))"
proof -
  obtain nd where nd: "protected_data env new = Some nd" "env_write_ok env"
    using assms(3) by (auto simp: save_settings_def split: option.splits if_splits)
  define cs where "cs = settings_changes od nd"
  define e where "e = change_entry (env_now env) cs"
  have hist: "cd_history d' = history_append (env_dumps env) (env_log env) e (cd_history d)"
    and last: "cd_last d' = Some nd"
    using assms(3) nd by (auto simp: save_settings_def assms(2) Let_def record_settings_change_def
        assms(4) [unfolded nd option.sel] cs_def e_def)
  define ls where "ls = read_lines loads (lines_of (cd_history d'))"
  have "hd (rev ls) = e" "ls \<noteq> []"
    using history_log.read_back [of "env_dumps env" e e "env_log env" loads "cd_history d"] assms(5,6) hist ls_def
    by (auto simp: Let_def nd e_def cs_def)
  moreover have "cd_history d' \<noteq> None"
    using assms(5) unfolding hist by (auto simp: history_append_def trim_history_def retry_if_dir_vanished_def Let_def)
  ultimately have read: "read_settings_history loads True 50 (cd_history d') = e # take 49 (tl (rev ls))"
    unfolding read_settings_history_def py_take_def ls_def
    by (cases "rev ls") (auto simp: ls_def split: option.splits)
  let ?old = "old\<lparr>cfg_proxy := cfg_proxy new, cfg_remote_access_token := cfg_remote_access_token new\<rparr>"
  obtain od' where od': "protected_data env ?old = Some od'"
    using nd(1) by (auto simp: protected_data_def split: option.splits)
  have "snd (save_settings env ?old d')" by (simp add: save_settings_def od' nd old_data_def last Let_def)
  then obtain d'' where d'': "save_settings env ?old d' = (d'', True)" by (metis eq_snd_iff)
  have "restore_settings_snapshot env e new d' = Inr (?old, d'')"
    using undo_changes [OF assms(1) nd(1)] d''
    by (simp add: restore_settings_snapshot_def e_def change_entry_def cs_def)
  moreover have "set (map fst cs) \<inter> {''proxy'', ''remote_access_token''} = {}"
    using record_hides_secrets [of _ od nd] by (auto simp: cs_def EXCLUDED_FIELDS_def)
  ultimately show ?thesis using read e_def by blast
qed

theorem undo_last_save_witness:
  "\<exists>changes d''. restore_settings_snapshot demo_env (change_entry ''2026-01-01'' changes)
       (demo_settings\<lparr>cfg_theme := ''cccp''\<rparr>)
       (fst (save_settings demo_env (demo_settings\<lparr>cfg_theme := ''cccp''\<rparr>)
          \<lparr>cd_config = Missing, cd_last = protected_data demo_env demo_settings, cd_history = None\<rparr>))
     = Inr (demo_settings, d'')"
proof -
  obtain od where od: "protected_data demo_env demo_settings = Some od" using demo_protected by blast
  let ?new = "demo_settings\<lparr>cfg_theme := ''cccp''\<rparr>"
  let ?d = "\<lparr>cd_config = Missing, cd_last = Some od, cd_history = None\<rparr>"
  obtain nd where nd: "protected_data demo_env ?new = Some nd"
    using od by (auto simp: protected_data_def split: option.splits)
  have "settings_changes od nd \<noteq> []"
  proof
    assume "settings_changes od nd = []"
    then have "?new = demo_settings\<lparr>cfg_proxy := cfg_proxy ?new, cfg_remote_access_token := cfg_remote_access_token ?new\<rparr>"
      using undo_changes [OF od nd] by simp
    from arg_cong [OF this, of cfg_theme] show False by (simp add: demo_settings_def DEFAULT_SETTINGS_def)
  qed
  moreover have "entry_lines (env_dumps demo_env) e = [Entry e]" for e
    by (simp add: demo_env_def entry_lines_def splitlines_def simple_break_def Let_def)
  moreover have "snd (save_settings demo_env ?new ?d)"
    by (simp add: save_settings_def nd old_data_def Let_def) (simp add: demo_env_def)
  moreover have "io_append (env_log demo_env) = Done" "env_now demo_env = ''2026-01-01''"
    by (simp_all add: demo_env_def)
  moreover have "demo_settings\<lparr>cfg_proxy := cfg_proxy ?new, cfg_remote_access_token := cfg_remote_access_token ?new\<rparr> = demo_settings"
    by simp
  ultimately show ?thesis
    using undo_last_save [OF od, of ?d ?new "fst (save_settings demo_env ?new ?d)" "\<lambda>_. None"] nd od
    by (simp add: prod_eq_iff old_data_def Let_def) metis
qed

end
