(* ===== verification/Torrent_Item.thy ===== *)
theory Torrent_Item
  imports Danger_Scanner Settings
begin

text \<open>
  \<open>engine/torrent_item.py\<close> (states and records), \<open>engine/add_params.py\<close>, \<open>engine/proxy.py\<close>,
  \<open>engine/trackers.py\<close>, \<open>engine/torrent_files.py\<close> and \<open>status_to_record\<close> of \<open>engine/alerts.py\<close>.

  Values libtorrent hands over (statuses, torrent metadata, add parameters, tracker entries) are
  records of the attributes the code reads; libtorrent's constructors, parsers and enumeration
  values are parameters.
\<close>

section \<open>TorrentState\<close>

datatype torrent_state = QUEUED | CHECKING_METADATA | AWAITING_ANALYSIS | DOWNLOADING | PAUSED | SEEDING | FINISHED | ERROR

definition from_libtorrent_state :: "string \<Rightarrow> bool \<Rightarrow> bool \<Rightarrow> bool \<Rightarrow> torrent_state" where
  "from_libtorrent_state lt_state paused has_metadata awaiting_analysis =
     (if awaiting_analysis then AWAITING_ANALYSIS
      else if \<not> has_metadata then CHECKING_METADATA
      else if paused then PAUSED
      else if contains ''seeding'' lt_state then SEEDING
      else if contains ''finished'' lt_state then FINISHED
      else DOWNLOADING)"

definition ACTIVE_DOWNLOAD_STATES :: "torrent_state list" where
  "ACTIVE_DOWNLOAD_STATES = [DOWNLOADING, QUEUED, CHECKING_METADATA]"

section \<open>Records\<close>

record tracker_info =
  tk_url :: string
  tk_tier :: int
  tk_last_error :: string

record peer_info =
  pe_ip :: string
  pe_client :: string
  pe_progress :: rat
  pe_down_speed :: int
  pe_up_speed :: int

record torrent_record =
  tr_info_hash :: string
  tr_name :: string
  tr_save_path :: string
  tr_total_size :: int
  tr_progress :: rat
  tr_download_rate :: int
  tr_upload_rate :: int
  tr_state :: torrent_state
  tr_num_peers :: int
  tr_num_seeds :: int
  tr_total_downloaded :: int
  tr_total_uploaded :: int
  tr_all_time_downloaded :: int
  tr_all_time_uploaded :: int
  tr_error :: string
  tr_is_magnet_awaiting_metadata :: bool
  tr_awaiting_analysis :: bool
  tr_trackers :: "tracker_info list"
  tr_current_tracker :: string
  tr_file_list :: "file_entry list option"
  tr_danger_report :: "scan_result option"
  tr_sequential_download :: bool
  tr_queue_position :: int
  tr_is_private :: bool
  tr_category :: string
  tr_locked :: bool
  tr_completed_at :: "rat option"
  tr_pinned :: bool
  tr_deadline :: "rat option"
  tr_matched_rule_name :: "string option"

definition new_record :: "string \<Rightarrow> torrent_record" where
  "new_record info_hash = \<lparr>tr_info_hash = info_hash, tr_name = [], tr_save_path = [], tr_total_size = 0,
     tr_progress = 0, tr_download_rate = 0, tr_upload_rate = 0, tr_state = QUEUED, tr_num_peers = 0,
     tr_num_seeds = 0, tr_total_downloaded = 0, tr_total_uploaded = 0, tr_all_time_downloaded = 0,
     tr_all_time_uploaded = 0, tr_error = [], tr_is_magnet_awaiting_metadata = False,
     tr_awaiting_analysis = False, tr_trackers = [], tr_current_tracker = [], tr_file_list = None,
     tr_danger_report = None, tr_sequential_download = False, tr_queue_position = - 1,
     tr_is_private = False, tr_category = [], tr_locked = False, tr_completed_at = None,
     tr_pinned = False, tr_deadline = None, tr_matched_rule_name = None\<rparr>"

section \<open>What libtorrent reports\<close>

record lt_hashes =
  hs_v1 :: "string option"
  hs_v2 :: string

text \<open>\<open>_info_hash_hex\<close>, \<open>_hash_hex\<close>\<close>

definition info_hash_hex_of :: "lt_hashes \<Rightarrow> string" where
  "info_hash_hex_of h = (case hs_v1 h of Some v1 \<Rightarrow> v1 | None \<Rightarrow> hs_v2 h)"

record lt_status =
  sx_info_hashes :: lt_hashes
  sx_name :: string
  sx_save_path :: string
  sx_total_wanted :: int
  sx_progress :: rat
  sx_download_rate :: int
  sx_upload_rate :: int
  sx_num_peers :: int
  sx_num_seeds :: int
  sx_total_download :: int
  sx_total_upload :: int
  sx_all_time_download :: int
  sx_all_time_upload :: int
  sx_error :: string
  sx_current_tracker :: string
  sx_sequential_download :: bool
  sx_queue_position :: int
  sx_has_metadata :: bool
  sx_state :: string
  sx_paused :: bool

definition status_to_record :: "lt_status \<Rightarrow> torrent_record \<Rightarrow> torrent_record" where
  "status_to_record status r = r\<lparr>
     tr_name := (if sx_name status \<noteq> [] then sx_name status else tr_name r),
     tr_save_path := sx_save_path status,
     tr_total_size := sx_total_wanted status,
     tr_progress := sx_progress status,
     tr_download_rate := sx_download_rate status,
     tr_upload_rate := sx_upload_rate status,
     tr_num_peers := sx_num_peers status,
     tr_num_seeds := sx_num_seeds status,
     tr_total_downloaded := sx_total_download status,
     tr_total_uploaded := sx_total_upload status,
     tr_all_time_downloaded := sx_all_time_download status,
     tr_all_time_uploaded := sx_all_time_upload status,
     tr_error := sx_error status,
     tr_current_tracker := sx_current_tracker status,
     tr_sequential_download := sx_sequential_download status,
     tr_queue_position := sx_queue_position status,
     tr_is_magnet_awaiting_metadata := \<not> sx_has_metadata status,
     tr_state := from_libtorrent_state (sx_state status) (sx_paused status) (sx_has_metadata status) (tr_awaiting_analysis r)\<rparr>"

record lt_file =
  lf_path :: string
  lf_size :: int
  lf_offset :: int
  lf_pad :: bool
  lf_hidden :: bool
  lf_executable :: bool

record torrent_info =
  ti_hashes :: lt_hashes
  ti_files :: "lt_file list"
  ti_priv :: bool
  ti_num_pieces :: int
  ti_piece_length :: int

text \<open>\<open>files_from_torrent_info\<close>: pad files are left out, indices are the torrent's.\<close>

definition files_from_torrent_info :: "torrent_info \<Rightarrow> file_entry list" where
  "files_from_torrent_info ti =
     List.map_filter (\<lambda>(i, f). if lf_pad f then None
       else Some \<lparr>fe_index = int i, fe_path = lf_path f, fe_size = lf_size f, fe_hidden = lf_hidden f,
                  fe_executable_flag = lf_executable f\<rparr>)
       (enumerate 0 (ti_files ti))"

section \<open>\<open>engine/add_params.py\<close>\<close>

record atp =
  ap_ti :: "torrent_info option"
  ap_info_hashes :: lt_hashes
  ap_name :: string
  ap_save_path :: string
  ap_file_priorities :: "int list"
  ap_duplicate_is_error :: bool
  ap_disable_dht :: bool
  ap_disable_pex :: bool
  ap_disable_lsd :: bool
  ap_paused :: bool
  ap_auto_managed :: bool
  ap_have_pieces :: "bool list"
  ap_piece_priorities :: "int list"
  ap_total_downloaded :: int
  ap_total_uploaded :: int

definition FILE_PRIORITY_EXCLUDED :: int where "FILE_PRIORITY_EXCLUDED = 0"
definition FILE_PRIORITY_DEFAULT :: int where "FILE_PRIORITY_DEFAULT = 4"

definition restrict_flags :: "atp \<Rightarrow> atp" where
  "restrict_flags a = a\<lparr>ap_disable_dht := True, ap_disable_pex := True, ap_disable_lsd := True\<rparr>"

text \<open>\<open>blank\<close> is \<open>lt.add_torrent_params()\<close>, \<open>ti\<close> what \<open>lt.torrent_info(path)\<close> parsed.\<close>

definition from_torrent_file :: "atp \<Rightarrow> torrent_info \<Rightarrow> string \<Rightarrow> int set \<Rightarrow> bool \<Rightarrow> atp" where
  "from_torrent_file blank ti save_path excluded restrict_discovery =
     (let a1 = blank\<lparr>ap_ti := Some ti, ap_save_path := save_path, ap_duplicate_is_error := True\<rparr>;
          a2 = (if restrict_discovery then restrict_flags a1 else a1)
      in if excluded \<noteq> {} then
           a2\<lparr>ap_file_priorities := map (\<lambda>i. if int i \<in> excluded then FILE_PRIORITY_EXCLUDED else FILE_PRIORITY_DEFAULT)
                 [0..<length (ti_files ti)]\<rparr>
         else a2)"

text \<open>\<open>parsed\<close> is \<open>lt.parse_magnet_uri(uri)\<close>.\<close>

definition from_magnet_uri :: "atp \<Rightarrow> string \<Rightarrow> bool \<Rightarrow> atp" where
  "from_magnet_uri parsed save_path restrict_discovery =
     (let a = parsed\<lparr>ap_save_path := save_path\<rparr> in if restrict_discovery then restrict_flags a else a)"

text \<open>The loop of \<open>resume_data_is_complete\<close>.\<close>

fun wanted_pieces_present :: "nat \<Rightarrow> bool list \<Rightarrow> int list \<Rightarrow> bool" where
  "wanted_pieces_present index [] priorities = True"
| "wanted_pieces_present index (has_piece # rest) priorities =
     (if has_piece then wanted_pieces_present (index + 1) rest priorities
      else if (if index < length priorities then priorities ! index else FILE_PRIORITY_DEFAULT) \<noteq> 0 then False
      else wanted_pieces_present (index + 1) rest priorities)"

definition resume_data_is_complete :: "atp \<Rightarrow> bool" where
  "resume_data_is_complete a =
     (if ap_have_pieces a = [] then False
      else wanted_pieces_present 0 (ap_have_pieces a) (ap_piece_priorities a))"

definition info_hash_hex :: "atp \<Rightarrow> string" where
  "info_hash_hex a = info_hash_hex_of (case ap_ti a of Some ti \<Rightarrow> ti_hashes ti | None \<Rightarrow> ap_info_hashes a)"

lemma wanted_pieces_present_iff:
  "wanted_pieces_present k have ps \<longleftrightarrow>
     (\<forall>i < length have. have ! i \<or> (k + i < length ps \<and> ps ! (k + i) = 0))"
proof (induction "have" arbitrary: k)
  case Nil
  then show ?case by simp
next
  case (Cons b bs)
  have "(\<forall>i < length (b # bs). (b # bs) ! i \<or> (k + i < length ps \<and> ps ! (k + i) = 0))
      \<longleftrightarrow> (b \<or> (k < length ps \<and> ps ! k = 0)) \<and> (\<forall>i < length bs. bs ! i \<or> (k + 1 + i < length ps \<and> ps ! (k + 1 + i) = 0))"
    by (simp add: All_less_Suc2)
  then show ?case using Cons.IH [of "k + 1"] by (auto simp: FILE_PRIORITY_DEFAULT_def)
qed

section \<open>\<open>engine/trackers.py\<close>\<close>

text \<open>A dictionary of \<open>handle.trackers()\<close>: absent keys are \<open>None\<close>; \<open>last_error\<close> is a dictionary
  whose \<open>value\<close> is kept.\<close>

record tracker_entry =
  te_url :: "string option"
  te_tier :: "int option"
  te_last_error :: "int option"
  te_message :: "string option"

abbreviation opt_or :: "'a option \<Rightarrow> 'a \<Rightarrow> 'a" where
  "opt_or x d \<equiv> (case x of Some v \<Rightarrow> v | None \<Rightarrow> d)"

definition get_trackers_of :: "tracker_entry list \<Rightarrow> tracker_info list" where
  "get_trackers_of entries =
     map (\<lambda>e. \<lparr>tk_url = opt_or (te_url e) [], tk_tier = opt_or (te_tier e) 0,
               tk_last_error = (if opt_or (te_last_error e) 0 \<noteq> 0 then opt_or (te_message e) [] else [])\<rparr>) entries"

definition remaining_trackers :: "string \<Rightarrow> tracker_entry list \<Rightarrow> tracker_entry list" where
  "remaining_trackers url entries = filter (\<lambda>e. te_url e \<noteq> Some url) entries"

section \<open>\<open>engine/proxy.py\<close>\<close>

type_synonym lt_settings = "(string \<times> json) list"

text \<open>\<open>dict.update\<close>\<close>

definition updates :: "lt_settings \<Rightarrow> lt_settings \<Rightarrow> lt_settings" where
  "updates base fragment = foldl (\<lambda>d (k, v). dset k v d) base fragment"

text \<open>The integer values of libtorrent's enumerations and its \<open>default_settings()\<close>.\<close>

record lt_consts =
  lc_proxy_none :: int
  lc_proxy_socks5 :: int
  lc_proxy_socks5_pw :: int
  lc_proxy_http :: int
  lc_proxy_http_pw :: int
  lc_enc_forced :: int
  lc_enc_enabled :: int
  lc_enc_disabled :: int
  lc_level_rc4 :: int
  lc_level_both :: int
  lc_alert_mask :: int
  lc_default_settings :: lt_settings

definition proxy_type_map :: "lt_consts \<Rightarrow> (string \<times> int) list" where
  "proxy_type_map c = [(''none'', lc_proxy_none c), (''socks5'', lc_proxy_socks5 c), (''socks5_pw'', lc_proxy_socks5_pw c),
     (''http'', lc_proxy_http c), (''http_pw'', lc_proxy_http_pw c)]"

definition build_settings_fragment :: "lt_consts \<Rightarrow> proxy_settings \<Rightarrow> lt_settings" where
  "build_settings_fragment c p =
     (if \<not> px_enabled p \<or> px_proxy_type p = ''none'' then
        [(''proxy_type'', JInt (lc_proxy_none c)), (''proxy_hostname'', JStr []), (''proxy_port'', JInt 0),
         (''proxy_username'', JStr []), (''proxy_password'', JStr []), (''force_proxy'', JBool False)]
      else
        [(''proxy_type'', JInt (opt_or (map_of (proxy_type_map c) (px_proxy_type p)) (lc_proxy_none c))),
         (''proxy_hostname'', JStr (px_host p)), (''proxy_port'', JInt (px_port p)),
         (''proxy_username'', JStr (px_username p)), (''proxy_password'', JStr (px_password p)),
         (''proxy_peer_connections'', JBool (px_proxy_peer_connections p)),
         (''proxy_tracker_connections'', JBool (px_proxy_tracker_connections p)),
         (''force_proxy'', JBool (px_force_proxy p))])"

definition build_interface_fragment :: "string \<Rightarrow> lt_settings" where
  "build_interface_fragment n =
     (if n = [] then [] else [(''listen_interfaces'', JStr (n @ '':6881'')), (''outgoing_interfaces'', JStr n)])"

section \<open>\<open>_build_session_settings\<close>\<close>

definition encryption_policy :: "lt_consts \<Rightarrow> string \<Rightarrow> int \<times> int" where
  "encryption_policy c mode =
     opt_or (map_of [(''forced'', (lc_enc_forced c, lc_level_rc4 c)), (''enabled'', (lc_enc_enabled c, lc_level_both c)),
       (''disabled'', (lc_enc_disabled c, lc_level_both c))] mode) (lc_enc_enabled c, lc_level_both c)"

definition encryption_settings_fragment :: "lt_consts \<Rightarrow> string \<Rightarrow> lt_settings" where
  "encryption_settings_fragment c mode =
     (let (policy, level) = encryption_policy c mode
      in [(''out_enc_policy'', JInt policy), (''in_enc_policy'', JInt policy), (''allowed_enc_level'', JInt level)])"

definition build_session_settings :: "lt_consts \<Rightarrow> string \<Rightarrow> settings \<Rightarrow> lt_settings" where
  "build_session_settings c app_version s =
     (let n = cfg_max_active_downloads s;
          base1 = updates (lc_default_settings c)
            [(''alert_mask'', JInt (lc_alert_mask c)), (''active_downloads'', JInt n), (''active_seeds'', JInt n),
             (''active_checking'', JInt n), (''active_limit'', JInt (n * 2)),
             (''user_agent'', JStr (''Torrent2000/'' @ app_version)),
             (''download_rate_limit'', JInt (cfg_download_rate_limit_kbps s * 1024)),
             (''upload_rate_limit'', JInt (cfg_upload_rate_limit_kbps s * 1024)), (''anonymous_mode'', JBool True)];
          base2 = (if cfg_restrict_discovery s
                   then updates base1 [(''enable_dht'', JBool False), (''enable_lsd'', JBool False)] else base1);
          base3 = updates base2 (build_settings_fragment c (cfg_proxy s));
          base4 = (if cfg_network_interface s \<noteq> [] then updates base3 (build_interface_fragment (cfg_network_interface s))
                   else base3)
      in updates base4 (encryption_settings_fragment c (cfg_encryption_mode s)))"

lemma dget_updates: "dget (updates b f) k = (case map_of (rev f) k of Some v \<Rightarrow> Some v | None \<Rightarrow> dget b k)"
  by (induction f arbitrary: b) (auto simp: updates_def map_add_def split: option.split)

section \<open>Properties\<close>

text \<open>Whatever the stored settings, the session starts anonymous, with the DHT and local
  discovery off when discovery is restricted, through the user's proxy exactly when one is
  enabled, and without a fall-back to a direct connection when the kill switch is on.\<close>

theorem session_starts_private:
  "dget (build_session_settings c v s) ''anonymous_mode'' = Some (JBool True)
   \<and> (cfg_restrict_discovery s \<longrightarrow> dget (build_session_settings c v s) ''enable_dht'' = Some (JBool False)
        \<and> dget (build_session_settings c v s) ''enable_lsd'' = Some (JBool False))
   \<and> dget (build_session_settings c v s) ''force_proxy''
       = Some (JBool (px_enabled (cfg_proxy s) \<and> px_proxy_type (cfg_proxy s) \<noteq> ''none'' \<and> px_force_proxy (cfg_proxy s)))
   \<and> dget (build_session_settings c v s) ''proxy_hostname''
       = Some (JStr (if px_enabled (cfg_proxy s) \<and> px_proxy_type (cfg_proxy s) \<noteq> ''none'' then px_host (cfg_proxy s) else []))
   \<and> (cfg_encryption_mode s = ''forced'' \<longrightarrow>
        dget (build_session_settings c v s) ''out_enc_policy'' = Some (JInt (lc_enc_forced c))
        \<and> dget (build_session_settings c v s) ''allowed_enc_level'' = Some (JInt (lc_level_rc4 c)))"
proof -
  have f: "cfg_encryption_mode s = ''forced'' \<longrightarrow> encryption_policy c (cfg_encryption_mode s) = (lc_enc_forced c, lc_level_rc4 c)"
    by (simp add: encryption_policy_def)
  define p where "p = fst (encryption_policy c (cfg_encryption_mode s))"
  define l where "l = snd (encryption_policy c (cfg_encryption_mode s))"
  have enc: "encryption_settings_fragment c (cfg_encryption_mode s)
      = [(''out_enc_policy'', JInt p), (''in_enc_policy'', JInt p), (''allowed_enc_level'', JInt l)]"
    by (simp add: encryption_settings_fragment_def p_def l_def case_prod_beta)
  have forced: "cfg_encryption_mode s = ''forced'' \<longrightarrow> p = lc_enc_forced c \<and> l = lc_level_rc4 c"
    using f by (simp add: p_def l_def)
  define on where "on \<longleftrightarrow> px_enabled (cfg_proxy s) \<and> px_proxy_type (cfg_proxy s) \<noteq> ''none''"
  define t where "t = JInt (opt_or (map_of (proxy_type_map c) (px_proxy_type (cfg_proxy s))) (lc_proxy_none c))"
  have frag: "build_settings_fragment c (cfg_proxy s) =
      (if on then [(''proxy_type'', t), (''proxy_hostname'', JStr (px_host (cfg_proxy s))), (''proxy_port'', JInt (px_port (cfg_proxy s))),
        (''proxy_username'', JStr (px_username (cfg_proxy s))), (''proxy_password'', JStr (px_password (cfg_proxy s))),
        (''proxy_peer_connections'', JBool (px_proxy_peer_connections (cfg_proxy s))),
        (''proxy_tracker_connections'', JBool (px_proxy_tracker_connections (cfg_proxy s))),
        (''force_proxy'', JBool (px_force_proxy (cfg_proxy s)))]
       else [(''proxy_type'', JInt (lc_proxy_none c)), (''proxy_hostname'', JStr []), (''proxy_port'', JInt 0),
         (''proxy_username'', JStr []), (''proxy_password'', JStr []), (''force_proxy'', JBool False)])"
    by (cases on) (auto simp: build_settings_fragment_def on_def t_def)
  show ?thesis
    unfolding build_session_settings_def Let_def enc frag build_interface_fragment_def
    unfolding conj_assoc [symmetric] unfolding on_def [symmetric]
    using forced by (cases "cfg_network_interface s = []"; cases "cfg_restrict_discovery s"; cases on)
       (simp_all add: dget_updates)
qed

theorem session_starts_private_witness:
  "dget (build_session_settings \<lparr>lc_proxy_none = 0, lc_proxy_socks5 = 2, lc_proxy_socks5_pw = 3, lc_proxy_http = 4,
       lc_proxy_http_pw = 5, lc_enc_forced = 0, lc_enc_enabled = 1, lc_enc_disabled = 2, lc_level_rc4 = 2, lc_level_both = 3,
       lc_alert_mask = 111, lc_default_settings = [(''enable_dht'', JBool True)]\<rparr> ''1.0'' DEFAULT_SETTINGS) ''enable_dht''
   = Some (JBool False)"
  using session_starts_private [of _ "''1.0''" DEFAULT_SETTINGS] by (simp add: DEFAULT_SETTINGS_def)

text \<open>Resume data counts as complete exactly when it records pieces and every missing one has
  priority 0; a piece without a recorded priority is wanted.\<close>

theorem resume_data_is_complete_iff:
  "resume_data_is_complete a \<longleftrightarrow> ap_have_pieces a \<noteq> []
     \<and> (\<forall>i < length (ap_have_pieces a). ap_have_pieces a ! i
          \<or> (i < length (ap_piece_priorities a) \<and> ap_piece_priorities a ! i = 0))"
  by (simp add: resume_data_is_complete_def wanted_pieces_present_iff)

theorem resume_data_is_complete_iff_witness:
  "\<not> resume_data_is_complete \<lparr>ap_ti = None, ap_info_hashes = \<lparr>hs_v1 = None, hs_v2 = []\<rparr>, ap_name = [], ap_save_path = [],
     ap_file_priorities = [], ap_duplicate_is_error = False, ap_disable_dht = False, ap_disable_pex = False, ap_disable_lsd = False,
     ap_paused = False, ap_auto_managed = True, ap_have_pieces = [True, False], ap_piece_priorities = [4],
     ap_total_downloaded = 0, ap_total_uploaded = 0\<rparr>"
  unfolding resume_data_is_complete_iff by (simp add: All_less_Suc2)

end
