(* ===== verification/Net.thy ===== *)
theory Net
  imports Prelude "HOL-Library.Word"
begin

unbundle bit_operations_syntax

text \<open>
  \<open>engine/ip_blocklist.py\<close> and the address half of \<open>engine/lan_peer_cache.py\<close>
  (\<open>is_rfc1918\<close>): addresses are machine words, 32 bits for IPv4 and 128 for IPv6, parsed the
  way the \<open>ipaddress\<close> module of the standard library parses them.
\<close>

section \<open>\<open>ipaddress\<close>\<close>

text \<open>The string is the scope identifier of an IPv6 address (empty: none).\<close>

datatype ip_addr = V4 "32 word" | V6 "128 word" string

definition is_digit :: "char \<Rightarrow> bool" where
  "is_digit c \<longleftrightarrow> 48 \<le> (of_char c :: int) \<and> (of_char c :: int) \<le> 57"

definition digit_val :: "char \<Rightarrow> int" where
  "digit_val c = of_char c - 48"

definition dec_value :: "string \<Rightarrow> int" where
  "dec_value s = foldl (\<lambda>n c. 10 * n + digit_val c) 0 s"

definition is_hex :: "char \<Rightarrow> bool" where
  "is_hex c \<longleftrightarrow> is_digit c \<or> (let n = of_char c :: int in (65 \<le> n \<and> n \<le> 70) \<or> (97 \<le> n \<and> n \<le> 102))"

definition hex_val :: "char \<Rightarrow> int" where
  "hex_val c = (let n = of_char c :: int in if is_digit c then n - 48 else if n \<le> 70 then n - 55 else n - 87)"

text \<open>\<open>_parse_octet\<close>\<close>

definition parse_octet :: "string \<Rightarrow> int option" where
  "parse_octet s =
     (if s = [] \<or> \<not> list_all is_digit s \<or> 3 < length s \<or> (s \<noteq> ''0'' \<and> hd s = CHR ''0'') then None
      else if 255 < dec_value s then None else Some (dec_value s))"

definition word_of_octets :: "int \<Rightarrow> int \<Rightarrow> int \<Rightarrow> int \<Rightarrow> 32 word" where
  "word_of_octets a b c d = word_of_int (((a * 256 + b) * 256 + c) * 256 + d)"

definition parse_v4 :: "string \<Rightarrow> 32 word option" where
  "parse_v4 s =
     (case map parse_octet (split_on CHR ''.'' s) of
        [Some a, Some b, Some c, Some d] \<Rightarrow> Some (word_of_octets a b c d)
      | _ \<Rightarrow> None)"

text \<open>\<open>_parse_hextet\<close>\<close>

definition parse_hextet :: "string \<Rightarrow> int option" where
  "parse_hextet s =
     (if s = [] \<or> \<not> list_all is_hex s \<or> 4 < length s then None
      else Some (foldl (\<lambda>n c. 16 * n + hex_val c) 0 s))"

text \<open>The parts of an IPv6 text; a trailing dotted quad becomes two numbers.\<close>

datatype group = Txt string | Num int

fun parse_group :: "group \<Rightarrow> int option" where
  "parse_group (Txt s) = parse_hextet s"
| "parse_group (Num n) = Some n"

definition v6_parts :: "string \<Rightarrow> group list option" where
  "v6_parts s =
     (let parts = split_on CHR '':'' s
      in if length parts < 3 then None
         else if CHR ''.'' \<in> set (last parts)
           then map_option (\<lambda>w. map Txt (butlast parts) @ [Num (uint w div 65536), Num (uint w mod 65536)])
                  (parse_v4 (last parts))
         else Some (map Txt parts))"

definition v6_expand :: "group list \<Rightarrow> group list option" where
  "v6_expand parts =
     (if 9 < length parts then None
      else case filter (\<lambda>i. parts ! i = Txt []) [1..<length parts - 1] of
        [] \<Rightarrow> (if length parts \<noteq> 8 \<or> hd parts = Txt [] \<or> last parts = Txt [] then None else Some parts)
      | [i] \<Rightarrow>
          (let hi = take i parts; lo = drop (i + 1) parts;
               hi' = (if hd parts = Txt [] then tl hi else hi);
               lo' = (if last parts = Txt [] then butlast lo else lo)
           in if hd parts = Txt [] \<and> hi' \<noteq> [] then None
              else if last parts = Txt [] \<and> lo' \<noteq> [] then None
              else if 8 \<le> length hi' + length lo' then None
              else Some (hi' @ replicate (8 - (length hi' + length lo')) (Num 0) @ lo'))
      | _ \<Rightarrow> None)"

fun all_some :: "'a option list \<Rightarrow> 'a list option" where
  "all_some [] = Some []"
| "all_some (None # xs) = None"
| "all_some (Some x # xs) = map_option (Cons x) (all_some xs)"

definition parse_v6_plain :: "string \<Rightarrow> 128 word option" where
  "parse_v6_plain s =
     (case v6_parts s of None \<Rightarrow> None
      | Some parts \<Rightarrow> (case v6_expand parts of None \<Rightarrow> None
          | Some gs \<Rightarrow> map_option (\<lambda>ns. word_of_int (foldl (\<lambda>n g. n * 65536 + g) 0 ns)) (all_some (map parse_group gs))))"

text \<open>\<open>_split_scope_id\<close>\<close>

definition parse_v6 :: "string \<Rightarrow> ip_addr option" where
  "parse_v6 s =
     (case split1 CHR ''%'' s of
        (a, None) \<Rightarrow> map_option (\<lambda>w. V6 w []) (parse_v6_plain a)
      | (a, Some scope) \<Rightarrow>
          if scope = [] \<or> CHR ''%'' \<in> set scope then None
          else map_option (\<lambda>w. V6 w scope) (parse_v6_plain a))"

text \<open>\<open>ipaddress.ip_address\<close>; \<open>None\<close> is a \<open>ValueError\<close>.\<close>

definition ip_address :: "string \<Rightarrow> ip_addr option" where
  "ip_address s =
     (case parse_v4 s of Some w \<Rightarrow> Some (V4 w)
      | None \<Rightarrow> if CHR ''/'' \<in> set s then None else parse_v6 s)"

text \<open>Network masks: the \<open>p\<close> leading bits.\<close>

definition netmask :: "nat \<Rightarrow> nat \<Rightarrow> 'w::len word" where
  "netmask w p = NOT (mask (w - p))"

definition dec_prefix :: "nat \<Rightarrow> string \<Rightarrow> nat option" where
  "dec_prefix w s =
     (if s = [] \<or> \<not> list_all is_digit s then None
      else if dec_value s \<le> int w then Some (nat (dec_value s)) else None)"

text \<open>\<open>_prefix_from_ip_string\<close>: a dotted netmask, or else a dotted hostmask.\<close>

definition v4_mask_prefix :: "string \<Rightarrow> nat option" where
  "v4_mask_prefix s =
     (case parse_v4 s of None \<Rightarrow> None
      | Some w \<Rightarrow>
          (case find (\<lambda>p. netmask 32 p = w) [0..<33] of
             Some p \<Rightarrow> Some p
           | None \<Rightarrow> find (\<lambda>p. netmask 32 p = NOT w) [0..<33]))"

definition v4_prefix :: "string \<Rightarrow> nat option" where
  "v4_prefix s = (case dec_prefix 32 s of Some p \<Rightarrow> Some p | None \<Rightarrow> v4_mask_prefix s)"

datatype ip_network = Net4 "32 word" nat | Net6 "128 word" string nat

text \<open>\<open>ipaddress.ip_network(line, strict=False)\<close> of a text with a slash.\<close>

definition ip_network :: "string \<Rightarrow> ip_network option" where
  "ip_network s =
     (case split_on CHR ''/'' s of
        [a, m] \<Rightarrow>
          (case (parse_v4 a, v4_prefix m) of
             (Some w, Some p) \<Rightarrow> Some (Net4 (w AND netmask 32 p) p)
           | _ \<Rightarrow> (case (parse_v6 a, dec_prefix 128 m) of
                (Some (V6 w scope), Some p) \<Rightarrow>
                  Some (Net6 (w AND netmask 128 p) (if w AND netmask 128 p = w then scope else []) p)
              | _ \<Rightarrow> None))
      | _ \<Rightarrow> None)"

fun network_address :: "ip_network \<Rightarrow> ip_addr" where
  "network_address (Net4 w p) = V4 w"
| "network_address (Net6 w scope p) = V6 w scope"

fun broadcast_address :: "ip_network \<Rightarrow> ip_addr" where
  "broadcast_address (Net4 w p) = V4 (w OR NOT (netmask 32 p))"
| "broadcast_address (Net6 w scope p) = V6 (w OR NOT (netmask 128 p)) []"

text \<open>\<open>address in network\<close>\<close>

fun in_network :: "ip_addr \<Rightarrow> ip_network \<Rightarrow> bool" where
  "in_network (V4 a) (Net4 w p) \<longleftrightarrow> a AND netmask 32 p = w"
| "in_network (V6 a s) (Net6 w t p) \<longleftrightarrow> a AND netmask 128 p = w"
| "in_network _ _ \<longleftrightarrow> False"

section \<open>\<open>engine/lan_peer_cache.py\<close>: the RFC 1918 filter\<close>

definition RFC1918_NETWORKS :: "ip_network list" where
  "RFC1918_NETWORKS = [Net4 (word_of_octets 10 0 0 0) 8, Net4 (word_of_octets 172 16 0 0) 12,
     Net4 (word_of_octets 192 168 0 0) 16]"

definition is_rfc1918 :: "string \<Rightarrow> bool" where
  "is_rfc1918 s =
     (case ip_address s of None \<Rightarrow> False | Some a \<Rightarrow> list_ex (in_network a) RFC1918_NETWORKS)"

section \<open>\<open>engine/ip_blocklist.py\<close>\<close>

text \<open>\<open>ValueErr\<close> is caught line by line; \<open>TypeErrL\<close>, the \<open>TypeError\<close> of comparing addresses of two
  families, is not a \<open>ValueError\<close>.\<close>

datatype line_error = ValueErr | TypeErrL

fun addr_less :: "ip_addr \<Rightarrow> ip_addr \<Rightarrow> line_error + bool" where
  "addr_less (V4 a) (V4 b) = Inr (a < b)"
| "addr_less (V6 a s) (V6 b t) = Inr (a < b)"
| "addr_less _ _ = Inl TypeErrL"

definition parse_line :: "string \<Rightarrow> line_error + (ip_addr \<times> ip_addr)" where
  "parse_line line =
     (if CHR ''/'' \<in> set line then
        (case ip_network line of None \<Rightarrow> Inl ValueErr
         | Some n \<Rightarrow> Inr (network_address n, broadcast_address n))
      else if CHR ''-'' \<in> set line then
        (case split1 CHR ''-'' line of
           (f, Some l) \<Rightarrow>
             (case (ip_address (py_strip f), ip_address (py_strip l)) of
                (Some lo, Some hi) \<Rightarrow>
                  (case addr_less hi lo of
                     Inl e \<Rightarrow> Inl e
                   | Inr True \<Rightarrow> Inl ValueErr
                   | Inr False \<Rightarrow> Inr (lo, hi))
              | _ \<Rightarrow> Inl ValueErr)
         | _ \<Rightarrow> Inl ValueErr)
      else case ip_address line of None \<Rightarrow> Inl ValueErr | Some a \<Rightarrow> Inr (a, a))"

datatype parse_outcome = Parsed "(ip_addr \<times> ip_addr) list" nat | Cancelled | Raised

definition CANCEL_CHECK_LINES :: nat where "CANCEL_CHECK_LINES = 4096"

text \<open>The loop over the lines: \<open>n\<close> is the line number, \<open>cancelled n\<close> what
  \<open>_cancel_event.is_set()\<close> says there, \<open>rules\<close> the \<open>add_rule\<close> calls so far, \<open>bad\<close> the skipped
  lines.\<close>

fun parse_lines :: "(nat \<Rightarrow> bool) \<Rightarrow> nat \<Rightarrow> string list \<Rightarrow> (ip_addr \<times> ip_addr) list \<Rightarrow> nat \<Rightarrow> parse_outcome" where
  "parse_lines cancelled n [] rules bad = Parsed rules bad"
| "parse_lines cancelled n (raw # raws) rules bad =
     (if n mod CANCEL_CHECK_LINES = 0 \<and> cancelled n then Cancelled
      else let line = py_strip raw
           in if line = [] \<or> hd line = CHR ''#'' then parse_lines cancelled (n + 1) raws rules bad
              else case parse_line line of
                     Inl ValueErr \<Rightarrow> parse_lines cancelled (n + 1) raws rules (bad + 1)
                   | Inl TypeErrL \<Rightarrow> Raised
                   | Inr r \<Rightarrow> parse_lines cancelled (n + 1) raws (rules @ [r]) bad)"

text \<open>\<open>None\<close>: the file cannot be opened.\<close>

definition parse_blocklist_file :: "(nat \<Rightarrow> bool) \<Rightarrow> string list option \<Rightarrow> parse_outcome" where
  "parse_blocklist_file cancelled file =
     (case file of None \<Rightarrow> Raised | Some raws \<Rightarrow> parse_lines cancelled 1 raws [] 0)"

text \<open>\<open>BlocklistLoadRunnable.run\<close>: what is emitted on \<open>loaded\<close>, if anything; \<open>quitting\<close> is the
  event at the end.\<close>

definition blocklist_run :: "(nat \<Rightarrow> bool) \<Rightarrow> bool \<Rightarrow> string list option \<Rightarrow> (ip_addr \<times> ip_addr) list option option" where
  "blocklist_run cancelled quitting file =
     (case parse_blocklist_file cancelled file of
        Cancelled \<Rightarrow> None
      | Raised \<Rightarrow> if quitting then None else Some None
      | Parsed rules bad \<Rightarrow> if quitting then None else Some (Some rules))"

text \<open>An address is blocked by a list of inclusive ranges of its family.\<close>

fun in_range :: "ip_addr \<Rightarrow> ip_addr \<times> ip_addr \<Rightarrow> bool" where
  "in_range (V4 a) (V4 f, V4 l) \<longleftrightarrow> f \<le> a \<and> a \<le> l"
| "in_range (V6 a _) (V6 f _, V6 l _) \<longleftrightarrow> f \<le> a \<and> a \<le> l"
| "in_range _ _ \<longleftrightarrow> False"

section \<open>Facts on words\<close>

lemma and_netmask: "(a::'w::len word) AND NOT (mask k) = push_bit k (drop_bit k a)"
  by (rule bit_eqI) (auto simp: bit_simps)

lemma uint_and_netmask:
  fixes a :: "'w::len word"
  shows "uint (a AND NOT (mask k)) = uint a div 2 ^ k * 2 ^ k"
proof -
  have "uint (a AND NOT (mask k)) = uint a AND NOT (mask k)"
    by (rule bit_eqI) (auto simp: bit_simps bit_uint_iff dest: bit_imp_le_length)
  also have "\<dots> = push_bit k (drop_bit k (uint a))"
    by (rule bit_eqI) (auto simp: bit_simps)
  finally show ?thesis by (simp add: push_bit_eq_mult drop_bit_eq_div)
qed

lemma range_block:
  fixes A W m :: int
  assumes "0 < m" "W = W div m * m"
  shows "W \<le> A \<and> A \<le> W + (m - 1) \<longleftrightarrow> A div m * m = W"
proof
  assume h: "W \<le> A \<and> A \<le> W + (m - 1)"
  have r: "0 \<le> A - W" "A - W < m" using h by linarith+
  have "A div m = ((A - W) + W div m * m) div m" using assms(2) by simp
  also have "\<dots> = (A - W) div m + W div m" using assms(1) by simp
  also have "(A - W) div m = 0" using r by simp
  finally have "A div m = W div m" by simp
  then show "A div m * m = W" using assms by simp
next
  assume h: "A div m * m = W"
  have "A = A div m * m + A mod m" by simp
  moreover have "0 \<le> A mod m" "A mod m < m" using assms(1) by simp_all
  ultimately show "W \<le> A \<and> A \<le> W + (m - 1)" using h by linarith
qed

lemma cidr_range:
  fixes a w :: "'w::len word"
  assumes "w AND NOT (mask k) = w" "k \<le> LENGTH('w)"
  shows "w \<le> a \<and> a \<le> (w OR mask k) \<longleftrightarrow> a AND NOT (mask k) = w"
proof -
  have W: "uint w = uint w div 2 ^ k * 2 ^ k"
    using uint_and_netmask [of w k] assms(1) by simp
  have "w OR mask k = w + mask k"
    by (rule disjunctive_add [symmetric]) (metis assms(1) bit_and_iff bit_not_iff)
  have "uint (w OR mask k) = uint w OR mask k"
    by (rule bit_eqI) (use assms(2) in \<open>auto simp: bit_simps dest: bit_imp_le_length\<close>)
  also have "uint w OR mask k = uint w + mask k"
  proof (rule disjunctive_add [symmetric])
    fix n
    show "\<not> bit (uint w) n \<or> \<not> bit (mask k :: int) n"
      by (subst W) (simp add: push_bit_eq_mult [symmetric] bit_push_bit_iff bit_mask_iff)
  qed
  finally have "uint (w OR mask k) = uint w + (2 ^ k - 1)" by (simp add: mask_eq_exp_minus_1)
  then show ?thesis
    using range_block [OF _ W, of "uint a"] uint_and_netmask [of a k]
    by (simp add: word_le_def word_uint_eq_iff)
qed

lemma dec_value_nonneg:
  assumes "list_all is_digit s" shows "0 \<le> dec_value s"
proof -
  have "0 \<le> n \<Longrightarrow> list_all is_digit s \<Longrightarrow> 0 \<le> foldl (\<lambda>n c. 10 * n + digit_val c) n s" for n :: int
    by (induction s arbitrary: n) (auto simp: is_digit_def digit_val_def)
  then show ?thesis using assms by (simp add: dec_value_def)
qed

lemma parse_octet_le: "parse_octet s = Some n \<Longrightarrow> 0 \<le> n \<and> n \<le> 255"
  by (auto simp: parse_octet_def dec_value_nonneg split: if_splits)

abbreviation octet :: "int \<Rightarrow> bool" where "octet n \<equiv> 0 \<le> n \<and> n \<le> 255"

lemma uint_word_of_octets:
  assumes "octet a" "octet b" "octet c" "octet d"
  shows "uint (word_of_octets a b c d) = ((a * 256 + b) * 256 + c) * 256 + d"
proof -
  have u: "uint (word_of_int n :: 32 word) = n" if "0 \<le> n" "n < 2 ^ 32" for n :: int
    using that by (simp add: unsigned_of_int take_bit_int_eq_self)
  show ?thesis unfolding word_of_octets_def by (rule u) (use assms in simp_all)
qed

lemma in_net4: "in_network (V4 a) (Net4 w p) \<longleftrightarrow> uint a div 2 ^ (32 - p) * 2 ^ (32 - p) = uint w"
  by (simp add: netmask_def word_uint_eq_iff uint_and_netmask)

lemma sixteenths:
  fixes a q r :: int
  assumes "0 \<le> q" "q \<le> 15" "0 \<le> r" "r < 16"
  shows "a * 16 + q = 2753 \<longleftrightarrow> a = 172 \<and> 16 \<le> q * 16 + r \<and> q * 16 + r \<le> 31"
proof
  assume h: "a * 16 + q = 2753"
  then have "a \<le> 172" "172 \<le> a" using assms by linarith+
  then have "a = 172" by simp
  with h assms show "a = 172 \<and> 16 \<le> q * 16 + r \<and> q * 16 + r \<le> 31" by simp
next
  assume h: "a = 172 \<and> 16 \<le> q * 16 + r \<and> q * 16 + r \<le> 31"
  then have "q \<le> 1" "1 \<le> q" using assms by linarith+
  with h show "a * 16 + q = 2753" by simp
qed

lemma two_octets:
  fixes a b :: int
  assumes "0 \<le> b" "b \<le> 255"
  shows "a * 256 + b = 49320 \<longleftrightarrow> a = 192 \<and> b = 168"
proof
  assume h: "a * 256 + b = 49320"
  then have "a \<le> 192" "192 \<le> a" using assms by linarith+
  with h show "a = 192 \<and> b = 168" by simp
qed simp

lemma div_block: "0 \<le> r \<Longrightarrow> r < m \<Longrightarrow> (q * m + r) div m = (q::int)"
  by simp

lemma rfc1918_octets:
  assumes "octet a" "octet b" "octet c" "octet d"
  shows "list_ex (in_network (V4 (word_of_octets a b c d))) RFC1918_NETWORKS
    \<longleftrightarrow> a = 10 \<or> (a = 172 \<and> 16 \<le> b \<and> b \<le> 31) \<or> (a = 192 \<and> b = 168)"
proof -
  define n where "n = ((a * 256 + b) * 256 + c) * 256 + d"
  have n: "n = (a * 256 + b) * 2 ^ 16 + (c * 256 + d)" by (simp add: n_def)
  have d16: "n div 2 ^ 16 = a * 256 + b" unfolding n by (rule div_block) (use assms in simp_all)
  have "n div 2 ^ 20 = n div 2 ^ 16 div 2 ^ 4" by (simp add: zdiv_zmult2_eq [symmetric])
  then have d20: "n div 2 ^ 20 = (a * 256 + b) div 16" unfolding d16 by simp
  have "n div 2 ^ 24 = n div 2 ^ 16 div 2 ^ 8" by (simp add: zdiv_zmult2_eq [symmetric])
  also have "\<dots> = (a * 256 + b) div 256" unfolding d16 by simp
  finally have d24: "n div 2 ^ 24 = a" using assms by simp
  have u: "uint (word_of_octets a b c d) = n" using uint_word_of_octets [OF assms] by (simp add: n_def)
  have k: "uint (word_of_octets 10 0 0 0) = 10 * 2 ^ 24" "uint (word_of_octets 172 16 0 0) = 2753 * 2 ^ 20"
    "uint (word_of_octets 192 168 0 0) = 49320 * 2 ^ 16"
    by (simp_all add: uint_word_of_octets)
  have "(a * 256 + b) div 16 = a * 16 + b div 16" by simp
  moreover have "0 \<le> b div 16" "b div 16 \<le> 15" "b = b div 16 * 16 + b mod 16" "0 \<le> b mod 16" "b mod 16 < 16"
    using assms(2) zdiv_mono1 [of b 255 16] zdiv_mono1 [of 0 b 16] by simp_all
  ultimately have "(a * 256 + b) div 16 = 2753 \<longleftrightarrow> a = 172 \<and> 16 \<le> b \<and> b \<le> 31"
    using sixteenths [of "b div 16" "b mod 16" a] by simp
  moreover have "a * 256 + b = 49320 \<longleftrightarrow> a = 192 \<and> b = 168" using two_octets assms(2) by blast
  moreover have "16777216 * a + b * 65536 = 3232235520 \<longleftrightarrow> a * 256 + b = 49320" by linarith
  ultimately show ?thesis
    using d24 d16 d20 by (simp add: RFC1918_NETWORKS_def in_net4 u k del: in_network.simps)
qed

section \<open>Facts on the parser\<close>

definition is_mixed :: "string \<Rightarrow> bool" where
  "is_mixed raw \<longleftrightarrow> (let line = py_strip raw
     in line \<noteq> [] \<and> hd line \<noteq> CHR ''#'' \<and> parse_line line = Inl TypeErrL)"

definition line_rule :: "string \<Rightarrow> (ip_addr \<times> ip_addr) option" where
  "line_rule raw = (let line = py_strip raw
     in if line = [] \<or> hd line = CHR ''#'' then None
        else case parse_line line of Inl e \<Rightarrow> None | Inr r \<Rightarrow> Some r)"

definition is_bad :: "string \<Rightarrow> bool" where
  "is_bad raw \<longleftrightarrow> (let line = py_strip raw
     in line \<noteq> [] \<and> hd line \<noteq> CHR ''#'' \<and> parse_line line = Inl ValueErr)"

lemma parse_lines_ok:
  "(\<And>k. \<not> cancelled k) \<Longrightarrow> \<forall>raw \<in> set raws. \<not> is_mixed raw \<Longrightarrow>
   parse_lines cancelled n raws rules bad
     = Parsed (rules @ List.map_filter line_rule raws) (bad + length (filter is_bad raws))"
proof (induction raws arbitrary: n rules bad)
  case Nil
  then show ?case by (simp add: List.map_filter_simps)
next
  case (Cons raw raws)
  show ?case
    using Cons.prems Cons.IH
    by (auto simp: Let_def line_rule_def is_mixed_def is_bad_def List.map_filter_simps split: sum.split line_error.split)
qed

lemma parse_lines_mixed:
  "(\<And>k. \<not> cancelled k) \<Longrightarrow> \<exists>raw \<in> set raws. is_mixed raw \<Longrightarrow> parse_lines cancelled n raws rules bad = Raised"
proof (induction raws arbitrary: n rules bad)
  case Nil
  then show ?case by simp
next
  case (Cons raw raws)
  show ?case
  proof (cases "is_mixed raw")
    case True
    then show ?thesis using Cons.prems(1) by (simp add: is_mixed_def Let_def)
  next
    case False
    then have "\<exists>raw \<in> set raws. is_mixed raw" using Cons.prems(2) by simp
    then show ?thesis using False Cons.prems(1) Cons.IH
      by (auto simp: Let_def is_mixed_def split: sum.split line_error.split)
  qed
qed

lemma network_masked:
  assumes "ip_network s = Some net"
  shows "net = Net4 w p \<Longrightarrow> w AND netmask 32 p = w" "net = Net6 v t q \<Longrightarrow> v AND netmask 128 q = v"
  using assms by (auto simp: ip_network_def and.assoc split: list.splits option.splits ip_addr.splits)

lemma cidr_rule:
  assumes "ip_network s = Some net"
  shows "in_range a (network_address net, broadcast_address net) \<longleftrightarrow> in_network a net"
proof (cases net)
  case (Net4 w p)
  show ?thesis
    using network_masked(1) [OF assms Net4] cidr_range [of w "32 - p" "case a of V4 b \<Rightarrow> b"]
    by (cases a) (simp_all add: Net4 netmask_def)
next
  case (Net6 w t p)
  show ?thesis
    using network_masked(2) [OF assms Net6] cidr_range [of w "128 - p" "case a of V6 b _ \<Rightarrow> b"]
    by (cases a) (simp_all add: Net6 netmask_def)
qed

text \<open>What a line of the list means, apart from how it is parsed: the addresses of a network, those between
  the two of a range, ends included, or one address; the scope of an IPv6 address does not count.\<close>

fun addr_version :: "ip_addr \<Rightarrow> nat" where
  "addr_version (V4 w) = 4"
| "addr_version (V6 w s) = 6"

fun addr_number :: "ip_addr \<Rightarrow> int" where
  "addr_number (V4 w) = uint w"
| "addr_number (V6 w s) = uint w"

definition addr_between :: "ip_addr \<Rightarrow> ip_addr \<Rightarrow> ip_addr \<Rightarrow> bool" where
  "addr_between lo a hi \<longleftrightarrow> addr_version lo = addr_version a \<and> addr_version a = addr_version hi \<and> addr_number lo \<le> addr_number a \<and> addr_number a \<le> addr_number hi"

definition line_range :: "string \<Rightarrow> ip_addr \<Rightarrow> ip_addr \<Rightarrow> bool" where
  "line_range line lo hi \<longleftrightarrow>
     (\<exists>f l. line = f @ CHR ''-'' # l \<and> CHR ''-'' \<notin> set f \<and> ip_address (py_strip f) = Some lo \<and> ip_address (py_strip l) = Some hi)"

definition line_names :: "string \<Rightarrow> ip_addr \<Rightarrow> bool" where
  "line_names line a \<longleftrightarrow>
     (if CHR ''/'' \<in> set line then \<exists>net. ip_network line = Some net \<and> in_network a net
      else if CHR ''-'' \<in> set line then \<exists>lo hi. line_range line lo hi \<and> addr_between lo a hi
      else \<exists>b. ip_address line = Some b \<and> addr_between b a b)"

definition mixed_range :: "string \<Rightarrow> bool" where
  "mixed_range line \<longleftrightarrow> CHR ''/'' \<notin> set line \<and> (\<exists>lo hi. line_range line lo hi \<and> addr_version lo \<noteq> addr_version hi)"

text \<open>The lines that are neither blank nor a comment.\<close>

definition list_entry :: "string \<Rightarrow> bool" where
  "list_entry raw \<longleftrightarrow> py_strip raw \<noteq> [] \<and> hd (py_strip raw) \<noteq> CHR ''#''"

lemma in_range_between: "in_range a (lo, hi) \<longleftrightarrow> addr_between lo a hi"
  by (cases a; cases lo; cases hi) (simp_all add: addr_between_def word_le_def)

lemma addr_less_cases:
  "addr_less hi lo = Inl e \<longleftrightarrow> addr_version lo \<noteq> addr_version hi \<and> e = TypeErrL"
  "addr_less hi lo = Inr b \<longleftrightarrow> addr_version lo = addr_version hi \<and> b = (addr_number hi < addr_number lo)"
  by (cases hi; cases lo; auto simp: word_less_def)+

lemma split1_range:
  assumes "CHR ''-'' \<in> set line"
  obtains f l where "split1 CHR ''-'' line = (f, Some l)" "line = f @ CHR ''-'' # l" "CHR ''-'' \<notin> set f"
proof -
  obtain f l where fl: "line = f @ CHR ''-'' # l" "CHR ''-'' \<notin> set f" using split_list_first [OF assms] by blast
  then have "\<And>x. x \<in> set f \<Longrightarrow> x \<noteq> CHR ''-''" by blast
  then have "takeWhile (\<lambda>c. c \<noteq> CHR ''-'') line = f" "dropWhile (\<lambda>c. c \<noteq> CHR ''-'') line = CHR ''-'' # l"
    using fl(1) by (simp_all add: takeWhile_append2 dropWhile_append2)
  then show thesis using that [OF _ fl] assms by (simp add: split1_def)
qed

lemma line_range_unique:
  assumes "CHR ''-'' \<notin> set f"
  shows "line_range (f @ CHR ''-'' # l) lo hi \<longleftrightarrow> ip_address (py_strip f) = Some lo \<and> ip_address (py_strip l) = Some hi"
proof -
  have first: "takeWhile (\<lambda>c. c \<noteq> CHR ''-'') (g @ CHR ''-'' # m) = g" if "CHR ''-'' \<notin> set g" for g m
    using that by (induction g) auto
  have "f = g \<and> l = m" if "f @ CHR ''-'' # l = g @ CHR ''-'' # m" "CHR ''-'' \<notin> set g" for g m
    using that first [OF assms, of l] first [OF that(2), of m] by auto
  then show ?thesis unfolding line_range_def using assms by blast
qed

lemma mixed_range_minus: "mixed_range line \<Longrightarrow> CHR ''-'' \<in> set line"
  by (auto simp: mixed_range_def line_range_def)

text \<open>The parser against the meaning.\<close>

lemma parse_line_range:
  assumes "CHR ''/'' \<notin> set line" "CHR ''-'' \<in> set line"
  shows "parse_line line = Inl TypeErrL \<longleftrightarrow> (\<exists>lo hi. line_range line lo hi \<and> addr_version lo \<noteq> addr_version hi)"
    and "parse_line line = Inr (lo, hi) \<longleftrightarrow> line_range line lo hi \<and> addr_version lo = addr_version hi \<and> addr_number lo \<le> addr_number hi"
proof -
  obtain f l where fl: "split1 CHR ''-'' line = (f, Some l)" "line = f @ CHR ''-'' # l" "CHR ''-'' \<notin> set f"
    by (rule split1_range [OF assms(2)])
  note ranges = line_range_unique [OF fl(3), of l, folded fl(2)]
  note parsed = parse_line_def [of line] fl(1) assms
  show "parse_line line = Inl TypeErrL \<longleftrightarrow> (\<exists>lo hi. line_range line lo hi \<and> addr_version lo \<noteq> addr_version hi)"
    unfolding ranges using addr_less_cases
    by (auto simp: parsed split: option.splits sum.splits bool.splits)
  show "parse_line line = Inr (lo, hi) \<longleftrightarrow> line_range line lo hi \<and> addr_version lo = addr_version hi \<and> addr_number lo \<le> addr_number hi"
    unfolding ranges by (auto simp: parsed addr_less_cases not_less split: option.splits sum.splits bool.splits)
qed

lemma parse_line_names:
  "(\<exists>r. parse_line line = Inr r \<and> in_range a r) \<longleftrightarrow> line_names line a"
proof (cases "CHR ''/'' \<in> set line")
  case True
  then show ?thesis using cidr_rule by (auto simp: line_names_def parse_line_def split: option.splits)
next
  case False
  show ?thesis
  proof (cases "CHR ''-'' \<in> set line")
    case True
    have "addr_between lo a hi \<Longrightarrow> addr_version lo = addr_version hi \<and> addr_number lo \<le> addr_number hi" for lo hi by (simp add: addr_between_def)
    then show ?thesis
      using False True parse_line_range(2) [OF False True] by (force simp: line_names_def in_range_between)
  next
    case minus: False
    then show ?thesis using False by (auto simp: line_names_def parse_line_def in_range_between split: option.splits)
  qed
qed

lemma is_mixed_range: "is_mixed raw \<longleftrightarrow> list_entry raw \<and> mixed_range (py_strip raw)"
proof (cases "CHR ''/'' \<notin> set (py_strip raw) \<and> CHR ''-'' \<in> set (py_strip raw)")
  case True
  then show ?thesis by (simp add: is_mixed_def list_entry_def mixed_range_def Let_def parse_line_range(1))
next
  case False
  then have "parse_line (py_strip raw) \<noteq> Inl TypeErrL" "\<not> mixed_range (py_strip raw)"
    by (auto simp: parse_line_def mixed_range_def line_range_def split: option.split)
  then show ?thesis by (simp add: is_mixed_def Let_def)
qed

section \<open>Properties\<close>

text \<open>The LAN cache accepts exactly the dotted quads of 10.0.0.0/8, 172.16.0.0/12 and
  192.168.0.0/16; every other text, an IPv6 address or something that is no address, is
  refused without an error.\<close>

theorem is_rfc1918_exact:
  "is_rfc1918 s \<longleftrightarrow>
     (\<exists>a b c d. map parse_octet (split_on CHR ''.'' s) = [Some a, Some b, Some c, Some d]
        \<and> (a = 10 \<or> (a = 172 \<and> 16 \<le> b \<and> b \<le> 31) \<or> (a = 192 \<and> b = 168)))"
proof (cases "parse_v4 s")
  case None
  have "ip_address s \<noteq> Some (V4 w)" for w
    using None by (auto simp: ip_address_def parse_v6_def split: prod.splits option.splits if_splits)
  moreover have "\<not> in_network (V6 w t) n" if "n \<in> set RFC1918_NETWORKS" for w t n
    using that by (auto simp: RFC1918_NETWORKS_def)
  ultimately have "\<not> is_rfc1918 s"
    unfolding is_rfc1918_def by (auto simp: list_ex_iff split: option.split) (metis ip_addr.exhaust)
  moreover have "map parse_octet (split_on CHR ''.'' s) \<noteq> [Some a, Some b, Some c, Some d]" for a b c d
    using None by (auto simp: parse_v4_def)
  ultimately show ?thesis by simp
next
  case (Some w)
  then obtain a b c d where o: "map parse_octet (split_on CHR ''.'' s) = [Some a, Some b, Some c, Some d]"
    and w: "w = word_of_octets a b c d"
    by (auto simp: parse_v4_def split: list.splits option.splits)
  have octets: "list_all (\<lambda>x. \<forall>n. x = Some n \<longrightarrow> octet n) (map parse_octet ps)" for ps
    using parse_octet_le by (simp add: list_all_iff)
  from octets [of "split_on CHR ''.'' s"] have "octet n" if "n \<in> {a, b, c, d}" for n
    using that unfolding o by auto
  then have "is_rfc1918 s \<longleftrightarrow> a = 10 \<or> (a = 172 \<and> 16 \<le> b \<and> b \<le> 31) \<or> (a = 192 \<and> b = 168)"
    by (simp add: is_rfc1918_def ip_address_def Some w rfc1918_octets)
  with o show ?thesis by simp
qed

text \<open>C11: a block list without a range from one address family to the other loads, unless the program quits
  meanwhile, and then an address of either family is blocked exactly when some entry of the list is a
  network that contains it, a range of two addresses it lies between, ends included, or the address
  itself; malformed lines cost themselves only. What is loaded while quitting is dropped.\<close>

theorem blocklist_blocks:
  assumes "\<And>k. \<not> cancelled k" "\<And>raw. raw \<in> set raws \<Longrightarrow> list_entry raw \<Longrightarrow> \<not> mixed_range (py_strip raw)"
  shows "(\<exists>rules. blocklist_run cancelled False (Some raws) = Some (Some rules)
      \<and> (\<forall>a. list_ex (in_range a) rules \<longleftrightarrow> (\<exists>raw \<in> set raws. list_entry raw \<and> line_names (py_strip raw) a)))
    \<and> blocklist_run cancelled True (Some raws) = None"
proof -
  have "\<forall>raw \<in> set raws. \<not> is_mixed raw" using assms(2) is_mixed_range by blast
  then have p: "parse_lines cancelled 1 raws [] 0 = Parsed (List.map_filter line_rule raws) (length (filter is_bad raws))"
    using parse_lines_ok [where cancelled = cancelled and n = 1 and rules = "[]" and bad = 0] assms(1) by simp
  have blocked: "list_ex (in_range a) (List.map_filter line_rule raws)
      \<longleftrightarrow> (\<exists>raw \<in> set raws. \<exists>r. line_rule raw = Some r \<and> in_range a r)" for a
    by (induction raws) (auto simp: List.map_filter_simps split: option.split)
  have "(\<exists>r. line_rule raw = Some r \<and> in_range a r) \<longleftrightarrow> list_entry raw \<and> line_names (py_strip raw) a" for raw a
    unfolding parse_line_names [symmetric]
    by (auto simp: line_rule_def list_entry_def Let_def split: sum.splits)
  moreover have "blocklist_run cancelled q (Some raws) = (if q then None else Some (Some (List.map_filter line_rule raws)))" for q
    unfolding blocklist_run_def parse_blocklist_file_def option.case p by simp
  ultimately show ?thesis using blocked by simp
qed

theorem blocklist_blocks_witness:
  "\<exists>rules. blocklist_run (\<lambda>_. False) False (Some [''# list'', ''1.0.0.0 - 1.0.0.9'', ''oops'', ''::1'']) = Some (Some rules)
     \<and> list_ex (in_range (V4 (word_of_octets 1 0 0 7))) rules \<and> list_ex (in_range (V6 1 ''lo'')) rules"
proof -
  let ?raws = "[''# list'', ''1.0.0.0 - 1.0.0.9'', ''oops'', ''::1'']"
  have "py_strip ''1.0.0.0 - 1.0.0.9'' = ''1.0.0.0 '' @ CHR ''-'' # '' 1.0.0.9''" "py_strip ''::1'' = ''::1''" "py_strip ''oops'' = ''oops''"
    "py_strip ''# list'' = ''# list''" "py_strip ''1.0.0.0 '' = ''1.0.0.0''" "py_strip '' 1.0.0.9'' = ''1.0.0.9''"
    by code_simp+
  moreover have a: "ip_address ''1.0.0.0'' = Some (V4 (word_of_octets 1 0 0 0))" "ip_address ''1.0.0.9'' = Some (V4 (word_of_octets 1 0 0 9))"
    "ip_address ''::1'' = Some (V6 1 [])"
    by code_simp+
  moreover have "line_range (''1.0.0.0 '' @ CHR ''-'' # '' 1.0.0.9'') lo hi
      \<longleftrightarrow> lo = V4 (word_of_octets 1 0 0 0) \<and> hi = V4 (word_of_octets 1 0 0 9)" for lo hi
    by (subst line_range_unique) (auto simp: calculation)
  moreover have "addr_between (V4 (word_of_octets 1 0 0 0)) (V4 (word_of_octets 1 0 0 7)) (V4 (word_of_octets 1 0 0 9))"
    "addr_between (V6 1 []) (V6 1 ''lo'') (V6 1 [])" by code_simp+
  ultimately have named: "line_names (py_strip ''1.0.0.0 - 1.0.0.9'') (V4 (word_of_octets 1 0 0 7))" "line_names (py_strip ''::1'') (V6 1 ''lo'')"
      "list_entry ''1.0.0.0 - 1.0.0.9''" "list_entry ''::1''" "\<not> mixed_range (py_strip ''1.0.0.0 - 1.0.0.9'')"
      "py_strip ''oops'' = ''oops''" "py_strip ''# list'' = ''# list''" "py_strip ''::1'' = ''::1''"
    by (simp_all add: line_names_def list_entry_def mixed_range_def)
  moreover from this(6-8) have "\<not> mixed_range (py_strip ''oops'')" "\<not> mixed_range (py_strip ''# list'')" "\<not> mixed_range (py_strip ''::1'')"
    using mixed_range_minus by fastforce+
  ultimately have pure: "\<And>raw. raw \<in> set ?raws \<Longrightarrow> \<not> mixed_range (py_strip raw)" by auto
  have "\<exists>rules. blocklist_run (\<lambda>_. False) False (Some ?raws) = Some (Some rules)
      \<and> (\<forall>a. list_ex (in_range a) rules \<longleftrightarrow> (\<exists>raw \<in> set ?raws. list_entry raw \<and> line_names (py_strip raw) a))"
    by (rule blocklist_blocks [of "\<lambda>_. False" ?raws, THEN conjunct1]) (simp, rule pure)
  then show ?thesis using named by auto
qed

text \<open>One range from one address family to the other anywhere in the file, malformed like any
  other bad line, makes the whole load fail, so the session runs without any filter: the
  \<open>TypeError\<close> of the comparison is not the \<open>ValueError\<close> the loop skips.\<close>

theorem blocklist_mixed_range_disables:
  assumes "\<And>k. \<not> cancelled k"
  shows "parse_line ''1.2.3.4-::1'' = Inl TypeErrL
    \<and> blocklist_run cancelled False (Some (before @ ''1.2.3.4-::1'' # after)) = Some None"
proof -
  have "is_mixed ''1.2.3.4-::1''" "parse_line ''1.2.3.4-::1'' = Inl TypeErrL" by code_simp+
  then show ?thesis
    using parse_lines_mixed [where cancelled = cancelled and raws = "before @ ''1.2.3.4-::1'' # after" and n = 1
        and rules = "[]" and bad = 0] assms
    by (simp add: blocklist_run_def parse_blocklist_file_def One_nat_def [symmetric] del: One_nat_def)
qed

theorem blocklist_mixed_range_disables_witness:
  "blocklist_run (\<lambda>_. False) False (Some [''8.8.8.8'', ''1.2.3.4-::1'']) = Some None"
  using blocklist_mixed_range_disables [of "\<lambda>_. False" "[''8.8.8.8'']" "[]"] by simp

end
