(* ===== verification/Peers.thy ===== *)
theory Peers
  imports Stores Net PyFloat
begin

text \<open>
  \<open>engine/peer_reputation.py\<close> and \<open>engine/lan_peer_cache.py\<close>: what the client remembers of
  the peers it polls. \<open>lt.peer_info\<close> values are the record \<open>raw_peer\<close>; the clocks
  (\<open>time.monotonic()\<close>, \<open>time.time()\<close>) are arguments.
\<close>

section \<open>\<open>lt.peer_info\<close>\<close>

record raw_peer =
  pi_addr :: string
  pi_port :: int
  pi_total_download :: int
  pi_num_hashfails :: int
  pi_client :: string
  pi_progress :: rat
  pi_payload_down_speed :: int
  pi_payload_up_speed :: int

section \<open>PeerReputationStore\<close>

record reputation =
  rp_ip :: string
  rp_disconnect_count :: int
  rp_total_connected_seconds :: rat
  rp_total_bytes_received :: int
  rp_total_hashfails :: int

record rep_store =
  rs_records :: "(string, reputation) dict"
  rs_dirty :: bool
  rs_last_saved_at :: rat
  rs_file :: disk_file

definition SAVE_MIN_INTERVAL_SECONDS :: rat where "SAVE_MIN_INTERVAL_SECONDS = 30"

text \<open>\<open>ip_from_display\<close>: everything before the last colon.\<close>

definition ip_from_display :: "string \<Rightarrow> string" where
  "ip_from_display s = fst (rsplit1 CHR '':'' s)"

definition reputation_json :: "reputation \<Rightarrow> json" where
  "reputation_json r = JObj [(''ip'', JStr (rp_ip r)), (''disconnect_count'', JInt (rp_disconnect_count r)),
     (''total_connected_seconds'', JFloat (rp_total_connected_seconds r)),
     (''total_bytes_received'', JInt (rp_total_bytes_received r)), (''total_hashfails'', JInt (rp_total_hashfails r))]"

fun reputation_of_json :: "json \<Rightarrow> load_error + reputation" where
  "reputation_of_json (JObj kvs) =
     (if kwargs_ok [''ip'']
           [''ip'', ''disconnect_count'', ''total_connected_seconds'', ''total_bytes_received'', ''total_hashfails''] kvs
      then sbind (kwarg kvs ''ip'' as_str None) (\<lambda>ip.
           sbind (kwarg kvs ''disconnect_count'' as_int (Some 0)) (\<lambda>n.
           sbind (kwarg kvs ''total_connected_seconds'' as_float (Some 0)) (\<lambda>t.
           sbind (kwarg kvs ''total_bytes_received'' as_int (Some 0)) (\<lambda>b.
           sbind (kwarg kvs ''total_hashfails'' as_int (Some 0)) (\<lambda>h.
           Inr \<lparr>rp_ip = ip, rp_disconnect_count = n, rp_total_connected_seconds = t,
                rp_total_bytes_received = b, rp_total_hashfails = h\<rparr>)))))
      else Inl TypeErr)"
| "reputation_of_json _ = Inl TypeErr"

interpretation reputation_codec: json_codec reputation_json reputation_of_json
  by unfold_locales (simp add: reputation_json_def kwargs_ok_def kwarg_def)

definition rep_save :: "rat \<Rightarrow> rep_store \<Rightarrow> rep_store" where
  "rep_save now s = s\<lparr>rs_file := Doc (map_json reputation_json (rs_records s)), rs_dirty := False, rs_last_saved_at := now\<rparr>"

definition rep_load :: "disk_file \<Rightarrow> rep_store option" where
  "rep_load f = map_option (\<lambda>d. \<lparr>rs_records = d, rs_dirty = False, rs_last_saved_at = 0, rs_file = f\<rparr>)
     (load_map reputation_of_json f)"

definition rep_get :: "rep_store \<Rightarrow> string \<Rightarrow> reputation option" where
  "rep_get s ip = dget (rs_records s) ip"

definition record_disconnect :: "rat \<Rightarrow> string \<Rightarrow> rat \<Rightarrow> int \<Rightarrow> int \<Rightarrow> bool \<Rightarrow> rep_store \<Rightarrow> rep_store" where
  "record_disconnect now ip connected_seconds bytes_received hashfails save s =
     (let rec0 = (case dget (rs_records s) ip of Some r \<Rightarrow> r
                  | None \<Rightarrow> \<lparr>rp_ip = ip, rp_disconnect_count = 0, rp_total_connected_seconds = 0,
                             rp_total_bytes_received = 0, rp_total_hashfails = 0\<rparr>);
          rec1 = rec0\<lparr>rp_disconnect_count := rp_disconnect_count rec0 + 1,
                      rp_total_connected_seconds := fadd (rp_total_connected_seconds rec0) connected_seconds,
                      rp_total_bytes_received := rp_total_bytes_received rec0 + bytes_received,
                      rp_total_hashfails := rp_total_hashfails rec0 + hashfails\<rparr>;
          s' = s\<lparr>rs_records := dset ip rec1 (rs_records s), rs_dirty := True\<rparr>
      in if save then rep_save now s' else s')"

definition rep_flush :: "rat \<Rightarrow> rat \<Rightarrow> rep_store \<Rightarrow> rep_store" where
  "rep_flush now min_interval s =
     (if \<not> rs_dirty s \<or> fsub now (rs_last_saved_at s) < min_interval then s else rep_save now s)"

section \<open>PeerReputationTracker\<close>

type_synonym streak = "rat \<times> int \<times> int"

record rep_tracker =
  rt_active :: "(string, (string, streak) dict) dict"
  rt_store :: rep_store

fun note_seen :: "rat \<Rightarrow> raw_peer list \<Rightarrow> (string, streak) dict \<Rightarrow> (string, streak) dict" where
  "note_seen now [] by_ip = by_ip"
| "note_seen now (p # ps) by_ip =
     (let first = (case dget by_ip (pi_addr p) of Some (f, _, _) \<Rightarrow> f | None \<Rightarrow> now)
      in note_seen now ps (dset (pi_addr p) (first, pi_total_download p, pi_num_hashfails p) by_ip))"

fun fold_gone :: "rat \<Rightarrow> string list \<Rightarrow> (string, streak) dict \<times> rep_store \<Rightarrow> (string, streak) dict \<times> rep_store" where
  "fold_gone now [] acc = acc"
| "fold_gone now (ip # ips) (by_ip, s) =
     (case dget by_ip ip of
        None \<Rightarrow> fold_gone now ips (by_ip, s)
      | Some (first, bytes, fails) \<Rightarrow>
          fold_gone now ips (dpop ip by_ip, record_disconnect now ip (fsub now first) bytes fails False s))"

definition observe :: "rat \<Rightarrow> string \<Rightarrow> raw_peer list \<Rightarrow> rep_tracker \<Rightarrow> rep_tracker" where
  "observe now info_hash raw_peers t =
     (let by_ip = (case dget (rt_active t) info_hash of Some d \<Rightarrow> d | None \<Rightarrow> []);
          noted = note_seen now raw_peers by_ip;
          gone = filter (\<lambda>ip. ip \<notin> set (map pi_addr raw_peers)) (dkeys noted);
          (left, s) = fold_gone now gone (noted, rt_store t);
          s' = rep_flush now SAVE_MIN_INTERVAL_SECONDS s
      in t\<lparr>rt_active := (if left = [] then dpop info_hash (rt_active t) else dset info_hash left (rt_active t)),
           rt_store := s'\<rparr>)"

definition score_label :: "reputation option \<Rightarrow> string" where
  "score_label r =
     (case r of None \<Rightarrow> ''neutral''
      | Some r \<Rightarrow>
          if rp_disconnect_count r = 0 then ''neutral''
          else if 0 < rp_total_hashfails r then ''bad''
          else if 60 \<le> fdiv (rp_total_connected_seconds r) (fl (of_int (rp_disconnect_count r)))
                  \<and> 0 < rp_total_bytes_received r then ''good''
          else ''neutral'')"

section \<open>LanPeerCacheStore\<close>

record lan_peer =
  lp_ip :: string
  lp_port :: int
  lp_last_seen :: rat

record lan_store =
  ls_entries :: "(string, (string, lan_peer) dict) dict"
  ls_last_saved_at :: rat
  ls_dirty :: bool
  ls_file :: disk_file

definition MAX_AGE_SECONDS :: rat where "MAX_AGE_SECONDS = 172800"

definition lan_peer_json :: "lan_peer \<Rightarrow> json" where
  "lan_peer_json p = JObj [(''ip'', JStr (lp_ip p)), (''port'', JInt (lp_port p)), (''last_seen'', JFloat (lp_last_seen p))]"

fun lan_peer_of_json :: "json \<Rightarrow> load_error + lan_peer" where
  "lan_peer_of_json (JObj kvs) =
     (if kwargs_ok [''ip'', ''port'', ''last_seen''] [''ip'', ''port'', ''last_seen''] kvs
      then sbind (kwarg kvs ''ip'' as_str None) (\<lambda>ip.
           sbind (kwarg kvs ''port'' as_int None) (\<lambda>p.
           sbind (kwarg kvs ''last_seen'' as_float None) (\<lambda>t.
           Inr \<lparr>lp_ip = ip, lp_port = p, lp_last_seen = t\<rparr>)))
      else Inl TypeErr)"
| "lan_peer_of_json _ = Inl TypeErr"

interpretation lan_peer_codec: json_codec lan_peer_json lan_peer_of_json
  by unfold_locales (simp add: lan_peer_json_def kwargs_ok_def kwarg_def)

text \<open>\<open>_purge_expired\<close>\<close>

definition purge_expired :: "rat \<Rightarrow> (string, (string, lan_peer) dict) dict \<Rightarrow> (string, (string, lan_peer) dict) dict" where
  "purge_expired wall es =
     (let cutoff = fsub wall MAX_AGE_SECONDS
      in filter (\<lambda>(h, by_ip). by_ip \<noteq> [])
           (map (\<lambda>(h, by_ip). (h, filter (\<lambda>(ip, p). \<not> lp_last_seen p < cutoff) by_ip)) es))"

definition lan_save :: "lan_store \<Rightarrow> lan_store" where
  "lan_save s = s\<lparr>ls_file := Doc (map_json (map_json lan_peer_json) (ls_entries s)), ls_dirty := False\<rparr>"

text \<open>One torrent's entry of the file: skipped when it is not a mapping.\<close>

fun by_ip_of_json :: "json \<Rightarrow> load_error + (string, lan_peer) dict" where
  "by_ip_of_json (JObj kvs) = (case load_items lan_peer_of_json kvs of None \<Rightarrow> Inl IllTyped | Some d \<Rightarrow> Inr d)"
| "by_ip_of_json _ = Inl TypeErr"

definition lan_load :: "rat \<Rightarrow> disk_file \<Rightarrow> lan_store option" where
  "lan_load wall f =
     map_option (\<lambda>es. \<lparr>ls_entries = purge_expired wall (filter (\<lambda>(h, by_ip). by_ip \<noteq> []) es),
                       ls_last_saved_at = 0, ls_dirty = False, ls_file = f\<rparr>)
       (load_map by_ip_of_json f)"

fun note_lan :: "rat \<Rightarrow> raw_peer list \<Rightarrow> (string, lan_peer) dict \<times> bool \<Rightarrow> (string, lan_peer) dict \<times> bool" where
  "note_lan wall [] acc = acc"
| "note_lan wall (p # ps) (by_ip, changed) =
     (if is_rfc1918 (pi_addr p)
      then note_lan wall ps (dset (pi_addr p) \<lparr>lp_ip = pi_addr p, lp_port = pi_port p, lp_last_seen = wall\<rparr> by_ip, True)
      else note_lan wall ps (by_ip, changed))"

definition record_peers :: "rat \<Rightarrow> rat \<Rightarrow> string \<Rightarrow> raw_peer list \<Rightarrow> lan_store \<Rightarrow> lan_store" where
  "record_peers wall tick info_hash raw_peers s =
     (let by_ip = (case dget (ls_entries s) info_hash of Some d \<Rightarrow> d | None \<Rightarrow> []);
          (by_ip', changed) = note_lan wall raw_peers (by_ip, False);
          es = dset info_hash by_ip' (ls_entries s)
      in if \<not> changed then s\<lparr>ls_entries := es\<rparr>
         else let s' = s\<lparr>ls_entries := purge_expired wall es\<rparr>
              in if fsub tick (ls_last_saved_at s') < SAVE_MIN_INTERVAL_SECONDS then s'\<lparr>ls_dirty := True\<rparr>
                 else (lan_save s')\<lparr>ls_last_saved_at := tick\<rparr>)"

definition lan_flush :: "lan_store \<Rightarrow> lan_store" where
  "lan_flush s = (if ls_dirty s then lan_save s else s)"

definition get_peers :: "rat \<Rightarrow> string \<Rightarrow> lan_store \<Rightarrow> (string \<times> int) list \<times> lan_store" where
  "get_peers wall info_hash s =
     (let s' = s\<lparr>ls_entries := purge_expired wall (ls_entries s)\<rparr>;
          by_ip = (case dget (ls_entries s') info_hash of Some d \<Rightarrow> d | None \<Rightarrow> [])
      in (map (\<lambda>p. (lp_ip p, lp_port p)) (dvals by_ip), s'))"

text \<open>\<open>reconnect_cached_peers\<close>: the endpoints tried, in order, and how many did not raise.\<close>

definition reconnect_cached_peers ::
  "(string \<times> int \<Rightarrow> bool) \<Rightarrow> rat \<Rightarrow> string \<Rightarrow> lan_store \<Rightarrow> (string \<times> int) list \<times> nat \<times> lan_store" where
  "reconnect_cached_peers ok wall info_hash s =
     (let (eps, s') = get_peers wall info_hash s in (eps, length (filter ok eps), s'))"

section \<open>Facts on the tracker\<close>

definition streaks :: "rep_store \<Rightarrow> string \<Rightarrow> int" where
  "streaks s ip = (case rep_get s ip of None \<Rightarrow> 0 | Some r \<Rightarrow> rp_disconnect_count r)"

definition present :: "rep_tracker \<Rightarrow> string \<Rightarrow> string \<Rightarrow> bool" where
  "present t h ip \<longleftrightarrow> (case dget (rt_active t) h of None \<Rightarrow> False | Some d \<Rightarrow> ip \<in> set (dkeys d))"

definition tracker_ok :: "rep_tracker \<Rightarrow> bool" where
  "tracker_ok t \<longleftrightarrow> (\<forall>h d. dget (rt_active t) h = Some d \<longrightarrow> dict_ok d \<and> d \<noteq> [])"

lemma note_seen_keys: "set (dkeys (note_seen now ps d)) = set (dkeys d) \<union> set (map pi_addr ps)"
  by (induction ps arbitrary: d) (auto simp: Let_def simp del: set_map)

lemma note_seen_ok: "dict_ok d \<Longrightarrow> dict_ok (note_seen now ps d)"
  by (induction ps arbitrary: d) (simp_all add: Let_def)

lemma streaks_record:
  "streaks (record_disconnect now ip t b f False s) ip' = streaks s ip' + (if ip' = ip then 1 else 0)"
  by (simp add: streaks_def rep_get_def record_disconnect_def Let_def split: option.split)

lemma fold_gone_spec:
  assumes "distinct ips" "set ips \<subseteq> set (dkeys d)" "dict_ok d" "fold_gone now ips (d, s) = (d', s')"
  shows "set (dkeys d') = set (dkeys d) - set ips \<and> dict_ok d'
    \<and> streaks s' ip = streaks s ip + (if ip \<in> set ips then 1 else 0)"
  using assms
proof (induction ips arbitrary: d s)
  case Nil
  then show ?case by simp
next
  case (Cons i ips)
  have "dhas d i" using Cons.prems(2) by (intro dhas_iff_key [THEN iffD2]) auto
  then obtain w where "dget d i = Some w" by blast
  then obtain f b fails where v: "dget d i = Some (f, b, fails)" by (cases w) auto
  have sub: "set ips \<subseteq> set (dkeys (dpop i d))" using Cons.prems(1,2) by (auto simp del: set_map)
  have rest: "fold_gone now ips (dpop i d, record_disconnect now i (fsub now f) b fails False s) = (d', s')"
    using Cons.prems(4) by (simp add: v)
  have "distinct ips" "dict_ok (dpop i d)" using Cons.prems by auto
  from Cons.IH [OF this(1) sub this(2) rest] Cons.prems(1)
  show ?case by (auto simp: streaks_record simp del: set_map)
qed

lemma streaks_flush [simp]: "streaks (rep_flush now m s) = streaks s"
  by (simp add: fun_eq_iff streaks_def rep_get_def rep_flush_def rep_save_def)

lemma observe_spec:
  assumes "tracker_ok t"
  shows "tracker_ok (observe now h ps t)"
    and "present (observe now h ps t) h' ip \<longleftrightarrow> (if h' = h then ip \<in> set (map pi_addr ps) else present t h' ip)"
    and "streaks (rt_store (observe now h ps t)) ip
      = streaks (rt_store t) ip + (if present t h ip \<and> ip \<notin> set (map pi_addr ps) then 1 else 0)"
proof -
  define d where "d = (case dget (rt_active t) h of Some d \<Rightarrow> d | None \<Rightarrow> [])"
  define noted where "noted = note_seen now ps d"
  define gone where "gone = filter (\<lambda>ip. ip \<notin> set (map pi_addr ps)) (dkeys noted)"
  obtain left s where fg: "fold_gone now gone (noted, rt_store t) = (left, s)" by fastforce
  have d_ok: "dict_ok d" using assms by (auto simp: d_def tracker_ok_def split: option.split)
  have "distinct gone" "set gone \<subseteq> set (dkeys noted)" "dict_ok noted"
    using note_seen_ok [OF d_ok] by (auto simp: gone_def noted_def)
  note sp = fold_gone_spec [OF this fg]
  have keys: "set (dkeys left) = set (map pi_addr ps)"
    using sp by (auto simp: gone_def noted_def note_seen_keys simp del: set_map)
  have obs: "observe now h ps t = t\<lparr>rt_active := (if left = [] then dpop h (rt_active t) else dset h left (rt_active t)),
      rt_store := rep_flush now SAVE_MIN_INTERVAL_SECONDS s\<rparr>"
    using fg by (simp add: observe_def Let_def d_def noted_def gone_def)
  show "tracker_ok (observe now h ps t)"
    using assms sp by (auto simp: obs tracker_ok_def)
  show "present (observe now h ps t) h' ip \<longleftrightarrow> (if h' = h then ip \<in> set (map pi_addr ps) else present t h' ip)"
    using keys by (auto simp: obs present_def split: option.split)
  have "ip \<in> set gone \<longleftrightarrow> present t h ip \<and> ip \<notin> set (map pi_addr ps)"
    by (auto simp: gone_def noted_def note_seen_keys present_def d_def split: option.split simp del: set_map)
  then show "streaks (rt_store (observe now h ps t)) ip
      = streaks (rt_store t) ip + (if present t h ip \<and> ip \<notin> set (map pi_addr ps) then 1 else 0)"
    using sp by (simp add: obs)
qed

text \<open>How many times, over a series of polls, the address \<open>ip\<close> was there at one poll of a torrent
  and not at the next poll of that torrent; \<open>P\<close> says where it is at the start.\<close>

fun falls :: "string \<Rightarrow> (string \<Rightarrow> bool) \<Rightarrow> (rat \<times> string \<times> raw_peer list) list \<Rightarrow> int" where
  "falls ip P [] = 0"
| "falls ip P ((now, h, ps) # polls) =
     (if P h \<and> ip \<notin> set (map pi_addr ps) then 1 else 0)
     + falls ip (P(h := ip \<in> set (map pi_addr ps))) polls"

abbreviation run_polls :: "rep_tracker \<Rightarrow> (rat \<times> string \<times> raw_peer list) list \<Rightarrow> rep_tracker" where
  "run_polls t polls \<equiv> foldl (\<lambda>t (now, h, ps). observe now h ps t) t polls"

lemma run_polls_streaks:
  "tracker_ok t \<Longrightarrow> streaks (rt_store (run_polls t polls)) ip
     = streaks (rt_store t) ip + falls ip (\<lambda>h. present t h ip) polls"
proof (induction polls arbitrary: t)
  case Nil
  then show ?case by simp
next
  case (Cons poll polls)
  obtain now h ps where p: "poll = (now, h, ps)" by (cases poll)
  have "(\<lambda>h'. present (observe now h ps t) h' ip) = (\<lambda>h. present t h ip)(h := ip \<in> set (map pi_addr ps))"
    using observe_spec(2) [OF Cons.prems] by (auto simp: fun_eq_iff)
  then show ?case
    using Cons.IH [OF observe_spec(1) [OF Cons.prems, of now h ps]] observe_spec(3) [OF Cons.prems, of now h ps ip]
    by (simp add: p)
qed

section \<open>Facts on the LAN cache\<close>

definition lan_ok :: "(string, (string, lan_peer) dict) dict \<Rightarrow> bool" where
  "lan_ok es \<longleftrightarrow> (\<forall>(h, by_ip) \<in> set es. \<forall>(ip, p) \<in> set by_ip. lp_ip p = ip \<and> is_rfc1918 ip)"

lemma note_lan_ok:
  "(\<forall>(ip, p) \<in> set d. lp_ip p = ip \<and> is_rfc1918 ip) \<Longrightarrow>
   \<forall>(ip, p) \<in> set (fst (note_lan wall ps (d, c))). lp_ip p = ip \<and> is_rfc1918 ip"
proof (induction ps arbitrary: d c)
  case Nil
  then show ?case by simp
next
  case (Cons q ps)
  then show ?case
  proof (cases "is_rfc1918 (pi_addr q)")
    case True
    have "\<forall>(ip, p) \<in> set (dset (pi_addr q) \<lparr>lp_ip = pi_addr q, lp_port = pi_port q, lp_last_seen = wall\<rparr> d).
        lp_ip p = ip \<and> is_rfc1918 ip"
      using Cons.prems True dset_subset [of "pi_addr q" _ d] by fastforce
    from Cons.IH [OF this] True show ?thesis by simp
  qed simp
qed

lemma purge_ok: "lan_ok es \<Longrightarrow> lan_ok (purge_expired wall es)"
  by (fastforce simp: lan_ok_def purge_expired_def Let_def)

lemma lan_ok_dset:
  "lan_ok es \<Longrightarrow> \<forall>(ip, p) \<in> set d. lp_ip p = ip \<and> is_rfc1918 ip \<Longrightarrow> lan_ok (dset h d es)"
  using dset_subset [of h d es] by (fastforce simp: lan_ok_def)

lemma record_peers_ok:
  assumes "lan_ok (ls_entries s)"
  shows "lan_ok (ls_entries (record_peers wall tick h ps s))"
proof -
  let ?d = "case dget (ls_entries s) h of Some d \<Rightarrow> d | None \<Rightarrow> []"
  have "\<forall>(ip, p) \<in> set ?d. lp_ip p = ip \<and> is_rfc1918 ip"
    using assms dget_in_set [of "ls_entries s" h] by (cases "dget (ls_entries s) h") (fastforce simp: lan_ok_def)+
  from note_lan_ok [OF this, of wall ps False]
  have "lan_ok (dset h (fst (note_lan wall ps (?d, False))) (ls_entries s))" by (rule lan_ok_dset [OF assms])
  then show ?thesis
    by (auto simp: record_peers_def Let_def lan_save_def purge_ok split: prod.split)
qed

lemma purged_fresh:
  "(h, d) \<in> set (purge_expired wall es) \<Longrightarrow> (ip, p) \<in> set d \<Longrightarrow> fsub wall MAX_AGE_SECONDS \<le> lp_last_seen p"
  by (auto simp: purge_expired_def Let_def)

section \<open>Properties\<close>

text \<open>C12: over any series of polls of any torrents, the disconnections credited to an address are
  exactly the times it was present at one poll of a torrent and absent from that torrent's next
  poll: none is counted twice, none across torrents, and throttled writes lose none.\<close>

theorem reputation_counts_streaks:
  assumes "tracker_ok t"
  shows "streaks (rt_store (run_polls t polls)) ip
    = streaks (rt_store t) ip + falls ip (\<lambda>h. present t h ip) polls"
  by (rule run_polls_streaks [OF assms])

theorem reputation_counts_streaks_witness:
  "let p = \<lparr>pi_addr = ''1.2.3.4'', pi_port = 6881, pi_total_download = 1000, pi_num_hashfails = 0, pi_client = [],
            pi_progress = 0, pi_payload_down_speed = 0, pi_payload_up_speed = 0\<rparr>;
       t = \<lparr>rt_active = [], rt_store = \<lparr>rs_records = [], rs_dirty = False, rs_last_saved_at = 0, rs_file = Missing\<rparr>\<rparr>
   in streaks (rt_store (run_polls t [(1, ''A'', [p]), (2, ''B'', []), (3, ''A'', []), (4, ''A'', [])])) ''1.2.3.4'' = 1"
proof -
  define p :: raw_peer where "p = \<lparr>pi_addr = ''1.2.3.4'', pi_port = 6881, pi_total_download = 1000, pi_num_hashfails = 0, pi_client = [],
            pi_progress = 0, pi_payload_down_speed = 0, pi_payload_up_speed = 0\<rparr>"
  define t :: rep_tracker where "t = \<lparr>rt_active = [],
      rt_store = \<lparr>rs_records = [], rs_dirty = False, rs_last_saved_at = 0, rs_file = Missing\<rparr>\<rparr>"
  have "tracker_ok t" by (simp add: tracker_ok_def t_def)
  from reputation_counts_streaks [OF this, of "[(1, ''A'', [p]), (2, ''B'', []), (3, ''A'', []), (4, ''A'', [])]" "''1.2.3.4''"]
  have "streaks (rt_store (run_polls t [(1, ''A'', [p]), (2, ''B'', []), (3, ''A'', []), (4, ''A'', [])])) ''1.2.3.4'' = 1"
    by (simp add: t_def p_def streaks_def rep_get_def present_def del: foldl_Cons)
  then show ?thesis by (simp only: Let_def p_def t_def)
qed

text \<open>Whatever the polls contain, the LAN cache holds and hands out private addresses only, and
  never one last seen more than 48 hours before the read.\<close>

theorem lan_cache_private_and_fresh:
  assumes "lan_ok (ls_entries s)" and "get_peers wall' h' (record_peers wall tick h ps s) = (eps, s')"
  shows "lan_ok (ls_entries s') \<and> (\<forall>(ip, port) \<in> set eps. is_rfc1918 ip
      \<and> (\<exists>d p. dget (ls_entries s') h' = Some d \<and> dget d ip \<noteq> None \<and> (ip, p) \<in> set d \<and> lp_port p = port
           \<and> fsub wall' MAX_AGE_SECONDS \<le> lp_last_seen p))"
proof -
  let ?es = "purge_expired wall' (ls_entries (record_peers wall tick h ps s))"
  have ok: "lan_ok ?es" by (intro purge_ok record_peers_ok assms(1))
  have s': "ls_entries s' = ?es"
    and eps: "eps = map (\<lambda>p. (lp_ip p, lp_port p)) (dvals (case dget ?es h' of Some d \<Rightarrow> d | None \<Rightarrow> []))"
    using assms(2) by (auto simp: get_peers_def Let_def)
  have "is_rfc1918 ip \<and> (\<exists>d p. dget ?es h' = Some d \<and> dget d ip \<noteq> None \<and> (ip, p) \<in> set d \<and> lp_port p = port
           \<and> fsub wall' MAX_AGE_SECONDS \<le> lp_last_seen p)" if "(ip, port) \<in> set eps" for ip port
  proof -
    note member = that
    obtain d k p where d: "dget ?es h' = Some d" "(k, p) \<in> set d" and "ip = lp_ip p" "port = lp_port p"
      using member [unfolded eps] by (cases "dget ?es h'") auto
    moreover from d have "lp_ip p = k \<and> is_rfc1918 k"
      using ok by (fastforce simp: lan_ok_def dest: dget_in_set)
    moreover have "fsub wall' MAX_AGE_SECONDS \<le> lp_last_seen p" using purged_fresh [OF dget_in_set [OF d(1)] d(2)] .
    moreover have "dget d k \<noteq> None" using d(2) by (rule dhas_of_set)
    ultimately show ?thesis by auto
  qed
  with ok s' show ?thesis by auto
qed

theorem lan_cache_private_and_fresh_witness:
  "is_rfc1918 (fst (hd (fst (get_peers 2000 ''A'' (record_peers 1000 50 ''A''
     [\<lparr>pi_addr = ''192.168.1.50'', pi_port = 51413, pi_total_download = 0, pi_num_hashfails = 0, pi_client = [],
       pi_progress = 0, pi_payload_down_speed = 0, pi_payload_up_speed = 0\<rparr>]
     \<lparr>ls_entries = [], ls_last_saved_at = 0, ls_dirty = False, ls_file = Missing\<rparr>)))))"
proof -
  let ?p = "\<lparr>pi_addr = ''192.168.1.50'', pi_port = 51413, pi_total_download = 0, pi_num_hashfails = 0, pi_client = [],
       pi_progress = 0, pi_payload_down_speed = 0, pi_payload_up_speed = 0\<rparr>"
  let ?s = "\<lparr>ls_entries = [], ls_last_saved_at = 0, ls_dirty = False, ls_file = Missing\<rparr>"
  obtain eps s' where g: "get_peers 2000 ''A'' (record_peers 1000 50 ''A'' [?p] ?s) = (eps, s')" by fastforce
  have r: "is_rfc1918 ''192.168.1.50''" by code_simp
  have f: "fsub 1000 MAX_AGE_SECONDS \<le> 1000" "fsub 2000 MAX_AGE_SECONDS \<le> 1000" by code_simp+
  have "\<not> fsub 50 0 < SAVE_MIN_INTERVAL_SECONDS" by code_simp
  then have "eps \<noteq> []"
    using g r f by (auto simp: get_peers_def record_peers_def Let_def purge_expired_def lan_save_def)
  then show ?thesis
    using lan_cache_private_and_fresh [of ?s 2000 "''A''" 1000 50 "''A''" "[?p]" eps s'] g
    by (cases eps) (auto simp: lan_ok_def)
qed

end
