(* ===== verification/Tags.thy ===== *)
theory Tags
  imports Stores "HOL-Library.List_Lexorder" "HOL-Library.Char_ord"
begin

text \<open>
  \<open>engine/torrent_categories.py\<close> and \<open>engine/tag_service.py\<close>: the category and the tags the user
  gave each torrent, two dictionaries rewritten to disk at each change. Sorting strings by their
  UTF-8 bytes is sorting them by code point, as Python does.
\<close>

section \<open>TorrentCategoryService\<close>

record categories =
  ct_map :: "(string, string) dict"
  ct_file :: disk_file

definition categories_save :: "categories \<Rightarrow> categories" where
  "categories_save s = s\<lparr>ct_file := Doc (map_json JStr (ct_map s))\<rparr>"

text \<open>\<open>str(v)\<close> of a value that is no string is outside the typed model.\<close>

definition categories_load :: "disk_file \<Rightarrow> categories option" where
  "categories_load f = map_option (\<lambda>d. \<lparr>ct_map = d, ct_file = f\<rparr>) (load_map as_str f)"

definition set_category :: "string \<Rightarrow> string \<Rightarrow> categories \<Rightarrow> categories" where
  "set_category info_hash category s = categories_save (s\<lparr>ct_map := dset info_hash category (ct_map s)\<rparr>)"

definition get_category :: "categories \<Rightarrow> string \<Rightarrow> string" where
  "get_category s info_hash = (case dget (ct_map s) info_hash of Some c \<Rightarrow> c | None \<Rightarrow> [])"

definition remove_category :: "string \<Rightarrow> categories \<Rightarrow> categories" where
  "remove_category info_hash s =
     (case dget (ct_map s) info_hash of
        None \<Rightarrow> s
      | Some _ \<Rightarrow> categories_save (s\<lparr>ct_map := dpop info_hash (ct_map s)\<rparr>))"

lemma get_set_category [simp]:
  "get_category (set_category h c s) h' = (if h' = h then c else get_category s h')"
  by (simp add: get_category_def set_category_def categories_save_def)

lemma get_remove_category [simp]:
  "get_category (remove_category h s) h' = (if h' = h then [] else get_category s h')"
  by (auto simp: get_category_def remove_category_def categories_save_def split: option.split)

lemma categories_reload: "categories_load (ct_file (categories_save s)) = Some (categories_save s)"
  by (simp add: categories_load_def categories_save_def load_map_enc)

section \<open>TagService\<close>

record tags =
  tg_map :: "(string, string list) dict"
  tg_file :: disk_file

definition tags_json :: "string list \<Rightarrow> json" where
  "tags_json ts = JArr (map JStr ts)"

fun tags_of_json :: "json \<Rightarrow> load_error + string list" where
  "tags_of_json (JArr js) = (case those (map (\<lambda>j. case j of JStr s \<Rightarrow> Some s | _ \<Rightarrow> None) js) of
     Some ts \<Rightarrow> Inr ts | None \<Rightarrow> Inl IllTyped)"
| "tags_of_json _ = Inl TypeErr"

interpretation tags_codec: json_codec tags_json tags_of_json
proof
  fix ts :: "string list"
  have "those (map (\<lambda>j. case j of JStr s \<Rightarrow> Some s | _ \<Rightarrow> None) (map JStr ts)) = Some ts"
    by (induction ts) simp_all
  then show "tags_of_json (tags_json ts) = Inr ts" by (simp add: tags_json_def)
qed

definition tags_save :: "tags \<Rightarrow> tags" where
  "tags_save s = s\<lparr>tg_file := Doc (map_json tags_json (tg_map s))\<rparr>"

definition tags_load :: "disk_file \<Rightarrow> tags option" where
  "tags_load f = map_option (\<lambda>d. \<lparr>tg_map = d, tg_file = f\<rparr>) (load_map tags_of_json f)"

definition add_tag :: "string \<Rightarrow> string \<Rightarrow> tags \<Rightarrow> tags" where
  "add_tag info_hash tag0 s =
     (let tag = py_strip tag0
      in if tag = [] then s
         else let existing = (case dget (tg_map s) info_hash of Some ts \<Rightarrow> ts | None \<Rightarrow> []);
                  s' = s\<lparr>tg_map := (case dget (tg_map s) info_hash of Some ts \<Rightarrow> tg_map s
                                    | None \<Rightarrow> dset info_hash [] (tg_map s))\<rparr>
              in if tag \<in> set existing then s'
                 else tags_save (s'\<lparr>tg_map := dset info_hash (existing @ [tag]) (tg_map s')\<rparr>))"

definition remove_tag :: "string \<Rightarrow> string \<Rightarrow> tags \<Rightarrow> tags" where
  "remove_tag info_hash tag s =
     (case dget (tg_map s) info_hash of
        None \<Rightarrow> s
      | Some existing \<Rightarrow>
          if tag \<notin> set existing then s
          else let left = remove1 tag existing
               in tags_save (s\<lparr>tg_map := (if left = [] then dpop info_hash (tg_map s)
                                           else dset info_hash left (tg_map s))\<rparr>))"

definition get_tags :: "tags \<Rightarrow> string \<Rightarrow> string list" where
  "get_tags s info_hash = (case dget (tg_map s) info_hash of Some ts \<Rightarrow> ts | None \<Rightarrow> [])"

definition all_tags :: "tags \<Rightarrow> string list" where
  "all_tags s = sorted_list_of_set (set (concat (dvals (tg_map s))))"

definition clear_tags :: "string \<Rightarrow> tags \<Rightarrow> tags" where
  "clear_tags info_hash s =
     (case dget (tg_map s) info_hash of
        None \<Rightarrow> s | Some _ \<Rightarrow> tags_save (s\<lparr>tg_map := dpop info_hash (tg_map s)\<rparr>))"

text \<open>\<open>known\<close>: the stems of \<open>resume/*.fastresume\<close>.\<close>

definition drop_orphans :: "string set \<Rightarrow> tags \<Rightarrow> nat \<times> tags" where
  "drop_orphans known s =
     (let orphans = filter (\<lambda>h. h \<notin> known) (dkeys (tg_map s));
          s' = s\<lparr>tg_map := filter (\<lambda>(h, ts). h \<in> known) (tg_map s)\<rparr>
      in (length orphans, if orphans = [] then s' else tags_save s'))"

section \<open>The well-formedness of the tags\<close>

definition tag_list_ok :: "string list \<Rightarrow> bool" where
  "tag_list_ok ts \<longleftrightarrow> ts \<noteq> [] \<and> distinct ts \<and> [] \<notin> set ts"

definition tags_ok :: "tags \<Rightarrow> bool" where
  "tags_ok s \<longleftrightarrow> dict_ok (tg_map s) \<and> list_all tag_list_ok (dvals (tg_map s))"

datatype tag_op = AddTag string string | RemoveTag string string | ClearTags string | DropOrphans "string set"

fun tag_step :: "tag_op \<Rightarrow> tags \<Rightarrow> tags" where
  "tag_step (AddTag h t) s = add_tag h t s"
| "tag_step (RemoveTag h t) s = remove_tag h t s"
| "tag_step (ClearTags h) s = clear_tags h s"
| "tag_step (DropOrphans known) s = snd (drop_orphans known s)"

lemma vals_dset: "set (dvals (dset k v d)) \<subseteq> insert v (set (dvals d))"
  using dset_subset [of k v d] by force

lemma vals_dpop: "set (dvals (dpop k d)) \<subseteq> set (dvals d)"
  by (induction d) auto

lemma tags_save_map [simp]: "tg_map (tags_save s) = tg_map s"
  by (simp add: tags_save_def)

lemma tags_ok_get: "tags_ok s \<Longrightarrow> dget (tg_map s) h = Some ts \<Longrightarrow> tag_list_ok ts"
  by (metis tags_ok_def dget_in_dvals list_all_iff)

lemma tags_ok_dset: "tags_ok s \<Longrightarrow> tag_list_ok ts \<Longrightarrow> tags_ok (s\<lparr>tg_map := dset h ts (tg_map s)\<rparr>)"
  using vals_dset [of h ts "tg_map s"] by (auto simp: tags_ok_def list_all_iff simp del: set_map)

lemma tags_ok_dpop: "tags_ok s \<Longrightarrow> tags_ok (s\<lparr>tg_map := dpop h (tg_map s)\<rparr>)"
  using vals_dpop [of h "tg_map s"] by (auto simp: tags_ok_def list_all_iff simp del: set_map)

lemma tags_ok_save: "tags_ok (tags_save s) = tags_ok s"
  by (simp add: tags_ok_def)

lemma dset_dset_same: "dset k v (dset k w d) = dset k v d"
  by (induction d) auto

lemma tag_step_ok: "tags_ok s \<Longrightarrow> tags_ok (tag_step op s)"
proof (cases op)
  case (AddTag h t)
  assume ok: "tags_ok s"
  show ?thesis
  proof (cases "py_strip t = [] \<or> py_strip t \<in> set (get_tags s h)")
    case True
    then show ?thesis using ok
      by (auto simp: AddTag add_tag_def Let_def get_tags_def split: option.splits)
  next
    case False
    have "tag_list_ok (get_tags s h @ [py_strip t])"
    proof (cases "dget (tg_map s) h")
      case None
      then show ?thesis using False by (simp add: tag_list_ok_def get_tags_def)
    next
      case (Some ts)
      then show ?thesis using False tags_ok_get [OF ok Some] by (auto simp: tag_list_ok_def get_tags_def)
    qed
    from tags_ok_dset [OF ok this, of h] False show ?thesis
      by (auto simp: AddTag add_tag_def Let_def get_tags_def tags_ok_save dset_dset_same split: option.splits)
  qed
next
  case (RemoveTag h t)
  assume ok: "tags_ok s"
  have "tag_list_ok (remove1 t ts)" if "tag_list_ok ts" "remove1 t ts \<noteq> []" for ts
    using that set_remove1_subset [of t ts] by (auto simp: tag_list_ok_def)
  then show ?thesis using ok tags_ok_get [OF ok, of h]
    by (auto simp: RemoveTag remove_tag_def Let_def tags_ok_save tags_ok_dset tags_ok_dpop split: option.splits)
next
  case (ClearTags h)
  then show "tags_ok s \<Longrightarrow> ?thesis" by (auto simp: clear_tags_def tags_ok_save tags_ok_dpop split: option.split)
next
  case (DropOrphans known)
  assume ok: "tags_ok s"
  have "tags_ok (s\<lparr>tg_map := filter (\<lambda>(h, ts). h \<in> known) (tg_map s)\<rparr>)"
    using ok by (auto simp: tags_ok_def list_all_iff distinct_map_filter_key)
  then show ?thesis by (simp add: DropOrphans drop_orphans_def Let_def tags_ok_save)
qed

lemma tag_step_synced:
  "tags_load (tg_file s) = Some s \<Longrightarrow> tags_ok s \<Longrightarrow> tags_load (tg_file (tag_step op s)) = Some (tag_step op s)"
proof -
  assume h: "tags_load (tg_file s) = Some s" "tags_ok s"
  have r: "tags_load (tg_file (tags_save x)) = Some (tags_save x)" for x
    by (simp add: tags_load_def tags_save_def tags_codec.reload_map)
  have "tg_map s = filter (\<lambda>(h, ts). h \<in> known) (tg_map s)" if "filter (\<lambda>h. h \<notin> known) (dkeys (tg_map s)) = []" for known
    using that by (auto simp: filter_empty_conv intro!: filter_True [symmetric])
  then show ?thesis using h r
    by (cases op) (auto simp: add_tag_def remove_tag_def clear_tags_def drop_orphans_def Let_def split: option.splits)
qed

section \<open>Properties\<close>

text \<open>Over any history of tag operations the lists hold no blank tag, no duplicate and no empty
  list, a restart reads back exactly the tags in memory, and what the start-up sweep drops is
  the tags of the torrents without a resume file.\<close>

theorem tags_survive:
  assumes "tags_ok s" "tags_load (tg_file s) = Some s"
  shows "(let s' = foldl (\<lambda>s op. tag_step op s) s ops in tags_ok s' \<and> tags_load (tg_file s') = Some s')
    \<and> get_tags (snd (drop_orphans known s)) h = (if h \<in> known then get_tags s h else [])"
proof -
  have "tags_ok (foldl (\<lambda>s op. tag_step op s) s ops)
      \<and> tags_load (tg_file (foldl (\<lambda>s op. tag_step op s) s ops)) = Some (foldl (\<lambda>s op. tag_step op s) s ops)"
    using assms by (induction ops arbitrary: s) (auto simp: tag_step_ok tag_step_synced)
  moreover have "map_of (filter (\<lambda>(h, ts). h \<in> known) d) h = (if h \<in> known then map_of d h else None)" for d
    by (induction d) auto
  from this [of "tg_map s"] have "get_tags (snd (drop_orphans known s)) h = (if h \<in> known then get_tags s h else [])"
    by (simp add: get_tags_def drop_orphans_def Let_def)
  ultimately show ?thesis by (simp add: Let_def)
qed

theorem tags_survive_witness:
  "tags_ok (foldl (\<lambda>s op. tag_step op s) \<lparr>tg_map = [], tg_file = Missing\<rparr>
     [AddTag ''A'' '' iso '', AddTag ''A'' ''iso'', AddTag ''A'' ''  '', RemoveTag ''A'' ''iso'', DropOrphans {}])"
proof -
  have "tags_ok \<lparr>tg_map = [], tg_file = Missing\<rparr>" "tags_load Missing = Some \<lparr>tg_map = [], tg_file = Missing\<rparr>"
    by (simp_all add: tags_ok_def tags_load_def)
  from tags_survive [OF this(1), of "[AddTag ''A'' '' iso '', AddTag ''A'' ''iso'', AddTag ''A'' ''  '', RemoveTag ''A'' ''iso'', DropOrphans {}]"
      "{}" "[]"] this(2)
  show ?thesis by (simp only: tags.simps Let_def)
qed

end
