(* ===== verification/Session.thy ===== *)
theory Session
  imports Torrent_Item Peers Tags
begin

text \<open>
  \<open>engine/session_manager.py\<close>, \<open>engine/persistence.py\<close> and the dispatcher of
  \<open>engine/alerts.py\<close>: the session's state, the alert handlers, the 300 ms tick, adding,
  restoring and removing torrents, and shutdown. The user's operations on one torrent are in
  \<open>Session_Ops\<close>.

  A libtorrent handle is a number; what libtorrent answers about handles at the time of a call
  is the record \<open>world\<close>, a parameter of each operation. The calls the code makes on libtorrent
  and on the file system are the list \<open>ss_cmds\<close>, the signals it emits the list \<open>ss_sigs\<close>, both in
  order. An operation returns the state and a flag, False when it raised: a call on an invalid
  handle raises, and what was done before it stays done.
\<close>

section \<open>The outside world\<close>

type_synonym handle = nat

text \<open>A resolved path: its drive or UNC anchor and its components.\<close>

record rpath =
  rp_anchor :: string
  rp_parts :: "string list"

record world =
  w_valid :: "handle \<Rightarrow> bool"
  w_hashes :: "handle \<Rightarrow> lt_hashes"
  w_info :: "handle \<Rightarrow> torrent_info option"
  w_priorities :: "handle \<Rightarrow> int list"
  w_file_progress :: "handle \<Rightarrow> int list"
  w_pieces :: "handle \<Rightarrow> bool list"
  w_availability :: "handle \<Rightarrow> int list"
  w_trackers :: "handle \<Rightarrow> tracker_entry list"
  w_peers :: "handle \<Rightarrow> raw_peer list"
  w_magnet :: "handle \<Rightarrow> string option"
  w_resolve :: "string \<Rightarrow> rpath option"
  w_join :: "string \<Rightarrow> string \<Rightarrow> string"
  w_mode :: "string \<Rightarrow> int option"
  w_allocated :: "string \<Rightarrow> int"
  w_denied :: "rpath list"
  w_now :: rat
  w_mono :: rat
  w_iso :: "rat \<Rightarrow> string"
  w_download_dir :: string

datatype lt_cmd =
    PostTorrentUpdates
  | AddTorrent atp
  | AsyncAddTorrent atp
  | RemoveTorrent handle bool
  | ApplySettings lt_settings
  | SetIpFilter "(ip_addr \<times> ip_addr) list"
  | SessionPause
  | SessionResume
  | HPause handle
  | HResume handle
  | SetAutoManaged handle
  | UnsetAutoManaged handle
  | QueueUp handle
  | QueueDown handle
  | SaveResumeData handle bool
  | PrioritizeFiles handle "int list"
  | SetSequential handle bool
  | SetPieceDeadline handle int int
  | ClearPieceDeadlines handle
  | ForceRecheck handle
  | MoveStorage handle string
  | AddTracker handle string int
  | ReplaceTrackers handle "tracker_entry list"
  | ConnectPeer handle "string \<times> int"
  | Chmod string int
  | WriteManifest string json

datatype signal =
    TorrentAdded string
  | TorrentRemoved string
  | TorrentRestoreFailed string
  | StatusUpdated string torrent_record
  | StatusBatchUpdated "torrent_record list"
  | TorrentFinished string
  | MetadataReceived string
  | TrackerError string string
  | DownloadBlockedByTheme string
  | ThemeDownloadsPaused nat
  | StorageMoved string string
  | FileError string string
  | BlocklistWaitChanged bool

text \<open>\<open>ss_resume_dir\<close>: the \<open>.fastresume\<close> files, by the info hash in their name.\<close>

record session =
  ss_settings :: settings
  ss_records :: "(string, torrent_record) dict"
  ss_handles :: "(string, handle) dict"
  ss_private_checked :: "string set"
  ss_pending_confirm :: "string set"
  ss_pending_restore :: "string set"
  ss_categories :: categories
  ss_speed :: "(string, (int \<times> int) list) dict"
  ss_rep :: rep_tracker
  ss_lan :: lan_store
  ss_last_sweep :: rat
  ss_queue :: "string list"
  ss_blocklist_wait :: bool
  ss_timer_active :: bool
  ss_resume_timer_active :: bool
  ss_files_cache :: "(string, file_entry list) dict"
  ss_resume_dir :: "(string, atp) dict"
  ss_cmds :: "lt_cmd list"
  ss_sigs :: "signal list"

definition emit :: "signal \<Rightarrow> session \<Rightarrow> session" where
  "emit sig s = s\<lparr>ss_sigs := ss_sigs s @ [sig]\<rparr>"

definition cmd :: "lt_cmd \<Rightarrow> session \<Rightarrow> session" where
  "cmd c s = s\<lparr>ss_cmds := ss_cmds s @ [c]\<rparr>"

text \<open>A call on a handle: it raises when the handle is not valid.\<close>

definition hcall :: "world \<Rightarrow> handle \<Rightarrow> lt_cmd \<Rightarrow> session \<Rightarrow> session \<times> bool" where
  "hcall w h c s = (if w_valid w h then (cmd c s, True) else (s, False))"

definition andthen :: "session \<times> bool \<Rightarrow> (session \<Rightarrow> session \<times> bool) \<Rightarrow> session \<times> bool" where
  "andthen r f = (if snd r then f (fst r) else r)"

definition set_record :: "string \<Rightarrow> torrent_record \<Rightarrow> session \<Rightarrow> session" where
  "set_record ih r s = s\<lparr>ss_records := dset ih r (ss_records s)\<rparr>"

text \<open>\<open>record = self._records.get(ih); if record is not None: ...\<close>\<close>

definition on_record :: "string \<Rightarrow> (torrent_record \<Rightarrow> torrent_record) \<Rightarrow> session \<Rightarrow> session" where
  "on_record ih f s = (case dget (ss_records s) ih of None \<Rightarrow> s | Some r \<Rightarrow> set_record ih (f r) s)"

section \<open>Pause, resume and the theme\<close>

definition CCCP_THEME_ID :: string where "CCCP_THEME_ID = ''cccp_soviet''"

definition is_download_start_blocked :: "string \<Rightarrow> rat \<Rightarrow> bool" where
  "is_download_start_blocked theme progress \<longleftrightarrow> theme = CCCP_THEME_ID \<and> progress < 1"

definition pause_torrent :: "world \<Rightarrow> string \<Rightarrow> session \<Rightarrow> session" where
  "pause_torrent w ih s =
     (case dget (ss_handles s) ih of
        None \<Rightarrow> s
      | Some h \<Rightarrow> if \<not> w_valid w h then s else cmd (HPause h) (cmd (UnsetAutoManaged h) s))"

section \<open>\<open>engine/persistence.py\<close>\<close>

definition save_resume_params :: "string \<Rightarrow> atp \<Rightarrow> session \<Rightarrow> session" where
  "save_resume_params ih params s = s\<lparr>ss_resume_dir := dset ih params (ss_resume_dir s)\<rparr>"

definition delete_resume_file :: "string \<Rightarrow> session \<Rightarrow> session" where
  "delete_resume_file ih s = s\<lparr>ss_resume_dir := dpop ih (ss_resume_dir s)\<rparr>"

text \<open>What \<open>lt.read_resume_data\<close> makes of each file; unreadable ones are skipped.\<close>

definition load_all_resume_params :: "atp option list \<Rightarrow> atp list" where
  "load_all_resume_params files = List.map_filter (\<lambda>f. f) files"

section \<open>Alert handlers\<close>

definition SPEED_HISTORY_MAX :: nat where "SPEED_HISTORY_MAX = 200"

text \<open>One status of \<open>_on_state_update\<close>; the second component is the records updated so far.\<close>

definition state_update_one :: "world \<Rightarrow> lt_status \<Rightarrow> session \<times> torrent_record list \<Rightarrow> session \<times> torrent_record list" where
  "state_update_one w status acc =
     (let (s, updated) = acc; ih = info_hash_hex_of (sx_info_hashes status)
      in case dget (ss_records s) ih of
           None \<Rightarrow> acc
         | Some record \<Rightarrow>
             (let r = status_to_record status record;
                  history = opt_or (dget (ss_speed s) ih) [];
                  s1 = s\<lparr>ss_speed := dset ih (last_n SPEED_HISTORY_MAX (history @ [(tr_download_rate r, tr_upload_rate r)])) (ss_speed s)\<rparr>;
                  ti = (if ih \<in> ss_private_checked s1 then None
                        else case dget (ss_handles s1) ih of
                               Some h \<Rightarrow> if w_valid w h then w_info w h else None
                             | None \<Rightarrow> None);
                  (r', s2) = (case ti of
                                None \<Rightarrow> (r, s1)
                              | Some ti \<Rightarrow> (r\<lparr>tr_is_private := ti_priv ti\<rparr>,
                                            s1\<lparr>ss_private_checked := insert ih (ss_private_checked s1)\<rparr>))
              in (emit (StatusUpdated ih r') (set_record ih r' s2), updated @ [r'])))"

definition on_state_update :: "world \<Rightarrow> lt_status list \<Rightarrow> session \<Rightarrow> session" where
  "on_state_update w statuses s =
     (let (s', updated) = foldl (\<lambda>acc st. state_update_one w st acc) (s, []) statuses
      in if updated = [] then s' else emit (StatusBatchUpdated updated) s')"

definition on_metadata_received :: "string \<Rightarrow> session \<Rightarrow> session" where
  "on_metadata_received ih s =
     emit (MetadataReceived ih) (on_record ih (\<lambda>r. r\<lparr>tr_is_magnet_awaiting_metadata := False\<rparr>) s)"

definition write_provenance_manifest :: "world \<Rightarrow> torrent_record \<Rightarrow> session \<Rightarrow> session" where
  "write_provenance_manifest w r s =
     (let completed_at = (case tr_completed_at r of Some t \<Rightarrow> if t = 0 then w_now w else t | None \<Rightarrow> w_now w)
      in cmd (WriteManifest (w_join w (tr_save_path r) (tr_info_hash r @ ''.provenance.json''))
           (JObj [(''info_hash'', JStr (tr_info_hash r)), (''name'', JStr (tr_name r)),
              (''completed_at'', JStr (w_iso w completed_at)),
              (''trackers'', JArr (map (\<lambda>t. JStr (tk_url t)) (tr_trackers r))),
              (''total_size'', JInt (tr_total_size r))])) s)"

definition on_torrent_finished :: "world \<Rightarrow> string \<Rightarrow> session \<Rightarrow> session" where
  "on_torrent_finished w ih s =
     (if ih \<in> ss_pending_confirm s then s\<lparr>ss_pending_confirm := ss_pending_confirm s - {ih}\<rparr>
      else let s1 = (case dget (ss_records s) ih of
                       None \<Rightarrow> s
                     | Some record \<Rightarrow>
                         (let r = (if tr_completed_at record = None then record\<lparr>tr_completed_at := Some (w_now w)\<rparr> else record);
                              s' = set_record ih r s
                          in if cfg_provenance_manifest_enabled (ss_settings s')
                             then write_provenance_manifest w r s' else s'))
           in emit (TorrentFinished ih) s1)"

definition on_torrent_removed :: "string \<Rightarrow> session \<Rightarrow> session" where
  "on_torrent_removed ih s =
     emit (TorrentRemoved ih)
       (delete_resume_file ih
          (s\<lparr>ss_records := dpop ih (ss_records s), ss_handles := dpop ih (ss_handles s),
             ss_speed := dpop ih (ss_speed s), ss_files_cache := dpop ih (ss_files_cache s),
             ss_pending_confirm := ss_pending_confirm s - {ih},
             ss_categories := remove_category ih (ss_categories s)\<rparr>))"

definition on_torrent_added :: "string \<Rightarrow> handle \<Rightarrow> string \<Rightarrow> session \<Rightarrow> session" where
  "on_torrent_added ih handle error s =
     (if ih \<notin> ss_pending_restore s then s
      else let s1 = s\<lparr>ss_pending_restore := ss_pending_restore s - {ih}\<rparr>
           in if error = [] then s1\<lparr>ss_handles := dset ih handle (ss_handles s1)\<rparr>
              else let s2 = s1\<lparr>ss_pending_confirm := ss_pending_confirm s1 - {ih}\<rparr>
                   in if dhas (ss_handles s2) ih then s2
                      else emit (TorrentRestoreFailed ih) (s2\<lparr>ss_records := dpop ih (ss_records s2)\<rparr>))"

definition on_storage_moved :: "string \<Rightarrow> string \<Rightarrow> session \<Rightarrow> session" where
  "on_storage_moved ih new_path s =
     emit (StorageMoved ih new_path) (on_record ih (\<lambda>r. r\<lparr>tr_save_path := new_path\<rparr>) s)"

definition on_file_error :: "world \<Rightarrow> string \<Rightarrow> string \<Rightarrow> session \<Rightarrow> session" where
  "on_file_error w ih message s = emit (FileError ih message) (pause_torrent w ih s)"

section \<open>The dispatcher\<close>

datatype alert =
    StateUpdateAlert "lt_status list"
  | MetadataReceivedAlert handle
  | TorrentFinishedAlert handle
  | TrackerErrorAlert handle string string
  | SaveResumeDataAlert handle atp
  | SaveResumeDataFailedAlert handle
  | TorrentRemovedAlert lt_hashes
  | AddTorrentAlert atp handle int string
  | StorageMovedAlert handle string
  | FileErrorAlert handle string
  | OtherAlert

text \<open>\<open>_hash_of\<close>: \<open>None\<close> is the \<open>RuntimeError\<close> for an invalid handle.\<close>

definition hash_of :: "world \<Rightarrow> handle \<Rightarrow> string option" where
  "hash_of w h = (if w_valid w h then Some (info_hash_hex_of (w_hashes w h)) else None)"

definition with_hash :: "world \<Rightarrow> handle \<Rightarrow> (string \<Rightarrow> session \<Rightarrow> session) \<Rightarrow> session \<Rightarrow> session \<times> bool" where
  "with_hash w h f s = (case hash_of w h of None \<Rightarrow> (s, False) | Some ih \<Rightarrow> (f ih s, True))"

fun dispatch :: "world \<Rightarrow> alert \<Rightarrow> session \<Rightarrow> session \<times> bool" where
  "dispatch w (StateUpdateAlert sts) s = (if sts = [] then (s, True) else (on_state_update w sts s, True))"
| "dispatch w (MetadataReceivedAlert h) s = with_hash w h on_metadata_received s"
| "dispatch w (TorrentFinishedAlert h) s = with_hash w h (on_torrent_finished w) s"
| "dispatch w (TrackerErrorAlert h em m) s = with_hash w h (\<lambda>ih. emit (TrackerError ih (if em \<noteq> [] then em else m))) s"
| "dispatch w (SaveResumeDataAlert h params) s = with_hash w h (\<lambda>ih. save_resume_params ih params) s"
| "dispatch w (SaveResumeDataFailedAlert h) s = (s, True)"
| "dispatch w (TorrentRemovedAlert hashes) s = (on_torrent_removed (info_hash_hex_of hashes) s, True)"
| "dispatch w (AddTorrentAlert params h err m) s = (on_torrent_added (info_hash_hex params) h (if err \<noteq> 0 then m else []) s, True)"
| "dispatch w (StorageMovedAlert h p) s = with_hash w h (\<lambda>ih. on_storage_moved ih p) s"
| "dispatch w (FileErrorAlert h m) s = with_hash w h (\<lambda>ih. on_file_error w ih m) s"
| "dispatch w OtherAlert s = (s, True)"

text \<open>A handler that raises costs its own alert only.\<close>

definition dispatch_all :: "world \<Rightarrow> alert list \<Rightarrow> session \<Rightarrow> session" where
  "dispatch_all w alerts s = foldl (\<lambda>s a. fst (dispatch w a s)) s alerts"

section \<open>The tick\<close>

definition DEADLINE_URGENT_WINDOW_S :: rat where "DEADLINE_URGENT_WINDOW_S = 86400"
definition DEADLINE_SWEEP_INTERVAL_S :: rat where "DEADLINE_SWEEP_INTERVAL_S = 10"
definition RESUME_SAVES_PER_TICK :: nat where "RESUME_SAVES_PER_TICK = 2"

definition deadline_steps :: "rat \<Rightarrow> rat \<Rightarrow> int" where
  "deadline_steps now deadline =
     (let remaining = fsub deadline now
      in if DEADLINE_URGENT_WINDOW_S < remaining then 0
         else let urgency = fsub 1 (fdiv (max remaining 0) DEADLINE_URGENT_WINDOW_S)
              in 1 + py_round (fmul urgency 4))"

fun repeat_call :: "nat \<Rightarrow> (session \<Rightarrow> session \<times> bool) \<Rightarrow> session \<Rightarrow> session \<times> bool" where
  "repeat_call 0 f s = (s, True)"
| "repeat_call (Suc n) f s = andthen (f s) (repeat_call n f)"

fun sweep_records :: "world \<Rightarrow> (string \<times> torrent_record) list \<Rightarrow> session \<Rightarrow> session \<times> bool" where
  "sweep_records w [] s = (s, True)"
| "sweep_records w ((ih, r) # rs) s =
     (case tr_deadline r of
        None \<Rightarrow> sweep_records w rs s
      | Some deadline \<Rightarrow>
          if tr_state r \<notin> set ACTIVE_DOWNLOAD_STATES then sweep_records w rs s
          else if deadline_steps (w_now w) deadline = 0 then sweep_records w rs s
          else case dget (ss_handles s) ih of
                 None \<Rightarrow> sweep_records w rs s
               | Some h \<Rightarrow> andthen (repeat_call (nat (deadline_steps (w_now w) deadline)) (hcall w h (QueueUp h)) s)
                                   (sweep_records w rs))"

definition apply_deadline_priorities :: "world \<Rightarrow> session \<Rightarrow> session \<times> bool" where
  "apply_deadline_priorities w s =
     (if fsub (w_now w) (ss_last_sweep s) < DEADLINE_SWEEP_INTERVAL_S then (s, True)
      else let s' = s\<lparr>ss_last_sweep := w_now w\<rparr> in sweep_records w (ss_records s') s')"

definition save_all_resume_data :: "session \<Rightarrow> session" where
  "save_all_resume_data s =
     s\<lparr>ss_queue := ss_queue s @ filter (\<lambda>ih. ih \<notin> set (ss_queue s)) (dkeys (ss_handles s))\<rparr>"

fun drain :: "world \<Rightarrow> nat \<Rightarrow> session \<Rightarrow> session" where
  "drain w 0 s = s"
| "drain w (Suc n) s =
     (case ss_queue s of
        [] \<Rightarrow> s
      | ih # rest \<Rightarrow>
          (let s' = s\<lparr>ss_queue := rest\<rparr>
           in drain w n (case dget (ss_handles s') ih of
                           Some h \<Rightarrow> if w_valid w h then cmd (SaveResumeData h True) s' else s'
                         | None \<Rightarrow> s')))"

definition drain_resume_save_queue :: "world \<Rightarrow> session \<Rightarrow> session" where
  "drain_resume_save_queue w s = drain w (min RESUME_SAVES_PER_TICK (length (ss_queue s))) s"

definition dispatch_alerts :: "world \<Rightarrow> alert list \<Rightarrow> session \<Rightarrow> session" where
  "dispatch_alerts w alerts s = (if alerts = [] then s else dispatch_all w alerts s)"

definition on_tick :: "world \<Rightarrow> alert list \<Rightarrow> session \<Rightarrow> session" where
  "on_tick w alerts s =
     (let (s', ok) = apply_deadline_priorities w (dispatch_alerts w alerts (cmd PostTorrentUpdates s))
      in if ok then drain_resume_save_queue w s' else s')"

text \<open>\<open>_bind_restored_handles\<close>: the flag says whether the poll is armed again.\<close>

definition bind_restored_handles :: "world \<Rightarrow> alert list \<Rightarrow> session \<Rightarrow> session \<times> bool" where
  "bind_restored_handles w alerts s =
     (if ss_pending_restore s = {} \<or> \<not> ss_timer_active s then (s, False)
      else let s' = dispatch_alerts w alerts s in (s', ss_pending_restore s' \<noteq> {}))"

section \<open>The IP block list\<close>

definition load_ip_blocklist :: "session \<Rightarrow> session" where
  "load_ip_blocklist s = emit (BlocklistWaitChanged True) ((cmd SessionPause s)\<lparr>ss_blocklist_wait := True\<rparr>)"

definition on_ip_blocklist_loaded :: "(ip_addr \<times> ip_addr) list option \<Rightarrow> session \<Rightarrow> session" where
  "on_ip_blocklist_loaded ip_filter s =
     (if \<not> ss_timer_active s then s
      else let s1 = (case ip_filter of Some rules \<Rightarrow> cmd (SetIpFilter rules) s | None \<Rightarrow> s)
           in if ss_blocklist_wait s1
              then emit (BlocklistWaitChanged False) (cmd SessionResume (s1\<lparr>ss_blocklist_wait := False\<rparr>))
              else s1)"

section \<open>Adding torrents\<close>

definition save_path_or_default :: "world \<Rightarrow> string option \<Rightarrow> string" where
  "save_path_or_default w p = (case p of Some p \<Rightarrow> if p = [] then w_download_dir w else p | None \<Rightarrow> w_download_dir w)"

text \<open>\<open>_add\<close>: \<open>added\<close> is what \<open>lt.session.add_torrent\<close> returns, \<open>None\<close> when it raises (a
  duplicate), and then the record stays. \<open>connects\<close>: whether \<open>connect_peer\<close> raises.\<close>

definition add :: "world \<Rightarrow> handle option \<Rightarrow> atp \<Rightarrow> bool \<Rightarrow> session \<Rightarrow> session \<times> bool" where
  "add w added a awaiting_analysis s =
     (let ih = info_hash_hex a;
          record = (new_record ih)\<lparr>tr_name := ap_name a, tr_save_path := ap_save_path a,
                     tr_awaiting_analysis := awaiting_analysis, tr_is_magnet_awaiting_metadata := (ap_ti a = None)\<rparr>;
          s1 = set_record ih record s
      in case added of
           None \<Rightarrow> (s1, False)
         | Some handle \<Rightarrow>
             (let s2 = (cmd (AddTorrent a) s1)\<lparr>ss_handles := dset ih handle (ss_handles s1)\<rparr>;
                  s3 = (if cfg_lan_peer_cache_enabled (ss_settings s2)
                        then let (eps, n, lan') = reconnect_cached_peers (\<lambda>_. w_valid w handle) (w_now w) ih (ss_lan s2)
                             in s2\<lparr>ss_lan := lan', ss_cmds := ss_cmds s2 @
                                  (if w_valid w handle then map (ConnectPeer handle) eps else [])\<rparr>
                        else s2)
              in (emit (TorrentAdded ih) s3, True)))"

definition hold_paused :: "atp \<Rightarrow> atp" where
  "hold_paused a = a\<lparr>ap_auto_managed := False, ap_paused := True\<rparr>"

definition add_torrent_from_file ::
  "world \<Rightarrow> handle option \<Rightarrow> atp \<Rightarrow> torrent_info \<Rightarrow> string option \<Rightarrow> int set \<Rightarrow> session \<Rightarrow> session \<times> bool" where
  "add_torrent_from_file w added blank ti save_path excluded s =
     (let a = from_torrent_file blank ti (save_path_or_default w save_path) excluded
                (cfg_restrict_discovery (ss_settings s));
          blocked = is_download_start_blocked (cfg_theme (ss_settings s)) 0;
          a' = (if blocked then hold_paused a else a)
      in andthen (add w added a' False s)
           (\<lambda>s'. (if blocked then emit (DownloadBlockedByTheme (info_hash_hex a')) s' else s', True)))"

definition add_torrent_from_magnet ::
  "world \<Rightarrow> handle option \<Rightarrow> atp \<Rightarrow> string option \<Rightarrow> session \<Rightarrow> session \<times> bool" where
  "add_torrent_from_magnet w added parsed save_path s =
     (let a = from_magnet_uri parsed (save_path_or_default w save_path) (cfg_restrict_discovery (ss_settings s))
      in add w added (hold_paused a) True s)"

definition remove_torrent :: "world \<Rightarrow> string \<Rightarrow> bool \<Rightarrow> session \<Rightarrow> session \<times> bool" where
  "remove_torrent w ih delete_files s =
     (case dget (ss_handles s) ih of
        None \<Rightarrow> (s, True)
      | Some h \<Rightarrow> hcall w h (RemoveTorrent h delete_files) s)"

section \<open>Restoring the previous session\<close>

text \<open>\<open>async_ok a\<close>: whether \<open>async_add_torrent\<close> accepts the parameters instead of raising.\<close>

definition restore_one :: "(atp \<Rightarrow> bool) \<Rightarrow> atp \<Rightarrow> session \<Rightarrow> session" where
  "restore_one async_ok a s =
     (if \<not> async_ok a then s
      else let ih = info_hash_hex a;
               s1 = (cmd (AsyncAddTorrent a) s)\<lparr>ss_pending_restore := insert ih (ss_pending_restore s)\<rparr>;
               record = (new_record ih)\<lparr>tr_name := ap_name a, tr_save_path := ap_save_path a,
                          tr_all_time_downloaded := ap_total_downloaded a,
                          tr_all_time_uploaded := ap_total_uploaded a,
                          tr_category := get_category (ss_categories s1) ih\<rparr>;
               s2 = set_record ih record s1;
               s3 = (if resume_data_is_complete a then s2\<lparr>ss_pending_confirm := insert ih (ss_pending_confirm s2)\<rparr> else s2)
           in emit (TorrentAdded ih) s3)"

definition restore_previous_session :: "(atp \<Rightarrow> bool) \<Rightarrow> int \<Rightarrow> atp option list \<Rightarrow> session \<Rightarrow> session" where
  "restore_previous_session async_ok alert_queue_floor files s =
     (let atps = load_all_resume_params files;
          queue_size = max alert_queue_floor (4 * int (length atps))
      in foldl (\<lambda>s a. restore_one async_ok a s) (cmd (ApplySettings [(''alert_queue_size'', JInt queue_size)]) s) atps)"

section \<open>Shutdown\<close>

definition shutdown_start :: "world \<Rightarrow> session \<Rightarrow> session \<times> handle list" where
  "shutdown_start w s =
     (let valid = filter (w_valid w) (dvals (ss_handles s))
      in (s\<lparr>ss_timer_active := False, ss_resume_timer_active := False,
            ss_cmds := ss_cmds s @ map (\<lambda>h. SaveResumeData h False) valid\<rparr>, remdups valid))"

text \<open>The alerts of one pass of the wait; None: \<open>_hash_of\<close> raised out of \<open>shutdown\<close>.\<close>

fun shutdown_alerts :: "world \<Rightarrow> alert list \<Rightarrow> session \<times> handle list \<Rightarrow> (session \<times> handle list) \<times> bool" where
  "shutdown_alerts w [] acc = (acc, True)"
| "shutdown_alerts w (a # as) (s, pending) =
     (case a of
        SaveResumeDataAlert h params \<Rightarrow>
          (case hash_of w h of
             None \<Rightarrow> ((s, pending), False)
           | Some ih \<Rightarrow> shutdown_alerts w as (save_resume_params ih params s, removeAll h pending))
      | SaveResumeDataFailedAlert h \<Rightarrow> shutdown_alerts w as (s, removeAll h pending)
      | _ \<Rightarrow> shutdown_alerts w as (s, pending))"

text \<open>One pass of the wait: the monotonic time it reads, what the slots that \<open>processEvents\<close> runs do to the
  session (the identity when none runs, or none that touches it), and the alerts it pops.\<close>

type_synonym wait_round = "rat \<times> (session \<Rightarrow> session) \<times> alert list"

fun shutdown_wait :: "world \<Rightarrow> rat \<Rightarrow> wait_round list \<Rightarrow> session \<times> handle list \<Rightarrow> session \<times> handle list" where
  "shutdown_wait w deadline [] acc = acc"
| "shutdown_wait w deadline ((t, slots, alerts) # rounds) (s, pending) =
     (if pending \<noteq> [] \<and> t < deadline
      then let (acc, ok) = shutdown_alerts w alerts (slots s, pending)
           in if ok then shutdown_wait w deadline rounds acc else acc
      else (s, pending))"

text \<open>What the slots that run during the wait may do.\<close>

definition round_slots :: "wait_round list \<Rightarrow> (session \<Rightarrow> session) set" where
  "round_slots rounds = (\<lambda>(t, slots, alerts). slots) ` set rounds"

definition shutdown :: "world \<Rightarrow> int \<Rightarrow> wait_round list \<Rightarrow> session \<Rightarrow> session \<times> handle list" where
  "shutdown w timeout_ms rounds s =
     shutdown_wait w (fadd (w_mono w) (int_truediv timeout_ms 1000)) rounds (shutdown_start w s)"

section \<open>\<open>__init__\<close>\<close>

text \<open>The fields \<open>__init__\<close> sets, from the stores it loads.\<close>

definition session_fields :: "settings \<Rightarrow> categories \<Rightarrow> rep_store \<Rightarrow> lan_store \<Rightarrow> (string, atp) dict \<Rightarrow> session" where
  "session_fields cfg cats rep lan resume_dir =
     \<lparr>ss_settings = cfg, ss_records = [], ss_handles = [], ss_private_checked = {}, ss_pending_confirm = {},
      ss_pending_restore = {}, ss_categories = cats, ss_speed = [], ss_rep = \<lparr>rt_active = [], rt_store = rep\<rparr>,
      ss_lan = lan, ss_last_sweep = 0, ss_queue = [], ss_blocklist_wait = False, ss_timer_active = True,
      ss_resume_timer_active = True, ss_files_cache = [], ss_resume_dir = resume_dir, ss_cmds = [], ss_sigs = []\<rparr>"

fun queue_floor :: "lt_settings \<Rightarrow> int" where
  "queue_floor st = (case dget st ''alert_queue_size'' of Some (JInt n) \<Rightarrow> n | _ \<Rightarrow> 0)"

definition session_init ::
  "lt_consts \<Rightarrow> string \<Rightarrow> (atp \<Rightarrow> bool) \<Rightarrow> atp option list \<Rightarrow> session \<Rightarrow> session" where
  "session_init c app_version async_ok files s =
     (let st = build_session_settings c app_version (ss_settings s);
          s1 = (if cfg_ip_blocklist_enabled (ss_settings s) \<and> cfg_ip_blocklist_path (ss_settings s) \<noteq> []
                then load_ip_blocklist s else s)
      in restore_previous_session async_ok (queue_floor st) files s1)"

end
