(* ===== verification/Session_Ops.thy ===== *)
theory Session_Ops
  imports Session
begin

unbundle bit_operations_syntax

text \<open>
  The rest of \<open>engine/session_manager.py\<close>: what the user and the services do to one torrent
  (pause, resume, theme policy, priorities, streaming, archive lock, move, trackers, peers) and
  the live settings of the session.
\<close>

section \<open>Paths\<close>

definition norm_path :: "rpath \<Rightarrow> string list" where
  "norm_path p = py_lower (rp_anchor p) # map py_lower (rp_parts p)"

text \<open>\<open>a == b or a in b.parents\<close> on Windows paths, which compare case-insensitively.\<close>

definition at_or_under :: "rpath \<Rightarrow> rpath \<Rightarrow> bool" where
  "at_or_under base p \<longleftrightarrow> prefix (norm_path base) (norm_path p)"

text \<open>\<open>memo\<close> is \<open>_DENIED_MOVE_ROOTS\<close>; a world's \<open>w_denied\<close> is this list.\<close>

definition denied_move_roots :: "(string \<Rightarrow> string option) \<Rightarrow> (string \<Rightarrow> rpath) \<Rightarrow> rpath list option \<Rightarrow> rpath list" where
  "denied_move_roots environ resolve memo =
     (case memo of
        Some roots \<Rightarrow> roots
      | None \<Rightarrow> map resolve (filter (\<lambda>c. c \<noteq> [])
                  (List.map_filter environ [''SystemRoot'', ''ProgramFiles'', ''ProgramFiles(x86)'', ''ProgramData''])))"

definition is_safe_move_destination :: "world \<Rightarrow> string \<Rightarrow> bool" where
  "is_safe_move_destination w new_path =
     (case w_resolve w new_path of
        None \<Rightarrow> False
      | Some p \<Rightarrow>
          if prefix [CHR 0x5C, CHR 0x5C] (rp_anchor p) then False
          else if rp_parts p = [] then False
          else \<not> list_ex (\<lambda>denied. at_or_under denied p) (w_denied w))"

definition is_confined :: "world \<Rightarrow> string \<Rightarrow> rpath \<Rightarrow> bool" where
  "is_confined w file_path resolved_base =
     (case w_resolve w file_path of None \<Rightarrow> False | Some p \<Rightarrow> at_or_under resolved_base p)"

section \<open>Queries\<close>

definition get_record :: "session \<Rightarrow> string \<Rightarrow> torrent_record option" where
  "get_record s ih = dget (ss_records s) ih"

definition all_records :: "session \<Rightarrow> torrent_record list" where
  "all_records s = dvals (ss_records s)"

definition list_categories :: "session \<Rightarrow> string list" where
  "list_categories s = sorted_list_of_set (set (filter (\<lambda>c. c \<noteq> []) (map tr_category (dvals (ss_records s)))))"

definition get_speed_history :: "session \<Rightarrow> string \<Rightarrow> (int \<times> int) list" where
  "get_speed_history s ih = opt_or (dget (ss_speed s) ih) []"

definition get_torrent_files :: "world \<Rightarrow> session \<Rightarrow> string \<Rightarrow> file_entry list" where
  "get_torrent_files w s ih =
     (case dget (ss_handles s) ih of None \<Rightarrow> []
      | Some h \<Rightarrow> (case w_info w h of None \<Rightarrow> [] | Some ti \<Rightarrow> files_from_torrent_info ti))"

definition get_piece_availability :: "world \<Rightarrow> session \<Rightarrow> string \<Rightarrow> int \<times> bool list \<times> int list" where
  "get_piece_availability w s ih =
     (case dget (ss_handles s) ih of
        None \<Rightarrow> (0, [], [])
      | Some h \<Rightarrow> if \<not> w_valid w h then (0, [], [])
                  else case w_info w h of None \<Rightarrow> (0, [], [])
                       | Some ti \<Rightarrow> (ti_num_pieces ti, w_pieces w h, w_availability w h))"

text \<open>\<open>progress[e.index]\<close> of a list shorter than the torrent's would raise; libtorrent returns one
  entry per file.\<close>

definition get_file_downloaded :: "world \<Rightarrow> string \<Rightarrow> session \<Rightarrow> int list \<times> session" where
  "get_file_downloaded w ih s =
     (case dget (ss_handles s) ih of
        None \<Rightarrow> ([], s)
      | Some h \<Rightarrow>
          if \<not> w_valid w h then ([], s)
          else let progress = w_file_progress w h;
                   column = map (\<lambda>e. progress ! nat (fe_index e))
               in case dget (ss_files_cache s) ih of
                    Some entries \<Rightarrow> (column entries, s)
                  | None \<Rightarrow>
                      (case w_info w h of
                         None \<Rightarrow> ([], s)
                       | Some ti \<Rightarrow>
                           (let entries = files_from_torrent_info ti
                            in (column entries, s\<lparr>ss_files_cache := dset ih entries (ss_files_cache s)\<rparr>))))"

definition get_file_progress :: "world \<Rightarrow> string \<Rightarrow> session \<Rightarrow> (int \<times> string \<times> int \<times> int) list \<times> session" where
  "get_file_progress w ih s =
     (let (downloaded, s') = get_file_downloaded w ih s
      in if downloaded = [] then ([], s')
         else (map (\<lambda>(e, d). (fe_index e, fe_path e, fe_size e, d))
                 (zip (opt_or (dget (ss_files_cache s') ih) []) downloaded), s'))"

definition get_allocated_size :: "world \<Rightarrow> session \<Rightarrow> string \<Rightarrow> int" where
  "get_allocated_size w s ih =
     (case (dget (ss_handles s) ih, dget (ss_records s) ih) of
        (Some h, Some record) \<Rightarrow>
          (case w_info w h of
             None \<Rightarrow> 0
           | Some ti \<Rightarrow>
               (case w_resolve w (tr_save_path record) of
                  None \<Rightarrow> 0
                | Some base \<Rightarrow>
                    sum_list (map (\<lambda>p. w_allocated w p)
                      (filter (\<lambda>p. is_confined w p base)
                        (map (\<lambda>e. w_join w (tr_save_path record) (fe_path e)) (files_from_torrent_info ti))))))
      | _ \<Rightarrow> 0)"

section \<open>Flags of the record\<close>

definition set_torrent_category :: "string \<Rightarrow> string \<Rightarrow> session \<Rightarrow> session" where
  "set_torrent_category ih category s =
     (let s' = on_record ih (\<lambda>r. r\<lparr>tr_category := category\<rparr>) s
      in s'\<lparr>ss_categories := set_category ih category (ss_categories s')\<rparr>)"

definition set_matched_rule_name :: "string \<Rightarrow> string option \<Rightarrow> session \<Rightarrow> session" where
  "set_matched_rule_name ih n s = on_record ih (\<lambda>r. r\<lparr>tr_matched_rule_name := n\<rparr>) s"

definition pin_torrent :: "string \<Rightarrow> session \<Rightarrow> session" where
  "pin_torrent ih s = on_record ih (\<lambda>r. r\<lparr>tr_pinned := True\<rparr>) s"

definition unpin_torrent :: "string \<Rightarrow> session \<Rightarrow> session" where
  "unpin_torrent ih s = on_record ih (\<lambda>r. r\<lparr>tr_pinned := False\<rparr>) s"

definition set_deadline :: "string \<Rightarrow> rat option \<Rightarrow> session \<Rightarrow> session" where
  "set_deadline ih t s = on_record ih (\<lambda>r. r\<lparr>tr_deadline := t\<rparr>) s"

section \<open>Archive lock\<close>

definition S_IWUSR :: int where "S_IWUSR = 128"

text \<open>One file of \<open>_chmod_torrent_files\<close>; \<open>w_mode\<close> is \<open>None\<close> when \<open>stat\<close> or \<open>chmod\<close> raises.\<close>

definition chmod_one :: "world \<Rightarrow> bool \<Rightarrow> string \<Rightarrow> session \<Rightarrow> session" where
  "chmod_one w read_only file_path s =
     (case w_mode w file_path of
        None \<Rightarrow> s
      | Some mode \<Rightarrow> cmd (Chmod file_path (if read_only then mode AND NOT S_IWUSR else mode OR S_IWUSR)) s)"

definition chmod_torrent_files :: "world \<Rightarrow> string \<Rightarrow> bool \<Rightarrow> session \<Rightarrow> session" where
  "chmod_torrent_files w ih read_only s =
     (case dget (ss_records s) ih of
        None \<Rightarrow> s
      | Some record \<Rightarrow>
          (case w_resolve w (tr_save_path record) of
             None \<Rightarrow> s
           | Some base \<Rightarrow>
               foldl (\<lambda>s e. let file_path = w_join w (tr_save_path record) (fe_path e)
                            in if is_confined w file_path base then chmod_one w read_only file_path s else s)
                 s (get_torrent_files w s ih)))"

definition lock_torrent :: "world \<Rightarrow> string \<Rightarrow> session \<Rightarrow> session" where
  "lock_torrent w ih s = on_record ih (\<lambda>r. r\<lparr>tr_locked := True\<rparr>) (chmod_torrent_files w ih True s)"

definition unlock_torrent :: "world \<Rightarrow> string \<Rightarrow> session \<Rightarrow> session" where
  "unlock_torrent w ih s = on_record ih (\<lambda>r. r\<lparr>tr_locked := False\<rparr>) (chmod_torrent_files w ih False s)"

section \<open>File priorities\<close>

definition exclude_priorities :: "int set \<Rightarrow> int list \<Rightarrow> int list" where
  "exclude_priorities excluded ps = map (\<lambda>(i, p). if int i \<in> excluded then FILE_PRIORITY_EXCLUDED else p) (enumerate 0 ps)"

definition exclude_files :: "world \<Rightarrow> string \<Rightarrow> int set \<Rightarrow> session \<Rightarrow> session \<times> bool" where
  "exclude_files w ih excluded s =
     (case dget (ss_handles s) ih of
        None \<Rightarrow> (s, True)
      | Some h \<Rightarrow> hcall w h (PrioritizeFiles h (exclude_priorities excluded (w_priorities w h))) s)"

definition set_file_priorities :: "world \<Rightarrow> string \<Rightarrow> int set \<Rightarrow> session \<Rightarrow> session \<times> bool" where
  "set_file_priorities w ih excluded s =
     (case dget (ss_handles s) ih of
        None \<Rightarrow> (s, True)
      | Some h \<Rightarrow> hcall w h (PrioritizeFiles h
          (map (\<lambda>i. if int i \<in> excluded then FILE_PRIORITY_EXCLUDED else FILE_PRIORITY_DEFAULT)
             [0..<length (w_priorities w h)])) s)"

section \<open>Starting, resuming and the theme\<close>

definition start_after_analysis :: "world \<Rightarrow> string \<Rightarrow> session \<Rightarrow> session \<times> bool" where
  "start_after_analysis w ih s =
     (case (dget (ss_handles s) ih, dget (ss_records s) ih) of
        (Some h, Some record) \<Rightarrow>
          if is_download_start_blocked (cfg_theme (ss_settings s)) (tr_progress record)
          then (emit (DownloadBlockedByTheme ih) s, True)
          else andthen (hcall w h (SetAutoManaged h) (set_record ih (record\<lparr>tr_awaiting_analysis := False\<rparr>) s))
                 (hcall w h (HResume h))
      | _ \<Rightarrow> (s, True))"

definition resume_torrent :: "world \<Rightarrow> string \<Rightarrow> session \<Rightarrow> session" where
  "resume_torrent w ih s =
     (case dget (ss_handles s) ih of
        None \<Rightarrow> s
      | Some h \<Rightarrow>
          if \<not> w_valid w h then s
          else case dget (ss_records s) ih of
                 Some record \<Rightarrow>
                   if is_download_start_blocked (cfg_theme (ss_settings s)) (tr_progress record)
                   then emit (DownloadBlockedByTheme ih) s
                   else cmd (HResume h) (cmd (SetAutoManaged h) s)
               | None \<Rightarrow> cmd (HResume h) (cmd (SetAutoManaged h) s))"

fun enforce_records :: "world \<Rightarrow> (string \<times> torrent_record) list \<Rightarrow> session \<times> nat \<Rightarrow> session \<times> nat" where
  "enforce_records w [] acc = acc"
| "enforce_records w ((ih, r) # rs) (s, n) =
     (if tr_awaiting_analysis r \<or> 1 \<le> tr_progress r \<or> tr_state r = PAUSED then enforce_records w rs (s, n)
      else enforce_records w rs (pause_torrent w ih s, n + 1))"

definition enforce_theme_download_policy :: "world \<Rightarrow> session \<Rightarrow> session" where
  "enforce_theme_download_policy w s =
     (if cfg_theme (ss_settings s) \<noteq> CCCP_THEME_ID then s
      else let (s', paused_count) = enforce_records w (ss_records s) (s, 0)
           in if paused_count \<noteq> 0 then emit (ThemeDownloadsPaused paused_count) s' else s')"

section \<open>Streaming\<close>

definition STREAMING_HEAD_PIECE_COUNT :: int where "STREAMING_HEAD_PIECE_COUNT = 30"
definition STREAMING_DEADLINE_STEP_MS :: int where "STREAMING_DEADLINE_STEP_MS = 500"

text \<open>\<open>max(range(n), key=fs.file_size)\<close>: the first index of a largest file.\<close>

fun first_largest :: "lt_file list \<Rightarrow> nat" where
  "first_largest [] = 0"
| "first_largest [f] = 0"
| "first_largest (f # g # fs) =
     (let i = first_largest (g # fs) in if lf_size ((g # fs) ! i) \<le> lf_size f then 0 else Suc i)"

text \<open>The pieces given a deadline, with the deadline, in call order.\<close>

definition streaming_deadlines :: "torrent_info \<Rightarrow> (int \<times> int) list" where
  "streaming_deadlines ti =
     (if ti_files ti = [] then []
      else if ti_piece_length ti \<le> 0 then []
      else let f = ti_files ti ! first_largest (ti_files ti);
               offset = lf_offset f;
               size = lf_size f;
               first_piece = offset div ti_piece_length ti;
               last_piece = min (ti_num_pieces ti - 1) ((offset + max size 1 - 1) div ti_piece_length ti);
               last_head_piece = min last_piece (first_piece + STREAMING_HEAD_PIECE_COUNT - 1)
           in map (\<lambda>rank. (first_piece + rank, rank * STREAMING_DEADLINE_STEP_MS)) [0..last_head_piece - first_piece])"

fun call_all :: "(session \<Rightarrow> session \<times> bool) list \<Rightarrow> session \<Rightarrow> session \<times> bool" where
  "call_all [] s = (s, True)"
| "call_all (f # fs) s = andthen (f s) (call_all fs)"

definition apply_streaming_deadlines :: "world \<Rightarrow> handle \<Rightarrow> session \<Rightarrow> session \<times> bool" where
  "apply_streaming_deadlines w h s =
     (case w_info w h of
        None \<Rightarrow> (s, True)
      | Some ti \<Rightarrow> call_all (map (\<lambda>(piece, ms). hcall w h (SetPieceDeadline h piece ms)) (streaming_deadlines ti)) s)"

definition set_sequential_download :: "world \<Rightarrow> string \<Rightarrow> bool \<Rightarrow> session \<Rightarrow> session \<times> bool" where
  "set_sequential_download w ih enabled s =
     (case dget (ss_handles s) ih of
        None \<Rightarrow> (s, True)
      | Some h \<Rightarrow> andthen (hcall w h (SetSequential h enabled) s)
          (if enabled then apply_streaming_deadlines w h else hcall w h (ClearPieceDeadlines h)))"

section \<open>Queue, trackers, peers, files\<close>

definition on_handle :: "string \<Rightarrow> (handle \<Rightarrow> session \<Rightarrow> session \<times> bool) \<Rightarrow> session \<Rightarrow> session \<times> bool" where
  "on_handle ih f s = (case dget (ss_handles s) ih of None \<Rightarrow> (s, True) | Some h \<Rightarrow> f h s)"

definition move_queue_up :: "world \<Rightarrow> string \<Rightarrow> session \<Rightarrow> session \<times> bool" where
  "move_queue_up w ih = on_handle ih (\<lambda>h. hcall w h (QueueUp h))"

definition move_queue_down :: "world \<Rightarrow> string \<Rightarrow> session \<Rightarrow> session \<times> bool" where
  "move_queue_down w ih = on_handle ih (\<lambda>h. hcall w h (QueueDown h))"

definition get_trackers :: "world \<Rightarrow> session \<Rightarrow> string \<Rightarrow> tracker_info list" where
  "get_trackers w s ih =
     (case dget (ss_handles s) ih of None \<Rightarrow> [] | Some h \<Rightarrow> get_trackers_of (w_trackers w h))"

definition add_tracker :: "world \<Rightarrow> string \<Rightarrow> string \<Rightarrow> int \<Rightarrow> session \<Rightarrow> session \<times> bool" where
  "add_tracker w ih url tier = on_handle ih (\<lambda>h. hcall w h (AddTracker h url tier))"

definition remove_tracker :: "world \<Rightarrow> string \<Rightarrow> string \<Rightarrow> session \<Rightarrow> session \<times> bool" where
  "remove_tracker w ih url = on_handle ih (\<lambda>h. hcall w h (ReplaceTrackers h (remaining_trackers url (w_trackers w h))))"

text \<open>\<open>show_int\<close> is \<open>str\<close> of the port.\<close>

definition get_peer_info :: "(int \<Rightarrow> string) \<Rightarrow> world \<Rightarrow> string \<Rightarrow> session \<Rightarrow> peer_info list \<times> session" where
  "get_peer_info show_int w ih s =
     (case dget (ss_handles s) ih of
        None \<Rightarrow> ([], s)
      | Some h \<Rightarrow>
          if \<not> w_valid w h then ([], s)
          else let raw_peers = w_peers w h;
                   s1 = (if cfg_peer_reputation_enabled (ss_settings s)
                         then s\<lparr>ss_rep := observe (w_mono w) ih raw_peers (ss_rep s)\<rparr> else s);
                   s2 = (if cfg_lan_peer_cache_enabled (ss_settings s1)
                         then s1\<lparr>ss_lan := record_peers (w_now w) (w_mono w) ih raw_peers (ss_lan s1)\<rparr> else s1)
               in (map (\<lambda>p. \<lparr>pe_ip = pi_addr p @ '':'' @ show_int (pi_port p), pe_client = pi_client p,
                             pe_progress = pi_progress p, pe_down_speed = pi_payload_down_speed p,
                             pe_up_speed = pi_payload_up_speed p\<rparr>) raw_peers, s2))"

definition flush_peer_stores :: "world \<Rightarrow> session \<Rightarrow> session" where
  "flush_peer_stores w s =
     s\<lparr>ss_rep := (ss_rep s)\<lparr>rt_store := rep_flush (w_mono w) 0 (rt_store (ss_rep s))\<rparr>, ss_lan := lan_flush (ss_lan s)\<rparr>"

definition get_peer_reputation_score :: "session \<Rightarrow> string \<Rightarrow> string" where
  "get_peer_reputation_score s display_ip =
     (if \<not> cfg_peer_reputation_enabled (ss_settings s) then ''neutral''
      else score_label (rep_get (rt_store (ss_rep s)) (ip_from_display display_ip)))"

definition get_magnet_uri :: "world \<Rightarrow> session \<Rightarrow> string \<Rightarrow> string option" where
  "get_magnet_uri w s ih =
     (case dget (ss_handles s) ih of None \<Rightarrow> None
      | Some h \<Rightarrow> if \<not> w_valid w h then None else w_magnet w h)"

definition recheck_torrent :: "world \<Rightarrow> string \<Rightarrow> session \<Rightarrow> session \<times> bool" where
  "recheck_torrent w ih = on_handle ih (\<lambda>h. hcall w h (ForceRecheck h))"

definition move_storage :: "world \<Rightarrow> string \<Rightarrow> string \<Rightarrow> session \<Rightarrow> session \<times> bool" where
  "move_storage w ih new_path s =
     (if \<not> is_safe_move_destination w new_path then (s, True)
      else on_handle ih (\<lambda>h. hcall w h (MoveStorage h new_path)) s)"

section \<open>Live settings\<close>

definition set_restrict_discovery :: "bool \<Rightarrow> session \<Rightarrow> session" where
  "set_restrict_discovery enabled =
     cmd (ApplySettings [(''enable_dht'', JBool (\<not> enabled)), (''enable_lsd'', JBool (\<not> enabled))])"

definition set_proxy :: "lt_consts \<Rightarrow> settings \<Rightarrow> session \<Rightarrow> session" where
  "set_proxy c cfg = cmd (ApplySettings (build_settings_fragment c (cfg_proxy cfg)))"

definition set_encryption_mode :: "lt_consts \<Rightarrow> string \<Rightarrow> session \<Rightarrow> session" where
  "set_encryption_mode c mode = cmd (ApplySettings (encryption_settings_fragment c mode))"

definition set_network_interface :: "string \<Rightarrow> session \<Rightarrow> session" where
  "set_network_interface n s =
     (let fragment = build_interface_fragment n in if fragment = [] then s else cmd (ApplySettings fragment) s)"

definition set_rate_limits :: "int \<Rightarrow> int \<Rightarrow> session \<Rightarrow> session" where
  "set_rate_limits download_kbps upload_kbps =
     cmd (ApplySettings [(''download_rate_limit'', JInt (download_kbps * 1024)), (''upload_rate_limit'', JInt (upload_kbps * 1024))])"

definition set_max_active_downloads :: "int \<Rightarrow> session \<Rightarrow> session" where
  "set_max_active_downloads n =
     cmd (ApplySettings [(''active_downloads'', JInt n), (''active_seeds'', JInt n), (''active_checking'', JInt n),
       (''active_limit'', JInt (n * 2))])"

end
