(* ===== verification/Session_Props.thy ===== *)
theory Session_Props
  imports Session_Ops
begin

unbundle bit_operations_syntax

text \<open>
  What the session manager guarantees: the theme that forbids downloading, the bookkeeping of
  removal and restore, completion reported once, the periodic save, the deadline priorities, the
  streaming head and the confinement of file operations.
\<close>

section \<open>Commands only grow\<close>

lemma emit_simps [simp]:
  "ss_cmds (emit g s) = ss_cmds s" "ss_records (emit g s) = ss_records s" "ss_handles (emit g s) = ss_handles s"
  "ss_settings (emit g s) = ss_settings s" "ss_sigs (emit g s) = ss_sigs s @ [g]" "ss_queue (emit g s) = ss_queue s"
  "ss_pending_confirm (emit g s) = ss_pending_confirm s" "ss_pending_restore (emit g s) = ss_pending_restore s"
  "ss_categories (emit g s) = ss_categories s" "ss_resume_dir (emit g s) = ss_resume_dir s"
  "ss_speed (emit g s) = ss_speed s" "ss_files_cache (emit g s) = ss_files_cache s"
  by (simp_all add: emit_def)

lemma cmd_simps [simp]:
  "ss_cmds (cmd c s) = ss_cmds s @ [c]" "ss_records (cmd c s) = ss_records s" "ss_handles (cmd c s) = ss_handles s"
  "ss_settings (cmd c s) = ss_settings s" "ss_sigs (cmd c s) = ss_sigs s" "ss_queue (cmd c s) = ss_queue s"
  "ss_pending_confirm (cmd c s) = ss_pending_confirm s" "ss_pending_restore (cmd c s) = ss_pending_restore s"
  "ss_categories (cmd c s) = ss_categories s" "ss_resume_dir (cmd c s) = ss_resume_dir s"
  by (simp_all add: cmd_def)

lemma set_record_simps [simp]:
  "ss_cmds (set_record ih r s) = ss_cmds s" "ss_handles (set_record ih r s) = ss_handles s"
  "ss_settings (set_record ih r s) = ss_settings s" "ss_sigs (set_record ih r s) = ss_sigs s"
  "ss_pending_confirm (set_record ih r s) = ss_pending_confirm s" "ss_queue (set_record ih r s) = ss_queue s"
  "ss_records (set_record ih r s) = dset ih r (ss_records s)"
  by (simp_all add: set_record_def)

lemma on_record_simps [simp]:
  "ss_cmds (on_record ih f s) = ss_cmds s" "ss_handles (on_record ih f s) = ss_handles s"
  "ss_sigs (on_record ih f s) = ss_sigs s" "ss_pending_confirm (on_record ih f s) = ss_pending_confirm s"
  by (simp_all add: on_record_def split: option.split)

lemma hcall_cases:
  "hcall w h c s = (if w_valid w h then (cmd c s, True) else (s, False))"
  by (rule hcall_def)

text \<open>The commands an operation adds.\<close>

abbreviation new_cmds :: "session \<Rightarrow> session \<Rightarrow> lt_cmd list" where
  "new_cmds s s' \<equiv> drop (length (ss_cmds s)) (ss_cmds s')"

section \<open>The theme\<close>

lemma add_new_cmds: "c \<in> set (new_cmds s (fst (add w added a aw s))) \<Longrightarrow> c = AddTorrent a \<or> (\<exists>h ep. c = ConnectPeer h ep)"
  by (auto simp: add_def Let_def split: option.splits prod.splits if_splits)

lemma resume_new_cmds:
  "c \<in> set (new_cmds s (resume_torrent w ih s)) \<Longrightarrow>
   \<exists>h. dget (ss_handles s) ih = Some h \<and> c \<in> {HResume h, SetAutoManaged h}
     \<and> (\<forall>r. dget (ss_records s) ih = Some r \<longrightarrow> \<not> is_download_start_blocked (cfg_theme (ss_settings s)) (tr_progress r))"
  by (auto simp: resume_torrent_def split: option.splits if_splits)

lemma start_new_cmds:
  "c \<in> set (new_cmds s (fst (start_after_analysis w ih s))) \<Longrightarrow>
   \<exists>r. dget (ss_records s) ih = Some r \<and> \<not> is_download_start_blocked (cfg_theme (ss_settings s)) (tr_progress r)"
  by (auto simp: start_after_analysis_def andthen_def hcall_def split: option.splits if_splits)

lemma pause_simps [simp]:
  "ss_records (pause_torrent w ih s) = ss_records s" "ss_handles (pause_torrent w ih s) = ss_handles s"
  "ss_settings (pause_torrent w ih s) = ss_settings s" "ss_sigs (pause_torrent w ih s) = ss_sigs s"
  "ss_pending_confirm (pause_torrent w ih s) = ss_pending_confirm s"
  by (simp_all add: pause_torrent_def split: option.split)

lemma pause_cmds:
  "ss_cmds (pause_torrent w ih s) = ss_cmds s @
     (case dget (ss_handles s) ih of Some h \<Rightarrow> if w_valid w h then [UnsetAutoManaged h, HPause h] else [] | None \<Rightarrow> [])"
  by (simp add: pause_torrent_def split: option.split)

definition still_downloading :: "torrent_record \<Rightarrow> bool" where
  "still_downloading r \<longleftrightarrow> \<not> tr_awaiting_analysis r \<and> tr_progress r < 1 \<and> tr_state r \<noteq> PAUSED"

lemma enforce_records_cmds:
  "ss_cmds (fst (enforce_records w rs (s, n))) = ss_cmds s @ concat (map (\<lambda>(ih, r).
     if still_downloading r then (case dget (ss_handles s) ih of Some h \<Rightarrow> if w_valid w h then [UnsetAutoManaged h, HPause h] else [] | None \<Rightarrow> [])
     else []) rs)
   \<and> snd (enforce_records w rs (s, n)) = n + length (filter (\<lambda>(ih, r). still_downloading r) rs)"
proof (induction rs arbitrary: s n)
  case Nil
  then show ?case by simp
next
  case (Cons x rs)
  obtain ih r where x: "x = (ih, r)" by (cases x)
  show ?case using Cons.IH [of s n] Cons.IH [of "pause_torrent w ih s" "n + 1", unfolded pause_simps]
    by (auto simp: x pause_cmds still_downloading_def not_le)
qed

section \<open>Completion\<close>

lemma manifest_simps [simp]:
  "ss_sigs (write_provenance_manifest w r s) = ss_sigs s"
  "ss_pending_confirm (write_provenance_manifest w r s) = ss_pending_confirm s"
  by (simp_all add: write_provenance_manifest_def Let_def)

lemma on_finished_effect:
  "count_list (ss_sigs (on_torrent_finished w ih s)) (TorrentFinished ih')
     = count_list (ss_sigs s) (TorrentFinished ih') + (if ih' = ih \<and> ih \<notin> ss_pending_confirm s then 1 else 0)"
  "ss_pending_confirm (on_torrent_finished w ih s) = ss_pending_confirm s - {ih}"
  by (auto simp: on_torrent_finished_def Let_def split: option.split)

lemma state_update_effect:
  "count_list (ss_sigs (on_state_update w sts s)) (TorrentFinished ih) = count_list (ss_sigs s) (TorrentFinished ih)"
  "ss_pending_confirm (on_state_update w sts s) = ss_pending_confirm s"
proof -
  have one: "count_list (ss_sigs (fst (state_update_one w st acc))) (TorrentFinished ih)
        = count_list (ss_sigs (fst acc)) (TorrentFinished ih)
      \<and> ss_pending_confirm (fst (state_update_one w st acc)) = ss_pending_confirm (fst acc)" for st acc
    by (auto simp: state_update_one_def Let_def emit_def set_record_def split: prod.split option.split)
  have "count_list (ss_sigs (fst (foldl (\<lambda>acc st. state_update_one w st acc) acc sts))) (TorrentFinished ih)
        = count_list (ss_sigs (fst acc)) (TorrentFinished ih)
      \<and> ss_pending_confirm (fst (foldl (\<lambda>acc st. state_update_one w st acc) acc sts)) = ss_pending_confirm (fst acc)" for acc
    by (induction sts arbitrary: acc) (simp_all add: one)
  note all = this [of "(s, [])"]
  obtain s' us where fold: "foldl (\<lambda>acc st. state_update_one w st acc) (s, []) sts = (s', us)" by fastforce
  show "count_list (ss_sigs (on_state_update w sts s)) (TorrentFinished ih) = count_list (ss_sigs s) (TorrentFinished ih)"
    "ss_pending_confirm (on_state_update w sts s) = ss_pending_confirm s"
    using all unfolding on_state_update_def fold by simp_all
qed

lemma other_handlers_effect:
  "count_list (ss_sigs (on_metadata_received k s)) (TorrentFinished ih) = count_list (ss_sigs s) (TorrentFinished ih)"
  "ss_pending_confirm (on_metadata_received k s) = ss_pending_confirm s"
  "count_list (ss_sigs (on_torrent_removed k s)) (TorrentFinished ih) = count_list (ss_sigs s) (TorrentFinished ih)"
  "count_list (ss_sigs (on_torrent_added k h e s)) (TorrentFinished ih) = count_list (ss_sigs s) (TorrentFinished ih)"
  "count_list (ss_sigs (on_storage_moved k p s)) (TorrentFinished ih) = count_list (ss_sigs s) (TorrentFinished ih)"
  "ss_pending_confirm (on_storage_moved k p s) = ss_pending_confirm s"
  "count_list (ss_sigs (on_file_error w k m s)) (TorrentFinished ih) = count_list (ss_sigs s) (TorrentFinished ih)"
  "ss_pending_confirm (on_file_error w k m s) = ss_pending_confirm s"
  "ss_sigs (save_resume_params k params s) = ss_sigs s" "ss_pending_confirm (save_resume_params k params s) = ss_pending_confirm s"
  by (simp_all add: on_metadata_received_def on_torrent_removed_def on_torrent_added_def on_storage_moved_def
      on_file_error_def save_resume_params_def delete_resume_file_def Let_def)

definition finish_alert :: "world \<Rightarrow> string \<Rightarrow> alert \<Rightarrow> bool" where
  "finish_alert w ih a \<longleftrightarrow> (\<exists>h. a = TorrentFinishedAlert h \<and> hash_of w h = Some ih)"

text \<open>\<open>confirmed w ih restoring alerts\<close>: whether a torrent that awaits the confirmation of its completion gets it
  from the batch. Its removal ends the wait, and so does the refusal of its restore, the first
  \<open>add_torrent_alert\<close> of a torrent still being restored.\<close>

fun confirmed :: "world \<Rightarrow> string \<Rightarrow> bool \<Rightarrow> alert list \<Rightarrow> bool" where
  "confirmed w ih restoring [] = False"
| "confirmed w ih restoring (TorrentRemovedAlert hashes # as) = (info_hash_hex_of hashes \<noteq> ih \<and> confirmed w ih restoring as)"
| "confirmed w ih restoring (AddTorrentAlert params h err m # as) =
     (if restoring \<and> info_hash_hex params = ih then (err = 0 \<or> m = []) \<and> confirmed w ih False as
      else confirmed w ih restoring as)"
| "confirmed w ih restoring (a # as) = (finish_alert w ih a \<or> confirmed w ih restoring as)"

lemma dispatch_all_Cons: "dispatch_all w (a # as) s = dispatch_all w as (fst (dispatch w a s))"
  by (simp add: dispatch_all_def)

lemma finish_dispatch:
  "count_list (ss_sigs (fst (dispatch w a s))) (TorrentFinished ih) =
     count_list (ss_sigs s) (TorrentFinished ih) + (if finish_alert w ih a \<and> ih \<notin> ss_pending_confirm s then 1 else 0)"
  by (cases a)
    (simp_all add: finish_alert_def with_hash_def state_update_effect on_finished_effect other_handlers_effect split: option.split)

lemma removal_sets:
  "ss_pending_confirm (on_torrent_removed k s) = ss_pending_confirm s - {k}" "ss_pending_restore (on_torrent_removed k s) = ss_pending_restore s"
  by (simp_all add: on_torrent_removed_def delete_resume_file_def)

lemma addition_sets:
  "ih \<in> ss_pending_confirm (on_torrent_added k h e s)
     \<longleftrightarrow> ih \<in> ss_pending_confirm s \<and> \<not> (ih = k \<and> k \<in> ss_pending_restore s \<and> e \<noteq> [])"
  "ss_pending_restore (on_torrent_added k h e s) = ss_pending_restore s - {k}"
  by (auto simp: on_torrent_added_def Let_def)

text \<open>The alerts that are no removal and no addition leave the restores alone.\<close>

lemma state_update_restoring: "ss_pending_restore (on_state_update w sts s) = ss_pending_restore s"
proof -
  have one: "ss_pending_restore (fst (state_update_one w st acc)) = ss_pending_restore (fst acc)" for st acc
    by (auto simp: state_update_one_def Let_def emit_def set_record_def split: prod.split option.split)
  have "ss_pending_restore (fst (foldl (\<lambda>acc st. state_update_one w st acc) acc sts)) = ss_pending_restore (fst acc)" for acc
    by (induction sts arbitrary: acc) (simp_all add: one)
  note all = this [of "(s, [])"]
  obtain s' us where fold: "foldl (\<lambda>acc st. state_update_one w st acc) (s, []) sts = (s', us)" by fastforce
  show ?thesis using all unfolding on_state_update_def fold by simp
qed

lemma other_handlers_restoring:
  "ss_pending_restore (on_metadata_received k s) = ss_pending_restore s" "ss_pending_restore (on_storage_moved k p s) = ss_pending_restore s"
  "ss_pending_restore (on_file_error w k m s) = ss_pending_restore s" "ss_pending_restore (save_resume_params k params s) = ss_pending_restore s"
  "ss_pending_restore (on_torrent_finished w k s) = ss_pending_restore s"
  by (simp_all add: on_metadata_received_def on_storage_moved_def on_file_error_def save_resume_params_def on_torrent_finished_def
      on_record_def set_record_def pause_torrent_def cmd_def write_provenance_manifest_def Let_def split: option.split)

lemma dispatch_confirm:
  "ih \<in> ss_pending_confirm (fst (dispatch w a s)) \<longleftrightarrow> ih \<in> ss_pending_confirm s \<and> \<not> finish_alert w ih a
     \<and> (case a of TorrentRemovedAlert hashes \<Rightarrow> info_hash_hex_of hashes \<noteq> ih
        | AddTorrentAlert params h err m \<Rightarrow> \<not> (info_hash_hex params = ih \<and> ih \<in> ss_pending_restore s \<and> err \<noteq> 0 \<and> m \<noteq> []) | _ \<Rightarrow> True)"
proof (cases a)
  case (StateUpdateAlert sts)
  then show ?thesis by (simp add: finish_alert_def state_update_effect)
next
  case (AddTorrentAlert params h err m)
  then show ?thesis by (auto simp: finish_alert_def addition_sets)
next
  case (TorrentRemovedAlert hashes)
  then show ?thesis by (auto simp: finish_alert_def removal_sets)
next
  case (TorrentFinishedAlert h)
  then show ?thesis by (auto simp: finish_alert_def with_hash_def on_finished_effect split: option.split)
qed (simp_all add: finish_alert_def with_hash_def other_handlers_effect split: option.split)

lemma dispatch_restore:
  "ih \<in> ss_pending_restore (fst (dispatch w a s)) \<longleftrightarrow> ih \<in> ss_pending_restore s
     \<and> (case a of AddTorrentAlert params h err m \<Rightarrow> info_hash_hex params \<noteq> ih | _ \<Rightarrow> True)"
  by (cases a)
    (auto simp: with_hash_def state_update_restoring other_handlers_restoring removal_sets addition_sets split: option.split)

lemma confirmed_dispatch:
  assumes "ih \<in> ss_pending_confirm s"
  shows "confirmed w ih (ih \<in> ss_pending_restore s) (a # as)
     \<longleftrightarrow> finish_alert w ih a \<or> ih \<in> ss_pending_confirm (fst (dispatch w a s))
          \<and> confirmed w ih (ih \<in> ss_pending_restore (fst (dispatch w a s))) as"
proof (cases "\<exists>params h err m. a = AddTorrentAlert params h err m")
  case True
  then show ?thesis
    using assms by (cases "ih \<in> ss_pending_restore s") (auto simp: dispatch_confirm dispatch_restore finish_alert_def split: if_splits)
next
  case False
  then show ?thesis
    using assms unfolding dispatch_confirm dispatch_restore by (cases a) (auto simp: finish_alert_def)
qed

lemma unconfirmed_dispatch: "ih \<notin> ss_pending_confirm s \<Longrightarrow> ih \<notin> ss_pending_confirm (fst (dispatch w a s))"
  by (simp add: dispatch_confirm)

lemma finished_dispatch: "finish_alert w ih a \<Longrightarrow> ih \<notin> ss_pending_confirm (fst (dispatch w a s))"
  by (simp add: dispatch_confirm)

lemma confirmed_finishes: "confirmed w ih restoring as \<Longrightarrow> 1 \<le> length (filter (finish_alert w ih) as)"
  by (induction w ih restoring as rule: confirmed.induct) (auto split: if_splits)

lemma count_finished:
  "count_list (ss_sigs (dispatch_all w alerts s)) (TorrentFinished ih)
     = count_list (ss_sigs s) (TorrentFinished ih)
       + (length (filter (finish_alert w ih) alerts)
          - (if ih \<in> ss_pending_confirm s \<and> confirmed w ih (ih \<in> ss_pending_restore s) alerts then 1 else 0))"
proof (induction alerts arbitrary: s)
  case Nil
  then show ?case by (simp add: dispatch_all_def)
next
  case (Cons a alerts)
  show ?case
  proof (cases "ih \<in> ss_pending_confirm s")
    case True
    then show ?thesis
      using confirmed_dispatch [OF True, of w a alerts] finished_dispatch [of w ih a s] confirmed_finishes [of w ih _ alerts]
      unfolding dispatch_all_Cons Cons.IH finish_dispatch by auto
  next
    case False
    then show ?thesis
      using unconfirmed_dispatch [OF False, of w a] unfolding dispatch_all_Cons Cons.IH finish_dispatch by simp
  qed
qed

section \<open>The periodic save\<close>

lemma drain_step:
  "drain w n s = s\<lparr>ss_queue := drop n (ss_queue s),
     ss_cmds := ss_cmds s @ List.map_filter (\<lambda>ih. case dget (ss_handles s) ih of
        Some h \<Rightarrow> if w_valid w h then Some (SaveResumeData h True) else None | None \<Rightarrow> None) (take n (ss_queue s))\<rparr>"
proof (induction n arbitrary: s)
  case 0
  then show ?case by (simp add: List.map_filter_simps)
next
  case (Suc n)
  show ?case
  proof (cases "ss_queue s")
    case Nil
    then show ?thesis by (simp add: List.map_filter_simps)
  next
    case (Cons ih rest)
    then show ?thesis
      by (auto simp: Suc.IH Let_def cmd_def List.map_filter_simps split: option.split)
  qed
qed

lemma drain_tick:
  "drain_resume_save_queue w s = s\<lparr>ss_queue := drop 2 (ss_queue s),
     ss_cmds := ss_cmds s @ List.map_filter (\<lambda>ih. case dget (ss_handles s) ih of
        Some h \<Rightarrow> if w_valid w h then Some (SaveResumeData h True) else None | None \<Rightarrow> None) (take 2 (ss_queue s))\<rparr>"
  unfolding drain_resume_save_queue_def drain_step RESUME_SAVES_PER_TICK_def
  by (cases "length (ss_queue s) \<le> 2") (simp_all add: min_def)

text \<open>The session \<open>n\<close> ticks after the autosave.\<close>

abbreviation autosaved :: "world \<Rightarrow> nat \<Rightarrow> session \<Rightarrow> session" where
  "autosaved w n s \<equiv> (drain_resume_save_queue w ^^ n) (save_all_resume_data s)"

lemma length_map_filter: "length (List.map_filter f xs) \<le> length xs"
  by (induction xs) (auto simp: List.map_filter_simps split: option.split)

lemma map_filter_append: "List.map_filter f (xs @ ys) = List.map_filter f xs @ List.map_filter f ys"
  by (induction xs) (auto simp: List.map_filter_simps split: option.split)

lemma drain_ticks:
  "(drain_resume_save_queue w ^^ k) s = s\<lparr>ss_queue := drop (2 * k) (ss_queue s),
     ss_cmds := ss_cmds s @ List.map_filter (\<lambda>ih. case dget (ss_handles s) ih of
        Some h \<Rightarrow> if w_valid w h then Some (SaveResumeData h True) else None | None \<Rightarrow> None) (take (2 * k) (ss_queue s))\<rparr>"
proof (induction k)
  case 0
  then show ?case by (simp add: List.map_filter_simps)
next
  case (Suc k)
  have "take (2 * Suc k) (ss_queue s) = take (2 * k) (ss_queue s) @ take 2 (drop (2 * k) (ss_queue s))"
    by (metis add.commute mult_Suc_right take_add)
  then show ?case unfolding funpow.simps comp_apply Suc.IH
    by (subst drain_tick) (simp add: map_filter_append)
qed

lemma map_filter_dget:
  "dict_ok d \<Longrightarrow> List.map_filter (\<lambda>k. case dget d k of Some v \<Rightarrow> (if p v then Some (g v) else None) | None \<Rightarrow> None) (dkeys d)
     = map g (filter p (dvals d))"
proof -
  have "List.map_filter (\<lambda>k. case dget d k of Some v \<Rightarrow> (if p v then Some (g v) else None) | None \<Rightarrow> None) (dkeys e)
      = map g (filter p (dvals e))" if "\<And>k v. (k, v) \<in> set e \<Longrightarrow> dget d k = Some v" for e
    using that
  proof (induction e)
    case Nil
    then show ?case by (simp add: List.map_filter_simps)
  next
    case (Cons kv e)
    obtain k v where kv: "kv = (k, v)" by (cases kv)
    have "dget d k = Some v" by (rule Cons.prems) (simp add: kv)
    moreover have "List.map_filter (\<lambda>k. case dget d k of Some v \<Rightarrow> (if p v then Some (g v) else None) | None \<Rightarrow> None) (dkeys e)
        = map g (filter p (dvals e))"
      by (rule Cons.IH) (rule Cons.prems, simp)
    ultimately show ?case by (simp add: kv List.map_filter_simps)
  qed
  moreover assume "dict_ok d"
  ultimately show ?thesis by (metis map_of_is_SomeI)
qed

section \<open>Deadlines\<close>

lemma urgency_bounds:
  assumes "remaining \<le> DEADLINE_URGENT_WINDOW_S"
  shows "0 \<le> fmul (fsub 1 (fdiv (max remaining 0) DEADLINE_URGENT_WINDOW_S)) 4
    \<and> fmul (fsub 1 (fdiv (max remaining 0) DEADLINE_URGENT_WINDOW_S)) 4 \<le> 4"
proof -
  let ?q = "fdiv (max remaining 0) DEADLINE_URGENT_WINDOW_S"
  have q: "0 \<le> ?q" "?q \<le> 1"
    using binary64.rnd_ge_int [of 0 "max remaining 0 / DEADLINE_URGENT_WINDOW_S"]
      binary64.rnd_le_int [of 1 "max remaining 0 / DEADLINE_URGENT_WINDOW_S"] assms
    by (auto simp: fdiv_def DEADLINE_URGENT_WINDOW_S_def)
  have u: "0 \<le> fsub 1 ?q" "fsub 1 ?q \<le> 1"
    using q binary64.rnd_ge_int [of 0 "1 - ?q"] binary64.rnd_le_int [of 1 "1 - ?q"] by (auto simp: fsub_def)
  then show ?thesis
    using binary64.rnd_ge_int [of 0 "fsub 1 ?q * 4"] binary64.rnd_le_int [of 4 "fsub 1 ?q * 4"] by (auto simp: fmul_def)
qed

lemma urgency_mono:
  assumes "x \<le> y"
  shows "fmul (fsub 1 (fdiv (max y 0) DEADLINE_URGENT_WINDOW_S)) 4 \<le> fmul (fsub 1 (fdiv (max x 0) DEADLINE_URGENT_WINDOW_S)) 4"
proof -
  have "fdiv (max x 0) DEADLINE_URGENT_WINDOW_S \<le> fdiv (max y 0) DEADLINE_URGENT_WINDOW_S"
    unfolding fdiv_def by (rule fl_mono) (use assms in \<open>simp add: DEADLINE_URGENT_WINDOW_S_def divide_right_mono\<close>)
  then have "fsub 1 (fdiv (max y 0) DEADLINE_URGENT_WINDOW_S) \<le> fsub 1 (fdiv (max x 0) DEADLINE_URGENT_WINDOW_S)"
    by (intro fsub_mono) simp_all
  then show ?thesis unfolding fmul_def by (intro fl_mono) simp
qed

section \<open>Streaming\<close>

lemma floor_bounds:
  fixes x m :: int
  assumes "0 < m"
  shows "x < (x div m + 1) * m" "x div m * m \<le> x"
proof -
  have "x div m * m + x mod m = x" by (rule div_mult_mod_eq)
  moreover have "0 \<le> x mod m" "x mod m < m" using assms by simp_all
  moreover have "(x div m + 1) * m = x div m * m + m" by (simp add: distrib_right)
  ultimately show "x < (x div m + 1) * m" "x div m * m \<le> x" by linarith+
qed

lemma first_largest_spec:
  "fs \<noteq> [] \<Longrightarrow> first_largest fs < length fs \<and> (\<forall>f \<in> set fs. lf_size f \<le> lf_size (fs ! first_largest fs))"
proof (induction fs rule: first_largest.induct)
  case (3 f g fs)
  then show ?case by (fastforce simp: Let_def)
qed simp_all

section \<open>The archive lock\<close>

definition confined_chmod :: "world \<Rightarrow> bool \<Rightarrow> rpath \<Rightarrow> lt_cmd \<Rightarrow> bool" where
  "confined_chmod w read_only base c \<longleftrightarrow>
     (\<exists>p m q old. c = Chmod p m \<and> w_resolve w p = Some q \<and> prefix (norm_path base) (norm_path q)
        \<and> w_mode w p = Some old \<and> m = (if read_only then old AND NOT S_IWUSR else old OR S_IWUSR))"

lemma chmod_one_grows:
  "\<exists>cs. ss_cmds (if is_confined w p base then chmod_one w read_only p s else s) = ss_cmds s @ cs
     \<and> list_all (confined_chmod w read_only base) cs"
  by (auto simp: is_confined_def chmod_one_def at_or_under_def confined_chmod_def split: option.splits)

lemma chmod_grows:
  "\<exists>cs. ss_cmds (foldl (\<lambda>s e. let file_path = w_join w sp (fe_path e)
        in if is_confined w file_path base then chmod_one w read_only file_path s else s) s es) = ss_cmds s @ cs
     \<and> list_all (confined_chmod w read_only base) cs"
proof (induction es arbitrary: s)
  case Nil
  then show ?case by simp
next
  case (Cons e es)
  let ?p = "w_join w sp (fe_path e)"
  let ?s1 = "if is_confined w ?p base then chmod_one w read_only ?p s else s"
  obtain ds where ds: "ss_cmds ?s1 = ss_cmds s @ ds" "list_all (confined_chmod w read_only base) ds"
    using chmod_one_grows by blast
  obtain cs where "ss_cmds (foldl (\<lambda>s e. let file_path = w_join w sp (fe_path e)
        in if is_confined w file_path base then chmod_one w read_only file_path s else s) ?s1 es) = ss_cmds ?s1 @ cs"
    "list_all (confined_chmod w read_only base) cs"
    using Cons.IH [of ?s1] by blast
  with ds show ?case by (intro exI [of _ "ds @ cs"]) (simp add: Let_def)
qed

section \<open>A small session\<close>

text \<open>Nothing moves into a folder the environment names as the system's.\<close>

lemma system_folder_refused:
  assumes "w_denied w = denied_move_roots environ resolve None" and "environ n = Some c" and "c \<noteq> []"
    and "n \<in> {''SystemRoot'', ''ProgramFiles'', ''ProgramFiles(x86)'', ''ProgramData''}"
    and "w_resolve w path = Some p" and "at_or_under (resolve c) p"
  shows "move_storage w ih path s = (s, True)"
proof -
  have "resolve c \<in> set (denied_move_roots environ resolve None)"
    using assms(2-4) unfolding denied_move_roots_def List.map_filter_def by force
  then have "resolve c \<in> set (w_denied w)" by (simp add: assms(1))
  then have "\<not> is_safe_move_destination w path" using assms(5,6) by (auto simp: is_safe_move_destination_def list_ex_iff)
  then show ?thesis by (simp add: move_storage_def)
qed

definition small_world :: world where
  "small_world = \<lparr>w_valid = (\<lambda>h. h \<noteq> 2), w_hashes = (\<lambda>_. \<lparr>hs_v1 = Some ''A'', hs_v2 = []\<rparr>),
     w_info = (\<lambda>_. Some \<lparr>ti_hashes = \<lparr>hs_v1 = Some ''A'', hs_v2 = []\<rparr>,
        ti_files = [\<lparr>lf_path = ''a.mkv'', lf_size = 10, lf_offset = 0, lf_pad = False, lf_hidden = False, lf_executable = False\<rparr>],
        ti_priv = False, ti_num_pieces = 1, ti_piece_length = 16\<rparr>),
     w_priorities = (\<lambda>_. [4]), w_file_progress = (\<lambda>_. [0]), w_pieces = (\<lambda>_. [False]), w_availability = (\<lambda>_. [1]),
     w_trackers = (\<lambda>_. []), w_peers = (\<lambda>_. []), w_magnet = (\<lambda>_. None),
     w_resolve = (\<lambda>p. Some \<lparr>rp_anchor = ''C:'', rp_parts = split_on CHR ''/'' p\<rparr>), w_join = (\<lambda>a b. a @ CHR ''/'' # b),
     w_mode = (\<lambda>_. Some 438), w_allocated = (\<lambda>_. 0), w_denied = [\<lparr>rp_anchor = ''c:'', rp_parts = [''windows'']\<rparr>],
     w_now = 1000, w_mono = 50, w_iso = (\<lambda>_. []), w_download_dir = ''D''\<rparr>"

definition small_session :: session where
  "small_session = (session_fields (DEFAULT_SETTINGS\<lparr>cfg_theme := ''cccp_soviet''\<rparr>) \<lparr>ct_map = [(''A'', ''films'')], ct_file = Missing\<rparr>
       \<lparr>rs_records = [], rs_dirty = False, rs_last_saved_at = 0, rs_file = Missing\<rparr>
       \<lparr>ls_entries = [], ls_last_saved_at = 0, ls_dirty = False, ls_file = Missing\<rparr> [])
     \<lparr>ss_records := [(''A'', (new_record ''A'')\<lparr>tr_save_path := ''d''\<rparr>), (''B'', new_record ''B'')],
      ss_handles := [(''A'', 1), (''B'', 2), (''C'', 3)], ss_pending_confirm := {''A''}\<rparr>"

section \<open>Properties\<close>

text \<open>C1: under the theme that forbids downloading, no way of starting a torrent gets one going: a
  torrent added from a file or a magnet is handed over paused and out of the automatic queue,
  resuming or starting one that is not complete only announces the refusal, and switching the
  theme on pauses every torrent whose record says that it downloads, taking it out of the automatic
  queue first.\<close>

theorem sharing_theme_never_downloads:
  assumes "cfg_theme (ss_settings s) = CCCP_THEME_ID"
  shows "(AddTorrent a \<in> set (new_cmds s (fst (add_torrent_from_file w added blank ti sp excl s)))
           \<longrightarrow> ap_paused a \<and> \<not> ap_auto_managed a)
    \<and> (AddTorrent a \<in> set (new_cmds s (fst (add_torrent_from_magnet w added parsed sp s)))
           \<longrightarrow> ap_paused a \<and> \<not> ap_auto_managed a)
    \<and> (dget (ss_records s) ih = Some r \<and> tr_progress r < 1
           \<longrightarrow> new_cmds s (resume_torrent w ih s) = [] \<and> new_cmds s (fst (start_after_analysis w ih s)) = [])
    \<and> new_cmds s (enforce_theme_download_policy w s) = concat (map (\<lambda>(ih, r). if still_downloading r
         then (case dget (ss_handles s) ih of Some h \<Rightarrow> if w_valid w h then [UnsetAutoManaged h, HPause h] else [] | None \<Rightarrow> [])
         else []) (ss_records s))"
proof -
  have from_file: "AddTorrent a \<in> set (new_cmds s (fst (add_torrent_from_file w added blank ti sp excl s)))
      \<Longrightarrow> ap_paused a \<and> \<not> ap_auto_managed a"
    using assms
    by (auto simp: add_torrent_from_file_def andthen_def Let_def is_download_start_blocked_def hold_paused_def
        dest!: add_new_cmds split: if_splits)
  have magnet: "AddTorrent a \<in> set (new_cmds s (fst (add_torrent_from_magnet w added parsed sp s)))
      \<Longrightarrow> ap_paused a \<and> \<not> ap_auto_managed a"
    by (auto simp: add_torrent_from_magnet_def Let_def hold_paused_def dest!: add_new_cmds)
  have start: "new_cmds s (resume_torrent w ih s) = [] \<and> new_cmds s (fst (start_after_analysis w ih s)) = []"
    if "dget (ss_records s) ih = Some r" "tr_progress r < 1"
    using that assms
    by (auto simp: resume_torrent_def start_after_analysis_def is_download_start_blocked_def split: option.split)
  have "ss_cmds (enforce_theme_download_policy w s) = ss_cmds (fst (enforce_records w (ss_records s) (s, 0)))"
    using assms by (auto simp: enforce_theme_download_policy_def split: prod.split)
  with from_file magnet start show ?thesis by (simp add: enforce_records_cmds)
qed

theorem sharing_theme_never_downloads_witness:
  "new_cmds small_session (resume_torrent small_world ''A'' small_session) = []"
  using sharing_theme_never_downloads [of small_session undefined small_world None undefined undefined None "{}" undefined "''A''"
      "(new_record ''A'')\<lparr>tr_save_path := ''d''\<rparr>"]
  by (simp add: small_session_def session_fields_def CCCP_THEME_ID_def new_record_def)

text \<open>A restore that libtorrent refuses drops only the row: its resume file and its category wait for the
  next launch.\<close>

lemma restore_failure_keeps:
  assumes "ih \<in> ss_pending_restore s" "dget (ss_handles s) ih = None" "e \<noteq> []"
  shows "on_torrent_added ih h e s
    = s\<lparr>ss_pending_restore := ss_pending_restore s - {ih}, ss_pending_confirm := ss_pending_confirm s - {ih},
        ss_records := dpop ih (ss_records s), ss_sigs := ss_sigs s @ [TorrentRestoreFailed ih]\<rparr>"
  using assms by (simp add: on_torrent_added_def emit_def Let_def)

text \<open>C4: whatever alerts a batch holds, removals and restores among them, each \<open>torrent_finished\<close> of a
  torrent is announced once, except one: the first of a torrent restored complete only confirms it,
  when it comes before the torrent's removal and before the refusal of its restore.\<close>

theorem completion_announced_once:
  "count_list (ss_sigs (dispatch_all w alerts s)) (TorrentFinished ih)
    = count_list (ss_sigs s) (TorrentFinished ih)
      + (length (filter (finish_alert w ih) alerts)
         - (if ih \<in> ss_pending_confirm s \<and> confirmed w ih (ih \<in> ss_pending_restore s) alerts then 1 else 0))"
  by (rule count_finished)

theorem completion_announced_once_witness:
  "count_list (ss_sigs (dispatch_all small_world
       [TorrentFinishedAlert 1, FileErrorAlert 2 ''io'', TorrentFinishedAlert 1] small_session)) (TorrentFinished ''A'') = 1
   \<and> count_list (ss_sigs (dispatch_all small_world
       [TorrentRemovedAlert \<lparr>hs_v1 = Some ''A'', hs_v2 = []\<rparr>, TorrentFinishedAlert 1] small_session)) (TorrentFinished ''A'') = 1"
  by (subst completion_announced_once, subst completion_announced_once)
    (simp add: finish_alert_def hash_of_def info_hash_hex_of_def small_world_def small_session_def session_fields_def)

text \<open>C5: the periodic autosave reaches every torrent, at most two a tick: with the queue empty when it is
  asked for, tick after tick takes the next two torrents of the session off the queue, in order, and
  asks the valid handles among them for their resume data; once there were enough ticks every valid
  handle has been asked exactly once and the queue is empty again.\<close>

theorem autosave_reaches_every_torrent:
  assumes "dict_ok (ss_handles s)" "ss_queue s = []" "length (ss_handles s) \<le> 2 * k"
  shows "ss_queue (autosaved w n s) = drop (2 * n) (dkeys (ss_handles s))
    \<and> length (new_cmds (autosaved w n s) (autosaved w (Suc n) s)) \<le> 2
    \<and> ss_queue (autosaved w k s) = []
    \<and> new_cmds s (autosaved w k s) = map (\<lambda>h. SaveResumeData h True) (filter (w_valid w) (dvals (ss_handles s)))"
proof -
  have start: "save_all_resume_data s = s\<lparr>ss_queue := dkeys (ss_handles s)\<rparr>"
    using assms(2) by (simp add: save_all_resume_data_def)
  have after: "autosaved w m s = s\<lparr>ss_queue := drop (2 * m) (dkeys (ss_handles s)),
     ss_cmds := ss_cmds s @ List.map_filter (\<lambda>ih. case dget (ss_handles s) ih of
        Some h \<Rightarrow> if w_valid w h then Some (SaveResumeData h True) else None | None \<Rightarrow> None) (take (2 * m) (dkeys (ss_handles s)))\<rparr>" for m
    unfolding drain_ticks start by simp
  have "length (new_cmds x (drain_resume_save_queue w x)) \<le> 2" for x
  proof -
    have "length (new_cmds x (drain_resume_save_queue w x)) \<le> length (take 2 (ss_queue x))"
      unfolding drain_tick by (simp add: length_map_filter del: length_take)
    then show ?thesis by simp
  qed
  then have "length (new_cmds (autosaved w n s) (autosaved w (Suc n) s)) \<le> 2" by simp
  then show ?thesis
    using assms(3) map_filter_dget [OF assms(1), of "w_valid w" "\<lambda>h. SaveResumeData h True"] by (simp add: after)
qed

theorem autosave_reaches_every_torrent_witness:
  "new_cmds small_session ((drain_resume_save_queue small_world ^^ 2) (save_all_resume_data small_session))
   = [SaveResumeData 1 True, SaveResumeData 3 True]"
  using autosave_reaches_every_torrent [of small_session 2 0 small_world]
  by (simp add: small_session_def session_fields_def small_world_def)

text \<open>A torrent climbs the queue by one to five places a sweep once its deadline is within 24
  hours, five once it has passed, never fewer for an earlier deadline, and not at all before,
  float rounding included.\<close>

theorem deadline_steps_urgency:
  "(deadline_steps now d = 0 \<longleftrightarrow> DEADLINE_URGENT_WINDOW_S < fsub d now)
   \<and> 0 \<le> deadline_steps now d \<and> deadline_steps now d \<le> 5
   \<and> (d \<le> now \<longrightarrow> deadline_steps now d = 5)
   \<and> (d' \<le> d \<longrightarrow> deadline_steps now d \<le> deadline_steps now d')"
proof -
  have in_window: "1 \<le> deadline_steps now x \<and> deadline_steps now x \<le> 5" if "\<not> DEADLINE_URGENT_WINDOW_S < fsub x now" for x
    using that urgency_bounds [of "fsub x now"] py_round_ge [of 0] py_round_le [of _ 4]
    by (simp add: deadline_steps_def Let_def)
  have passed: "deadline_steps now d = 5" if "d \<le> now"
  proof -
    have "fsub d now \<le> 0" using fsub_mono [OF that order_refl, of now] by (simp add: fsub_def)
    then have "max (fsub d now) 0 = 0" "\<not> DEADLINE_URGENT_WINDOW_S < fsub d now"
      by (simp_all add: DEADLINE_URGENT_WINDOW_S_def)
    moreover have "py_round (fmul (fsub 1 (fdiv 0 DEADLINE_URGENT_WINDOW_S)) 4) = 4"
    proof -
      have "fl 1 = 1" "fl 4 = 4" using fl_of_int [of 1] fl_of_int [of 4] by simp_all
      then have "fmul (fsub 1 (fdiv 0 DEADLINE_URGENT_WINDOW_S)) 4 = of_int 4" by (simp add: fmul_def fsub_def fdiv_def)
      then show ?thesis by (simp only: py_round_of_int)
    qed
    ultimately show ?thesis by (simp add: deadline_steps_def Let_def)
  qed
  have mono: "deadline_steps now d \<le> deadline_steps now d'" if "d' \<le> d"
  proof -
    have le: "fsub d' now \<le> fsub d now" using that by (intro fsub_mono) simp_all
    then show ?thesis
      using in_window [of d'] py_round_mono [OF urgency_mono [OF le]]
      by (auto simp: deadline_steps_def Let_def)
  qed
  show ?thesis
    using in_window [of d] passed mono by (auto simp: deadline_steps_def Let_def)
qed

theorem deadline_steps_urgency_witness: "deadline_steps 1000 900 = 5"
  using deadline_steps_urgency [of 1000 900] by simp

text \<open>C6: streaming gives a deadline to at most thirty pieces, the first ones of a largest file,
  all of them pieces of the torrent that hold bytes of that file, 500 ms apart from 0.\<close>

theorem streaming_head_of_largest_file:
  assumes "0 \<le> lf_offset f" "0 < lf_size f" "f = ti_files ti ! first_largest (ti_files ti)"
    and "lf_offset f + lf_size f \<le> ti_num_pieces ti * ti_piece_length ti"
  shows "length (streaming_deadlines ti) \<le> 30
    \<and> (\<forall>(piece, ms) \<in> set (streaming_deadlines ti).
         0 \<le> piece \<and> piece < ti_num_pieces ti
         \<and> lf_offset f < (piece + 1) * ti_piece_length ti \<and> piece * ti_piece_length ti < lf_offset f + lf_size f
         \<and> ms = (piece - lf_offset f div ti_piece_length ti) * 500
         \<and> (\<forall>g \<in> set (ti_files ti). lf_size g \<le> lf_size f))"
proof (cases "ti_files ti = [] \<or> ti_piece_length ti \<le> 0")
  case True
  then show ?thesis by (auto simp: streaming_deadlines_def)
next
  case False
  define L where "L = ti_piece_length ti"
  define first where "first = lf_offset f div L"
  define last where "last = min (min (ti_num_pieces ti - 1) ((lf_offset f + lf_size f - 1) div L)) (first + 30 - 1)"
  have L: "0 < L" using False by (simp add: L_def)
  have size: "max (lf_size f) 1 = lf_size f" using assms(2) by simp
  have eq: "streaming_deadlines ti = map (\<lambda>rank. (first + rank, rank * 500)) [0..last - first]"
    using False
    by (simp add: streaming_deadlines_def Let_def assms(3) [symmetric] size L_def first_def last_def
        STREAMING_HEAD_PIECE_COUNT_def STREAMING_DEADLINE_STEP_MS_def)
  have "last - first \<le> 29" by (simp add: last_def)
  then have len: "length (streaming_deadlines ti) \<le> 30" by (simp add: eq)
  have biggest: "\<forall>g \<in> set (ti_files ti). lf_size g \<le> lf_size f"
    using first_largest_spec [of "ti_files ti"] False assms(3) by simp
  have offset: "lf_offset f < (first + 1) * L" "first * L \<le> lf_offset f" "0 \<le> first"
    using L assms(1) unfolding first_def
    by (simp_all add: pos_imp_zdiv_nonneg_iff floor_bounds)
  have "0 \<le> piece \<and> piece < ti_num_pieces ti \<and> lf_offset f < (piece + 1) * L \<and> piece * L < lf_offset f + lf_size f
      \<and> ms = (piece - first) * 500" if m: "(piece, ms) \<in> set (streaming_deadlines ti)" for piece ms
  proof -
    from m obtain rank where r: "0 \<le> rank" "rank \<le> last - first" "piece = first + rank" "ms = rank * 500"
      by (auto simp: eq)
    then have "piece \<le> last" "first \<le> piece" by simp_all
    then have p: "piece \<le> ti_num_pieces ti - 1" "piece \<le> (lf_offset f + lf_size f - 1) div L" by (simp_all add: last_def)
    have "piece * L \<le> (lf_offset f + lf_size f - 1) div L * L" using p(2) L by (simp add: mult_right_mono)
    also have "\<dots> \<le> lf_offset f + lf_size f - 1" using L by (rule floor_bounds(2))
    finally have "piece * L < lf_offset f + lf_size f" by simp
    moreover have "lf_offset f < (piece + 1) * L"
      using offset(1) \<open>first \<le> piece\<close> L by (meson add_right_mono less_le_trans mult_right_mono less_imp_le)
    ultimately show ?thesis using p(1) offset(3) \<open>first \<le> piece\<close> r by simp
  qed
  with len biggest show ?thesis by (auto simp: L_def first_def)
qed

theorem streaming_head_of_largest_file_witness:
  "length (streaming_deadlines \<lparr>ti_hashes = \<lparr>hs_v1 = None, hs_v2 = []\<rparr>,
     ti_files = [\<lparr>lf_path = ''a'', lf_size = 10, lf_offset = 0, lf_pad = False, lf_hidden = False, lf_executable = False\<rparr>,
                 \<lparr>lf_path = ''b.mkv'', lf_size = 5000, lf_offset = 10, lf_pad = False, lf_hidden = False, lf_executable = False\<rparr>],
     ti_priv = False, ti_num_pieces = 51, ti_piece_length = 100\<rparr>) \<le> 30"
  by (rule streaming_head_of_largest_file [where f = "\<lparr>lf_path = ''b.mkv'', lf_size = 5000, lf_offset = 10, lf_pad = False,
        lf_hidden = False, lf_executable = False\<rparr>", THEN conjunct1]) simp_all

text \<open>C7: whatever paths a torrent's metadata holds (\<open>..\<close> segments, absolute paths), locking or
  unlocking it changes the mode of files under its own resolved save path only, and only the
  owner's write bit; a move goes out only to a destination that is no drive root, no UNC path
  and in no denied directory.\<close>

theorem file_operations_confined:
  "(Chmod p m \<in> set (new_cmds s (chmod_torrent_files w ih read_only s)) \<longrightarrow>
      (\<exists>r base q old. dget (ss_records s) ih = Some r \<and> w_resolve w (tr_save_path r) = Some base
         \<and> w_resolve w p = Some q \<and> prefix (norm_path base) (norm_path q) \<and> w_mode w p = Some old
         \<and> m = (if read_only then old AND NOT S_IWUSR else old OR S_IWUSR)))
   \<and> (MoveStorage h d \<in> set (new_cmds s (fst (move_storage w ih d' s))) \<longrightarrow>
      (\<exists>q. d = d' \<and> w_resolve w d = Some q \<and> rp_parts q \<noteq> [] \<and> \<not> prefix [CHR 0x5C, CHR 0x5C] (rp_anchor q)
         \<and> (\<forall>x \<in> set (w_denied w). \<not> prefix (norm_path x) (norm_path q))))"
proof -
  have chmod: "\<exists>r base q old. dget (ss_records s) ih = Some r \<and> w_resolve w (tr_save_path r) = Some base
         \<and> w_resolve w p = Some q \<and> prefix (norm_path base) (norm_path q) \<and> w_mode w p = Some old
         \<and> m = (if read_only then old AND NOT S_IWUSR else old OR S_IWUSR)"
    if h: "Chmod p m \<in> set (new_cmds s (chmod_torrent_files w ih read_only s))"
  proof -
    obtain r base where r: "dget (ss_records s) ih = Some r" "w_resolve w (tr_save_path r) = Some base"
      using h by (auto simp: chmod_torrent_files_def split: option.splits)
    obtain cs where "ss_cmds (chmod_torrent_files w ih read_only s) = ss_cmds s @ cs" "list_all (confined_chmod w read_only base) cs"
      using chmod_grows [of w "tr_save_path r" base read_only s "get_torrent_files w s ih"] r by (auto simp: chmod_torrent_files_def)
    with h have "confined_chmod w read_only base (Chmod p m)" by (simp add: list_all_iff)
    with r show ?thesis by (auto simp: confined_chmod_def)
  qed
  have "\<exists>q. d = d' \<and> w_resolve w d = Some q \<and> rp_parts q \<noteq> [] \<and> \<not> prefix [CHR 0x5C, CHR 0x5C] (rp_anchor q)
         \<and> (\<forall>x \<in> set (w_denied w). \<not> prefix (norm_path x) (norm_path q))"
    if "MoveStorage h d \<in> set (new_cmds s (fst (move_storage w ih d' s)))"
    using that
    by (auto simp: move_storage_def on_handle_def hcall_def is_safe_move_destination_def at_or_under_def list_ex_iff
        split: option.splits if_splits)
  with chmod show ?thesis by blast
qed

theorem file_operations_confined_witness:
  "\<exists>q. w_resolve small_world ''d/a.mkv'' = Some q \<and> prefix [''c:'', ''d''] (norm_path q)"
proof -
  have b: "w_resolve small_world ''d'' = Some \<lparr>rp_anchor = ''C:'', rp_parts = [''d'']\<rparr>"
    by (simp add: small_world_def)
  have "new_cmds small_session (chmod_torrent_files small_world ''A'' True small_session) = [Chmod ''d/a.mkv'' 310]"
    by code_simp
  moreover have "norm_path \<lparr>rp_anchor = ''C:'', rp_parts = [''d'']\<rparr> = [''c:'', ''d'']" by code_simp
  moreover have "dget (ss_records small_session) ''A'' = Some ((new_record ''A'')\<lparr>tr_save_path := ''d''\<rparr>)"
    by (simp add: small_session_def session_fields_def)
  ultimately show ?thesis
    using file_operations_confined [of "''d/a.mkv''" 310 small_session small_world "''A''" True 0 "[]" "[]"] b by auto
qed

end
