(* ===== verification/Session_Frame.thy ===== *)
theory Session_Frame
  imports Session_Props
begin

text \<open>
  What the operations of the session leave alone, proved once for any view of the session. A view
  that sees of the commands only those that start a torrent, and neither the signals, the sweep's clock
  nor the wait for the block list, is kept by everything that only talks to libtorrent and to the pages
  and starts nothing (locale \<open>call_view\<close>; \<open>cmd_view\<close> sees no command at all). \<open>start_view\<close> and
  \<open>session_view\<close> are those that do not see the resume files either. A view that looks at none of the
  torrents' maps is kept by nearly every operation (\<open>call_store_view\<close>, \<open>cmd_store_view\<close> and, without
  the resume files, \<open>start_store_view\<close>, \<open>store_view\<close>).
\<close>

named_theorems frame

section \<open>Views without signals\<close>

text \<open>The calls that can make a torrent run that did not: adding it, un-pausing it or handing it to
  libtorrent's queue, un-pausing the whole session, and setting how many the queue runs at a time.\<close>

fun starts :: "lt_cmd \<Rightarrow> bool" where
  "starts (HResume h) = True"
| "starts (SetAutoManaged h) = True"
| "starts (AddTorrent a) = True"
| "starts (AsyncAddTorrent a) = True"
| "starts SessionResume = True"
| "starts (ApplySettings st) = dhas st ''active_downloads''"
| "starts _ = False"

lemma quiet_fragments [simp]:
  "map_of (build_settings_fragment c p) ''active_downloads'' = None"
  "map_of (encryption_settings_fragment c m) ''active_downloads'' = None"
  "map_of (build_interface_fragment n) ''active_downloads'' = None"
  by (simp_all add: build_settings_fragment_def encryption_settings_fragment_def build_interface_fragment_def split: prod.split)

locale call_view =
  fixes view :: "session \<Rightarrow> 'v"
  assumes view_sigs: "view (s\<lparr>ss_sigs := g\<rparr>) = view s"
    and view_calls: "list_all (\<lambda>c. \<not> starts c) cs \<Longrightarrow> view (s\<lparr>ss_cmds := ss_cmds s @ cs\<rparr>) = view s"
    and view_sweep: "view (s\<lparr>ss_last_sweep := t\<rparr>) = view s"
    and view_wait: "view (s\<lparr>ss_blocklist_wait := b\<rparr>) = view s"
    and view_timers: "view (s\<lparr>ss_timer_active := b\<rparr>) = view s" "view (s\<lparr>ss_resume_timer_active := b\<rparr>) = view s"
begin

lemma emit [frame]: "view (emit g s) = view s"
  by (simp add: emit_def view_sigs)

lemma quiet_cmd [frame]: "\<not> starts c \<Longrightarrow> view (cmd c s) = view s"
  using view_calls [of "[c]"] by (simp add: cmd_def)

lemma quiet_hcall [frame]: "\<not> starts c \<Longrightarrow> view (fst (hcall w h c s)) = view s"
  by (simp add: hcall_def quiet_cmd)

lemma quiet_on_handle [frame]: "(\<And>h. \<not> starts (c h)) \<Longrightarrow> view (fst (on_handle ih (\<lambda>h. hcall w h (c h)) s)) = view s"
  by (simp add: on_handle_def quiet_hcall split: option.split)

lemma andthen: "view (fst r) = view s \<Longrightarrow> (\<And>x. view (fst (f x)) = view x) \<Longrightarrow> view (fst (andthen r f)) = view s"
  by (simp add: andthen_def)

lemma folded: "(\<And>s x. view (f s x) = view s) \<Longrightarrow> view (foldl f s xs) = view s"
  by (induction xs arbitrary: s) simp_all

lemma pause [frame]: "view (pause_torrent w ih s) = view s"
  by (simp add: pause_torrent_def quiet_cmd split: option.split)

lemma enforce_rows: "view (fst (enforce_records w rs x)) = view (fst x)"
  by (induction w rs x rule: enforce_records.induct) (simp_all add: pause)

lemma enforce [frame]: "view (enforce_theme_download_policy w s) = view s"
  using enforce_rows [of w "ss_records s" "(s, 0)"]
  by (auto simp: enforce_theme_download_policy_def emit Let_def split: prod.split)

lemma chmod [frame]: "view (chmod_torrent_files w ih ro s) = view s"
proof -
  have "view (chmod_one w ro p s) = view s" for p s
    by (simp add: chmod_one_def quiet_cmd split: option.split)
  then show ?thesis
    by (auto simp: chmod_torrent_files_def Let_def intro!: folded split: option.split)
qed

lemma called: "(\<And>f s. f \<in> set fs \<Longrightarrow> view (fst (f s)) = view s) \<Longrightarrow> view (fst (call_all fs s)) = view s"
  by (induction fs arbitrary: s) (auto simp: andthen_def)

lemma sequential [frame]: "view (fst (set_sequential_download w ih enabled s)) = view s"
proof -
  have "view (fst (apply_streaming_deadlines w h s)) = view s" for h s
    by (auto simp: apply_streaming_deadlines_def quiet_hcall intro!: called split: option.split)
  then show ?thesis
    by (auto simp: set_sequential_download_def quiet_hcall intro!: andthen split: option.split)
qed

lemma files [frame]:
  "view (fst (exclude_files w ih excluded s)) = view s" "view (fst (set_file_priorities w ih excluded s)) = view s"
  "view (fst (remove_torrent w ih del s)) = view s" "view (fst (move_storage w ih p s)) = view s"
  by (simp_all add: exclude_files_def set_file_priorities_def remove_torrent_def move_storage_def quiet_hcall quiet_on_handle split: option.split)

lemma calls [frame]:
  "view (fst (move_queue_up w ih s)) = view s" "view (fst (move_queue_down w ih s)) = view s"
  "view (fst (add_tracker w ih url tier s)) = view s" "view (fst (remove_tracker w ih url s)) = view s"
  "view (fst (recheck_torrent w ih s)) = view s"
  by (simp_all add: move_queue_up_def move_queue_down_def add_tracker_def remove_tracker_def recheck_torrent_def quiet_on_handle)

lemma live [frame]:
  "view (set_restrict_discovery b s) = view s" "view (set_proxy c cfg s) = view s"
  "view (set_encryption_mode c m s) = view s" "view (set_network_interface n s) = view s"
  "view (set_rate_limits dl ul s) = view s"
  by (simp_all add: set_restrict_discovery_def set_proxy_def set_encryption_mode_def set_network_interface_def
      set_rate_limits_def quiet_cmd Let_def)

lemma repeated: "(\<And>s. view (fst (f s)) = view s) \<Longrightarrow> view (fst (repeat_call n f s)) = view s"
  by (induction n arbitrary: s) (simp_all add: andthen_def)

lemma sweep: "view (fst (sweep_records w rs s)) = view s"
proof (induction w rs s rule: sweep_records.induct)
  case (2 w ih r rs s)
  have "view (fst (repeat_call n (Session.hcall w h c) s)) = view s" if "\<not> starts c" for n h c s
    by (rule repeated) (rule quiet_hcall [OF that])
  then show ?case using 2 by (auto simp: andthen_def split: option.split)
qed simp

lemma deadlines [frame]: "view (fst (apply_deadline_priorities w s)) = view s"
  using sweep [of w _ "s\<lparr>ss_last_sweep := w_now w\<rparr>"]
  by (simp add: apply_deadline_priorities_def Let_def view_sweep)

lemma blocklist_wait [frame]: "view (load_ip_blocklist s) = view s"
  by (simp add: load_ip_blocklist_def emit quiet_cmd view_wait)

lemma manifest [frame]: "view (write_provenance_manifest w r s) = view s"
  by (simp add: write_provenance_manifest_def Let_def quiet_cmd)

lemma file_error [frame]: "view (on_file_error w ih m s) = view s"
  by (simp add: on_file_error_def emit pause)

lemma shutdown_start [frame]: "view (fst (shutdown_start w s)) = view s"
proof -
  let ?off = "(s\<lparr>ss_timer_active := False\<rparr>)\<lparr>ss_resume_timer_active := False\<rparr>"
  have "view (?off\<lparr>ss_cmds := ss_cmds ?off @ map (\<lambda>h. SaveResumeData h False) hs\<rparr>) = view ?off" for hs
    by (rule view_calls) (simp add: list_all_iff)
  then show ?thesis by (simp add: shutdown_start_def Let_def view_timers)
qed

end

locale start_view = call_view +
  assumes view_resume_dir: "view (s\<lparr>ss_resume_dir := d\<rparr>) = view s"
begin

lemma resume_files [frame]:
  "view (save_resume_params ih params s) = view s" "view (delete_resume_file ih s) = view s"
  by (simp_all add: save_resume_params_def delete_resume_file_def view_resume_dir)

lemma shutdown_alerts: "view (fst (fst (shutdown_alerts w as x))) = view (fst x)"
proof (induction as arbitrary: x)
  case (Cons a as)
  then show ?case by (cases x) (auto simp: resume_files split: alert.split option.split)
qed simp

lemma shutdown_pass [frame]: "view (fst (fst (shutdown_alerts w as (s, pending)))) = view s"
  by (simp add: shutdown_alerts)

end

section \<open>Views without commands\<close>

locale cmd_view = call_view +
  assumes view_cmds: "view (s\<lparr>ss_cmds := c\<rparr>) = view s"
begin

lemma cmd [frame]: "view (cmd c s) = view s"
  by (simp add: cmd_def view_cmds)

lemma hcall [frame]: "view (fst (hcall w h c s)) = view s"
  by (simp add: hcall_def cmd)

lemma resume [frame]: "view (resume_torrent w ih s) = view s"
  by (simp add: resume_torrent_def cmd emit split: option.split)

lemma blocklist [frame]: "view (on_ip_blocklist_loaded ip_filter s) = view s"
  by (auto simp: on_ip_blocklist_loaded_def emit cmd view_wait Let_def split: option.split)

lemma active [frame]: "view (set_max_active_downloads k s) = view s"
  by (simp add: set_max_active_downloads_def cmd)

end

locale session_view = start_view view + cmd_view view
  for view :: "session \<Rightarrow> 'v"

section \<open>Views without the torrents\<close>

locale call_store_view = call_view +
  assumes view_records: "view (s\<lparr>ss_records := rs\<rparr>) = view s" "view (s\<lparr>ss_handles := hs\<rparr>) = view s"
      "view (s\<lparr>ss_speed := sp\<rparr>) = view s" "view (s\<lparr>ss_files_cache := fc\<rparr>) = view s"
      "view (s\<lparr>ss_private_checked := pc\<rparr>) = view s" "view (s\<lparr>ss_queue := q\<rparr>) = view s"
    and view_pending: "view (s\<lparr>ss_pending_restore := pr\<rparr>) = view s" "view (s\<lparr>ss_pending_confirm := pf\<rparr>) = view s"
begin

lemma set_record [frame]: "view (set_record ih r s) = view s"
  by (simp add: set_record_def view_records)

lemma on_record [frame]: "view (on_record ih f s) = view s"
  by (simp add: on_record_def set_record split: option.split)

lemma flags [frame]:
  "view (set_matched_rule_name ih n s) = view s" "view (pin_torrent ih s) = view s" "view (unpin_torrent ih s) = view s"
  "view (set_deadline ih t s) = view s" "view (lock_torrent w ih s) = view s" "view (unlock_torrent w ih s) = view s"
  by (simp_all add: set_matched_rule_name_def pin_torrent_def unpin_torrent_def set_deadline_def lock_torrent_def
      unlock_torrent_def on_record chmod)

lemma progress [frame]:
  "view (snd (get_file_downloaded w ih s)) = view s" "view (snd (get_file_progress w ih s)) = view s"
proof -
  show d: "view (snd (get_file_downloaded w ih s)) = view s"
    by (auto simp: get_file_downloaded_def Let_def view_records split: option.split)
  show "view (snd (get_file_progress w ih s)) = view s"
    using d by (auto simp: get_file_progress_def Let_def split: prod.split)
qed

lemma drained: "view (drain w n s) = view s"
proof (induction n arbitrary: s)
  case (Suc n)
  then show ?case by (auto simp: Let_def view_records quiet_cmd split: list.split option.split)
qed simp

lemma autosave [frame]: "view (save_all_resume_data s) = view s" "view (drain_resume_save_queue w s) = view s"
  by (simp_all add: save_all_resume_data_def drain_resume_save_queue_def view_records drained)

lemma status_update: "view (fst (state_update_one w st acc)) = view (fst acc)"
  by (cases acc) (auto simp: state_update_one_def Let_def emit set_record view_records split: option.split prod.split)

lemma state_update: "view (on_state_update w sts s) = view s"
proof -
  have "view (fst (foldl (\<lambda>acc st. state_update_one w st acc) acc sts)) = view (fst acc)" for acc
    by (induction sts arbitrary: acc) (simp_all add: status_update)
  from this [of "(s, [])"] show ?thesis
    by (auto simp: on_state_update_def emit split: prod.split)
qed

lemma alert_handlers [frame]:
  "view (on_metadata_received ih s) = view s" "view (on_storage_moved ih p s) = view s"
  "view (on_torrent_finished w ih s) = view s" "view (on_torrent_added ih h e s) = view s"
  by (auto simp: on_metadata_received_def on_storage_moved_def on_torrent_finished_def on_torrent_added_def emit on_record
      set_record manifest view_pending view_records Let_def split: option.split)

end

locale start_store_view = start_view view + call_store_view view
  for view :: "session \<Rightarrow> 'v"

locale cmd_store_view = cmd_view view + call_store_view view
  for view :: "session \<Rightarrow> 'v"
begin

lemma start [frame]: "view (fst (start_after_analysis w ih s)) = view s"
proof -
  have "view (fst (andthen (Session.hcall w h (SetAutoManaged h) (Session.set_record ih r s)) (Session.hcall w h (HResume h)))) = view s"
    for h r by (rule andthen) (simp_all add: hcall set_record)
  then show ?thesis by (auto simp: start_after_analysis_def emit split: option.split)
qed

lemma restored: "view (restore_one async_ok a s) = view s"
proof -
  have "view (((Session.cmd c s)\<lparr>ss_pending_restore := p\<rparr>)) = view s" for c p by (simp add: view_pending cmd)
  then show ?thesis by (simp add: restore_one_def Let_def emit set_record view_pending)
qed

lemma init: "view (session_init c v async_ok rows s) = view s"
  by (simp add: session_init_def restore_previous_session_def Let_def folded restored cmd blocklist_wait)

end

locale store_view = session_view view + cmd_store_view view
  for view :: "session \<Rightarrow> 'v"

end
