(* ===== verification/Session_Reach.thy ===== *)
theory Session_Reach
  imports Session_Frame
begin

text \<open>
  Every state the session manager can be in: the start-up of \<open>__init__\<close>, then any sequence of the
  slots, timers and calls of \<open>engine/session_manager.py\<close> with any answers of libtorrent. What is
  assumed of libtorrent is the order of its alerts: it announces the removal of a torrent only
  after it has announced its addition.
\<close>

section \<open>Well-formed sessions\<close>

text \<open>No operation stores the report of a danger scan in a record.\<close>

definition record_ok :: "string \<Rightarrow> torrent_record \<Rightarrow> bool" where
  "record_ok ih r \<longleftrightarrow> tr_info_hash r = ih \<and> tr_danger_report r = None"

definition session_ok :: "session \<Rightarrow> bool" where
  "session_ok s \<longleftrightarrow>
     dict_ok (ss_records s) \<and> dict_ok (ss_handles s) \<and> dict_ok (ss_speed s) \<and> dict_ok (ss_files_cache s)
   \<and> distinct (ss_queue s)
   \<and> (\<forall>x\<in>set (ss_records s). record_ok (fst x) (snd x))
   \<and> fst ` set (ss_files_cache s) \<subseteq> fst ` set (ss_handles s)
   \<and> fst ` set (ss_handles s) \<union> ss_pending_restore s \<union> ss_pending_confirm s \<subseteq> fst ` set (ss_records s)
   \<and> (\<forall>x\<in>set (ss_speed s). length (snd x) \<le> SPEED_HISTORY_MAX)"

lemma ball_dset: "\<forall>x\<in>set d. P x \<Longrightarrow> P (k, v) \<Longrightarrow> \<forall>x\<in>set (dset k v d). P x"
  using dset_subset [of k v d] by blast

lemma ball_dpop: "\<forall>x\<in>set d. P x \<Longrightarrow> \<forall>x\<in>set (dpop k d). P x"
  by (induction d) auto

lemma session_okI:
  assumes "dict_ok (ss_records s)" "dict_ok (ss_handles s)" "dict_ok (ss_speed s)" "dict_ok (ss_files_cache s)"
    and "distinct (ss_queue s)" and "\<forall>x\<in>set (ss_records s). record_ok (fst x) (snd x)"
    and "fst ` set (ss_files_cache s) \<subseteq> fst ` set (ss_handles s)"
    and "fst ` set (ss_handles s) \<union> ss_pending_restore s \<union> ss_pending_confirm s \<subseteq> fst ` set (ss_records s)"
    and "\<forall>x\<in>set (ss_speed s). length (snd x) \<le> SPEED_HISTORY_MAX"
  shows "session_ok s"
  unfolding session_ok_def using assms by blast

lemma session_okD:
  assumes "session_ok s"
  shows "dict_ok (ss_records s)" "dict_ok (ss_handles s)" "dict_ok (ss_speed s)" "dict_ok (ss_files_cache s)"
    and "distinct (ss_queue s)" and "\<forall>x\<in>set (ss_records s). record_ok (fst x) (snd x)"
    and "fst ` set (ss_files_cache s) \<subseteq> fst ` set (ss_handles s)"
    and "fst ` set (ss_handles s) \<union> ss_pending_restore s \<union> ss_pending_confirm s \<subseteq> fst ` set (ss_records s)"
    and "\<forall>x\<in>set (ss_speed s). length (snd x) \<le> SPEED_HISTORY_MAX"
  using assms unfolding session_ok_def by blast+

text \<open>The part of the session it is about; most operations leave it alone.\<close>

definition torrents :: "session \<Rightarrow> (string, torrent_record) dict \<times> (string, handle) dict \<times> (string, (int \<times> int) list) dict
    \<times> (string, file_entry list) dict \<times> string list \<times> string set \<times> string set" where
  "torrents s = (ss_records s, ss_handles s, ss_speed s, ss_files_cache s, ss_queue s, ss_pending_restore s, ss_pending_confirm s)"

lemma session_ok_torrents:
  assumes "torrents s' = torrents s"
  shows "session_ok s' = session_ok s"
  using assms by (simp only: session_ok_def torrents_def prod.inject)

lemma session_ok_frame: "session_ok s \<Longrightarrow> torrents s' = torrents s \<Longrightarrow> session_ok s'"
  by (rule session_ok_torrents [THEN iffD2])

interpretation torrents: session_view torrents
  by unfold_locales (simp_all add: torrents_def)

lemma torrents_peers [frame]:
  "torrents (snd (get_peer_info show_int w ih s)) = torrents s" "torrents (flush_peer_stores w s) = torrents s"
  by (auto simp: get_peer_info_def flush_peer_stores_def torrents_def Let_def split: option.split)

section \<open>The operations that change it\<close>

lemma session_ok_records:
  "session_ok s \<Longrightarrow> dget (ss_records s) ih = Some r \<Longrightarrow> record_ok ih r"
  using session_okD(6) dget_in_set by fastforce

lemma set_record_keeps:
  "ss_speed (set_record ih r s) = ss_speed s" "ss_files_cache (set_record ih r s) = ss_files_cache s"
  "ss_pending_restore (set_record ih r s) = ss_pending_restore s"
  by (simp_all add: set_record_def)

lemma session_ok_set_record:
  assumes "session_ok s" and "record_ok ih r"
  shows "session_ok (set_record ih r s)"
proof (rule session_okI)
  note d = session_okD [OF assms(1)]
  show "\<forall>x\<in>set (ss_records (set_record ih r s)). record_ok (fst x) (snd x)"
    unfolding set_record_simps by (rule ball_dset [OF d(6)]) (simp add: assms(2))
  show "fst ` set (ss_handles (set_record ih r s)) \<union> ss_pending_restore (set_record ih r s) \<union> ss_pending_confirm (set_record ih r s)
      \<subseteq> fst ` set (ss_records (set_record ih r s))"
    using d(8) unfolding set_record_simps set_record_keeps fst_dset by blast
qed (use session_okD [OF assms(1)] in \<open>simp_all only: set_record_simps set_record_keeps dict_ok_dset\<close>)

lemma session_ok_on_record:
  assumes "session_ok s" and "\<And>r. record_ok ih r \<Longrightarrow> record_ok ih (f r)"
  shows "session_ok (on_record ih f s)"
  using assms session_ok_records [OF assms(1)]
  by (auto simp: on_record_def intro!: session_ok_set_record split: option.split)

lemma session_ok_flags:
  assumes "session_ok s"
  shows "session_ok (set_torrent_category ih category s)" "session_ok (set_matched_rule_name ih n s)"
    "session_ok (pin_torrent ih s)" "session_ok (unpin_torrent ih s)" "session_ok (set_deadline ih t s)"
    "session_ok (lock_torrent w ih s)" "session_ok (unlock_torrent w ih s)"
proof -
  have "session_ok (on_record ih (\<lambda>r. r\<lparr>tr_category := category\<rparr>) s)"
    by (rule session_ok_on_record [OF assms]) (simp add: record_ok_def)
  then show "session_ok (set_torrent_category ih category s)"
    by (rule session_ok_frame) (simp add: set_torrent_category_def Let_def torrents_def)
  show "session_ok (set_matched_rule_name ih n s)" "session_ok (pin_torrent ih s)" "session_ok (unpin_torrent ih s)"
    "session_ok (set_deadline ih t s)"
    unfolding set_matched_rule_name_def pin_torrent_def unpin_torrent_def set_deadline_def
    by (rule session_ok_on_record [OF assms], simp add: record_ok_def)+
  have "session_ok (chmod_torrent_files w ih ro s)" for ro by (rule session_ok_frame [OF assms]) (simp add: frame)
  then show "session_ok (lock_torrent w ih s)" "session_ok (unlock_torrent w ih s)"
    unfolding lock_torrent_def unlock_torrent_def by (rule session_ok_on_record, simp add: record_ok_def)+
qed

lemma session_ok_add:
  assumes "session_ok s"
  shows "session_ok (fst (add w added a aw s))"
proof -
  let ?ih = "info_hash_hex a"
  let ?r = "(new_record ?ih)\<lparr>tr_name := ap_name a, tr_save_path := ap_save_path a, tr_awaiting_analysis := aw,
     tr_is_magnet_awaiting_metadata := (ap_ti a = None)\<rparr>"
  have s1: "session_ok (set_record ?ih ?r s)"
    by (rule session_ok_set_record [OF assms]) (simp add: new_record_def record_ok_def)
  show ?thesis
  proof (cases added)
    case None
    then show ?thesis using s1 by (simp add: add_def Let_def)
  next
    case (Some h)
    have "session_ok ((set_record ?ih ?r s)\<lparr>ss_handles := dset ?ih h (ss_handles s)\<rparr>)"
      using session_okD [OF s1] by (intro session_okI) (auto simp: set_record_def)
    then show ?thesis
      by (rule session_ok_frame)
        (auto simp: add_def Let_def Some torrents_def emit_def cmd_def set_record_def split: prod.split)
  qed
qed

lemma session_ok_added:
  assumes "session_ok s"
  shows "session_ok (fst (add_torrent_from_file w added blank ti sp excl s))" "session_ok (fst (add_torrent_from_magnet w added parsed sp s))"
proof -
  show "session_ok (fst (add_torrent_from_magnet w added parsed sp s))"
    by (simp add: add_torrent_from_magnet_def session_ok_add [OF assms])
  have "session_ok (emit g x)" if "session_ok x" for g x by (rule session_ok_frame [OF that]) (simp add: frame)
  then show "session_ok (fst (add_torrent_from_file w added blank ti sp excl s))"
    using session_ok_add [OF assms] by (simp add: add_torrent_from_file_def andthen_def Let_def)
qed

lemma session_ok_start:
  assumes "session_ok s"
  shows "session_ok (fst (start_after_analysis w ih s))"
proof (cases "dget (ss_handles s) ih = None \<or> dget (ss_records s) ih = None")
  case True
  then show ?thesis using assms by (auto simp: start_after_analysis_def split: option.split)
next
  case False
  then obtain h r where hr: "dget (ss_handles s) ih = Some h" "dget (ss_records s) ih = Some r" by (meson not_Some_eq)
  have "session_ok (set_record ih (r\<lparr>tr_awaiting_analysis := False\<rparr>) s)"
    by (rule session_ok_set_record [OF assms]) (use session_ok_records [OF assms hr(2)] in \<open>simp add: record_ok_def\<close>)
  then have started: "session_ok (fst (andthen (hcall w h (SetAutoManaged h) (set_record ih (r\<lparr>tr_awaiting_analysis := False\<rparr>) s))
      (hcall w h (HResume h))))"
    by (rule session_ok_frame) (simp add: torrents.andthen frame)
  have blocked: "session_ok (emit (DownloadBlockedByTheme ih) s)"
    by (rule session_ok_frame [OF assms]) (simp add: frame)
  show ?thesis unfolding start_after_analysis_def hr by (simp add: started blocked)
qed

lemma session_ok_progress:
  assumes "session_ok s"
  shows "session_ok (snd (get_file_downloaded w ih s))" "session_ok (snd (get_file_progress w ih s))"
proof -
  have "session_ok (s\<lparr>ss_files_cache := dset ih es (ss_files_cache s)\<rparr>)" if "dget (ss_handles s) ih = Some h" for es h
    using session_okD [OF assms] dget_in_set [OF that] by (intro session_okI) (auto simp: image_iff intro: rev_bexI)
  then show d: "session_ok (snd (get_file_downloaded w ih s))"
    using assms by (auto simp: get_file_downloaded_def Let_def split: option.split)
  show "session_ok (snd (get_file_progress w ih s))"
    using d by (auto simp: get_file_progress_def Let_def split: prod.split)
qed

lemma session_ok_autosave:
  assumes "session_ok s"
  shows "session_ok (save_all_resume_data s)" "session_ok (drain_resume_save_queue w s)"
proof -
  show "session_ok (save_all_resume_data s)"
    using session_okD [OF assms] by (intro session_okI) (auto simp: save_all_resume_data_def)
  show "session_ok (drain_resume_save_queue w s)"
    using session_okD [OF assms] by (intro session_okI) (auto simp: drain_tick)
qed

section \<open>The alerts\<close>

lemma session_ok_state_update_one:
  assumes "session_ok (fst acc)"
  shows "session_ok (fst (state_update_one w st acc))"
proof -
  obtain s us where acc: "acc = (s, us)" by (cases acc)
  let ?ih = "info_hash_hex_of (sx_info_hashes st)"
  show ?thesis
  proof (cases "dget (ss_records s) ?ih")
    case None
    then show ?thesis using assms by (simp add: state_update_one_def Let_def acc)
  next
    case (Some rc)
    define s1 where "s1 = s\<lparr>ss_speed := dset ?ih (last_n SPEED_HISTORY_MAX
        (opt_or (dget (ss_speed s) ?ih) [] @ [(tr_download_rate (status_to_record st rc), tr_upload_rate (status_to_record st rc))])) (ss_speed s)\<rparr>"
    have s1: "ss_speed s1 = dset ?ih (last_n SPEED_HISTORY_MAX
        (opt_or (dget (ss_speed s) ?ih) [] @ [(tr_download_rate (status_to_record st rc), tr_upload_rate (status_to_record st rc))])) (ss_speed s)"
      "ss_records s1 = ss_records s" "ss_handles s1 = ss_handles s" "ss_files_cache s1 = ss_files_cache s" "ss_queue s1 = ss_queue s"
      "ss_pending_restore s1 = ss_pending_restore s" "ss_pending_confirm s1 = ss_pending_confirm s"
      by (simp_all add: s1_def)
    have ok1: "session_ok s1"
    proof (rule session_okI)
      note d = session_okD [OF assms [unfolded acc fst_conv]]
      show "\<forall>x\<in>set (ss_speed s1). length (snd x) \<le> SPEED_HISTORY_MAX"
        unfolding s1 by (rule ball_dset [OF d(9)]) simp
    qed (use session_okD [OF assms [unfolded acc fst_conv]] in \<open>simp_all only: s1 dict_ok_dset\<close>)
    have ih: "record_ok ?ih (status_to_record st rc)"
      using session_ok_records [OF assms [unfolded acc fst_conv] Some] by (simp add: status_to_record_def record_ok_def)
    have "session_ok (s1\<lparr>ss_private_checked := p\<rparr>)" for p
      by (rule session_ok_frame [OF ok1]) (simp add: torrents_def)
    then have r: "session_ok (set_record ?ih r' (s1\<lparr>ss_private_checked := p\<rparr>))" "session_ok (set_record ?ih r' s1)"
      if "record_ok ?ih r'" for r' p using that ok1 by (auto intro: session_ok_set_record)
    have e: "session_ok (emit g (set_record ?ih r' (s1\<lparr>ss_private_checked := p\<rparr>)))" "session_ok (emit g (set_record ?ih r' s1))"
      if "record_ok ?ih r'" for g r' p
      by (rule session_ok_frame [OF r(1) [OF that]], simp add: frame, rule session_ok_frame [OF r(2) [OF that]], simp add: frame)
    show ?thesis unfolding state_update_one_def acc prod.case Let_def Some option.case s1_def [symmetric]
      using ih by (auto simp: e record_ok_def split: option.split prod.split)
  qed
qed

lemma session_ok_state_update:
  assumes "session_ok s"
  shows "session_ok (on_state_update w sts s)"
proof -
  have "session_ok (fst (foldl (\<lambda>acc st. state_update_one w st acc) acc sts))" if "session_ok (fst acc)" for acc
    using that by (induction sts arbitrary: acc) (simp_all add: session_ok_state_update_one)
  from this [of "(s, [])"] have f: "session_ok (fst (foldl (\<lambda>acc st. state_update_one w st acc) (s, []) sts))"
    using assms by simp
  show ?thesis unfolding on_state_update_def
    by (cases "foldl (\<lambda>acc st. state_update_one w st acc) (s, []) sts")
      (use f in \<open>simp add: session_ok_torrents [OF torrents.emit]\<close>)
qed

lemma session_ok_emit: "session_ok (emit g s) = session_ok s"
  by (rule session_ok_torrents) (rule torrents.emit)

lemma session_ok_simple_alerts:
  assumes "session_ok s"
  shows "session_ok (on_metadata_received ih s)" "session_ok (on_storage_moved ih p s)" "session_ok (on_file_error w ih m s)"
    "session_ok (save_resume_params ih params s)"
proof -
  show "session_ok (on_metadata_received ih s)" "session_ok (on_storage_moved ih p s)"
    unfolding on_metadata_received_def on_storage_moved_def session_ok_emit
    by (rule session_ok_on_record [OF assms], simp add: record_ok_def)+
  show "session_ok (on_file_error w ih m s)"
    by (rule session_ok_frame [OF assms]) (simp add: on_file_error_def frame)
  show "session_ok (save_resume_params ih params s)"
    by (rule session_ok_frame [OF assms]) (simp add: save_resume_params_def torrents_def)
qed

lemma session_ok_finished:
  assumes "session_ok s"
  shows "session_ok (on_torrent_finished w ih s)"
proof (cases "ih \<in> ss_pending_confirm s")
  case True
  have "session_ok (s\<lparr>ss_pending_confirm := ss_pending_confirm s - {ih}\<rparr>)"
  proof (rule session_okI)
    show "fst ` set (ss_handles (s\<lparr>ss_pending_confirm := ss_pending_confirm s - {ih}\<rparr>))
        \<union> ss_pending_restore (s\<lparr>ss_pending_confirm := ss_pending_confirm s - {ih}\<rparr>)
        \<union> ss_pending_confirm (s\<lparr>ss_pending_confirm := ss_pending_confirm s - {ih}\<rparr>)
        \<subseteq> fst ` set (ss_records (s\<lparr>ss_pending_confirm := ss_pending_confirm s - {ih}\<rparr>))"
      using session_okD(8) [OF assms] by (simp, blast)
  qed (simp_all, insert session_okD [OF assms], blast+)
  then show ?thesis by (simp add: on_torrent_finished_def True)
next
  case False
  show ?thesis
  proof (cases "dget (ss_records s) ih")
    case None
    then show ?thesis using assms False by (simp add: on_torrent_finished_def session_ok_emit)
  next
    case (Some r)
    define r' where "r' = (if tr_completed_at r = None then r\<lparr>tr_completed_at := Some (w_now w)\<rparr> else r)"
    have "session_ok (set_record ih r' s)"
      by (rule session_ok_set_record [OF assms]) (use session_ok_records [OF assms Some] in \<open>simp add: r'_def record_ok_def\<close>)
    moreover have "session_ok (write_provenance_manifest w r' (set_record ih r' s)) = session_ok (set_record ih r' s)"
      by (rule session_ok_torrents) (rule torrents.manifest)
    ultimately show ?thesis
      unfolding on_torrent_finished_def Some option.case Let_def r'_def [symmetric] if_not_P [OF False] session_ok_emit by simp
  qed
qed

lemma session_ok_removed:
  assumes "session_ok s" and "ih \<notin> ss_pending_restore s"
  shows "session_ok (on_torrent_removed ih s)"
proof -
  note d = session_okD [OF assms(1)]
  define s' where "s' = on_torrent_removed ih s"
  have s': "ss_records s' = dpop ih (ss_records s)" "ss_handles s' = dpop ih (ss_handles s)" "ss_speed s' = dpop ih (ss_speed s)"
    "ss_files_cache s' = dpop ih (ss_files_cache s)" "ss_queue s' = ss_queue s" "ss_pending_restore s' = ss_pending_restore s"
    "ss_pending_confirm s' = ss_pending_confirm s - {ih}"
    by (simp_all add: s'_def on_torrent_removed_def delete_resume_file_def)
  have "session_ok s'"
  proof (rule session_okI)
    show "fst ` set (ss_files_cache s') \<subseteq> fst ` set (ss_handles s')" using d(7) unfolding s' fst_dpop by blast
    show "fst ` set (ss_handles s') \<union> ss_pending_restore s' \<union> ss_pending_confirm s' \<subseteq> fst ` set (ss_records s')"
      using d(8) assms(2) unfolding s' fst_dpop by blast
    show "\<forall>x\<in>set (ss_records s'). record_ok (fst x) (snd x)" unfolding s' by (rule ball_dpop [OF d(6)])
    show "\<forall>x\<in>set (ss_speed s'). length (snd x) \<le> SPEED_HISTORY_MAX" unfolding s' by (rule ball_dpop [OF d(9)])
  qed (use d in \<open>simp_all only: s' dict_ok_dpop\<close>)
  then show ?thesis by (simp only: s'_def)
qed

lemma session_ok_torrent_added:
  assumes "session_ok s"
  shows "session_ok (on_torrent_added ih h e s)"
proof -
  note d = session_okD [OF assms]
  define s1 where "s1 = s\<lparr>ss_pending_restore := ss_pending_restore s - {ih}, ss_handles := dset ih h (ss_handles s)\<rparr>"
  define s2 where "s2 = s\<lparr>ss_pending_restore := ss_pending_restore s - {ih}, ss_pending_confirm := ss_pending_confirm s - {ih}\<rparr>"
  define s3 where "s3 = s2\<lparr>ss_records := dpop ih (ss_records s)\<rparr>"
  have s1: "ss_records s1 = ss_records s" "ss_handles s1 = dset ih h (ss_handles s)" "ss_speed s1 = ss_speed s"
    "ss_files_cache s1 = ss_files_cache s" "ss_queue s1 = ss_queue s" "ss_pending_restore s1 = ss_pending_restore s - {ih}"
    "ss_pending_confirm s1 = ss_pending_confirm s" by (simp_all add: s1_def)
  have s2: "ss_records s2 = ss_records s" "ss_handles s2 = ss_handles s" "ss_speed s2 = ss_speed s"
    "ss_files_cache s2 = ss_files_cache s" "ss_queue s2 = ss_queue s" "ss_pending_restore s2 = ss_pending_restore s - {ih}"
    "ss_pending_confirm s2 = ss_pending_confirm s - {ih}" by (simp_all add: s2_def)
  have s3: "ss_records s3 = dpop ih (ss_records s)" "ss_handles s3 = ss_handles s" "ss_speed s3 = ss_speed s"
    "ss_files_cache s3 = ss_files_cache s" "ss_queue s3 = ss_queue s" "ss_pending_restore s3 = ss_pending_restore s - {ih}"
    "ss_pending_confirm s3 = ss_pending_confirm s - {ih}" by (simp_all add: s3_def s2)
  have ok1: "session_ok s1" if p: "ih \<in> ss_pending_restore s"
  proof (rule session_okI)
    show "fst ` set (ss_files_cache s1) \<subseteq> fst ` set (ss_handles s1)" using d(7) unfolding s1 fst_dset by blast
    show "fst ` set (ss_handles s1) \<union> ss_pending_restore s1 \<union> ss_pending_confirm s1 \<subseteq> fst ` set (ss_records s1)"
      using d(8) p unfolding s1 fst_dset by blast
  qed (use d in \<open>simp_all only: s1 dict_ok_dset\<close>)
  have ok2: "session_ok s2"
  proof (rule session_okI)
    show "fst ` set (ss_handles s2) \<union> ss_pending_restore s2 \<union> ss_pending_confirm s2 \<subseteq> fst ` set (ss_records s2)"
      using d(8) unfolding s2 by blast
  qed (use d in \<open>simp_all only: s2\<close>)
  have ok3: "session_ok s3" if "\<not> dhas (ss_handles s) ih"
  proof (rule session_okI)
    have "ih \<notin> fst ` set (ss_handles s)" using that dhas_iff_key [of "ss_handles s" ih] by simp
    then show "fst ` set (ss_handles s3) \<union> ss_pending_restore s3 \<union> ss_pending_confirm s3 \<subseteq> fst ` set (ss_records s3)"
      using d(8) unfolding s3 fst_dpop by blast
    show "\<forall>x\<in>set (ss_records s3). record_ok (fst x) (snd x)" unfolding s3 by (rule ball_dpop [OF d(6)])
  qed (use d in \<open>simp_all only: s3 dict_ok_dpop\<close>)
  have e: "on_torrent_added ih h e s =
      (if ih \<notin> ss_pending_restore s then s else if e = [] then s1 else if dhas (ss_handles s) ih then s2
       else emit (TorrentRestoreFailed ih) s3)"
    by (simp add: on_torrent_added_def s1_def s2_def s3_def Let_def)
  show ?thesis unfolding e using assms ok1 ok2 ok3 by (simp add: session_ok_emit)
qed

section \<open>A batch of alerts\<close>

text \<open>What libtorrent promises of the order of its alerts: no torrent is reported removed while its
  addition is still to be reported.\<close>

fun alerts_ordered :: "world \<Rightarrow> alert list \<Rightarrow> session \<Rightarrow> bool" where
  "alerts_ordered w [] s = True"
| "alerts_ordered w (a # as) s =
     ((case a of TorrentRemovedAlert hashes \<Rightarrow> info_hash_hex_of hashes \<notin> ss_pending_restore s | _ \<Rightarrow> True)
      \<and> alerts_ordered w as (fst (dispatch w a s)))"

lemma session_ok_dispatch:
  assumes "session_ok s" and "alerts_ordered w [a] s"
  shows "session_ok (fst (dispatch w a s))"
  using assms
  by (cases a)
    (simp_all add: with_hash_def session_ok_emit session_ok_state_update session_ok_simple_alerts session_ok_finished
      session_ok_removed session_ok_torrent_added split: option.split)

lemma session_ok_dispatch_all:
  assumes "session_ok s" and "alerts_ordered w as s"
  shows "session_ok (dispatch_all w as s)"
  using assms
proof (induction as arbitrary: s)
  case Nil
  then show ?case by (simp add: dispatch_all_def)
next
  case (Cons a as)
  have "session_ok (fst (dispatch w a s))" using Cons.prems by (intro session_ok_dispatch) simp_all
  then show ?case unfolding dispatch_all_Cons using Cons.prems(2) by (intro Cons.IH) simp_all
qed

lemma session_ok_dispatch_alerts:
  "session_ok s \<Longrightarrow> alerts_ordered w as s \<Longrightarrow> session_ok (dispatch_alerts w as s)"
  by (simp add: dispatch_alerts_def session_ok_dispatch_all)

lemma session_ok_tick:
  assumes "session_ok s" and "alerts_ordered w as (cmd PostTorrentUpdates s)"
  shows "session_ok (on_tick w as s)"
proof -
  have "session_ok (cmd PostTorrentUpdates s)" by (rule session_ok_frame [OF assms(1)]) (rule torrents.cmd)
  then have "session_ok (dispatch_alerts w as (cmd PostTorrentUpdates s))" using assms(2) by (rule session_ok_dispatch_alerts)
  then have "session_ok (fst (apply_deadline_priorities w (dispatch_alerts w as (cmd PostTorrentUpdates s))))"
    by (rule session_ok_frame) (rule torrents.deadlines)
  then show ?thesis by (auto simp: on_tick_def session_ok_autosave split: prod.split)
qed

section \<open>Start and end\<close>

lemma session_ok_restore_one:
  assumes "session_ok s"
  shows "session_ok (restore_one async_ok a s)"
proof (cases "async_ok a")
  case True
  let ?ih = "info_hash_hex a"
  define r where "r = (new_record ?ih)\<lparr>tr_name := ap_name a, tr_save_path := ap_save_path a,
     tr_all_time_downloaded := ap_total_downloaded a, tr_all_time_uploaded := ap_total_uploaded a,
     tr_category := get_category (ss_categories s) ?ih\<rparr>"
  define confirm where "confirm = (if resume_data_is_complete a then insert ?ih (ss_pending_confirm s) else ss_pending_confirm s)"
  define s3 where "s3 = (set_record ?ih r s)\<lparr>ss_pending_restore := insert ?ih (ss_pending_restore s), ss_pending_confirm := confirm\<rparr>"
  have ok: "session_ok (set_record ?ih r s)"
    by (rule session_ok_set_record [OF assms]) (simp add: r_def new_record_def record_ok_def)
  note d = session_okD [OF ok, unfolded set_record_simps set_record_keeps]
  have s3: "ss_records s3 = dset ?ih r (ss_records s)" "ss_handles s3 = ss_handles s" "ss_speed s3 = ss_speed s"
    "ss_files_cache s3 = ss_files_cache s" "ss_queue s3 = ss_queue s" "ss_pending_restore s3 = insert ?ih (ss_pending_restore s)"
    "ss_pending_confirm s3 = confirm"
    by (simp_all add: s3_def set_record_def)
  have "session_ok s3"
  proof (rule session_okI)
    show "fst ` set (ss_handles s3) \<union> ss_pending_restore s3 \<union> ss_pending_confirm s3 \<subseteq> fst ` set (ss_records s3)"
      using d(8) unfolding s3 fst_dset confirm_def by auto
  qed (use d in \<open>simp_all only: s3\<close>)
  then show ?thesis
    by (rule session_ok_frame)
      (simp add: restore_one_def True Let_def torrents_def emit_def cmd_def set_record_def s3_def r_def confirm_def)
next
  case False
  then show ?thesis using assms by (simp add: restore_one_def)
qed

lemma session_ok_init:
  assumes "ss_records s = []" "ss_handles s = []" "ss_speed s = []" "ss_files_cache s = []" "ss_queue s = []"
    "ss_pending_restore s = {}" "ss_pending_confirm s = {}"
  shows "session_ok (session_init c v async_ok files s)"
proof -
  have "session_ok s" by (rule session_okI) (simp_all add: assms)
  then have "session_ok (cmd c' s)" "session_ok (cmd c' (load_ip_blocklist s))" for c'
    by (rule session_ok_frame, simp add: frame)+
  moreover have "session_ok (foldl (\<lambda>s a. restore_one async_ok a s) s' as)" if "session_ok s'" for s' as
    using that by (induction as arbitrary: s') (simp_all add: session_ok_restore_one)
  ultimately show ?thesis by (simp add: session_init_def restore_previous_session_def Let_def)
qed

section \<open>The reachable sessions\<close>

text \<open>One thing that happens to the session: a timer, a slot or a call of a page or a service, with
  whatever the world answers.\<close>

inductive session_step :: "session \<Rightarrow> session \<Rightarrow> bool" where
  tick: "alerts_ordered w as (cmd PostTorrentUpdates s) \<Longrightarrow> session_step s (on_tick w as s)"
| restore_poll: "alerts_ordered w as s \<Longrightarrow> session_step s (fst (bind_restored_handles w as s))"
| autosave: "session_step s (save_all_resume_data s)"
| blocklist: "session_step s (on_ip_blocklist_loaded ip_filter s)"
| add_file: "session_step s (fst (add_torrent_from_file w added blank ti sp excl s))"
| add_magnet: "session_step s (fst (add_torrent_from_magnet w added parsed sp s))"
| remove: "session_step s (fst (remove_torrent w ih delete_files s))"
| category: "session_step s (set_torrent_category ih category s)"
| matched_rule: "session_step s (set_matched_rule_name ih n s)"
| pin: "session_step s (pin_torrent ih s)"
| unpin: "session_step s (unpin_torrent ih s)"
| deadline: "session_step s (set_deadline ih t s)"
| lock: "session_step s (lock_torrent w ih s)"
| unlock: "session_step s (unlock_torrent w ih s)"
| exclude: "session_step s (fst (exclude_files w ih excluded s))"
| priorities: "session_step s (fst (set_file_priorities w ih excluded s))"
| start: "session_step s (fst (start_after_analysis w ih s))"
| pause: "session_step s (pause_torrent w ih s)"
| resume: "session_step s (resume_torrent w ih s)"
| theme: "session_step s (enforce_theme_download_policy w s)"
| sequential: "session_step s (fst (set_sequential_download w ih enabled s))"
| queue_up: "session_step s (fst (move_queue_up w ih s))"
| queue_down: "session_step s (fst (move_queue_down w ih s))"
| tracker_add: "session_step s (fst (add_tracker w ih url tier s))"
| tracker_remove: "session_step s (fst (remove_tracker w ih url s))"
| recheck: "session_step s (fst (recheck_torrent w ih s))"
| storage: "session_step s (fst (move_storage w ih p s))"
| downloaded: "session_step s (snd (get_file_downloaded w ih s))"
| file_progress: "session_step s (snd (get_file_progress w ih s))"
| peers: "session_step s (snd (get_peer_info show_int w ih s))"
| peer_stores: "session_step s (flush_peer_stores w s)"
| discovery: "session_step s (set_restrict_discovery enabled s)"
| proxy: "session_step s (set_proxy c cfg s)"
| encryption: "session_step s (set_encryption_mode c mode s)"
| interface: "session_step s (set_network_interface n s)"
| rates: "session_step s (set_rate_limits dl ul s)"
| max_active: "session_step s (set_max_active_downloads k s)"
| settings_edited: "session_step s (s\<lparr>ss_settings := cfg\<rparr>)"
| shut_start: "session_step s (fst (shutdown_start w s))"
| shut_pass: "session_step s (fst (fst (shutdown_alerts w alerts (s, pending))))"

inductive reachable_session :: "session \<Rightarrow> bool" where
  started: "reachable_session (session_init c version async_ok files (session_fields cfg cats rep lan resume_dir))"
| step: "reachable_session s \<Longrightarrow> session_step s s' \<Longrightarrow> reachable_session s'"

inductive_simps reachable_iff: "reachable_session s"

lemma session_ok_step:
  assumes "session_step s s'" and "session_ok s"
  shows "session_ok s'"
  using assms
proof (induction rule: session_step.induct)
  case (restore_poll w as s)
  then show ?case by (simp add: bind_restored_handles_def Let_def session_ok_dispatch_alerts)
next
  case (settings_edited s cfg)
  show ?case by (rule session_ok_frame [OF settings_edited]) (simp add: torrents_def)
qed (auto intro: session_ok_tick session_ok_autosave session_ok_added session_ok_flags session_ok_start session_ok_progress
      session_ok_frame simp: frame)

lemma session_ok_reachable: "reachable_session s \<Longrightarrow> session_ok s"
proof (induction rule: reachable_session.induct)
  case (started c version async_ok files cfg cats rep lan resume_dir)
  show ?case by (rule session_ok_init) (simp_all add: session_fields_def)
next
  case (step s s')
  then show ?case by (blast intro: session_ok_step)
qed

text \<open>A shutdown is such steps too, as long as the slots that run during its wait are.\<close>

lemma shutdown_alerts_step: "shutdown_alerts w alerts (s, pending) = (acc, ok) \<Longrightarrow> session_step s (fst acc)"
  using session_step.shut_pass [of s w alerts pending] by simp

lemma shutdown_wait_steps:
  assumes "\<forall>f\<in>round_slots rounds. \<forall>x. session_step\<^sup>*\<^sup>* x (f x)"
  shows "session_step\<^sup>*\<^sup>* (fst acc) (fst (shutdown_wait w t rounds acc))"
  using assms
proof (induction rounds arbitrary: acc)
  case (Cons r rounds)
  obtain u slots alerts s pending where x: "r = (u, slots, alerts)" "acc = (s, pending)" by (metis prod.exhaust)
  obtain acc' ok where a: "shutdown_alerts w alerts (slots s, pending) = (acc', ok)" by (metis prod.exhaust)
  have "session_step\<^sup>*\<^sup>* s (slots s)" using Cons.prems by (simp add: x round_slots_def)
  then have pass: "session_step\<^sup>*\<^sup>* s (fst acc')" using shutdown_alerts_step [OF a] by (rule rtranclp.rtrancl_into_rtrancl)
  moreover have "session_step\<^sup>*\<^sup>* (fst acc') (fst (shutdown_wait w t rounds acc'))"
    using Cons.prems by (intro Cons.IH) (simp add: round_slots_def)
  ultimately show ?case using rtranclp_trans [OF pass] by (simp add: x a)
qed simp

lemma shutdown_steps:
  assumes "\<forall>f\<in>round_slots rounds. \<forall>x. session_step\<^sup>*\<^sup>* x (f x)"
  shows "session_step\<^sup>*\<^sup>* s (fst (shutdown w timeout_ms rounds s))"
  using converse_rtranclp_into_rtranclp [OF session_step.shut_start shutdown_wait_steps [OF assms, of "shutdown_start w s"]]
  by (simp add: shutdown_def)

section \<open>Properties\<close>

text \<open>C30: provided that libtorrent never reports the removal of a torrent whose addition it has still to
  report (\<open>alerts_ordered\<close>), in every state the session manager can reach each torrent has at most one
  record, handle, speed history and cached file list; the record says whose it is; a torrent with a
  cached file list has a handle; one with a handle, or still being restored or awaiting the
  confirmation of its completion, has a record; no torrent is queued twice for saving; no speed
  history is longer than 200 samples.\<close>

theorem reachable_session_ok:
  assumes "reachable_session s"
  shows "distinct (map tr_info_hash (all_records s)) \<and> map tr_info_hash (all_records s) = dkeys (ss_records s)
       \<and> dict_ok (ss_handles s) \<and> dict_ok (ss_speed s) \<and> dict_ok (ss_files_cache s) \<and> distinct (ss_queue s)
       \<and> (dhas (ss_files_cache s) ih \<longrightarrow> dhas (ss_handles s) ih)
       \<and> (dhas (ss_handles s) ih \<or> ih \<in> ss_pending_restore s \<or> ih \<in> ss_pending_confirm s
            \<longrightarrow> (\<exists>r. get_record s ih = Some r \<and> tr_info_hash r = ih))
       \<and> length (get_speed_history s ih) \<le> 200"
proof -
  have ok: "session_ok s" by (rule session_ok_reachable [OF assms])
  note d = session_okD [OF ok]
  have keys: "map tr_info_hash (all_records s) = dkeys (ss_records s)" using d(6) by (simp add: all_records_def record_ok_def)
  moreover have "\<exists>r. get_record s ih = Some r \<and> tr_info_hash r = ih"
    if "dhas (ss_handles s) ih \<or> ih \<in> ss_pending_restore s \<or> ih \<in> ss_pending_confirm s"
  proof -
    have "ih \<in> fst ` set (ss_records s)" using that d(8) dhas_iff_key [of "ss_handles s" ih] by auto
    then have "dhas (ss_records s) ih" using dhas_iff_key [of "ss_records s" ih] by simp
    then obtain r where "dget (ss_records s) ih = Some r" by blast
    then show ?thesis using session_ok_records [OF ok] by (simp add: get_record_def record_ok_def)
  qed
  moreover have "dhas (ss_handles s) ih" if "dhas (ss_files_cache s) ih"
    using that d(7) dhas_iff_key [of "ss_files_cache s" ih] dhas_iff_key [of "ss_handles s" ih] by auto
  moreover have "length (get_speed_history s ih) \<le> 200"
    using d(9) dget_in_set [of "ss_speed s" ih]
    by (cases "dget (ss_speed s) ih") (auto simp: get_speed_history_def SPEED_HISTORY_MAX_def)
  ultimately show ?thesis using d(1-5) by simp
qed

definition resumed_params :: atp where
  "resumed_params = \<lparr>ap_ti = None, ap_info_hashes = \<lparr>hs_v1 = Some ''A'', hs_v2 = []\<rparr>, ap_name = ''film'', ap_save_path = ''D'',
     ap_file_priorities = [], ap_duplicate_is_error = True, ap_disable_dht = False, ap_disable_pex = False,
     ap_disable_lsd = False, ap_paused = False, ap_auto_managed = True, ap_have_pieces = [], ap_piece_priorities = [],
     ap_total_downloaded = 5, ap_total_uploaded = 7\<rparr>"

definition any_consts :: lt_consts where
  "any_consts = \<lparr>lc_proxy_none = 0, lc_proxy_socks5 = 2, lc_proxy_socks5_pw = 3, lc_proxy_http = 4, lc_proxy_http_pw = 5,
     lc_enc_forced = 0, lc_enc_enabled = 1, lc_enc_disabled = 2, lc_level_rc4 = 2, lc_level_both = 3, lc_alert_mask = 0,
     lc_default_settings = []\<rparr>"

theorem reachable_session_ok_witness:
  "let s = session_init any_consts ''2'' (\<lambda>_. True) [Some resumed_params]
         (session_fields DEFAULT_SETTINGS \<lparr>ct_map = [], ct_file = Missing\<rparr>
            \<lparr>rs_records = [], rs_dirty = False, rs_last_saved_at = 0, rs_file = Missing\<rparr>
            \<lparr>ls_entries = [], ls_last_saved_at = 0, ls_dirty = False, ls_file = Missing\<rparr> []);
       s' = fst (bind_restored_handles small_world [AddTorrentAlert resumed_params 1 0 []] s)
   in dget (ss_handles s') ''A'' = Some 1 \<and> (\<exists>r. get_record s' ''A'' = Some r \<and> tr_info_hash r = ''A'')"
proof -
  define s where "s = session_init any_consts ''2'' (\<lambda>_. True) [Some resumed_params]
         (session_fields DEFAULT_SETTINGS \<lparr>ct_map = [], ct_file = Missing\<rparr>
            \<lparr>rs_records = [], rs_dirty = False, rs_last_saved_at = 0, rs_file = Missing\<rparr>
            \<lparr>ls_entries = [], ls_last_saved_at = 0, ls_dirty = False, ls_file = Missing\<rparr> [])"
  define s' where "s' = fst (bind_restored_handles small_world [AddTorrentAlert resumed_params 1 0 []] s)"
  have "alerts_ordered small_world [AddTorrentAlert resumed_params 1 0 []] s" by simp
  then have "session_step s s'" unfolding s'_def by (rule session_step.restore_poll)
  moreover have "reachable_session s" unfolding s_def by (rule reachable_session.started)
  ultimately have "reachable_session s'" by (blast intro: reachable_session.step)
  moreover have "ss_pending_restore s = {''A''}" "ss_timer_active s" "ss_handles s = []"
    by (simp_all add: s_def session_init_def Let_def DEFAULT_SETTINGS_def session_fields_def restore_previous_session_def
        load_all_resume_params_def List.map_filter_simps restore_one_def resumed_params_def info_hash_hex_def info_hash_hex_of_def cmd_def emit_def set_record_def)
  then have "dget (ss_handles s') ''A'' = Some 1"
    by (simp add: s'_def bind_restored_handles_def Let_def dispatch_alerts_def dispatch_all_def on_torrent_added_def
        resumed_params_def info_hash_hex_def info_hash_hex_of_def)
  ultimately show ?thesis
    using reachable_session_ok [of s' "''A''"] unfolding Let_def s_def [symmetric] s'_def [symmetric] by simp
qed

end
