(* ===== verification/Share_Limits.thy ===== *)
theory Share_Limits
  imports Session_Props
begin

text \<open>
  \<open>engine/share_limits.py\<close>: caps on the time, the upload and the ratio of a shared torrent. The
  service pauses a torrent through the session (\<open>pause_torrent\<close>) when a cap is reached, tracks a
  torrent that starts seeding under the default policy, and saves its table 500 ms after the last
  change. \<open>sh_timer\<close> says whether that save is pending; its timeout and the flush at shutdown are
  operations. The wall clock is \<open>w_now\<close>.
\<close>

record share_limit =
  sl_time :: "int option"
  sl_data :: "int option"
  sl_ratio :: "rat option"
  sl_started_at :: rat
  sl_baseline :: int
  sl_reached :: bool
  sl_reason :: "string option"

record share_service =
  sh_limits :: "(string, share_limit) dict"
  sh_file :: disk_file
  sh_timer :: bool
  sh_sigs :: "(string \<times> string) list"

section \<open>The file\<close>

definition share_limit_json :: "share_limit \<Rightarrow> json" where
  "share_limit_json l = JObj [
     (''time_limit_seconds'', opt_json JInt (sl_time l)),
     (''data_limit_bytes'', opt_json JInt (sl_data l)),
     (''ratio_limit'', opt_json JFloat (sl_ratio l)),
     (''started_at'', JFloat (sl_started_at l)),
     (''uploaded_baseline'', JInt (sl_baseline l)),
     (''reached'', JBool (sl_reached l)),
     (''reached_reason'', opt_json JStr (sl_reason l))]"

definition SHARE_LIMIT_REQUIRED :: "string list" where
  "SHARE_LIMIT_REQUIRED = [''time_limit_seconds'', ''data_limit_bytes'', ''ratio_limit'', ''started_at'', ''uploaded_baseline'']"

text \<open>\<open>ShareLimit(**fields)\<close>\<close>

fun share_limit_of_json :: "json \<Rightarrow> load_error + share_limit" where
  "share_limit_of_json (JObj kvs) =
     (if \<not> kwargs_ok SHARE_LIMIT_REQUIRED (SHARE_LIMIT_REQUIRED @ [''reached'', ''reached_reason'']) kvs then Inl TypeErr
      else sbind (kwarg kvs ''time_limit_seconds'' (as_opt as_int) None) (\<lambda>t.
           sbind (kwarg kvs ''data_limit_bytes'' (as_opt as_int) None) (\<lambda>d.
           sbind (kwarg kvs ''ratio_limit'' (as_opt as_float) None) (\<lambda>q.
           sbind (kwarg kvs ''started_at'' as_float None) (\<lambda>a.
           sbind (kwarg kvs ''uploaded_baseline'' as_int None) (\<lambda>b.
           sbind (kwarg kvs ''reached'' as_bool (Some False)) (\<lambda>r.
           sbind (kwarg kvs ''reached_reason'' (as_opt as_str) (Some None)) (\<lambda>w.
           Inr \<lparr>sl_time = t, sl_data = d, sl_ratio = q, sl_started_at = a, sl_baseline = b,
                sl_reached = r, sl_reason = w\<rparr>))))))))"
| "share_limit_of_json _ = Inl TypeErr"

lemma share_limit_codec: "share_limit_of_json (share_limit_json l) = Inr l"
proof -
  have "as_opt as_int (opt_json JInt v) = Inr v" for v by (rule as_opt_opt_json) simp_all
  moreover have "as_opt as_float (opt_json JFloat v) = Inr v" for v by (rule as_opt_opt_json) simp_all
  moreover have "as_opt as_str (opt_json JStr v) = Inr v" for v by (rule as_opt_opt_json) simp_all
  ultimately show ?thesis
    by (simp add: share_limit_json_def kwargs_ok_def kwarg_def SHARE_LIMIT_REQUIRED_def)
qed

interpretation share_json: json_codec share_limit_json share_limit_of_json
  by unfold_locales (rule share_limit_codec)

text \<open>\<open>_load\<close>. \<open>Raised\<close>: a document that is not an object has no \<open>items()\<close>, and the
  \<open>AttributeError\<close> leaves \<open>__init__\<close>. \<open>Untyped\<close>: a value outside the typed model.\<close>

datatype 'a loaded = Loaded 'a | Raised | Untyped

fun share_load :: "disk_file \<Rightarrow> (string, share_limit) dict loaded" where
  "share_load (Doc (JObj kvs)) =
     (case load_items share_limit_of_json kvs of Some d \<Rightarrow> Loaded d | None \<Rightarrow> Untyped)"
| "share_load (Doc _) = Raised"
| "share_load _ = Loaded []"

definition share_save :: "share_service \<Rightarrow> share_service" where
  "share_save s = s\<lparr>sh_file := Doc (map_json share_limit_json (sh_limits s))\<rparr>"

definition share_init :: "disk_file \<Rightarrow> share_service loaded" where
  "share_init f = (case share_load f of
     Loaded d \<Rightarrow> Loaded \<lparr>sh_limits = d, sh_file = f, sh_timer = False, sh_sigs = []\<rparr>
   | Raised \<Rightarrow> Raised | Untyped \<Rightarrow> Untyped)"

lemma share_load_save: "share_load (sh_file (share_save s)) = Loaded (sh_limits s)"
proof -
  have "load_items share_limit_of_json (map (\<lambda>(k, v). (k, share_limit_json v)) (sh_limits s)) = Some (sh_limits s)"
    by (rule load_items_enc) (rule share_limit_codec)
  then show ?thesis by (simp add: share_save_def map_json_def)
qed

section \<open>Tracking\<close>

definition share_schedule_save :: "share_service \<Rightarrow> share_service" where
  "share_schedule_save s = s\<lparr>sh_timer := True\<rparr>"

definition share_track ::
  "rat \<Rightarrow> session \<Rightarrow> string \<Rightarrow> int option \<Rightarrow> int option \<Rightarrow> rat option \<Rightarrow> share_service \<Rightarrow> share_service" where
  "share_track now sess ih time_limit data_limit ratio_limit s =
     (let baseline = (case get_record sess ih of Some r \<Rightarrow> tr_all_time_uploaded r | None \<Rightarrow> 0)
      in share_schedule_save (s\<lparr>sh_limits := dset ih
           \<lparr>sl_time = time_limit, sl_data = data_limit, sl_ratio = ratio_limit, sl_started_at = now,
            sl_baseline = baseline, sl_reached = False, sl_reason = None\<rparr> (sh_limits s)\<rparr>))"

definition share_untrack :: "string \<Rightarrow> share_service \<Rightarrow> share_service" where
  "share_untrack ih s =
     (if dhas (sh_limits s) ih then share_schedule_save (s\<lparr>sh_limits := dpop ih (sh_limits s)\<rparr>) else s)"

definition share_is_tracked :: "share_service \<Rightarrow> string \<Rightarrow> bool" where
  "share_is_tracked s ih = dhas (sh_limits s) ih"

definition share_limit_for :: "share_service \<Rightarrow> string \<Rightarrow> share_limit option" where
  "share_limit_for s ih = dget (sh_limits s) ih"

definition share_tracked_info_hashes :: "share_service \<Rightarrow> string list" where
  "share_tracked_info_hashes s = dkeys (sh_limits s)"

text \<open>\<open>x or None\<close>\<close>

definition nonzero :: "'a::zero \<Rightarrow> 'a option" where
  "nonzero x = (if x = 0 then None else Some x)"

definition apply_default_policy_if_enabled :: "rat \<Rightarrow> session \<Rightarrow> string \<Rightarrow> share_service \<Rightarrow> share_service" where
  "apply_default_policy_if_enabled now sess ih s =
     (if \<not> cfg_default_share_policy_enabled (ss_settings sess) \<or> share_is_tracked s ih then s
      else share_track now sess ih
             (nonzero (cfg_default_share_time_limit_hours (ss_settings sess) * 3600))
             (nonzero (cfg_default_share_data_limit_mb (ss_settings sess) * 1024 * 1024))
             (nonzero (cfg_default_share_ratio_limit (ss_settings sess))) s)"

definition share_elapsed :: "rat \<Rightarrow> share_limit \<Rightarrow> rat" where
  "share_elapsed now l = fsub now (sl_started_at l)"

definition share_uploaded :: "share_limit \<Rightarrow> torrent_record \<Rightarrow> int" where
  "share_uploaded l r = max 0 (tr_all_time_uploaded r - sl_baseline l)"

definition share_progress :: "rat \<Rightarrow> share_service \<Rightarrow> string \<Rightarrow> torrent_record \<Rightarrow> rat \<times> int" where
  "share_progress now s ih r =
     (case dget (sh_limits s) ih of None \<Rightarrow> (0, 0) | Some l \<Rightarrow> (share_elapsed now l, share_uploaded l r))"

section \<open>Reaching a limit\<close>

definition ratio_denominator :: "torrent_record \<Rightarrow> int" where
  "ratio_denominator r =
     (if tr_all_time_downloaded r \<le> 0 \<and> 1 \<le> tr_progress r \<and> 0 < tr_total_size r then tr_total_size r
      else tr_all_time_downloaded r)"

definition time_hit :: "rat \<Rightarrow> share_limit \<Rightarrow> bool" where
  "time_hit now l = (case sl_time l of None \<Rightarrow> False | Some t \<Rightarrow> of_int t \<le> share_elapsed now l)"

definition data_hit :: "share_limit \<Rightarrow> torrent_record \<Rightarrow> bool" where
  "data_hit l r = (case sl_data l of None \<Rightarrow> False | Some d \<Rightarrow> d \<le> share_uploaded l r)"

definition ratio_hit :: "share_limit \<Rightarrow> torrent_record \<Rightarrow> bool" where
  "ratio_hit l r = (case sl_ratio l of None \<Rightarrow> False
     | Some q \<Rightarrow> 0 < q \<and> 0 < ratio_denominator r \<and> q \<le> int_truediv (tr_all_time_uploaded r) (ratio_denominator r))"

definition limit_reason :: "rat \<Rightarrow> share_limit \<Rightarrow> torrent_record \<Rightarrow> string option" where
  "limit_reason now l r =
     (if time_hit now l then Some ''time''
      else if data_hit l r then Some ''data''
      else if ratio_hit l r then Some ''ratio'' else None)"

definition share_on_status :: "world \<Rightarrow> string \<Rightarrow> torrent_record \<Rightarrow> share_service \<times> session \<Rightarrow> share_service \<times> session" where
  "share_on_status w ih r x =
     (let (s0, sess) = x;
          s = (if tr_state r = SEEDING then apply_default_policy_if_enabled (w_now w) sess ih s0 else s0)
      in case dget (sh_limits s) ih of
           None \<Rightarrow> (s, sess)
         | Some l \<Rightarrow>
             if sl_reached l then (s, sess)
             else case limit_reason (w_now w) l r of
                    None \<Rightarrow> (s, sess)
                  | Some reason \<Rightarrow>
                      (share_schedule_save (s\<lparr>sh_limits := dset ih (l\<lparr>sl_reached := True, sl_reason := Some reason\<rparr>) (sh_limits s),
                                              sh_sigs := sh_sigs s @ [(ih, reason)]\<rparr>),
                       pause_torrent w ih sess))"

definition share_timeout :: "share_service \<Rightarrow> share_service" where
  "share_timeout s = share_save (s\<lparr>sh_timer := False\<rparr>)"

definition flush_pending_save :: "share_service \<Rightarrow> share_service" where
  "flush_pending_save s = (if sh_timer s then share_save (s\<lparr>sh_timer := False\<rparr>) else s)"

section \<open>Properties\<close>

definition share_updates :: "string \<Rightarrow> (world \<times> torrent_record) list \<Rightarrow> share_service \<times> session \<Rightarrow> share_service \<times> session" where
  "share_updates ih us x = foldl (\<lambda>x (w, r). share_on_status w ih r x) x us"

lemma share_updates_simps [simp]:
  "share_updates ih [] x = x"
  "share_updates ih ((w, r) # us) x = share_updates ih us (share_on_status w ih r x)"
  by (simp_all add: share_updates_def)

lemma default_policy_tracked:
  "dget (sh_limits s) ih = Some l \<Longrightarrow> apply_default_policy_if_enabled now sess ih s = s"
  by (simp add: apply_default_policy_if_enabled_def share_is_tracked_def)

lemma on_status_tracked:
  assumes "dget (sh_limits s) ih = Some l"
  shows "share_on_status w ih r (s, sess) =
    (case (if sl_reached l then None else limit_reason (w_now w) l r) of
       None \<Rightarrow> (s, sess)
     | Some reason \<Rightarrow> (s\<lparr>sh_limits := dset ih (l\<lparr>sl_reached := True, sl_reason := Some reason\<rparr>) (sh_limits s),
                        sh_sigs := sh_sigs s @ [(ih, reason)], sh_timer := True\<rparr>, pause_torrent w ih sess))"
  using assms
  by (auto simp: share_on_status_def default_policy_tracked Let_def share_schedule_save_def split: option.split)

lemma updates_reached:
  "dget (sh_limits s) ih = Some l \<Longrightarrow> sl_reached l \<Longrightarrow> share_updates ih us (s, sess) = (s, sess)"
  by (induction us) (auto simp: on_status_tracked)

datatype share_event =
    ShareStatus world string torrent_record
  | ShareTrack rat string "int option" "int option" "rat option"
  | ShareUntrack string
  | ShareTimeout
  | ShareFlush

fun share_step :: "share_event \<Rightarrow> share_service \<times> session \<Rightarrow> share_service \<times> session" where
  "share_step (ShareStatus w ih r) x = share_on_status w ih r x"
| "share_step (ShareTrack now ih t d q) (s, sess) = (share_track now sess ih t d q s, sess)"
| "share_step (ShareUntrack ih) (s, sess) = (share_untrack ih s, sess)"
| "share_step ShareTimeout (s, sess) = (share_timeout s, sess)"
| "share_step ShareFlush (s, sess) = (flush_pending_save s, sess)"

text \<open>No save pending: the file is up to date.\<close>

definition share_synced :: "share_service \<Rightarrow> bool" where
  "share_synced s \<longleftrightarrow> sh_timer s \<or> share_load (sh_file s) = Loaded (sh_limits s)"

lemma synced_schedule [simp]: "share_synced (share_schedule_save s)"
  by (simp add: share_synced_def share_schedule_save_def)

lemma synced_save: "share_synced (share_save s)"
  using share_load_save [of s] by (simp add: share_synced_def share_save_def)

lemma synced_track [simp]: "share_synced (share_track now sess ih t d q s)"
  by (simp add: share_track_def Let_def)

lemma synced_default: "share_synced s \<Longrightarrow> share_synced (apply_default_policy_if_enabled now sess ih s)"
  by (simp add: apply_default_policy_if_enabled_def)

lemma synced_on_status: "share_synced s \<Longrightarrow> share_synced (fst (share_on_status w ih r (s, sess)))"
  by (auto simp: share_on_status_def Let_def synced_default split: option.split)

lemma synced_step: "share_synced (fst x) \<Longrightarrow> share_synced (fst (share_step e x))"
  by (cases x; cases e)
     (auto simp: synced_on_status share_untrack_def share_timeout_def flush_pending_save_def synced_save)

lemma synced_run: "share_synced (fst x) \<Longrightarrow> share_synced (fst (foldl (\<lambda>x e. share_step e x) x events))"
  by (induction events arbitrary: x) (simp_all add: synced_step)

text \<open>C13: of all the updates of a tracked torrent, exactly the first one past a cap announces it,
  with the first cap passed in the order time, data, ratio, and pauses the torrent; the others, and
  every later one, do nothing.\<close>

theorem share_limit_fires_once:
  assumes "dget (sh_limits s) ih = Some l" "\<not> sl_reached l"
  shows "case find (\<lambda>(w, r). limit_reason (w_now w) l r \<noteq> None) us of
      None \<Rightarrow> share_updates ih us (s, sess) = (s, sess)
    | Some (w, r) \<Rightarrow>
        (let (s', sess') = share_updates ih us (s, sess); reason = the (limit_reason (w_now w) l r)
         in sh_sigs s' = sh_sigs s @ [(ih, reason)] \<and> sess' = pause_torrent w ih sess
          \<and> dget (sh_limits s') ih = Some (l\<lparr>sl_reached := True, sl_reason := Some reason\<rparr>)
          \<and> (reason = ''time'' \<longleftrightarrow> time_hit (w_now w) l)
          \<and> (reason = ''data'' \<longleftrightarrow> \<not> time_hit (w_now w) l \<and> data_hit l r)
          \<and> (reason = ''ratio'' \<longleftrightarrow> \<not> time_hit (w_now w) l \<and> \<not> data_hit l r \<and> ratio_hit l r))"
proof (induction us)
  case Nil
  then show ?case by simp
next
  case (Cons u us)
  obtain w r where u: "u = (w, r)" by (cases u)
  show ?case
  proof (cases "limit_reason (w_now w) l r")
    case None
    then have step: "share_updates ih (u # us) (s, sess) = share_updates ih us (s, sess)"
      by (simp add: u on_status_tracked [OF assms(1)])
    have "find (\<lambda>(w, r). limit_reason (w_now w) l r \<noteq> None) (u # us)
        = find (\<lambda>(w, r). limit_reason (w_now w) l r \<noteq> None) us"
      using None by (simp add: u)
    then show ?thesis unfolding step by (simp only: Cons.IH)
  next
    case (Some reason)
    then show ?thesis using assms
      by (auto simp: u on_status_tracked updates_reached limit_reason_def split: if_splits)
  qed
qed

text \<open>Whatever happens between the start and the shutdown, the flush leaves nothing unsaved: the
  next start loads exactly the limits that were in memory.\<close>

theorem share_limits_survive_restart:
  assumes "share_init f = Loaded s"
  shows "let s' = fst (foldl (\<lambda>x e. share_step e x) (s, sess) (events @ [ShareFlush]))
    in map_loaded sh_limits (share_init (sh_file s')) = Loaded (sh_limits s')"
proof -
  let ?x = "foldl (\<lambda>x e. share_step e x) (s, sess) events"
  have "share_synced s" using assms
    by (auto simp: share_init_def share_synced_def split: loaded.splits)
  then have "share_synced (fst ?x)" by (simp add: synced_run)
  moreover obtain s1 sess1 where "?x = (s1, sess1)" by fastforce
  ultimately have "share_load (sh_file (flush_pending_save s1)) = Loaded (sh_limits (flush_pending_save s1))"
    using share_load_save [of "s1\<lparr>sh_timer := False\<rparr>"]
    by (auto simp: share_synced_def flush_pending_save_def share_save_def)
  then show ?thesis by (simp add: \<open>?x = (s1, sess1)\<close> share_init_def Let_def)
qed

text \<open>Concrete inputs: a one-hour cap passed at the second of three updates.\<close>

definition hour_limit :: share_limit where
  "hour_limit = \<lparr>sl_time = Some 3600, sl_data = None, sl_ratio = None, sl_started_at = 0, sl_baseline = 0,
     sl_reached = False, sl_reason = None\<rparr>"

theorem share_limit_fires_once_witness:
  "sh_sigs (fst (share_updates ''A''
     [(small_world, new_record ''A''), (small_world\<lparr>w_now := 3600\<rparr>, new_record ''A''), (small_world\<lparr>w_now := 9000\<rparr>, new_record ''A'')]
     (\<lparr>sh_limits = [(''A'', hour_limit)], sh_file = Missing, sh_timer = False, sh_sigs = []\<rparr>, small_session)))
   = [(''A'', ''time'')]"
  using share_limit_fires_once [of "\<lparr>sh_limits = [(''A'', hour_limit)], sh_file = Missing, sh_timer = False, sh_sigs = []\<rparr>" "''A''" hour_limit
      "[(small_world, new_record ''A''), (small_world\<lparr>w_now := 3600\<rparr>, new_record ''A''), (small_world\<lparr>w_now := 9000\<rparr>, new_record ''A'')]" small_session]
    fl_of_int [of 1000] fl_of_int [of 3600]
  by (auto simp: hour_limit_def limit_reason_def time_hit_def data_hit_def ratio_hit_def share_elapsed_def fsub_def
      small_world_def Let_def split: prod.splits)

theorem share_limits_survive_restart_witness:
  "let s' = fst (foldl (\<lambda>x e. share_step e x)
       (\<lparr>sh_limits = [], sh_file = Missing, sh_timer = False, sh_sigs = []\<rparr>, small_session)
       ([ShareTrack 5 ''A'' (Some 60) None None] @ [ShareFlush]))
   in map_loaded sh_limits (share_init (sh_file s')) = Loaded (sh_limits s') \<and> dhas (sh_limits s') ''A''"
  using share_limits_survive_restart [of Missing "\<lparr>sh_limits = [], sh_file = Missing, sh_timer = False, sh_sigs = []\<rparr>"
      small_session "[ShareTrack 5 ''A'' (Some 60) None None]"]
  by (simp add: share_init_def Let_def share_track_def share_schedule_save_def flush_pending_save_def share_save_def)

end
