(* ===== verification/Rss.thy ===== *)
theory Rss
  imports Routing Session_Props
begin

text \<open>
  \<open>engine/rss_feed_service.py\<close>, \<open>engine/rss_seen_store.py\<close> and the subscriptions of
  \<open>ui/web/bridge_rss.py\<close>: reading a feed document, the filters of a subscription, the store of
  GUIDs already handled, and the service that turns new items into torrents.

  The XML parser is a parameter that yields the element tree; \<open>re.search\<close> on a pattern typed by
  the user is a parameter that yields \<open>None\<close> for \<open>re.error\<close>. The digits of the two fixed patterns
  are the ASCII ones. The service works on the session of \<open>Session\<close>; what it asks of the thread
  pool and the signals it emits are the list \<open>ru_out\<close>.
\<close>

section \<open>The document\<close>

datatype xml = Xml (xm_tag: string) (xm_attrs: "(string \<times> string) list") (xm_text: "string option") (xm_children: "xml list")

record rss_item =
  it_title :: string
  it_link :: string
  it_guid :: string

definition xml_find :: "xml \<Rightarrow> string \<Rightarrow> xml option" where
  "xml_find e tag = find (\<lambda>c. xm_tag c = tag) (xm_children e)"

definition child_text :: "xml \<Rightarrow> string \<Rightarrow> string" where
  "child_text e tag = (case xml_find e tag of None \<Rightarrow> [] | Some el \<Rightarrow>
     (case xm_text el of None \<Rightarrow> [] | Some t \<Rightarrow> py_strip t))"

text \<open>One pass of the loop; \<open>None\<close> is \<open>continue\<close>.\<close>

definition rss_item_of :: "xml \<Rightarrow> rss_item option" where
  "rss_item_of e =
     (let link = (case xml_find e ''enclosure'' of None \<Rightarrow> child_text e ''link''
                  | Some enc \<Rightarrow> (case dget (xm_attrs enc) ''url'' of
                                   Some u \<Rightarrow> if u \<noteq> [] then u else child_text e ''link''
                                 | None \<Rightarrow> child_text e ''link''));
          guid = (if child_text e ''guid'' \<noteq> [] then child_text e ''guid'' else link)
      in if link = [] \<or> guid = [] then None
         else Some \<lparr>it_title = child_text e ''title'', it_link = link, it_guid = guid\<rparr>)"

definition parse_rss_items :: "(string \<Rightarrow> xml option) \<Rightarrow> string \<Rightarrow> rss_item list" where
  "parse_rss_items fromstring xml_bytes =
     (case fromstring xml_bytes of
        None \<Rightarrow> []
      | Some doc \<Rightarrow> List.map_filter rss_item_of
          (concat (map (\<lambda>ch. filter (\<lambda>e. xm_tag e = ''item'') (xm_children ch))
            (filter (\<lambda>c. xm_tag c = ''channel'') (xm_children doc)))))"

section \<open>Filters\<close>

definition matches_keyword :: "string \<Rightarrow> string \<Rightarrow> bool" where
  "matches_keyword title filter_keyword \<longleftrightarrow> filter_keyword = [] \<or> contains (py_lower filter_keyword) (py_lower title)"

text \<open>\<open>(\d{3,4})p\b\<close>: \<open>n\<close> digits, a \<open>p\<close>, and no word character after it.\<close>

definition resolution_at :: "nat \<Rightarrow> string \<Rightarrow> int option" where
  "resolution_at n s =
     (case drop n s of
        [] \<Rightarrow> None
      | c # rest \<Rightarrow> if list_all is_digit (take n s) \<and> ascii_lower c = CHR ''p'' \<and> \<not> word_after rest
                    then Some (dec_value (take n s)) else None)"

fun title_resolution :: "string \<Rightarrow> int option" where
  "title_resolution [] = None"
| "title_resolution (c # cs) =
     (case resolution_at 4 (c # cs) of Some n \<Rightarrow> Some n
      | None \<Rightarrow> (case resolution_at 3 (c # cs) of Some n \<Rightarrow> Some n | None \<Rightarrow> title_resolution cs))"

text \<open>\<open>(\d+)(?!.*\d)\<close>: the last digits of the first line that has any.\<close>

definition title_sequence_number :: "string \<Rightarrow> int" where
  "title_sequence_number title =
     (case find (list_ex is_digit) (split_on CHR 0x0A title) of
        None \<Rightarrow> 0
      | Some line \<Rightarrow> dec_value (rev (takeWhile is_digit (dropWhile (\<lambda>c. \<not> is_digit c) (rev line)))))"

definition matches_advanced_filters :: "(string \<Rightarrow> string \<Rightarrow> bool option) \<Rightarrow> string \<Rightarrow> rss_feed \<Rightarrow> bool option" where
  "matches_advanced_filters re title feed =
     (let resolution_ok = (case title_resolution title of
            None \<Rightarrow> True
          | Some n \<Rightarrow> \<not> (rf_resolution_min feed \<noteq> 0 \<and> n < rf_resolution_min feed)
                    \<and> \<not> (rf_resolution_max feed \<noteq> 0 \<and> n > rf_resolution_max feed));
          after_include = (if rf_regex_exclude feed = [] then Some resolution_ok
                           else case re (rf_regex_exclude feed) title of
                                  None \<Rightarrow> None | Some hit \<Rightarrow> Some (\<not> hit \<and> resolution_ok))
      in if rf_regex_include feed = [] then after_include
         else case re (rf_regex_include feed) title of
                None \<Rightarrow> None | Some hit \<Rightarrow> if hit then after_include else Some False)"

section \<open>The GUIDs already handled\<close>

text \<open>The rows of \<open>seen_items\<close> by GUID, as the connection sees them and as last committed.\<close>

record rss_seen =
  sn_rows :: "(string, string \<times> string \<times> string) dict"
  sn_saved :: "(string, string \<times> string \<times> string) dict"

definition is_seen :: "rss_seen \<Rightarrow> string \<Rightarrow> bool" where
  "is_seen s guid = dhas (sn_rows s) guid"

definition seen_commit :: "rss_seen \<Rightarrow> rss_seen" where
  "seen_commit s = s\<lparr>sn_saved := sn_rows s\<rparr>"

definition mark_seen :: "string \<Rightarrow> string \<Rightarrow> string \<Rightarrow> string \<Rightarrow> bool \<Rightarrow> rss_seen \<Rightarrow> rss_seen" where
  "mark_seen now guid feed_url title commit s =
     (let s' = (if dhas (sn_rows s) guid then s
                else s\<lparr>sn_rows := sn_rows s @ [(guid, feed_url, title, now)]\<rparr>)
      in if commit then seen_commit s' else s')"

text \<open>Closing the connection, or losing the process, drops what was not committed.\<close>

definition seen_reopen :: "rss_seen \<Rightarrow> rss_seen" where
  "seen_reopen s = s\<lparr>sn_rows := sn_saved s\<rparr>"

section \<open>The service\<close>

datatype rss_out =
    FetchFeed string proxy_settings
  | AddMagnet string rss_item string
  | DownloadTorrent string rss_item string proxy_settings
  | UnlinkTemp string
  | ItemsFound string "rss_item list"
  | FeedCheckFailed string string

record rss_service =
  ru_paused :: bool
  ru_pending :: "string set"
  ru_seen :: rss_seen
  ru_rules :: rule_store
  ru_out :: "rss_out list"

text \<open>What the calls outside answer: the user's patterns, libtorrent's magnet parser and
  \<open>add_torrent\<close>, the time as text.\<close>

record rss_env =
  rv_re :: "string \<Rightarrow> string \<Rightarrow> bool option"
  rv_magnet :: "string \<Rightarrow> atp option"
  rv_added :: "atp \<Rightarrow> handle option"
  rv_now :: string
  rv_world :: world

definition rss_emit :: "rss_out \<Rightarrow> rss_service \<Rightarrow> rss_service" where
  "rss_emit x s = s\<lparr>ru_out := ru_out s @ [x]\<rparr>"

definition rss_set_paused :: "bool \<Rightarrow> rss_service \<Rightarrow> rss_service" where
  "rss_set_paused p s = s\<lparr>ru_paused := p\<rparr>"

definition check_now :: "settings \<Rightarrow> rss_service \<Rightarrow> rss_service" where
  "check_now cfg s =
     (if ru_paused s then s
      else s\<lparr>ru_out := ru_out s @ map (\<lambda>f. FetchFeed (rf_url f) (cfg_proxy cfg))
               (filter (\<lambda>f. rf_enabled f \<and> rf_url f \<noteq> []) (cfg_rss_feeds cfg))\<rparr>)"

definition find_feed_config :: "settings \<Rightarrow> string \<Rightarrow> rss_feed option" where
  "find_feed_config cfg feed_url = find (\<lambda>f. rf_url f = feed_url) (cfg_rss_feeds cfg)"

text \<open>The first loop of \<open>_on_feed_fetched\<close>; \<open>None\<close>: \<open>re.error\<close> leaves the slot.\<close>

fun rss_candidates :: "(string \<Rightarrow> string \<Rightarrow> bool option) \<Rightarrow> rss_seen \<Rightarrow> rss_feed \<Rightarrow> rss_item list \<Rightarrow> rss_item list option" where
  "rss_candidates re seen feed [] = Some []"
| "rss_candidates re seen feed (it # items) =
     (if it_guid it = [] \<or> is_seen seen (it_guid it) then rss_candidates re seen feed items
      else if \<not> matches_keyword (it_title it) (rf_filter_keyword feed) then rss_candidates re seen feed items
      else case matches_advanced_filters re (it_title it) feed of
             None \<Rightarrow> None
           | Some False \<Rightarrow> rss_candidates re seen feed items
           | Some True \<Rightarrow> map_option (Cons it) (rss_candidates re seen feed items))"

text \<open>\<open>max(candidates, key=...)\<close>: the index of the first item of greatest number.\<close>

fun best_index :: "rss_item list \<Rightarrow> nat" where
  "best_index [] = 0"
| "best_index [x] = 0"
| "best_index (x # y # ys) =
     (let i = best_index (y # ys)
      in if title_sequence_number (it_title ((y # ys) ! i)) \<le> title_sequence_number (it_title x) then 0 else Suc i)"

definition keep_latest :: "string \<Rightarrow> string \<Rightarrow> rss_feed \<Rightarrow> rss_item list \<Rightarrow> rss_seen \<Rightarrow> rss_item list \<times> rss_seen" where
  "keep_latest now feed_url feed candidates seen =
     (if rf_latest_episode_only feed \<and> 1 < length candidates
      then let b = best_index candidates
           in ([candidates ! b],
               foldl (\<lambda>sn it. mark_seen now (it_guid it) feed_url (it_title it) False sn) seen
                 (take b candidates @ drop (Suc b) candidates))
      else (candidates, seen))"

text \<open>The second loop: one candidate. The third component collects \<open>newly_added\<close>.\<close>

definition handle_item ::
  "rss_env \<Rightarrow> string \<Rightarrow> rss_item \<Rightarrow> rss_service \<times> session \<times> rss_item list \<Rightarrow> rss_service \<times> session \<times> rss_item list" where
  "handle_item v feed_url it x =
     (let (s, sess, newly) = x;
          matched = find_matching_rule (list_rules (ru_rules s)) (it_title it) None;
          save_path = (case matched of Some r \<Rightarrow> rr_destination r | None \<Rightarrow> cfg_default_download_dir (ss_settings sess));
          marked = s\<lparr>ru_seen := mark_seen (rv_now v) (it_guid it) feed_url (it_title it) False (ru_seen s)\<rparr>
      in if prefix ''magnet:'' (it_link it)
         then let s1 = rss_emit (AddMagnet feed_url it save_path) marked
              in case rv_magnet v (it_link it) of
                   None \<Rightarrow> (s1, sess, newly)
                 | Some a \<Rightarrow>
                     (let (sess1, ok) = add_torrent_from_magnet (rv_world v) (rv_added v a) a (Some save_path) sess;
                          ih = info_hash_hex a
                      in if \<not> ok then (s1, sess1, newly)
                         else (s1\<lparr>ru_pending := insert ih (ru_pending s1)\<rparr>,
                               (case matched of Some r \<Rightarrow> set_matched_rule_name ih (Some (rr_name r)) sess1 | None \<Rightarrow> sess1),
                               newly @ [it]))
         else if prefix ''http://'' (it_link it) \<or> prefix ''https://'' (it_link it)
         then (rss_emit (DownloadTorrent feed_url it save_path (cfg_proxy (ss_settings sess))) marked, sess, newly)
         else (s, sess, newly))"

definition on_feed_fetched :: "rss_env \<Rightarrow> string \<Rightarrow> rss_item list \<Rightarrow> rss_service \<times> session \<Rightarrow> (rss_service \<times> session) \<times> bool" where
  "on_feed_fetched v feed_url items x =
     (let (s, sess) = x
      in case find_feed_config (ss_settings sess) feed_url of
           None \<Rightarrow> (x, True)
         | Some feed \<Rightarrow>
             if \<not> rf_enabled feed then (x, True)
             else case rss_candidates (rv_re v) (ru_seen s) feed items of
                    None \<Rightarrow> (x, False)
                  | Some candidates \<Rightarrow>
                      (let (chosen, seen) = keep_latest (rv_now v) feed_url feed candidates (ru_seen s);
                           (s1, sess1, newly) = foldl (\<lambda>x it. handle_item v feed_url it x) (s\<lparr>ru_seen := seen\<rparr>, sess, []) chosen;
                           s2 = s1\<lparr>ru_seen := seen_commit (ru_seen s1)\<rparr>
                       in ((if newly \<noteq> [] then rss_emit (ItemsFound feed_url newly) s2 else s2, sess1), True)))"

definition on_feed_failed :: "string \<Rightarrow> string \<Rightarrow> rss_service \<Rightarrow> rss_service" where
  "on_feed_failed feed_url message s = rss_emit (FeedCheckFailed feed_url message) s"

definition on_torrent_download_failed :: "string \<Rightarrow> rss_item \<Rightarrow> string \<Rightarrow> rss_service \<Rightarrow> rss_service" where
  "on_torrent_download_failed feed_url it message s = rss_emit (FeedCheckFailed feed_url message) s"

text \<open>\<open>ti\<close> is what \<open>lt.torrent_info(temp_path)\<close> gives, \<open>None\<close> when it raises: the scan is then
  skipped, and the add raises and is logged. The temporary file goes away either way.\<close>

definition on_torrent_downloaded ::
  "rss_env \<Rightarrow> atp \<Rightarrow> torrent_info option \<Rightarrow> string \<Rightarrow> rss_item \<Rightarrow> string \<Rightarrow> string \<Rightarrow> rss_service \<times> session \<Rightarrow> rss_service \<times> session" where
  "on_torrent_downloaded v blank ti feed_url it temp_path save_path x =
     (let (s, sess) = x; s1 = rss_emit (UnlinkTemp temp_path) s
      in case ti of
           None \<Rightarrow> (s1, sess)
         | Some ti \<Rightarrow>
             (let excluded = auto_exclude_indices (scan_files (files_from_torrent_info ti) [] None)
                               (cfg_danger_auto_exclude_threshold (ss_settings sess));
                  (sess1, ok) = add_torrent_from_file (rv_world v) (rv_added v blank) blank ti
                                  (if save_path = [] then None else Some save_path) excluded sess
              in if \<not> ok then (s1, sess1)
                 else (rss_emit (ItemsFound feed_url [it]) s1,
                       (case find_matching_rule (list_rules (ru_rules s)) (it_title it) None of
                          Some r \<Rightarrow> set_matched_rule_name (info_hash_hex_of (ti_hashes ti)) (Some (rr_name r)) sess1
                        | None \<Rightarrow> sess1))))"

definition on_rss_metadata_received :: "world \<Rightarrow> string \<Rightarrow> rss_service \<times> session \<Rightarrow> (rss_service \<times> session) \<times> bool" where
  "on_rss_metadata_received w ih x =
     (let (s, sess) = x
      in if ih \<notin> ru_pending s then (x, True)
         else let s1 = s\<lparr>ru_pending := ru_pending s - {ih}\<rparr>;
                  excluded = auto_exclude_indices (scan_files (get_torrent_files w sess ih) [] None)
                               (cfg_danger_auto_exclude_threshold (ss_settings sess));
                  sess1 = (if excluded \<noteq> {} then fst (exclude_files w ih excluded sess) else sess);
                  (sess2, ok) = start_after_analysis w ih sess1
              in ((s1, sess2), ok))"

section \<open>Subscriptions (\<open>bridge_rss.py\<close>)\<close>

text \<open>The flag says whether the settings are saved.\<close>

definition add_feed :: "string option \<Rightarrow> string option \<Rightarrow> settings \<Rightarrow> settings \<times> bool" where
  "add_feed url filter_keyword cfg =
     (let u = py_strip (opt_or url [])
      in if u = [] then (cfg, False)
         else (cfg\<lparr>cfg_rss_feeds := cfg_rss_feeds cfg @
                 [DEFAULT_FEED\<lparr>rf_url := u, rf_filter_keyword := opt_or filter_keyword [], rf_enabled := True\<rparr>]\<rparr>, True))"

fun on_first_feed :: "string \<Rightarrow> (rss_feed \<Rightarrow> rss_feed list) \<Rightarrow> rss_feed list \<Rightarrow> rss_feed list \<times> bool" where
  "on_first_feed url f [] = ([], False)"
| "on_first_feed url f (x # xs) =
     (if rf_url x = url then (f x @ xs, True)
      else let (ys, hit) = on_first_feed url f xs in (x # ys, hit))"

definition change_feed :: "string \<Rightarrow> (rss_feed \<Rightarrow> rss_feed list) \<Rightarrow> settings \<Rightarrow> settings \<times> bool" where
  "change_feed url f cfg =
     (let (feeds, hit) = on_first_feed url f (cfg_rss_feeds cfg) in (cfg\<lparr>cfg_rss_feeds := feeds\<rparr>, hit))"

definition remove_feed :: "string \<Rightarrow> settings \<Rightarrow> settings \<times> bool" where
  "remove_feed url = change_feed url (\<lambda>_. [])"

definition set_feed_enabled :: "string \<Rightarrow> bool \<Rightarrow> settings \<Rightarrow> settings \<times> bool" where
  "set_feed_enabled url enabled = change_feed url (\<lambda>f. [f\<lparr>rf_enabled := enabled\<rparr>])"

definition update_feed_filters :: "string \<Rightarrow> string \<Rightarrow> string \<Rightarrow> int \<Rightarrow> int \<Rightarrow> bool \<Rightarrow> settings \<Rightarrow> settings \<times> bool" where
  "update_feed_filters url inc exc rmin rmax latest =
     change_feed url (\<lambda>f. [f\<lparr>rf_regex_include := py_strip inc, rf_regex_exclude := py_strip exc,
       rf_resolution_min := max 0 rmin, rf_resolution_max := max 0 rmax, rf_latest_episode_only := latest\<rparr>])"

section \<open>Facts\<close>

definition about :: "string \<Rightarrow> rss_out \<Rightarrow> bool" where
  "about g x = (case x of AddMagnet _ it _ \<Rightarrow> it_guid it = g | DownloadTorrent _ it _ _ \<Rightarrow> it_guid it = g | _ \<Rightarrow> False)"

text \<open>How often a torrent was started for a GUID.\<close>

definition started :: "string \<Rightarrow> rss_service \<Rightarrow> nat" where
  "started g s = length (filter (about g) (ru_out s))"

lemma started_emit [simp]: "started g (rss_emit x s) = started g s + (if about g x then 1 else 0)"
  by (simp add: started_def rss_emit_def)

lemma started_seen [simp]: "started g (s\<lparr>ru_seen := x\<rparr>) = started g s" "started g (s\<lparr>ru_pending := p\<rparr>) = started g s"
  by (simp_all add: started_def)

lemma emit_seen [simp]: "ru_seen (rss_emit x s) = ru_seen s"
  by (simp add: rss_emit_def)

lemma is_seen_mark [simp]: "is_seen (mark_seen now g' u t c s) g \<longleftrightarrow> g = g' \<or> is_seen s g"
  by (auto simp: mark_seen_def is_seen_def seen_commit_def map_add_def split: option.splits)

lemma is_seen_commit [simp]: "is_seen (seen_commit s) g = is_seen s g"
  by (simp add: seen_commit_def is_seen_def)

lemma is_seen_foldl_mark:
  "is_seen (foldl (\<lambda>sn it. mark_seen now (it_guid it) u (it_title it) False sn) s its) g
     \<longleftrightarrow> g \<in> it_guid ` set its \<or> is_seen s g"
  by (induction its arbitrary: s) auto

lemma handle_item_effect:
  assumes "handle_item v u it (s, sess, newly) = (s', sess', newly')"
  shows "started g s' \<le> started g s + (if it_guid it = g then 1 else 0)"
    and "is_seen (ru_seen s) g \<Longrightarrow> is_seen (ru_seen s') g"
    and "started g s < started g s' \<Longrightarrow> is_seen (ru_seen s') g"
  using assms by (auto simp: handle_item_def Let_def about_def split: if_splits option.splits prod.splits)

lemma handle_items_effect:
  assumes "foldl (\<lambda>x it. handle_item v u it x) (s, sess, newly) its = (s', sess', newly')"
  shows "started g s' \<le> started g s + length (filter (\<lambda>it. it_guid it = g) its)
    \<and> (is_seen (ru_seen s) g \<longrightarrow> is_seen (ru_seen s') g)
    \<and> (started g s < started g s' \<longrightarrow> is_seen (ru_seen s') g)"
  using assms
proof (induction its arbitrary: s sess newly)
  case Nil
  then show ?case by simp
next
  case (Cons it its)
  obtain s1 sess1 newly1 where h: "handle_item v u it (s, sess, newly) = (s1, sess1, newly1)"
    by (metis prod_cases3)
  have ih: "started g s' \<le> started g s1 + length (filter (\<lambda>it. it_guid it = g) its)"
    "is_seen (ru_seen s1) g \<longrightarrow> is_seen (ru_seen s') g"
    "started g s1 < started g s' \<longrightarrow> is_seen (ru_seen s') g"
    using Cons.IH [of s1 sess1 newly1] Cons.prems h by simp_all
  have "started g s1 \<le> started g s + (if it_guid it = g then 1 else 0)"
    by (rule handle_item_effect(1) [OF h])
  moreover have "started g s < started g s1 \<Longrightarrow> is_seen (ru_seen s1) g"
    by (rule handle_item_effect(3) [OF h])
  ultimately show ?case using ih handle_item_effect(2) [OF h, of g] by fastforce
qed

lemma candidates_subseq:
  "rss_candidates re seen feed items = Some cs \<Longrightarrow>
   subseq cs items \<and> (\<forall>it \<in> set cs. it_guid it \<noteq> [] \<and> \<not> is_seen seen (it_guid it))"
proof (induction items arbitrary: cs)
  case Nil
  then show ?case by simp
next
  case (Cons it items)
  then show ?case
    by (auto split: if_splits option.splits bool.splits)
qed

lemma best_index_less: "xs \<noteq> [] \<Longrightarrow> best_index xs < length xs"
  by (induction xs rule: best_index.induct) (auto simp: Let_def)

lemma keep_latest_chosen:
  "keep_latest now u feed cs seen = (chosen, seen') \<Longrightarrow>
   set chosen \<subseteq> set cs \<and> length (filter (\<lambda>it. it_guid it = g) chosen) \<le> length (filter (\<lambda>it. it_guid it = g) cs)
   \<and> (is_seen seen g \<longrightarrow> is_seen seen' g)"
proof -
  assume a: "keep_latest now u feed cs seen = (chosen, seen')"
  have "\<lbrakk>it \<in> set cs; it_guid it = g\<rbrakk> \<Longrightarrow> Suc 0 \<le> length (filter (\<lambda>it. it_guid it = g) cs)" for it
    by (induction cs) auto
  moreover have "1 < length cs \<Longrightarrow> cs ! best_index cs \<in> set cs"
    by (rule nth_mem, rule best_index_less) auto
  ultimately show ?thesis using a
    by (cases "rf_latest_episode_only feed \<and> 1 < length cs")
       (auto simp: keep_latest_def Let_def is_seen_foldl_mark)
qed

text \<open>How often a document holds a GUID.\<close>

abbreviation occurrences :: "string \<Rightarrow> rss_item list \<Rightarrow> nat" where
  "occurrences g items \<equiv> length (filter (\<lambda>it. it_guid it = g) items)"

lemma occurrences_subseq: "subseq xs ys \<Longrightarrow> occurrences g xs \<le> occurrences g ys"
  by (rule list_emb_length) (rule subseq_filter)

lemma feed_fetched_cases:
  assumes "on_feed_fetched v u items (s, sess) = ((s', sess'), ok)" "s' \<noteq> s"
  obtains feed cs chosen seen s1 newly where
    "rss_candidates (rv_re v) (ru_seen s) feed items = Some cs"
    "keep_latest (rv_now v) u feed cs (ru_seen s) = (chosen, seen)"
    "foldl (\<lambda>x it. handle_item v u it x) (s\<lparr>ru_seen := seen\<rparr>, sess, []) chosen = (s1, sess', newly)"
    "s' = (if newly \<noteq> [] then rss_emit (ItemsFound u newly) (s1\<lparr>ru_seen := seen_commit (ru_seen s1)\<rparr>)
           else s1\<lparr>ru_seen := seen_commit (ru_seen s1)\<rparr>)"
  using assms by (auto simp: on_feed_fetched_def Let_def split: option.splits if_splits prod.splits)

lemma feed_fetched_effect:
  assumes "on_feed_fetched v u items (s, sess) = ((s', sess'), ok)" and "sn_saved (ru_seen s) = sn_rows (ru_seen s)"
  shows "started g s' \<le> started g s + (if is_seen (ru_seen s) g then 0 else occurrences g items)
    \<and> (is_seen (ru_seen s) g \<longrightarrow> is_seen (ru_seen s') g)
    \<and> (started g s < started g s' \<longrightarrow> is_seen (ru_seen s') g)
    \<and> sn_saved (ru_seen s') = sn_rows (ru_seen s')"
proof (cases "s' = s")
  case True
  then show ?thesis using assms(2) by simp
next
  case False
  obtain feed cs chosen seen s1 newly where
    cs: "rss_candidates (rv_re v) (ru_seen s) feed items = Some cs"
    and ch: "keep_latest (rv_now v) u feed cs (ru_seen s) = (chosen, seen)"
    and f: "foldl (\<lambda>x it. handle_item v u it x) (s\<lparr>ru_seen := seen\<rparr>, sess, []) chosen = (s1, sess', newly)"
    and s': "s' = (if newly \<noteq> [] then rss_emit (ItemsFound u newly) (s1\<lparr>ru_seen := seen_commit (ru_seen s1)\<rparr>)
                   else s1\<lparr>ru_seen := seen_commit (ru_seen s1)\<rparr>)"
    by (rule feed_fetched_cases [OF assms(1) False])
  note sub = candidates_subseq [OF cs] and keep = keep_latest_chosen [OF ch, of g] and run = handle_items_effect [OF f, of g]
  have some: "occurrences g chosen \<le> occurrences g items"
    using keep occurrences_subseq [of cs items g] sub by linarith
  have none: "is_seen (ru_seen s) g \<Longrightarrow> filter (\<lambda>it. it_guid it = g) chosen = []"
    using keep sub by (auto simp: filter_empty_conv)
  have "started g s1 \<le> started g s + (if is_seen (ru_seen s) g then 0 else occurrences g items)"
    using run some none by (cases "is_seen (ru_seen s) g") auto
  then show ?thesis using run keep s' by (auto simp: about_def seen_commit_def is_seen_def)
qed

datatype rss_event =
    Fetched rss_env string "rss_item list"
  | FetchFailed string string
  | Downloaded rss_env atp "torrent_info option" string rss_item string string
  | DownloadFailed string rss_item string
  | RssMetadata world string
  | CheckNow
  | SetPaused bool
  | Relaunch

fun rss_step :: "rss_event \<Rightarrow> rss_service \<times> session \<Rightarrow> rss_service \<times> session" where
  "rss_step (Fetched v u items) x = fst (on_feed_fetched v u items x)"
| "rss_step (FetchFailed u m) (s, sess) = (on_feed_failed u m s, sess)"
| "rss_step (Downloaded v blank ti u it temp save) x = on_torrent_downloaded v blank ti u it temp save x"
| "rss_step (DownloadFailed u it m) (s, sess) = (on_torrent_download_failed u it m s, sess)"
| "rss_step (RssMetadata w ih) x = fst (on_rss_metadata_received w ih x)"
| "rss_step CheckNow (s, sess) = (check_now (ss_settings sess) s, sess)"
| "rss_step (SetPaused p) (s, sess) = (rss_set_paused p s, sess)"
| "rss_step Relaunch (s, sess) = (s\<lparr>ru_pending := {}, ru_paused := False, ru_seen := seen_reopen (ru_seen s)\<rparr>, sess)"

text \<open>\<open>m\<close>: the most often one document so far held the GUID.\<close>

definition rss_ok :: "string \<Rightarrow> nat \<Rightarrow> bool \<Rightarrow> nat \<Rightarrow> rss_service \<Rightarrow> bool" where
  "rss_ok g n seen0 m s \<longleftrightarrow> sn_saved (ru_seen s) = sn_rows (ru_seen s)
     \<and> started g s \<le> n + (if seen0 then 0 else m)
     \<and> (seen0 \<or> n < started g s \<longrightarrow> is_seen (ru_seen s) g)"

lemma rss_ok_mono: "rss_ok g n seen0 m s \<Longrightarrow> m \<le> m' \<Longrightarrow> rss_ok g n seen0 m' s"
  by (auto simp: rss_ok_def split: if_splits)

lemma rss_ok_fetched:
  assumes "rss_ok g n seen0 m s" and "n \<le> started g s" and "occurrences g items \<le> m"
  shows "rss_ok g n seen0 m (fst (fst (on_feed_fetched v u items (s, sess))))"
proof -
  obtain s' sess' ok where f: "on_feed_fetched v u items (s, sess) = ((s', sess'), ok)"
    by (metis prod.exhaust)
  have "sn_saved (ru_seen s) = sn_rows (ru_seen s)" using assms(1) by (simp add: rss_ok_def)
  note eff = feed_fetched_effect [OF f this, of g]
  show ?thesis
  proof (cases "is_seen (ru_seen s) g")
    case True
    then show ?thesis using eff assms(1) by (auto simp: rss_ok_def f)
  next
    case False
    then have "started g s = n" "\<not> seen0" using assms(1,2) by (auto simp: rss_ok_def)
    then show ?thesis using eff assms(3) False by (auto simp: rss_ok_def f)
  qed
qed

text \<open>The log only grows.\<close>

lemma handle_item_grows: "started g s \<le> started g (fst (handle_item v u it (s, sess, newly)))"
  by (auto simp: handle_item_def Let_def split: option.split prod.split)

lemma handle_items_grow: "started g (fst x) \<le> started g (fst (foldl (\<lambda>x it. handle_item v u it x) x its))"
proof (induction its arbitrary: x)
  case Nil
  then show ?case by simp
next
  case (Cons it its)
  obtain s sess newly where x: "x = (s, sess, newly)" by (metis prod_cases3)
  have "started g s \<le> started g (fst (handle_item v u it x))" unfolding x by (rule handle_item_grows)
  also have "\<dots> \<le> started g (fst (foldl (\<lambda>x it. handle_item v u it x) (handle_item v u it x) its))" by (rule Cons.IH)
  finally show ?case by (simp add: x)
qed

lemma feed_fetched_grows: "started g s \<le> started g (fst (fst (on_feed_fetched v u items (s, sess))))"
proof (cases "fst (fst (on_feed_fetched v u items (s, sess))) = s")
  case False
  obtain s' sess' ok where f: "on_feed_fetched v u items (s, sess) = ((s', sess'), ok)"
    by (metis prod.exhaust)
  with False have "s' \<noteq> s" by simp
  from f this show ?thesis
  proof (rule feed_fetched_cases)
    fix feed cs chosen seen s1 newly
    assume run: "foldl (\<lambda>x it. handle_item v u it x) (s\<lparr>ru_seen := seen\<rparr>, sess, []) chosen = (s1, sess', newly)"
      and s': "s' = (if newly \<noteq> [] then rss_emit (ItemsFound u newly) (s1\<lparr>ru_seen := seen_commit (ru_seen s1)\<rparr>)
                     else s1\<lparr>ru_seen := seen_commit (ru_seen s1)\<rparr>)"
    have "started g s \<le> started g s1"
      using handle_items_grow [of g "(s\<lparr>ru_seen := seen\<rparr>, sess, [])" v u chosen] by (simp add: run)
    then show ?thesis by (simp add: f s')
  qed
qed simp

lemma other_steps_keep:
  assumes "\<And>v u items. e \<noteq> Fetched v u items" "e \<noteq> Relaunch"
  shows "ru_seen (fst (rss_step e (s, sess))) = ru_seen s \<and> started g (fst (rss_step e (s, sess))) = started g s"
proof (cases e)
  case (Fetched v u items)
  with assms(1) show ?thesis by blast
next
  case (Downloaded v blank ti u it temp save)
  then show ?thesis by (auto simp: on_torrent_downloaded_def Let_def about_def split: option.split prod.split)
next
  case (RssMetadata w ih)
  then show ?thesis by (auto simp: on_rss_metadata_received_def Let_def split: prod.split)
next
  case CheckNow
  then show ?thesis by (auto simp: check_now_def started_def about_def filter_empty_conv)
qed (use assms(2) in \<open>auto simp: on_feed_failed_def on_torrent_download_failed_def rss_set_paused_def about_def started_def rss_emit_def\<close>)

definition rss_run :: "rss_event list \<Rightarrow> rss_service \<times> session \<Rightarrow> rss_service \<times> session" where
  "rss_run events x = foldl (\<lambda>x e. rss_step e x) x events"

text \<open>The most often one document of the events holds the GUID.\<close>

fun repeats :: "string \<Rightarrow> rss_event list \<Rightarrow> nat" where
  "repeats g [] = 0"
| "repeats g (e # es) = max (case e of Fetched v u items \<Rightarrow> occurrences g items | _ \<Rightarrow> 0) (repeats g es)"

lemma rss_ok_step:
  assumes "rss_ok g n seen0 m (fst x)" "n \<le> started g (fst x)" and "repeats g [e] \<le> m"
  shows "rss_ok g n seen0 m (fst (rss_step e x)) \<and> n \<le> started g (fst (rss_step e x))"
proof -
  obtain s sess where x: "x = (s, sess)" by fastforce
  consider (fetched) v u items where "e = Fetched v u items" | (relaunch) "e = Relaunch"
    | (other) "\<And>v u items. e \<noteq> Fetched v u items" "e \<noteq> Relaunch" by blast
  then show ?thesis
  proof cases
    case (fetched v u items)
    then show ?thesis
      using assms rss_ok_fetched [of g n seen0 m s items v u sess] feed_fetched_grows [of g s v u items sess] by (simp add: x)
  next
    case relaunch
    then show ?thesis using assms(1,2) by (simp add: x rss_ok_def seen_reopen_def is_seen_def started_def)
  next
    case other
    then show ?thesis using assms(1,2) other_steps_keep [of e s sess g] by (simp add: x rss_ok_def)
  qed
qed

lemma rss_ok_run:
  "rss_ok g n seen0 m (fst x) \<Longrightarrow> n \<le> started g (fst x) \<Longrightarrow> repeats g events \<le> m \<Longrightarrow> rss_ok g n seen0 m (fst (rss_run events x))"
proof (induction events arbitrary: x)
  case Nil
  then show ?case by (simp add: rss_run_def)
next
  case (Cons e events)
  have "rss_ok g n seen0 m (fst (rss_step e x)) \<and> n \<le> started g (fst (rss_step e x))"
    by (rule rss_ok_step) (use Cons.prems in simp_all)
  with Cons show ?case by (simp add: rss_run_def)
qed

section \<open>Properties\<close>

text \<open>C14: whatever the order of fetches, failures, downloads and relaunches, and however many documents hold
  an item, it is started at most as often as the single document that repeats its GUID most (once,
  then, when no document repeats it), never when its GUID was already on record; and one that was
  started is on record, on disk.\<close>

theorem rss_item_started_once:
  assumes "sn_saved (ru_seen s) = sn_rows (ru_seen s)"
  shows "(let s' = fst (rss_run events (s, sess))
    in started g s' \<le> started g s + (if is_seen (ru_seen s) g then 0 else repeats g events)
     \<and> (started g s < started g s' \<longrightarrow> dhas (sn_saved (ru_seen s')) g))"
proof -
  have "rss_ok g (started g s) (is_seen (ru_seen s) g) (repeats g events) s" using assms by (simp add: rss_ok_def)
  then have "rss_ok g (started g s) (is_seen (ru_seen s) g) (repeats g events) (fst (rss_run events (s, sess)))"
    by (intro rss_ok_run) simp_all
  then show ?thesis by (simp add: rss_ok_def Let_def is_seen_def)
qed


text \<open>Concrete inputs.\<close>

definition feed_env :: rss_env where
  "feed_env = \<lparr>rv_re = (\<lambda>_ _. Some True), rv_magnet = (\<lambda>_. None), rv_added = (\<lambda>_. Some 7), rv_now = ''t'', rv_world = small_world\<rparr>"

definition feed_service :: rss_service where
  "feed_service = \<lparr>ru_paused = False, ru_pending = {''A''}, ru_seen = \<lparr>sn_rows = [], sn_saved = []\<rparr>,
     ru_rules = \<lparr>st_entries = [], st_file = Missing\<rparr>, ru_out = []\<rparr>"

definition feed_session :: session where
  "feed_session = small_session\<lparr>ss_settings := DEFAULT_SETTINGS\<lparr>cfg_rss_feeds := [DEFAULT_FEED\<lparr>rf_url := ''f''\<rparr>]\<rparr>\<rparr>"

theorem rss_item_started_once_witness:
  "let i = \<lparr>it_title = ''Show 12'', it_link = ''http://x/12'', it_guid = ''g''\<rparr>;
       s' = fst (rss_run [Fetched feed_env ''f'' [i], Relaunch, Fetched feed_env ''f'' [i]] (feed_service, feed_session))
   in started ''g'' s' \<le> 1"
  using rss_item_started_once [where s = feed_service and sess = feed_session and g = "''g''"
      and events = "[Fetched feed_env ''f'' [\<lparr>it_title = ''Show 12'', it_link = ''http://x/12'', it_guid = ''g''\<rparr>], Relaunch,
        Fetched feed_env ''f'' [\<lparr>it_title = ''Show 12'', it_link = ''http://x/12'', it_guid = ''g''\<rparr>]]"]
  by (simp add: Let_def feed_service_def started_def is_seen_def)


end
