(* ===== verification/Stats.thy ===== *)
theory Stats
  imports Session_Props
begin

text \<open>
  \<open>stats/leveling.py\<close> (levels from weighted byte counts), \<open>stats/store.py\<close> and
  \<open>stats/service.py\<close> (lifetime totals), \<open>stats/history_store.py\<close> and
  \<open>stats/history_service.py\<close> (the log of removed torrents).

  \<open>LEVEL_GROWTH ** k\<close> is C's \<open>pow\<close>, a parameter \<open>pw\<close>; the locale \<open>level_powers\<close> says what the
  levels need of it and is interpreted on the correctly rounded power. \<open>int(math.log(x, 1.4))\<close> is
  a parameter about which nothing is assumed. The two \<open>while\<close> loops are partial functions, so
  that their termination is a theorem.
\<close>

section \<open>Representable numbers\<close>

lemma fl_form:
  assumes "0 < x" shows "\<exists>m k. fl x = of_int m * 2 powi k \<and> \<bar>m\<bar> \<le> 2 ^ 53"
proof -
  let ?u = "(2::rat) powi (expo x - 52)"
  have f: "fl x = of_int (py_round (x / ?u)) * ?u" using assms by (simp add: fl_def Let_def)
  have "x / ?u \<le> 2 powi (expo x + 1) / ?u"
    using expo_bounds(2) [OF assms] by (intro divide_right_mono) simp_all
  also have "\<dots> = of_int (2 ^ 53)" by (simp add: power_int_diff power_int_add)
  finally have "py_round (x / ?u) \<le> 2 ^ 53" by (rule py_round_le)
  moreover have "0 \<le> py_round (x / ?u)" using assms by (intro py_round_ge) simp
  ultimately show ?thesis using f by (intro exI [of _ "py_round (x / ?u)"] exI [of _ "expo x - 52"]) simp
qed

lemma fl_fl: "0 < x \<Longrightarrow> fl (fl x) = fl x"
  using fl_form [of x] fl_exact by blast

lemma fl_scale: "0 < x \<Longrightarrow> fl x = x \<Longrightarrow> fl (2 ^ n * x) = 2 ^ n * x"
proof -
  assume "0 < x" "fl x = x"
  then obtain m k where "x = of_int m * 2 powi k" "\<bar>m\<bar> \<le> 2 ^ 53" using fl_form [of x] by auto
  then show "fl (2 ^ n * x) = 2 ^ n * x"
    by (intro fl_exact [of _ m "k + int n"]) (simp_all add: power_int_add)
qed

lemma fl_rel_error:
  assumes "0 < x" shows "x * (1 - 1 / 2 ^ 53) \<le> fl x" "fl x \<le> x * (1 + 1 / 2 ^ 53)"
proof -
  let ?u = "(2::rat) powi (expo x - 52)"
  have u: "0 < ?u" by simp
  have "\<bar>of_int (py_round (x / ?u)) - x / ?u\<bar> \<le> 1 / 2" by (rule py_round_error)
  then have "\<bar>of_int (py_round (x / ?u)) - x / ?u\<bar> * ?u \<le> 1 / 2 * ?u" by (rule mult_right_mono) simp
  moreover have "\<bar>of_int (py_round (x / ?u)) - x / ?u\<bar> * ?u = \<bar>fl x - x\<bar>"
  proof -
    have "fl x - x = (of_int (py_round (x / ?u)) - x / ?u) * ?u"
      using assms u by (simp add: fl_def Let_def left_diff_distrib)
    then show ?thesis using u by (simp add: abs_mult)
  qed
  moreover define d where "d = x / 2 ^ 53"
  moreover have "1 / 2 * ?u \<le> d"
    using expo_bounds(1) [OF assms] by (simp add: power_int_diff d_def)
  ultimately have err: "\<bar>fl x - x\<bar> \<le> d" by (metis order_trans)
  have eq: "x * (1 - 1 / 2 ^ 53) = x - d" "x * (1 + 1 / 2 ^ 53) = x + d"
    unfolding d_def by (simp_all only: right_diff_distrib distrib_left mult_1_right times_divide_eq_right)
  have "x - d \<le> fl x" "fl x \<le> x + d" using err by linarith+
  then show "x * (1 - 1 / 2 ^ 53) \<le> fl x" "fl x \<le> x * (1 + 1 / 2 ^ 53)" unfolding eq .
qed

section \<open>Levels\<close>

definition LEVEL_BASE_BYTES :: int where "LEVEL_BASE_BYTES = 1024 ^ 3"
definition LEVEL_GROWTH :: rat where "LEVEL_GROWTH = fl (14 / 10)"
definition UPLOAD_LEVEL_WEIGHT :: rat where "UPLOAD_LEVEL_WEIGHT = 3 / 2"
definition MACOS_THEME_ID :: string where "MACOS_THEME_ID = ''macos_modern''"

definition score_factors_for :: "string option \<Rightarrow> rat \<times> rat" where
  "score_factors_for theme =
     (if theme = Some MACOS_THEME_ID then (1 / 2, fmul UPLOAD_LEVEL_WEIGHT (1 / 2))
      else if theme = Some CCCP_THEME_ID then (1, 3)
      else (1, UPLOAD_LEVEL_WEIGHT))"

definition threshold_for_level :: "(int \<Rightarrow> rat) \<Rightarrow> int \<Rightarrow> int" where
  "threshold_for_level pw level =
     (if level \<le> 0 then 0 else py_round (fmul (of_int LEVEL_BASE_BYTES) (pw (level - 1))))"

partial_function (option) climb :: "(int \<Rightarrow> rat) \<Rightarrow> int \<Rightarrow> int \<Rightarrow> int option" where
  "climb pw total_bytes estimate =
     (if threshold_for_level pw (estimate + 1) \<le> total_bytes then climb pw total_bytes (estimate + 1) else Some estimate)"

partial_function (option) descend :: "(int \<Rightarrow> rat) \<Rightarrow> int \<Rightarrow> int \<Rightarrow> int option" where
  "descend pw total_bytes estimate =
     (if estimate > 0 \<and> threshold_for_level pw estimate > total_bytes then descend pw total_bytes (estimate - 1) else Some estimate)"

definition level_for_total_bytes :: "(int \<Rightarrow> rat) \<Rightarrow> (rat \<Rightarrow> int) \<Rightarrow> int \<Rightarrow> int option" where
  "level_for_total_bytes pw ilog total_bytes =
     (if total_bytes < LEVEL_BASE_BYTES then Some 0
      else Option.bind (climb pw total_bytes (ilog (int_truediv total_bytes LEVEL_BASE_BYTES) + 1)) (descend pw total_bytes))"

definition progress_within_level :: "(int \<Rightarrow> rat) \<Rightarrow> (rat \<Rightarrow> int) \<Rightarrow> int \<Rightarrow> rat option" where
  "progress_within_level pw ilog total_bytes =
     map_option (\<lambda>level.
       let lower = threshold_for_level pw level; upper = threshold_for_level pw (level + 1)
       in if upper \<le> lower then 1 else max 0 (min 1 (int_truediv (total_bytes - lower) (upper - lower))))
     (level_for_total_bytes pw ilog total_bytes)"

text \<open>An int times a float converts the int first.\<close>

definition weighted_total_bytes :: "int \<Rightarrow> int \<Rightarrow> rat \<Rightarrow> rat \<Rightarrow> int" where
  "weighted_total_bytes total_downloaded total_uploaded download_factor upload_factor =
     py_round (fmul (fl (of_int total_downloaded)) download_factor)
       + py_round (fmul (fl (of_int total_uploaded)) upload_factor)"

record stats_snapshot =
  sp_total_downloaded :: int
  sp_total_uploaded :: int
  sp_level :: int
  sp_progress_to_next :: rat
  sp_current_threshold :: int
  sp_next_threshold :: int

definition stats_snapshot_of :: "(int \<Rightarrow> rat) \<Rightarrow> (rat \<Rightarrow> int) \<Rightarrow> int \<Rightarrow> int \<Rightarrow> rat \<Rightarrow> rat \<Rightarrow> stats_snapshot option" where
  "stats_snapshot_of pw ilog total_downloaded total_uploaded download_factor upload_factor =
     (let weighted_total = weighted_total_bytes total_downloaded total_uploaded download_factor upload_factor
      in Option.bind (level_for_total_bytes pw ilog weighted_total) (\<lambda>level.
         map_option (\<lambda>progress.
           \<lparr>sp_total_downloaded = total_downloaded, sp_total_uploaded = total_uploaded, sp_level = level,
            sp_progress_to_next = progress, sp_current_threshold = threshold_for_level pw level,
            sp_next_threshold = threshold_for_level pw (level + 1)\<rparr>)
         (progress_within_level pw ilog weighted_total)))"

locale level_powers =
  fixes pw :: "int \<Rightarrow> rat"
  assumes pw_0: "pw 0 = 1"
    and pw_float: "0 \<le> k \<Longrightarrow> fl (pw k) = pw k"
    and pw_grows: "0 \<le> k \<Longrightarrow> 13 / 10 * pw k \<le> pw (k + 1)"
begin

lemma pw_ge_1: "0 \<le> k \<Longrightarrow> 1 \<le> pw k"
proof (induction k rule: int_ge_induct)
  case base
  then show ?case by (simp add: pw_0)
next
  case (step k)
  then show ?case using pw_grows [of k] by linarith
qed

lemma threshold_pos: "0 \<le> k \<Longrightarrow> threshold_for_level pw (k + 1) = py_round (2 ^ 30 * pw k)"
proof -
  assume k: "0 \<le> k"
  then have "fl (2 ^ 30 * pw k) = 2 ^ 30 * pw k"
    using pw_ge_1 [of k] by (intro fl_scale pw_float) linarith
  then show ?thesis using k by (simp add: threshold_for_level_def fmul_def LEVEL_BASE_BYTES_def)
qed

lemma threshold_step: "0 \<le> n \<Longrightarrow> threshold_for_level pw n < threshold_for_level pw (n + 1)"
proof -
  assume n: "0 \<le> n"
  show ?thesis
  proof (cases "n = 0")
    case True
    then show ?thesis using threshold_pos [of 0] by (simp add: pw_0 threshold_for_level_def fmul_def py_round_def)
  next
    case False
    with n obtain k where k: "n = k + 1" "0 \<le> k" by (metis add.commute add_diff_cancel_left' diff_add_cancel int_one_le_iff_zero_less order_less_le zle_diff1_eq zless_imp_add1_zle diff_ge_0_iff_ge)
    let ?x = "2 ^ 30 * pw k" and ?y = "2 ^ 30 * pw (k + 1)"
    have "?x + 2 \<le> ?y" using pw_grows [OF k(2)] pw_ge_1 [OF k(2)] by simp
    then have "\<lfloor>?x\<rfloor> + 2 \<le> \<lfloor>?y\<rfloor>" by linarith
    with py_round_bounds(2) [of ?x] py_round_bounds(1) [of ?y] have "py_round ?x < py_round ?y" by linarith
    then show ?thesis using k threshold_pos [of k] threshold_pos [of "k + 1"] by (simp add: add.assoc)
  qed
qed

lemma threshold_ge: "0 \<le> n \<Longrightarrow> n \<le> threshold_for_level pw n"
proof (induction n rule: int_ge_induct)
  case base
  then show ?case by (simp add: threshold_for_level_def)
next
  case (step n)
  then show ?case using threshold_step [of n] by linarith
qed

lemma threshold_mono: "m \<le> n \<Longrightarrow> threshold_for_level pw m \<le> threshold_for_level pw n"
proof (induction n rule: int_ge_induct)
  case base
  then show ?case by simp
next
  case (step n)
  show ?case
  proof (cases "0 \<le> n")
    case True
    with step threshold_step [of n] show ?thesis by linarith
  next
    case False
    with step show ?thesis by (simp add: threshold_for_level_def)
  qed
qed

lemma climb_stops: "0 \<le> tb \<Longrightarrow> \<exists>e'. climb pw tb e = Some e' \<and> tb < threshold_for_level pw (e' + 1)"
proof (induction "nat (tb - e)" arbitrary: e rule: less_induct)
  case less
  show ?case
  proof (cases "threshold_for_level pw (e + 1) \<le> tb")
    case True
    have "e + 1 \<le> tb" using True less.prems threshold_ge [of "e + 1"] by linarith
    then have "\<exists>e'. climb pw tb (e + 1) = Some e' \<and> tb < threshold_for_level pw (e' + 1)"
      by (intro less.hyps less.prems) linarith
    then show ?thesis using True by (subst climb.simps) simp
  next
    case False
    then show ?thesis by (subst climb.simps) simp
  qed
qed

lemma descend_stops:
  "0 \<le> e \<Longrightarrow> 0 \<le> tb \<Longrightarrow> tb < threshold_for_level pw (e + 1) \<Longrightarrow>
   \<exists>n. descend pw tb e = Some n \<and> 0 \<le> n \<and> threshold_for_level pw n \<le> tb \<and> tb < threshold_for_level pw (n + 1)"
proof (induction e rule: int_ge_induct)
  case base
  then show ?case by (subst descend.simps) (simp add: threshold_for_level_def)
next
  case (step e)
  show ?case
  proof (cases "threshold_for_level pw (e + 1) > tb")
    case True
    with step have "\<exists>n. descend pw tb e = Some n \<and> 0 \<le> n \<and> threshold_for_level pw n \<le> tb \<and> tb < threshold_for_level pw (n + 1)"
      by blast
    with True step(1) show ?thesis by (subst descend.simps) simp
  next
    case False
    with step show ?thesis by (subst descend.simps) simp
  qed
qed

lemma level_found:
  assumes "0 \<le> tb"
  shows "\<exists>n. level_for_total_bytes pw ilog tb = Some n \<and> 0 \<le> n
    \<and> threshold_for_level pw n \<le> tb \<and> tb < threshold_for_level pw (n + 1)"
proof (cases "tb < LEVEL_BASE_BYTES")
  case True
  have "threshold_for_level pw (0 + 1) = LEVEL_BASE_BYTES"
    using threshold_pos [of 0] py_round_of_int [of "2 ^ 30"] by (simp add: pw_0 LEVEL_BASE_BYTES_def)
  then show ?thesis using True assms by (simp add: level_for_total_bytes_def threshold_for_level_def)
next
  case False
  obtain e where e: "climb pw tb (ilog (int_truediv tb LEVEL_BASE_BYTES) + 1) = Some e" "tb < threshold_for_level pw (e + 1)"
    using climb_stops [OF assms] by blast
  have "0 \<le> e" using e(2) assms by (cases "e + 1 \<le> 0") (simp_all add: threshold_for_level_def)
  from descend_stops [OF this assms e(2)] show ?thesis using False e(1) by (simp add: level_for_total_bytes_def)
qed

lemma level_unique:
  assumes "threshold_for_level pw m \<le> tb" "tb < threshold_for_level pw (n + 1)"
  shows "m \<le> n"
  using threshold_mono [of "n + 1" m] assms by linarith

end

text \<open>\<open>pow\<close> correctly rounded, as the interpretation of the locale.\<close>

definition pow_growth :: "int \<Rightarrow> rat" where
  "pow_growth k = fl (LEVEL_GROWTH ^ nat k)"

lemma growth_ge: "139 / 100 \<le> LEVEL_GROWTH"
proof -
  have "(14 / 10 :: rat) * (1 - 1 / 2 ^ 53) \<le> LEVEL_GROWTH"
    unfolding LEVEL_GROWTH_def by (rule fl_rel_error) simp
  moreover have "139 / 100 \<le> (14 / 10 :: rat) * (1 - 1 / 2 ^ 53)" by simp
  ultimately show ?thesis by (rule order_trans [rotated])
qed

lemma pow_growth_step:
  assumes "0 \<le> k" shows "13 / 10 * pow_growth k \<le> pow_growth (k + 1)"
proof -
  let ?g = "LEVEL_GROWTH ^ nat k" and ?h = "LEVEL_GROWTH ^ nat (k + 1)"
  have g0: "0 < LEVEL_GROWTH" using growth_ge by linarith
  then have g: "0 < ?g" by simp
  have h: "?h = LEVEL_GROWTH * ?g" using assms by (simp add: nat_add_distrib)
  have "pow_growth k \<le> ?g * (1 + 1 / 2 ^ 53)" unfolding pow_growth_def by (rule fl_rel_error(2) [OF g])
  also have "\<dots> \<le> ?g * (1001 / 1000)" using g by (intro mult_left_mono) simp_all
  finally have up: "pow_growth k \<le> ?g * (1001 / 1000)" .
  have "?h * (999 / 1000) \<le> ?h * (1 - 1 / 2 ^ 53)" using g g0 unfolding h by (intro mult_left_mono) simp_all
  also have "\<dots> \<le> pow_growth (k + 1)"
    unfolding pow_growth_def by (rule fl_rel_error(1)) (use g g0 in \<open>simp add: h\<close>)
  finally have lo: "?h * (999 / 1000) \<le> pow_growth (k + 1)" .
  have "139 / 100 * ?g \<le> ?h" unfolding h using growth_ge g by (intro mult_right_mono) simp_all
  with up lo g show ?thesis by linarith
qed

interpretation pow_levels: level_powers pow_growth
proof
  show "pow_growth 0 = 1" using fl_of_int [of 1] by (simp add: pow_growth_def)
  have "0 < LEVEL_GROWTH" using growth_ge by linarith
  then show "fl (pow_growth k) = pow_growth k" for k unfolding pow_growth_def by (intro fl_fl) simp
  show "0 \<le> k \<Longrightarrow> 13 / 10 * pow_growth k \<le> pow_growth (k + 1)" for k by (rule pow_growth_step)
qed

section \<open>Lifetime totals\<close>

record stats_store =
  tt_totals :: "int \<times> int"
  tt_counters :: "(string, int \<times> int) dict"

definition get_totals :: "stats_store \<Rightarrow> int \<times> int" where
  "get_totals st = tt_totals st"

definition get_torrent_counter :: "stats_store \<Rightarrow> string \<Rightarrow> int \<times> int" where
  "get_torrent_counter st ih = (case dget (tt_counters st) ih of Some c \<Rightarrow> c | None \<Rightarrow> (0, 0))"

definition set_torrent_counter :: "string \<Rightarrow> int \<times> int \<Rightarrow> stats_store \<Rightarrow> stats_store" where
  "set_torrent_counter ih c st = st\<lparr>tt_counters := dset ih c (tt_counters st)\<rparr>"

definition add_totals :: "int \<times> int \<Rightarrow> stats_store \<Rightarrow> stats_store" where
  "add_totals delta st =
     (if fst delta \<le> 0 \<and> snd delta \<le> 0 then st
      else st\<lparr>tt_totals := (fst (tt_totals st) + max 0 (fst delta), snd (tt_totals st) + max 0 (snd delta))\<rparr>)"

definition apply_flush :: "int \<times> int \<Rightarrow> (string, int \<times> int) dict \<Rightarrow> stats_store \<Rightarrow> stats_store" where
  "apply_flush delta counters st = foldl (\<lambda>st (ih, c). set_torrent_counter ih c st) (add_totals delta st) counters"

definition record_removal :: "string \<Rightarrow> int \<times> int \<Rightarrow> int \<times> int \<Rightarrow> stats_store \<Rightarrow> stats_store" where
  "record_removal ih delta c st = set_torrent_counter ih c (add_totals delta st)"

record stats_service =
  ts_store :: stats_store
  ts_current :: "(string, int \<times> int) dict"
  ts_last_seen :: "(string, int \<times> int) dict"

definition stats_on_status :: "string \<Rightarrow> torrent_record \<Rightarrow> stats_service \<Rightarrow> stats_service" where
  "stats_on_status ih r s = s\<lparr>ts_current := dset ih (tr_all_time_downloaded r, tr_all_time_uploaded r) (ts_current s)\<rparr>"

definition last_seen_for :: "string \<Rightarrow> stats_service \<Rightarrow> (int \<times> int) \<times> stats_service" where
  "last_seen_for ih s =
     (case dget (ts_last_seen s) ih of
        Some c \<Rightarrow> (c, s)
      | None \<Rightarrow> (let c = get_torrent_counter (ts_store s) ih in (c, s\<lparr>ts_last_seen := dset ih c (ts_last_seen s)\<rparr>)))"

text \<open>What a torrent transferred since its last flush; a counter that went down was reset.\<close>

definition rise :: "int \<times> int \<Rightarrow> int \<times> int \<Rightarrow> int \<times> int" where
  "rise seen cur = (max 0 (fst cur - fst seen), max 0 (snd cur - snd seen))"

definition flush_one :: "string \<Rightarrow> stats_service \<Rightarrow> stats_service" where
  "flush_one ih s =
     (case dget (ts_current s) ih of
        None \<Rightarrow> s
      | Some cur \<Rightarrow>
          (let (seen, s1) = last_seen_for ih s
           in s1\<lparr>ts_store := record_removal ih (rise seen cur) cur (ts_store s1),
                 ts_last_seen := dset ih cur (ts_last_seen s1)\<rparr>))"

definition stats_on_removed :: "string \<Rightarrow> stats_service \<Rightarrow> stats_service" where
  "stats_on_removed ih s =
     (let s1 = flush_one ih s in s1\<lparr>ts_current := dpop ih (ts_current s1), ts_last_seen := dpop ih (ts_last_seen s1)\<rparr>)"

text \<open>The loop of \<open>flush\<close>, over the torrents and their current counters.\<close>

fun flush_loop :: "(string \<times> int \<times> int) list \<Rightarrow> stats_service \<Rightarrow> int \<times> int \<Rightarrow> (string, int \<times> int) dict
    \<Rightarrow> stats_service \<times> (int \<times> int) \<times> (string, int \<times> int) dict" where
  "flush_loop [] s delta counters = (s, delta, counters)"
| "flush_loop ((ih, cur) # rest) s delta counters =
     (let (seen, s1) = last_seen_for ih s;
          s2 = s1\<lparr>ts_last_seen := dset ih cur (ts_last_seen s1)\<rparr>
      in if cur \<noteq> seen
         then flush_loop rest s2 (fst delta + fst (rise seen cur), snd delta + snd (rise seen cur)) (dset ih cur counters)
         else flush_loop rest s2 delta counters)"

definition stats_flush :: "stats_service \<Rightarrow> stats_service" where
  "stats_flush s =
     (let (s1, delta, counters) = flush_loop (ts_current s) s (0, 0) []
      in if counters \<noteq> [] then s1\<lparr>ts_store := apply_flush delta counters (ts_store s1)\<rparr> else s1)"

definition current_snapshot :: "(int \<Rightarrow> rat) \<Rightarrow> (rat \<Rightarrow> int) \<Rightarrow> string option \<Rightarrow> stats_service \<Rightarrow> stats_snapshot option" where
  "current_snapshot pw ilog theme s =
     (let (down, up) = get_totals (ts_store s); (download_factor, upload_factor) = score_factors_for theme
      in stats_snapshot_of pw ilog down up download_factor upload_factor)"

text \<open>The stopped timer apart, \<open>shutdown\<close> is a last flush; a new process opens the same store.\<close>

definition stats_shutdown :: "stats_service \<Rightarrow> stats_service" where
  "stats_shutdown s = stats_flush s"

definition stats_init :: "stats_store \<Rightarrow> stats_service" where
  "stats_init st = \<lparr>ts_store = st, ts_current = [], ts_last_seen = []\<rparr>"

section \<open>The log of removed torrents\<close>

record history_entry =
  he_info_hash :: string
  he_name :: string
  he_total_size :: int
  he_total_downloaded :: int
  he_total_uploaded :: int
  he_finished_at :: string
  he_event :: string

text \<open>\<open>ORDER BY id DESC LIMIT ?\<close> of the rows in insertion order; a negative limit is none.\<close>

definition all_entries :: "int \<Rightarrow> history_entry list \<Rightarrow> history_entry list" where
  "all_entries limit rows = (if limit < 0 then rev rows else take (nat limit) (rev rows))"

definition add_entry :: "history_entry \<Rightarrow> history_entry list \<Rightarrow> history_entry list" where
  "add_entry e rows = rows @ [e]"

record history_service =
  hy_rows :: "history_entry list"
  hy_last_known :: "(string, torrent_record) dict"
  hy_paused :: bool

definition history_set_paused :: "bool \<Rightarrow> history_service \<Rightarrow> history_service" where
  "history_set_paused p s = s\<lparr>hy_paused := p\<rparr>"

definition history_on_status :: "string \<Rightarrow> torrent_record \<Rightarrow> history_service \<Rightarrow> history_service" where
  "history_on_status ih r s = s\<lparr>hy_last_known := dset ih r (hy_last_known s)\<rparr>"

text \<open>The flag: whether \<open>entry_added\<close> is emitted.\<close>

definition history_on_removed :: "string \<Rightarrow> string \<Rightarrow> history_service \<Rightarrow> history_service \<times> bool" where
  "history_on_removed now ih s =
     (let s1 = s\<lparr>hy_last_known := dpop ih (hy_last_known s)\<rparr>
      in case dget (hy_last_known s) ih of
           None \<Rightarrow> (s1, False)
         | Some r \<Rightarrow>
             if hy_paused s then (s1, False)
             else (s1\<lparr>hy_rows := add_entry
                     \<lparr>he_info_hash = tr_info_hash r, he_name = (if tr_name r \<noteq> [] then tr_name r else take 12 ih),
                       he_total_size = tr_total_size r, he_total_downloaded = tr_all_time_downloaded r,
                       he_total_uploaded = tr_all_time_uploaded r, he_finished_at = now, he_event = ''removed''\<rparr> (hy_rows s1)\<rparr>, True))"

definition history_clear :: "history_service \<Rightarrow> history_service \<times> bool" where
  "history_clear s = (s\<lparr>hy_rows := []\<rparr>, True)"

section \<open>What the totals mean\<close>

text \<open>The specification: each torrent has one counter, what was last counted of it; a flush adds what
  rose since and moves the counter. No cache, no batching, no order.\<close>

record abs_stats =
  ab_totals :: "int \<times> int"
  ab_counter :: "string \<Rightarrow> int \<times> int"
  ab_current :: "(string, int \<times> int) dict"

definition ab_count :: "string \<Rightarrow> abs_stats \<Rightarrow> abs_stats" where
  "ab_count ih a =
     (case dget (ab_current a) ih of None \<Rightarrow> a
      | Some c \<Rightarrow> a\<lparr>ab_totals := (fst (ab_totals a) + fst (rise (ab_counter a ih) c), snd (ab_totals a) + snd (rise (ab_counter a ih) c)),
                    ab_counter := (ab_counter a)(ih := c)\<rparr>)"

definition rises :: "(string \<Rightarrow> int \<times> int) \<Rightarrow> (string \<times> int \<times> int) list \<Rightarrow> int \<times> int" where
  "rises C xs = (sum_list (map (\<lambda>(ih, c). fst (rise (C ih) c)) xs), sum_list (map (\<lambda>(ih, c). snd (rise (C ih) c)) xs))"

definition ab_flush :: "abs_stats \<Rightarrow> abs_stats" where
  "ab_flush a = a\<lparr>ab_totals := (fst (ab_totals a) + fst (rises (ab_counter a) (ab_current a)),
                               snd (ab_totals a) + snd (rises (ab_counter a) (ab_current a))),
     ab_counter := (\<lambda>ih. case dget (ab_current a) ih of Some c \<Rightarrow> c | None \<Rightarrow> ab_counter a ih)\<rparr>"

datatype stats_event = StatsUpdate string torrent_record | StatsFlush | StatsRemoved string | StatsRestart

fun stats_step :: "stats_event \<Rightarrow> stats_service \<Rightarrow> stats_service" where
  "stats_step (StatsUpdate ih r) s = stats_on_status ih r s"
| "stats_step StatsFlush s = stats_flush s"
| "stats_step (StatsRemoved ih) s = stats_on_removed ih s"
| "stats_step StatsRestart s = stats_init (ts_store (stats_shutdown s))"

fun ab_step :: "stats_event \<Rightarrow> abs_stats \<Rightarrow> abs_stats" where
  "ab_step (StatsUpdate ih r) a = a\<lparr>ab_current := dset ih (tr_all_time_downloaded r, tr_all_time_uploaded r) (ab_current a)\<rparr>"
| "ab_step StatsFlush a = ab_flush a"
| "ab_step (StatsRemoved ih) a = (let a' = ab_count ih a in a'\<lparr>ab_current := dpop ih (ab_current a')\<rparr>)"
| "ab_step StatsRestart a = (ab_flush a)\<lparr>ab_current := []\<rparr>"

definition abs_of :: "stats_service \<Rightarrow> abs_stats" where
  "abs_of s = \<lparr>ab_totals = tt_totals (ts_store s), ab_counter = get_torrent_counter (ts_store s), ab_current = ts_current s\<rparr>"

definition stats_ok :: "stats_service \<Rightarrow> bool" where
  "stats_ok s \<longleftrightarrow> dict_ok (ts_current s)
     \<and> (\<forall>ih v. dget (ts_last_seen s) ih = Some v \<longrightarrow> v = get_torrent_counter (ts_store s) ih)"

lemma rise_nonneg: "0 \<le> fst (rise a b)" "0 \<le> snd (rise a b)"
  by (simp_all add: rise_def)

lemma rise_refl [simp]: "rise c c = (0, 0)"
  by (simp add: rise_def)

lemma totals_set_counter [simp]: "tt_totals (set_torrent_counter ih c st) = tt_totals st"
  by (simp add: set_torrent_counter_def)

lemma counter_set_counter [simp]:
  "get_torrent_counter (set_torrent_counter ih c st) k = (if k = ih then c else get_torrent_counter st k)"
  by (simp add: set_torrent_counter_def get_torrent_counter_def)

lemma add_totals_nonneg:
  "0 \<le> fst d \<Longrightarrow> 0 \<le> snd d \<Longrightarrow> tt_totals (add_totals d st) = (fst (tt_totals st) + fst d, snd (tt_totals st) + snd d)"
  by (auto simp: add_totals_def prod_eq_iff)

lemma counter_add_totals [simp]: "get_torrent_counter (add_totals d st) k = get_torrent_counter st k"
  by (simp add: add_totals_def get_torrent_counter_def)

lemma fold_counters:
  "dict_ok cs \<Longrightarrow>
   tt_totals (foldl (\<lambda>st (ih, c). set_torrent_counter ih c st) st cs) = tt_totals st
   \<and> get_torrent_counter (foldl (\<lambda>st (ih, c). set_torrent_counter ih c st) st cs) k
       = (case dget cs k of Some c \<Rightarrow> c | None \<Rightarrow> get_torrent_counter st k)"
proof (induction cs arbitrary: st)
  case Nil
  then show ?case by simp
next
  case (Cons ihc cs)
  obtain ih c where ihc: "ihc = (ih, c)" by (cases ihc)
  have "dget cs ih = None" using Cons.prems by (simp add: ihc map_of_eq_None_iff)
  then show ?case using Cons.prems Cons.IH [of "set_torrent_counter ih c st"] by (auto simp: ihc split: option.split)
qed

lemma last_seen_for_eq:
  assumes "\<And>v. dget (ts_last_seen s) ih = Some v \<Longrightarrow> v = get_torrent_counter (ts_store s) ih"
    and "last_seen_for ih s = (seen, s')"
  shows "seen = get_torrent_counter (ts_store s) ih \<and> ts_store s' = ts_store s \<and> ts_current s' = ts_current s
    \<and> (\<forall>k. k \<noteq> ih \<longrightarrow> dget (ts_last_seen s') k = dget (ts_last_seen s) k)"
  using assms by (auto simp: last_seen_for_def Let_def split: option.splits)

lemma flush_loop_spec:
  assumes "distinct (map fst xs)" "flush_loop xs s d cs = (s', d', cs')"
    and "\<And>ih v. ih \<in> fst ` set xs \<Longrightarrow> dget (ts_last_seen s) ih = Some v \<Longrightarrow> v = get_torrent_counter (ts_store s) ih"
  shows "ts_store s' = ts_store s \<and> ts_current s' = ts_current s
    \<and> d' = (fst d + fst (rises (get_torrent_counter (ts_store s)) xs), snd d + snd (rises (get_torrent_counter (ts_store s)) xs))
    \<and> (\<forall>k. dget (ts_last_seen s') k = (case dget xs k of Some c \<Rightarrow> Some c | None \<Rightarrow> dget (ts_last_seen s) k))
    \<and> (\<forall>k. dget cs' k = (case dget xs k of
          Some c \<Rightarrow> if c \<noteq> get_torrent_counter (ts_store s) k then Some c else dget cs k | None \<Rightarrow> dget cs k))
    \<and> (dict_ok cs \<longrightarrow> dict_ok cs')"
  using assms
proof (induction xs arbitrary: s d cs)
  case Nil
  then show ?case by (simp add: rises_def)
next
  case (Cons x xs)
  obtain ih cur where x: "x = (ih, cur)" by (cases x)
  obtain seen s1 where ls: "last_seen_for ih s = (seen, s1)" by (cases "last_seen_for ih s")
  have new: "dget xs ih = None" using Cons.prems(1) by (simp add: x map_of_eq_None_iff)
  have at: "seen = get_torrent_counter (ts_store s) ih" "ts_store s1 = ts_store s" "ts_current s1 = ts_current s"
    "\<And>k. k \<noteq> ih \<Longrightarrow> dget (ts_last_seen s1) k = dget (ts_last_seen s) k"
    using last_seen_for_eq [OF _ ls] Cons.prems(3) [of ih] by (auto simp: x)
  define s2 where "s2 = s1\<lparr>ts_last_seen := dset ih cur (ts_last_seen s1)\<rparr>"
  have st: "ts_store s2 = ts_store s" "ts_current s2 = ts_current s" by (simp_all add: s2_def at)
  have ls2: "dget (ts_last_seen s2) k = (if k = ih then Some cur else dget (ts_last_seen s) k)" for k
    by (simp add: s2_def at(4))
  have keep: "v = get_torrent_counter (ts_store s2) k"
    if "k \<in> fst ` set xs" "dget (ts_last_seen s2) k = Some v" for k v
  proof -
    have ne: "k \<noteq> ih" using that(1) Cons.prems(1) unfolding x by auto
    have "v = get_torrent_counter (ts_store s) k"
    proof (rule Cons.prems(3))
      show "k \<in> fst ` set (x # xs)" using that(1) by simp
      show "dget (ts_last_seen s) k = Some v" using that(2) ne by (simp add: ls2)
    qed
    then show ?thesis by (simp add: st)
  qed
  have run: "flush_loop (x # xs) s d cs =
      (if cur \<noteq> seen then flush_loop xs s2 (fst d + fst (rise seen cur), snd d + snd (rise seen cur)) (dset ih cur cs)
       else flush_loop xs s2 d cs)"
    by (simp add: x ls s2_def)
  have rs: "rises C (x # xs) = (fst (rise (C ih) cur) + fst (rises C xs), snd (rise (C ih) cur) + snd (rises C xs))" for C
    by (simp add: rises_def x)
  obtain d2 cs2 where run2: "flush_loop xs s2 d2 cs2 = (s', d', cs')"
    and d2: "d2 = (fst d + fst (rise seen cur), snd d + snd (rise seen cur))"
    and cs2: "\<And>k. dget cs2 k = (if k = ih \<and> cur \<noteq> seen then Some cur else dget cs k)" "dict_ok cs \<longrightarrow> dict_ok cs2"
  proof (cases "cur = seen")
    case True
    show ?thesis by (rule that [of d cs]) (use run Cons.prems(2) True in simp_all)
  next
    case False
    show ?thesis
      by (rule that [of "(fst d + fst (rise seen cur), snd d + snd (rise seen cur))" "dset ih cur cs"])
         (use run Cons.prems(2) False in \<open>simp_all add: distinct_update\<close>)
  qed
  have "distinct (map fst xs)" using Cons.prems(1) by simp
  note IH = Cons.IH [OF this run2 keep, unfolded st]
  have last: "dget (ts_last_seen s') k = (case dget (x # xs) k of Some c \<Rightarrow> Some c | None \<Rightarrow> dget (ts_last_seen s) k)" for k
  proof -
    have "dget (ts_last_seen s') k = (case dget xs k of Some c \<Rightarrow> Some c | None \<Rightarrow> dget (ts_last_seen s2) k)" using IH by blast
    then show ?thesis using new by (cases "k = ih"; cases "dget xs k") (simp_all add: ls2 x)
  qed
  have cnt: "dget cs' k = (case dget (x # xs) k of
      Some c \<Rightarrow> if c \<noteq> get_torrent_counter (ts_store s) k then Some c else dget cs k | None \<Rightarrow> dget cs k)" for k
  proof -
    have "dget cs' k = (case dget xs k of
      Some c \<Rightarrow> if c \<noteq> get_torrent_counter (ts_store s) k then Some c else dget cs2 k | None \<Rightarrow> dget cs2 k)" using IH by blast
    then show ?thesis using new at(1) cs2(1) [of k] by (cases "k = ih"; cases "dget xs k") (simp_all add: x)
  qed
  have "d' = (fst d + fst (rises (get_torrent_counter (ts_store s)) (x # xs)), snd d + snd (rises (get_torrent_counter (ts_store s)) (x # xs)))"
    using IH by (simp add: d2 rs at(1))
  with last cnt show ?case using IH cs2(2) by blast
qed

lemma rises_zero:
  assumes "\<And>ih c. (ih, c) \<in> set xs \<Longrightarrow> c = C ih" shows "rises C xs = (0, 0)"
proof -
  have "map (\<lambda>(ih, c). fst (rise (C ih) c)) xs = map (\<lambda>_. 0) xs" "map (\<lambda>(ih, c). snd (rise (C ih) c)) xs = map (\<lambda>_. 0) xs"
    by (auto simp: assms [symmetric])
  then have "sum_list (map (\<lambda>(ih, c). fst (rise (C ih) c)) xs) = 0" "sum_list (map (\<lambda>(ih, c). snd (rise (C ih) c)) xs) = 0"
    by (simp_all only: sum_list_0)
  then show ?thesis by (simp only: rises_def)
qed

lemma rises_nonneg: "0 \<le> fst (rises C xs)" "0 \<le> snd (rises C xs)"
  by (auto simp: rises_def rise_nonneg intro!: sum_list_nonneg)

lemma flush_refines:
  assumes "stats_ok s"
  shows "abs_of (stats_flush s) = ab_flush (abs_of s) \<and> stats_ok (stats_flush s)"
proof -
  let ?C = "get_torrent_counter (ts_store s)"
  obtain s1 d cs where run: "flush_loop (ts_current s) s (0, 0) [] = (s1, d, cs)" by (metis prod_cases3)
  have spec: "ts_store s1 = ts_store s" "ts_current s1 = ts_current s" "d = rises ?C (ts_current s)"
    "\<And>k. dget (ts_last_seen s1) k = (case dget (ts_current s) k of Some c \<Rightarrow> Some c | None \<Rightarrow> dget (ts_last_seen s) k)"
    "\<And>k. dget cs k = (case dget (ts_current s) k of Some c \<Rightarrow> if c \<noteq> ?C k then Some c else None | None \<Rightarrow> None)"
    "dict_ok cs"
    using flush_loop_spec [OF _ run] assms by (auto simp: stats_ok_def split: option.splits)
  have f: "stats_flush s = (if cs \<noteq> [] then s1\<lparr>ts_store := apply_flush d cs (ts_store s1)\<rparr> else s1)"
    by (simp add: stats_flush_def run)
  have cnt: "get_torrent_counter (ts_store (stats_flush s)) k = (case dget (ts_current s) k of Some c \<Rightarrow> c | None \<Rightarrow> ?C k)" for k
  proof (cases "cs = []")
    case True
    then have "dget cs k = None" by simp
    then show ?thesis using True spec(5) [of k] by (auto simp: f spec(1) split: option.splits if_splits)
  next
    case False
    then show ?thesis using fold_counters [OF spec(6)] spec(5) [of k]
      by (auto simp: f apply_flush_def spec(1) split: option.splits)
  qed
  have tot: "tt_totals (ts_store (stats_flush s)) = (fst (tt_totals (ts_store s)) + fst d, snd (tt_totals (ts_store s)) + snd d)"
  proof (cases "cs = []")
    case True
    have "c = ?C ih" if "(ih, c) \<in> set (ts_current s)" for ih c
      using that spec(5) [of ih] True assms by (auto simp: stats_ok_def split: option.splits if_splits)
    then have "d = (0, 0)" unfolding spec(3) by (rule rises_zero)
    then show ?thesis using True by (simp add: f spec(1))
  next
    case False
    then show ?thesis using fold_counters [OF spec(6)]
      by (simp add: f apply_flush_def spec(1,3) add_totals_nonneg rises_nonneg)
  qed
  have "ts_current (stats_flush s) = ts_current s" by (simp add: f spec(2))
  moreover have "ts_last_seen (stats_flush s) = ts_last_seen s1" by (simp add: f)
  ultimately show ?thesis using cnt tot spec(3,4) assms
    by (auto simp: abs_of_def ab_flush_def stats_ok_def split: option.splits)
qed

lemma removed_refines:
  assumes "stats_ok s"
  shows "abs_of (stats_on_removed ih s) = ab_step (StatsRemoved ih) (abs_of s) \<and> stats_ok (stats_on_removed ih s)"
proof (cases "dget (ts_current s) ih")
  case None
  then show ?thesis using assms
    by (auto simp: stats_on_removed_def flush_one_def abs_of_def ab_count_def stats_ok_def Let_def)
next
  case (Some cur)
  obtain seen s1 where ls: "last_seen_for ih s = (seen, s1)" by (cases "last_seen_for ih s")
  have at: "seen = get_torrent_counter (ts_store s) ih" "ts_store s1 = ts_store s" "ts_current s1 = ts_current s"
    "\<And>k. k \<noteq> ih \<Longrightarrow> dget (ts_last_seen s1) k = dget (ts_last_seen s) k"
    using last_seen_for_eq [OF _ ls] assms by (auto simp: stats_ok_def)
  have r: "stats_on_removed ih s = s1\<lparr>ts_store := record_removal ih (rise seen cur) cur (ts_store s),
      ts_last_seen := dpop ih (dset ih cur (ts_last_seen s1)), ts_current := dpop ih (ts_current s)\<rparr>"
    by (simp add: stats_on_removed_def flush_one_def Some ls Let_def at)
  have c: "get_torrent_counter (record_removal ih (rise seen cur) cur (ts_store s)) = (get_torrent_counter (ts_store s))(ih := cur)"
    by (rule ext) (simp add: record_removal_def)
  have "tt_totals (record_removal ih (rise seen cur) cur (ts_store s))
      = (fst (tt_totals (ts_store s)) + fst (rise seen cur), snd (tt_totals (ts_store s)) + snd (rise seen cur))"
    by (simp add: record_removal_def add_totals_nonneg rise_nonneg)
  then have "abs_of (stats_on_removed ih s) = ab_step (StatsRemoved ih) (abs_of s)"
    by (simp add: r abs_of_def ab_count_def Some c Let_def flip: at(1))
  moreover have "stats_ok (stats_on_removed ih s)"
    using assms at(4) by (auto simp: r stats_ok_def c)
  ultimately show ?thesis ..
qed

lemma stats_step_refines:
  assumes "stats_ok s" shows "abs_of (stats_step e s) = ab_step e (abs_of s) \<and> stats_ok (stats_step e s)"
proof (cases e)
  case (StatsUpdate ih r)
  then show ?thesis using assms by (auto simp: stats_on_status_def abs_of_def stats_ok_def)
next
  case StatsFlush
  then show ?thesis using flush_refines [OF assms] by simp
next
  case (StatsRemoved ih)
  then show ?thesis using removed_refines [OF assms] by (simp only: stats_step.simps)
next
  case StatsRestart
  have "abs_of (stats_init (ts_store x)) = (abs_of x)\<lparr>ab_current := []\<rparr>" for x
    by (simp add: stats_init_def abs_of_def)
  moreover have "stats_ok (stats_init x)" for x by (simp add: stats_init_def stats_ok_def)
  ultimately show ?thesis using flush_refines [OF assms] by (simp add: StatsRestart stats_shutdown_def)
qed

section \<open>Properties\<close>

text \<open>C16: the level is found and is the right one, however wrong the logarithm's estimate: both loops
  stop, and the result is the only level whose threshold is reached and whose next one is not.\<close>

theorem level_search_exact:
  assumes "pw 0 = 1" "\<And>k. 0 \<le> k \<Longrightarrow> fl (pw k) = pw k" "\<And>k. 0 \<le> k \<Longrightarrow> 13 / 10 * pw k \<le> pw (k + 1)"
    and "0 \<le> bytes"
  shows "\<exists>n. level_for_total_bytes pw ilog bytes = Some n \<and> 0 \<le> n
    \<and> threshold_for_level pw n \<le> bytes \<and> bytes < threshold_for_level pw (n + 1)
    \<and> (\<forall>m. threshold_for_level pw m \<le> bytes \<and> bytes < threshold_for_level pw (m + 1) \<longrightarrow> m = n)
    \<and> (\<exists>p. progress_within_level pw ilog bytes = Some p \<and> 0 \<le> p \<and> p \<le> 1)"
proof -
  have lp: "level_powers pw" by unfold_locales (use assms in auto)
  obtain n where n: "level_for_total_bytes pw ilog bytes = Some n" "0 \<le> n"
    "threshold_for_level pw n \<le> bytes" "bytes < threshold_for_level pw (n + 1)"
    using level_powers.level_found [OF lp assms(4)] by blast
  have "m = n" if "threshold_for_level pw m \<le> bytes" "bytes < threshold_for_level pw (m + 1)" for m
    using level_powers.level_unique [OF lp that(1) n(4)] level_powers.level_unique [OF lp n(3) that(2)] by simp
  moreover have "\<exists>p. progress_within_level pw ilog bytes = Some p \<and> 0 \<le> p \<and> p \<le> 1"
    by (simp add: progress_within_level_def n(1) Let_def)
  ultimately show ?thesis using n by blast
qed

text \<open>C17: over any history of status updates, periodic flushes, removals and restarts the lifetime
  totals and the per-torrent counters on disk are those of the specification: every byte is
  counted once, a counter that fell (a torrent added again) starts over, and neither the cache of
  last-seen values nor the batching of writes shows.\<close>

theorem stats_refine_counters:
  assumes "stats_ok s"
  shows "abs_of (foldl (\<lambda>s e. stats_step e s) s events) = foldl (\<lambda>a e. ab_step e a) (abs_of s) events"
  using assms
proof (induction events arbitrary: s)
  case Nil
  then show ?case by simp
next
  case (Cons e events)
  then show ?case using stats_step_refines [of s e] by simp
qed

text \<open>Concrete inputs: three gibibytes; a torrent removed, added again and restarted.\<close>

theorem level_search_exact_witness:
  "\<exists>n. level_for_total_bytes pow_growth (\<lambda>_. 40) 3221225472 = Some n \<and> threshold_for_level pow_growth n \<le> 3221225472"
  using level_search_exact [of pow_growth 3221225472 "\<lambda>_. 40"] pow_levels.pw_0 pow_levels.pw_float pow_levels.pw_grows by auto

theorem stats_refine_counters_witness:
  "let s = stats_init \<lparr>tt_totals = (10, 0), tt_counters = [(''A'', 7, 0)]\<rparr>;
       r = (\<lambda>d. (new_record ''A'')\<lparr>tr_all_time_downloaded := d\<rparr>);
       es = [StatsUpdate ''A'' (r 9), StatsFlush, StatsRemoved ''A'', StatsUpdate ''A'' (r 0), StatsFlush,
             StatsUpdate ''A'' (r 5), StatsRestart]
   in tt_totals (ts_store (foldl (\<lambda>s e. stats_step e s) s es)) = (17, 0)"
proof -
  let ?s = "stats_init \<lparr>tt_totals = (10, 0), tt_counters = [(''A'', 7, 0)]\<rparr>"
  let ?r = "\<lambda>d. (new_record ''A'')\<lparr>tr_all_time_downloaded := d\<rparr>"
  let ?es = "[StatsUpdate ''A'' (?r 9), StatsFlush, StatsRemoved ''A'', StatsUpdate ''A'' (?r 0), StatsFlush,
             StatsUpdate ''A'' (?r 5), StatsRestart]"
  have "stats_ok ?s" by (simp add: stats_ok_def stats_init_def)
  from arg_cong [OF stats_refine_counters [OF this, of ?es], of ab_totals]
  have "tt_totals (ts_store (foldl (\<lambda>s e. stats_step e s) ?s ?es)) = ab_totals (foldl (\<lambda>a e. ab_step e a) (abs_of ?s) ?es)"
    by (simp add: abs_of_def)
  also have "\<dots> = (17, 0)"
    by (simp add: abs_of_def stats_init_def ab_flush_def ab_count_def rises_def rise_def get_torrent_counter_def new_record_def Let_def)
  finally show ?thesis by (simp only: Let_def)
qed

end
