(* ===== verification/Bandwidth.thy ===== *)
theory Bandwidth
  imports Rss Stats
begin

text \<open>
  The three services that throttle the session: \<open>engine/bandwidth_scheduler.py\<close> (time of day, and
  the turtle mode), \<open>engine/idle_activity_service.py\<close> (turtle mode while the user is away) and
  \<open>engine/memory_pressure_governor.py\<close> (fewer downloads, paused feeds and history under memory
  pressure). The last two share one contract, the locale \<open>edge_toggle\<close>: a check reads a sensor
  and crosses at most one edge.
\<close>

section \<open>The scheduler\<close>

definition is_within_window :: "int \<Rightarrow> int \<Rightarrow> int \<Rightarrow> bool" where
  "is_within_window hour start_hour end_hour \<longleftrightarrow>
     (if start_hour = end_hour then False
      else if start_hour < end_hour then start_hour \<le> hour \<and> hour < end_hour
      else hour \<ge> start_hour \<or> hour < end_hour)"

text \<open>The scheduler, and the session it throttles.\<close>

record scheduler =
  bw_throttled :: "bool option"
  bw_turtle :: bool

definition current_limits :: "scheduler \<Rightarrow> settings \<Rightarrow> int \<times> int" where
  "current_limits sc cfg =
     (if bw_throttled sc = Some True
      then (bs_limited_download_kbps (cfg_bandwidth_schedule cfg), bs_limited_upload_kbps (cfg_bandwidth_schedule cfg))
      else (cfg_download_rate_limit_kbps cfg, cfg_upload_rate_limit_kbps cfg))"

definition apply_current_limits :: "scheduler \<Rightarrow> session \<Rightarrow> session" where
  "apply_current_limits sc sess =
     (let (d, u) = current_limits sc (ss_settings sess) in set_rate_limits d u sess)"

definition should_throttle :: "int \<Rightarrow> settings \<Rightarrow> bool" where
  "should_throttle hour cfg \<longleftrightarrow> bs_enabled (cfg_bandwidth_schedule cfg)
     \<and> is_within_window hour (bs_start_hour (cfg_bandwidth_schedule cfg)) (bs_end_hour (cfg_bandwidth_schedule cfg))"

definition evaluate_now :: "int \<Rightarrow> scheduler \<times> session \<Rightarrow> scheduler \<times> session" where
  "evaluate_now hour x =
     (let (sc, sess) = x; throttle = should_throttle hour (ss_settings sess)
      in if bw_throttled sc = Some throttle then x
         else let sc' = sc\<lparr>bw_throttled := Some throttle\<rparr>
              in if bw_turtle sc' then (sc', sess) else (sc', apply_current_limits sc' sess))"

definition scheduler_init :: "int \<Rightarrow> session \<Rightarrow> scheduler \<times> session" where
  "scheduler_init hour sess = evaluate_now hour (\<lparr>bw_throttled = None, bw_turtle = False\<rparr>, sess)"

definition current_download_limit_kbps :: "scheduler \<Rightarrow> settings \<Rightarrow> int" where
  "current_download_limit_kbps sc cfg = fst (current_limits sc cfg)"

definition settings_changed :: "int \<Rightarrow> scheduler \<times> session \<Rightarrow> scheduler \<times> session" where
  "settings_changed hour x = (let (sc, sess) = x in evaluate_now hour (sc\<lparr>bw_throttled := None\<rparr>, sess))"

definition set_turtle_mode :: "bool \<Rightarrow> int \<Rightarrow> int \<Rightarrow> scheduler \<times> session \<Rightarrow> scheduler \<times> session" where
  "set_turtle_mode enabled turtle_download_kbps turtle_upload_kbps x =
     (let (sc, sess) = x; sc' = sc\<lparr>bw_turtle := enabled\<rparr>
      in (sc', if enabled then set_rate_limits turtle_download_kbps turtle_upload_kbps sess
               else apply_current_limits sc' sess))"

definition TURTLE_DOWNLOAD_KBPS :: int where "TURTLE_DOWNLOAD_KBPS = 50"
definition TURTLE_UPLOAD_KBPS :: int where "TURTLE_UPLOAD_KBPS = 20"

section \<open>Edge-triggered checks\<close>

locale edge_toggle =
  fixes check :: "bool \<Rightarrow> bool option \<Rightarrow> 'x \<Rightarrow> 'x"
    and engage release :: "'x \<Rightarrow> 'x"
    and engaged :: "'x \<Rightarrow> bool"
  assumes check_off: "check False rd x = (if engaged x then release x else x)"
    and check_blind: "check True None x = x"
    and check_hot: "check True (Some True) x = (if engaged x then x else engage x)"
    and check_cool: "check True (Some False) x = (if engaged x then release x else x)"
    and engaged_engage: "engaged (engage x)"
    and engaged_release: "\<not> engaged (release x)"
begin

lemma engaged_check:
  "engaged (check en rd x) = (if \<not> en then False else case rd of None \<Rightarrow> engaged x | Some hot \<Rightarrow> hot)"
  by (cases en; cases rd; cases "rd = Some True")
     (auto simp: check_off check_blind check_hot check_cool engaged_engage engaged_release split: if_splits)

lemma check_twice: "check en rd (check en rd x) = check en rd x"
proof (cases en)
  case False
  then show ?thesis by (simp add: check_off engaged_release)
next
  case en: True
  then show ?thesis
    by (cases rd; cases "rd = Some True")
       (auto simp: check_blind check_hot check_cool engaged_engage engaged_release split: if_splits)
qed

lemma check_cases: "check en rd x \<in> {x, engage x, release x}"
  by (cases en; cases rd; cases "rd = Some True") (auto simp: check_off check_blind check_hot check_cool split: if_splits)

text \<open>What a relation between the state and the flag needs in order to survive every check.\<close>

lemma check_invariant:
  assumes "I x" "\<And>y. I y \<Longrightarrow> \<not> engaged y \<Longrightarrow> I (engage y)" "\<And>y. I y \<Longrightarrow> engaged y \<Longrightarrow> I (release y)"
  shows "I (check en rd x)"
  by (cases en; cases rd; cases "rd = Some True")
     (auto simp: assms check_off check_blind check_hot check_cool split: if_splits)

end

section \<open>Idle time\<close>

definition MS_PER_MINUTE :: int where "MS_PER_MINUTE = 60000"

text \<open>\<open>(tick_count - info.dwTime) % 2**32\<close> of two 32-bit counters; \<open>None\<close>: the query failed.\<close>

definition idle_ms :: "(32 word \<times> 32 word) option \<Rightarrow> int option" where
  "idle_ms q = map_option (\<lambda>(tick_count, last_input). (uint tick_count - uint last_input) mod 2 ^ 32) q"

type_synonym idle_state = "bool \<times> scheduler \<times> session"

definition idle_activate :: "idle_state \<Rightarrow> idle_state" where
  "idle_activate x = (True, set_turtle_mode True TURTLE_DOWNLOAD_KBPS TURTLE_UPLOAD_KBPS (snd x))"

definition idle_deactivate :: "idle_state \<Rightarrow> idle_state" where
  "idle_deactivate x = (False, set_turtle_mode False TURTLE_DOWNLOAD_KBPS TURTLE_UPLOAD_KBPS (snd x))"

definition idle_toggle :: "bool \<Rightarrow> bool option \<Rightarrow> idle_state \<Rightarrow> idle_state" where
  "idle_toggle enabled is_idle x =
     (if \<not> enabled then (if fst x then idle_deactivate x else x)
      else case is_idle of
             None \<Rightarrow> x
           | Some idle \<Rightarrow> if idle \<and> \<not> fst x then idle_activate x
                          else if \<not> idle \<and> fst x then idle_deactivate x else x)"

definition idle_check_now :: "(32 word \<times> 32 word) option \<Rightarrow> idle_state \<Rightarrow> idle_state" where
  "idle_check_now q x =
     (let cfg = ss_settings (snd (snd x))
      in idle_toggle (cfg_idle_bandwidth_reduction_enabled cfg)
           (map_option (\<lambda>ms. cfg_idle_bandwidth_reduction_minutes cfg * MS_PER_MINUTE \<le> ms) (idle_ms q)) x)"

interpretation idle: edge_toggle idle_toggle idle_activate idle_deactivate fst
  by unfold_locales (simp_all add: idle_toggle_def idle_activate_def idle_deactivate_def)

section \<open>Memory pressure\<close>

text \<open>The governor's flag, and what it throttles.\<close>

record governed =
  mg_throttling :: bool
  mg_session :: session
  mg_rss :: rss_service
  mg_history :: history_service

definition apply_pressure :: "governed \<Rightarrow> governed" where
  "apply_pressure g = g\<lparr>mg_throttling := True,
     mg_session := set_max_active_downloads (max 1 (cfg_max_active_downloads (ss_settings (mg_session g)) div 2)) (mg_session g),
     mg_rss := rss_set_paused True (mg_rss g), mg_history := history_set_paused True (mg_history g)\<rparr>"

definition restore_pressure :: "governed \<Rightarrow> governed" where
  "restore_pressure g = g\<lparr>mg_throttling := False,
     mg_session := set_max_active_downloads (cfg_max_active_downloads (ss_settings (mg_session g))) (mg_session g),
     mg_rss := rss_set_paused False (mg_rss g), mg_history := history_set_paused False (mg_history g)\<rparr>"

definition pressure_toggle :: "bool \<Rightarrow> bool option \<Rightarrow> governed \<Rightarrow> governed" where
  "pressure_toggle enabled pressure g =
     (if \<not> enabled then (if mg_throttling g then restore_pressure g else g)
      else case pressure of
             None \<Rightarrow> g
           | Some p \<Rightarrow> if p then (if \<not> mg_throttling g then apply_pressure g else g)
                       else if mg_throttling g then restore_pressure g else g)"

text \<open>\<open>percent\<close> is a float; \<open>psutil\<close> always answers.\<close>

definition memory_check_now :: "rat \<Rightarrow> governed \<Rightarrow> governed" where
  "memory_check_now percent g =
     (let cfg = ss_settings (mg_session g)
      in pressure_toggle (cfg_memory_governor_enabled cfg)
           (Some (of_int (cfg_memory_governor_threshold_percent cfg) \<le> percent)) g)"

interpretation memory: edge_toggle pressure_toggle apply_pressure restore_pressure mg_throttling
  by unfold_locales (simp_all add: pressure_toggle_def apply_pressure_def restore_pressure_def)

section \<open>Facts\<close>

text \<open>A window on the clock face: it lasts \<open>end - start\<close> hours, midnight or not.\<close>

lemma is_within_window_cyclic:
  assumes "0 \<le> h" "h < 24" "0 \<le> s" "s < 24" "0 \<le> e" "e < 24"
  shows "is_within_window h s e \<longleftrightarrow> (h - s) mod 24 < (e - s) mod 24"
proof -
  have m: "(a - b) mod 24 = (if b \<le> a then a - b else a - b + 24)" if "0 \<le> a" "a < 24" "0 \<le> b" "b < 24" for a b :: int
  proof (cases "b \<le> a")
    case True
    with that show ?thesis by (simp add: mod_pos_pos_trivial)
  next
    case False
    have "(a - b) mod 24 = (a - b + 24) mod 24" by simp
    also have "\<dots> = a - b + 24" using that False by (intro mod_pos_pos_trivial) linarith+
    finally show ?thesis using False by simp
  qed
  show ?thesis using m [of h s] m [of e s] assms by (auto simp: is_within_window_def)
qed

text \<open>The rate limits the session was last given.\<close>

fun rates_of :: "lt_cmd \<Rightarrow> (int \<times> int) option" where
  "rates_of (ApplySettings st) =
     (case (dget st ''download_rate_limit'', dget st ''upload_rate_limit'') of
        (Some (JInt d), Some (JInt u)) \<Rightarrow> Some (d, u) | _ \<Rightarrow> None)"
| "rates_of _ = None"

definition applied_rates :: "session \<Rightarrow> (int \<times> int) option" where
  "applied_rates s = (case List.map_filter rates_of (rev (ss_cmds s)) of [] \<Rightarrow> None | x # _ \<Rightarrow> Some x)"

lemma applied_set_rate_limits [simp]: "applied_rates (set_rate_limits d u s) = Some (d * 1024, u * 1024)"
  by (simp add: applied_rates_def set_rate_limits_def cmd_def map_filter_def)

lemma settings_set_rate_limits [simp]: "ss_settings (set_rate_limits d u s) = ss_settings s"
  by (simp add: set_rate_limits_def cmd_def)

lemma applied_settings [simp]: "applied_rates (s\<lparr>ss_settings := c\<rparr>) = applied_rates s"
  by (simp add: applied_rates_def)

lemma apply_current_simps [simp]:
  "applied_rates (apply_current_limits sc s) = Some (fst (current_limits sc (ss_settings s)) * 1024, snd (current_limits sc (ss_settings s)) * 1024)"
  "ss_settings (apply_current_limits sc s) = ss_settings s"
  by (simp_all add: apply_current_limits_def split: prod.split)

lemma evaluate_settings: "ss_settings (snd (evaluate_now h y)) = ss_settings (snd y)"
  by (auto simp: evaluate_now_def Let_def split: prod.split)

lemma settings_changed_settings: "ss_settings (snd (settings_changed h y)) = ss_settings (snd y)"
  by (simp add: settings_changed_def evaluate_settings split: prod.split)

lemma current_limits_turtle [simp]: "current_limits (sc\<lparr>bw_turtle := b\<rparr>) cfg = current_limits sc cfg"
  by (simp add: current_limits_def)

definition kbps :: "int \<times> int \<Rightarrow> int \<times> int" where
  "kbps l = (fst l * 1024, snd l * 1024)"

text \<open>What the limits should be.\<close>

definition wanted_limits :: "bool \<Rightarrow> int \<Rightarrow> settings \<Rightarrow> int \<times> int" where
  "wanted_limits away hour cfg =
     (if away then (TURTLE_DOWNLOAD_KBPS, TURTLE_UPLOAD_KBPS)
      else if should_throttle hour cfg
      then (bs_limited_download_kbps (cfg_bandwidth_schedule cfg), bs_limited_upload_kbps (cfg_bandwidth_schedule cfg))
      else (cfg_download_rate_limit_kbps cfg, cfg_upload_rate_limit_kbps cfg))"

text \<open>What touches the limits: the scheduler's tick, an edit of the settings that notifies it, the idle check,
  a profile applied by the page or by the network switcher, which gives the session the base limits of the
  profile directly, and a change of the settings nobody is told of (a restored snapshot).\<close>

datatype bw_event =
    BwTick int
  | BwSettings settings int
  | BwIdle "(32 word \<times> 32 word) option"
  | BwProfile settings
  | BwUnnotified settings

fun bw_step :: "bw_event \<Rightarrow> int \<times> idle_state \<Rightarrow> int \<times> idle_state" where
  "bw_step (BwTick hour) (_, away, x) = (hour, away, evaluate_now hour x)"
| "bw_step (BwSettings cfg hour) (_, away, sc, sess) = (hour, away, settings_changed hour (sc, sess\<lparr>ss_settings := cfg\<rparr>))"
| "bw_step (BwIdle q) (hour, x) = (hour, idle_check_now q x)"
| "bw_step (BwProfile cfg) (hour, away, sc, sess) =
     (hour, away, sc, set_rate_limits (cfg_download_rate_limit_kbps cfg) (cfg_upload_rate_limit_kbps cfg) (sess\<lparr>ss_settings := cfg\<rparr>))"
| "bw_step (BwUnnotified cfg) (hour, away, sc, sess) = (hour, away, sc, sess\<lparr>ss_settings := cfg\<rparr>)"

fun scheduled :: "bw_event \<Rightarrow> bool" where
  "scheduled (BwProfile cfg) = False"
| "scheduled (BwUnnotified cfg) = False"
| "scheduled _ = True"

abbreviation bw_run :: "bw_event list \<Rightarrow> int \<times> idle_state \<Rightarrow> int \<times> idle_state" where
  "bw_run events x \<equiv> foldl (\<lambda>x e. bw_step e x) x events"

definition bw_ok :: "int \<times> idle_state \<Rightarrow> bool" where
  "bw_ok x = (let (hour, away, sc, sess) = x
     in bw_turtle sc = away \<and> bw_throttled sc = Some (should_throttle hour (ss_settings sess))
      \<and> applied_rates sess = Some (kbps (wanted_limits away hour (ss_settings sess))))"

lemma bw_ok_evaluate:
  assumes "bw_turtle sc = away" "bw_throttled sc = Some (should_throttle hour0 (ss_settings sess))"
    and "applied_rates sess = Some (kbps (wanted_limits away hour0 (ss_settings sess)))"
  shows "bw_ok (hour, away, evaluate_now hour (sc, sess))"
proof (cases "should_throttle hour (ss_settings sess) = should_throttle hour0 (ss_settings sess)")
  case True
  then show ?thesis using assms by (simp add: bw_ok_def evaluate_now_def wanted_limits_def)
next
  case False
  then show ?thesis using assms
    by (auto simp: bw_ok_def evaluate_now_def Let_def wanted_limits_def kbps_def current_limits_def)
qed

lemma bw_ok_changed:
  assumes "bw_turtle sc = away" "away \<longrightarrow> applied_rates sess = Some (kbps (TURTLE_DOWNLOAD_KBPS, TURTLE_UPLOAD_KBPS))"
  shows "bw_ok (hour, away, settings_changed hour (sc, sess))"
  using assms
  by (auto simp: bw_ok_def settings_changed_def evaluate_now_def Let_def wanted_limits_def kbps_def current_limits_def)

lemma bw_ok_step: "bw_ok x \<Longrightarrow> scheduled e \<Longrightarrow> bw_ok (bw_step e x)"
proof -
  obtain hour away sc sess where x: "x = (hour, away, sc, sess)" by (metis prod_cases4)
  assume ok: "bw_ok x" and e: "scheduled e"
  show "bw_ok (bw_step e x)"
  proof (cases e)
    case (BwTick h)
    then show ?thesis using ok bw_ok_evaluate [of sc away hour sess h] by (simp add: x bw_ok_def [of "(hour, away, sc, sess)"])
  next
    case (BwSettings cfg h)
    then show ?thesis using ok
      by (auto simp: x bw_ok_def [of "(hour, away, sc, sess)"] wanted_limits_def intro!: bw_ok_changed)
  next
    case (BwIdle q)
    have "bw_ok (hour, idle_toggle en rd (away, sc, sess))" for en rd
      by (rule idle.check_invariant [of "\<lambda>y. bw_ok (hour, y)"])
         (use ok in \<open>auto simp: x bw_ok_def idle_activate_def idle_deactivate_def set_turtle_mode_def Let_def
            wanted_limits_def kbps_def current_limits_def split: prod.splits\<close>)
    then show ?thesis by (simp add: BwIdle x idle_check_now_def Let_def)
  qed (use e in simp_all)
qed

lemma bw_ok_run: "bw_ok x \<Longrightarrow> list_all scheduled events \<Longrightarrow> bw_ok (bw_run events x)"
  by (induction events arbitrary: x) (simp_all add: bw_ok_step)

text \<open>The turtle mode is the idle service's, whatever happens.\<close>

lemma evaluate_turtle: "bw_turtle (fst (evaluate_now h y)) = bw_turtle (fst y)"
  by (auto simp: evaluate_now_def Let_def split: prod.split)

lemma bw_turtle_step:
  "bw_turtle (fst (snd (snd x))) = fst (snd x) \<Longrightarrow> bw_turtle (fst (snd (snd (bw_step e x)))) = fst (snd (bw_step e x))"
proof -
  obtain hour away sc sess where x: "x = (hour, away, sc, sess)" by (metis prod_cases4)
  assume t: "bw_turtle (fst (snd (snd x))) = fst (snd x)"
  have "bw_turtle (fst (snd (idle_toggle en rd (away, sc, sess)))) = fst (idle_toggle en rd (away, sc, sess))" for en rd
    by (rule idle.check_invariant [of "\<lambda>y. bw_turtle (fst (snd y)) = fst y"])
      (use t in \<open>auto simp: x idle_activate_def idle_deactivate_def set_turtle_mode_def Let_def split: prod.splits\<close>)
  then show ?thesis
    using t by (cases e) (simp_all add: x evaluate_turtle settings_changed_def idle_check_now_def Let_def)
qed

lemma bw_turtle_run:
  "bw_turtle (fst (snd (snd x))) = fst (snd x) \<Longrightarrow> bw_turtle (fst (snd (snd (bw_run events x)))) = fst (snd (bw_run events x))"
  by (induction events arbitrary: x) (simp_all add: bw_turtle_step)

section \<open>Properties\<close>

text \<open>C18: from the start, and after whatever happened from every edit that notifies the scheduler while the
  user is present, through any sequence of ticks, notifying edits and idle checks, the limits the
  session was last given are the ones that should apply: the turtle values while the user is away,
  otherwise the schedule's inside its window and the base ones outside, for the settings as they are
  now. A profile, which sets the limits directly, and a change of the settings that notifies nobody
  end it until the next such edit.\<close>

theorem rate_limits_follow:
  assumes "start = (hour0, False, scheduler_init hour0 sess0)
      \<or> start = bw_step (BwSettings cfg h) (bw_run before (hour0, False, scheduler_init hour0 sess0))
         \<and> \<not> fst (snd (bw_run before (hour0, False, scheduler_init hour0 sess0)))"
    and "list_all scheduled events" and "bw_run events start = (hour, away, sc, sess)"
  shows "applied_rates sess = Some (kbps (wanted_limits away hour (ss_settings sess))) \<and> bw_turtle sc = away"
proof -
  have init: "bw_ok (hour0, False, scheduler_init hour0 sess0)"
    by (auto simp: bw_ok_def scheduler_init_def evaluate_now_def Let_def wanted_limits_def kbps_def current_limits_def)
  have "bw_ok start"
    using assms(1)
  proof (elim disjE conjE)
    assume s: "start = bw_step (BwSettings cfg h) (bw_run before (hour0, False, scheduler_init hour0 sess0))"
      and present: "\<not> fst (snd (bw_run before (hour0, False, scheduler_init hour0 sess0)))"
    obtain hour' sc' sess' where r: "bw_run before (hour0, False, scheduler_init hour0 sess0) = (hour', False, sc', sess')"
      using present by (metis fst_conv snd_conv prod_cases4)
    have "\<not> bw_turtle sc'"
      using bw_turtle_run [of "(hour0, False, scheduler_init hour0 sess0)" before] init unfolding r
      by (simp add: bw_ok_def Let_def split: prod.splits)
    then show ?thesis unfolding s r bw_step.simps by (intro bw_ok_changed) simp_all
  qed (simp add: init)
  from bw_ok_run [OF this assms(2)] show ?thesis unfolding assms(3) by (simp add: bw_ok_def)
qed

text \<open>The idle time is exact across the wrap of the 32-bit tick counters, for absences up to 49.7
  days, so that turtle mode is on after a check exactly when the user has been away for the set
  number of minutes, and off when the option is off.\<close>

theorem idle_turtle_exact:
  assumes "0 \<le> d" "d < 2 ^ 32" "cfg = ss_settings (snd (snd x))"
  shows "idle_ms (Some (word_of_int (t + d), word_of_int t)) = Some d
    \<and> (fst (idle_check_now (Some (word_of_int (t + d), word_of_int t)) x)
        \<longleftrightarrow> cfg_idle_bandwidth_reduction_enabled cfg \<and> cfg_idle_bandwidth_reduction_minutes cfg * 60000 \<le> d)"
proof -
  have u: "uint (word_of_int k :: 32 word) = k mod 2 ^ 32" for k by (simp add: uint_word_of_int)
  have "(uint (word_of_int (t + d) :: 32 word) - uint (word_of_int t :: 32 word)) mod 2 ^ 32 = (t + d - t) mod 2 ^ 32"
    unfolding u by (rule mod_diff_eq)
  also have "\<dots> = d" using assms(1,2) by simp
  finally have "idle_ms (Some (word_of_int (t + d), word_of_int t)) = Some d" by (simp add: idle_ms_def)
  moreover have "idle_check_now (Some (word_of_int (t + d), word_of_int t)) x
      = idle_toggle (cfg_idle_bandwidth_reduction_enabled cfg)
          (map_option (\<lambda>ms. cfg_idle_bandwidth_reduction_minutes cfg * 60000 \<le> ms) (Some d)) x"
    using calculation by (simp add: idle_check_now_def assms(3) Let_def MS_PER_MINUTE_def)
  ultimately show ?thesis by (simp add: idle.engaged_check)
qed

text \<open>The number of active downloads the session was last told.\<close>

fun active_of :: "lt_cmd \<Rightarrow> int option" where
  "active_of (ApplySettings st) = (case dget st ''active_downloads'' of Some (JInt n) \<Rightarrow> Some n | _ \<Rightarrow> None)"
| "active_of _ = None"

definition applied_active :: "session \<Rightarrow> int option" where
  "applied_active s = (case List.map_filter active_of (rev (ss_cmds s)) of [] \<Rightarrow> None | x # _ \<Rightarrow> Some x)"

lemma set_max_simps [simp]:
  "applied_active (set_max_active_downloads n s) = Some n"
  "ss_settings (set_max_active_downloads n s) = ss_settings s"
  by (simp_all add: applied_active_def set_max_active_downloads_def cmd_def map_filter_def)

definition governed_ok :: "settings \<Rightarrow> int option \<Rightarrow> governed \<Rightarrow> bool" where
  "governed_ok cfg before g \<longleftrightarrow> ss_settings (mg_session g) = cfg
     \<and> ru_paused (mg_rss g) = mg_throttling g \<and> hy_paused (mg_history g) = mg_throttling g
     \<and> (if mg_throttling g then applied_active (mg_session g) = Some (max 1 (cfg_max_active_downloads cfg div 2))
        else applied_active (mg_session g) \<in> {before, Some (cfg_max_active_downloads cfg)})"

lemma governed_ok_check: "governed_ok cfg before g \<Longrightarrow> governed_ok cfg before (memory_check_now p g)"
  unfolding memory_check_now_def Let_def
  by (rule memory.check_invariant)
     (auto simp: governed_ok_def apply_pressure_def restore_pressure_def rss_set_paused_def history_set_paused_def)

text \<open>Whatever the memory readings, the last one decides: at or above the threshold the session
  runs at half its downloads (at least one), with feeds and history paused; below it, or with the
  option off, all three are as the settings say.\<close>

theorem memory_governor_follows:
  assumes "\<not> mg_throttling g" "\<not> ru_paused (mg_rss g)" "\<not> hy_paused (mg_history g)"
    and "cfg = ss_settings (mg_session g)" "applied_active (mg_session g) = Some (cfg_max_active_downloads cfg)"
    and "g' = foldl (\<lambda>g p. memory_check_now p g) g (percents @ [p])"
  shows "(mg_throttling g' \<longleftrightarrow> cfg_memory_governor_enabled cfg \<and> of_int (cfg_memory_governor_threshold_percent cfg) \<le> p)
    \<and> ru_paused (mg_rss g') = mg_throttling g' \<and> hy_paused (mg_history g') = mg_throttling g'
    \<and> applied_active (mg_session g')
        = Some (if mg_throttling g' then max 1 (cfg_max_active_downloads cfg div 2) else cfg_max_active_downloads cfg)"
proof -
  let ?run = "\<lambda>ps. foldl (\<lambda>g p. memory_check_now p g) g ps"
  have ok: "governed_ok cfg (Some (cfg_max_active_downloads cfg)) (?run ps)" for ps
    by (induction ps rule: rev_induct) (use assms(1-5) in \<open>auto simp: governed_ok_def [of _ _ g] intro: governed_ok_check\<close>)
  have "ss_settings (mg_session (?run percents)) = cfg" using ok [of percents] by (simp add: governed_ok_def)
  then have "mg_throttling g' \<longleftrightarrow> cfg_memory_governor_enabled cfg \<and> of_int (cfg_memory_governor_threshold_percent cfg) \<le> p"
    by (simp add: assms(6) memory_check_now_def Let_def memory.engaged_check)
  then show ?thesis using ok [of "percents @ [p]"] by (auto simp: assms(6) governed_ok_def split: if_splits)
qed

text \<open>Concrete inputs.\<close>

theorem rate_limits_follow_witness:
  "let night = DEFAULT_SETTINGS\<lparr>cfg_bandwidth_schedule := \<lparr>bs_enabled = True, bs_start_hour = 22, bs_end_hour = 6,
                 bs_limited_download_kbps = 100, bs_limited_upload_kbps = 30\<rparr>\<rparr>;
       x = bw_run [BwTick 23] (bw_step (BwSettings night 21) (bw_run [BwProfile night] (12, False, scheduler_init 12 small_session)))
   in applied_rates (snd (snd (snd x))) = Some (102400, 30720)"
proof -
  let ?night = "DEFAULT_SETTINGS\<lparr>cfg_bandwidth_schedule := \<lparr>bs_enabled = True, bs_start_hour = 22, bs_end_hour = 6,
                 bs_limited_download_kbps = 100, bs_limited_upload_kbps = 30\<rparr>\<rparr>"
  let ?start = "bw_step (BwSettings ?night 21) (bw_run [BwProfile ?night] (12, False, scheduler_init 12 small_session))"
  let ?x = "bw_run [BwTick 23] ?start"
  obtain hour away sc sess where x: "?x = (hour, away, sc, sess)" by (metis prod_cases4)
  obtain sc0 sess0 where init: "scheduler_init 12 small_session = (sc0, sess0)" by fastforce
  define sess1 where "sess1 = set_rate_limits (cfg_download_rate_limit_kbps ?night) (cfg_upload_rate_limit_kbps ?night) (sess0\<lparr>ss_settings := ?night\<rparr>)"
  have "hour = 23" "\<not> away" and e: "evaluate_now 23 (settings_changed 21 (sc0, sess1\<lparr>ss_settings := ?night\<rparr>)) = (sc, sess)"
    using x unfolding init by (simp_all add: sess1_def)
  moreover have "ss_settings sess = ?night"
    using arg_cong [OF e, of "\<lambda>y. ss_settings (snd y)"]
    by (simp add: evaluate_settings settings_changed_settings)
  moreover have "\<not> fst (snd (bw_run [BwProfile ?night] (12, False, scheduler_init 12 small_session)))" by (simp add: init)
  ultimately show ?thesis
    using rate_limits_follow [OF disjI2 [OF conjI [OF refl]] _ x] unfolding Let_def x
    by (simp add: wanted_limits_def should_throttle_def is_within_window_def kbps_def)
qed

theorem idle_turtle_exact_witness:
  "idle_ms (Some (word_of_int 5, word_of_int (- 900000))) = Some 900005"
  using idle_turtle_exact [of 900005 _ "(False, \<lparr>bw_throttled = None, bw_turtle = False\<rparr>, small_session)" "- 900000"] by simp

theorem memory_governor_follows_witness:
  "let s = small_session\<lparr>ss_settings := DEFAULT_SETTINGS\<lparr>cfg_memory_governor_enabled := True\<rparr>,
             ss_cmds := [ApplySettings [(''active_downloads'', JInt 8)]]\<rparr>;
       g = \<lparr>mg_throttling = False, mg_session = s, mg_rss = feed_service, mg_history = \<lparr>hy_rows = [], hy_last_known = [], hy_paused = False\<rparr>\<rparr>
   in applied_active (mg_session (foldl (\<lambda>g p. memory_check_now p g) g ([50, 95] @ [97]))) = Some 4"
  unfolding Let_def
  by (subst memory_governor_follows [THEN conjunct2, THEN conjunct2, THEN conjunct2, OF _ _ _ refl _ refl])
     (simp_all add: feed_service_def applied_active_def map_filter_def DEFAULT_SETTINGS_def memory_check_now_def
        pressure_toggle_def apply_pressure_def set_max_active_downloads_def cmd_def)

end
