(* ===== verification/Automation.thy ===== *)
theory Automation
  imports Routing Session_Props
begin

text \<open>
  What happens without the user: \<open>engine/watch_folder_service.py\<close> (torrent files dropped in a
  folder), \<open>engine/post_complete_action_service.py\<close> (a rule's action on a finished torrent) and
  \<open>engine/auto_shutdown_service.py\<close> (the countdown to a shutdown). The shutdown service is a state
  machine; \<open>sd_trace\<close> relates the events it saw to its state.
\<close>

section \<open>Watch folder\<close>

text \<open>A \<open>*.torrent\<close> entry of the folder, in sorted order, with what libtorrent makes of it
  (\<open>wf_info\<close> is \<open>None\<close> when it does not parse), what \<open>add_torrent\<close> answers (\<open>None\<close>: it raises) and
  whether the file can be moved.\<close>

record wf_file =
  wf_name :: string
  wf_stem :: string
  wf_is_file :: bool
  wf_info :: "torrent_info option"
  wf_trackers :: "string list"
  wf_added :: "handle option"
  wf_movable :: bool

record watch =
  wt_folder :: "wf_file list"
  wt_processed :: "string list"
  wt_failed :: "string list"

definition read_trackers :: "wf_file \<Rightarrow> string list option" where
  "read_trackers f = map_option (\<lambda>_. wf_trackers f) (wf_info f)"

definition needs_trackers :: "routing_rule list \<Rightarrow> bool" where
  "needs_trackers rules = list_ex (\<lambda>r. rr_match_field r = ''tracker'' \<and> rr_pattern r \<noteq> []) rules"

text \<open>\<open>_move_to\<close>: a file that cannot be moved stays in the folder.\<close>

definition move_to :: "bool \<Rightarrow> wf_file \<Rightarrow> watch \<Rightarrow> watch" where
  "move_to processed f wt =
     (if \<not> wf_movable f then wt\<lparr>wt_folder := wt_folder wt @ [f]\<rparr>
      else if processed then wt\<lparr>wt_processed := wt_processed wt @ [wf_name f]\<rparr>
      else wt\<lparr>wt_failed := wt_failed wt @ [wf_name f]\<rparr>)"

text \<open>The add of one file: \<open>None\<close> when it raises, with what the session is by then.\<close>

definition import_file :: "world \<Rightarrow> atp \<Rightarrow> routing_rule list \<Rightarrow> wf_file \<Rightarrow> session \<Rightarrow> session \<times> bool" where
  "import_file w blank rules f sess =
     (let matched = find_matching_rule rules (wf_stem f) (if needs_trackers rules then read_trackers f else None);
          destination = (case matched of Some r \<Rightarrow> rr_destination r | None \<Rightarrow> cfg_default_download_dir (ss_settings sess))
      in case wf_info f of
           None \<Rightarrow> (sess, False)
         | Some ti \<Rightarrow>
             (let excluded = auto_exclude_indices (scan_files (files_from_torrent_info ti) [] None)
                               (cfg_danger_auto_exclude_threshold (ss_settings sess));
                  (sess1, ok) = add_torrent_from_file w (wf_added f) blank ti (Some destination) excluded sess
              in (if ok then (case matched of
                                Some r \<Rightarrow> set_matched_rule_name (info_hash_hex_of (ti_hashes ti)) (Some (rr_name r)) sess1
                              | None \<Rightarrow> sess1)
                  else sess1, ok)))"

definition scan_file :: "world \<Rightarrow> atp \<Rightarrow> routing_rule list \<Rightarrow> wf_file \<Rightarrow> watch \<times> session \<Rightarrow> watch \<times> session" where
  "scan_file w blank rules f x =
     (let (wt, sess) = x
      in if \<not> wf_is_file f then (wt\<lparr>wt_folder := wt_folder wt @ [f]\<rparr>, sess)
         else let (sess1, ok) = import_file w blank rules f sess in (move_to ok f wt, sess1))"

text \<open>\<open>is_dir\<close>: whether the configured path is a directory.\<close>

definition scan_now :: "world \<Rightarrow> atp \<Rightarrow> routing_rule list \<Rightarrow> bool \<Rightarrow> watch \<times> session \<Rightarrow> watch \<times> session" where
  "scan_now w blank rules is_dir x =
     (let (wt, sess) = x; cfg = ss_settings sess
      in if \<not> cfg_watch_folder_enabled cfg \<or> cfg_watch_folder_path cfg = [] \<or> \<not> is_dir then x
         else foldl (\<lambda>x f. scan_file w blank rules f x) (wt\<lparr>wt_folder := []\<rparr>, sess) (wt_folder wt))"

section \<open>Action after completion\<close>

text \<open>\<open>pc_pending\<close> extractions run in the pool; \<open>pc_jobs\<close> are the archives handed to it.\<close>

record post_complete =
  pc_pending :: nat
  pc_jobs :: "(string \<times> string list) list"

definition has_pending_extractions :: "post_complete \<Rightarrow> bool" where
  "has_pending_extractions pc \<longleftrightarrow> 0 < pc_pending pc"

definition zip_paths :: "world \<Rightarrow> string \<Rightarrow> string \<Rightarrow> session \<Rightarrow> string list" where
  "zip_paths w save_path ih sess =
     map (\<lambda>e. w_join w save_path (fe_path e))
       (filter (\<lambda>e. suffix ''.zip'' (py_lower (fe_path e))) (get_torrent_files w sess ih))"

definition unzip_files :: "world \<Rightarrow> string \<Rightarrow> string \<Rightarrow> post_complete \<times> session \<Rightarrow> post_complete \<times> session" where
  "unzip_files w save_path ih x =
     (let (pc, sess) = x; zips = zip_paths w save_path ih sess
      in if zips = [] then x else (pc\<lparr>pc_pending := pc_pending pc + 1, pc_jobs := pc_jobs pc @ [(ih, zips)]\<rparr>, sess))"

definition post_on_finished :: "world \<Rightarrow> routing_rule list \<Rightarrow> string \<Rightarrow> post_complete \<times> session \<Rightarrow> (post_complete \<times> session) \<times> bool" where
  "post_on_finished w rules ih x =
     (let (pc, sess) = x
      in case get_record sess ih of
           None \<Rightarrow> (x, True)
         | Some record \<Rightarrow>
             (case tr_matched_rule_name record of
                None \<Rightarrow> (x, True)
              | Some n \<Rightarrow>
                  if n = [] then (x, True)
                  else case find (\<lambda>r. rr_name r = n) rules of
                         None \<Rightarrow> (x, True)
                       | Some rule \<Rightarrow>
                           if rr_action rule = ''none'' then (x, True)
                           else if rr_action rule = ''move'' \<and> rr_move_to rule \<noteq> []
                           then (let (sess1, ok) = move_storage w ih (rr_move_to rule) sess in ((pc, sess1), ok))
                           else if rr_action rule = ''unzip'' then (unzip_files w (tr_save_path record) ih x, True)
                           else (x, True)))"

text \<open>The flag: whether \<open>extractions_idle\<close> is emitted; \<open>quitting\<close> is \<open>_cancel_event\<close>.\<close>

definition on_extraction_finished :: "bool \<Rightarrow> post_complete \<Rightarrow> post_complete \<times> bool" where
  "on_extraction_finished quitting pc =
     (let pc' = pc\<lparr>pc_pending := pc_pending pc - 1\<rparr> in (pc', pc_pending pc' = 0 \<and> \<not> quitting))"

text \<open>The worker. What happens to a member: extracted, stopped inside at a chunk, or an error;
  \<open>quit n\<close> is the event at the \<open>n\<close>-th check. The result: the members extracted, in order, the
  checks made, and whether the run goes on.\<close>

datatype member_result = Extracted | StoppedInside | ExtractError

fun extract_members :: "(nat \<Rightarrow> bool) \<Rightarrow> nat \<Rightarrow> (string \<times> member_result) list \<Rightarrow> string list \<times> nat \<times> bool" where
  "extract_members quit n [] = ([], n, True)"
| "extract_members quit n ((m, r) # ms) =
     (if quit n then ([], Suc n, False)
      else case r of
             StoppedInside \<Rightarrow> ([], Suc n, False)
           | ExtractError \<Rightarrow> ([], Suc n, True)
           | Extracted \<Rightarrow> (let (done, k, go) = extract_members quit (Suc n) ms in (m # done, k, go)))"

text \<open>An archive is the list of its members, \<open>None\<close> when it does not open. The last component:
  whether \<open>finished\<close> is emitted.\<close>

fun unzip_run :: "(nat \<Rightarrow> bool) \<Rightarrow> nat \<Rightarrow> (string \<times> member_result) list option list \<Rightarrow> string list \<times> bool" where
  "unzip_run quit n [] = ([], \<not> quit n)"
| "unzip_run quit n (None # zs) = unzip_run quit n zs"
| "unzip_run quit n (Some ms # zs) =
     (let (done, k, go) = extract_members quit n ms
      in if go then let (more, fin) = unzip_run quit k zs in (done @ more, fin)
         else (done, \<not> quit k))"

section \<open>Automatic shutdown\<close>

definition all_torrents_idle :: "torrent_record list \<Rightarrow> bool" where
  "all_torrents_idle records = (\<not> list_ex (\<lambda>r. tr_state r \<in> set ACTIVE_DOWNLOAD_STATES) records)"

datatype sd_out = CountdownStarted int int | RetryNextTurn | SystemCommand string

record shutdown_service =
  sd_deferred :: bool
  sd_pending :: "string option"
  sd_stopped :: bool
  sd_out :: "sd_out list"

definition shutdown_init :: shutdown_service where
  "shutdown_init = \<lparr>sd_deferred = False, sd_pending = None, sd_stopped = False, sd_out = []\<rparr>"

definition sd_emit :: "sd_out \<Rightarrow> shutdown_service \<Rightarrow> shutdown_service" where
  "sd_emit x s = s\<lparr>sd_out := sd_out s @ [x]\<rparr>"

text \<open>\<open>busy\<close>: what each busy source answers. \<open>CountdownStarted\<close> carries the announced delay and the
  timer's milliseconds.\<close>

definition maybe_start_countdown :: "settings \<Rightarrow> torrent_record list \<Rightarrow> bool list \<Rightarrow> shutdown_service \<Rightarrow> shutdown_service" where
  "maybe_start_countdown cfg records busy s =
     (if sd_stopped s \<or> \<not> cfg_auto_shutdown_enabled cfg then s
      else if sd_pending s \<noteq> None then s
      else if \<not> all_torrents_idle records then s
      else if list_ex id busy then s\<lparr>sd_deferred := True\<rparr>
      else sd_emit (CountdownStarted (cfg_auto_shutdown_delay_seconds cfg) (max 0 (cfg_auto_shutdown_delay_seconds cfg) * 1000))
             (s\<lparr>sd_pending := Some (cfg_auto_shutdown_action cfg)\<rparr>))"

definition on_busy_source_idle :: "shutdown_service \<Rightarrow> shutdown_service" where
  "on_busy_source_idle s = (if sd_deferred s then sd_emit RetryNextTurn (s\<lparr>sd_deferred := False\<rparr>) else s)"

definition cancel_shutdown :: "shutdown_service \<Rightarrow> shutdown_service" where
  "cancel_shutdown s = s\<lparr>sd_pending := None\<rparr>"

definition stop_shutdown :: "shutdown_service \<Rightarrow> shutdown_service" where
  "stop_shutdown s = cancel_shutdown (s\<lparr>sd_stopped := True\<rparr>)"

definition execute :: "string \<Rightarrow> shutdown_service \<Rightarrow> shutdown_service" where
  "execute action s = sd_emit (SystemCommand (if action = ''hibernate'' then ''shutdown /h'' else ''shutdown /s /t 0'')) s"

definition on_countdown_elapsed :: "settings \<Rightarrow> shutdown_service \<Rightarrow> shutdown_service" where
  "on_countdown_elapsed cfg s =
     (let s' = s\<lparr>sd_pending := None\<rparr>
      in case sd_pending s of
           None \<Rightarrow> s'
         | Some action \<Rightarrow> if sd_stopped s' then s'
                          else if \<not> cfg_auto_shutdown_enabled cfg then s'
                          else execute action s')"

datatype sd_event =
    SdFinished settings "torrent_record list" "bool list"
  | SdRetry settings "torrent_record list" "bool list"
  | SdBusyIdle
  | SdCancel
  | SdElapsed settings
  | SdStop

fun sd_step :: "sd_event \<Rightarrow> shutdown_service \<Rightarrow> shutdown_service" where
  "sd_step (SdFinished cfg records busy) s = maybe_start_countdown cfg records busy s"
| "sd_step (SdRetry cfg records busy) s = maybe_start_countdown cfg records busy s"
| "sd_step SdBusyIdle s = on_busy_source_idle s"
| "sd_step SdCancel s = cancel_shutdown s"
| "sd_step (SdElapsed cfg) s = on_countdown_elapsed cfg s"
| "sd_step SdStop s = stop_shutdown s"

inductive sd_trace :: "sd_event list \<Rightarrow> shutdown_service \<Rightarrow> bool" where
  sd_start: "sd_trace [] shutdown_init"
| sd_next: "sd_trace es s \<Longrightarrow> sd_trace (es @ [e]) (sd_step e s)"

section \<open>Facts\<close>

lemma add_from_file_flag: "snd (add_torrent_from_file w added blank ti sp excl s) = (added \<noteq> None)"
  by (auto simp: add_torrent_from_file_def add_def andthen_def Let_def split: option.split prod.split)

lemma import_flag: "snd (import_file w blank rules f s) \<longleftrightarrow> wf_info f \<noteq> None \<and> wf_added f \<noteq> None"
  by (cases "wf_info f") (simp_all add: import_file_def Let_def case_prod_beta add_from_file_flag)

lemma scan_file_watch:
  "wf_movable f \<Longrightarrow> wf_is_file f \<Longrightarrow> fst (scan_file w blank rules f (wt, s)) =
     (if wf_info f \<noteq> None \<and> wf_added f \<noteq> None then wt\<lparr>wt_processed := wt_processed wt @ [wf_name f]\<rparr>
      else wt\<lparr>wt_failed := wt_failed wt @ [wf_name f]\<rparr>)"
  using import_flag [of w blank rules f s] by (auto simp: scan_file_def move_to_def split: prod.split)

definition importable :: "wf_file \<Rightarrow> bool" where
  "importable f \<longleftrightarrow> wf_info f \<noteq> None \<and> wf_added f \<noteq> None"

lemma scan_files_watch:
  "list_all wf_movable fs \<Longrightarrow> fst (foldl (\<lambda>x f. scan_file w blank rules f x) (wt, s) fs) =
     \<lparr>wt_folder = wt_folder wt @ filter (\<lambda>f. \<not> wf_is_file f) fs,
      wt_processed = wt_processed wt @ map wf_name (filter (\<lambda>f. wf_is_file f \<and> importable f) fs),
      wt_failed = wt_failed wt @ map wf_name (filter (\<lambda>f. wf_is_file f \<and> \<not> importable f) fs)\<rparr>"
proof (induction fs arbitrary: wt s)
  case Nil
  then show ?case by simp
next
  case (Cons f fs)
  obtain wt1 s1 where f: "scan_file w blank rules f (wt, s) = (wt1, s1)" by fastforce
  have "fst (foldl (\<lambda>x f. scan_file w blank rules f x) (wt, s) (f # fs)) = fst (foldl (\<lambda>x f. scan_file w blank rules f x) (wt1, s1) fs)"
    by (simp add: f)
  also have "\<dots> = \<lparr>wt_folder = wt_folder wt1 @ filter (\<lambda>f. \<not> wf_is_file f) fs,
      wt_processed = wt_processed wt1 @ map wf_name (filter (\<lambda>f. wf_is_file f \<and> importable f) fs),
      wt_failed = wt_failed wt1 @ map wf_name (filter (\<lambda>f. wf_is_file f \<and> \<not> importable f) fs)\<rparr>"
    using Cons by simp
  finally have eq: "fst (foldl (\<lambda>x f. scan_file w blank rules f x) (wt, s) (f # fs)) = \<dots>" .
  show ?case
  proof (cases "wf_is_file f")
    case True
    with Cons.prems have "wt1 = (if importable f then wt\<lparr>wt_processed := wt_processed wt @ [wf_name f]\<rparr>
      else wt\<lparr>wt_failed := wt_failed wt @ [wf_name f]\<rparr>)"
      using scan_file_watch [of f w blank rules wt s] f by (simp add: importable_def)
    then show ?thesis unfolding eq using True by simp
  next
    case False
    then have "wt1 = wt\<lparr>wt_folder := wt_folder wt @ [f]\<rparr>" using f by (simp add: scan_file_def)
    then show ?thesis unfolding eq using False by simp
  qed
qed

lemma add_settings: "ss_settings (fst (add w added a aw s)) = ss_settings s"
  by (auto simp: add_def Let_def set_record_def cmd_def emit_def split: option.split prod.split)

lemma add_file_settings: "ss_settings (fst (add_torrent_from_file w added blank ti sp excl s)) = ss_settings s"
  by (simp add: add_torrent_from_file_def Let_def andthen_def emit_def add_settings)

lemma import_settings: "ss_settings (fst (import_file w blank rules f s)) = ss_settings s"
  by (cases "wf_info f")
     (simp_all add: import_file_def Let_def case_prod_beta add_file_settings set_matched_rule_name_def
        on_record_def set_record_def split: option.split)

lemma scan_settings: "ss_settings (snd (foldl (\<lambda>x f. scan_file w blank rules f x) x fs)) = ss_settings (snd x)"
  by (induction fs arbitrary: x) (auto simp: scan_file_def import_settings case_prod_beta)

definition starts_countdown :: "sd_event \<Rightarrow> string \<Rightarrow> bool" where
  "starts_countdown e action = (case e of
      SdFinished cfg records busy \<Rightarrow> cfg_auto_shutdown_enabled cfg \<and> all_torrents_idle records \<and> \<not> list_ex id busy
        \<and> action = cfg_auto_shutdown_action cfg
    | SdRetry cfg records busy \<Rightarrow> cfg_auto_shutdown_enabled cfg \<and> all_torrents_idle records \<and> \<not> list_ex id busy
        \<and> action = cfg_auto_shutdown_action cfg
    | _ \<Rightarrow> False)"

definition ends_countdown :: "sd_event \<Rightarrow> bool" where
  "ends_countdown e = (case e of SdCancel \<Rightarrow> True | SdElapsed _ \<Rightarrow> True | SdStop \<Rightarrow> True | _ \<Rightarrow> False)"

definition armed :: "sd_event list \<Rightarrow> string \<Rightarrow> bool" where
  "armed es action \<longleftrightarrow> (\<exists>pre e mid. es = pre @ e # mid \<and> starts_countdown e action \<and> \<not> list_ex ends_countdown mid)"

lemma armed_snoc: "armed es a \<Longrightarrow> \<not> ends_countdown e \<Longrightarrow> armed (es @ [e]) a"
proof -
  assume "armed es a" and e: "\<not> ends_countdown e"
  then obtain pre e0 mid where "es = pre @ e0 # mid" "starts_countdown e0 a" "\<not> list_ex ends_countdown mid"
    unfolding armed_def by blast
  then show ?thesis unfolding armed_def using e
    by (intro exI [of _ pre] exI [of _ e0] exI [of _ "mid @ [e]"]) simp
qed

lemma armed_start: "starts_countdown e a \<Longrightarrow> armed (es @ [e]) a"
  unfolding armed_def by (rule exI [of _ es], rule exI [of _ e], rule exI [of _ "[]"]) simp

lemma maybe_start_cases:
  assumes "s' = maybe_start_countdown cfg records busy s"
  shows "(sd_pending s' = sd_pending s \<or> (sd_pending s = None \<and> \<not> sd_stopped s \<and> cfg_auto_shutdown_enabled cfg
      \<and> all_torrents_idle records \<and> \<not> list_ex id busy \<and> sd_pending s' = Some (cfg_auto_shutdown_action cfg)))
    \<and> sd_stopped s' = sd_stopped s"
  using assms by (auto simp: maybe_start_countdown_def sd_emit_def)

lemma sd_trace_invariant:
  "sd_trace es s \<Longrightarrow> (sd_stopped s \<longleftrightarrow> SdStop \<in> set es) \<and> (\<forall>a. sd_pending s = Some a \<longrightarrow> armed es a \<and> SdStop \<notin> set es)"
proof (induction rule: sd_trace.induct)
  case sd_start
  then show ?case by (simp add: shutdown_init_def)
next
  case (sd_next es s e)
  note IH = sd_next.IH
  show ?case
  proof (cases e)
    case (SdFinished cfg records busy)
    then show ?thesis using IH maybe_start_cases [OF refl, of cfg records busy s]
      by (auto simp: starts_countdown_def ends_countdown_def intro: armed_snoc armed_start)
  next
    case (SdRetry cfg records busy)
    then show ?thesis using IH maybe_start_cases [OF refl, of cfg records busy s]
      by (auto simp: starts_countdown_def ends_countdown_def intro: armed_snoc armed_start)
  next
    case SdBusyIdle
    then show ?thesis using IH
      by (auto simp: on_busy_source_idle_def sd_emit_def ends_countdown_def intro: armed_snoc)
  qed (use IH in \<open>auto simp: cancel_shutdown_def stop_shutdown_def on_countdown_elapsed_def execute_def sd_emit_def Let_def
         split: option.splits if_splits\<close>)
qed

section \<open>Properties\<close>

text \<open>C19: when everything can be moved, one scan takes every torrent file out of the watch folder, into
  \<open>processed\<close> exactly when it was added and into \<open>failed\<close> otherwise, so that the next scan finds
  nothing and retries nothing.\<close>

theorem watch_folder_attempts_once:
  assumes "cfg_watch_folder_enabled (ss_settings s)" "cfg_watch_folder_path (ss_settings s) \<noteq> []"
    and "list_all wf_movable (wt_folder wt)"
  shows "let (wt', s') = scan_now w blank rules True (wt, s)
    in wt_folder wt' = filter (\<lambda>f. \<not> wf_is_file f) (wt_folder wt)
     \<and> wt_processed wt' = wt_processed wt @ map wf_name (filter (\<lambda>f. wf_is_file f \<and> importable f) (wt_folder wt))
     \<and> wt_failed wt' = wt_failed wt @ map wf_name (filter (\<lambda>f. wf_is_file f \<and> \<not> importable f) (wt_folder wt))
     \<and> scan_now w' blank' rules' True (wt', s') = (wt', s')"
proof -
  obtain wt' s' where run: "scan_now w blank rules True (wt, s) = (wt', s')" by fastforce
  then have f: "foldl (\<lambda>x f. scan_file w blank rules f x) (wt\<lparr>wt_folder := []\<rparr>, s) (wt_folder wt) = (wt', s')"
    using assms(1,2) by (simp add: scan_now_def Let_def)
  have wt': "wt' = \<lparr>wt_folder = filter (\<lambda>f. \<not> wf_is_file f) (wt_folder wt),
      wt_processed = wt_processed wt @ map wf_name (filter (\<lambda>f. wf_is_file f \<and> importable f) (wt_folder wt)),
      wt_failed = wt_failed wt @ map wf_name (filter (\<lambda>f. wf_is_file f \<and> \<not> importable f) (wt_folder wt))\<rparr>"
    using scan_files_watch [OF assms(3), of w blank rules "wt\<lparr>wt_folder := []\<rparr>" s] f by simp
  have idle: "foldl (\<lambda>x f. scan_file w' blank' rules' f x) (v, s') fs = (v\<lparr>wt_folder := wt_folder v @ fs\<rparr>, s')"
    if "list_all (\<lambda>f. \<not> wf_is_file f) fs" for v fs
    using that by (induction fs arbitrary: v) (simp_all add: scan_file_def)
  have "ss_settings s' = ss_settings s" using scan_settings [of w blank rules "(wt\<lparr>wt_folder := []\<rparr>, s)" "wt_folder wt"] f by simp
  then have "scan_now w' blank' rules' True (wt', s') = (wt', s')"
    using assms(1,2) by (simp add: scan_now_def Let_def idle wt' list_all_iff)
  then show ?thesis by (simp add: run wt')
qed

text \<open>C20: importing the file of a torrent that is already in the session fails, as it should, but not
  without a trace: the record of the running torrent has been replaced by a blank one, its pin,
  deadline, lock, category and rule forgotten, while the handle still runs it.\<close>

theorem duplicate_import_resets_record:
  assumes "wf_info f = Some ti" "wf_added f = None" "ih = info_hash_hex_of (ti_hashes ti)"
    and "dget (ss_records s) ih = Some r"
  shows "let (s', ok) = import_file w blank rules f s; r' = the (dget (ss_records s') ih)
    in \<not> ok \<and> dget (ss_records s') ih \<noteq> None \<and> ss_handles s' = ss_handles s \<and> ss_sigs s' = ss_sigs s
     \<and> tr_category r' = [] \<and> \<not> tr_pinned r' \<and> tr_deadline r' = None \<and> \<not> tr_locked r'
     \<and> tr_matched_rule_name r' = None \<and> tr_progress r' = 0 \<and> tr_state r' = QUEUED"
  using assms
  by (auto simp: import_file_def Let_def case_prod_beta add_torrent_from_file_def add_def andthen_def
      from_torrent_file_def restrict_flags_def hold_paused_def info_hash_hex_def new_record_def set_record_def)

text \<open>C21: the machine is shut down or hibernated only when a countdown that started while every torrent
  was idle and no background work ran has elapsed without a cancel, the option is still on, and the
  application is not quitting; the command is the one chosen when the countdown started.\<close>

theorem shutdown_only_after_countdown:
  assumes "sd_trace es s" "sd_out (sd_step e s) = sd_out s @ [SystemCommand c]"
  shows "\<exists>cfg action pre start mid. e = SdElapsed cfg \<and> cfg_auto_shutdown_enabled cfg
    \<and> es = pre @ start # mid \<and> starts_countdown start action \<and> \<not> list_ex ends_countdown mid \<and> SdStop \<notin> set es
    \<and> c = (if action = ''hibernate'' then ''shutdown /h'' else ''shutdown /s /t 0'')"
proof -
  obtain cfg action where e: "e = SdElapsed cfg" and p: "sd_pending s = Some action" and en: "cfg_auto_shutdown_enabled cfg"
    and c: "c = (if action = ''hibernate'' then ''shutdown /h'' else ''shutdown /s /t 0'')"
    using assms(2)
    by (cases e) (auto simp: maybe_start_countdown_def on_busy_source_idle_def cancel_shutdown_def stop_shutdown_def
        on_countdown_elapsed_def execute_def sd_emit_def Let_def split: option.splits if_splits)
  have "armed es action" "SdStop \<notin> set es" using sd_trace_invariant [OF assms(1)] p by auto
  then show ?thesis using e en c unfolding armed_def by blast
qed

text \<open>Concrete inputs.\<close>

definition demo_info :: torrent_info where
  "demo_info = \<lparr>ti_hashes = \<lparr>hs_v1 = Some ''A'', hs_v2 = []\<rparr>, ti_files = [], ti_priv = False, ti_num_pieces = 1, ti_piece_length = 16\<rparr>"

definition good_file :: wf_file where
  "good_file = \<lparr>wf_name = ''a.torrent'', wf_stem = ''a'', wf_is_file = True, wf_info = Some demo_info, wf_trackers = [],
     wf_added = Some 9, wf_movable = True\<rparr>"

definition bad_file :: wf_file where
  "bad_file = good_file\<lparr>wf_name := ''b.torrent'', wf_added := None\<rparr>"

theorem watch_folder_attempts_once_witness:
  "let s = small_session\<lparr>ss_settings := DEFAULT_SETTINGS\<lparr>cfg_watch_folder_enabled := True, cfg_watch_folder_path := ''w''\<rparr>\<rparr>
   in wt_failed (fst (scan_now small_world undefined [] True (\<lparr>wt_folder = [good_file, bad_file], wt_processed = [], wt_failed = []\<rparr>, s)))
      = [''b.torrent'']"
proof -
  let ?s = "small_session\<lparr>ss_settings := DEFAULT_SETTINGS\<lparr>cfg_watch_folder_enabled := True, cfg_watch_folder_path := ''w''\<rparr>\<rparr>"
  let ?wt = "\<lparr>wt_folder = [good_file, bad_file], wt_processed = [], wt_failed = []\<rparr>"
  have "list_all wf_movable (wt_folder ?wt)" by (simp add: good_file_def bad_file_def)
  from watch_folder_attempts_once [OF _ _ this, of ?s small_world undefined "[]"] show ?thesis
    by (simp add: Let_def case_prod_beta importable_def) (simp add: good_file_def bad_file_def)
qed

theorem duplicate_import_resets_record_witness:
  "\<not> tr_pinned (the (dget (ss_records (fst (import_file small_world undefined [] bad_file
      (small_session\<lparr>ss_records := [(''A'', (new_record ''A'')\<lparr>tr_pinned := True\<rparr>)]\<rparr>)))) ''A''))"
proof -
  let ?r = "(new_record ''A'')\<lparr>tr_pinned := True\<rparr>"
  let ?s = "small_session\<lparr>ss_records := [(''A'', ?r)]\<rparr>"
  have "wf_info bad_file = Some demo_info" "wf_added bad_file = None" "''A'' = info_hash_hex_of (ti_hashes demo_info)"
    and "dget (ss_records ?s) ''A'' = Some ?r"
    by (simp_all add: bad_file_def good_file_def demo_info_def info_hash_hex_of_def)
  from duplicate_import_resets_record [OF this, of small_world undefined "[]"] show ?thesis
    by (simp only: Let_def case_prod_beta simp_thms)
qed

theorem shutdown_only_after_countdown_witness:
  "\<exists>cfg action pre start mid. SdElapsed (DEFAULT_SETTINGS\<lparr>cfg_auto_shutdown_enabled := True\<rparr>) = SdElapsed cfg
    \<and> [SdFinished (DEFAULT_SETTINGS\<lparr>cfg_auto_shutdown_enabled := True\<rparr>) [] [False]] = pre @ start # mid \<and> starts_countdown start action"
proof -
  let ?cfg = "DEFAULT_SETTINGS\<lparr>cfg_auto_shutdown_enabled := True\<rparr>"
  let ?e = "SdFinished ?cfg [] [False]"
  have t: "sd_trace [?e] (sd_step ?e shutdown_init)" using sd_next [OF sd_start, of ?e] by simp
  have o: "sd_out (sd_step (SdElapsed ?cfg) (sd_step ?e shutdown_init))
      = sd_out (sd_step ?e shutdown_init) @ [SystemCommand ''shutdown /s /t 0'']"
    by (simp add: maybe_start_countdown_def shutdown_init_def all_torrents_idle_def on_countdown_elapsed_def execute_def sd_emit_def
        DEFAULT_SETTINGS_def)
  from shutdown_only_after_countdown [OF t o] show ?thesis by (elim exE conjE) (intro exI conjI, assumption+)
qed

end
