(* ===== verification/Url.thy ===== *)
theory Url
  imports Net
begin

text \<open>
  What the program uses of \<open>urllib.parse\<close>: \<open>urlsplit\<close> (as in Python 3.12, without the NFKC check
  of non-ASCII host names), \<open>unquote\<close> and \<open>parse_qs\<close>, and \<open>int\<close>, \<open>bool\<close> and \<open>str\<close> of a value. \<open>None\<close> is a \<open>ValueError\<close>.
  Percent-decoding yields bytes; where Python would replace invalid UTF-8 by U+FFFD, the result is
  non-ASCII here as there, which is all the callers look at.
\<close>

section \<open>int()\<close>

text \<open>ASCII digits with single underscores between them, an optional sign, surrounding white space.\<close>

fun int_digits :: "bool \<Rightarrow> string \<Rightarrow> string option" where
  "int_digits prev [] = (if prev then Some [] else None)"
| "int_digits prev (c # cs) =
     (if is_digit c then map_option (Cons c) (int_digits True cs)
      else if c = CHR ''_'' \<and> prev then int_digits False cs else None)"

definition py_int :: "string \<Rightarrow> int option" where
  "py_int s =
     (case py_strip s of
        [] \<Rightarrow> None
      | c # cs \<Rightarrow>
          if c = CHR ''-'' then map_option (\<lambda>ds. - dec_value ds) (int_digits False cs)
          else if c = CHR ''+'' then map_option dec_value (int_digits False cs)
          else map_option dec_value (int_digits False (c # cs)))"

section \<open>bool() and str() of a parsed JSON value\<close>

definition json_truthy :: "json \<Rightarrow> bool" where
  "json_truthy j = (case j of JNull \<Rightarrow> False | JBool b \<Rightarrow> b | JInt n \<Rightarrow> n \<noteq> 0 | JFloat x \<Rightarrow> x \<noteq> 0
     | JStr s \<Rightarrow> s \<noteq> [] | JArr xs \<Rightarrow> xs \<noteq> [] | JObj kvs \<Rightarrow> kvs \<noteq> [])"

definition json_text :: "(json \<Rightarrow> string) \<Rightarrow> json \<Rightarrow> string" where
  "json_text str j = (case j of JStr s \<Rightarrow> s | _ \<Rightarrow> str j)"

text \<open>\<open>int(value)\<close>: towards zero for a float.\<close>

definition json_int :: "json \<Rightarrow> int option" where
  "json_int j = (case j of JInt n \<Rightarrow> Some n | JBool b \<Rightarrow> Some (if b then 1 else 0)
     | JFloat x \<Rightarrow> Some (if x < 0 then - \<lfloor>- x\<rfloor> else \<lfloor>x\<rfloor>) | JStr s \<Rightarrow> py_int s | _ \<Rightarrow> None)"

section \<open>urlsplit\<close>

record split_url =
  us_scheme :: string
  us_netloc :: string
  us_path :: string
  us_query :: string
  us_fragment :: string

definition ascii_alpha :: "char \<Rightarrow> bool" where
  "ascii_alpha c \<longleftrightarrow> (let n = of_char c :: int in (65 \<le> n \<and> n \<le> 90) \<or> (97 \<le> n \<and> n \<le> 122))"

definition scheme_char :: "char \<Rightarrow> bool" where
  "scheme_char c \<longleftrightarrow> ascii_alpha c \<or> is_digit c \<or> c \<in> set ''+-.''"

text \<open>The text before the first \<open>c\<close>, and the text after it.\<close>

definition cut_at :: "char \<Rightarrow> string \<Rightarrow> string \<times> string" where
  "cut_at c s = (takeWhile (\<lambda>x. x \<noteq> c) s, drop 1 (dropWhile (\<lambda>x. x \<noteq> c) s))"

definition url_clean :: "string \<Rightarrow> string" where
  "url_clean s = filter (\<lambda>c. c \<notin> {CHR 0x09, CHR 0x0D, CHR 0x0A}) (dropWhile (\<lambda>c. (of_char c :: int) \<le> 32) s)"

definition split_scheme :: "string \<Rightarrow> string \<times> string" where
  "split_scheme u =
     (let (pre, post) = cut_at CHR '':'' u
      in if CHR '':'' \<in> set u \<and> pre \<noteq> [] \<and> ascii_alpha (hd pre) \<and> list_all scheme_char pre
         then (map ascii_lower pre, post) else ([], u))"

text \<open>\<open>_check_bracketed_netloc\<close>: an IPv6 address in brackets, or \<open>v<hex>.<text>\<close>.\<close>

definition bracketed_host_ok :: "string \<Rightarrow> bool" where
  "bracketed_host_ok h =
     (if prefix ''v'' h
      then (let (a, b) = cut_at CHR ''.'' (drop 1 h) in a \<noteq> [] \<and> list_all is_hex a \<and> CHR ''.'' \<in> set (drop 1 h) \<and> b \<noteq> [])
      else (case ip_address h of Some (V6 _ _) \<Rightarrow> True | _ \<Rightarrow> False))"

definition netloc_ok :: "string \<Rightarrow> bool" where
  "netloc_ok n =
     (if CHR ''['' \<notin> set n \<and> CHR '']'' \<notin> set n then True
      else if CHR ''['' \<notin> set n \<or> CHR '']'' \<notin> set n then False
      else let hostname_and_port = (case rsplit1 CHR ''@'' n of (_, Some h) \<Rightarrow> h | (h, None) \<Rightarrow> h);
               (before, bracketed) = cut_at CHR ''['' hostname_and_port;
               (hostname, port) = cut_at CHR '']'' bracketed
           in before = [] \<and> CHR ''['' \<in> set hostname_and_port \<and> (port = [] \<or> hd port = CHR '':'') \<and> bracketed_host_ok hostname)"

definition urlsplit :: "string \<Rightarrow> split_url option" where
  "urlsplit url =
     (let (scheme, rest) = split_scheme (url_clean url);
          (netloc, rest) = (if prefix ''//'' rest
             then (takeWhile (\<lambda>c. c \<notin> set ''/?#'') (drop 2 rest), dropWhile (\<lambda>c. c \<notin> set ''/?#'') (drop 2 rest))
             else ([], rest));
          (rest, fragment) = cut_at CHR ''#'' rest;
          (path, query) = cut_at CHR ''?'' rest
      in if \<not> netloc_ok netloc then None
         else Some \<lparr>us_scheme = scheme, us_netloc = netloc, us_path = path, us_query = query, us_fragment = fragment\<rparr>)"

text \<open>\<open>urlunsplit((scheme, netloc, path, '', ''))\<close> for the schemes that use a host.\<close>

definition urlunsplit_path :: "string \<Rightarrow> string \<Rightarrow> string \<Rightarrow> string" where
  "urlunsplit_path scheme netloc path =
     (let body = (if netloc \<noteq> [] then ''//'' @ netloc @ (if path \<noteq> [] \<and> hd path \<noteq> CHR ''/'' then CHR ''/'' # path else path)
                  else if prefix ''//'' path then ''//'' @ path else path)
      in if scheme \<noteq> [] then scheme @ CHR '':'' # body else body)"

section \<open>Queries\<close>

fun unquote :: "string \<Rightarrow> string" where
  "unquote (p # a # b # s) =
     (if p = CHR ''%'' \<and> is_hex a \<and> is_hex b then char_of (16 * hex_val a + hex_val b) # unquote s
      else p # unquote (a # b # s))"
| "unquote s = s"

definition unquote_plus :: "string \<Rightarrow> string" where
  "unquote_plus s = unquote (map (\<lambda>c. if c = CHR ''+'' then CHR '' '' else c) s)"

text \<open>\<open>parse_qs\<close>: blank values are dropped.\<close>

definition parse_qsl :: "string \<Rightarrow> (string \<times> string) list" where
  "parse_qsl qs = List.map_filter (\<lambda>nv.
     case split1 CHR ''='' nv of
       (n, Some v) \<Rightarrow> if nv = [] \<or> v = [] then None else Some (unquote_plus n, unquote_plus v)
     | (_, None) \<Rightarrow> None) (split_on CHR ''&'' qs)"

text \<open>\<open>parse_qs(qs).get(name, [''])[0]\<close>\<close>

definition query_first :: "string \<Rightarrow> string \<Rightarrow> string" where
  "query_first qs name = (case map_of (parse_qsl qs) name of Some v \<Rightarrow> v | None \<Rightarrow> [])"

section \<open>Plain URLs\<close>

definition plain_char :: "char \<Rightarrow> bool" where
  "plain_char c \<longleftrightarrow> ascii_alpha c \<or> is_digit c \<or> c = CHR ''-'' \<or> c = CHR ''_''"

lemma plain_char_not: "plain_char c \<Longrightarrow> c \<notin> {CHR ''%'', CHR ''+'', CHR ''='', CHR ''&'', CHR ''#'', CHR ''?'', CHR 0x09, CHR 0x0A, CHR 0x0D, CHR '':''}"
  by (auto simp: plain_char_def ascii_alpha_def is_digit_def)

lemma unquote_plain: "list_all plain_char s \<Longrightarrow> unquote s = s"
  by (induction s rule: unquote.induct) (auto dest: plain_char_not)

lemma unquote_plus_plain: "list_all plain_char s \<Longrightarrow> unquote_plus s = s"
proof -
  assume p: "list_all plain_char s"
  then have "map (\<lambda>c. if c = CHR ''+'' then CHR '' '' else c) s = s"
    by (induction s) (auto dest: plain_char_not)
  with p show ?thesis by (simp add: unquote_plus_def unquote_plain)
qed

lemma plain_notin: "list_all plain_char s \<Longrightarrow> c \<in> {CHR ''%'', CHR ''+'', CHR ''='', CHR ''&'', CHR ''#'', CHR ''?'', CHR '':''} \<Longrightarrow> c \<notin> set s"
  by (auto simp: list_all_iff dest: plain_char_not)

end
