(* ===== verification/Remote.thy ===== *)
theory Remote
  imports Url Session_Props
begin

text \<open>
  \<open>engine/remote_server.py\<close>: the HTTP interface for a phone on the local network. A request is its
  target, its \<open>Content-Length\<close> header and its body; a response is the page, a JSON body with its
  status, an error whose text comes from an exception, or \<open>Dropped\<close> when the handler itself raises.
  The handlers act on the session of \<open>Session\<close>. libtorrent's parsers, \<open>json.loads\<close> and \<open>str\<close> of a
  JSON value that is no string are parameters; the temporary file of an upload is not modelled.
\<close>

section \<open>Requests and responses\<close>

datatype http_response = HtmlPage | JsonBody int json | ErrorText int | Dropped

record http_request =
  rq_post :: bool
  rq_target :: string
  rq_length :: "string option"
  rq_body :: string

record remote_env =
  re_world :: world
  re_magnet :: "string \<Rightarrow> atp option"
  re_added :: "atp \<Rightarrow> handle option"
  re_torrent :: "string \<Rightarrow> torrent_info option"
  re_loads :: "string \<Rightarrow> json option"
  re_str :: "json \<Rightarrow> string"
  re_blank :: atp

definition MAX_TORRENT_BYTES :: int where "MAX_TORRENT_BYTES = 8 * 1024 * 1024"
definition MAX_ADD_BODY_BYTES :: int where "MAX_ADD_BODY_BYTES = MAX_TORRENT_BYTES * 4 div 3 + 4096"

definition unauthorized :: http_response where
  "unauthorized = JsonBody 401 (JObj [(''error'', JStr ''unauthorized'')])"

definition not_found :: http_response where
  "not_found = JsonBody 404 (JObj [(''error'', JStr ''not found'')])"

definition bad_request :: "string \<Rightarrow> http_response" where
  "bad_request message = JsonBody 400 (JObj [(''error'', JStr message)])"

section \<open>The token\<close>

text \<open>\<open>hmac.compare_digest\<close> of two strings raises \<open>TypeError\<close> unless both are ASCII: \<open>None\<close>.\<close>

definition compare_digest :: "string \<Rightarrow> string \<Rightarrow> bool option" where
  "compare_digest a b = (if is_ascii_str a \<and> is_ascii_str b then Some (a = b) else None)"

definition token_is_valid :: "string \<Rightarrow> split_url \<Rightarrow> bool option" where
  "token_is_valid expected u =
     (if expected = [] then Some False else compare_digest (query_first (us_query u) ''token'') expected)"

text \<open>\<open>_require_token\<close> around the rest of a handler.\<close>

definition with_token :: "string \<Rightarrow> string \<Rightarrow> (split_url \<Rightarrow> session \<Rightarrow> http_response \<times> session) \<Rightarrow> session \<Rightarrow> http_response \<times> session" where
  "with_token expected target handler sess =
     (case urlsplit target of
        None \<Rightarrow> (Dropped, sess)
      | Some u \<Rightarrow> (case token_is_valid expected u of
                     None \<Rightarrow> (Dropped, sess)
                   | Some ok \<Rightarrow> if ok then handler u sess else (unauthorized, sess)))"

section \<open>GET\<close>

fun state_name :: "torrent_state \<Rightarrow> string" where
  "state_name QUEUED = ''QUEUED''"
| "state_name CHECKING_METADATA = ''CHECKING_METADATA''"
| "state_name AWAITING_ANALYSIS = ''AWAITING_ANALYSIS''"
| "state_name DOWNLOADING = ''DOWNLOADING''"
| "state_name PAUSED = ''PAUSED''"
| "state_name SEEDING = ''SEEDING''"
| "state_name FINISHED = ''FINISHED''"
| "state_name ERROR = ''ERROR''"

definition torrent_to_json :: "torrent_record \<Rightarrow> json" where
  "torrent_to_json r = JObj [(''info_hash'', JStr (tr_info_hash r)), (''name'', JStr (tr_name r)),
     (''progress'', JFloat (tr_progress r)), (''state'', JStr (state_name (tr_state r))),
     (''download_rate'', JInt (tr_download_rate r)), (''upload_rate'', JInt (tr_upload_rate r))]"

definition do_GET :: "string \<Rightarrow> session \<Rightarrow> http_response \<times> session" where
  "do_GET target sess = with_token (cfg_remote_access_token (ss_settings sess)) target (\<lambda>u sess.
     (if us_path u = ''/'' then (HtmlPage, sess)
      else if us_path u = ''/api/torrents''
      then (JsonBody 200 (JObj [(''torrents'', JArr (map torrent_to_json (all_records sess)))]), sess)
      else (not_found, sess))) sess"

section \<open>POST\<close>

text \<open>\<open>base64.b64decode(s, validate=True)\<close>: only the canonical form.\<close>

definition b64decode_strict :: "string \<Rightarrow> string option" where
  "b64decode_strict s =
     (let data = takeWhile (\<lambda>c. c \<noteq> CHR ''='') s; pads = drop (length data) s
      in if list_all (\<lambda>c. b64_value c \<noteq> None) data \<and> pads \<in> {[], ''='', ''==''} \<and> length s mod 4 = 0
         then b64_go 0 0 0 s else None)"

text \<open>The pair: what it returns (\<open>None\<close>: an exception), and the session by then.\<close>

definition add_from_base64 :: "remote_env \<Rightarrow> string \<Rightarrow> session \<Rightarrow> string option \<times> session" where
  "add_from_base64 v torrent_base64 sess =
     (case b64decode_strict torrent_base64 of
        None \<Rightarrow> (None, sess)
      | Some data \<Rightarrow>
          if int (length data) > MAX_TORRENT_BYTES then (None, sess)
          else case re_torrent v data of
                 None \<Rightarrow> (None, sess)
               | Some ti \<Rightarrow>
                   (let excluded = auto_exclude_indices (scan_files (files_from_torrent_info ti) [] None)
                                     (cfg_danger_auto_exclude_threshold (ss_settings sess));
                        (sess1, ok) = add_torrent_from_file (re_world v) (re_added v (re_blank v)) (re_blank v) ti
                                        (Some (cfg_default_download_dir (ss_settings sess))) excluded sess
                    in (if ok then Some (info_hash_hex_of (ti_hashes ti)) else None, sess1)))"

definition add_magnet :: "remote_env \<Rightarrow> string \<Rightarrow> session \<Rightarrow> string option \<times> session" where
  "add_magnet v magnet sess =
     (case re_magnet v magnet of
        None \<Rightarrow> (None, sess)
      | Some a \<Rightarrow>
          (let (sess1, ok) = add_torrent_from_magnet (re_world v) (re_added v a) a
                               (Some (cfg_default_download_dir (ss_settings sess))) sess;
               ih = info_hash_hex a
           in if \<not> ok then (None, sess1)
              else let (sess2, ok2) = start_after_analysis (re_world v) ih sess1
                   in (if ok2 then Some ih else None, sess2)))"

definition content_length :: "http_request \<Rightarrow> int" where
  "content_length rq = (case rq_length rq of None \<Rightarrow> 0
     | Some s \<Rightarrow> if s = [] then 0 else (case py_int s of Some n \<Rightarrow> n | None \<Rightarrow> 0))"

definition handle_add :: "remote_env \<Rightarrow> http_request \<Rightarrow> session \<Rightarrow> http_response \<times> session" where
  "handle_add v rq sess =
     (let n = content_length rq
      in if n \<le> 0 \<or> n > MAX_ADD_BODY_BYTES then (bad_request ''missing or oversized request body'', sess)
         else case re_loads v (take (nat n) (rq_body rq)) of
                Some (JObj payload) \<Rightarrow>
                  (let mag = (case dget payload ''magnet'' of
                                Some j \<Rightarrow> if json_truthy j then py_strip (json_text (re_str v) j) else []
                              | None \<Rightarrow> []);
                       b64 = (case dget payload ''torrentBase64'' of
                                Some j \<Rightarrow> if json_truthy j then Some (json_text (re_str v) j) else None
                              | None \<Rightarrow> None);
                       respond = (\<lambda>(r, s). case r of
                          None \<Rightarrow> (ErrorText 400, s)
                        | Some ih \<Rightarrow> (JsonBody 200 (JObj [(''ok'', JBool True), (''info_hash'', JStr ih)]), s))
                   in if mag \<noteq> [] then respond (add_magnet v mag sess)
                      else case b64 of
                             Some b \<Rightarrow> respond (add_from_base64 v b sess)
                           | None \<Rightarrow> (bad_request ''magnet or torrentBase64 required'', sess))
              | _ \<Rightarrow> (bad_request ''invalid JSON body'', sess))"

definition do_POST :: "remote_env \<Rightarrow> http_request \<Rightarrow> session \<Rightarrow> http_response \<times> session" where
  "do_POST v rq sess = with_token (cfg_remote_access_token (ss_settings sess)) (rq_target rq) (\<lambda>u sess.
     (let parts = split_on CHR ''/'' (us_path u)
      in if length parts = 5 \<and> parts ! 1 = ''api'' \<and> parts ! 2 = ''torrents'' \<and> parts ! 4 \<in> {''pause'', ''resume''}
         then (JsonBody 200 (JObj [(''ok'', JBool True)]),
               if parts ! 4 = ''pause'' then pause_torrent (re_world v) (parts ! 3) sess
               else resume_torrent (re_world v) (parts ! 3) sess)
         else if us_path u = ''/api/torrents/add'' then handle_add v rq sess
         else (not_found, sess))) sess"

definition do_request :: "remote_env \<Rightarrow> http_request \<Rightarrow> session \<Rightarrow> http_response \<times> session" where
  "do_request v rq sess = (if rq_post rq then do_POST v rq sess else do_GET (rq_target rq) sess)"

section \<open>The server\<close>

record remote_server =
  rm_running :: bool
  rm_saves :: nat

text \<open>\<open>start\<close>: a token is made and saved the first time only; \<open>bound\<close> is whether the socket binds.
  Returns what it returns, the server and the settings.\<close>

definition server_start :: "string \<Rightarrow> bool \<Rightarrow> remote_server \<Rightarrow> settings \<Rightarrow> bool \<times> remote_server \<times> settings" where
  "server_start fresh_token bound srv cfg =
     (if rm_running srv then (True, srv, cfg)
      else let (srv1, cfg1) = (if cfg_remote_access_token cfg = []
                               then (srv\<lparr>rm_saves := rm_saves srv + 1\<rparr>, cfg\<lparr>cfg_remote_access_token := fresh_token\<rparr>)
                               else (srv, cfg))
           in if bound then (True, srv1\<lparr>rm_running := True\<rparr>, cfg1) else (False, srv1, cfg1))"

definition server_stop :: "remote_server \<Rightarrow> remote_server" where
  "server_stop srv = srv\<lparr>rm_running := False\<rparr>"

section \<open>Properties\<close>

lemma dropWhile_id: "s = [] \<or> \<not> p (hd s) \<Longrightarrow> dropWhile p s = s"
  by (cases s) auto

lemma cut_at_append: "c \<notin> set s \<Longrightarrow> cut_at c (s @ c # t) = (s, t)"
  by (induction s) (auto simp: cut_at_def)

lemma urlsplit_plain:
  assumes "list_all (\<lambda>c. plain_char c \<or> c = CHR ''/'') p" "prefix ''/'' p" "\<not> prefix ''//'' p" "list_all plain_char t"
  shows "urlsplit (p @ ''?token='' @ t)
    = Some \<lparr>us_scheme = [], us_netloc = [], us_path = p, us_query = ''token='' @ t, us_fragment = []\<rparr>"
proof -
  let ?u = "p @ ''?token='' @ t"
  have p: "c \<in> set p \<Longrightarrow> plain_char c \<or> c = CHR ''/''" and t: "c \<in> set t \<Longrightarrow> plain_char c" for c
    using assms(1,4) by (auto simp: list_all_iff)
  obtain q where q: "p = CHR ''/'' # q" using assms(2) by (cases p) auto
  let ?bad = "{CHR 0x09, CHR 0x0D, CHR 0x0A, CHR '':'', CHR ''#''}"
  have plain: "c \<notin> ?bad \<and> c \<noteq> CHR ''?''" if "plain_char c \<or> c = CHR ''/''" for c
    using that plain_char_not [of c] by (elim disjE) simp_all
  have lit: "list_all (\<lambda>c. c \<notin> ?bad) ''?token=''" by simp
  have nl: "c \<notin> ?bad" if "c \<in> set ?u" for c
  proof -
    have "c \<in> set p \<or> c \<in> set ''?token='' \<or> c \<in> set t" using that by (simp only: set_append Un_iff)
    then show ?thesis
    proof (elim disjE)
      assume "c \<in> set p"
      then show ?thesis using plain [OF p] by blast
    next
      assume c: "c \<in> set ''?token=''"
      show ?thesis by (rule bspec [OF lit [unfolded list_all_iff] c])
    next
      assume "c \<in> set t"
      from plain [OF disjI1 [OF t [OF this]]] show ?thesis ..
    qed
  qed
  have clean: "url_clean ?u = ?u"
  proof -
    have "filter (\<lambda>c. c \<notin> {CHR 0x09, CHR 0x0D, CHR 0x0A}) ?u = ?u"
      unfolding filter_id_conv using nl by blast
    moreover have "dropWhile (\<lambda>c. (of_char c :: int) \<le> 32) ?u = ?u" by (simp add: q)
    ultimately show ?thesis by (simp only: url_clean_def)
  qed
  have noq: "CHR ''?'' \<notin> set p" using p plain by blast
  have scheme: "split_scheme ?u = ([], ?u)"
    using nl [of "CHR '':''"] by (auto simp: split_scheme_def Let_def split: prod.split)
  have nn: "\<not> prefix ''//'' ?u" using assms(3) by (cases q) (auto simp: q)
  have frag: "cut_at CHR ''#'' ?u = (?u, [])"
  proof -
    have "\<forall>c \<in> set ?u. c \<noteq> CHR ''#''" using nl by blast
    then have "takeWhile (\<lambda>x. x \<noteq> CHR ''#'') ?u = ?u" "dropWhile (\<lambda>x. x \<noteq> CHR ''#'') ?u = []"
      by (simp_all only: takeWhile_eq_all_conv dropWhile_eq_Nil_conv)
    then show ?thesis by (simp only: cut_at_def drop_Nil)
  qed
  have query: "cut_at CHR ''?'' ?u = (p, ''token='' @ t)"
    using cut_at_append [OF noq] by simp
  show ?thesis
    by (simp add: urlsplit_def clean scheme nn frag query netloc_ok_def del: append.simps)
qed

lemma query_token_plain: "list_all plain_char t \<Longrightarrow> query_first (''token='' @ t) ''token'' = t"
proof -
  assume t: "list_all plain_char t"
  have amp: "split_on CHR ''&'' (''token='' @ t) = [''token='' @ t]"
    using plain_notin [OF t, of "CHR ''&''"] by (intro split_on_single) auto
  have eq: "split1 CHR ''='' (''token='' @ t) = (''token'', Some t)"
    by (simp add: split1_def)
  have tok: "unquote_plus ''token'' = ''token''" by (rule unquote_plus_plain) (simp add: plain_char_def ascii_alpha_def)
  show ?thesis
    by (simp add: query_first_def parse_qsl_def amp eq tok unquote_plus_plain [OF t] map_filter_def del: append.simps)
qed

lemma ascii_plain: "list_all plain_char s \<Longrightarrow> is_ascii_str s"
proof -
  assume s: "list_all plain_char s"
  have "of_char c < (128::nat)" if "plain_char c" for c
  proof -
    have "(of_char c :: int) \<le> 122" using that by (auto simp: plain_char_def ascii_alpha_def is_digit_def Let_def)
    moreover have "(of_char c :: int) = int (of_char c)" by (simp only: of_nat_of_char)
    ultimately show ?thesis by linarith
  qed
  then show ?thesis using s by (auto simp: is_ascii_str_def list_all_iff)
qed

lemma with_token_plain:
  assumes "list_all (\<lambda>c. plain_char c \<or> c = CHR ''/'') p" "prefix ''/'' p" "\<not> prefix ''//'' p"
    and "list_all plain_char t" "list_all plain_char expected" "expected \<noteq> []"
  shows "with_token expected (p @ ''?token='' @ t) handler sess
    = (if t = expected
       then handler \<lparr>us_scheme = [], us_netloc = [], us_path = p, us_query = ''token='' @ t, us_fragment = []\<rparr> sess
       else (unauthorized, sess))"
proof -
  have "token_is_valid expected \<lparr>us_scheme = [], us_netloc = [], us_path = p, us_query = ''token='' @ t, us_fragment = []\<rparr>
      = Some (t = expected)"
    using assms ascii_plain unfolding token_is_valid_def split_url.simps query_token_plain [OF assms(4)]
    by (simp add: compare_digest_def)
  then show ?thesis unfolding with_token_def urlsplit_plain [OF assms(1-4)] by simp
qed

text \<open>C22: without the exact token nothing is shown and nothing changes, whatever the path: the request is
  answered by the 401 page, or not answered at all where the handler raises on the target or the token.
  Any other answer, and any change of the session, comes from a request whose first \<open>token\<close>
  parameter is the non-empty token of the settings; and with a token of URL-safe characters in a plain
  URL, the request is let in exactly when it is that token, and answered 401 otherwise.\<close>

theorem remote_requires_token:
  "(do_request v rq sess = (resp, sess') \<and> (resp \<noteq> Dropped \<and> resp \<noteq> unauthorized \<or> sess' \<noteq> sess)
      \<longrightarrow> cfg_remote_access_token (ss_settings sess) \<noteq> []
        \<and> (\<exists>u. urlsplit (rq_target rq) = Some u
             \<and> query_first (us_query u) ''token'' = cfg_remote_access_token (ss_settings sess)))
   \<and> (list_all (\<lambda>c. plain_char c \<or> c = CHR ''/'') p \<and> prefix ''/'' p \<and> \<not> prefix ''//'' p
        \<and> list_all plain_char t \<and> list_all plain_char expected \<and> expected \<noteq> [] \<longrightarrow>
      with_token expected (p @ ''?token='' @ t) handler sess
        = (if t = expected
           then handler \<lparr>us_scheme = [], us_netloc = [], us_path = p, us_query = ''token='' @ t, us_fragment = []\<rparr> sess
           else (unauthorized, sess)))"
proof -
  have "cfg_remote_access_token (ss_settings sess) \<noteq> []
        \<and> (\<exists>u. urlsplit (rq_target rq) = Some u
             \<and> query_first (us_query u) ''token'' = cfg_remote_access_token (ss_settings sess))"
    if "do_request v rq sess = (resp, sess')" "resp \<noteq> Dropped \<and> resp \<noteq> unauthorized \<or> sess' \<noteq> sess"
    using that
    by (auto simp: do_request_def do_POST_def do_GET_def with_token_def token_is_valid_def compare_digest_def
        split: option.splits if_splits)
  then show ?thesis using with_token_plain by blast
qed

lemma add_no_prioritize: "PrioritizeFiles h ps \<notin> set (new_cmds s (fst (add w added a aw s)))"
  by (auto dest!: add_new_cmds)

lemma add_magnet_cmds:
  assumes "re_magnet v m = Some a" "re_added v a = Some h" "w_valid (re_world v) h"
    and "\<not> cfg_lan_peer_cache_enabled (ss_settings sess)" "cfg_theme (ss_settings sess) \<noteq> CCCP_THEME_ID"
  shows "\<exists>a'. fst (add_magnet v m sess) = Some (info_hash_hex a)
    \<and> new_cmds sess (snd (add_magnet v m sess)) = [AddTorrent a', SetAutoManaged h, HResume h]
    \<and> ap_paused a' \<and> \<not> ap_auto_managed a'"
  using assms
  by (auto simp: add_magnet_def add_torrent_from_magnet_def add_def Let_def start_after_analysis_def andthen_def hcall_def
      is_download_start_blocked_def hold_paused_def from_magnet_uri_def restrict_flags_def info_hash_hex_def
      set_record_def cmd_def emit_def split: option.split)

text \<open>A magnet sent from the phone is started in the same breath as it is added: no command ever
  excludes a file of it, although its metadata is unknown at that point, so that the danger scan
  the documentation promises for both kinds of add only happens for uploaded files, whose
  dangerous files are refused in the very command that adds them.\<close>

theorem remote_magnet_starts_unscanned:
  assumes "\<not> cfg_lan_peer_cache_enabled (ss_settings sess)" "cfg_theme (ss_settings sess) \<noteq> CCCP_THEME_ID"
    and "\<And>h. re_added v a = Some h \<Longrightarrow> w_valid (re_world v) h"
  shows "(re_magnet v m = Some a \<and> re_added v a = Some h \<longrightarrow>
           (\<exists>a'. new_cmds sess (snd (add_magnet v m sess)) = [AddTorrent a', SetAutoManaged h, HResume h] \<and> ap_paused a'))
       \<and> (b64decode_strict b = Some data \<and> int (length data) \<le> MAX_TORRENT_BYTES \<and> re_torrent v data = Some ti
           \<and> excluded = auto_exclude_indices (scan_files (files_from_torrent_info ti) [] None)
               (cfg_danger_auto_exclude_threshold (ss_settings sess))
           \<and> AddTorrent a' \<in> set (new_cmds sess (snd (add_from_base64 v b sess))) \<and> excluded \<noteq> {} \<longrightarrow>
           ap_file_priorities a' = map (\<lambda>i. if int i \<in> excluded then 0 else 4) [0..<length (ti_files ti)])"
proof -
  have "\<exists>a'. new_cmds sess (snd (add_magnet v m sess)) = [AddTorrent a', SetAutoManaged h, HResume h] \<and> ap_paused a'"
    if "re_magnet v m = Some a" "re_added v a = Some h"
    using add_magnet_cmds [OF that assms(3) [OF that(2)] assms(1,2)] by blast
  moreover have "ap_file_priorities a' = map (\<lambda>i. if int i \<in> excluded then 0 else 4) [0..<length (ti_files ti)]"
    if "b64decode_strict b = Some data" "int (length data) \<le> MAX_TORRENT_BYTES" "re_torrent v data = Some ti"
      "excluded = auto_exclude_indices (scan_files (files_from_torrent_info ti) [] None)
               (cfg_danger_auto_exclude_threshold (ss_settings sess))"
      "AddTorrent a' \<in> set (new_cmds sess (snd (add_from_base64 v b sess)))" "excluded \<noteq> {}"
  proof -
    let ?w = "re_world v" and ?sp = "Some (cfg_default_download_dir (ss_settings sess))"
    have "snd (add_from_base64 v b sess) = fst (add_torrent_from_file ?w (re_added v (re_blank v)) (re_blank v) ti ?sp excluded sess)"
      using that(1-3) by (simp add: add_from_base64_def that(4) Let_def case_prod_beta)
    then have "AddTorrent a' \<in> set (new_cmds sess (fst (add_torrent_from_file ?w (re_added v (re_blank v)) (re_blank v) ti ?sp excluded sess)))"
      using that(5) by simp
    then show ?thesis using that(6)
      by (auto simp: add_torrent_from_file_def Let_def andthen_def from_torrent_file_def hold_paused_def
          FILE_PRIORITY_EXCLUDED_def FILE_PRIORITY_DEFAULT_def dest!: add_new_cmds split: if_splits)
  qed
  ultimately show ?thesis by blast
qed

text \<open>Concrete inputs.\<close>

definition phone_session :: session where
  "phone_session = small_session\<lparr>ss_settings := DEFAULT_SETTINGS\<lparr>cfg_remote_access_token := ''s3cret''\<rparr>\<rparr>"

definition phone_params :: atp where
  "phone_params = \<lparr>ap_ti = None, ap_info_hashes = \<lparr>hs_v1 = None, hs_v2 = []\<rparr>, ap_name = ''film'', ap_save_path = [],
     ap_file_priorities = [], ap_duplicate_is_error = False, ap_disable_dht = False, ap_disable_pex = False, ap_disable_lsd = False,
     ap_paused = False, ap_auto_managed = True, ap_have_pieces = [], ap_piece_priorities = [],
     ap_total_downloaded = 0, ap_total_uploaded = 0\<rparr>"

definition phone_env :: remote_env where
  "phone_env = \<lparr>re_world = small_world, re_magnet = (\<lambda>_. Some phone_params), re_added = (\<lambda>_. Some 7), re_torrent = (\<lambda>_. None),
     re_loads = (\<lambda>_. None), re_str = (\<lambda>_. []), re_blank = phone_params\<rparr>"

theorem remote_requires_token_witness:
  "with_token ''s3cret'' (''/'' @ ''?token='' @ ''s3cret'') (\<lambda>u s. (HtmlPage, s)) phone_session = (HtmlPage, phone_session)
   \<and> with_token ''s3cret'' (''/'' @ ''?token='' @ ''guess'') (\<lambda>u s. (HtmlPage, s)) phone_session = (unauthorized, phone_session)"
proof -
  have p: "list_all (\<lambda>c. plain_char c \<or> c = CHR ''/'') ''/'' \<and> prefix ''/'' ''/'' \<and> \<not> prefix ''//'' ''/''"
    and t: "list_all plain_char ''s3cret'' \<and> list_all plain_char ''guess'' \<and> ''s3cret'' \<noteq> [] \<and> ''guess'' \<noteq> ''s3cret''"
    by (simp_all add: plain_char_def ascii_alpha_def is_digit_def)
  show ?thesis
    using remote_requires_token [of undefined undefined phone_session undefined undefined "''/''" "''s3cret''" "''s3cret''" "\<lambda>u s. (HtmlPage, s)"]
      remote_requires_token [of undefined undefined phone_session undefined undefined "''/''" "''guess''" "''s3cret''" "\<lambda>u s. (HtmlPage, s)"] p t
    by (simp only: simp_thms if_True if_False)
qed

theorem remote_magnet_starts_unscanned_witness:
  "\<exists>a'. new_cmds phone_session (snd (add_magnet phone_env ''magnet:?xt=urn:btih:aa'' phone_session))
      = [AddTorrent a', SetAutoManaged 7, HResume 7]"
proof -
  have c: "\<not> cfg_lan_peer_cache_enabled (ss_settings phone_session)" "cfg_theme (ss_settings phone_session) \<noteq> CCCP_THEME_ID"
    "\<And>h. re_added phone_env (phone_params) = Some h \<Longrightarrow> w_valid (re_world phone_env) h"
    by (auto simp: phone_session_def small_session_def phone_env_def small_world_def DEFAULT_SETTINGS_def CCCP_THEME_ID_def)
  have "re_magnet phone_env ''magnet:?xt=urn:btih:aa'' = Some (phone_params) \<and> re_added phone_env (phone_params) = Some 7"
    by (simp add: phone_env_def)
  with remote_magnet_starts_unscanned [OF c, where m = "''magnet:?xt=urn:btih:aa''" and h = 7] show ?thesis by blast
qed

end
