(* ===== verification/Fetch.thy ===== *)
theory Fetch
  imports Url Session_Props Rss
begin

text \<open>
  \<open>engine/url_fetch.py\<close>, \<open>engine/update_checker.py\<close> and \<open>engine/webhook_notification_service.py\<close>.
  A connection is a parameter: how opening it by some route ends, and, for each pass of the read
  loop, whether the fetches were cancelled, the monotonic clock, and what the read returns.
  SHA-256, \<open>json.loads\<close> and the file system's failures are parameters too; a file is its content,
  \<open>None\<close> when there is none.
\<close>

section \<open>Exceptions and connections\<close>

text \<open>\<open>FetchError\<close> by its cause; \<open>Wrapped\<close> carries the text of the exception it replaces.\<close>

datatype fetch_error =
    BadScheme string
  | Cancelled
  | TooSlow
  | TooLarge
  | KillSwitch
  | HashMismatch
  | Wrapped string

text \<open>What urllib and the file system raise: \<open>LibErr\<close> is a \<open>URLError\<close>, an \<open>OSError\<close> or a
  \<open>ValueError\<close>, \<open>HttpErr\<close> an \<open>http.client.HTTPException\<close> (a bad status line, an incomplete chunk,
  a URL with a space).\<close>

datatype exn = Fetch_Error fetch_error | LibErr string | HttpErr string

datatype route = Direct | Via string

record connection =
  cn_quitting :: bool
  cn_open :: "route \<Rightarrow> exn option"
  cn_cancelled :: "nat \<Rightarrow> bool"
  cn_clock :: "nat \<Rightarrow> rat"
  cn_read :: "nat \<Rightarrow> exn + string"

definition MAX_RESPONSE_BYTES :: int where "MAX_RESPONSE_BYTES = 50 * 1024 * 1024"
definition MAX_DOWNLOAD_BYTES :: int where "MAX_DOWNLOAD_BYTES = 1024 * 1024 * 1024"

text \<open>\<open>_iter_response_chunks\<close> from the pass \<open>i\<close> on: the chunks it yields, then what it raises.\<close>

function iter_chunks :: "connection \<Rightarrow> rat \<Rightarrow> int \<Rightarrow> nat \<Rightarrow> int \<Rightarrow> string list \<times> exn option" where
  "iter_chunks cn deadline max_bytes i tot =
     (if cn_cancelled cn i then ([], Some (Fetch_Error Cancelled))
      else if cn_clock cn i > deadline then ([], Some (Fetch_Error TooSlow))
      else case cn_read cn i of
             Inl e \<Rightarrow> ([], Some e)
           | Inr chunk \<Rightarrow>
               if chunk = [] then ([], None)
               else if tot + int (length chunk) > max_bytes then ([], Some (Fetch_Error TooLarge))
               else let (cs, e) = iter_chunks cn deadline max_bytes (i + 1) (tot + int (length chunk))
                    in (chunk # cs, e))"
  by pat_completeness auto

text \<open>Every pass that goes on reads at least one byte, so the size cap bounds the passes.\<close>

termination
  by (relation "measure (\<lambda>(cn, deadline, max_bytes, i, tot). nat (max_bytes + 1 - tot))")
     (auto simp: length_greater_0_conv [symmetric] simp del: length_greater_0_conv)

declare iter_chunks.simps [simp del]

definition read_response_body :: "connection \<Rightarrow> rat \<Rightarrow> exn + string" where
  "read_response_body cn deadline =
     (case iter_chunks cn deadline MAX_RESPONSE_BYTES 0 0 of
        (cs, None) \<Rightarrow> Inr (concat cs)
      | (_, Some e) \<Rightarrow> Inl e)"

section \<open>The proxy\<close>

text \<open>\<open>show_int\<close> is \<open>str\<close> of the port.\<close>

definition build_http_proxy_url :: "(int \<Rightarrow> string) \<Rightarrow> proxy_settings \<Rightarrow> string" where
  "build_http_proxy_url show_int p =
     (if px_username p \<noteq> []
      then ''http://'' @ px_username p @ '':'' @ px_password p @ ''@'' @ px_host p @ '':'' @ show_int (px_port p)
      else ''http://'' @ px_host p @ '':'' @ show_int (px_port p))"

definition build_proxy_opener :: "(int \<Rightarrow> string) \<Rightarrow> proxy_settings option \<Rightarrow> exn + route" where
  "build_proxy_opener show_int proxy =
     (case proxy of
        None \<Rightarrow> Inr Direct
      | Some p \<Rightarrow>
          if \<not> px_enabled p then Inr Direct
          else if px_proxy_type p \<in> {''http'', ''http_pw''} then Inr (Via (build_http_proxy_url show_int p))
          else if px_proxy_type p \<in> {''socks5'', ''socks5_pw''}
          then (if px_force_proxy p then Inl (Fetch_Error KillSwitch) else Inr Direct)
          else Inr Direct)"

section \<open>Fetching\<close>

text \<open>\<open>_open\<close>: the route it connected by, or what it raised.\<close>

definition open_url :: "(int \<Rightarrow> string) \<Rightarrow> connection \<Rightarrow> string \<Rightarrow> proxy_settings option \<Rightarrow> exn + route" where
  "open_url show_int cn url proxy =
     (case urlsplit url of
        None \<Rightarrow> Inl (LibErr ''Invalid IPv6 URL'')
      | Some u \<Rightarrow>
          if us_scheme u \<notin> {''http'', ''https''} then Inl (Fetch_Error (BadScheme (us_scheme u)))
          else if cn_quitting cn then Inl (Fetch_Error Cancelled)
          else case build_proxy_opener show_int proxy of
                 Inl e \<Rightarrow> Inl e
               | Inr r \<Rightarrow> (case cn_open cn r of Some e \<Rightarrow> Inl e | None \<Rightarrow> Inr r))"

text \<open>The \<open>except\<close> clause of \<open>fetch_url\<close>: an \<open>HTTPException\<close> is not among the classes it replaces.\<close>

definition wrap_exn :: "exn \<Rightarrow> exn" where
  "wrap_exn e = (case e of LibErr msg \<Rightarrow> Fetch_Error (Wrapped msg) | _ \<Rightarrow> e)"

definition fetch_url :: "(int \<Rightarrow> string) \<Rightarrow> connection \<Rightarrow> string \<Rightarrow> rat \<Rightarrow> proxy_settings option \<Rightarrow> exn + string" where
  "fetch_url show_int cn url deadline proxy =
     (case open_url show_int cn url proxy of
        Inl e \<Rightarrow> Inl (wrap_exn e)
      | Inr _ \<Rightarrow> (case read_response_body cn deadline of Inl e \<Rightarrow> Inl (wrap_exn e) | Inr body \<Rightarrow> Inr body))"

section \<open>Downloading to a file\<close>

text \<open>The destination: whether it can be opened, the first write that fails (if one does), whether
  closing it (which flushes the buffer) fails, and whether it can be removed.\<close>

record dest_file =
  df_content :: "string option"
  df_open_error :: "string option"
  df_write_error :: "nat \<Rightarrow> string option"
  df_close_error :: "string option"
  df_can_unlink :: bool

text \<open>The body of the \<open>for\<close> loop: what reached the file, and the first failing write.\<close>

fun write_chunks :: "(nat \<Rightarrow> string option) \<Rightarrow> nat \<Rightarrow> string list \<Rightarrow> string \<times> string option" where
  "write_chunks werr i [] = ([], None)"
| "write_chunks werr i (c # cs) =
     (case werr i of
        Some e \<Rightarrow> ([], Some e)
      | None \<Rightarrow> (let (out, e) = write_chunks werr (i + 1) cs in (c @ out, e)))"

text \<open>The \<open>try\<close> block, with the chunks that are hashed: the ones read. It returns the file, and
  whether it ended by an exception.\<close>

definition download_body :: "(int \<Rightarrow> string) \<Rightarrow> (string \<Rightarrow> string) \<Rightarrow> connection \<Rightarrow> string \<Rightarrow> rat \<Rightarrow> string
    \<Rightarrow> proxy_settings option \<Rightarrow> dest_file \<Rightarrow> exn option \<times> dest_file" where
  "download_body show_int sha256 cn url deadline expected proxy df =
     (case open_url show_int cn url proxy of
        Inl e \<Rightarrow> (Some e, df)
      | Inr _ \<Rightarrow>
          (case df_open_error df of
             Some e \<Rightarrow> (Some (LibErr e), df)
           | None \<Rightarrow>
               (let (cs, rerr) = iter_chunks cn deadline MAX_DOWNLOAD_BYTES 0 0;
                    (written, werr) = write_chunks (df_write_error df) 0 cs;
                    df1 = df\<lparr>df_content := Some written\<rparr>
                in case df_close_error df of
                     Some e \<Rightarrow> (Some (LibErr e), df1)
                   | None \<Rightarrow>
                       (case (werr, rerr) of
                          (Some e, _) \<Rightarrow> (Some (LibErr e), df1)
                        | (None, Some e) \<Rightarrow> (Some e, df1)
                        | (None, None) \<Rightarrow>
                            (if sha256 (concat cs) \<noteq> py_lower expected then (Some (Fetch_Error HashMismatch), df1)
                             else (None, df1))))))"

definition unlink_unverified :: "dest_file \<Rightarrow> dest_file" where
  "unlink_unverified df = (if df_can_unlink df then df\<lparr>df_content := None\<rparr> else df)"

text \<open>This \<open>except\<close> clause names \<open>HTTPException\<close> as well.\<close>

definition fetch_url_to_file :: "(int \<Rightarrow> string) \<Rightarrow> (string \<Rightarrow> string) \<Rightarrow> connection \<Rightarrow> string \<Rightarrow> rat \<Rightarrow> string
    \<Rightarrow> proxy_settings option \<Rightarrow> dest_file \<Rightarrow> fetch_error option \<times> dest_file" where
  "fetch_url_to_file show_int sha256 cn url deadline expected proxy df =
     (case download_body show_int sha256 cn url deadline expected proxy df of
        (None, df1) \<Rightarrow> (None, df1)
      | (Some e, df1) \<Rightarrow>
          (Some (case e of Fetch_Error fe \<Rightarrow> fe | LibErr msg \<Rightarrow> Wrapped msg | HttpErr msg \<Rightarrow> Wrapped msg),
           unlink_unverified df1))"

section \<open>Versions\<close>

text \<open>\<open>lstrip("vV")\<close>, then the leading ASCII digits of every part. (A digit outside ASCII ends the
  number here.)\<close>

definition parse_version :: "string \<Rightarrow> int list" where
  "parse_version version =
     map (\<lambda>part. let digits = takeWhile is_digit part in if digits \<noteq> [] then dec_value digits else 0)
       (split_on CHR ''.'' (dropWhile (\<lambda>c. c \<in> set ''vV'') version))"

text \<open>\<open><\<close> of tuples.\<close>

fun tuple_less :: "int list \<Rightarrow> int list \<Rightarrow> bool" where
  "tuple_less xs [] = False"
| "tuple_less [] (y # ys) = True"
| "tuple_less (x # xs) (y # ys) = (if x = y then tuple_less xs ys else x < y)"

definition is_newer_version :: "string \<Rightarrow> string \<Rightarrow> bool" where
  "is_newer_version remote local_version = tuple_less (parse_version local_version) (parse_version remote)"

section \<open>The release\<close>

record asset =
  as_name :: json
  as_url :: json
  as_digest :: json

text \<open>What \<open>json.loads\<close> makes of the body: \<open>JSONDecodeError\<close>, \<open>UnicodeDecodeError\<close>, a value.\<close>

datatype loads_result = NotJson | NotUtf8 | Loaded json

datatype update_signal =
    Check_Succeeded string string "asset list"
  | Check_Failed
  | Install_Ready string
  | Verify_Failed

definition get_or :: "(string \<times> json) list \<Rightarrow> string \<Rightarrow> string \<Rightarrow> json" where
  "get_or d k dflt = (case dget d k of Some j \<Rightarrow> j | None \<Rightarrow> JStr dflt)"

definition asset_of :: "json \<Rightarrow> asset option" where
  "asset_of j = (case j of
     JObj d \<Rightarrow> Some \<lparr>as_name = get_or d ''name'' [], as_url = get_or d ''browser_download_url'' [], as_digest = get_or d ''digest'' []\<rparr>
   | _ \<Rightarrow> None)"

text \<open>The list comprehension over \<open>data.get("assets", [])\<close>: an object or a string is iterated by keys
  or characters, which have no \<open>get\<close>.\<close>

definition assets_of :: "json option \<Rightarrow> asset list option" where
  "assets_of j = (case j of
     None \<Rightarrow> Some []
   | Some (JArr js) \<Rightarrow> those (map asset_of js)
   | Some (JObj d) \<Rightarrow> if d = [] then Some [] else None
   | Some (JStr s) \<Rightarrow> if s = [] then Some [] else None
   | _ \<Rightarrow> None)"

definition EXPECTED_HTML_URL_PREFIX :: string where "EXPECTED_HTML_URL_PREFIX = ''https://github.com/''"
definition GITHUB_API_URL :: string where
  "GITHUB_API_URL = ''https://api.github.com/repos/Thomasgonz74/premiere-pr/releases/latest''"

text \<open>\<open>_CheckUpdateRunnable.run\<close>: \<open>None\<close> when an exception leaves the worker and nothing is signalled.
  (A tag that is not a string cannot be emitted.)\<close>

definition check_update_run :: "(int \<Rightarrow> string) \<Rightarrow> (string \<Rightarrow> loads_result) \<Rightarrow> connection \<Rightarrow> rat \<Rightarrow> proxy_settings option
    \<Rightarrow> update_signal option" where
  "check_update_run show_int loads cn deadline proxy =
     (case fetch_url show_int cn GITHUB_API_URL deadline proxy of
        Inl (Fetch_Error _) \<Rightarrow> Some Check_Failed
      | Inl _ \<Rightarrow> None
      | Inr raw \<Rightarrow>
          (case loads raw of
             NotJson \<Rightarrow> Some Check_Failed
           | NotUtf8 \<Rightarrow> None
           | Loaded (JObj d) \<Rightarrow>
               (let tag = get_or d ''tag_name'' []; html = get_or d ''html_url'' []
                in if \<not> json_truthy tag \<or> \<not> json_truthy html then Some Check_Failed
                   else case html of
                          JStr url \<Rightarrow>
                            (if \<not> prefix EXPECTED_HTML_URL_PREFIX url then Some Check_Failed
                             else case (assets_of (dget d ''assets''), tag) of
                                    (Some as, JStr t) \<Rightarrow> Some (Check_Succeeded t url as)
                                  | _ \<Rightarrow> None)
                        | _ \<Rightarrow> None)
           | Loaded _ \<Rightarrow> None))"

text \<open>The loops of \<open>_find_installer_asset\<close>: \<open>None\<close> when a name is not a string (\<open>AttributeError\<close>).\<close>

fun first_asset :: "(string \<Rightarrow> bool) \<Rightarrow> asset list \<Rightarrow> asset option option" where
  "first_asset p [] = Some None"
| "first_asset p (a # as) =
     (case as_name a of JStr n \<Rightarrow> if p (py_lower n) then Some (Some a) else first_asset p as | _ \<Rightarrow> None)"

definition find_installer_asset :: "asset list \<Rightarrow> asset option option" where
  "find_installer_asset as =
     (case first_asset (contains ''setup'') as of
        Some None \<Rightarrow> first_asset (suffix ''.exe'') as
      | r \<Rightarrow> r)"

text \<open>\<open>_cleanup_stale_installers\<close> on the names of the temporary directory.\<close>

definition cleanup_stale_installers :: "(string \<Rightarrow> bool) \<Rightarrow> string list \<Rightarrow> string list" where
  "cleanup_stale_installers can_unlink names =
     filter (\<lambda>n. \<not> (prefix ''torrent2000_update_'' n \<and> can_unlink n)) names"

definition installer_file_name :: "string \<Rightarrow> string \<Rightarrow> string" where
  "installer_file_name uuid name = ''torrent2000_update_'' @ uuid @ ''_'' @ name"

text \<open>\<open>_DownloadVerifiedInstallerRunnable.run\<close> over its destination: the signal (\<open>None\<close>: none, or an
  exception), and the file. \<open>urlsplit\<close> takes a false value for an empty URL and raises on any other
  value that is not a string. \<open>json_str\<close> is the name as the f-string prints it.\<close>

definition download_installer_run :: "(int \<Rightarrow> string) \<Rightarrow> (string \<Rightarrow> string) \<Rightarrow> (json \<Rightarrow> string) \<Rightarrow> connection \<Rightarrow> rat
    \<Rightarrow> string \<Rightarrow> string \<Rightarrow> proxy_settings option \<Rightarrow> asset \<Rightarrow> dest_file \<Rightarrow> update_signal option \<times> dest_file" where
  "download_installer_run show_int sha256 json_str cn deadline tmp uuid proxy a df =
     (case as_digest a of
        JStr digest \<Rightarrow>
          (if \<not> prefix ''sha256:'' digest then (Some Verify_Failed, df)
           else let fetch = (\<lambda>url. fetch_url_to_file show_int sha256 cn url deadline (drop 7 digest) proxy df);
                    outcome = (case as_url a of
                      JStr url \<Rightarrow> Some (fetch url)
                    | j \<Rightarrow> if json_truthy j then None else Some (fetch []))
                in case outcome of
                     None \<Rightarrow> (None, unlink_unverified df)
                   | Some (None, df1) \<Rightarrow>
                       (Some (Install_Ready (tmp @ ''/'' @ installer_file_name uuid (json_str (as_name a)))), df1)
                   | Some (Some Cancelled, df1) \<Rightarrow> (None, df1)
                   | Some (Some _, df1) \<Rightarrow> (Some Verify_Failed, df1))
      | _ \<Rightarrow> (None, df))"

section \<open>UpdateChecker\<close>

datatype checker_signal =
    Update_Available string string
  | Installer_Verified string
  | Installer_Verification_Failed

datatype checker_job = Start_Check "proxy_settings" | Start_Download asset "proxy_settings"

definition uc_check_now :: "settings \<Rightarrow> checker_job list" where
  "uc_check_now cfg = (if cfg_check_for_updates cfg then [Start_Check (cfg_proxy cfg)] else [])"

text \<open>The slots, over \<open>_latest_assets\<close>.\<close>

definition uc_on_signal :: "string \<Rightarrow> settings \<Rightarrow> update_signal \<Rightarrow> asset list \<Rightarrow> asset list \<times> checker_signal list" where
  "uc_on_signal app_version cfg sig latest =
     (case sig of
        Check_Succeeded tag url as \<Rightarrow>
          (as, if \<not> is_newer_version tag app_version then []
               else if tag = cfg_dismissed_update_version cfg then []
               else [Update_Available tag url])
      | Check_Failed \<Rightarrow> (latest, [])
      | Install_Ready path \<Rightarrow> (latest, [Installer_Verified path])
      | Verify_Failed \<Rightarrow> (latest, [Installer_Verification_Failed]))"

definition download_verified_installer :: "settings \<Rightarrow> asset list \<Rightarrow> (checker_job + checker_signal) option" where
  "download_verified_installer cfg latest =
     map_option (\<lambda>r. case r of Some a \<Rightarrow> Inl (Start_Download a (cfg_proxy cfg)) | None \<Rightarrow> Inr Installer_Verification_Failed)
       (find_installer_asset latest)"

section \<open>Webhook notifications\<close>

text \<open>\<open>_send\<close>: the URL and the body posted, with the proxy.\<close>

type_synonym webhook_post = "string \<times> string \<times> proxy_settings"

definition webhook_send :: "settings \<Rightarrow> string \<Rightarrow> webhook_post list" where
  "webhook_send cfg message =
     (if \<not> cfg_webhook_enabled cfg \<or> cfg_webhook_url cfg = [] then []
      else [(cfg_webhook_url cfg, message, cfg_proxy cfg)])"

definition webhook_record_name :: "session \<Rightarrow> string \<Rightarrow> string" where
  "webhook_record_name sess ih = (case get_record sess ih of Some r \<Rightarrow> tr_name r | None \<Rightarrow> take 12 ih)"

definition webhook_on_signal :: "session \<Rightarrow> signal \<Rightarrow> webhook_post list" where
  "webhook_on_signal sess sig =
     (case sig of
        TorrentFinished ih \<Rightarrow> webhook_send (ss_settings sess)
          (''T'' @ [CHR 0xC3, CHR 0xA9] @ ''l'' @ [CHR 0xC3, CHR 0xA9] @ ''chargement termin'' @ [CHR 0xC3, CHR 0xA9] @ '' : ''
            @ webhook_record_name sess ih)
      | TrackerError ih message \<Rightarrow> webhook_send (ss_settings sess)
          (''Erreur de tracker ('' @ webhook_record_name sess ih @ '') : '' @ message)
      | FileError ih message \<Rightarrow> webhook_send (ss_settings sess)
          (''Erreur disque/fichier ('' @ webhook_record_name sess ih @ '') : '' @ message)
      | _ \<Rightarrow> [])"

definition webhook_on_limit_reached :: "session \<Rightarrow> string \<Rightarrow> string \<Rightarrow> webhook_post list" where
  "webhook_on_limit_reached sess ih reason =
     webhook_send (ss_settings sess)
       (''Partage en pause ('' @ webhook_record_name sess ih @ '') : limite '' @ reason @ '' atteinte'')"

section \<open>The read loop\<close>

lemma iter_chunks_bounded:
  "tot \<le> max_bytes \<Longrightarrow> tot + int (length (concat (fst (iter_chunks cn deadline max_bytes i tot)))) \<le> max_bytes
     \<and> [] \<notin> set (fst (iter_chunks cn deadline max_bytes i tot))"
proof (induction cn deadline max_bytes i tot rule: iter_chunks.induct)
  case (1 cn deadline max_bytes i tot)
  show ?case
  proof (cases "cn_cancelled cn i \<or> cn_clock cn i > deadline \<or> (\<exists>e. cn_read cn i = Inl e) \<or> cn_read cn i = Inr []")
    case True
    then show ?thesis using "1.prems" by (subst (1 2) iter_chunks.simps) (auto split: sum.splits)
  next
    case False
    then obtain chunk where c: "cn_read cn i = Inr chunk" "chunk \<noteq> []" by (cases "cn_read cn i") auto
    show ?thesis
    proof (cases "tot + int (length chunk) > max_bytes")
      case True
      then show ?thesis using "1.prems" False c by (subst (1 2) iter_chunks.simps) simp
    next
      case fits: False
      have "tot + int (length chunk) + int (length (concat (fst (iter_chunks cn deadline max_bytes (i + 1) (tot + int (length chunk)))))) \<le> max_bytes
        \<and> [] \<notin> set (fst (iter_chunks cn deadline max_bytes (i + 1) (tot + int (length chunk))))"
        using "1.IH" [OF _ _ c(1) c(2) fits] False fits by simp
      then show ?thesis using False c fits
        by (subst (1 2) iter_chunks.simps) (auto simp: case_prod_beta)
    qed
  qed
qed

text \<open>A loop that ends without an exception has read everything, each time before the deadline.\<close>

lemma iter_chunks_complete:
  "iter_chunks cn deadline max_bytes i tot = (cs, None) \<Longrightarrow>
     (\<forall>j < length cs. cn_read cn (i + j) = Inr (cs ! j)) \<and> cn_read cn (i + length cs) = Inr []
     \<and> (\<forall>j \<le> length cs. \<not> cn_cancelled cn (i + j) \<and> cn_clock cn (i + j) \<le> deadline)"
proof (induction cn deadline max_bytes i tot arbitrary: cs rule: iter_chunks.induct)
  case (1 cn deadline max_bytes i tot)
  from "1.prems" have run: "\<not> cn_cancelled cn i" "\<not> cn_clock cn i > deadline"
    by (simp_all add: iter_chunks.simps [of cn deadline max_bytes i tot] split: if_splits)
  then obtain chunk where c: "cn_read cn i = Inr chunk"
    using "1.prems" by (auto simp: iter_chunks.simps [of cn deadline max_bytes i tot] split: sum.splits)
  show ?case
  proof (cases "chunk = []")
    case True
    then show ?thesis using "1.prems" run c by (auto simp: iter_chunks.simps [of cn deadline max_bytes i tot])
  next
    case False
    then have fits: "\<not> tot + int (length chunk) > max_bytes"
      using "1.prems" run c by (auto simp: iter_chunks.simps [of cn deadline max_bytes i tot] split: if_splits)
    obtain ds e where rest: "iter_chunks cn deadline max_bytes (i + 1) (tot + int (length chunk)) = (ds, e)" by (metis prod.exhaust)
    then have cs: "cs = chunk # ds" "e = None"
      using "1.prems" run c False fits by (simp_all add: iter_chunks.simps [of cn deadline max_bytes i tot])
    note IH = "1.IH" [OF run c False fits rest [unfolded cs(2)]]
    have "cn_read cn (i + j) = Inr (cs ! j)" if "j < length cs" for j
      using that IH c by (cases j) (simp_all add: cs(1))
    moreover have "\<not> cn_cancelled cn (i + j) \<and> cn_clock cn (i + j) \<le> deadline" if "j \<le> length cs" for j
      using that IH run by (cases j) (simp_all add: cs(1))
    ultimately show ?thesis using IH by (simp add: cs(1))
  qed
qed

lemma read_response_body_complete:
  assumes "read_response_body cn deadline = Inr body"
  shows "int (length body) \<le> MAX_RESPONSE_BYTES
    \<and> (\<exists>cs. body = concat cs \<and> (\<forall>i < length cs. cn_read cn i = Inr (cs ! i)) \<and> cn_read cn (length cs) = Inr []
        \<and> (\<forall>i \<le> length cs. \<not> cn_cancelled cn i \<and> cn_clock cn i \<le> deadline))"
proof -
  obtain cs where cs: "iter_chunks cn deadline MAX_RESPONSE_BYTES 0 0 = (cs, None)" "body = concat cs"
    using assms by (auto simp: read_response_body_def split: prod.splits option.splits)
  have "int (length body) \<le> MAX_RESPONSE_BYTES"
    using iter_chunks_bounded [of 0 MAX_RESPONSE_BYTES cn deadline 0] cs by (simp add: MAX_RESPONSE_BYTES_def)
  then show ?thesis using iter_chunks_complete [OF cs(1)] cs(2) by auto
qed

lemma fetch_url_raises: "fetch_url show_int cn url deadline proxy = Inl e \<Longrightarrow> e \<noteq> LibErr m"
  by (cases e) (auto simp: fetch_url_def wrap_exn_def split: sum.splits exn.splits)

lemma write_chunks_complete: "snd (write_chunks werr i cs) = None \<Longrightarrow> fst (write_chunks werr i cs) = concat cs"
  by (induction cs arbitrary: i) (auto simp: case_prod_beta split: option.splits)

section \<open>What survives a download\<close>

lemma download_body_verified:
  assumes "download_body show_int sha256 cn url deadline expected proxy df = (None, df')"
  shows "\<exists>body. df_content df' = Some body \<and> sha256 body = py_lower expected \<and> int (length body) \<le> MAX_DOWNLOAD_BYTES"
proof -
  let ?r = "iter_chunks cn deadline MAX_DOWNLOAD_BYTES 0 0"
  let ?w = "write_chunks (df_write_error df) 0 (fst ?r)"
  have "snd ?w = None \<and> sha256 (concat (fst ?r)) = py_lower expected \<and> df_content df' = Some (fst ?w)"
    using assms by (auto simp: download_body_def case_prod_beta Let_def split: sum.splits option.splits if_splits)
  moreover have "int (length (concat (fst ?r))) \<le> MAX_DOWNLOAD_BYTES"
    using iter_chunks_bounded [of 0 MAX_DOWNLOAD_BYTES cn deadline 0] by (simp add: MAX_DOWNLOAD_BYTES_def)
  ultimately show ?thesis using write_chunks_complete [of "df_write_error df" 0 "fst ?r"] by auto
qed

lemma download_body_can_unlink:
  "download_body show_int sha256 cn url deadline expected proxy df = (r, df') \<Longrightarrow> df_can_unlink df' = df_can_unlink df"
  by (auto simp: download_body_def case_prod_beta Let_def split: sum.splits option.splits if_splits)

lemma fetch_url_to_file_ok:
  "fetch_url_to_file show_int sha256 cn url deadline expected proxy df = (None, df') \<Longrightarrow>
   \<exists>body. df_content df' = Some body \<and> sha256 body = py_lower expected \<and> int (length body) \<le> MAX_DOWNLOAD_BYTES"
  by (auto simp: fetch_url_to_file_def dest!: download_body_verified split: prod.splits option.splits)

lemma fetch_url_to_file_failed:
  "fetch_url_to_file show_int sha256 cn url deadline expected proxy df = (Some e, df') \<Longrightarrow> df_can_unlink df \<Longrightarrow> df_content df' = None"
  by (auto simp: fetch_url_to_file_def unlink_unverified_def dest!: download_body_can_unlink split: prod.splits option.splits)

section \<open>Properties\<close>

text \<open>C23: an update installer is announced exactly when its file survives the download, and a file that
  survives has the SHA-256 the release published and at most a gigabyte: whatever the server sends,
  whichever read, write or close fails, and wherever the quit cuts in, nothing else is left behind.\<close>

theorem installer_survives_only_verified:
  assumes "download_installer_run show_int sha256 json_str cn deadline tmp uuid proxy a df = (sig, df')"
    and "df_content df = None" "df_can_unlink df"
  shows "((\<exists>p. sig = Some (Install_Ready p)) \<longleftrightarrow> df_content df' \<noteq> None)
       \<and> (\<forall>body. df_content df' = Some body \<longrightarrow>
            (\<exists>h. as_digest a = JStr (''sha256:'' @ h) \<and> sha256 body = py_lower h \<and> int (length body) \<le> MAX_DOWNLOAD_BYTES))"
proof (cases "\<exists>h. as_digest a = JStr (''sha256:'' @ h)")
  case False
  then have "prefix ''sha256:'' d \<Longrightarrow> as_digest a \<noteq> JStr d" for d by (auto simp: prefix_def)
  then have "sig \<in> {Some Verify_Failed, None} \<and> df' = df"
    using assms(1) by (auto simp: download_installer_run_def split: json.splits if_splits)
  then show ?thesis using assms(2) by auto
next
  case True
  then obtain h where h: "as_digest a = JStr (''sha256:'' @ h)" by blast
  define fetch where "fetch = (\<lambda>url. fetch_url_to_file show_int sha256 cn url deadline h proxy df)"
  have "(sig, df') = (None, unlink_unverified df)
      \<or> (\<exists>url r. fetch url = (r, df') \<and> (if r = None then \<exists>p. sig = Some (Install_Ready p)
                                       else sig \<in> {None, Some Verify_Failed}))"
    using assms(1) h unfolding download_installer_run_def fetch_def
    by (cases "as_url a") (auto simp: Let_def split: if_splits prod.splits option.splits fetch_error.splits)
  then show ?thesis
  proof (elim disjE exE conjE)
    assume "(sig, df') = (None, unlink_unverified df)"
    then show ?thesis using assms(2) by (simp add: unlink_unverified_def)
  next
    fix url r
    assume f: "fetch url = (r, df')"
      and s: "if r = None then \<exists>p. sig = Some (Install_Ready p) else sig \<in> {None, Some Verify_Failed}"
    show ?thesis
    proof (cases r)
      case None
      with fetch_url_to_file_ok [OF f [unfolded fetch_def None]] s h show ?thesis by auto
    next
      case (Some e)
      with fetch_url_to_file_failed [OF f [unfolded fetch_def Some] assms(3)] s show ?thesis by auto
    qed
  qed
qed

text \<open>C24: a fetch that returns a body returns the whole body, all chunks up to the end of the response, each
  read before the deadline and before any quit, and 50 MiB at most; it came from an http or https
  address, through the proxy when that is an HTTP one and directly otherwise, and never past the kill
  switch of a SOCKS5 proxy, which the fetch cannot use.\<close>

theorem fetch_guarded:
  assumes "fetch_url show_int cn url deadline (Some p) = Inr body"
  shows "int (length body) \<le> 50 * 1024 * 1024
       \<and> (\<exists>cs. body = concat cs \<and> (\<forall>i < length cs. cn_read cn i = Inr (cs ! i)) \<and> cn_read cn (length cs) = Inr []
            \<and> (\<forall>i \<le> length cs. \<not> cn_cancelled cn i \<and> cn_clock cn i \<le> deadline))
       \<and> (\<exists>u. urlsplit url = Some u \<and> us_scheme u \<in> {''http'', ''https''}) \<and> \<not> cn_quitting cn
       \<and> cn_open cn (if px_enabled p \<and> px_proxy_type p \<in> {''http'', ''http_pw''} then Via (build_http_proxy_url show_int p) else Direct) = None
       \<and> \<not> (px_enabled p \<and> px_force_proxy p \<and> px_proxy_type p \<in> {''socks5'', ''socks5_pw''})"
proof -
  obtain r where r: "open_url show_int cn url (Some p) = Inr r" "read_response_body cn deadline = Inr body"
    using assms by (auto simp: fetch_url_def split: sum.splits)
  have "(\<exists>u. urlsplit url = Some u \<and> us_scheme u \<in> {''http'', ''https''}) \<and> \<not> cn_quitting cn
       \<and> cn_open cn (if px_enabled p \<and> px_proxy_type p \<in> {''http'', ''http_pw''} then Via (build_http_proxy_url show_int p) else Direct) = None
       \<and> \<not> (px_enabled p \<and> px_force_proxy p \<and> px_proxy_type p \<in> {''socks5'', ''socks5_pw''})"
    using r(1) by (auto simp: open_url_def build_proxy_opener_def split: option.splits if_splits sum.splits)
  then show ?thesis using read_response_body_complete [OF r(2)] by (simp only: MAX_RESPONSE_BYTES_def) blast
qed

text \<open>\<open>fetch_url\<close> promises one exception class, but an \<open>HTTPException\<close> (a malformed status line, a URL
  with a space) passes through it, and then the update check signals neither success nor failure.\<close>

lemma http_exception_escapes:
  assumes "urlsplit GITHUB_API_URL = Some u" "us_scheme u = ''https''"
    and "\<not> cn_quitting cn" "cn_open cn Direct = Some (HttpErr msg)"
  shows "fetch_url show_int cn GITHUB_API_URL deadline None = Inl (HttpErr msg)
       \<and> check_update_run show_int loads cn deadline None = None"
  using assms by (simp add: check_update_run_def fetch_url_def open_url_def build_proxy_opener_def wrap_exn_def)

text \<open>The order of versions is a strict linear order on their numbers.\<close>

lemma tuple_less_linear:
  "\<not> tuple_less xs xs" "tuple_less xs ys \<or> xs = ys \<or> tuple_less ys xs"
  "tuple_less xs ys \<Longrightarrow> tuple_less ys zs \<Longrightarrow> tuple_less xs zs"
proof -
  show "\<not> tuple_less xs xs" by (induction xs) auto
  show "tuple_less xs ys \<or> xs = ys \<or> tuple_less ys xs"
  proof (induction xs arbitrary: ys)
    case Nil
    then show ?case by (cases ys) auto
  next
    case (Cons x xs)
    then show ?case by (cases ys) auto
  qed
  show "tuple_less xs ys \<Longrightarrow> tuple_less ys zs \<Longrightarrow> tuple_less xs zs"
  proof (induction xs arbitrary: ys zs)
    case Nil
    then show ?case by (cases ys; cases zs) auto
  next
    case (Cons x xs)
    then show ?case by (cases ys; cases zs) (auto split: if_splits)
  qed
qed

text \<open>Concrete inputs: a two-byte installer served in one chunk, and a SOCKS5 proxy with the kill switch.\<close>

definition served :: connection where
  "served = \<lparr>cn_quitting = False, cn_open = (\<lambda>_. None), cn_cancelled = (\<lambda>_. False), cn_clock = (\<lambda>_. 0),
     cn_read = (\<lambda>i. Inr (if i = 0 then ''MZ'' else []))\<rparr>"

definition fresh_file :: dest_file where
  "fresh_file = \<lparr>df_content = None, df_open_error = None, df_write_error = (\<lambda>_. None), df_close_error = None, df_can_unlink = True\<rparr>"

definition demo_asset :: asset where
  "demo_asset = \<lparr>as_name = JStr ''Setup.exe'', as_url = JStr ''https://github.com/s'', as_digest = JStr ''sha256:aB''\<rparr>"

definition demo_sha256 :: "string \<Rightarrow> string" where
  "demo_sha256 b = (if b = ''MZ'' then ''ab'' else ''00'')"

lemma served_chunks: "iter_chunks served 600 MAX_DOWNLOAD_BYTES 0 0 = ([''MZ''], None)"
  by (subst iter_chunks.simps, simp add: served_def MAX_DOWNLOAD_BYTES_def, subst iter_chunks.simps, simp)

lemma demo_url: "urlsplit ''https://github.com/s'' = Some \<lparr>us_scheme = ''https'', us_netloc = ''github.com'', us_path = ''/s'', us_query = [], us_fragment = []\<rparr>"
  by code_simp

lemma demo_download:
  "download_installer_run (\<lambda>_. []) demo_sha256 (\<lambda>_. ''Setup.exe'') served 600 ''/tmp'' ''u'' None demo_asset fresh_file
     = (Some (Install_Ready ''/tmp/torrent2000_update_u_Setup.exe''), fresh_file\<lparr>df_content := Some ''MZ''\<rparr>)"
proof -
  have o: "open_url (\<lambda>_. []) served ''https://github.com/s'' None = Inr Direct"
    by (simp add: open_url_def demo_url build_proxy_opener_def) (simp add: served_def)
  have l: "demo_sha256 ''MZ'' = py_lower ''aB''" by code_simp
  have d: "download_body (\<lambda>_. []) demo_sha256 served ''https://github.com/s'' 600 ''aB'' None fresh_file
      = (None, fresh_file\<lparr>df_content := Some ''MZ''\<rparr>)"
    by (simp add: download_body_def o served_chunks fresh_file_def l Let_def del: py_lower.simps)
  have "fetch_url_to_file (\<lambda>_. []) demo_sha256 served ''https://github.com/s'' 600 ''aB'' None fresh_file
      = (None, fresh_file\<lparr>df_content := Some ''MZ''\<rparr>)"
    by (simp add: fetch_url_to_file_def d)
  then show ?thesis by (simp add: download_installer_run_def demo_asset_def Let_def installer_file_name_def)
qed

theorem installer_survives_only_verified_witness:
  "\<exists>h. as_digest demo_asset = JStr (''sha256:'' @ h) \<and> demo_sha256 ''MZ'' = py_lower h"
proof -
  have "df_content fresh_file = None" "df_can_unlink fresh_file" by (simp_all add: fresh_file_def)
  moreover have "df_content (fresh_file\<lparr>df_content := Some ''MZ''\<rparr>) = Some ''MZ''" by simp
  ultimately show ?thesis using installer_survives_only_verified [OF demo_download] by blast
qed

theorem fetch_guarded_witness:
  "let p = DEFAULT_PROXY\<lparr>px_enabled := True, px_proxy_type := ''http''\<rparr>
   in fetch_url (\<lambda>_. ''1080'') served ''https://github.com/s'' 600 (Some p) = Inr ''MZ''
     \<and> cn_open served (Via (build_http_proxy_url (\<lambda>_. ''1080'') p)) = None \<and> int (length ''MZ'') \<le> 50 * 1024 * 1024"
proof -
  let ?p = "DEFAULT_PROXY\<lparr>px_enabled := True, px_proxy_type := ''http''\<rparr>"
  have o: "open_url (\<lambda>_. ''1080'') served ''https://github.com/s'' (Some ?p) = Inr (Via (build_http_proxy_url (\<lambda>_. ''1080'') ?p))"
    by (simp add: open_url_def demo_url build_proxy_opener_def) (simp add: served_def)
  have "iter_chunks served 600 MAX_RESPONSE_BYTES 0 0 = ([''MZ''], None)"
    by (subst iter_chunks.simps, simp add: served_def MAX_RESPONSE_BYTES_def, subst iter_chunks.simps, simp)
  then have f: "fetch_url (\<lambda>_. ''1080'') served ''https://github.com/s'' 600 (Some ?p) = Inr ''MZ''"
    by (simp add: fetch_url_def o read_response_body_def)
  from fetch_guarded [OF f] f show ?thesis by simp
qed

end
