(* ===== verification/Disk.thy ===== *)
theory Disk
  imports PyFloat Session_Props
begin

text \<open>
  The services that watch the machine: \<open>engine/battery_pause_service.py\<close>,
  \<open>engine/disk_space_monitor.py\<close>, \<open>engine/disk_reconnect_service.py\<close>,
  \<open>engine/scheduled_recheck_service.py\<close>, \<open>engine/known_disk_service.py\<close> with its page
  \<open>ui/web/bridge_known_disk.py\<close>, and \<open>engine/clipboard_watcher_service.py\<close>. What \<open>psutil\<close>,
  \<open>shutil\<close>, the volume queries and the clipboard return are arguments. The order in which Python
  walks a set is unspecified; sets that are walked are lists in the order of insertion here.
\<close>

section \<open>Pause on battery\<close>

text \<open>\<open>_paused_by_us\<close>, with the session.\<close>

fun pause_active :: "world \<Rightarrow> torrent_record list \<Rightarrow> string list \<times> session \<Rightarrow> string list \<times> session" where
  "pause_active w [] x = x"
| "pause_active w (r # rs) (ours, sess) =
     (if tr_state r \<in> set ACTIVE_DOWNLOAD_STATES
      then pause_active w rs (List.insert (tr_info_hash r) ours, pause_torrent w (tr_info_hash r) sess)
      else pause_active w rs (ours, sess))"

definition resume_previously_paused :: "world \<Rightarrow> string list \<times> session \<Rightarrow> string list \<times> session" where
  "resume_previously_paused w x = (let (ours, sess) = x in ([], fold (resume_torrent w) ours sess))"

text \<open>\<open>check_now\<close>; the battery is \<open>None\<close> on a desktop, else whether it is plugged.\<close>

definition battery_check_now :: "world \<Rightarrow> bool option \<Rightarrow> string list \<times> session \<Rightarrow> string list \<times> session" where
  "battery_check_now w battery x =
     (if \<not> cfg_pause_on_battery_enabled (ss_settings (snd x)) then x
      else case battery of
             None \<Rightarrow> x
           | Some plugged \<Rightarrow>
               if plugged then resume_previously_paused w x
               else pause_active w (all_records (snd x)) x)"

section \<open>Free space\<close>

text \<open>\<open>shutil.disk_usage(path).free\<close>, \<open>None\<close> on an \<open>OSError\<close>.\<close>

definition free_space_mb :: "(string \<Rightarrow> int option) \<Rightarrow> string \<Rightarrow> rat option" where
  "free_space_mb disk_free path = map_option (\<lambda>n. fl (of_int n / 1048576)) (disk_free path)"

text \<open>A warning: the path, the free megabytes and the threshold its message prints.\<close>

type_synonym space_warning = "string \<times> rat \<times> int"

definition active_paths :: "torrent_record list \<Rightarrow> string list" where
  "active_paths records =
     remdups (map tr_save_path (filter (\<lambda>r. tr_state r \<in> set ACTIVE_DOWNLOAD_STATES \<and> tr_save_path r \<noteq> []) records))"

fun check_paths :: "(string \<Rightarrow> int option) \<Rightarrow> int \<Rightarrow> string list \<Rightarrow> string set \<Rightarrow> string set \<times> space_warning list" where
  "check_paths disk_free threshold [] warned = (warned, [])"
| "check_paths disk_free threshold (p # ps) warned =
     (case free_space_mb disk_free p of
        None \<Rightarrow> check_paths disk_free threshold ps warned
      | Some mb \<Rightarrow>
          if mb < of_int threshold
          then (if p \<notin> warned
                then let (warned', out) = check_paths disk_free threshold ps (insert p warned)
                     in (warned', (p, mb, threshold) # out)
                else check_paths disk_free threshold ps warned)
          else check_paths disk_free threshold ps (warned - {p}))"

definition space_check_now :: "(string \<Rightarrow> int option) \<Rightarrow> session \<Rightarrow> string set \<Rightarrow> string set \<times> space_warning list" where
  "space_check_now disk_free sess warned =
     (if \<not> cfg_disk_space_warning_enabled (ss_settings sess) then ({}, [])
      else let paths = active_paths (all_records sess);
               (warned', out) = check_paths disk_free (cfg_disk_space_warning_threshold_mb (ss_settings sess)) paths warned
           in (warned' \<inter> set paths, out))"

section \<open>Resume when a drive comes back\<close>

record reconnect =
  rc_last_known :: "(string, int) dict"
  rc_pending :: "(string, string \<times> int option) dict"

text \<open>\<open>vol\<close> is \<open>get_volume_serial\<close> at the time of the call.\<close>

definition reconnect_on_file_error :: "(string \<Rightarrow> int option) \<Rightarrow> session \<Rightarrow> string \<Rightarrow> reconnect \<Rightarrow> reconnect" where
  "reconnect_on_file_error vol sess ih rc =
     (case get_record sess ih of
        None \<Rightarrow> rc
      | Some record \<Rightarrow>
          if tr_save_path record = [] then rc
          else let expected = (case dget (rc_last_known rc) (tr_save_path record) of
                                 Some n \<Rightarrow> Some n | None \<Rightarrow> vol (tr_save_path record))
               in rc\<lparr>rc_pending := dset ih (tr_save_path record, expected) (rc_pending rc)\<rparr>)"

definition reconnect_on_removed :: "string \<Rightarrow> reconnect \<Rightarrow> reconnect" where
  "reconnect_on_removed ih rc = rc\<lparr>rc_pending := dpop ih (rc_pending rc)\<rparr>"

text \<open>The first loop of \<open>check_now\<close>: one query per drive; \<open>drive\<close> is \<open>os.path.splitdrive(path)[0]\<close>.\<close>

fun refresh_serials :: "(string \<Rightarrow> string) \<Rightarrow> (string \<Rightarrow> int option) \<Rightarrow> string set \<Rightarrow> torrent_record list
    \<Rightarrow> (string, int option) dict \<Rightarrow> (string, int) dict \<Rightarrow> (string, int) dict" where
  "refresh_serials drive vol pending_paths [] by_root known = known"
| "refresh_serials drive vol pending_paths (r # rs) by_root known =
     (let p = tr_save_path r in
      if p \<noteq> [] \<and> p \<notin> pending_paths
      then let root = drive p;
               by_root' = (if dhas by_root root then by_root else dset root (vol p) by_root);
               known' = (case dget by_root' root of Some (Some n) \<Rightarrow> dset p n known | _ \<Rightarrow> known)
           in refresh_serials drive vol pending_paths rs by_root' known'
      else refresh_serials drive vol pending_paths rs by_root known)"

fun resume_reconnected :: "world \<Rightarrow> (string \<Rightarrow> int option) \<Rightarrow> (string \<times> (string \<times> int option)) list
    \<Rightarrow> (string, string \<times> int option) dict \<times> session \<Rightarrow> (string, string \<times> int option) dict \<times> session" where
  "resume_reconnected w vol [] x = x"
| "resume_reconnected w vol ((ih, p, expected) # rest) (pending, sess) =
     (if expected = None then resume_reconnected w vol rest (pending, sess)
      else if vol p \<noteq> expected then resume_reconnected w vol rest (pending, sess)
      else resume_reconnected w vol rest (dpop ih pending, resume_torrent w ih sess))"

definition reconnect_check_now :: "world \<Rightarrow> (string \<Rightarrow> string) \<Rightarrow> (string \<Rightarrow> int option) \<Rightarrow> reconnect \<times> session \<Rightarrow> reconnect \<times> session" where
  "reconnect_check_now w drive vol x =
     (let (rc, sess) = x
      in if \<not> cfg_auto_resume_on_disk_reconnect (ss_settings sess) then x
         else let known = refresh_serials drive vol (fst ` set (dvals (rc_pending rc))) (all_records sess) [] (rc_last_known rc);
                  (pending, sess') = resume_reconnected w vol (rc_pending rc) (rc_pending rc, sess)
              in (\<lparr>rc_last_known = known, rc_pending = pending\<rparr>, sess'))"

section \<open>Scheduled recheck\<close>

definition SECONDS_PER_DAY :: int where "SECONDS_PER_DAY = 86400"

definition finished_hashes :: "torrent_record list \<Rightarrow> string list" where
  "finished_hashes records = remdups (map tr_info_hash (filter (\<lambda>r. tr_state r = FINISHED) records))"

text \<open>The loop; it ends with \<open>False\<close> when a recheck raises.\<close>

fun recheck_due :: "world \<Rightarrow> rat \<Rightarrow> rat \<Rightarrow> string list \<Rightarrow> (string, rat) dict \<times> session \<Rightarrow> ((string, rat) dict \<times> session) \<times> bool" where
  "recheck_due w now interval [] x = (x, True)"
| "recheck_due w now interval (ih # ihs) (checked, sess) =
     (case dget checked ih of
        None \<Rightarrow> recheck_due w now interval ihs (dset ih now checked, sess)
      | Some t \<Rightarrow>
          if fl (now - t) \<ge> interval
          then let (sess', ok) = recheck_torrent w ih sess
               in if ok then recheck_due w now interval ihs (dset ih now checked, sess') else ((checked, sess'), False)
          else recheck_due w now interval ihs (checked, sess))"

definition recheck_evaluate_now :: "world \<Rightarrow> (string, rat) dict \<times> session \<Rightarrow> ((string, rat) dict \<times> session) \<times> bool" where
  "recheck_evaluate_now w x =
     (let (checked, sess) = x; cfg = ss_settings sess
      in if \<not> cfg_scheduled_recheck_enabled cfg then (x, True)
         else let interval = of_int (max 1 (cfg_scheduled_recheck_interval_days cfg) * SECONDS_PER_DAY);
                  finished = finished_hashes (all_records sess);
                  kept = filter (\<lambda>(ih, t). ih \<in> set finished) checked
              in recheck_due w (w_mono w) interval finished (kept, sess))"

section \<open>Known disks\<close>

record known_disk =
  kd_label :: string
  kd_action :: string

definition known_disk_json :: "known_disk \<Rightarrow> json" where
  "known_disk_json d = JObj [(''label'', JStr (kd_label d)), (''action'', JStr (kd_action d))]"

fun known_disk_of_json :: "json \<Rightarrow> load_error + known_disk" where
  "known_disk_of_json (JObj kvs) =
     (if kwargs_ok [''label'', ''action''] [''label'', ''action''] kvs
      then sbind (kwarg kvs ''label'' as_str None) (\<lambda>l.
           sbind (kwarg kvs ''action'' as_str None) (\<lambda>a. Inr \<lparr>kd_label = l, kd_action = a\<rparr>))
      else Inl TypeErr)"
| "known_disk_of_json _ = Inl TypeErr"

interpretation disks_json: json_codec known_disk_json known_disk_of_json
  by unfold_locales (simp add: known_disk_json_def kwargs_ok_def kwarg_def)

interpretation disk_labels: named_store kd_label "upsert kd_label" "drop_named kd_label"
  by (rule named_store_upsert)

type_synonym disk_store = "known_disk store"

definition disks_init :: "disk_file \<Rightarrow> disk_store option" where
  "disks_init f = map_option (\<lambda>ds. \<lparr>st_entries = ds, st_file = f\<rparr>) (load_file known_disk_of_json f)"

definition list_disks :: "disk_store \<Rightarrow> known_disk list" where
  "list_disks s = st_entries s"

definition save_disk_entry :: "known_disk \<Rightarrow> disk_store \<Rightarrow> disk_store" where
  "save_disk_entry d s = store_save known_disk_json (s\<lparr>st_entries := upsert kd_label d (st_entries s)\<rparr>)"

definition delete_disk_entry :: "string \<Rightarrow> disk_store \<Rightarrow> disk_store" where
  "delete_disk_entry l s = store_save known_disk_json (s\<lparr>st_entries := drop_named kd_label l (st_entries s)\<rparr>)"

text \<open>A request: the JSON text of the disk, as a document, and the registered action.\<close>

type_synonym disk_request = "json \<times> string"

definition known_actions :: "known_disk list \<Rightarrow> (string, string) dict" where
  "known_actions ds = foldl (\<lambda>d k. dset (kd_label k) (kd_action k) d) [] ds"

text \<open>\<open>check_now\<close>: the mount points of \<open>psutil.disk_partitions()\<close>, \<open>label\<close> is \<open>get_volume_label\<close>.\<close>

fun disk_requests :: "(string \<Rightarrow> string option) \<Rightarrow> (string, string) dict \<Rightarrow> string set \<Rightarrow> string list \<Rightarrow> disk_request list" where
  "disk_requests label known seen [] = []"
| "disk_requests label known seen (m # ms) =
     (if m \<in> seen then disk_requests label known seen ms
      else if known = [] then disk_requests label known seen ms
      else case label m of
             Some l \<Rightarrow>
               (case dget known l of
                  Some action \<Rightarrow>
                    if l \<noteq> [] then (JObj [(''label'', JStr l), (''mountpoint'', JStr m)], action) # disk_requests label known seen ms
                    else disk_requests label known seen ms
                | None \<Rightarrow> disk_requests label known seen ms)
           | None \<Rightarrow> disk_requests label known seen ms)"

definition known_disk_check_now :: "(string \<Rightarrow> string option) \<Rightarrow> string list \<Rightarrow> settings \<Rightarrow> disk_store \<Rightarrow> string set
    \<Rightarrow> string set \<times> disk_request list" where
  "known_disk_check_now label mounts cfg store seen =
     (let known = (if cfg_known_disk_automation_enabled cfg then known_actions (list_disks store) else [])
      in (set mounts, disk_requests label known seen mounts))"

section \<open>The page of known disks\<close>

text \<open>\<open>casefold\<close>: lowering, and the two Latin-1 letters it treats otherwise (sharp s, micro sign).\<close>

fun casefold_extra :: "string \<Rightarrow> string" where
  "casefold_extra (a # b # s) =
     (if a = CHR 0xC3 \<and> b = CHR 0x9F then ''ss'' @ casefold_extra s
      else if a = CHR 0xC2 \<and> b = CHR 0xB5 then CHR 0xCE # CHR 0xBC # casefold_extra s
      else a # casefold_extra (b # s))"
| "casefold_extra s = s"

definition py_casefold :: "string \<Rightarrow> string" where
  "py_casefold s = casefold_extra (py_lower s)"

definition matching_records :: "session \<Rightarrow> string \<Rightarrow> torrent_record list" where
  "matching_records sess category =
     filter (\<lambda>r. py_casefold (py_strip (tr_category r)) = py_casefold (py_strip category)) (all_records sess)"

definition page_save_disk :: "string \<Rightarrow> string \<Rightarrow> disk_store \<Rightarrow> disk_store \<times> bool" where
  "page_save_disk label action s =
     (if py_strip label = [] then (s, False)
      else (save_disk_entry \<lparr>kd_label = py_strip label, kd_action = py_strip action\<rparr> s, True))"

definition preview_category_move :: "session \<Rightarrow> string \<Rightarrow> nat \<times> int" where
  "preview_category_move sess category =
     (let records = matching_records sess category in (length records, sum_list (map tr_total_size records)))"

text \<open>The loop of \<open>executeCategoryMove\<close>: the number moved, the torrents in error, the session.\<close>

fun move_records :: "world \<Rightarrow> string \<Rightarrow> torrent_record list \<Rightarrow> nat \<times> string list \<times> session \<Rightarrow> nat \<times> string list \<times> session" where
  "move_records w target [] x = x"
| "move_records w target (r # rs) (moved, errors, sess) =
     (let (sess', ok) = move_storage w (tr_info_hash r) target sess
      in move_records w target rs
           (if ok then (moved + 1, errors, sess')
            else (moved, errors @ [if tr_name r \<noteq> [] then tr_name r else tr_info_hash r], sess')))"

definition execute_category_move :: "world \<Rightarrow> string \<Rightarrow> string \<Rightarrow> session \<Rightarrow> nat \<times> string list \<times> session" where
  "execute_category_move w category mountpoint sess =
     move_records w (w_join w mountpoint (py_strip category)) (matching_records sess category) (0, [], sess)"

section \<open>Clipboard\<close>

text \<open>\<open>_on_clipboard_changed\<close> over \<open>_last_seen\<close>: the magnet offered, if any.\<close>

definition on_clipboard_changed :: "settings \<Rightarrow> string \<Rightarrow> string \<Rightarrow> string \<times> string option" where
  "on_clipboard_changed cfg clip last_seen =
     (let t = py_strip clip
      in if \<not> cfg_clipboard_magnet_detection_enabled cfg then (last_seen, None)
         else if t = [] \<or> t = last_seen then (last_seen, None)
         else (t, if prefix ''magnet:'' t then Some t else None))"

section \<open>One warning per episode\<close>

lemma check_paths_Cons:
  "check_paths disk_free threshold (q # ps) warned =
     (let low = (\<exists>mb. free_space_mb disk_free q = Some mb \<and> mb < of_int threshold);
          r = check_paths disk_free threshold ps
                (if low then insert q warned else if free_space_mb disk_free q = None then warned else warned - {q})
      in (fst r, if low \<and> q \<notin> warned then (q, the (free_space_mb disk_free q), threshold) # snd r else snd r))"
  by (cases "free_space_mb disk_free q") (simp_all add: case_prod_beta Let_def insert_absorb)

lemma check_paths_warned:
  "p \<in> fst (check_paths disk_free threshold ps warned) \<longleftrightarrow>
     (if p \<in> set ps
      then (case free_space_mb disk_free p of None \<Rightarrow> p \<in> warned | Some mb \<Rightarrow> mb < of_int threshold)
      else p \<in> warned)"
proof (induction ps arbitrary: warned)
  case Nil
  then show ?case by simp
next
  case (Cons q ps)
  show ?case unfolding check_paths_Cons Let_def fst_conv Cons.IH
    by (cases "p = q"; cases "p \<in> set ps"; cases "free_space_mb disk_free q"; cases "free_space_mb disk_free p") simp_all
qed

lemma check_paths_out:
  "distinct ps \<Longrightarrow> count_list (map fst (snd (check_paths disk_free threshold ps warned))) p =
     (if p \<in> set ps \<and> (\<exists>mb. free_space_mb disk_free p = Some mb \<and> mb < of_int threshold) \<and> p \<notin> warned then 1 else 0)"
proof (induction ps arbitrary: warned)
  case Nil
  then show ?case by simp
next
  case (Cons q ps)
  then have q: "q \<notin> set ps" and d: "distinct ps" by simp_all
  have IH: "count_list (map fst (snd (check_paths disk_free threshold ps v))) p =
     (if p \<in> set ps \<and> (\<exists>mb. free_space_mb disk_free p = Some mb \<and> mb < of_int threshold) \<and> p \<notin> v then 1 else 0)" for v
    by (rule Cons.IH [OF d])
  have split: "count_list (map fst (if b then (q, x, y) # xs else xs)) p = (if b \<and> p = q then 1 else 0) + count_list (map fst xs) p"
    for b x y and xs :: "space_warning list" by simp
  show ?case
  proof (cases "p = q")
    case True
    then show ?thesis unfolding check_paths_Cons Let_def snd_conv split IH using q by (simp only: simp_thms if_False list.set insert_iff)
  next
    case False
    then have s: "(p \<in> set (q # ps)) = (p \<in> set ps)" by simp
    have v: "p \<notin> (if l then insert q warned else if n then warned else warned - {q}) \<longleftrightarrow> p \<notin> warned" for l n
      using False by simp
    show ?thesis unfolding check_paths_Cons Let_def snd_conv split IH s v using False by (simp only: simp_thms if_False)
  qed
qed

text \<open>A tick: the free space and the session the monitor finds. \<open>space_clear\<close> ends the episode of a
  path, \<open>space_low\<close> is a tick that finds it low.\<close>

type_synonym space_tick = "(string \<Rightarrow> int option) \<times> session"

definition space_watched :: "space_tick \<Rightarrow> string \<Rightarrow> bool" where
  "space_watched t p \<longleftrightarrow> cfg_disk_space_warning_enabled (ss_settings (snd t)) \<and> p \<in> set (active_paths (all_records (snd t)))"

definition space_low :: "space_tick \<Rightarrow> string \<Rightarrow> bool" where
  "space_low t p \<longleftrightarrow> space_watched t p
     \<and> (\<exists>mb. free_space_mb (fst t) p = Some mb \<and> mb < of_int (cfg_disk_space_warning_threshold_mb (ss_settings (snd t))))"

definition space_clear :: "space_tick \<Rightarrow> string \<Rightarrow> bool" where
  "space_clear t p \<longleftrightarrow> \<not> space_watched t p
     \<or> (\<exists>mb. free_space_mb (fst t) p = Some mb \<and> mb \<ge> of_int (cfg_disk_space_warning_threshold_mb (ss_settings (snd t))))"

fun space_run :: "space_tick list \<Rightarrow> string set \<Rightarrow> string set \<times> space_warning list" where
  "space_run [] warned = (warned, [])"
| "space_run (t # ts) warned =
     (let (warned1, out) = space_check_now (fst t) (snd t) warned;
          (warned2, out') = space_run ts warned1
      in (warned2, out @ out'))"

text \<open>The specification, for one path: count the episodes.\<close>

fun episodes :: "string \<Rightarrow> bool \<Rightarrow> space_tick list \<Rightarrow> nat" where
  "episodes p open_episode [] = 0"
| "episodes p open_episode (t # ts) =
     (if space_clear t p then episodes p False ts
      else if space_low t p then (if open_episode then 0 else 1) + episodes p True ts
      else episodes p open_episode ts)"

lemma space_check_step:
  "count_list (map fst (snd (space_check_now (fst t) (snd t) warned))) p = (if space_low t p \<and> p \<notin> warned then 1 else 0)
   \<and> (p \<in> fst (space_check_now (fst t) (snd t) warned) \<longleftrightarrow> \<not> space_clear t p \<and> (space_low t p \<or> p \<in> warned))"
proof -
  have d: "distinct (active_paths (all_records (snd t)))" by (simp add: active_paths_def)
  show ?thesis
  proof (cases "cfg_disk_space_warning_enabled (ss_settings (snd t))")
    case False
    then show ?thesis by (simp add: space_check_now_def space_low_def space_clear_def space_watched_def)
  next
    case True
    then show ?thesis
      by (cases "free_space_mb (fst t) p"; cases "p \<in> set (active_paths (all_records (snd t)))"; cases "p \<in> warned")
         (simp_all add: space_check_now_def space_low_def space_clear_def space_watched_def case_prod_beta Let_def
           check_paths_warned check_paths_out [OF d] not_le)
  qed
qed

lemma space_run_episodes:
  "count_list (map fst (snd (space_run ts warned))) p = episodes p (p \<in> warned) ts"
proof (induction ts arbitrary: warned)
  case Nil
  then show ?case by simp
next
  case (Cons t ts)
  have l: "space_clear t p \<Longrightarrow> \<not> space_low t p" by (auto simp: space_clear_def space_low_def)
  have "count_list (map fst (snd (space_run (t # ts) warned))) p
      = count_list (map fst (snd (space_check_now (fst t) (snd t) warned))) p
        + episodes p (p \<in> fst (space_check_now (fst t) (snd t) warned)) ts"
    by (simp add: case_prod_beta Let_def Cons.IH)
  also have "\<dots> = episodes p (p \<in> warned) (t # ts)"
    using l unfolding space_check_step [THEN conjunct1] space_check_step [THEN conjunct2]
    by (cases "space_clear t p"; cases "space_low t p"; cases "p \<in> warned") simp_all
  finally show ?case .
qed

text \<open>Over any run of the monitor a path is warned about once for each episode of low space: an
  episode opens at a tick that finds the path in use and below the threshold, survives ticks that
  cannot read the free space, and closes when space recovers, no download uses the path any more,
  or the warning is switched off.\<close>

theorem one_warning_per_episode:
  "count_list (map fst (snd (space_run ticks {}))) p = episodes p False ticks"
  by (simp add: space_run_episodes)

section \<open>Rechecks\<close>

definition recheck_is_due :: "rat \<Rightarrow> rat \<Rightarrow> (string, rat) dict \<Rightarrow> string \<Rightarrow> bool" where
  "recheck_is_due now interval checked ih \<longleftrightarrow> (\<exists>t. dget checked ih = Some t \<and> fl (now - t) \<ge> interval)"

lemma recheck_is_due_cong: "dget c j = dget d j \<Longrightarrow> recheck_is_due now interval c j = recheck_is_due now interval d j"
  by (simp add: recheck_is_due_def)

lemma recheck_is_due_None: "dget c j = None \<Longrightarrow> \<not> recheck_is_due now interval c j"
  by (simp add: recheck_is_due_def)

lemma recheck_torrent_ok:
  assumes "recheck_torrent w ih sess = (sess', True)"
  shows "ss_cmds sess' = ss_cmds sess @ (case dget (ss_handles sess) ih of None \<Rightarrow> [] | Some h \<Rightarrow> [ForceRecheck h])
       \<and> ss_handles sess' = ss_handles sess"
  using assms by (auto simp: recheck_torrent_def on_handle_def hcall_def cmd_def split: option.splits if_splits)

lemma recheck_due_step:
  assumes "recheck_due w now interval (ih # ihs) (checked, sess) = ((checked', sess'), True)"
  shows "\<exists>checked1 sess1. recheck_due w now interval ihs (checked1, sess1) = ((checked', sess'), True)
     \<and> checked1 = (if dget checked ih = None \<or> recheck_is_due now interval checked ih then dset ih now checked else checked)
     \<and> ss_handles sess1 = ss_handles sess
     \<and> ss_cmds sess1 = ss_cmds sess @ (if recheck_is_due now interval checked ih
                                        then map ForceRecheck (List.map_filter (dget (ss_handles sess)) [ih]) else [])"
proof (cases "recheck_is_due now interval checked ih")
  case False
  then show ?thesis using assms
    by (cases "dget checked ih") (auto simp: recheck_is_due_def intro!: exI [of _ sess])
next
  case True
  then obtain t where t: "dget checked ih = Some t" "fl (now - t) \<ge> interval" by (auto simp: recheck_is_due_def)
  obtain s1 ok where s1: "recheck_torrent w ih sess = (s1, ok)" by (cases "recheck_torrent w ih sess")
  then have ok: ok and r: "recheck_due w now interval ihs (dset ih now checked, s1) = ((checked', sess'), True)"
    using assms t by (auto split: if_splits)
  have c: "ss_cmds s1 = ss_cmds sess @ (case dget (ss_handles sess) ih of None \<Rightarrow> [] | Some h \<Rightarrow> [ForceRecheck h])"
    "ss_handles s1 = ss_handles sess"
    using recheck_torrent_ok [of w ih sess s1] s1 ok by simp_all
  with r c True t show ?thesis
    by (intro exI [of _ "dset ih now checked"] exI [of _ s1]) (simp add: List.map_filter_def split: option.split)
qed

lemma recheck_due_clocks:
  assumes "distinct ihs" "recheck_due w now interval ihs (checked, sess) = ((checked', sess'), True)"
  shows "dget checked' j = (if j \<in> set ihs \<and> (dget checked j = None \<or> recheck_is_due now interval checked j)
                            then Some now else dget checked j)"
  using assms
proof (induction ihs arbitrary: checked sess)
  case Nil
  then show ?case by simp
next
  case (Cons ih ihs)
  from recheck_due_step [OF Cons.prems(2)] obtain checked1 sess1 where
    r: "recheck_due w now interval ihs (checked1, sess1) = ((checked', sess'), True)"
    and c: "checked1 = (if dget checked ih = None \<or> recheck_is_due now interval checked ih then dset ih now checked else checked)"
    by blast
  have d: "distinct ihs" "ih \<notin> set ihs" using Cons.prems(1) by simp_all
  have c1: "dget checked1 j = (if j = ih \<and> (dget checked ih = None \<or> recheck_is_due now interval checked ih) then Some now else dget checked j)"
    unfolding c by simp
  show ?case
  proof (cases "j = ih")
    case True
    then show ?thesis unfolding Cons.IH [OF d(1) r] using d(2) c1 by simp
  next
    case False
    then have same: "dget checked1 j = dget checked j" using c1 by simp
    show ?thesis unfolding Cons.IH [OF d(1) r] same recheck_is_due_cong [OF same] using False by simp
  qed
qed

lemma recheck_due_cmds:
  assumes "distinct ihs" "recheck_due w now interval ihs (checked, sess) = ((checked', sess'), True)"
  shows "ss_cmds sess' = ss_cmds sess
           @ map ForceRecheck (List.map_filter (dget (ss_handles sess)) (filter (recheck_is_due now interval checked) ihs))"
  using assms
proof (induction ihs arbitrary: checked sess)
  case Nil
  then show ?case by (simp add: List.map_filter_def)
next
  case (Cons ih ihs)
  from recheck_due_step [OF Cons.prems(2)] obtain checked1 sess1 where
    r: "recheck_due w now interval ihs (checked1, sess1) = ((checked', sess'), True)"
    and c: "checked1 = (if dget checked ih = None \<or> recheck_is_due now interval checked ih then dset ih now checked else checked)"
    and h: "ss_handles sess1 = ss_handles sess"
    and cmds: "ss_cmds sess1 = ss_cmds sess @ (if recheck_is_due now interval checked ih
                                        then map ForceRecheck (List.map_filter (dget (ss_handles sess)) [ih]) else [])"
    by blast
  have d: "distinct ihs" "ih \<notin> set ihs" using Cons.prems(1) by simp_all
  have upd: "filter (recheck_is_due now interval checked1) ihs = filter (recheck_is_due now interval checked) ihs"
    using d(2) by (intro filter_cong refl) (auto simp: recheck_is_due_def c)
  show ?case unfolding Cons.IH [OF d(1) r] cmds h upd by (simp add: List.map_filter_def)
qed

text \<open>One hourly evaluation starts the clock of a finished torrent it meets for the first time,
  rechecks exactly the finished torrents whose clock started at least the configured number of
  days (one at least) ago and restarts their clocks, leaves the other clocks alone and forgets the
  torrents that are not finished. A torrent that seeds is not \<open>FINISHED\<close>, so that it is never
  rechecked.\<close>

theorem recheck_only_when_due:
  assumes "recheck_evaluate_now w (checked, sess) = ((checked', sess'), True)" "cfg_scheduled_recheck_enabled (ss_settings sess)"
    and interval: "interval = of_int (max 1 (cfg_scheduled_recheck_interval_days (ss_settings sess)) * 86400)"
    and finished: "finished = finished_hashes (all_records sess)"
  shows "dget checked' ih = (if ih \<notin> set finished then None
           else if dget checked ih = None \<or> recheck_is_due (w_mono w) interval checked ih then Some (w_mono w)
           else dget checked ih)
       \<and> new_cmds sess sess' = map ForceRecheck (List.map_filter (dget (ss_handles sess))
           (filter (recheck_is_due (w_mono w) interval checked) finished))
       \<and> (\<forall>r \<in> set (all_records sess). tr_state r = SEEDING \<and> (\<forall>r' \<in> set (all_records sess). tr_info_hash r' = tr_info_hash r \<longrightarrow> r' = r)
            \<longrightarrow> tr_info_hash r \<notin> set finished)"
proof -
  let ?kept = "filter (\<lambda>(ih, t). ih \<in> set finished) checked"
  have r: "recheck_due w (w_mono w) interval finished (?kept, sess) = ((checked', sess'), True)"
    using assms(1,2) by (simp add: recheck_evaluate_now_def interval finished SECONDS_PER_DAY_def Let_def)
  have d: "distinct finished" by (simp add: finished finished_hashes_def)
  have k: "dget ?kept j = (if j \<in> set finished then dget checked j else None)" for j
    by (induction checked) auto
  have same: "filter (recheck_is_due (w_mono w) interval ?kept) finished = filter (recheck_is_due (w_mono w) interval checked) finished"
    by (rule filter_cong) (simp_all add: recheck_is_due_def k)
  have "dget checked' ih = (if ih \<notin> set finished then None
           else if dget checked ih = None \<or> recheck_is_due (w_mono w) interval checked ih then Some (w_mono w)
           else dget checked ih)"
  proof (cases "ih \<in> set finished")
    case True
    then have same: "dget ?kept ih = dget checked ih" by (simp add: k)
    show ?thesis unfolding recheck_due_clocks [OF d r, of ih] same recheck_is_due_cong [OF same] using True by simp
  next
    case False
    then show ?thesis unfolding recheck_due_clocks [OF d r, of ih] by (simp add: k)
  qed
  moreover have "new_cmds sess sess' = map ForceRecheck (List.map_filter (dget (ss_handles sess))
           (filter (recheck_is_due (w_mono w) interval checked) finished))"
    unfolding recheck_due_cmds [OF d r] same by simp
  moreover have "tr_info_hash x \<notin> set finished"
    if "x \<in> set (all_records sess)" "tr_state x = SEEDING" "\<forall>r' \<in> set (all_records sess). tr_info_hash r' = tr_info_hash x \<longrightarrow> r' = x" for x
    using that unfolding finished finished_hashes_def by auto
  ultimately show ?thesis by blast
qed

section \<open>Known disks\<close>

text \<open>The first check of a run, before which nothing was seen, requests a confirmation for every
  registered disk that is plugged in already; after that only for a mount point that was not there
  at the check before.\<close>

lemma disk_requests_mem:
  "(doc, action) \<in> set (disk_requests label known seen mounts) \<longleftrightarrow>
     (\<exists>m l. m \<in> set mounts \<and> m \<notin> seen \<and> label m = Some l \<and> l \<noteq> [] \<and> dget known l = Some action
       \<and> doc = JObj [(''label'', JStr l), (''mountpoint'', JStr m)])"
  by (induction mounts) (auto split: option.splits)

lemma known_disk_first_check:
  assumes "cfg_known_disk_automation_enabled cfg" "m \<in> set mounts" "label m = Some l" "l \<noteq> []"
    and "dget (known_actions (list_disks store)) l = Some action"
  shows "(JObj [(''label'', JStr l), (''mountpoint'', JStr m)], action) \<in> set (snd (known_disk_check_now label mounts cfg store {}))
       \<and> (JObj [(''label'', JStr l), (''mountpoint'', JStr m)], action) \<notin> set (snd (known_disk_check_now label mounts cfg store (set mounts)))"
  using assms by (auto simp: known_disk_check_now_def disk_requests_mem)

text \<open>A move that the session refuses is counted as done.\<close>

lemma refused_moves_counted:
  assumes "\<not> is_safe_move_destination w (w_join w mountpoint (py_strip category))"
  shows "execute_category_move w category mountpoint sess = (length (matching_records sess category), [], sess)"
proof -
  have "move_records w (w_join w mountpoint (py_strip category)) rs (n, [], s) = (n + length rs, [], s)" for rs n s
    using assms by (induction rs arbitrary: n) (simp_all add: move_storage_def)
  then show ?thesis by (simp add: execute_category_move_def)
qed

text \<open>Concrete inputs: a torrent finished two days ago, checked daily.\<close>

definition finished_session :: session where
  "finished_session = small_session
     \<lparr>ss_settings := DEFAULT_SETTINGS\<lparr>cfg_scheduled_recheck_enabled := True, cfg_scheduled_recheck_interval_days := 1\<rparr>,
      ss_records := [(''A'', (new_record ''A'')\<lparr>tr_state := FINISHED\<rparr>)], ss_handles := [(''A'', 1)]\<rparr>"

definition two_days_later :: world where
  "two_days_later = small_world\<lparr>w_mono := 172800\<rparr>"

theorem recheck_only_when_due_witness:
  "\<exists>sess'. recheck_evaluate_now two_days_later ([(''A'', 0)], finished_session) = (([(''A'', 172800)], sess'), True)
     \<and> new_cmds finished_session sess' = [ForceRecheck 1]"
proof -
  have f: "fl 172800 = 172800" using fl_of_int [of 172800] by simp
  obtain sess' where r: "recheck_evaluate_now two_days_later ([(''A'', 0)], finished_session) = (([(''A'', 172800)], sess'), True)"
    using f by (simp add: recheck_evaluate_now_def finished_session_def two_days_later_def SECONDS_PER_DAY_def DEFAULT_SETTINGS_def
        finished_hashes_def all_records_def new_record_def recheck_torrent_def on_handle_def hcall_def small_world_def Let_def)
  have e: "cfg_scheduled_recheck_enabled (ss_settings finished_session)" by (simp add: finished_session_def)
  have d: "recheck_is_due (w_mono two_days_later) (of_int (max 1 (cfg_scheduled_recheck_interval_days (ss_settings finished_session)) * 86400))
      [(''A'', 0)] ''A''"
    using f by (simp add: recheck_is_due_def two_days_later_def finished_session_def)
  have fin: "finished_hashes (all_records finished_session) = [''A'']" "dget (ss_handles finished_session) ''A'' = Some 1"
    by (simp_all add: finished_session_def finished_hashes_def all_records_def new_record_def)
  show ?thesis
    using r recheck_only_when_due [OF r e refl refl] d unfolding fin(1) by (auto simp: fin(2) List.map_filter_def)
qed

end
