(* ===== verification/Profiles.thy ===== *)
theory Profiles
  imports Bandwidth
begin

text \<open>
  \<open>engine/settings_profiles.py\<close>, \<open>engine/network_profile_switcher.py\<close> and the page of both,
  \<open>ui/web/bridge_profile_advanced.py\<close>. What a page or a service changes is the running session,
  which holds the \<open>Settings\<close> object, and the configuration on disk. \<open>Settings.save\<close> raises when
  its flag is False; the rest of the handler is then skipped.
\<close>

section \<open>Saving from a handler\<close>

type_synonym live = "session \<times> config_disk"

definition change_settings :: "(settings \<Rightarrow> settings) \<Rightarrow> live \<Rightarrow> live" where
  "change_settings f x = ((fst x)\<lparr>ss_settings := f (ss_settings (fst x))\<rparr>, snd x)"

text \<open>\<open>settings.save()\<close>, and the rest of the handler if it returns.\<close>

definition save_then :: "settings_env \<Rightarrow> (session \<Rightarrow> session) \<Rightarrow> live \<Rightarrow> live \<times> bool" where
  "save_then env rest x =
     (let (disk, ok) = save_settings env (ss_settings (fst x)) (snd x)
      in if ok then ((rest (fst x), disk), True) else ((fst x, disk), False))"

section \<open>Settings profiles\<close>

record settings_profile =
  sp_name :: string
  sp_proxy_enabled :: bool
  sp_proxy_force :: bool
  sp_encryption_mode :: string
  sp_notifications_enabled :: bool
  sp_download_rate_limit_kbps :: int
  sp_upload_rate_limit_kbps :: int
  sp_restrict_discovery :: bool

definition profile_json :: "settings_profile \<Rightarrow> json" where
  "profile_json p = JObj [(''name'', JStr (sp_name p)), (''proxy_enabled'', JBool (sp_proxy_enabled p)),
     (''proxy_force'', JBool (sp_proxy_force p)), (''encryption_mode'', JStr (sp_encryption_mode p)),
     (''notifications_enabled'', JBool (sp_notifications_enabled p)),
     (''download_rate_limit_kbps'', JInt (sp_download_rate_limit_kbps p)),
     (''upload_rate_limit_kbps'', JInt (sp_upload_rate_limit_kbps p)),
     (''restrict_discovery'', JBool (sp_restrict_discovery p))]"

definition PROFILE_KEYS :: "string list" where
  "PROFILE_KEYS = [''name'', ''proxy_enabled'', ''proxy_force'', ''encryption_mode'', ''notifications_enabled'',
     ''download_rate_limit_kbps'', ''upload_rate_limit_kbps'', ''restrict_discovery'']"

fun profile_of_json :: "json \<Rightarrow> load_error + settings_profile" where
  "profile_of_json (JObj kvs) =
     (if kwargs_ok PROFILE_KEYS PROFILE_KEYS kvs
      then sbind (kwarg kvs ''name'' as_str None) (\<lambda>n.
           sbind (kwarg kvs ''proxy_enabled'' as_bool None) (\<lambda>pe.
           sbind (kwarg kvs ''proxy_force'' as_bool None) (\<lambda>pf.
           sbind (kwarg kvs ''encryption_mode'' as_str None) (\<lambda>em.
           sbind (kwarg kvs ''notifications_enabled'' as_bool None) (\<lambda>ne.
           sbind (kwarg kvs ''download_rate_limit_kbps'' as_int None) (\<lambda>dl.
           sbind (kwarg kvs ''upload_rate_limit_kbps'' as_int None) (\<lambda>ul.
           sbind (kwarg kvs ''restrict_discovery'' as_bool None) (\<lambda>rd.
             Inr \<lparr>sp_name = n, sp_proxy_enabled = pe, sp_proxy_force = pf, sp_encryption_mode = em,
               sp_notifications_enabled = ne, sp_download_rate_limit_kbps = dl, sp_upload_rate_limit_kbps = ul,
               sp_restrict_discovery = rd\<rparr>))))))))
      else Inl TypeErr)"
| "profile_of_json _ = Inl TypeErr"

interpretation profiles_json: json_codec profile_json profile_of_json
  by unfold_locales (simp add: profile_json_def PROFILE_KEYS_def kwargs_ok_def kwarg_def)

interpretation profile_names: named_store sp_name "put_last sp_name" "drop_named sp_name"
  by (rule named_store_put_last)

type_synonym profile_store = "settings_profile store"

definition profiles_init :: "disk_file \<Rightarrow> profile_store option" where
  "profiles_init f = map_option (\<lambda>ps. \<lparr>st_entries = ps, st_file = f\<rparr>) (load_file profile_of_json f)"

definition profile_of_settings :: "string \<Rightarrow> settings \<Rightarrow> settings_profile" where
  "profile_of_settings n cfg = \<lparr>sp_name = n, sp_proxy_enabled = px_enabled (cfg_proxy cfg),
     sp_proxy_force = px_force_proxy (cfg_proxy cfg), sp_encryption_mode = cfg_encryption_mode cfg,
     sp_notifications_enabled = cfg_notifications_enabled cfg,
     sp_download_rate_limit_kbps = cfg_download_rate_limit_kbps cfg,
     sp_upload_rate_limit_kbps = cfg_upload_rate_limit_kbps cfg, sp_restrict_discovery = cfg_restrict_discovery cfg\<rparr>"

definition save_from_settings :: "string \<Rightarrow> settings \<Rightarrow> profile_store \<Rightarrow> profile_store" where
  "save_from_settings n cfg s =
     store_save profile_json (s\<lparr>st_entries := put_last sp_name (profile_of_settings n cfg) (st_entries s)\<rparr>)"

definition get_profile :: "profile_store \<Rightarrow> string \<Rightarrow> settings_profile option" where
  "get_profile s n = lookup_named sp_name (st_entries s) n"

definition delete_profile :: "string \<Rightarrow> profile_store \<Rightarrow> profile_store" where
  "delete_profile n s = store_save profile_json (s\<lparr>st_entries := drop_named sp_name n (st_entries s)\<rparr>)"

definition apply_to_settings :: "settings_profile \<Rightarrow> settings \<Rightarrow> settings" where
  "apply_to_settings p cfg = cfg\<lparr>
     cfg_proxy := (cfg_proxy cfg)\<lparr>px_enabled := sp_proxy_enabled p, px_force_proxy := sp_proxy_force p\<rparr>,
     cfg_encryption_mode := sp_encryption_mode p,
     cfg_notifications_enabled := sp_notifications_enabled p,
     cfg_download_rate_limit_kbps := sp_download_rate_limit_kbps p,
     cfg_upload_rate_limit_kbps := sp_upload_rate_limit_kbps p,
     cfg_restrict_discovery := sp_restrict_discovery p\<rparr>"

section \<open>Applying a profile to the running session\<close>

text \<open>The calls after \<open>save\<close>, which \<open>applyProfile\<close> and \<open>_apply_profile\<close> share.\<close>

definition live_apply :: "lt_consts \<Rightarrow> session \<Rightarrow> session" where
  "live_apply c sess =
     (let cfg = ss_settings sess
      in set_encryption_mode c (cfg_encryption_mode cfg) (set_proxy c cfg
           (set_restrict_discovery (cfg_restrict_discovery cfg)
             (set_rate_limits (cfg_download_rate_limit_kbps cfg) (cfg_upload_rate_limit_kbps cfg) sess))))"

definition apply_settings_profile :: "settings_env \<Rightarrow> lt_consts \<Rightarrow> settings_profile \<Rightarrow> live \<Rightarrow> live \<times> bool" where
  "apply_settings_profile env c p x = save_then env (live_apply c) (change_settings (apply_to_settings p) x)"

text \<open>\<open>applyProfile\<close>: \<open>None\<close> when the profile is not found.\<close>

definition apply_profile :: "settings_env \<Rightarrow> lt_consts \<Rightarrow> string \<Rightarrow> profile_store \<Rightarrow> live \<Rightarrow> (live \<times> bool) option" where
  "apply_profile env c n store x =
     map_option (\<lambda>p. apply_settings_profile env c p x) (get_profile store n)"

section \<open>Network profiles\<close>

record association =
  na_ssid :: string
  na_profile_name :: string

definition association_json :: "association \<Rightarrow> json" where
  "association_json a = JObj [(''ssid'', JStr (na_ssid a)), (''profile_name'', JStr (na_profile_name a))]"

fun association_of_json :: "json \<Rightarrow> load_error + association" where
  "association_of_json (JObj kvs) =
     (if kwargs_ok [''ssid'', ''profile_name''] [''ssid'', ''profile_name''] kvs
      then sbind (kwarg kvs ''ssid'' as_str None) (\<lambda>s.
           sbind (kwarg kvs ''profile_name'' as_str None) (\<lambda>n. Inr \<lparr>na_ssid = s, na_profile_name = n\<rparr>))
      else Inl TypeErr)"
| "association_of_json _ = Inl TypeErr"

interpretation associations_json: json_codec association_json association_of_json
  by unfold_locales (simp add: association_json_def kwargs_ok_def kwarg_def)

interpretation association_ssids: named_store na_ssid "upsert na_ssid" "drop_named na_ssid"
  by (rule named_store_upsert)

type_synonym association_store = "association store"

definition associations_init :: "disk_file \<Rightarrow> association_store option" where
  "associations_init f = map_option (\<lambda>as. \<lparr>st_entries = as, st_file = f\<rparr>) (load_file association_of_json f)"

definition save_association :: "association \<Rightarrow> association_store \<Rightarrow> association_store" where
  "save_association a s = store_save association_json (s\<lparr>st_entries := upsert na_ssid a (st_entries s)\<rparr>)"

definition delete_association :: "string \<Rightarrow> association_store \<Rightarrow> association_store" where
  "delete_association n s = store_save association_json (s\<lparr>st_entries := drop_named na_ssid n (st_entries s)\<rparr>)"

text \<open>The lines of \<open>netsh wlan show interfaces\<close>; \<open>None\<close>: it failed.\<close>

fun ssid_of_lines :: "string list \<Rightarrow> string option" where
  "ssid_of_lines [] = None"
| "ssid_of_lines (l # ls) =
     (let line = py_strip l
      in if prefix ''SSID'' line \<and> CHR '':'' \<in> set line
         then (let v = (case split1 CHR '':'' line of (_, Some v) \<Rightarrow> py_strip v | (_, None) \<Rightarrow> [])
               in if v \<noteq> [] then Some v else None)
         else ssid_of_lines ls)"

definition get_current_ssid :: "string list option \<Rightarrow> string option" where
  "get_current_ssid output = (case output of None \<Rightarrow> None | Some ls \<Rightarrow> ssid_of_lines ls)"

record switcher =
  sw_last_ssid :: "string option"
  sw_in_flight :: bool

text \<open>\<open>check_now\<close>: the service, and whether a query was started.\<close>

definition switcher_check_now :: "settings \<Rightarrow> switcher \<Rightarrow> switcher \<times> bool" where
  "switcher_check_now cfg sw =
     (if \<not> cfg_network_profile_auto_switch_enabled cfg \<or> sw_in_flight sw then (sw, False)
      else (sw\<lparr>sw_in_flight := True\<rparr>, True))"

definition ssid_answer :: "string list option \<Rightarrow> string" where
  "ssid_answer output = (case get_current_ssid output of Some s \<Rightarrow> s | None \<Rightarrow> [])"

definition on_ssid_ready :: "settings_env \<Rightarrow> lt_consts \<Rightarrow> association_store \<Rightarrow> profile_store \<Rightarrow> string
    \<Rightarrow> switcher \<times> live \<Rightarrow> (switcher \<times> live) \<times> bool" where
  "on_ssid_ready env c assocs profiles ssid x =
     (let sw = (fst x)\<lparr>sw_in_flight := False\<rparr>
      in if \<not> cfg_network_profile_auto_switch_enabled (ss_settings (fst (snd x))) then ((sw, snd x), True)
         else if ssid = [] \<or> sw_last_ssid sw = Some ssid then ((sw, snd x), True)
         else let sw' = sw\<lparr>sw_last_ssid := Some ssid\<rparr>
              in case lookup_named na_ssid (st_entries assocs) ssid of
                   None \<Rightarrow> ((sw', snd x), True)
                 | Some a \<Rightarrow>
                     (case lookup_named sp_name (st_entries profiles) (na_profile_name a) of
                        None \<Rightarrow> ((sw', snd x), True)
                      | Some p \<Rightarrow> (let (l, ok) = apply_settings_profile env c p (snd x) in ((sw', l), ok))))"

section \<open>The page\<close>

definition page_save_rule :: "string \<Rightarrow> string \<Rightarrow> string \<Rightarrow> string \<Rightarrow> string \<Rightarrow> string \<Rightarrow> rule_store \<Rightarrow> rule_store" where
  "page_save_rule n pattern match_field destination action move_to =
     save_rule \<lparr>rr_name = n, rr_pattern = pattern, rr_match_field = match_field, rr_destination = destination,
       rr_action = (if action = [] then ''none'' else action), rr_move_to = move_to\<rparr>"

definition set_switch_enabled :: "settings_env \<Rightarrow> bool \<Rightarrow> live \<Rightarrow> live \<times> bool" where
  "set_switch_enabled env enabled x =
     save_then env (\<lambda>s. s) (change_settings (\<lambda>cfg. cfg\<lparr>cfg_network_profile_auto_switch_enabled := enabled\<rparr>) x)"

definition page_save_association :: "string \<Rightarrow> string \<Rightarrow> association_store \<Rightarrow> association_store \<times> bool" where
  "page_save_association ssid profile_name s =
     (if py_strip ssid = [] \<or> py_strip profile_name = [] then (s, False)
      else (save_association \<lparr>na_ssid = py_strip ssid, na_profile_name = py_strip profile_name\<rparr> s, True))"

section \<open>Facts\<close>

lemma get_profile_saved: "get_profile (save_from_settings n cfg s) n = Some (profile_of_settings n cfg)"
  by (simp add: get_profile_def save_from_settings_def profile_names.lookup_put)
     (simp add: profile_of_settings_def)

lemma profile_of_applied: "profile_of_settings (sp_name p) (apply_to_settings p cfg) = p"
  by (simp add: profile_of_settings_def apply_to_settings_def)

lemma live_apply_cmds:
  "ss_cmds (live_apply c s) = ss_cmds s
     @ [ApplySettings [(''download_rate_limit'', JInt (cfg_download_rate_limit_kbps (ss_settings s) * 1024)),
          (''upload_rate_limit'', JInt (cfg_upload_rate_limit_kbps (ss_settings s) * 1024))],
        ApplySettings [(''enable_dht'', JBool (\<not> cfg_restrict_discovery (ss_settings s))),
          (''enable_lsd'', JBool (\<not> cfg_restrict_discovery (ss_settings s)))],
        ApplySettings (build_settings_fragment c (cfg_proxy (ss_settings s))),
        ApplySettings (encryption_settings_fragment c (cfg_encryption_mode (ss_settings s)))]"
  "ss_settings (live_apply c s) = ss_settings s"
  by (simp_all add: live_apply_def set_rate_limits_def set_restrict_discovery_def set_proxy_def set_encryption_mode_def cmd_def Let_def)

lemma apply_settings_profile_ok:
  assumes "apply_settings_profile env c p (sess, disk) = ((sess', disk'), True)"
  shows "sess' = live_apply c (sess\<lparr>ss_settings := apply_to_settings p (ss_settings sess)\<rparr>)
       \<and> save_settings env (apply_to_settings p (ss_settings sess)) disk = (disk', True)"
  using assms by (auto simp: apply_settings_profile_def save_then_def change_settings_def Let_def split: prod.splits if_splits)

lemma applied_rates_live_apply:
  "applied_rates (live_apply c s) =
     Some (kbps (cfg_download_rate_limit_kbps (ss_settings s), cfg_upload_rate_limit_kbps (ss_settings s)))"
proof -
  have "rates_of (ApplySettings (build_settings_fragment c p)) = None" for p
    by (simp add: build_settings_fragment_def Let_def)
  moreover have "rates_of (ApplySettings (encryption_settings_fragment c m)) = None" for m
    by (simp add: encryption_settings_fragment_def split: prod.split)
  ultimately show ?thesis
    by (simp add: applied_rates_def live_apply_cmds List.map_filter_def kbps_def)
qed

text \<open>Inside its throttling window the scheduler does not notice that a profile was applied: the base
  limits stay in force, at every tick, until the window ends.\<close>

lemma profile_lifts_throttle:
  assumes "apply_settings_profile env c p (sess, disk) = ((sess', disk'), True)"
    and "bw_throttled sc = Some True" "should_throttle hour (ss_settings sess')"
  shows "evaluate_now hour (sc, sess') = (sc, sess')
       \<and> applied_rates sess' = Some (kbps (sp_download_rate_limit_kbps p, sp_upload_rate_limit_kbps p))"
  using apply_settings_profile_ok [OF assms(1)] assms(2,3)
  by (simp add: evaluate_now_def applied_rates_live_apply apply_to_settings_def)

section \<open>Properties\<close>

text \<open>C25: a profile saved from one configuration and applied to another brings back the seven settings it
  bundles and no other, the file then loads to exactly the configuration in memory, and the
  running session is told the rate limits, the discovery, the proxy and the encryption of that
  configuration, in this order, and nothing else.\<close>

theorem profile_roundtrip:
  assumes "\<And>p b. env_crypt env p = Some b \<Longrightarrow> env_decrypt env b = Some p"
    and "utf8_ok (px_password (cfg_proxy (ss_settings sess)))" "utf8_ok (cfg_remote_access_token (ss_settings sess))"
    and "cfg_default_download_dir (ss_settings sess) \<noteq> []"
    and "apply_profile env c n (save_from_settings n cfg0 store) (sess, disk) = Some ((sess', disk'), True)"
  shows "profile_of_settings n (ss_settings sess') = profile_of_settings n cfg0
       \<and> ss_settings sess' = apply_to_settings (profile_of_settings n cfg0) (ss_settings sess)
       \<and> fst (load_settings env disk') = Inr (ss_settings sess')
       \<and> new_cmds sess sess' =
           [ApplySettings [(''download_rate_limit'', JInt (cfg_download_rate_limit_kbps cfg0 * 1024)),
              (''upload_rate_limit'', JInt (cfg_upload_rate_limit_kbps cfg0 * 1024))],
            ApplySettings [(''enable_dht'', JBool (\<not> cfg_restrict_discovery cfg0)), (''enable_lsd'', JBool (\<not> cfg_restrict_discovery cfg0))],
            ApplySettings (build_settings_fragment c (cfg_proxy (ss_settings sess'))),
            ApplySettings (encryption_settings_fragment c (cfg_encryption_mode cfg0))]"
proof -
  let ?p = "profile_of_settings n cfg0"
  have "apply_settings_profile env c ?p (sess, disk) = ((sess', disk'), True)"
    using assms(5) by (simp add: apply_profile_def get_profile_saved)
  note ok = apply_settings_profile_ok [OF this]
  have s: "ss_settings sess' = apply_to_settings ?p (ss_settings sess)"
    using ok by (simp add: live_apply_cmds)
  have same: "px_password (cfg_proxy (apply_to_settings ?p cfg)) = px_password (cfg_proxy cfg)"
    "cfg_remote_access_token (apply_to_settings ?p cfg) = cfg_remote_access_token cfg"
    "cfg_default_download_dir (apply_to_settings ?p cfg) = cfg_default_download_dir cfg" for cfg
    by (simp_all add: apply_to_settings_def)
  have "fst (load_settings env disk') = Inr (ss_settings sess')"
    unfolding s using load_after_save [OF assms(1) _ _ _ ok [THEN conjunct2]] assms(2-4) unfolding same by blast
  moreover have "profile_of_settings n (ss_settings sess') = ?p"
    unfolding s using profile_of_applied [of ?p] by (simp add: profile_of_settings_def)
  moreover have "new_cmds sess sess' = [ApplySettings [(''download_rate_limit'', JInt (cfg_download_rate_limit_kbps cfg0 * 1024)),
              (''upload_rate_limit'', JInt (cfg_upload_rate_limit_kbps cfg0 * 1024))],
            ApplySettings [(''enable_dht'', JBool (\<not> cfg_restrict_discovery cfg0)), (''enable_lsd'', JBool (\<not> cfg_restrict_discovery cfg0))],
            ApplySettings (build_settings_fragment c (cfg_proxy (ss_settings sess'))),
            ApplySettings (encryption_settings_fragment c (cfg_encryption_mode cfg0))]"
    unfolding ok [THEN conjunct1] by (simp add: live_apply_cmds) (simp add: apply_to_settings_def profile_of_settings_def)
  ultimately show ?thesis using s by blast
qed

definition demo_running :: session where
  "demo_running = session_fields demo_settings \<lparr>ct_map = [], ct_file = Missing\<rparr>
       \<lparr>rs_records = [], rs_dirty = False, rs_last_saved_at = 0, rs_file = Missing\<rparr>
       \<lparr>ls_entries = [], ls_last_saved_at = 0, ls_dirty = False, ls_file = Missing\<rparr> []"

lemma demo_apply_ok:
  assumes "px_password (cfg_proxy cfg) = []" and "cfg_remote_access_token cfg = ''tok''"
  shows "snd (save_settings demo_env cfg \<lparr>cd_config = Missing, cd_last = None, cd_history = None\<rparr>)"
proof -
  have "\<exists>nd. protected_data demo_env cfg = Some nd"
    using assms by (simp add: protected_data_def demo_env_def protect_def)
  then obtain nd where "protected_data demo_env cfg = Some nd" by blast
  then show ?thesis by (simp add: save_settings_def demo_env_def old_data_def Let_def)
qed

theorem profile_roundtrip_witness:
  "\<forall>c. \<exists>sess' disk'. apply_profile demo_env c ''p'' (save_from_settings ''p'' DEFAULT_SETTINGS \<lparr>st_entries = [], st_file = Missing\<rparr>)
       (demo_running, \<lparr>cd_config = Missing, cd_last = None, cd_history = None\<rparr>) = Some ((sess', disk'), True)
     \<and> ss_settings sess' = apply_to_settings (profile_of_settings ''p'' DEFAULT_SETTINGS) demo_settings
     \<and> fst (load_settings demo_env disk') = Inr (ss_settings sess')"
proof
  fix c
  let ?p = "profile_of_settings ''p'' DEFAULT_SETTINGS" and ?s = demo_running
  let ?d = "\<lparr>cd_config = Missing, cd_last = None, cd_history = None\<rparr>"
  have s: "ss_settings ?s = demo_settings" by (simp add: demo_running_def session_fields_def)
  have d: "px_password (cfg_proxy demo_settings) = []" "cfg_remote_access_token demo_settings = ''tok''"
    "cfg_default_download_dir demo_settings = ''D:''"
    by (simp_all add: demo_settings_def DEFAULT_SETTINGS_def DEFAULT_PROXY_def)
  obtain sess' disk' ok where r: "apply_settings_profile demo_env c ?p (?s, ?d) = ((sess', disk'), ok)"
    by (metis prod.exhaust)
  have "snd (save_settings demo_env (apply_to_settings ?p demo_settings) ?d)"
    by (rule demo_apply_ok) (simp_all add: apply_to_settings_def d)
  then have "ok" using r by (auto simp: apply_settings_profile_def save_then_def change_settings_def s Let_def split: prod.splits if_splits)
  then have a: "apply_profile demo_env c ''p'' (save_from_settings ''p'' DEFAULT_SETTINGS \<lparr>st_entries = [], st_file = Missing\<rparr>) (?s, ?d)
      = Some ((sess', disk'), True)"
    using r by (simp add: apply_profile_def get_profile_saved)
  have crypt: "\<And>p b. env_crypt demo_env p = Some b \<Longrightarrow> env_decrypt demo_env b = Some p" by (simp add: demo_env_def)
  have utf: "utf8_ok (px_password (cfg_proxy (ss_settings ?s)))" "utf8_ok (cfg_remote_access_token (ss_settings ?s))"
    "cfg_default_download_dir (ss_settings ?s) \<noteq> []"
    unfolding s d by code_simp+
  show "\<exists>sess' disk'. apply_profile demo_env c ''p'' (save_from_settings ''p'' DEFAULT_SETTINGS \<lparr>st_entries = [], st_file = Missing\<rparr>) (?s, ?d)
        = Some ((sess', disk'), True)
     \<and> ss_settings sess' = apply_to_settings ?p demo_settings
     \<and> fst (load_settings demo_env disk') = Inr (ss_settings sess')"
    using profile_roundtrip [OF crypt utf a] a unfolding s by blast
qed

end
