(* ===== verification/Search.thy ===== *)
theory Search
  imports Fetch
begin

text \<open>
  \<open>engine/torrent_search_service.py\<close> and its page \<open>ui/web/bridge_search.py\<close>: the sources the user
  configured, the URL of a query, and the search over all of them. The connection each URL gets
  and the XML parser are parameters.
\<close>

section \<open>Sources\<close>

record search_source =
  so_name :: string
  so_url_template :: string
  so_enabled :: bool

definition source_json :: "search_source \<Rightarrow> json" where
  "source_json s = JObj [(''name'', JStr (so_name s)), (''url_template'', JStr (so_url_template s)), (''enabled'', JBool (so_enabled s))]"

fun source_of_json :: "json \<Rightarrow> load_error + search_source" where
  "source_of_json (JObj kvs) =
     (if kwargs_ok [''name''] [''name'', ''url_template'', ''enabled''] kvs
      then sbind (kwarg kvs ''name'' as_str None) (\<lambda>n.
           sbind (kwarg kvs ''url_template'' as_str (Some [])) (\<lambda>u.
           sbind (kwarg kvs ''enabled'' as_bool (Some True)) (\<lambda>e.
             Inr \<lparr>so_name = n, so_url_template = u, so_enabled = e\<rparr>)))
      else Inl TypeErr)"
| "source_of_json _ = Inl TypeErr"

interpretation sources_json: json_codec source_json source_of_json
  by unfold_locales (simp add: source_json_def kwargs_ok_def kwarg_def)

interpretation source_names: named_store so_name "put_last so_name" "drop_named so_name"
  by (rule named_store_put_last)

type_synonym source_store = "search_source store"

definition sources_init :: "disk_file \<Rightarrow> source_store option" where
  "sources_init f = map_option (\<lambda>ss. \<lparr>st_entries = ss, st_file = f\<rparr>) (load_file source_of_json f)"

definition save_source :: "search_source \<Rightarrow> source_store \<Rightarrow> source_store" where
  "save_source x s = store_save source_json (s\<lparr>st_entries := put_last so_name x (st_entries s)\<rparr>)"

definition delete_source :: "string \<Rightarrow> source_store \<Rightarrow> source_store" where
  "delete_source n s = store_save source_json (s\<lparr>st_entries := drop_named so_name n (st_entries s)\<rparr>)"

definition page_save_source :: "string \<Rightarrow> string \<Rightarrow> bool \<Rightarrow> source_store \<Rightarrow> source_store" where
  "page_save_source n url_template enabled s =
     (if py_strip n = [] then s
      else save_source \<lparr>so_name = py_strip n, so_url_template = py_strip url_template, so_enabled = enabled\<rparr> s)"

section \<open>The URL of a query\<close>

definition hex_digit :: "nat \<Rightarrow> char" where
  "hex_digit n = (if n < 10 then char_of (48 + n) else char_of (55 + n))"

text \<open>\<open>urllib.parse.quote\<close>: the bytes that are not letters, digits or \<open>_.-~/\<close>.\<close>

definition quote_char :: "char \<Rightarrow> string" where
  "quote_char c =
     (if ascii_alpha c \<or> is_digit c \<or> c \<in> set ''_.-~/'' then [c]
      else [CHR ''%'', hex_digit (of_char c div 16), hex_digit (of_char c mod 16)])"

definition py_quote :: "string \<Rightarrow> string" where
  "py_quote s = concat (map quote_char s)"

text \<open>\<open>s.replace(pat, rep)\<close>: the number counts the characters of a match still to be skipped.\<close>

fun replace_from :: "nat \<Rightarrow> string \<Rightarrow> string \<Rightarrow> string \<Rightarrow> string" where
  "replace_from n pat rep [] = []"
| "replace_from (Suc n) pat rep (c # cs) = replace_from n pat rep cs"
| "replace_from 0 pat rep (c # cs) =
     (if prefix pat (c # cs) then rep @ replace_from (length pat - 1) pat rep cs else c # replace_from 0 pat rep cs)"

definition build_search_url :: "string \<Rightarrow> string \<Rightarrow> string" where
  "build_search_url url_template query = replace_from 0 ''{query}'' (py_quote query) url_template"

section \<open>Searching\<close>

type_synonym search_hit = "string \<times> string \<times> string"

record search_env =
  sv_show_int :: "int \<Rightarrow> string"
  sv_connect :: "string \<Rightarrow> connection"
  sv_deadline :: rat
  sv_fromstring :: "string \<Rightarrow> xml option"

text \<open>The title, the link and the source of each result; \<open>Inl\<close> is an exception that leaves it.\<close>

definition search_source_for :: "search_env \<Rightarrow> proxy_settings option \<Rightarrow> string \<Rightarrow> search_source \<Rightarrow> exn + search_hit list" where
  "search_source_for v proxy query src =
     (if \<not> contains ''{query}'' (so_url_template src) then Inr []
      else let url = build_search_url (so_url_template src) query
           in case fetch_url (sv_show_int v) (sv_connect v url) url (sv_deadline v) proxy of
                Inl (Fetch_Error _) \<Rightarrow> Inr []
              | Inl e \<Rightarrow> Inl e
              | Inr body \<Rightarrow> Inr (map (\<lambda>i. (it_title i, it_link i, so_name src)) (parse_rss_items (sv_fromstring v) body)))"

fun search_all :: "search_env \<Rightarrow> proxy_settings option \<Rightarrow> string \<Rightarrow> search_source list \<Rightarrow> exn + search_hit list" where
  "search_all v proxy query [] = Inr []"
| "search_all v proxy query (s # ss) =
     (if \<not> so_enabled s then search_all v proxy query ss
      else case search_source_for v proxy query s of
             Inl e \<Rightarrow> Inl e
           | Inr res \<Rightarrow> (case search_all v proxy query ss of Inl e \<Rightarrow> Inl e | Inr later \<Rightarrow> Inr (res @ later)))"

text \<open>\<open>search\<close> and its worker: the lists the page receives (none when the worker raises).\<close>

definition page_search :: "search_env \<Rightarrow> settings \<Rightarrow> source_store \<Rightarrow> string \<Rightarrow> search_hit list list" where
  "page_search v cfg store query =
     (if py_strip query = [] then [[]]
      else case search_all v (Some (cfg_proxy cfg)) (py_strip query) (st_entries store) of
             Inl _ \<Rightarrow> [] | Inr res \<Rightarrow> [res])"

section \<open>Facts\<close>

text \<open>The results of one source, when it does not raise.\<close>

definition hits_of :: "search_env \<Rightarrow> proxy_settings option \<Rightarrow> string \<Rightarrow> search_source \<Rightarrow> search_hit list" where
  "hits_of v proxy query s = (case search_source_for v proxy query s of Inr res \<Rightarrow> res | Inl _ \<Rightarrow> [])"

lemma search_all_ok:
  "(\<And>s e. s \<in> set ss \<Longrightarrow> so_enabled s \<Longrightarrow> search_source_for v proxy query s \<noteq> Inl e)
     \<Longrightarrow> search_all v proxy query ss = Inr (concat (map (hits_of v proxy query) (filter so_enabled ss)))"
proof (induction ss)
  case Nil
  then show ?case by simp
next
  case (Cons s ss)
  have IH: "search_all v proxy query ss = Inr (concat (map (hits_of v proxy query) (filter so_enabled ss)))"
    by (rule Cons.IH) (use Cons.prems in auto)
  have h: "search_source_for v proxy query s = Inr res \<Longrightarrow> hits_of v proxy query s = res" for res
    by (simp add: hits_of_def)
  show ?case using Cons.prems [of s] IH h
    by (cases "search_source_for v proxy query s") auto
qed

lemma search_all_raises:
  "s \<in> set ss \<Longrightarrow> so_enabled s \<Longrightarrow> search_source_for v proxy query s = Inl e \<Longrightarrow> \<exists>e'. search_all v proxy query ss = Inl e'"
  by (induction ss) (auto split: sum.splits)

lemma search_source_raises:
  "search_source_for v proxy query s = Inl e \<longleftrightarrow>
     contains ''{query}'' (so_url_template s)
     \<and> fetch_url (sv_show_int v) (sv_connect v (build_search_url (so_url_template s) query))
         (build_search_url (so_url_template s) query) (sv_deadline v) proxy = Inl e
     \<and> (\<forall>fe. e \<noteq> Fetch_Error fe)"
  by (cases e) (auto simp: search_source_for_def Let_def split: sum.splits exn.splits)

section \<open>Properties\<close>

text \<open>C26: a search returns the results of every enabled source, in the order of the sources, and a
  source that is unreachable, too slow or too long contributes none. The one exception is a source
  whose fetch ends in an \<open>HTTPException\<close>, which \<open>fetch_url\<close> lets through: then the whole search is
  lost, the results of the other sources included, and the page receives no answer at all.\<close>

theorem search_collects_all_sources:
  assumes "py_strip query \<noteq> []"
  shows "if \<exists>s \<in> set (st_entries store). \<exists>m. so_enabled s \<and> contains ''{query}'' (so_url_template s)
             \<and> fetch_url (sv_show_int v) (sv_connect v (build_search_url (so_url_template s) (py_strip query)))
                 (build_search_url (so_url_template s) (py_strip query)) (sv_deadline v) (Some (cfg_proxy cfg)) = Inl (HttpErr m)
         then page_search v cfg store query = []
         else page_search v cfg store query =
           [concat (map (hits_of v (Some (cfg_proxy cfg)) (py_strip query)) (filter so_enabled (st_entries store)))]"
proof -
  let ?f = "\<lambda>s. fetch_url (sv_show_int v) (sv_connect v (build_search_url (so_url_template s) (py_strip query)))
                 (build_search_url (so_url_template s) (py_strip query)) (sv_deadline v) (Some (cfg_proxy cfg))"
  have r: "(\<exists>e. search_source_for v (Some (cfg_proxy cfg)) (py_strip query) s = Inl e)
      \<longleftrightarrow> contains ''{query}'' (so_url_template s) \<and> (\<exists>m. ?f s = Inl (HttpErr m))" for s
    using fetch_url_raises search_source_raises by (metis exn.exhaust exn.distinct(3))
  show ?thesis
  proof (cases "\<exists>s \<in> set (st_entries store). so_enabled s \<and> (\<exists>e. search_source_for v (Some (cfg_proxy cfg)) (py_strip query) s = Inl e)")
    case True
    then have "\<exists>e'. search_all v (Some (cfg_proxy cfg)) (py_strip query) (st_entries store) = Inl e'"
      using search_all_raises by blast
    moreover have "\<exists>s \<in> set (st_entries store). \<exists>m. so_enabled s \<and> contains ''{query}'' (so_url_template s) \<and> ?f s = Inl (HttpErr m)"
      using True unfolding r by blast
    ultimately show ?thesis using assms by (auto simp: page_search_def)
  next
    case False
    then have "search_all v (Some (cfg_proxy cfg)) (py_strip query) (st_entries store)
        = Inr (concat (map (hits_of v (Some (cfg_proxy cfg)) (py_strip query)) (filter so_enabled (st_entries store))))"
      by (intro search_all_ok) blast
    moreover have "\<not> (\<exists>s \<in> set (st_entries store). \<exists>m. so_enabled s \<and> contains ''{query}'' (so_url_template s) \<and> ?f s = Inl (HttpErr m))"
      using False unfolding r by blast
    ultimately show ?thesis using assms by (simp add: page_search_def)
  qed
qed

text \<open>Concrete inputs: a good source and one that answers with a malformed status line.\<close>

definition demo_sources :: source_store where
  "demo_sources = \<lparr>st_entries = [\<lparr>so_name = ''a'', so_url_template = ''https://a.org/?q={query}'', so_enabled = True\<rparr>,
     \<lparr>so_name = ''b'', so_url_template = ''https://b.org/{query}'', so_enabled = True\<rparr>], st_file = Missing\<rparr>"

definition demo_search :: search_env where
  "demo_search = \<lparr>sv_show_int = (\<lambda>_. []),
     sv_connect = (\<lambda>u. if u = ''https://b.org/x%20y'' then served\<lparr>cn_open := (\<lambda>_. Some (HttpErr ''bad status''))\<rparr> else served),
     sv_deadline = 15, sv_fromstring = (\<lambda>_. None)\<rparr>"

theorem search_collects_all_sources_witness:
  "page_search demo_search DEFAULT_SETTINGS demo_sources '' x y '' = []"
proof -
  have q: "py_strip '' x y '' = ''x y''" and ne: "py_strip '' x y '' \<noteq> []" by code_simp+
  have u: "build_search_url ''https://b.org/{query}'' ''x y'' = ''https://b.org/x%20y''" by code_simp
  have c: "contains ''{query}'' ''https://b.org/{query}''" by code_simp
  have url: "urlsplit ''https://b.org/x%20y''
      = Some \<lparr>us_scheme = ''https'', us_netloc = ''b.org'', us_path = ''/x%20y'', us_query = [], us_fragment = []\<rparr>"
    by code_simp
  have "fetch_url (sv_show_int demo_search) (sv_connect demo_search ''https://b.org/x%20y'') ''https://b.org/x%20y''
      (sv_deadline demo_search) (Some (cfg_proxy DEFAULT_SETTINGS)) = Inl (HttpErr ''bad status'')"
    by (simp add: fetch_url_def open_url_def url build_proxy_opener_def DEFAULT_SETTINGS_def DEFAULT_PROXY_def
        demo_search_def wrap_exn_def) (simp add: served_def)
  then have "\<exists>s \<in> set (st_entries demo_sources). \<exists>m. so_enabled s \<and> contains ''{query}'' (so_url_template s)
      \<and> fetch_url (sv_show_int demo_search) (sv_connect demo_search (build_search_url (so_url_template s) (py_strip '' x y '')))
          (build_search_url (so_url_template s) (py_strip '' x y '')) (sv_deadline demo_search) (Some (cfg_proxy DEFAULT_SETTINGS))
        = Inl (HttpErr m)"
    unfolding q by (intro bexI [of _ "\<lparr>so_name = ''b'', so_url_template = ''https://b.org/{query}'', so_enabled = True\<rparr>"])
      (auto simp only: search_source.simps u c simp_thms, simp add: demo_sources_def)
  with search_collects_all_sources [OF ne, of demo_sources demo_search DEFAULT_SETTINGS] show ?thesis by (simp only: if_True)
qed

end
