(* ===== verification/Notices.thy ===== *)
theory Notices
  imports Profiles Fetch Disk Share_Limits Automation
begin

text \<open>
  What listens to the other services: \<open>engine/decision_journal.py\<close> (the service; its file is in
  \<open>Jsonl\<close>), \<open>ui/notifications.py\<close>, \<open>engine/antivirus_scan_service.py\<close> and
  \<open>ui/web/bridge_update.py\<close>. \<open>tr\<close> of the translator is the key with its arguments; \<open>show_int\<close> is
  \<open>str\<close> of an integer; the locations and the processes of Windows Defender are arguments.
\<close>

section \<open>The journal of automatic decisions\<close>

record journal_env =
  jn_dumps :: "json \<Rightarrow> string"
  jn_io :: log_io
  jn_now :: string
  jn_show_int :: "int \<Rightarrow> string"

record journal =
  jn_file_errors :: "string set"
  jn_file :: jsonl

definition jn_append :: "journal_env \<Rightarrow> string \<Rightarrow> journal \<Rightarrow> journal" where
  "jn_append env message j = j\<lparr>jn_file := journal_append (jn_dumps env) (jn_io env) (jn_now env) message (jn_file j)\<rparr>"

definition name_or_hash :: "session \<Rightarrow> string \<Rightarrow> string" where
  "name_or_hash sess ih = (case get_record sess ih of Some r \<Rightarrow> tr_name r | None \<Rightarrow> take 12 ih)"

definition jn_on_file_error :: "journal_env \<Rightarrow> session \<Rightarrow> string \<Rightarrow> string \<Rightarrow> journal \<Rightarrow> journal" where
  "jn_on_file_error env sess ih message j =
     (if ih \<in> jn_file_errors j then j
      else jn_append env
        (''T'' @ [CHR 0xC3, CHR 0xA9] @ ''l'' @ [CHR 0xC3, CHR 0xA9] @ ''chargement '' @ [CHR 0xC2, CHR 0xAB] @ '' '' @ name_or_hash sess ih @ '' '' @ [CHR 0xC2, CHR 0xBB] @ '' mis en pause automatiquement (erreur disque/fichier : '' @ message @ '').'')
        (j\<lparr>jn_file_errors := insert ih (jn_file_errors j)\<rparr>))"

definition jn_on_removed :: "string \<Rightarrow> journal \<Rightarrow> journal" where
  "jn_on_removed ih j =
     j\<lparr>jn_file_errors := jn_file_errors j - {ih}\<rparr>"

definition jn_on_disk_request :: "journal_env \<Rightarrow> (string \<times> json) list \<Rightarrow> string \<Rightarrow> journal \<Rightarrow> journal" where
  "jn_on_disk_request env info action j =
     (let label = (case dget info ''label'' of Some (JStr l) \<Rightarrow> l | _ \<Rightarrow> ''?'')
      in jn_append env
        (''Disque connu '' @ [CHR 0xC2, CHR 0xAB] @ '' '' @ label @ '' '' @ [CHR 0xC2, CHR 0xBB] @ '' d'' @ [CHR 0xC3, CHR 0xA9] @ ''tect'' @ [CHR 0xC3, CHR 0xA9] @ '' -- action propos'' @ [CHR 0xC3, CHR 0xA9] @ ''e (confirmation requise) : '' @ action @ ''.'') j)"

definition jn_on_low_space :: "journal_env \<Rightarrow> string \<Rightarrow> journal \<Rightarrow> journal" where
  "jn_on_low_space env save_path j =
     jn_append env (''Espace disque faible d'' @ [CHR 0xC3, CHR 0xA9] @ ''tect'' @ [CHR 0xC3, CHR 0xA9] @ '' pour '' @ [CHR 0xC2, CHR 0xAB] @ '' '' @ save_path @ '' '' @ [CHR 0xC2, CHR 0xBB] @ ''.'') j"

definition jn_on_limit_reached :: "journal_env \<Rightarrow> session \<Rightarrow> string \<Rightarrow> string \<Rightarrow> journal \<Rightarrow> journal" where
  "jn_on_limit_reached env sess ih reason j =
     jn_append env
       (''Partage '' @ [CHR 0xC2, CHR 0xAB] @ '' '' @ name_or_hash sess ih @ '' '' @ [CHR 0xC2, CHR 0xBB] @ '' mis en pause automatiquement (limite atteinte : '' @ reason @ '').'') j"

definition jn_on_countdown :: "journal_env \<Rightarrow> int \<Rightarrow> journal \<Rightarrow> journal" where
  "jn_on_countdown env delay_seconds j =
     jn_append env
       (''Compte '' @ [CHR 0xC3, CHR 0xA0] @ '' rebours d'' @ [CHR 0x27] @ ''extinction automatique d'' @ [CHR 0xC3, CHR 0xA9] @ ''marr'' @ [CHR 0xC3, CHR 0xA9] @ '' ('' @ jn_show_int env delay_seconds @ '' s).'') j"

text \<open>\<open>_redact_url\<close>: \<open>None\<close> when \<open>urlsplit\<close> raises.\<close>

definition redact_url :: "string \<Rightarrow> string option" where
  "redact_url url = map_option (\<lambda>u. urlunsplit_path (us_scheme u) (us_netloc u) (us_path u)) (urlsplit url)"

fun join_titles :: "rss_item list \<Rightarrow> string" where
  "join_titles [] = []"
| "join_titles [i] = it_title i"
| "join_titles (i # k # rest) = it_title i @ '', '' @ join_titles (k # rest)"

definition jn_on_items_found :: "journal_env \<Rightarrow> string \<Rightarrow> rss_item list \<Rightarrow> journal \<Rightarrow> journal" where
  "jn_on_items_found env feed_url items j =
     (case redact_url feed_url of
        None \<Rightarrow> j
      | Some shown \<Rightarrow> jn_append env
          (jn_show_int env (int (length items)) @ '' torrent(s) ajout'' @ [CHR 0xC3, CHR 0xA9] @ ''(s) automatiquement depuis le flux RSS (''
            @ shown @ '') : '' @ (if items = [] then ''?'' else join_titles items) @ ''.'') j)"

section \<open>Notifications\<close>

text \<open>A toast: its title and its message, as translation keys with arguments.\<close>

type_synonym toast = "string \<times> string list"

record notifier =
  nt_tray :: bool
  nt_tracker_errors :: "string set"
  nt_file_errors :: "string set"
  nt_shown :: "toast list"

definition notify :: "session \<Rightarrow> string \<Rightarrow> string list \<Rightarrow> notifier \<Rightarrow> notifier" where
  "notify sess title args n =
     (if nt_tray n \<and> cfg_notifications_enabled (ss_settings sess) then n\<lparr>nt_shown := nt_shown n @ [(title, args)]\<rparr> else n)"

definition limit_reason_label :: "string \<Rightarrow> string" where
  "limit_reason_label reason =
     (if reason = ''time'' then ''notifications.limit_reason_time''
      else if reason = ''data'' then ''notifications.limit_reason_data'' else ''notifications.limit_reason_generic'')"

definition nt_on_limit_reached :: "session \<Rightarrow> string \<Rightarrow> string \<Rightarrow> notifier \<Rightarrow> notifier" where
  "nt_on_limit_reached sess ih reason =
     notify sess ''notifications.share_paused_title'' [name_or_hash sess ih, limit_reason_label reason]"

text \<open>The slots of the session's signals, over \<open>show_int\<close>.\<close>

definition nt_on_signal :: "(int \<Rightarrow> string) \<Rightarrow> session \<Rightarrow> signal \<Rightarrow> notifier \<Rightarrow> notifier" where
  "nt_on_signal show_int sess sig n =
     (case sig of
        TorrentFinished ih \<Rightarrow> notify sess ''notifications.download_finished_title'' [name_or_hash sess ih] n
      | TrackerError ih message \<Rightarrow>
          (if ih \<in> nt_tracker_errors n then n
           else notify sess ''notifications.tracker_error_title'' [name_or_hash sess ih, message]
                  (n\<lparr>nt_tracker_errors := insert ih (nt_tracker_errors n)\<rparr>))
      | FileError ih message \<Rightarrow>
          (if ih \<in> nt_file_errors n then n
           else notify sess ''notifications.file_error_title'' [name_or_hash sess ih, message]
                  (n\<lparr>nt_file_errors := insert ih (nt_file_errors n)\<rparr>))
      | TorrentRemoved ih \<Rightarrow> n\<lparr>nt_tracker_errors := nt_tracker_errors n - {ih}, nt_file_errors := nt_file_errors n - {ih}\<rparr>
      | ThemeDownloadsPaused k \<Rightarrow>
          (if k = 0 then n else notify sess ''notifications.theme_downloads_paused_title'' [show_int (int k)] n)
      | StorageMoved ih p \<Rightarrow> notify sess ''notifications.storage_moved_title'' [name_or_hash sess ih, p] n
      | _ \<Rightarrow> n)"

section \<open>Windows Defender\<close>

text \<open>\<open>max(candidates, key=lambda p: p.parent.name)\<close>: the names of the platform directories, as
  strings (their UTF-8 order is that of the code points); the first of the greatest.\<close>

fun string_less :: "string \<Rightarrow> string \<Rightarrow> bool" where
  "string_less s [] = False"
| "string_less [] (d # t) = True"
| "string_less (c # s) (d # t) = (if c = d then string_less s t else (of_char c :: int) < of_char d)"

fun max_name :: "string \<Rightarrow> string list \<Rightarrow> string" where
  "max_name best [] = best"
| "max_name best (n # ns) = max_name (if string_less best n then n else best) ns"

definition CLASSIC_MPCMDRUN_PATH :: string where
  "CLASSIC_MPCMDRUN_PATH = ''C:'' @ [CHR 0x5C] @ ''Program Files'' @ [CHR 0x5C] @ ''Windows Defender'' @ [CHR 0x5C] @ ''MpCmdRun.exe''"

definition find_mpcmdrun :: "string option \<Rightarrow> bool \<Rightarrow> string list \<Rightarrow> string option" where
  "find_mpcmdrun on_path classic_exists platform_names =
     (case on_path of
        Some p \<Rightarrow> if p \<noteq> [] then Some p
                  else if classic_exists then Some CLASSIC_MPCMDRUN_PATH
                  else (case platform_names of [] \<Rightarrow> None | n # ns \<Rightarrow> Some (max_name n ns))
      | None \<Rightarrow> if classic_exists then Some CLASSIC_MPCMDRUN_PATH
                else (case platform_names of [] \<Rightarrow> None | n # ns \<Rightarrow> Some (max_name n ns)))"

definition scan_target :: "world \<Rightarrow> (string \<Rightarrow> bool) \<Rightarrow> string \<Rightarrow> string \<Rightarrow> string" where
  "scan_target w exists save_path n =
     (if n = [] then save_path
      else case w_resolve w save_path of
             None \<Rightarrow> save_path
           | Some base \<Rightarrow>
               (let target = w_join w save_path n
                in if is_confined w target base \<and> exists target then target else save_path))"

definition av_on_torrent_finished :: "world \<Rightarrow> (string \<Rightarrow> bool) \<Rightarrow> session \<Rightarrow> string \<Rightarrow> string option" where
  "av_on_torrent_finished w exists sess ih =
     (if \<not> cfg_scan_completed_files_with_defender (ss_settings sess) then None
      else case get_record sess ih of
             None \<Rightarrow> None
           | Some r \<Rightarrow> if tr_save_path r = [] then None else Some (scan_target w exists (tr_save_path r) (tr_name r)))"

datatype scan_outcome = NotFoundSkip | FailedToRun | Finished int | KilledQuit | KilledTimeout

text \<open>The loop over \<open>range(SCAN_TIMEOUT_SECONDS)\<close>: at each turn, whether the scans were cancelled and
  the return code if the process ends within the second.\<close>

definition SCAN_TIMEOUT_SECONDS :: nat where "SCAN_TIMEOUT_SECONDS = 300"

fun wait_scan :: "nat \<Rightarrow> (bool \<times> int option) list \<Rightarrow> int option" where
  "wait_scan 0 turns = None"
| "wait_scan (Suc n) [] = None"
| "wait_scan (Suc n) ((cancelled, code) # turns) =
     (if cancelled then None else case code of None \<Rightarrow> wait_scan n turns | Some c \<Rightarrow> Some c)"

definition scan_run :: "string option \<Rightarrow> bool \<Rightarrow> (bool \<times> int option) list \<Rightarrow> bool \<Rightarrow> scan_outcome" where
  "scan_run exe starts turns cancelled_after =
     (case exe of
        None \<Rightarrow> NotFoundSkip
      | Some _ \<Rightarrow> if \<not> starts then FailedToRun
                  else case wait_scan SCAN_TIMEOUT_SECONDS turns of
                         Some c \<Rightarrow> Finished c
                       | None \<Rightarrow> if cancelled_after then KilledQuit else KilledTimeout)"

section \<open>The update page\<close>

datatype update_page_action = OpenUrl string | ShowUpdate string string | ShowVerified string

definition up_on_checker_signal :: "checker_signal \<Rightarrow> string \<Rightarrow> string \<times> update_page_action list" where
  "up_on_checker_signal sig pending_url =
     (case sig of
        Update_Available version url \<Rightarrow> (url, [ShowUpdate version url])
      | Installer_Verified p \<Rightarrow> (pending_url, [ShowVerified p])
      | Installer_Verification_Failed \<Rightarrow> (pending_url, if pending_url \<noteq> [] then [OpenUrl pending_url] else []))"

definition dismiss_update :: "settings_env \<Rightarrow> string \<Rightarrow> live \<Rightarrow> live \<times> bool" where
  "dismiss_update env version x =
     save_then env (\<lambda>s. s) (change_settings (\<lambda>cfg. cfg\<lparr>cfg_dismissed_update_version := version\<rparr>) x)"

end
