(* ===== verification/Pages.thy ===== *)
theory Pages
  imports Share_Limits Bandwidth Disk Remote
begin

text \<open>
  The pages that act on torrents: \<open>ui/web/bridge_downloads.py\<close>, \<open>ui/web/bridge_add.py\<close> and
  \<open>ui/web/bridge_share.py\<close>. A page is the state of its bridge; what it sends to JavaScript is a
  list of messages. Texts that only explain an outcome are constructors. libtorrent's parsers and
  the free space of a volume are parameters. The slots that only forward to the session are the
  operations of \<open>Session_Ops\<close>.
\<close>

section \<open>Rows of the downloads page\<close>

definition HEALTH_MEANINGLESS_STATES :: "torrent_state list" where
  "HEALTH_MEANINGLESS_STATES = [PAUSED, AWAITING_ANALYSIS, CHECKING_METADATA, QUEUED]"

definition health_status :: "torrent_record \<Rightarrow> string" where
  "health_status r =
     (if tr_state r \<in> set HEALTH_MEANINGLESS_STATES then []
      else if tr_state r = ERROR then ''critical''
      else let has_tracker_error = list_ex (\<lambda>t. tk_last_error t \<noteq> []) (tr_trackers r)
           in if tr_num_seeds r = 0 \<and> has_tracker_error then ''critical''
              else if tr_num_seeds r = 0 \<or> tr_num_peers r = 0 then ''warning'' else ''healthy'')"

definition display_name :: "torrent_record \<Rightarrow> string" where
  "display_name r = (if tr_name r \<noteq> [] then tr_name r else tr_info_hash r)"

definition record_to_dict :: "torrent_record \<Rightarrow> json" where
  "record_to_dict r = JObj [(''infoHash'', JStr (tr_info_hash r)), (''name'', JStr (display_name r)),
     (''progress'', JFloat (tr_progress r)), (''state'', JStr (state_name (tr_state r))),
     (''downloadRate'', JInt (tr_download_rate r)), (''uploadRate'', JInt (tr_upload_rate r)),
     (''numPeers'', JInt (tr_num_peers r)), (''numSeeds'', JInt (tr_num_seeds r)),
     (''totalSize'', JInt (tr_total_size r)), (''category'', JStr (tr_category r)),
     (''isPrivate'', JBool (tr_is_private r)), (''locked'', JBool (tr_locked r)), (''pinned'', JBool (tr_pinned r)),
     (''currentTracker'', JStr (tr_current_tracker r)), (''queuePosition'', JInt (tr_queue_position r)),
     (''sequentialDownload'', JBool (tr_sequential_download r)),
     (''deadline'', case tr_deadline r of None \<Rightarrow> JNull | Some t \<Rightarrow> JFloat t),
     (''healthStatus'', JStr (health_status r))]"

section \<open>Why is it slow\<close>

datatype slowness_cause = No_Seeds | Tracker_Failing string string | Bandwidth_Limit int int

definition BANDWIDTH_NEAR_LIMIT_RATIO :: rat where "BANDWIDTH_NEAR_LIMIT_RATIO = fl (9 / 10)"

definition compute_slowness_causes :: "torrent_record \<Rightarrow> torrent_record list \<Rightarrow> int \<Rightarrow> slowness_cause list" where
  "compute_slowness_causes r records download_limit_kbps =
     (if tr_num_seeds r = 0 then [No_Seeds] else [])
     @ (case find (\<lambda>t. tk_last_error t \<noteq> []) (tr_trackers r) of
          None \<Rightarrow> [] | Some t \<Rightarrow> [Tracker_Failing (tk_url t) (tk_last_error t)])
     @ (if download_limit_kbps > 0
           \<and> of_int (tr_download_rate r) \<ge> fmul BANDWIDTH_NEAR_LIMIT_RATIO (of_int (download_limit_kbps * 1024))
           \<and> list_ex (\<lambda>x. tr_info_hash x \<noteq> tr_info_hash r \<and> tr_state x = DOWNLOADING) records
        then [Bandwidth_Limit (tr_download_rate r div 1024) download_limit_kbps] else [])"

text \<open>\<open>explainSlowness\<close>: \<open>None\<close> when it does not apply.\<close>

definition explain_slowness :: "scheduler \<Rightarrow> session \<Rightarrow> string \<Rightarrow> slowness_cause list option" where
  "explain_slowness sc sess ih =
     (case get_record sess ih of
        None \<Rightarrow> None
      | Some r \<Rightarrow> if tr_state r \<noteq> DOWNLOADING then None
                  else Some (compute_slowness_causes r (all_records sess)
                               (current_download_limit_kbps sc (ss_settings sess))))"

section \<open>Messages to the downloads page\<close>

datatype row_message = Row_Updated json | Rows_Updated "json list" | Row_Removed string | Wait_Changed bool

definition list_rows :: "session \<Rightarrow> json list" where
  "list_rows sess = map record_to_dict (all_records sess)"

text \<open>The slots of the session's signals, over \<open>_live\<close>.\<close>

definition dl_on_signal :: "session \<Rightarrow> signal \<Rightarrow> bool \<Rightarrow> row_message list" where
  "dl_on_signal sess sig live =
     (case sig of
        TorrentAdded ih \<Rightarrow> (case get_record sess ih of Some r \<Rightarrow> [Row_Updated (record_to_dict r)] | None \<Rightarrow> [])
      | StatusBatchUpdated rs \<Rightarrow> if live then [Rows_Updated (map record_to_dict rs)] else []
      | TorrentRemoved ih \<Rightarrow> [Row_Removed ih]
      | TorrentRestoreFailed ih \<Rightarrow> [Row_Removed ih]
      | BlocklistWaitChanged b \<Rightarrow> [Wait_Changed b]
      | _ \<Rightarrow> [])"

definition dl_set_live :: "session \<Rightarrow> bool \<Rightarrow> bool \<Rightarrow> bool \<times> row_message list" where
  "dl_set_live sess new_live live = (new_live, if new_live \<and> \<not> live then [Rows_Updated (list_rows sess)] else [])"

definition page_set_deadline :: "string \<Rightarrow> rat \<Rightarrow> session \<Rightarrow> session" where
  "page_set_deadline ih timestamp = set_deadline ih (if timestamp > 0 then Some timestamp else None)"

definition page_move_storage :: "world \<Rightarrow> string \<Rightarrow> string \<Rightarrow> session \<Rightarrow> session \<times> bool" where
  "page_move_storage w ih new_path s = (if new_path \<noteq> [] then move_storage w ih new_path s else (s, True))"

definition page_set_category :: "string \<Rightarrow> string \<Rightarrow> session \<Rightarrow> session" where
  "page_set_category ih category = set_torrent_category ih (py_strip category)"

section \<open>The add page\<close>

text \<open>What a slot of the page takes from outside: the session's world, the parsers (\<open>None\<close>: they
  raise), \<open>add_torrent\<close>, the free space of a volume and \<open>Path(path).stem\<close>.\<close>

record page_env =
  pv_world :: world
  pv_magnet :: "string \<Rightarrow> atp option"
  pv_torrent :: "string \<Rightarrow> torrent_info option"
  pv_added :: "atp \<Rightarrow> handle option"
  pv_blank :: atp
  pv_free :: "string \<Rightarrow> int option"
  pv_stem :: "string \<Rightarrow> string"

record scan_payload =
  pl_risks :: "file_risk list"
  pl_overall :: int
  pl_flagged :: "int list"
  pl_threshold :: int
  pl_suggested :: string

datatype add_message =
    Scan_Ready scan_payload
  | Status_Read_Error
  | Status_Analysed nat
  | Status_Add_Error
  | Status_Waiting
  | Started
  | Blocked_By_Theme

record add_page =
  pg_torrent_path :: string
  pg_torrent_files :: "file_entry list option"
  pg_pending_magnet :: "string option"
  pg_threshold :: int
  pg_out :: "add_message list"

definition say :: "add_message \<Rightarrow> add_page \<Rightarrow> add_page" where
  "say m p = p\<lparr>pg_out := pg_out p @ [m]\<rparr>"

definition add_page_init :: "settings \<Rightarrow> add_page" where
  "add_page_init cfg = \<lparr>pg_torrent_path = [], pg_torrent_files = None, pg_pending_magnet = None,
     pg_threshold = cfg_danger_auto_exclude_threshold cfg, pg_out = []\<rparr>"

definition scan_payload_of :: "scan_result \<Rightarrow> int \<Rightarrow> string \<Rightarrow> scan_payload" where
  "scan_payload_of res threshold suggested =
     \<lparr>pl_risks = sort_key (\<lambda>r. - fr_score r) (file_risks res), pl_overall = overall_score res,
      pl_flagged = flagged_indices res, pl_threshold = threshold, pl_suggested = suggested\<rparr>"

definition announce_scan :: "file_entry list \<Rightarrow> string \<Rightarrow> rule_store \<Rightarrow> settings \<Rightarrow> add_page \<Rightarrow> add_page" where
  "announce_scan files n rules cfg p =
     say (Status_Analysed (length files))
       (say (Scan_Ready (scan_payload_of (scan_files files [] None) (pg_threshold p)
               (resolve_destination (list_rules rules) (cfg_default_download_dir cfg) n None))) p)"

definition select_torrent_file :: "page_env \<Rightarrow> rule_store \<Rightarrow> settings \<Rightarrow> string \<Rightarrow> add_page \<Rightarrow> add_page" where
  "select_torrent_file v rules cfg path p =
     (let p1 = p\<lparr>pg_torrent_path := path, pg_torrent_files := None, pg_pending_magnet := None\<rparr>
      in case pv_torrent v path of
           None \<Rightarrow> say Status_Read_Error p1
         | Some ti \<Rightarrow> (let files = files_from_torrent_info ti
                       in announce_scan files (pv_stem v path) rules cfg (p1\<lparr>pg_torrent_files := Some files\<rparr>)))"

definition analyze_magnet :: "page_env \<Rightarrow> string \<Rightarrow> add_page \<times> session \<Rightarrow> add_page \<times> session" where
  "analyze_magnet v uri x =
     (let (p, sess) = x; u = py_strip uri
      in if u = [] then x
         else let p1 = p\<lparr>pg_torrent_path := []\<rparr>
              in case pv_magnet v u of
                   None \<Rightarrow> (say Status_Add_Error p1, sess)
                 | Some a \<Rightarrow>
                     (let (sess', ok) = add_torrent_from_magnet (pv_world v) (pv_added v a) a
                                          (Some (cfg_default_download_dir (ss_settings sess))) sess
                      in if ok then (say Status_Waiting (p1\<lparr>pg_pending_magnet := Some (info_hash_hex a)\<rparr>), sess')
                         else (say Status_Add_Error p1, sess')))"

definition add_on_metadata_received :: "page_env \<Rightarrow> rule_store \<Rightarrow> session \<Rightarrow> string \<Rightarrow> add_page \<Rightarrow> add_page" where
  "add_on_metadata_received v rules sess ih p =
     (if pg_pending_magnet p \<noteq> Some ih then p
      else announce_scan (get_torrent_files (pv_world v) sess ih)
             (case get_record sess ih of Some r \<Rightarrow> tr_name r | None \<Rightarrow> []) rules (ss_settings sess) p)"

datatype start_result = Ok_Started | No_Space | Add_Failed | Analysis_Pending | Nothing_Selected | Raised_Error

definition reset_page :: "add_page \<Rightarrow> add_page" where
  "reset_page p = p\<lparr>pg_torrent_path := [], pg_torrent_files := None, pg_pending_magnet := None\<rparr>"

definition finish_start :: "add_page \<Rightarrow> add_page" where
  "finish_start p = say Started (reset_page p)"

text \<open>The three parts of \<open>startTorrent\<close>: a magnet that was analysed, a file, a magnet typed just now.\<close>

definition start_pending :: "page_env \<Rightarrow> string \<Rightarrow> string \<Rightarrow> int set \<Rightarrow> session \<Rightarrow> session \<times> bool" where
  "start_pending v ih category excluded sess =
     andthen (if excluded \<noteq> {} then exclude_files (pv_world v) ih excluded sess else (sess, True))
       (\<lambda>s. start_after_analysis (pv_world v) ih (if category \<noteq> [] then set_torrent_category ih category s else s))"

definition start_file_add :: "page_env \<Rightarrow> string \<Rightarrow> string \<Rightarrow> int set \<Rightarrow> add_page \<times> session
    \<Rightarrow> start_result \<times> add_page \<times> session" where
  "start_file_add v dest category excluded x =
     (let (p, sess) = x
      in case pv_torrent v (pg_torrent_path p) of
           None \<Rightarrow> (Add_Failed, p, sess)
         | Some ti \<Rightarrow>
             (let (sess', ok) = add_torrent_from_file (pv_world v) (pv_added v (pv_blank v)) (pv_blank v) ti (Some dest) excluded sess
              in if \<not> ok then (Add_Failed, p, sess')
                 else (Ok_Started, finish_start p,
                       if category \<noteq> [] then set_torrent_category (info_hash_hex_of (ti_hashes ti)) category sess' else sess')))"

definition start_file :: "page_env \<Rightarrow> string \<Rightarrow> string \<Rightarrow> int set \<Rightarrow> add_page \<times> session
    \<Rightarrow> start_result \<times> add_page \<times> session" where
  "start_file v dest category excluded x =
     (let (p, sess) = x
      in case (case pg_torrent_files p of Some fs \<Rightarrow> Some fs
               | None \<Rightarrow> map_option files_from_torrent_info (pv_torrent v (pg_torrent_path p))) of
           None \<Rightarrow> (Add_Failed, p, sess)
         | Some files \<Rightarrow>
             (let needed = int_truediv (sum_list (map fe_size (filter (\<lambda>f. fe_index f \<notin> excluded) files))) 1048576;
                  short_of_space = (case free_space_mb (pv_free v) dest of None \<Rightarrow> False | Some mb \<Rightarrow> mb < needed)
              in if short_of_space then (No_Space, p, sess) else start_file_add v dest category excluded x))"

definition start_torrent :: "page_env \<Rightarrow> string \<Rightarrow> string \<Rightarrow> string \<Rightarrow> int set \<Rightarrow> add_page \<times> session
    \<Rightarrow> start_result \<times> add_page \<times> session" where
  "start_torrent v dest_path magnet_uri category excluded x =
     (let (p, sess) = x;
          dest = (if py_strip dest_path \<noteq> [] then py_strip dest_path else cfg_default_download_dir (ss_settings sess));
          cat = py_strip category
      in case (pg_pending_magnet p, pg_torrent_path p) of
           (Some ih, []) \<Rightarrow>
             (let (sess', ok) = start_pending v ih cat excluded sess
              in if ok then (Ok_Started, finish_start p, sess') else (Raised_Error, p, sess'))
         | (_, _ # _) \<Rightarrow> start_file v dest cat excluded x
         | (None, []) \<Rightarrow>
             (if py_strip magnet_uri \<noteq> [] then (Analysis_Pending, analyze_magnet v (py_strip magnet_uri) x)
              else (Nothing_Selected, p, sess)))"

section \<open>The share page\<close>

definition share_row :: "torrent_record \<Rightarrow> share_limit \<Rightarrow> rat \<Rightarrow> int \<Rightarrow> json" where
  "share_row r l elapsed uploaded = JObj [(''infoHash'', JStr (tr_info_hash r)), (''name'', JStr (display_name r)),
     (''uploadRate'', JInt (tr_upload_rate r)), (''uploadedBytes'', JInt uploaded), (''elapsedSeconds'', JFloat elapsed),
     (''timeLimitSeconds'', opt_json JInt (sl_time l)), (''dataLimitBytes'', opt_json JInt (sl_data l)),
     (''ratioLimit'', opt_json JFloat (sl_ratio l)), (''reached'', JBool (sl_reached l)),
     (''reachedReason'', opt_json JStr (sl_reason l)), (''state'', JStr (state_name (tr_state r)))]"

definition share_row_of :: "rat \<Rightarrow> session \<Rightarrow> share_service \<Rightarrow> string \<Rightarrow> json option" where
  "share_row_of now sess sh ih =
     (case (get_record sess ih, share_limit_for sh ih) of
        (Some r, Some l) \<Rightarrow> (let (elapsed, uploaded) = share_progress now sh ih r in Some (share_row r l elapsed uploaded))
      | _ \<Rightarrow> None)"

definition list_share_rows :: "rat \<Rightarrow> session \<Rightarrow> share_service \<Rightarrow> json list" where
  "list_share_rows now sess sh = List.map_filter (share_row_of now sess sh) (share_tracked_info_hashes sh)"

definition sp_on_signal :: "rat \<Rightarrow> session \<Rightarrow> share_service \<Rightarrow> signal \<Rightarrow> bool \<Rightarrow> row_message list" where
  "sp_on_signal now sess sh sig live =
     (case sig of
        StatusBatchUpdated rs \<Rightarrow>
          (if \<not> live then []
           else let rows = List.map_filter (\<lambda>r. share_row_of now sess sh (tr_info_hash r)) rs
                in if rows \<noteq> [] then [Rows_Updated rows] else [])
      | TorrentRemoved ih \<Rightarrow> [Row_Removed ih]
      | TorrentRestoreFailed ih \<Rightarrow> [Row_Removed ih]
      | _ \<Rightarrow> [])"

definition sp_on_limit_reached :: "rat \<Rightarrow> session \<Rightarrow> share_service \<Rightarrow> string \<Rightarrow> row_message list" where
  "sp_on_limit_reached now sess sh ih = (case share_row_of now sess sh ih of Some row \<Rightarrow> [Row_Updated row] | None \<Rightarrow> [])"

definition sp_set_live :: "rat \<Rightarrow> session \<Rightarrow> share_service \<Rightarrow> bool \<Rightarrow> bool \<Rightarrow> bool \<times> row_message list" where
  "sp_set_live now sess sh new_live live =
     (new_live, if new_live \<and> \<not> live then [Rows_Updated (list_share_rows now sess sh)] else [])"

text \<open>\<open>startShare\<close>: \<open>Raised_Error\<close> is an exception of the magnet path, which has no handler.\<close>

definition start_share :: "page_env \<Rightarrow> string \<Rightarrow> string \<Rightarrow> int \<Rightarrow> int \<Rightarrow> rat \<Rightarrow> string
    \<Rightarrow> share_service \<times> session \<Rightarrow> start_result \<times> string \<times> share_service \<times> session" where
  "start_share v data_dir magnet_uri hours mb ratio torrent_path x =
     (let (sh, sess) = x;
          dir = py_strip data_dir;
          track = (\<lambda>ih s. (Ok_Started, [], share_track (w_now (pv_world v)) s ih (nonzero (hours * 3600))
                            (nonzero (mb * 1024 * 1024)) (nonzero ratio) sh, s))
      in if dir = [] then (Nothing_Selected, torrent_path, sh, sess)
         else if torrent_path \<noteq> [] then
           (case pv_torrent v torrent_path of
              None \<Rightarrow> (Add_Failed, torrent_path, sh, sess)
            | Some ti \<Rightarrow>
                (let (sess', ok) = add_torrent_from_file (pv_world v) (pv_added v (pv_blank v)) (pv_blank v) ti (Some dir) {} sess
                 in if ok then track (info_hash_hex_of (ti_hashes ti)) sess' else (Add_Failed, torrent_path, sh, sess')))
         else if py_strip magnet_uri = [] then (Nothing_Selected, torrent_path, sh, sess)
         else case pv_magnet v (py_strip magnet_uri) of
                None \<Rightarrow> (Raised_Error, torrent_path, sh, sess)
              | Some a \<Rightarrow>
                  (let (sess1, ok1) = add_torrent_from_magnet (pv_world v) (pv_added v a) a (Some dir) sess
                   in if \<not> ok1 then (Raised_Error, torrent_path, sh, sess1)
                      else let (sess2, ok2) = start_after_analysis (pv_world v) (info_hash_hex a) sess1
                           in if ok2 then track (info_hash_hex a) sess2 else (Raised_Error, torrent_path, sh, sess2)))"

section \<open>Facts\<close>

lemma set_torrent_category_simps [simp]:
  "ss_cmds (set_torrent_category ih c s) = ss_cmds s"
  "ss_handles (set_torrent_category ih c s) = ss_handles s"
  "ss_settings (set_torrent_category ih c s) = ss_settings s"
  "dget (ss_records (set_torrent_category ih c s)) ih = map_option (\<lambda>r. r\<lparr>tr_category := c\<rparr>) (dget (ss_records s) ih)"
  by (auto simp: set_torrent_category_def on_record_def set_record_def Let_def split: option.split)

lemma exclude_files_ok:
  assumes "exclude_files w ih excluded s = (s', True)"
  shows "ss_cmds s' = ss_cmds s @ (case dget (ss_handles s) ih of None \<Rightarrow> []
           | Some h \<Rightarrow> [PrioritizeFiles h (exclude_priorities excluded (w_priorities w h))])
     \<and> ss_handles s' = ss_handles s \<and> ss_records s' = ss_records s \<and> ss_settings s' = ss_settings s"
  using assms by (auto simp: exclude_files_def hcall_def cmd_def split: option.splits if_splits)

lemma start_after_analysis_ok:
  assumes "start_after_analysis w ih s = (s', True)"
  shows "ss_cmds s' = ss_cmds s @ (case (dget (ss_handles s) ih, dget (ss_records s) ih) of
           (Some h, Some r) \<Rightarrow> if is_download_start_blocked (cfg_theme (ss_settings s)) (tr_progress r) then [] else [SetAutoManaged h, HResume h]
         | _ \<Rightarrow> [])"
  using assms by (auto simp: start_after_analysis_def andthen_def hcall_def cmd_def emit_def set_record_def split: option.splits if_splits)

lemma start_pending_ok:
  assumes "start_pending v ih category excluded s = (s', True)"
    and "dget (ss_handles s) ih = Some h" "dget (ss_records s) ih = Some r"
  shows "ss_cmds s' = ss_cmds s
     @ (if excluded \<noteq> {} then [PrioritizeFiles h (exclude_priorities excluded (w_priorities (pv_world v) h))] else [])
     @ (if is_download_start_blocked (cfg_theme (ss_settings s)) (tr_progress r) then [] else [SetAutoManaged h, HResume h])"
proof -
  obtain s1 ok1 where s1: "(if excluded \<noteq> {} then exclude_files (pv_world v) ih excluded s else (s, True)) = (s1, ok1)"
    by (cases "if excluded \<noteq> {} then exclude_files (pv_world v) ih excluded s else (s, True)")
  have ok1: ok1 using assms(1) s1 by (auto simp: start_pending_def andthen_def split: if_splits)
  let ?s2 = "if category \<noteq> [] then set_torrent_category ih category s1 else s1"
  have r: "start_after_analysis (pv_world v) ih ?s2 = (s', True)"
    using assms(1) ok1 unfolding start_pending_def s1 andthen_def by (cases "category = []") simp_all
  have e: "ss_cmds s1 = ss_cmds s @ (if excluded \<noteq> {} then [PrioritizeFiles h (exclude_priorities excluded (w_priorities (pv_world v) h))] else [])
      \<and> ss_handles s1 = ss_handles s \<and> ss_records s1 = ss_records s \<and> ss_settings s1 = ss_settings s"
    using s1 ok1 exclude_files_ok [of "pv_world v" ih excluded s s1] assms(2) by (auto split: if_splits)
  have "dget (ss_handles ?s2) ih = Some h" "\<exists>r2. dget (ss_records ?s2) ih = Some r2 \<and> tr_progress r2 = tr_progress r"
    "ss_settings ?s2 = ss_settings s" "ss_cmds ?s2 = ss_cmds s1"
    using e assms(2,3) by auto
  then show ?thesis using start_after_analysis_ok [OF r] e by auto
qed

section \<open>Properties\<close>

lemma start_file_ok:
  assumes "start_file v dest category excluded (p, sess) = (Ok_Started, p', sess')"
    and "pv_torrent v (pg_torrent_path p) = Some ti" and "AddTorrent a \<in> set (new_cmds sess sess')"
  shows "ap_save_path a = save_path_or_default (pv_world v) (Some dest)
       \<and> (excluded \<noteq> {} \<longrightarrow> ap_file_priorities a = map (\<lambda>i. if int i \<in> excluded then 0 else 4) [0..<length (ti_files ti)])
       \<and> (\<forall>mb files. free_space_mb (pv_free v) dest = Some mb \<and> pg_torrent_files p = Some files \<longrightarrow>
            int_truediv (sum_list (map fe_size (filter (\<lambda>f. fe_index f \<notin> excluded) files))) 1048576 \<le> mb)"
proof -
  have fa: "start_file_add v dest category excluded (p, sess) = (Ok_Started, p', sess')"
    and room: "\<forall>mb files. free_space_mb (pv_free v) dest = Some mb \<and> pg_torrent_files p = Some files \<longrightarrow>
               int_truediv (sum_list (map fe_size (filter (\<lambda>f. fe_index f \<notin> excluded) files))) 1048576 \<le> mb"
    using assms(1) by (auto simp: start_file_def Let_def split: option.splits if_splits)
  obtain s1 where s1: "add_torrent_from_file (pv_world v) (pv_added v (pv_blank v)) (pv_blank v) ti (Some dest) excluded sess = (s1, True)"
    and cmds: "ss_cmds sess' = ss_cmds s1"
    using fa assms(2) by (auto simp: start_file_add_def Let_def split: prod.splits if_splits)
  have "AddTorrent a \<in> set (new_cmds sess (fst (add_torrent_from_file (pv_world v) (pv_added v (pv_blank v)) (pv_blank v) ti (Some dest) excluded sess)))"
    using assms(3) cmds s1 by simp
  then have "ap_save_path a = save_path_or_default (pv_world v) (Some dest)
      \<and> (excluded \<noteq> {} \<longrightarrow> ap_file_priorities a = map (\<lambda>i. if int i \<in> excluded then 0 else 4) [0..<length (ti_files ti)])"
    by (auto simp: add_torrent_from_file_def Let_def andthen_def from_torrent_file_def hold_paused_def restrict_flags_def
        FILE_PRIORITY_EXCLUDED_def FILE_PRIORITY_DEFAULT_def dest!: add_new_cmds split: if_splits)
  with room show ?thesis by blast
qed

text \<open>The second click does not wait for the metadata: the page then has no file to uncheck, and the magnet
  runs unscanned.\<close>

lemma start_before_metadata:
  assumes "pg_pending_magnet p = Some ih" "pg_torrent_path p = []" "pg_torrent_files p = None"
    and "dget (ss_handles sess) ih = Some h" "w_valid (pv_world v) h" "w_info (pv_world v) h = None"
    and "dget (ss_records sess) ih = Some r" "cfg_theme (ss_settings sess) \<noteq> CCCP_THEME_ID"
  shows "\<exists>p' sess'. start_torrent v dest_path uri [] {} (p, sess) = (Ok_Started, p', sess')
    \<and> new_cmds sess sess' = [SetAutoManaged h, HResume h] \<and> pg_pending_magnet p' = None"
  using assms
  by (simp add: start_torrent_def start_pending_def start_after_analysis_def andthen_def hcall_def is_download_start_blocked_def
      finish_start_def reset_page_def say_def)

text \<open>C27: starting the pending magnet of the add page first excludes the files the page sends as unchecked,
  those and no others (none when it sends none), and only then lets it run, in one go; the destination
  typed on the page makes no difference to it: a magnet was already added under the default directory.
  Starting a file adds it with the unchecked files at priority 0 and the others at the default one,
  under the destination typed on the page, and only if that volume is not known to be short of the
  space that the other files take.\<close>

theorem add_page_start_order:
  assumes "start_torrent v dest_path uri category excluded (p, sess) = (Ok_Started, p', sess')"
  shows "(pg_pending_magnet p = Some ih \<and> pg_torrent_path p = [] \<and> dget (ss_handles sess) ih = Some h \<and> dget (ss_records sess) ih = Some r \<longrightarrow>
            new_cmds sess sess' =
              (if excluded \<noteq> {} then [PrioritizeFiles h (exclude_priorities excluded (w_priorities (pv_world v) h))] else [])
              @ (if is_download_start_blocked (cfg_theme (ss_settings sess)) (tr_progress r) then [] else [SetAutoManaged h, HResume h])
            \<and> start_torrent v other_path uri category excluded (p, sess) = (Ok_Started, p', sess'))
       \<and> (pg_torrent_path p \<noteq> [] \<and> pv_torrent v (pg_torrent_path p) = Some ti
            \<and> dest = (if py_strip dest_path \<noteq> [] then py_strip dest_path else cfg_default_download_dir (ss_settings sess))
            \<and> AddTorrent a \<in> set (new_cmds sess sess') \<longrightarrow>
            ap_save_path a = save_path_or_default (pv_world v) (Some dest)
            \<and> (excluded \<noteq> {} \<longrightarrow> ap_file_priorities a = map (\<lambda>i. if int i \<in> excluded then 0 else 4) [0..<length (ti_files ti)])
            \<and> (\<forall>mb files. free_space_mb (pv_free v) dest = Some mb \<and> pg_torrent_files p = Some files \<longrightarrow>
                 int_truediv (sum_list (map fe_size (filter (\<lambda>f. fe_index f \<notin> excluded) files))) 1048576 \<le> mb))"
proof -
  have magnet: "new_cmds sess sess' =
              (if excluded \<noteq> {} then [PrioritizeFiles h (exclude_priorities excluded (w_priorities (pv_world v) h))] else [])
              @ (if is_download_start_blocked (cfg_theme (ss_settings sess)) (tr_progress r) then [] else [SetAutoManaged h, HResume h])
            \<and> start_torrent v other_path uri category excluded (p, sess) = (Ok_Started, p', sess')"
    if "pg_pending_magnet p = Some ih" "pg_torrent_path p = []" "dget (ss_handles sess) ih = Some h" "dget (ss_records sess) ih = Some r"
  proof -
    have s: "start_pending v ih (py_strip category) excluded sess = (sess', True)"
      using assms that(1,2) by (auto simp: start_torrent_def Let_def split: prod.splits if_splits)
    have "start_torrent v other_path uri category excluded (p, sess) = (Ok_Started, p', sess')"
      using assms that(1,2) by (simp add: start_torrent_def Let_def)
    with start_pending_ok [OF s that(3,4)] show ?thesis by simp
  qed
  have from_file: "ap_save_path a = save_path_or_default (pv_world v) (Some dest)
            \<and> (excluded \<noteq> {} \<longrightarrow> ap_file_priorities a = map (\<lambda>i. if int i \<in> excluded then 0 else 4) [0..<length (ti_files ti)])
            \<and> (\<forall>mb files. free_space_mb (pv_free v) dest = Some mb \<and> pg_torrent_files p = Some files \<longrightarrow>
                 int_truediv (sum_list (map fe_size (filter (\<lambda>f. fe_index f \<notin> excluded) files))) 1048576 \<le> mb)"
    if "pg_torrent_path p \<noteq> []" "pv_torrent v (pg_torrent_path p) = Some ti"
      "dest = (if py_strip dest_path \<noteq> [] then py_strip dest_path else cfg_default_download_dir (ss_settings sess))"
      "AddTorrent a \<in> set (new_cmds sess sess')"
  proof -
    note ne = that(1) and ti = that(2) and dest = that(3) and sent = that(4)
    obtain c cs where path: "pg_torrent_path p = c # cs" using ne by (cases "pg_torrent_path p") auto
    have "start_file v dest (py_strip category) excluded (p, sess) = (Ok_Started, p', sess')"
      using assms unfolding start_torrent_def dest by (cases "pg_pending_magnet p") (simp_all add: path Let_def)
    from start_file_ok [OF this ti sent] show ?thesis .
  qed
  show ?thesis using magnet from_file by blast
qed

text \<open>Concrete input: the analysed magnet of a one-file torrent whose file is unchecked.\<close>

definition demo_page_env :: page_env where
  "demo_page_env = \<lparr>pv_world = small_world, pv_magnet = (\<lambda>_. None), pv_torrent = (\<lambda>_. None), pv_added = (\<lambda>_. None),
     pv_blank = phone_params, pv_free = (\<lambda>_. None), pv_stem = (\<lambda>p. p)\<rparr>"

definition demo_add_page :: add_page where
  "demo_add_page = (add_page_init DEFAULT_SETTINGS)\<lparr>pg_pending_magnet := Some ''A''\<rparr>"

theorem add_page_start_order_witness:
  "\<exists>p' sess'. start_torrent demo_page_env ''E:'' [] [] {0} (demo_add_page, phone_session) = (Ok_Started, p', sess')
     \<and> new_cmds phone_session sess' = [PrioritizeFiles 1 [0], SetAutoManaged 1, HResume 1]"
proof -
  have h: "dget (ss_handles phone_session) ''A'' = Some 1" "\<exists>r. dget (ss_records phone_session) ''A'' = Some r"
    by (simp_all add: phone_session_def small_session_def)
  then obtain r where r: "dget (ss_records phone_session) ''A'' = Some r" by blast
  have p: "pg_pending_magnet demo_add_page = Some ''A''" "pg_torrent_path demo_add_page = []"
    by (simp_all add: demo_add_page_def add_page_init_def)
  have theme: "\<not> is_download_start_blocked (cfg_theme (ss_settings phone_session)) q" for q
    by (simp add: is_download_start_blocked_def phone_session_def DEFAULT_SETTINGS_def CCCP_THEME_ID_def)
  have "snd (start_pending demo_page_env ''A'' [] {0} phone_session)"
    using h r theme by (simp add: start_pending_def andthen_def exclude_files_def hcall_def demo_page_env_def small_world_def
        start_after_analysis_def cmd_def set_record_def)
  then obtain sess' where s: "start_pending demo_page_env ''A'' [] {0} phone_session = (sess', True)" by (metis prod.collapse)
  then have ok: "start_torrent demo_page_env ''E:'' [] [] {0} (demo_add_page, phone_session) = (Ok_Started, finish_start demo_add_page, sess')"
    by (simp add: start_torrent_def p Let_def)
  have "exclude_priorities {0} (w_priorities (pv_world demo_page_env) 1) = [0]"
    by (simp add: exclude_priorities_def demo_page_env_def small_world_def FILE_PRIORITY_EXCLUDED_def)
  then show ?thesis using add_page_start_order [OF ok, of "''A''" 1 r "''E:''"] ok h(1) r p theme by auto
qed

end
