(* ===== verification/Creator.thy ===== *)
theory Creator
  imports Stores
begin

text \<open>
  \<open>engine/torrent_creator.py\<close> and the page \<open>ui/web/bridge_create_torrent.py\<close>: the piece hashes of a
  new torrent. A file is its bytes as they are when it is hashed, with the size libtorrent saw when
  it listed the files. \<open>readinto\<close> may return fewer bytes than asked for: \<open>amount\<close> says how many the
  next call would return, at least one before the end of the file. SHA-1, the listing and the
  encoding of libtorrent are parameters; \<open>cancel\<close> is whether the event is set after a given piece.
\<close>

section \<open>Hashing\<close>

datatype creation_error = Creation_Cancelled | Shrank | Wrong_Piece_Count

record hashing =
  hg_buffer :: string
  hg_hashes :: "string list"
  hg_calls :: nat

text \<open>The state: \<open>view[:filled]\<close>, the hashes set so far, and the number of \<open>readinto\<close> calls.\<close>

definition read_length :: "(nat \<Rightarrow> nat) \<Rightarrow> nat \<Rightarrow> nat \<Rightarrow> string \<Rightarrow> nat" where
  "read_length amount call want content = min (min want (length content)) (max 1 (amount call))"

text \<open>The \<open>while remaining\<close> loop on what is left of the file. Every pass that goes on reads a byte.\<close>

function hash_file :: "(string \<Rightarrow> string) \<Rightarrow> (nat \<Rightarrow> nat) \<Rightarrow> (nat \<Rightarrow> bool) \<Rightarrow> nat \<Rightarrow> nat \<Rightarrow> string \<Rightarrow> hashing
    \<Rightarrow> creation_error + hashing" where
  "hash_file sha1 amount cancel piece_len remaining content h =
     (if remaining = 0 then Inr h
      else let n = read_length amount (hg_calls h) (min remaining (piece_len - length (hg_buffer h))) content
           in if n = 0 then Inl Shrank
              else let buffer = hg_buffer h @ take n content;
                       h1 = h\<lparr>hg_buffer := buffer, hg_calls := hg_calls h + 1\<rparr>
                   in if length buffer = piece_len
                      then let h2 = h1\<lparr>hg_buffer := [], hg_hashes := hg_hashes h @ [sha1 buffer]\<rparr>
                           in if cancel (length (hg_hashes h2)) then Inl Creation_Cancelled
                              else hash_file sha1 amount cancel piece_len (remaining - n) (drop n content) h2
                      else hash_file sha1 amount cancel piece_len (remaining - n) (drop n content) h1)"
  by pat_completeness auto

termination
  by (relation "measure (\<lambda>(_, _, _, _, remaining, _, _). remaining)") auto

declare hash_file.simps [simp del]

type_synonym source_file = "nat \<times> string"

fun hash_files :: "(string \<Rightarrow> string) \<Rightarrow> (nat \<Rightarrow> nat) \<Rightarrow> (nat \<Rightarrow> bool) \<Rightarrow> nat \<Rightarrow> source_file list \<Rightarrow> hashing
    \<Rightarrow> creation_error + hashing" where
  "hash_files sha1 amount cancel piece_len [] h = Inr h"
| "hash_files sha1 amount cancel piece_len ((sz, content) # fs) h =
     (case hash_file sha1 amount cancel piece_len sz content h of
        Inl e \<Rightarrow> Inl e
      | Inr h' \<Rightarrow> hash_files sha1 amount cancel piece_len fs h')"

definition hash_pieces :: "(string \<Rightarrow> string) \<Rightarrow> (nat \<Rightarrow> nat) \<Rightarrow> (nat \<Rightarrow> bool) \<Rightarrow> nat \<Rightarrow> nat \<Rightarrow> source_file list
    \<Rightarrow> creation_error + string list" where
  "hash_pieces sha1 amount cancel piece_len num_pieces files =
     (case hash_files sha1 amount cancel piece_len files \<lparr>hg_buffer = [], hg_hashes = [], hg_calls = 0\<rparr> of
        Inl e \<Rightarrow> Inl e
      | Inr h \<Rightarrow>
          (let hashes = (if hg_buffer h \<noteq> [] then hg_hashes h @ [sha1 (hg_buffer h)] else hg_hashes h)
           in if length hashes \<noteq> num_pieces then Inl Wrong_Piece_Count else Inr hashes))"

section \<open>Creating the file\<close>

datatype creation_result = Source_Missing | No_Files | Cancelled_Creation | Hashing_Failed | Written

text \<open>\<open>create_torrent_file\<close> over the output path and its \<open>.tmp\<close> sibling; \<open>files\<close> is what
  \<open>lt.add_files\<close> lists (\<open>None\<close>: the source does not exist), \<open>encode\<close> the bencoding of the result.\<close>

definition tracker_urls :: "(string \<Rightarrow> string) \<Rightarrow> string list \<Rightarrow> string list" where
  "tracker_urls strip trackers = filter (\<lambda>u. u \<noteq> []) (map strip trackers)"

definition create_torrent_file :: "(string \<Rightarrow> string) \<Rightarrow> (nat \<Rightarrow> nat) \<Rightarrow> (nat \<Rightarrow> bool) \<Rightarrow> nat \<Rightarrow> nat
    \<Rightarrow> (string list \<Rightarrow> string list \<Rightarrow> json) \<Rightarrow> string list \<Rightarrow> source_file list option \<Rightarrow> two_files \<Rightarrow> creation_result \<times> two_files" where
  "create_torrent_file sha1 amount cancel piece_len num_pieces encode trackers files out =
     (case files of
        None \<Rightarrow> (Source_Missing, out)
      | Some fs \<Rightarrow>
          if fs = [] then (No_Files, out)
          else case hash_pieces sha1 amount cancel piece_len num_pieces fs of
                 Inl Creation_Cancelled \<Rightarrow> (Cancelled_Creation, out)
               | Inl _ \<Rightarrow> (Hashing_Failed, out)
               | Inr hashes \<Rightarrow> (Written, fs_run out (save_steps (encode (tracker_urls py_strip trackers) hashes))))"

section \<open>The page\<close>

text \<open>\<open>createTorrent\<close> over \<open>_busy\<close>: whether a job was started; the worker's message (\<open>None\<close>: none).\<close>

definition page_create :: "bool \<Rightarrow> bool \<times> bool" where
  "page_create busy = (if busy then (busy, False) else (True, True))"

definition creation_message :: "creation_result \<Rightarrow> bool \<Rightarrow> bool option" where
  "creation_message res cancelled_after =
     (if res = Cancelled_Creation \<or> cancelled_after then None else Some (res = Written))"

section \<open>Facts\<close>

text \<open>The specification: cut the bytes into pieces, the last one possibly shorter.\<close>

function pieces :: "nat \<Rightarrow> string \<Rightarrow> string list" where
  "pieces n xs = (if xs = [] \<or> n = 0 then [] else take n xs # pieces n (drop n xs))"
  by pat_completeness auto

termination
  by (relation "measure (\<lambda>(n, xs). length xs)") auto

declare pieces.simps [simp del]

lemma pieces_Nil [simp]: "pieces n [] = []"
  by (subst pieces.simps) simp

lemma pieces_full: "0 < n \<Longrightarrow> length xs = n \<Longrightarrow> pieces n (xs @ ys) = xs # pieces n ys"
  by (subst pieces.simps) auto

lemma pieces_short: "xs \<noteq> [] \<Longrightarrow> length xs < n \<Longrightarrow> pieces n xs = [xs]"
  by (subst pieces.simps) auto

text \<open>What is hashed once the rest \<open>later\<close> follows the buffer.\<close>

definition final_hashes :: "(string \<Rightarrow> string) \<Rightarrow> nat \<Rightarrow> hashing \<Rightarrow> string \<Rightarrow> string list" where
  "final_hashes sha1 piece_len h later = hg_hashes h @ map sha1 (pieces piece_len (hg_buffer h @ later))"

lemma hash_file_hashes:
  assumes "hash_file sha1 amount cancel piece_len remaining content h = Inr h'" "length (hg_buffer h) < piece_len"
  shows "remaining \<le> length content \<and> length (hg_buffer h') < piece_len
       \<and> final_hashes sha1 piece_len h (take remaining content @ later) = final_hashes sha1 piece_len h' later"
  using assms
proof (induction sha1 amount cancel piece_len remaining content h rule: hash_file.induct)
  case (1 sha1 amount cancel piece_len remaining content h)
  show ?case
  proof (cases "remaining = 0")
    case True
    then show ?thesis using "1.prems" by (simp add: hash_file.simps)
  next
    case False
    define n where "n = read_length amount (hg_calls h) (min remaining (piece_len - length (hg_buffer h))) content"
    have n0: "n \<noteq> 0" using "1.prems"(1) False by (auto simp: hash_file.simps [of _ _ _ _ remaining] Let_def n_def split: if_splits)
    have n_le: "n \<le> remaining" "n \<le> length content" "length (hg_buffer h) + n \<le> piece_len"
      using "1.prems"(2) by (auto simp: n_def read_length_def)
    have cut: "take remaining content = take n content @ take (remaining - n) (drop n content)"
      using n_le by (metis add_diff_inverse_nat not_less take_add)
    define h1 where "h1 = h\<lparr>hg_buffer := hg_buffer h @ take n content, hg_calls := hg_calls h + 1\<rparr>"
    define h2 where "h2 = h1\<lparr>hg_buffer := [], hg_hashes := hg_hashes h @ [sha1 (hg_buffer h @ take n content)]\<rparr>"
    show ?thesis
    proof (cases "length (hg_buffer h @ take n content) = piece_len")
      case True
      have nc: "\<not> cancel (length (hg_hashes h2))"
        and r: "hash_file sha1 amount cancel piece_len (remaining - n) (drop n content) h2 = Inr h'"
        using "1.prems"(1) False n0 True
        by (auto simp: hash_file.simps [of _ _ _ _ remaining] Let_def n_def [symmetric] h1_def h2_def split: if_splits)
      have pos: "0 < piece_len" using "1.prems"(2) by simp
      have "remaining - n \<le> length (drop n content) \<and> length (hg_buffer h') < piece_len
          \<and> final_hashes sha1 piece_len h2 (take (remaining - n) (drop n content) @ later) = final_hashes sha1 piece_len h' later"
        by (rule "1.IH"(1) [OF False n_def n0 refl h1_def _ h2_def _ r])
           (use True nc pos in \<open>simp_all add: h1_def h2_def\<close>)
      moreover have "final_hashes sha1 piece_len h (take remaining content @ later)
          = final_hashes sha1 piece_len h2 (take (remaining - n) (drop n content) @ later)"
        using pieces_full [OF pos True] by (simp add: final_hashes_def h2_def h1_def cut)
      ultimately show ?thesis using n_le by auto
    next
      case part: False
      have r: "hash_file sha1 amount cancel piece_len (remaining - n) (drop n content) h1 = Inr h'"
        using "1.prems"(1) False n0 part
        by (auto simp: hash_file.simps [of _ _ _ _ remaining] Let_def n_def [symmetric] h1_def split: if_splits)
      have "remaining - n \<le> length (drop n content) \<and> length (hg_buffer h') < piece_len
          \<and> final_hashes sha1 piece_len h1 (take (remaining - n) (drop n content) @ later) = final_hashes sha1 piece_len h' later"
        by (rule "1.IH"(2) [OF False n_def n0 refl h1_def part r])
           (use part n_le in \<open>simp add: h1_def\<close>)
      moreover have "final_hashes sha1 piece_len h (take remaining content @ later)
          = final_hashes sha1 piece_len h1 (take (remaining - n) (drop n content) @ later)"
        by (simp add: final_hashes_def h1_def cut)
      ultimately show ?thesis using n_le by auto
    qed
  qed
qed

lemma hash_file_total:
  assumes "remaining \<le> length content" "length (hg_buffer h) < piece_len" "\<And>k. \<not> cancel k"
  shows "\<exists>h'. hash_file sha1 amount cancel piece_len remaining content h = Inr h'"
  using assms
proof (induction remaining arbitrary: content h rule: less_induct)
  case (less remaining)
  show ?case
  proof (cases "remaining = 0")
    case True
    then show ?thesis by (simp add: hash_file.simps)
  next
    case False
    define n where "n = read_length amount (hg_calls h) (min remaining (piece_len - length (hg_buffer h))) content"
    have n: "0 < n" "n \<le> remaining" "n \<le> length content" "length (hg_buffer h) + n \<le> piece_len"
      using less.prems False by (auto simp: n_def read_length_def)
    have go: "\<exists>h'. hash_file sha1 amount cancel piece_len (remaining - n) (drop n content) g = Inr h'"
      if "length (hg_buffer g) < piece_len" for g
      by (rule less.IH) (use n less.prems that in auto)
    show ?thesis
      using go n less.prems(3) by (subst hash_file.simps) (auto simp: Let_def n_def [symmetric] False)
  qed
qed

lemma hash_file_error:
  assumes "hash_file sha1 amount cancel piece_len remaining content h = Inl e" "\<And>k. \<not> cancel k"
  shows "e = Shrank"
  using assms
proof (induction remaining arbitrary: content h rule: less_induct)
  case (less remaining)
  define n where "n = read_length amount (hg_calls h) (min remaining (piece_len - length (hg_buffer h))) content"
  show ?case
  proof (cases "remaining = 0 \<or> n = 0")
    case True
    then show ?thesis using less.prems(1)
      by (auto simp: hash_file.simps [of _ _ _ _ remaining] Let_def n_def split: if_splits)
  next
    case False
    then have "(\<exists>g. hash_file sha1 amount cancel piece_len (remaining - n) (drop n content) g = Inl e) \<or> (\<exists>k. cancel k)"
      using less.prems(1) by (auto simp: hash_file.simps [of _ _ _ _ remaining] Let_def n_def [symmetric] split: if_splits)
    with less.prems(2) have "\<exists>g. hash_file sha1 amount cancel piece_len (remaining - n) (drop n content) g = Inl e" by blast
    moreover have "remaining - n < remaining" using False by auto
    ultimately show ?thesis using less.IH less.prems(2) by blast
  qed
qed

definition source_bytes :: "source_file list \<Rightarrow> string" where
  "source_bytes files = concat (map (\<lambda>(sz, content). take sz content) files)"

definition has_shrunk :: "source_file \<Rightarrow> bool" where
  "has_shrunk f \<longleftrightarrow> length (snd f) < fst f"

lemma hash_files_hashes:
  assumes "length (hg_buffer h) < piece_len" "\<And>k. \<not> cancel k"
  shows "if list_ex has_shrunk files then hash_files sha1 amount cancel piece_len files h = Inl Shrank
         else \<exists>h'. hash_files sha1 amount cancel piece_len files h = Inr h' \<and> length (hg_buffer h') < piece_len
            \<and> final_hashes sha1 piece_len h (source_bytes files) = final_hashes sha1 piece_len h' []"
  using assms(1)
proof (induction files arbitrary: h)
  case Nil
  then show ?case by (simp add: source_bytes_def)
next
  case (Cons f files)
  obtain sz content where f: "f = (sz, content)" by (cases f)
  show ?case
  proof (cases "has_shrunk f")
    case True
    then have "hash_file sha1 amount cancel piece_len sz content h \<noteq> Inr h'" for h'
      using hash_file_hashes [of sha1 amount cancel piece_len sz content h h'] Cons.prems by (auto simp: has_shrunk_def f)
    then obtain e where e: "hash_file sha1 amount cancel piece_len sz content h = Inl e"
      by (cases "hash_file sha1 amount cancel piece_len sz content h") auto
    with hash_file_error [OF e assms(2)] True show ?thesis by (simp add: f)
  next
    case False
    then have "sz \<le> length content" by (simp add: has_shrunk_def f)
    from hash_file_total [of sz content h piece_len cancel sha1 amount, OF this Cons.prems assms(2)]
    obtain h1 where h1: "hash_file sha1 amount cancel piece_len sz content h = Inr h1" by blast
    note r = hash_file_hashes [OF h1 Cons.prems]
    have "final_hashes sha1 piece_len h (source_bytes (f # files)) = final_hashes sha1 piece_len h1 (source_bytes files)"
      using r [of "source_bytes files"] by (simp add: source_bytes_def f)
    moreover have "length (hg_buffer h1) < piece_len" using r by blast
    ultimately show ?thesis using Cons.IH [of h1] h1 False by (simp add: f)
  qed
qed

lemma length_pieces: "0 < n \<Longrightarrow> length (pieces n xs) = (length xs + n - 1) div n"
proof (induction n xs rule: pieces.induct)
  case (1 n xs)
  show ?case
  proof (cases "xs = []")
    case True
    then show ?thesis using "1.prems" by simp
  next
    case False
    then have IH: "length (pieces n (drop n xs)) = (length (drop n xs) + n - 1) div n" using 1 by simp
    have "pieces n xs = take n xs # pieces n (drop n xs)" using False "1.prems" by (subst pieces.simps) simp
    then have "length (pieces n xs) = Suc ((length xs - n + n - 1) div n)" by (simp only: length_Cons IH length_drop)
    also have "(length xs - n + n - 1) div n = (length xs - 1) div n"
      using "1.prems" by (cases "n \<le> length xs") simp_all
    also have "Suc ((length xs - 1) div n) = (length xs - 1 + n) div n" using "1.prems" by simp
    also have "length xs - 1 + n = length xs + n - 1" using False by (cases xs) simp_all
    finally show ?thesis .
  qed
qed

section \<open>Properties\<close>

text \<open>C28: however the reads are cut short, the hashes are those of the source's bytes, in file order, cut
  into pieces of the piece length, one per piece and never across a wrong boundary; as many as
  libtorrent expects when it counted the same bytes. A file that shrank since it was listed makes
  the whole creation fail, whichever file it is, and then nothing is written.\<close>

theorem pieces_hashed_exactly:
  assumes "0 < piece_len" "\<And>k. \<not> cancel k"
  shows "(if list_ex has_shrunk files then hash_pieces sha1 amount cancel piece_len num_pieces files = Inl Shrank
            \<and> create_torrent_file sha1 amount cancel piece_len num_pieces encode trackers (Some files) out = (Hashing_Failed, out)
          else num_pieces = (length (source_bytes files) + piece_len - 1) div piece_len \<longrightarrow>
            hash_pieces sha1 amount cancel piece_len num_pieces files = Inr (map sha1 (pieces piece_len (source_bytes files))))
       \<and> length (pieces piece_len (source_bytes files)) = (length (source_bytes files) + piece_len - 1) div piece_len"
proof -
  let ?h = "\<lparr>hg_buffer = [], hg_hashes = [], hg_calls = 0\<rparr>"
  have b: "length (hg_buffer ?h) < piece_len" using assms(1) by simp
  note n = length_pieces [OF assms(1), of "source_bytes files"]
  show ?thesis
  proof (cases "list_ex has_shrunk files")
    case True
    then have "hash_files sha1 amount cancel piece_len files ?h = Inl Shrank"
      using hash_files_hashes [where cancel = cancel and files = files and ?sha1.0 = sha1 and amount = amount, OF b assms(2)] by simp
    moreover have "files \<noteq> []" using True by auto
    ultimately show ?thesis using True n by (simp add: hash_pieces_def create_torrent_file_def)
  next
    case False
    then obtain h' where h': "hash_files sha1 amount cancel piece_len files ?h = Inr h'" "length (hg_buffer h') < piece_len"
      "final_hashes sha1 piece_len ?h (source_bytes files) = final_hashes sha1 piece_len h' []"
      using hash_files_hashes [where cancel = cancel and files = files and ?sha1.0 = sha1 and amount = amount, OF b assms(2)] by auto
    have "final_hashes sha1 piece_len h' [] = (if hg_buffer h' \<noteq> [] then hg_hashes h' @ [sha1 (hg_buffer h')] else hg_hashes h')"
      using h'(2) by (simp add: final_hashes_def pieces_short)
    then have "(if hg_buffer h' \<noteq> [] then hg_hashes h' @ [sha1 (hg_buffer h')] else hg_hashes h')
        = map sha1 (pieces piece_len (source_bytes files))"
      using h'(3) by (simp add: final_hashes_def)
    then have "hash_pieces sha1 amount cancel piece_len num_pieces files = Inr (map sha1 (pieces piece_len (source_bytes files)))"
      if "num_pieces = (length (source_bytes files) + piece_len - 1) div piece_len"
      unfolding hash_pieces_def h'(1) Let_def sum.case using n that by simp
    with False n show ?thesis by simp
  qed
qed

text \<open>Concrete input: two files of three and two bytes, in pieces of two bytes, read a byte at a time.\<close>

definition demo_files :: "source_file list" where
  "demo_files = [(3, ''abcX''), (2, ''de'')]"

theorem pieces_hashed_exactly_witness:
  "hash_pieces (\<lambda>s. s) (\<lambda>_. 1) (\<lambda>_. False) 2 3 demo_files = Inr [''ab'', ''cd'', ''e'']"
proof -
  have s: "source_bytes demo_files = ''abcde''" "\<not> list_ex has_shrunk demo_files"
    by (simp_all add: source_bytes_def demo_files_def has_shrunk_def)
  have "pieces 2 ''abcde'' = [''ab'', ''cd'', ''e'']" by (simp add: pieces.simps)
  then show ?thesis using pieces_hashed_exactly [of 2 "\<lambda>_. False" demo_files "\<lambda>s. s" "\<lambda>_. 1" 3] s by simp
qed

end
