(* ===== verification/Config_Pages.thy ===== *)
theory Config_Pages
  imports Profiles Remote
begin

text \<open>
  The settings pages: \<open>ui/web/bridge_profile_general.py\<close>, \<open>bridge_profile_network.py\<close>,
  \<open>bridge_profile_automation.py\<close>, \<open>bridge_profile_security.py\<close> with \<open>config/redaction.py\<close>. A page
  sends a dictionary of values (a \<open>QVariantMap\<close>), and each \<open>int(...)\<close> of it can raise after the
  fields before it were already assigned: a page's \<open>saveSettings\<close> is a list of assignments run in
  order. \<open>str\<close> of a value that is no string is a parameter.
\<close>

section \<open>Assigning the fields of a page\<close>

type_synonym page_values = "(string \<times> json) list"
type_synonym assignment = "settings \<Rightarrow> settings option"

text \<open>The settings by then, and whether no assignment raised.\<close>

fun run_assignments :: "assignment list \<Rightarrow> settings \<Rightarrow> settings \<times> bool" where
  "run_assignments [] s = (s, True)"
| "run_assignments (f # fs) s = (case f s of None \<Rightarrow> (s, False) | Some s' \<Rightarrow> run_assignments fs s')"

text \<open>\<open>s.x = bool(values.get(k, s.x))\<close>, \<open>s.x = f(int(values.get(k, s.x)))\<close> and
  \<open>s.x = f(str(values.get(k, d)))\<close>.\<close>

definition set_bool :: "page_values \<Rightarrow> string \<Rightarrow> (settings \<Rightarrow> bool) \<Rightarrow> (bool \<Rightarrow> settings \<Rightarrow> settings) \<Rightarrow> assignment" where
  "set_bool vals k get put s = Some (put (case dget vals k of None \<Rightarrow> get s | Some j \<Rightarrow> json_truthy j) s)"

definition set_int :: "page_values \<Rightarrow> string \<Rightarrow> (int \<Rightarrow> int) \<Rightarrow> (settings \<Rightarrow> int) \<Rightarrow> (int \<Rightarrow> settings \<Rightarrow> settings) \<Rightarrow> assignment" where
  "set_int vals k f get put s =
     (case dget vals k of
        None \<Rightarrow> Some (put (f (get s)) s)
      | Some j \<Rightarrow> map_option (\<lambda>n. put (f n) s) (json_int j))"

definition set_str :: "(json \<Rightarrow> string) \<Rightarrow> page_values \<Rightarrow> string \<Rightarrow> (settings \<Rightarrow> string) \<Rightarrow> (string \<Rightarrow> settings \<Rightarrow> settings) \<Rightarrow> assignment" where
  "set_str str vals k dflt put s = Some (put (case dget vals k of None \<Rightarrow> dflt s | Some j \<Rightarrow> json_text str j) s)"

text \<open>A page's save: the assignments, \<open>save\<close>, and the live application.\<close>

definition save_page :: "settings_env \<Rightarrow> assignment list \<Rightarrow> (session \<Rightarrow> session) \<Rightarrow> live \<Rightarrow> live \<times> bool" where
  "save_page env asgs rest x =
     (let (cfg, ok) = run_assignments asgs (ss_settings (fst x));
          x' = change_settings (\<lambda>_. cfg) x
      in if ok then save_then env rest x' else (x', False))"

definition clamp :: "int \<Rightarrow> int \<Rightarrow> int \<Rightarrow> int" where
  "clamp lo hi n = max lo (min hi n)"

section \<open>General\<close>

definition general_assignments :: "(json \<Rightarrow> string) \<Rightarrow> page_values \<Rightarrow> assignment list" where
  "general_assignments str vals =
    [(\<lambda>s. set_str str vals ''defaultDownloadDir'' cfg_default_download_dir
        (\<lambda>d s. s\<lparr>cfg_default_download_dir := (if py_strip d \<noteq> [] then py_strip d else cfg_default_download_dir s)\<rparr>) s),
     set_int vals ''downloadRateLimitKbps'' id cfg_download_rate_limit_kbps (\<lambda>n s. s\<lparr>cfg_download_rate_limit_kbps := n\<rparr>),
     set_int vals ''uploadRateLimitKbps'' id cfg_upload_rate_limit_kbps (\<lambda>n s. s\<lparr>cfg_upload_rate_limit_kbps := n\<rparr>),
     set_int vals ''maxActiveDownloads'' (clamp 1 100) cfg_max_active_downloads (\<lambda>n s. s\<lparr>cfg_max_active_downloads := n\<rparr>),
     set_int vals ''dangerAutoExcludeThreshold'' (clamp 0 100) cfg_danger_auto_exclude_threshold
       (\<lambda>n s. s\<lparr>cfg_danger_auto_exclude_threshold := n\<rparr>),
     set_bool vals ''notificationsEnabled'' cfg_notifications_enabled (\<lambda>b s. s\<lparr>cfg_notifications_enabled := b\<rparr>),
     set_bool vals ''webhookEnabled'' cfg_webhook_enabled (\<lambda>b s. s\<lparr>cfg_webhook_enabled := b\<rparr>),
     set_str str vals ''webhookUrl'' cfg_webhook_url (\<lambda>u s. s\<lparr>cfg_webhook_url := py_strip u\<rparr>),
     set_bool vals ''launchAtStartup'' cfg_launch_at_startup (\<lambda>b s. s\<lparr>cfg_launch_at_startup := b\<rparr>),
     set_bool vals ''checkForUpdates'' cfg_check_for_updates (\<lambda>b s. s\<lparr>cfg_check_for_updates := b\<rparr>),
     set_bool vals ''minimizeToTray'' cfg_minimize_to_tray (\<lambda>b s. s\<lparr>cfg_minimize_to_tray := b\<rparr>)]"

text \<open>The registry is written when the checkbox changed, before the last three assignments, none of
  which raises.\<close>

definition general_save :: "settings_env \<Rightarrow> (json \<Rightarrow> string) \<Rightarrow> page_values \<Rightarrow> live \<Rightarrow> (live \<times> bool) \<times> bool option" where
  "general_save env str vals x =
     (let (cfg, ok) = run_assignments (general_assignments str vals) (ss_settings (fst x));
          launch = cfg_launch_at_startup cfg
      in (save_page env (general_assignments str vals) (\<lambda>s. s) x,
          if ok \<and> launch \<noteq> cfg_launch_at_startup (ss_settings (fst x)) then Some launch else None))"

text \<open>The live slots; the signal is the theme and mode, the language or the volume.\<close>

datatype general_signal = Theme_Changed string string | Language_Changed string | Volume_Changed int

definition set_theme :: "settings_env \<Rightarrow> world \<Rightarrow> string \<Rightarrow> live \<Rightarrow> (live \<times> bool) \<times> general_signal list" where
  "set_theme env w theme_id x =
     (if theme_id = [] then ((x, True), [])
      else let (y, ok) = save_then env (enforce_theme_download_policy w) (change_settings (\<lambda>c. c\<lparr>cfg_theme := theme_id\<rparr>) x)
           in ((y, ok), if ok then [Theme_Changed theme_id (cfg_appearance_mode (ss_settings (fst y)))] else []))"

definition set_appearance_mode :: "settings_env \<Rightarrow> string \<Rightarrow> live \<Rightarrow> (live \<times> bool) \<times> general_signal list" where
  "set_appearance_mode env mode x =
     (if mode = [] then ((x, True), [])
      else let (y, ok) = save_then env (\<lambda>s. s) (change_settings (\<lambda>c. c\<lparr>cfg_appearance_mode := mode\<rparr>) x)
           in ((y, ok), if ok then [Theme_Changed (cfg_theme (ss_settings (fst y))) mode] else []))"

definition set_language :: "settings_env \<Rightarrow> string \<Rightarrow> live \<Rightarrow> (live \<times> bool) \<times> general_signal list" where
  "set_language env lang x =
     (if lang = [] then ((x, True), [])
      else let (y, ok) = save_then env (\<lambda>s. s) (change_settings (\<lambda>c. c\<lparr>cfg_language := lang\<rparr>) x)
           in ((y, ok), if ok then [Language_Changed lang] else []))"

definition set_volume :: "settings_env \<Rightarrow> int \<Rightarrow> live \<Rightarrow> (live \<times> bool) \<times> general_signal list" where
  "set_volume env v x =
     (let (y, ok) = save_then env (\<lambda>s. s) (change_settings (\<lambda>c. c\<lparr>cfg_audio_volume := v\<rparr>) x)
      in ((y, ok), if ok then [Volume_Changed v] else []))"

section \<open>Network\<close>

abbreviation on_proxy :: "(proxy_settings \<Rightarrow> proxy_settings) \<Rightarrow> settings \<Rightarrow> settings" where
  "on_proxy f s \<equiv> s\<lparr>cfg_proxy := f (cfg_proxy s)\<rparr>"

definition network_assignments :: "(json \<Rightarrow> string) \<Rightarrow> page_values \<Rightarrow> assignment list" where
  "network_assignments str vals =
    [set_bool vals ''restrictDiscovery'' cfg_restrict_discovery (\<lambda>b s. s\<lparr>cfg_restrict_discovery := b\<rparr>),
     set_bool vals ''proxyEnabled'' (\<lambda>s. px_enabled (cfg_proxy s)) (\<lambda>b. on_proxy (px_enabled_update (\<lambda>_. b))),
     set_str str vals ''proxyType'' (\<lambda>s. px_proxy_type (cfg_proxy s)) (\<lambda>t. on_proxy (px_proxy_type_update (\<lambda>_. t))),
     set_str str vals ''proxyHost'' (\<lambda>_. []) (\<lambda>t. on_proxy (px_host_update (\<lambda>_. py_strip t))),
     set_int vals ''proxyPort'' (clamp 0 65535) (\<lambda>s. px_port (cfg_proxy s)) (\<lambda>n. on_proxy (px_port_update (\<lambda>_. n))),
     set_str str vals ''proxyUsername'' (\<lambda>_. []) (\<lambda>t. on_proxy (px_username_update (\<lambda>_. t))),
     set_str str vals ''proxyPassword'' (\<lambda>_. []) (\<lambda>t. on_proxy (px_password_update (\<lambda>_. t))),
     set_bool vals ''forceProxy'' (\<lambda>s. px_force_proxy (cfg_proxy s)) (\<lambda>b. on_proxy (px_force_proxy_update (\<lambda>_. b))),
     set_str str vals ''networkInterface'' (\<lambda>_. []) (\<lambda>t s. s\<lparr>cfg_network_interface := py_strip t\<rparr>),
     set_str str vals ''encryptionMode'' cfg_encryption_mode (\<lambda>t s. s\<lparr>cfg_encryption_mode := t\<rparr>),
     set_bool vals ''ipBlocklistEnabled'' cfg_ip_blocklist_enabled (\<lambda>b s. s\<lparr>cfg_ip_blocklist_enabled := b\<rparr>),
     set_str str vals ''ipBlocklistPath'' (\<lambda>_. []) (\<lambda>t s. s\<lparr>cfg_ip_blocklist_path := py_strip t\<rparr>)]"

definition network_save :: "settings_env \<Rightarrow> lt_consts \<Rightarrow> (json \<Rightarrow> string) \<Rightarrow> page_values \<Rightarrow> live \<Rightarrow> live \<times> bool" where
  "network_save env c str vals =
     save_page env (network_assignments str vals)
       (\<lambda>sess. let cfg = ss_settings sess
               in set_encryption_mode c (cfg_encryption_mode cfg) (set_proxy c cfg
                    (set_restrict_discovery (cfg_restrict_discovery cfg) sess)))"

text \<open>\<open>risk_report_summary\<close>\<close>

definition risk_report_summary :: "session \<Rightarrow> nat \<times> nat" where
  "risk_report_summary sess =
     (let scanned = filter (\<lambda>r. tr_danger_report r \<noteq> None) (all_records sess)
      in (length scanned, length (filter (\<lambda>r. flagged_indices (the (tr_danger_report r)) \<noteq> []) scanned)))"

text \<open>\<open>setRemoteAccessEnabled\<close>: \<open>start\<close> may make and save a token first; the result is the answer's
  \<open>ok\<close>, with the server.\<close>

definition set_remote_access :: "settings_env \<Rightarrow> string \<Rightarrow> bool \<Rightarrow> bool \<Rightarrow> remote_server \<Rightarrow> live \<Rightarrow> bool \<times> remote_server \<times> live \<times> bool" where
  "set_remote_access env fresh_token bound enabled srv x =
     (if enabled
      then let (started, srv1, cfg1) = server_start fresh_token bound srv (ss_settings (fst x));
               x1 = change_settings (\<lambda>_. cfg1) x;
               (x2, saved) = (if rm_saves srv1 \<noteq> rm_saves srv then save_then env (\<lambda>s. s) x1 else (x1, True))
           in if \<not> saved then (False, srv, x2, False)
              else if \<not> started then (False, srv1, x2, True)
              else let (x3, ok) = save_then env (\<lambda>s. s) (change_settings (\<lambda>c. c\<lparr>cfg_remote_access_enabled := True\<rparr>) x2)
                   in (ok, srv1, x3, ok)
      else let (x3, ok) = save_then env (\<lambda>s. s) (change_settings (\<lambda>c. c\<lparr>cfg_remote_access_enabled := False\<rparr>) x)
           in (ok, server_stop srv, x3, ok))"

definition set_remote_access_port :: "settings_env \<Rightarrow> int \<Rightarrow> live \<Rightarrow> live \<times> bool" where
  "set_remote_access_port env port x = save_then env (\<lambda>s. s) (change_settings (\<lambda>c. c\<lparr>cfg_remote_access_port := port\<rparr>) x)"

definition regenerate_token :: "settings_env \<Rightarrow> string \<Rightarrow> live \<Rightarrow> live \<times> bool" where
  "regenerate_token env fresh_token x =
     save_then env (\<lambda>s. s) (change_settings (\<lambda>c. c\<lparr>cfg_remote_access_token := fresh_token\<rparr>) x)"

section \<open>Automation\<close>

abbreviation on_schedule :: "(bandwidth_schedule \<Rightarrow> bandwidth_schedule) \<Rightarrow> settings \<Rightarrow> settings" where
  "on_schedule f s \<equiv> s\<lparr>cfg_bandwidth_schedule := f (cfg_bandwidth_schedule s)\<rparr>"

text \<open>\<open>max(1, int(values.get(k, x) or 1))\<close>\<close>

definition set_interval_days :: "page_values \<Rightarrow> assignment" where
  "set_interval_days vals s =
     (let j = (case dget vals ''scheduledRecheckIntervalDays'' of None \<Rightarrow> JInt (cfg_scheduled_recheck_interval_days s) | Some j \<Rightarrow> j)
      in map_option (\<lambda>n. s\<lparr>cfg_scheduled_recheck_interval_days := max 1 n\<rparr>)
           (if json_truthy j then json_int j else Some 1))"

definition automation_assignments :: "(json \<Rightarrow> string) \<Rightarrow> page_values \<Rightarrow> assignment list" where
  "automation_assignments str vals =
    [set_bool vals ''scheduleEnabled'' (\<lambda>s. bs_enabled (cfg_bandwidth_schedule s)) (\<lambda>b. on_schedule (bs_enabled_update (\<lambda>_. b))),
     set_int vals ''scheduleStartHour'' id (\<lambda>s. bs_start_hour (cfg_bandwidth_schedule s)) (\<lambda>n. on_schedule (bs_start_hour_update (\<lambda>_. n))),
     set_int vals ''scheduleEndHour'' id (\<lambda>s. bs_end_hour (cfg_bandwidth_schedule s)) (\<lambda>n. on_schedule (bs_end_hour_update (\<lambda>_. n))),
     set_int vals ''scheduleDownloadKbps'' id (\<lambda>s. bs_limited_download_kbps (cfg_bandwidth_schedule s))
       (\<lambda>n. on_schedule (bs_limited_download_kbps_update (\<lambda>_. n))),
     set_int vals ''scheduleUploadKbps'' id (\<lambda>s. bs_limited_upload_kbps (cfg_bandwidth_schedule s))
       (\<lambda>n. on_schedule (bs_limited_upload_kbps_update (\<lambda>_. n))),
     set_bool vals ''watchFolderEnabled'' cfg_watch_folder_enabled (\<lambda>b s. s\<lparr>cfg_watch_folder_enabled := b\<rparr>),
     set_str str vals ''watchFolderPath'' cfg_watch_folder_path (\<lambda>t s. s\<lparr>cfg_watch_folder_path := py_strip t\<rparr>),
     set_bool vals ''diskSpaceEnabled'' cfg_disk_space_warning_enabled (\<lambda>b s. s\<lparr>cfg_disk_space_warning_enabled := b\<rparr>),
     set_int vals ''diskSpaceThresholdMb'' id cfg_disk_space_warning_threshold_mb (\<lambda>n s. s\<lparr>cfg_disk_space_warning_threshold_mb := n\<rparr>),
     set_bool vals ''shutdownEnabled'' cfg_auto_shutdown_enabled (\<lambda>b s. s\<lparr>cfg_auto_shutdown_enabled := b\<rparr>),
     set_str str vals ''shutdownAction'' cfg_auto_shutdown_action (\<lambda>t s. s\<lparr>cfg_auto_shutdown_action := t\<rparr>),
     set_int vals ''shutdownDelaySeconds'' id cfg_auto_shutdown_delay_seconds (\<lambda>n s. s\<lparr>cfg_auto_shutdown_delay_seconds := n\<rparr>),
     set_bool vals ''batteryPauseEnabled'' cfg_pause_on_battery_enabled (\<lambda>b s. s\<lparr>cfg_pause_on_battery_enabled := b\<rparr>),
     set_bool vals ''provenanceManifestEnabled'' cfg_provenance_manifest_enabled (\<lambda>b s. s\<lparr>cfg_provenance_manifest_enabled := b\<rparr>),
     set_bool vals ''memoryGovernorEnabled'' cfg_memory_governor_enabled (\<lambda>b s. s\<lparr>cfg_memory_governor_enabled := b\<rparr>),
     set_int vals ''memoryGovernorThresholdPercent'' id cfg_memory_governor_threshold_percent
       (\<lambda>n s. s\<lparr>cfg_memory_governor_threshold_percent := n\<rparr>),
     set_bool vals ''idleBandwidthReductionEnabled'' cfg_idle_bandwidth_reduction_enabled (\<lambda>b s. s\<lparr>cfg_idle_bandwidth_reduction_enabled := b\<rparr>),
     set_int vals ''idleBandwidthReductionMinutes'' id cfg_idle_bandwidth_reduction_minutes
       (\<lambda>n s. s\<lparr>cfg_idle_bandwidth_reduction_minutes := n\<rparr>),
     set_bool vals ''knownDiskEnabled'' cfg_known_disk_automation_enabled (\<lambda>b s. s\<lparr>cfg_known_disk_automation_enabled := b\<rparr>),
     set_bool vals ''peerReputationEnabled'' cfg_peer_reputation_enabled (\<lambda>b s. s\<lparr>cfg_peer_reputation_enabled := b\<rparr>),
     set_bool vals ''lanPeerCacheEnabled'' cfg_lan_peer_cache_enabled (\<lambda>b s. s\<lparr>cfg_lan_peer_cache_enabled := b\<rparr>),
     set_bool vals ''scheduledRecheckEnabled'' cfg_scheduled_recheck_enabled (\<lambda>b s. s\<lparr>cfg_scheduled_recheck_enabled := b\<rparr>),
     set_interval_days vals,
     set_bool vals ''clipboardMagnetDetectionEnabled'' cfg_clipboard_magnet_detection_enabled
       (\<lambda>b s. s\<lparr>cfg_clipboard_magnet_detection_enabled := b\<rparr>)]"

text \<open>After the save the scheduler is told, at the hour it reads.\<close>

definition automation_save :: "settings_env \<Rightarrow> (json \<Rightarrow> string) \<Rightarrow> int \<Rightarrow> page_values \<Rightarrow> scheduler \<times> live \<Rightarrow> (scheduler \<times> live) \<times> bool" where
  "automation_save env str hour vals x =
     (let ((sess, disk), ok) = save_page env (automation_assignments str vals) (\<lambda>s. s) (snd x)
      in if ok then (let (sc, sess') = settings_changed hour (fst x, sess) in ((sc, sess', disk), True))
         else ((fst x, sess, disk), False))"

section \<open>Security: export and import\<close>

definition security_save :: "settings_env \<Rightarrow> page_values \<Rightarrow> live \<Rightarrow> live \<times> bool" where
  "security_save env vals =
     save_page env [\<lambda>s. Some (s\<lparr>cfg_scan_completed_files_with_defender :=
       (case dget vals ''scanCompletedFilesWithDefender'' of None \<Rightarrow> False | Some j \<Rightarrow> json_truthy j)\<rparr>)] (\<lambda>s. s)"

text \<open>\<open>redact_settings_dict\<close>\<close>

definition redact_settings_dict :: "(string \<times> json) list \<Rightarrow> (string \<times> json) list" where
  "redact_settings_dict data =
     (let d = (case dget data ''proxy'' of
                 Some (JObj p) \<Rightarrow> if dhas p ''password'' then dset ''proxy'' (JObj (dset ''password'' (JStr []) p)) data else data
               | _ \<Rightarrow> data)
      in if dhas d ''remote_access_token'' then dset ''remote_access_token'' (JStr []) d else d)"

text \<open>The document \<open>exportConfig\<close> writes.\<close>

definition export_config :: "settings \<Rightarrow> json" where
  "export_config s = JObj (redact_settings_dict (asdict SETTINGS_FIELDS s))"

fun is_object :: "json \<Rightarrow> bool" where
  "is_object (JObj _) = True"
| "is_object _ = False"

definition is_valid_settings_payload :: "json \<Rightarrow> bool" where
  "is_valid_settings_payload j =
     (case j of
        JObj data \<Rightarrow>
          is_object (dget_or data ''proxy'' (JObj [])) \<and> is_object (dget_or data ''bandwidth_schedule'' (JObj []))
          \<and> (case dget_or data ''rss_feeds'' (JArr []) of
               JArr js \<Rightarrow> list_all is_object js | JStr s \<Rightarrow> s = [] | JObj kvs \<Rightarrow> kvs = [] | _ \<Rightarrow> False)
      | _ \<Rightarrow> False)"

definition MAX_CONFIG_BACKUPS :: nat where "MAX_CONFIG_BACKUPS = 5"

text \<open>\<open>_backup_current_config\<close> over the backups by name, sorted; \<open>write_ok\<close>: the copy can be written.
  (A configuration that is no object makes the redaction raise; the program never writes one.)\<close>

definition backup_current_config :: "string \<Rightarrow> bool \<Rightarrow> disk_file \<Rightarrow> (string \<times> json) list \<Rightarrow> (string \<times> json) list" where
  "backup_current_config stamp write_ok config backups =
     (case config of
        Doc (JObj d) \<Rightarrow>
          if write_ok
          then let all = sort_key fst (dset (''config-'' @ stamp @ ''.json'') (JObj (redact_settings_dict d)) backups)
               in drop (length all - MAX_CONFIG_BACKUPS) all
          else backups
      | _ \<Rightarrow> backups)"

datatype import_result = Imported | Invalid_Json | Unreadable_File | Not_A_Config | Not_Written

text \<open>\<open>importConfig\<close> of what the chosen file holds.\<close>

definition import_config :: "string \<Rightarrow> bool \<Rightarrow> bool \<Rightarrow> disk_file \<Rightarrow> config_disk \<times> (string \<times> json) list
    \<Rightarrow> import_result \<times> config_disk \<times> (string \<times> json) list" where
  "import_config stamp backup_ok write_ok chosen x =
     (let (disk, backups) = x
      in case chosen of
           Garbage \<Rightarrow> (Invalid_Json, disk, backups)
         | Unreadable \<Rightarrow> (Unreadable_File, disk, backups)
         | Missing \<Rightarrow> (Unreadable_File, disk, backups)
         | Doc j \<Rightarrow>
             if \<not> is_valid_settings_payload j then (Not_A_Config, disk, backups)
             else let backups' = backup_current_config stamp backup_ok (cd_config disk) backups;
                      disk1 = disk\<lparr>cd_last := None\<rparr>
                  in if write_ok then (Imported, disk1\<lparr>cd_config := Doc j\<rparr>, backups') else (Not_Written, disk1, backups'))"

section \<open>Facts\<close>

definition without_secrets :: "settings \<Rightarrow> settings" where
  "without_secrets s = s\<lparr>cfg_proxy := (cfg_proxy s)\<lparr>px_password := []\<rparr>, cfg_remote_access_token := []\<rparr>"

lemma dset_asdict_proxy: "dset ''password'' (JStr t) (asdict PROXY_FIELDS p) = asdict PROXY_FIELDS (p\<lparr>px_password := t\<rparr>)"
  by (simp add: asdict_def PROXY_FIELDS_def obj_field_def)

lemma export_is_saved_form:
  "redact_settings_dict (asdict SETTINGS_FIELDS s) = asdict SETTINGS_FIELDS (without_secrets s)"
proof -
  have p: "map_of (asdict SETTINGS_FIELDS s) ''proxy'' = Some (JObj (asdict PROXY_FIELDS (cfg_proxy s)))"
    by (simp add: map_of_asdict SETTINGS_FIELDS_def obj_field_def proxy_json_def)
  have d: "dset ''proxy'' (JObj (asdict PROXY_FIELDS q)) (asdict SETTINGS_FIELDS t) = asdict SETTINGS_FIELDS (t\<lparr>cfg_proxy := q\<rparr>)" for q t
    by (simp add: asdict_def SETTINGS_FIELDS_def obj_field_def proxy_json_def)
  have k: "dset ''remote_access_token'' (JStr r) (asdict SETTINGS_FIELDS t) = asdict SETTINGS_FIELDS (t\<lparr>cfg_remote_access_token := r\<rparr>)" for r t
    by (simp add: asdict_def SETTINGS_FIELDS_def obj_field_def)
  have h: "map_of (asdict PROXY_FIELDS (cfg_proxy s)) ''password'' \<noteq> None" "map_of (asdict SETTINGS_FIELDS t) ''remote_access_token'' \<noteq> None" for t
    by (simp_all add: asdict_secret)
  show ?thesis unfolding redact_settings_dict_def p
    using h by (simp only: json.case option.case Let_def if_True dset_asdict_proxy d k simp_thms) (simp add: without_secrets_def h)
qed

lemma protected_without_secrets: "protected_data env (without_secrets s) = Some (asdict SETTINGS_FIELDS (without_secrets s))"
proof -
  have "protected_data env (without_secrets s) = Some (redact_settings_dict (asdict SETTINGS_FIELDS (without_secrets s)))"
    by (simp add: protected_data_def protect_def without_secrets_def redact_settings_dict_def map_of_asdict
        SETTINGS_FIELDS_def PROXY_FIELDS_def obj_field_def proxy_json_def asdict_secret)
  then show ?thesis by (simp add: export_is_saved_form) (simp add: without_secrets_def)
qed

lemma settings_of_data_crypt: "settings_of_data (env\<lparr>env_crypt := c\<rparr>) d = settings_of_data env d"
proof -
  have e: "env_decrypt (env\<lparr>env_crypt := c\<rparr>) = env_decrypt env" "env_download_dir (env\<lparr>env_crypt := c\<rparr>) = env_download_dir env"
    by simp_all
  show ?thesis unfolding settings_of_data_def unprotect_key_def e by (rule refl)
qed

lemma load_exported:
  assumes "cfg_default_download_dir s \<noteq> []"
  shows "settings_of_data env (asdict SETTINGS_FIELDS (without_secrets s)) = Inr (without_secrets s)"
proof -
  let ?env = "env\<lparr>env_crypt := \<lambda>_. None\<rparr>"
  have "settings_of_data ?env (asdict SETTINGS_FIELDS (without_secrets s)) = Inr (without_secrets s)"
  proof (rule load_saved_data [OF _ _ _ protected_without_secrets])
    show "env_decrypt ?env b = Some p" if "env_crypt ?env p = Some b" for p b using that by simp
    show "utf8_ok (px_password (cfg_proxy (without_secrets s)))" "utf8_ok (cfg_remote_access_token (without_secrets s))"
      by (simp_all add: without_secrets_def)
    show "cfg_default_download_dir (without_secrets s) \<noteq> []" using assms by (simp add: without_secrets_def)
  qed
  then show ?thesis by (simp only: settings_of_data_crypt)
qed

lemma export_valid: "is_valid_settings_payload (export_config s)"
proof -
  have m: "map_of (asdict SETTINGS_FIELDS t) ''proxy'' = Some (proxy_json (cfg_proxy t))"
    "map_of (asdict SETTINGS_FIELDS t) ''bandwidth_schedule'' = Some (schedule_json (cfg_bandwidth_schedule t))"
    "map_of (asdict SETTINGS_FIELDS t) ''rss_feeds'' = Some (feeds_json (cfg_rss_feeds t))" for t
    by (simp_all add: map_of_asdict SETTINGS_FIELDS_def obj_field_def)
  show ?thesis
    by (simp add: export_config_def export_is_saved_form is_valid_settings_payload_def m proxy_json_def schedule_json_def
        feeds_json_def list_all_iff)
qed

lemma length_backups: "length backups \<le> MAX_CONFIG_BACKUPS \<Longrightarrow> length (backup_current_config stamp ok config backups) \<le> MAX_CONFIG_BACKUPS"
  by (auto simp: backup_current_config_def Let_def split: disk_file.split json.split)

text \<open>The shape check accepts a value of the wrong type, which the next launch then works with.\<close>

lemma import_accepts_ill_typed:
  "is_valid_settings_payload (JObj [(''max_active_downloads'', JStr s)])
   \<and> settings_of_data env [(''max_active_downloads'', JStr s)] = Inl IllTyped"
  by (simp add: is_valid_settings_payload_def settings_of_data_def unprotect_key_def SETTINGS_FIELDS_def obj_field_def)

section \<open>Properties\<close>

text \<open>C29: an exported configuration names neither secret, every import of it is accepted, and the next
  launch loads every other setting as it was exported; at most five backups of the replaced
  configuration are kept, the newest. But an import is only a file: the first save of the running
  program before that launch replaces it, wholly, by the settings in memory.\<close>

theorem export_import_roundtrip:
  assumes "cfg_default_download_dir s \<noteq> []"
    and "import_config stamp backup_ok True (Doc (export_config s)) (disk, backups) = (res, disk', backups')"
  shows "res = Imported \<and> export_config s = JObj (asdict SETTINGS_FIELDS (without_secrets s))
       \<and> fst (load_settings env disk') = Inr (without_secrets s)
       \<and> (length backups \<le> 5 \<longrightarrow> length backups' \<le> 5)
       \<and> (save_settings env running disk' = (disk'', True) \<longrightarrow>
            (\<exists>data. protected_data env running = Some data \<and> cd_config disk'' = Doc (JObj data)))"
proof -
  have e: "export_config s = JObj (asdict SETTINGS_FIELDS (without_secrets s))"
    by (simp add: export_config_def export_is_saved_form)
  have r: "res = Imported" "cd_config disk' = Doc (export_config s)" "backups' = backup_current_config stamp backup_ok (cd_config disk) backups"
    using assms(2) export_valid [of s] by (auto simp: import_config_def Let_def)
  have "fst (load_settings env disk') = Inr (without_secrets s)"
    by (simp add: load_settings_def r(2) e load_exported [OF assms(1)])
  moreover have "length backups \<le> 5 \<longrightarrow> length backups' \<le> 5"
    using length_backups [of backups stamp backup_ok "cd_config disk"] by (simp add: r(3) MAX_CONFIG_BACKUPS_def)
  moreover have "\<exists>data. protected_data env running = Some data \<and> cd_config disk'' = Doc (JObj data)"
    if "save_settings env running disk' = (disk'', True)"
    using that by (auto simp: save_settings_def Let_def split: option.splits json.splits if_splits)
  ultimately show ?thesis using r(1) e by blast
qed

theorem export_import_roundtrip_witness:
  "\<exists>disk'. import_config ''s'' True True (Doc (export_config demo_settings)) (\<lparr>cd_config = Missing, cd_last = None, cd_history = None\<rparr>, [])
       = (Imported, disk', []) \<and> fst (load_settings demo_env disk') = Inr (without_secrets demo_settings)"
proof -
  let ?d = "\<lparr>cd_config = Missing, cd_last = None, cd_history = None\<rparr>"
  have dir: "cfg_default_download_dir demo_settings \<noteq> []" by (simp add: demo_settings_def)
  have i: "import_config ''s'' True True (Doc (export_config demo_settings)) (?d, []) = (Imported, ?d\<lparr>cd_config := Doc (export_config demo_settings)\<rparr>, [])"
    by (simp add: import_config_def export_valid backup_current_config_def)
  show ?thesis using export_import_roundtrip [OF dir i] i by blast
qed

end
