(* ===== verification/Views.thy ===== *)
theory Views
  imports Pages Config_Pages
begin

text \<open>
  What the pages read: the peer, swarm, piece, file, tracker and speed views of one torrent
  (\<open>ui/web/bridge_peer_list.py\<close>, \<open>bridge_swarm_constellation.py\<close>, \<open>bridge_piece_map.py\<close>,
  \<open>bridge_storage_sunburst.py\<close>, \<open>bridge_tracker_editor.py\<close>, \<open>bridge_file_priority.py\<close>,
  \<open>bridge_speed_graph.py\<close>), the answers of \<open>getSettings\<close> and of the lists of the settings pages, and
  the slots of \<open>ui/web/bridge_downloads.py\<close> and \<open>ui/web/bridge_share.py\<close> that are one call on the session.
\<close>

section \<open>One torrent's peers\<close>

definition peer_entry :: "peer_info \<Rightarrow> (string \<times> json) list" where
  "peer_entry p = [(''ip'', JStr (pe_ip p)), (''client'', JStr (pe_client p)), (''progress'', JFloat (pe_progress p)),
     (''downSpeed'', JInt (pe_down_speed p)), (''upSpeed'', JInt (pe_up_speed p))]"

text \<open>\<open>PeerListBridge.getPeers\<close>; asking also updates the session (\<open>get_peer_info\<close>).\<close>

definition page_get_peers :: "(int \<Rightarrow> string) \<Rightarrow> world \<Rightarrow> string \<Rightarrow> session \<Rightarrow> json list \<times> session" where
  "page_get_peers show_int w ih s =
     (let (peers, s') = get_peer_info show_int w ih s
      in (map (\<lambda>p. JObj (peer_entry p @
                (if cfg_peer_reputation_enabled (ss_settings s)
                 then [(''reputation'', JStr (get_peer_reputation_score s' (pe_ip p)))] else []))) peers, s'))"

definition reputation_scores :: "session \<Rightarrow> string list \<Rightarrow> (string, string) dict" where
  "reputation_scores s ips =
     (if \<not> cfg_peer_reputation_enabled (ss_settings s) then []
      else foldl (\<lambda>d ip. dset ip (get_peer_reputation_score s ip) d) [] ips)"

definition swarm_peers :: "(int \<Rightarrow> string) \<Rightarrow> world \<Rightarrow> string \<Rightarrow> session \<Rightarrow> json list \<times> session" where
  "swarm_peers show_int w ih s =
     (let (peers, s') = get_peer_info show_int w ih s in (map (\<lambda>p. JObj (peer_entry p)) peers, s'))"

section \<open>Pieces, files, trackers, speed\<close>

text \<open>\<open>bytes(...).translate(_DIGITS)\<close> of a list of digits.\<close>

definition digit_char :: "int \<Rightarrow> char" where
  "digit_char n = char_of (48 + nat n)"

record piece_map =
  pm_num_pieces :: int
  pm_have :: string
  pm_availability :: string

definition page_piece_map :: "world \<Rightarrow> session \<Rightarrow> string \<Rightarrow> piece_map" where
  "page_piece_map w s ih =
     (let (n, have, availability) = get_piece_availability w s ih
      in \<lparr>pm_num_pieces = n, pm_have = map (\<lambda>b. digit_char (if b then 1 else 0)) have,
          pm_availability = map (\<lambda>k. digit_char (min k 9)) availability\<rparr>)"

definition page_file_breakdown :: "world \<Rightarrow> string \<Rightarrow> session \<Rightarrow> (int \<times> string \<times> int \<times> int) list \<times> session" where
  "page_file_breakdown w ih s = get_file_progress w ih s"

definition page_file_progress :: "world \<Rightarrow> string \<Rightarrow> session \<Rightarrow> int list \<times> session" where
  "page_file_progress w ih s = get_file_downloaded w ih s"

definition page_trackers :: "world \<Rightarrow> session \<Rightarrow> string \<Rightarrow> json list" where
  "page_trackers w s ih =
     map (\<lambda>t. JObj [(''url'', JStr (tk_url t)), (''tier'', JInt (tk_tier t)), (''lastError'', JStr (tk_last_error t))])
       (get_trackers w s ih)"

text \<open>\<open>add_tracker\<close>'s own default tier is 0.\<close>

definition page_add_tracker :: "world \<Rightarrow> string \<Rightarrow> string \<Rightarrow> session \<Rightarrow> session \<times> bool" where
  "page_add_tracker w ih url = add_tracker w ih url 0"

definition page_remove_tracker :: "world \<Rightarrow> string \<Rightarrow> string \<Rightarrow> session \<Rightarrow> session \<times> bool" where
  "page_remove_tracker w ih url = remove_tracker w ih url"

definition page_files :: "world \<Rightarrow> session \<Rightarrow> string \<Rightarrow> json list" where
  "page_files w s ih =
     map (\<lambda>e. JObj [(''index'', JInt (fe_index e)), (''path'', JStr (fe_path e)), (''size'', JInt (fe_size e))])
       (get_torrent_files w s ih)"

text \<open>\<open>saveFilePriorities\<close>; \<open>None\<close> when an \<open>int(...)\<close> raises.\<close>

definition page_save_priorities :: "world \<Rightarrow> string \<Rightarrow> json list \<Rightarrow> session \<Rightarrow> (session \<times> bool) option" where
  "page_save_priorities w ih excluded s =
     (if list_all (\<lambda>j. json_int j \<noteq> None) excluded
      then Some (set_file_priorities w ih (set (map (\<lambda>j. the (json_int j)) excluded)) s) else None)"

definition page_speed_history :: "session \<Rightarrow> string \<Rightarrow> json list" where
  "page_speed_history s ih = map (\<lambda>(down, up). JArr [JInt down, JInt up]) (get_speed_history s ih)"

section \<open>The slots of the torrent pages\<close>

text \<open>A click on the downloads page. The flag is False when the call raises.\<close>

datatype page_call =
    Pause_Torrent string
  | Resume_Torrent string
  | Remove_Torrent string bool
  | Recheck_Torrent string
  | Lock_Torrent string
  | Unlock_Torrent string
  | Pin_Torrent string
  | Unpin_Torrent string
  | Set_Deadline string rat
  | Move_Storage string string
  | Set_Category string string
  | Queue_Up string
  | Queue_Down string
  | Set_Sequential string bool

fun downloads_slot :: "world \<Rightarrow> page_call \<Rightarrow> session \<Rightarrow> session \<times> bool" where
  "downloads_slot w (Pause_Torrent ih) s = (pause_torrent w ih s, True)"
| "downloads_slot w (Resume_Torrent ih) s = (resume_torrent w ih s, True)"
| "downloads_slot w (Remove_Torrent ih delete_files) s = remove_torrent w ih delete_files s"
| "downloads_slot w (Recheck_Torrent ih) s = recheck_torrent w ih s"
| "downloads_slot w (Lock_Torrent ih) s = (lock_torrent w ih s, True)"
| "downloads_slot w (Unlock_Torrent ih) s = (unlock_torrent w ih s, True)"
| "downloads_slot w (Pin_Torrent ih) s = (pin_torrent ih s, True)"
| "downloads_slot w (Unpin_Torrent ih) s = (unpin_torrent ih s, True)"
| "downloads_slot w (Set_Deadline ih t) s = (page_set_deadline ih t s, True)"
| "downloads_slot w (Move_Storage ih p) s = page_move_storage w ih p s"
| "downloads_slot w (Set_Category ih c) s = (page_set_category ih c s, True)"
| "downloads_slot w (Queue_Up ih) s = move_queue_up w ih s"
| "downloads_slot w (Queue_Down ih) s = move_queue_down w ih s"
| "downloads_slot w (Set_Sequential ih enabled) s = set_sequential_download w ih enabled s"

text \<open>The share page has five of them.\<close>

fun on_share_page :: "page_call \<Rightarrow> bool" where
  "on_share_page (Pause_Torrent _) = True"
| "on_share_page (Resume_Torrent _) = True"
| "on_share_page (Remove_Torrent _ _) = True"
| "on_share_page (Recheck_Torrent _) = True"
| "on_share_page (Move_Storage _ _) = True"
| "on_share_page _ = False"

definition share_slot :: "world \<Rightarrow> page_call \<Rightarrow> session \<Rightarrow> session \<times> bool" where
  "share_slot w call s = (if on_share_page call then downloads_slot w call s else (s, True))"

text \<open>The slots over the tag service, which the page may have been built without.\<close>

definition page_get_tags :: "tags option \<Rightarrow> string \<Rightarrow> string list" where
  "page_get_tags t ih = (case t of Some t \<Rightarrow> get_tags t ih | None \<Rightarrow> [])"

definition page_add_tag :: "string \<Rightarrow> string \<Rightarrow> tags option \<Rightarrow> tags option" where
  "page_add_tag ih tag t = map_option (add_tag ih tag) t"

definition page_remove_tag :: "string \<Rightarrow> string \<Rightarrow> tags option \<Rightarrow> tags option" where
  "page_remove_tag ih tag t = map_option (remove_tag ih tag) t"

definition page_all_tags :: "tags option \<Rightarrow> string list" where
  "page_all_tags t = (case t of Some t \<Rightarrow> all_tags t | None \<Rightarrow> [])"

definition page_magnet_uri :: "world \<Rightarrow> session \<Rightarrow> string \<Rightarrow> string" where
  "page_magnet_uri w s ih = opt_or (get_magnet_uri w s ih) []"

section \<open>The add page's reads\<close>

definition add_set_threshold :: "int \<Rightarrow> add_page \<Rightarrow> add_page" where
  "add_set_threshold value p = p\<lparr>pg_threshold := value\<rparr>"

definition add_resolve_destination :: "rule_store \<Rightarrow> settings \<Rightarrow> string \<Rightarrow> string" where
  "add_resolve_destination rules cfg category =
     resolve_destination (list_rules rules) (cfg_default_download_dir cfg) category None"

text \<open>The limits \<open>defaultSharePolicyNote\<close> names; none: the note is empty.\<close>

datatype policy_part = Hours int | Megabytes int | Ratio rat

definition default_share_policy_note :: "settings \<Rightarrow> policy_part list" where
  "default_share_policy_note cfg =
     (if \<not> cfg_default_share_policy_enabled cfg then []
      else (if cfg_default_share_time_limit_hours cfg \<noteq> 0 then [Hours (cfg_default_share_time_limit_hours cfg)] else [])
         @ (if cfg_default_share_data_limit_mb cfg \<noteq> 0 then [Megabytes (cfg_default_share_data_limit_mb cfg)] else [])
         @ (if cfg_default_share_ratio_limit cfg \<noteq> 0 then [Ratio (cfg_default_share_ratio_limit cfg)] else []))"

end
