(* ===== verification/Page_Settings.thy ===== *)
theory Page_Settings
  imports Views
begin

text \<open>
  What the settings pages show (\<open>getSettings\<close> and the lists of \<open>ui/web/bridge_profile_general.py\<close>,
  \<open>bridge_profile_network.py\<close>, \<open>bridge_profile_automation.py\<close>, \<open>bridge_profile_security.py\<close>,
  \<open>bridge_profile_advanced.py\<close>, \<open>bridge_known_disk.py\<close>, \<open>bridge_search.py\<close>, \<open>bridge_rss.py\<close>), and that
  a page saved as it was shown changes nothing.
\<close>

section \<open>What the pages are given\<close>

definition general_get :: "settings \<Rightarrow> page_values" where
  "general_get s =
     [(''defaultDownloadDir'', JStr (cfg_default_download_dir s)),
      (''downloadRateLimitKbps'', JInt (cfg_download_rate_limit_kbps s)),
      (''uploadRateLimitKbps'', JInt (cfg_upload_rate_limit_kbps s)),
      (''maxActiveDownloads'', JInt (cfg_max_active_downloads s)),
      (''dangerAutoExcludeThreshold'', JInt (cfg_danger_auto_exclude_threshold s)),
      (''notificationsEnabled'', JBool (cfg_notifications_enabled s)),
      (''webhookEnabled'', JBool (cfg_webhook_enabled s)),
      (''webhookUrl'', JStr (cfg_webhook_url s)),
      (''launchAtStartup'', JBool (cfg_launch_at_startup s)),
      (''checkForUpdates'', JBool (cfg_check_for_updates s)),
      (''minimizeToTray'', JBool (cfg_minimize_to_tray s)),
      (''theme'', JStr (cfg_theme s)),
      (''appearanceMode'', JStr (cfg_appearance_mode s)),
      (''language'', JStr (cfg_language s)),
      (''audioVolume'', JInt (cfg_audio_volume s))]"

definition network_get :: "settings \<Rightarrow> page_values" where
  "network_get s =
     [(''restrictDiscovery'', JBool (cfg_restrict_discovery s)),
      (''proxyEnabled'', JBool (px_enabled (cfg_proxy s))),
      (''proxyType'', JStr (px_proxy_type (cfg_proxy s))),
      (''proxyHost'', JStr (px_host (cfg_proxy s))),
      (''proxyPort'', JInt (px_port (cfg_proxy s))),
      (''proxyUsername'', JStr (px_username (cfg_proxy s))),
      (''proxyPassword'', JStr (px_password (cfg_proxy s))),
      (''forceProxy'', JBool (px_force_proxy (cfg_proxy s))),
      (''networkInterface'', JStr (cfg_network_interface s)),
      (''encryptionMode'', JStr (cfg_encryption_mode s)),
      (''ipBlocklistEnabled'', JBool (cfg_ip_blocklist_enabled s)),
      (''ipBlocklistPath'', JStr (cfg_ip_blocklist_path s))]"

definition automation_get :: "settings \<Rightarrow> page_values" where
  "automation_get s =
     [(''scheduleEnabled'', JBool (bs_enabled (cfg_bandwidth_schedule s))),
      (''scheduleStartHour'', JInt (bs_start_hour (cfg_bandwidth_schedule s))),
      (''scheduleEndHour'', JInt (bs_end_hour (cfg_bandwidth_schedule s))),
      (''scheduleDownloadKbps'', JInt (bs_limited_download_kbps (cfg_bandwidth_schedule s))),
      (''scheduleUploadKbps'', JInt (bs_limited_upload_kbps (cfg_bandwidth_schedule s))),
      (''watchFolderEnabled'', JBool (cfg_watch_folder_enabled s)),
      (''watchFolderPath'', JStr (cfg_watch_folder_path s)),
      (''diskSpaceEnabled'', JBool (cfg_disk_space_warning_enabled s)),
      (''diskSpaceThresholdMb'', JInt (cfg_disk_space_warning_threshold_mb s)),
      (''shutdownEnabled'', JBool (cfg_auto_shutdown_enabled s)),
      (''shutdownAction'', JStr (cfg_auto_shutdown_action s)),
      (''shutdownDelaySeconds'', JInt (cfg_auto_shutdown_delay_seconds s)),
      (''batteryPauseEnabled'', JBool (cfg_pause_on_battery_enabled s)),
      (''provenanceManifestEnabled'', JBool (cfg_provenance_manifest_enabled s)),
      (''memoryGovernorEnabled'', JBool (cfg_memory_governor_enabled s)),
      (''memoryGovernorThresholdPercent'', JInt (cfg_memory_governor_threshold_percent s)),
      (''idleBandwidthReductionEnabled'', JBool (cfg_idle_bandwidth_reduction_enabled s)),
      (''idleBandwidthReductionMinutes'', JInt (cfg_idle_bandwidth_reduction_minutes s)),
      (''knownDiskEnabled'', JBool (cfg_known_disk_automation_enabled s)),
      (''peerReputationEnabled'', JBool (cfg_peer_reputation_enabled s)),
      (''lanPeerCacheEnabled'', JBool (cfg_lan_peer_cache_enabled s)),
      (''scheduledRecheckEnabled'', JBool (cfg_scheduled_recheck_enabled s)),
      (''scheduledRecheckIntervalDays'', JInt (cfg_scheduled_recheck_interval_days s)),
      (''clipboardMagnetDetectionEnabled'', JBool (cfg_clipboard_magnet_detection_enabled s))]"

definition security_get :: "settings \<Rightarrow> page_values" where
  "security_get s = [(''scanCompletedFilesWithDefender'', JBool (cfg_scan_completed_files_with_defender s))]"

definition security_snapshot :: "settings \<Rightarrow> session \<Rightarrow> page_values" where
  "security_snapshot s sess =
     (let (scanned, flagged) = risk_report_summary sess
      in [(''proxyEnabled'', JBool (px_enabled (cfg_proxy s))), (''discoveryRestricted'', JBool (cfg_restrict_discovery s)),
          (''encryptionMode'', JStr (cfg_encryption_mode s)), (''scannedCount'', JInt (int scanned)),
          (''flaggedCount'', JInt (int flagged))])"

definition remote_access_info :: "(int \<Rightarrow> string) \<Rightarrow> settings \<Rightarrow> page_values" where
  "remote_access_info show_int s =
     [(''enabled'', JBool (cfg_remote_access_enabled s)), (''port'', JInt (cfg_remote_access_port s)),
      (''url'', JStr (''http://localhost:'' @ show_int (cfg_remote_access_port s))), (''token'', JStr (cfg_remote_access_token s))]"

text \<open>\<open>getDecisionJournal\<close>, over the entries read.\<close>

fun journal_row :: "json \<Rightarrow> json" where
  "journal_row (JObj e) = JObj [(''timestamp'', dget_or e ''timestamp'' (JStr [])), (''text'', dget_or e ''text'' (JStr []))]"
| "journal_row _ = JNull"

definition page_journal :: "(string \<Rightarrow> json option) \<Rightarrow> bool \<Rightarrow> jsonl \<Rightarrow> json list" where
  "page_journal loads readable f = map journal_row (read_recent_entries loads readable 100 f)"

definition rule_row :: "routing_rule \<Rightarrow> page_values" where
  "rule_row r = [(''name'', JStr (rr_name r)), (''pattern'', JStr (rr_pattern r)), (''matchField'', JStr (rr_match_field r)),
     (''destination'', JStr (rr_destination r)), (''postCompleteAction'', JStr (rr_action r)),
     (''postCompleteMoveTo'', JStr (rr_move_to r))]"

definition profile_row :: "settings_profile \<Rightarrow> page_values" where
  "profile_row p = [(''name'', JStr (sp_name p)), (''proxyEnabled'', JBool (sp_proxy_enabled p)),
     (''proxyForce'', JBool (sp_proxy_force p)), (''encryptionMode'', JStr (sp_encryption_mode p)),
     (''notificationsEnabled'', JBool (sp_notifications_enabled p)),
     (''downloadRateLimitKbps'', JInt (sp_download_rate_limit_kbps p)),
     (''uploadRateLimitKbps'', JInt (sp_upload_rate_limit_kbps p)), (''restrictDiscovery'', JBool (sp_restrict_discovery p))]"

definition association_row :: "association \<Rightarrow> page_values" where
  "association_row a = [(''ssid'', JStr (na_ssid a)), (''profileName'', JStr (na_profile_name a))]"

definition page_list_rules :: "rule_store \<Rightarrow> page_values list" where
  "page_list_rules st = map rule_row (list_rules st)"

definition page_list_profiles :: "profile_store \<Rightarrow> page_values list" where
  "page_list_profiles st = map profile_row (st_entries st)"

definition page_list_associations :: "association_store \<Rightarrow> page_values list" where
  "page_list_associations st = map association_row (st_entries st)"

definition page_save_profile :: "string \<Rightarrow> settings \<Rightarrow> profile_store \<Rightarrow> profile_store" where
  "page_save_profile n cfg st = save_from_settings n cfg st"

definition network_switch_get :: "settings \<Rightarrow> page_values" where
  "network_switch_get s = [(''enabled'', JBool (cfg_network_profile_auto_switch_enabled s))]"

section \<open>Saving what was shown\<close>

lemma clamp_id: "lo \<le> n \<Longrightarrow> n \<le> hi \<Longrightarrow> clamp lo hi n = n"
  by (simp add: clamp_def)

lemmas assignment_simps = set_bool_def set_int_def set_str_def json_truthy_def json_int_def json_text_def

lemma general_shown:
  assumes "py_strip (cfg_default_download_dir s) = cfg_default_download_dir s" "py_strip (cfg_webhook_url s) = cfg_webhook_url s"
    and "1 \<le> cfg_max_active_downloads s" "cfg_max_active_downloads s \<le> 100"
    and "0 \<le> cfg_danger_auto_exclude_threshold s" "cfg_danger_auto_exclude_threshold s \<le> 100"
  shows "run_assignments (general_assignments str (general_get s)) s = (s, True)"
  using assms by (simp add: general_assignments_def general_get_def assignment_simps clamp_id)

lemma network_shown:
  assumes "py_strip (px_host (cfg_proxy s)) = px_host (cfg_proxy s)" "0 \<le> px_port (cfg_proxy s)" "px_port (cfg_proxy s) \<le> 65535"
    and "py_strip (cfg_network_interface s) = cfg_network_interface s" "py_strip (cfg_ip_blocklist_path s) = cfg_ip_blocklist_path s"
  shows "run_assignments (network_assignments str (network_get s)) s = (s, True)"
  using assms by (simp add: network_assignments_def network_get_def assignment_simps clamp_id)

lemma automation_shown:
  assumes "py_strip (cfg_watch_folder_path s) = cfg_watch_folder_path s" "1 \<le> cfg_scheduled_recheck_interval_days s"
  shows "run_assignments (automation_assignments str (automation_get s)) s = (s, True)"
  using assms by (simp add: automation_assignments_def automation_get_def set_interval_days_def assignment_simps)

lemma change_settings_id: "change_settings (\<lambda>_. ss_settings (fst x)) x = x"
  by (simp add: change_settings_def)

lemma save_page_shown:
  "run_assignments asgs (ss_settings (fst x)) = (ss_settings (fst x), True) \<Longrightarrow> save_page env asgs rest x = save_then env rest x"
  by (simp add: save_page_def change_settings_id)

lemma save_then_settings:
  "ss_settings (fst (fst (save_then env rest x))) =
     (if snd (save_then env rest x) then ss_settings (rest (fst x)) else ss_settings (fst x))"
  by (simp add: save_then_def Let_def split: prod.split)

text \<open>A number the page cannot have meant stops a save halfway: nothing is written, but the fields
  before it are in force, and the next save of anything writes them.\<close>

lemma failed_save_half_applied:
  assumes "dget vals ''downloadRateLimitKbps'' = Some (JInt n)" and "dget vals ''uploadRateLimitKbps'' = Some j" and "json_int j = None"
  shows "\<not> snd (fst (general_save env str vals x))
       \<and> snd (fst (fst (general_save env str vals x))) = snd x
       \<and> cfg_download_rate_limit_kbps (ss_settings (fst (fst (fst (general_save env str vals x))))) = n"
proof -
  have n: "json_int (JInt n) = Some n" by (simp add: json_int_def)
  obtain s where s: "run_assignments (general_assignments str vals) (ss_settings (fst x)) = (s, False)"
    "cfg_download_rate_limit_kbps s = n"
    using assms by (simp add: general_assignments_def set_int_def set_str_def n)
  show ?thesis unfolding general_save_def save_page_def s by (simp add: change_settings_def s)
qed

section \<open>Properties\<close>

text \<open>A settings page saved exactly as it was shown changes no setting and not the registry: what is
  in force is what was in force, and the file is the one saving it again would write.\<close>

theorem page_saved_as_shown:
  assumes "s = ss_settings (fst x)"
    and "py_strip (cfg_default_download_dir s) = cfg_default_download_dir s" "py_strip (cfg_webhook_url s) = cfg_webhook_url s"
    and "cfg_max_active_downloads s \<in> {1..100}" "cfg_danger_auto_exclude_threshold s \<in> {0..100}"
    and "py_strip (px_host (cfg_proxy s)) = px_host (cfg_proxy s)" "px_port (cfg_proxy s) \<in> {0..65535}"
    and "py_strip (cfg_network_interface s) = cfg_network_interface s" "py_strip (cfg_ip_blocklist_path s) = cfg_ip_blocklist_path s"
    and "py_strip (cfg_watch_folder_path s) = cfg_watch_folder_path s" "1 \<le> cfg_scheduled_recheck_interval_days s"
  shows "general_save env str (general_get s) x = (save_then env (\<lambda>sess. sess) x, None)
       \<and> ss_settings (fst (fst (network_save env c str (network_get s) x))) = s
       \<and> snd (fst (network_save env c str (network_get s) x)) = fst (save_settings env s (snd x))
       \<and> fst (snd (fst (automation_save env str hour (automation_get s) (sc, x)))) =
           (if snd (save_settings env s (snd x)) then snd (settings_changed hour (sc, fst x)) else fst x)"
proof -
  have g: "run_assignments (general_assignments str (general_get s)) (ss_settings (fst x)) = (ss_settings (fst x), True)"
    using general_shown assms by simp
  have n: "run_assignments (network_assignments str (network_get s)) (ss_settings (fst x)) = (ss_settings (fst x), True)"
    using network_shown assms by simp
  have a: "run_assignments (automation_assignments str (automation_get s)) (ss_settings (fst x)) = (ss_settings (fst x), True)"
    using automation_shown assms by simp
  have live: "ss_settings (set_encryption_mode c m (set_proxy c cfg (set_restrict_discovery b sess))) = ss_settings sess" for m cfg b sess
    by (simp add: set_encryption_mode_def set_proxy_def set_restrict_discovery_def cmd_def)
  have "general_save env str (general_get s) x = (save_then env (\<lambda>sess. sess) x, None)"
    unfolding general_save_def g save_page_shown [OF g] by simp
  moreover have "ss_settings (fst (fst (network_save env c str (network_get s) x))) = s"
    unfolding network_save_def save_page_shown [OF n] save_then_settings by (simp add: live Let_def assms(1))
  moreover have "snd (fst (network_save env c str (network_get s) x)) = fst (save_settings env s (snd x))"
    unfolding network_save_def save_page_shown [OF n] by (simp add: save_then_def assms(1) split: prod.split)
  moreover have "fst (snd (fst (automation_save env str hour (automation_get s) (sc, x)))) =
           (if snd (save_settings env s (snd x)) then snd (settings_changed hour (sc, fst x)) else fst x)"
    unfolding automation_save_def snd_conv save_page_shown [OF a] by (simp add: save_then_def assms(1) split: prod.split)
  ultimately show ?thesis by blast
qed

theorem page_saved_as_shown_witness:
  "let x = (demo_running, \<lparr>cd_config = Missing, cd_last = None, cd_history = None\<rparr>)
   in general_save demo_env (\<lambda>_. []) (general_get demo_settings) x = (save_then demo_env (\<lambda>sess. sess) x, None)"
proof -
  let ?x = "(demo_running, \<lparr>cd_config = Missing, cd_last = None, cd_history = None\<rparr>)"
  have s: "demo_settings = ss_settings (fst ?x)" by (simp add: demo_running_def session_fields_def)
  have "general_save demo_env (\<lambda>_. []) (general_get demo_settings) ?x = (save_then demo_env (\<lambda>sess. sess) ?x, None)"
    by (rule page_saved_as_shown [OF s, THEN conjunct1])
      (simp_all add: demo_settings_def DEFAULT_SETTINGS_def DEFAULT_PROXY_def py_strip_def is_space_def)
  then show ?thesis unfolding Let_def .
qed

end
