(* ===== verification/History_Page.thy ===== *)
theory History_Page
  imports Stats
begin

text \<open>
  \<open>ui/web/bridge_profile_stats.py\<close>: the statistics and history the profile page shows, and the export
  of the history as CSV. \<open>csv.writer\<close> with its default dialect (comma, double quote, \<open>\r\n\<close>, minimal
  quoting) is modelled; \<open>csv_read\<close> is the reader the export is meant for, written as RFC 4180 has it.
\<close>

section \<open>The page\<close>

definition snapshot_to_dict :: "stats_snapshot \<Rightarrow> (string \<times> json) list" where
  "snapshot_to_dict snap =
     [(''totalDownloaded'', JInt (sp_total_downloaded snap)), (''totalUploaded'', JInt (sp_total_uploaded snap)),
      (''level'', JInt (sp_level snap)), (''progressToNext'', JFloat (sp_progress_to_next snap)),
      (''currentThreshold'', JInt (sp_current_threshold snap)), (''nextThreshold'', JInt (sp_next_threshold snap))]"

definition entry_to_dict :: "history_entry \<Rightarrow> (string \<times> json) list" where
  "entry_to_dict e =
     [(''infoHash'', JStr (he_info_hash e)), (''name'', JStr (he_name e)), (''totalSize'', JInt (he_total_size e)),
      (''totalDownloaded'', JInt (he_total_downloaded e)), (''totalUploaded'', JInt (he_total_uploaded e)),
      (''finishedAt'', JStr (he_finished_at e)), (''event'', JStr (he_event e))]"

definition page_history_entries :: "history_service \<Rightarrow> (string \<times> json) list list" where
  "page_history_entries s = map entry_to_dict (all_entries 200 (hy_rows s))"

text \<open>\<open>clearHistory\<close>; the flag: the page is told to refresh.\<close>

definition page_clear_history :: "history_service \<Rightarrow> history_service \<times> bool" where
  "page_clear_history s = history_clear s"

section \<open>Decimal numbers\<close>

text \<open>\<open>str(n)\<close> of an \<open>int\<close>.\<close>

definition dec_digit :: "nat \<Rightarrow> char" where "dec_digit n = char_of (48 + n)"

fun show_nat :: "nat \<Rightarrow> string" where
  "show_nat n = (if n < 10 then [dec_digit n] else show_nat (n div 10) @ [dec_digit (n mod 10)])"

declare show_nat.simps [simp del]

definition show_dec :: "int \<Rightarrow> string" where
  "show_dec n = (if n < 0 then CHR ''-'' # show_nat (nat (- n)) else show_nat (nat n))"

text \<open>What reads it back.\<close>

definition dec_value :: "string \<Rightarrow> nat" where
  "dec_value s = foldl (\<lambda>n c. 10 * n + (of_char c - 48)) 0 s"

fun read_dec :: "string \<Rightarrow> int" where
  "read_dec (c # s) = (if c = CHR ''-'' then - int (dec_value s) else int (dec_value (c # s)))"
| "read_dec [] = 0"

section \<open>The CSV writer\<close>

definition CR :: char where "CR = CHR 0x0D"
definition LF :: char where "LF = CHR 0x0A"
definition QUOTE :: char where "QUOTE = CHR 0x22"

definition csv_special :: "char \<Rightarrow> bool" where
  "csv_special c \<longleftrightarrow> c \<in> {CHR '','', QUOTE, CR, LF}"

fun double_quotes :: "string \<Rightarrow> string" where
  "double_quotes [] = []"
| "double_quotes (c # s) = (if c = QUOTE then QUOTE # QUOTE # double_quotes s else c # double_quotes s)"

definition csv_field :: "string \<Rightarrow> string" where
  "csv_field s = (if list_ex csv_special s then QUOTE # double_quotes s @ [QUOTE] else s)"

text \<open>\<open>writer.writerow\<close>; a row that is one empty field is quoted.\<close>

definition csv_row :: "string list \<Rightarrow> string" where
  "csv_row fs = (if fs = [[]] then [QUOTE, QUOTE] else join_on CHR '','' (map csv_field fs)) @ [CR, LF]"

definition HISTORY_CSV_COLUMNS :: "string list" where
  "HISTORY_CSV_COLUMNS = [''info_hash'', ''name'', ''total_size'', ''total_downloaded'', ''total_uploaded'', ''finished_at'', ''event'']"

definition csv_entry :: "history_entry \<Rightarrow> string list" where
  "csv_entry e = [he_info_hash e, he_name e, show_dec (he_total_size e), show_dec (he_total_downloaded e),
     show_dec (he_total_uploaded e), he_finished_at e, he_event e]"

text \<open>\<open>exportHistoryCsv\<close>: whether it answers \<open>ok\<close>, and the file it leaves, if the path can be opened
  and written (\<open>writable\<close>).\<close>

definition export_history_csv :: "string \<Rightarrow> bool \<Rightarrow> history_service \<Rightarrow> bool \<times> string option" where
  "export_history_csv path writable s =
     (if path = [] then (False, None)
      else if \<not> writable then (False, None)
      else (True, Some (concat (map csv_row (HISTORY_CSV_COLUMNS # map csv_entry (all_entries 200 (hy_rows s)))))))"

section \<open>A reader of CSV\<close>

datatype csv_mode = Field_Start | Unquoted | Quoted | Quote_Seen

text \<open>The field and the row read so far are reversed. A line feed ends the row; a carriage return
  outside quotes is the first half of the line end.\<close>

fun csv_read :: "csv_mode \<Rightarrow> string \<Rightarrow> string list \<Rightarrow> string \<Rightarrow> string list list" where
  "csv_read m f r [] = (if m = Field_Start \<and> r = [] then [] else [rev (rev f # r)])"
| "csv_read Quoted f r (c # cs) = (if c = QUOTE then csv_read Quote_Seen f r cs else csv_read Quoted (c # f) r cs)"
| "csv_read m f r (c # cs) =
     (if c = QUOTE then (if m = Quote_Seen then csv_read Quoted (c # f) r cs
                         else if m = Field_Start then csv_read Quoted f r cs else csv_read Unquoted (c # f) r cs)
      else if c = CHR '','' then csv_read Field_Start [] (rev f # r) cs
      else if c = CR then csv_read Unquoted f r cs
      else if c = LF then rev (rev f # r) # csv_read Field_Start [] [] cs
      else csv_read Unquoted (c # f) r cs)"

definition csv_parse :: "string \<Rightarrow> string list list" where
  "csv_parse s = csv_read Field_Start [] [] s"

section \<open>Reading back what was written\<close>

lemma csv_chars [simp]:
  "CR \<noteq> QUOTE" "LF \<noteq> QUOTE" "CR \<noteq> LF" "LF \<noteq> CR" "CHR '','' \<noteq> QUOTE" "CHR '','' \<noteq> CR" "CHR '','' \<noteq> LF" "CR \<noteq> CHR '',''" "LF \<noteq> CHR '',''"
  by (simp_all add: CR_def LF_def QUOTE_def)

lemma read_quoted: "csv_read Quoted f r (double_quotes s @ QUOTE # rest) = csv_read Quote_Seen (rev s @ f) r rest"
  by (induction s arbitrary: f) simp_all

lemma read_plain:
  assumes "\<not> list_ex csv_special s" and "m = Unquoted \<or> m = Field_Start"
  shows "csv_read m f r (s @ rest) = csv_read (if s = [] then m else Unquoted) (rev s @ f) r rest"
  using assms by (induction s arbitrary: f m) (auto simp: csv_special_def)

text \<open>One field and the character that ends it.\<close>

lemma read_field:
  "csv_read Field_Start [] r (csv_field s @ CHR '','' # rest) = csv_read Field_Start [] (s # r) rest"
  "csv_read Field_Start [] r (csv_field s @ CR # LF # rest) = rev (s # r) # csv_read Field_Start [] [] rest"
  by (simp_all add: csv_field_def read_quoted read_plain)

lemma read_fields:
  "fs \<noteq> [] \<Longrightarrow> csv_read Field_Start [] r (join_on CHR '','' (map csv_field fs) @ CR # LF # rest)
     = (rev r @ fs) # csv_read Field_Start [] [] rest"
proof (induction fs arbitrary: r)
  case (Cons a fs)
  then show ?case by (cases fs) (simp_all add: read_field)
qed simp

lemma csv_roundtrip:
  assumes "[] \<notin> set rows" "[[]] \<notin> set rows"
  shows "csv_parse (concat (map csv_row rows)) = rows"
  unfolding csv_parse_def using assms
proof (induction rows)
  case (Cons row rows)
  then have "row \<noteq> []" "row \<noteq> [[]]" by auto
  then have "csv_row row = join_on CHR '','' (map csv_field row) @ [CR, LF]" by (simp add: csv_row_def)
  then show ?case using Cons read_fields [OF \<open>row \<noteq> []\<close>, of "[]" "concat (map csv_row rows)"] by simp
qed simp

lemma of_dec_digit: "n < 10 \<Longrightarrow> of_char (dec_digit n) = 48 + n"
  by (simp add: dec_digit_def)

lemma dec_value_snoc: "dec_value (s @ [c]) = 10 * dec_value s + (of_char c - 48)"
  by (simp add: dec_value_def)

lemma dec_value_show: "dec_value (show_nat n) = n"
proof (induction n rule: show_nat.induct)
  case (1 n)
  show ?case
  proof (cases "n < 10")
    case True
    then show ?thesis by (simp add: show_nat.simps [of n] dec_value_def of_dec_digit)
  next
    case False
    then show ?thesis using 1 by (simp add: show_nat.simps [of n] dec_value_snoc of_dec_digit)
  qed
qed

lemma hd_show_nat: "\<exists>d s. show_nat n = dec_digit d # s \<and> d < 10"
proof (induction n rule: show_nat.induct)
  case (1 n)
  then show ?case by (cases "n < 10") (auto simp: show_nat.simps [of n])
qed

lemma read_show: "read_dec (show_dec n) = n"
proof (cases "n < 0")
  case True
  then show ?thesis by (simp add: show_dec_def dec_value_show)
next
  case False
  obtain d s where ds: "show_nat (nat n) = dec_digit d # s" "d < 10" using hd_show_nat by blast
  have "of_char (dec_digit d) \<noteq> (of_char CHR ''-'' :: nat)" using of_dec_digit [OF ds(2)] by simp
  then have "dec_digit d \<noteq> CHR ''-''" by metis
  then show ?thesis using False dec_value_show [of "nat n"] by (simp add: show_dec_def ds)
qed

section \<open>Properties\<close>

text \<open>C33: whatever the names of the torrents hold (commas, quotes, line ends), the exported file reads
  back as its heading and one row for each of the last 200 removals, newest first, with every text
  as it was and every byte count exact.\<close>

theorem export_history_readable:
  "\<exists>file. export_history_csv (c # path) True s = (True, Some file)
     \<and> csv_parse file = HISTORY_CSV_COLUMNS # map csv_entry (take 200 (rev (hy_rows s)))
     \<and> map (\<lambda>row. (row ! 0, row ! 1, read_dec (row ! 2), read_dec (row ! 3), read_dec (row ! 4), row ! 5, row ! 6)) (tl (csv_parse file))
       = map (\<lambda>e. (he_info_hash e, he_name e, he_total_size e, he_total_downloaded e, he_total_uploaded e, he_finished_at e, he_event e))
           (take 200 (rev (hy_rows s)))"
proof -
  have "csv_parse (concat (map csv_row (HISTORY_CSV_COLUMNS # map csv_entry (all_entries 200 (hy_rows s)))))
      = HISTORY_CSV_COLUMNS # map csv_entry (all_entries 200 (hy_rows s))"
    by (rule csv_roundtrip) (auto simp: HISTORY_CSV_COLUMNS_def csv_entry_def)
  then show ?thesis
    by (simp add: export_history_csv_def all_entries_def csv_entry_def read_show o_def)
qed

end
