(* ===== verification/Language.thy ===== *)
theory Language
  imports History_Page
begin

text \<open>
  The texts of the program: \<open>i18n/translator.py\<close> with the fallback of every look-up to French and then
  to the key, \<open>str.format\<close> as it uses it, the catalogue \<open>ui/web/bridge_i18n.py\<close> gives the page, and the
  numbers of \<open>utils/formatting.py\<close>. The catalogue files are a function from a language to what reading
  its file gives, \<open>None\<close> for a file that is missing or is not JSON.
\<close>

section \<open>str.format\<close>

text \<open>The result of \<open>text.format(**kwargs)\<close> with text arguments, or the exception it raises.
  \<open>Rich_Field\<close>: a field with an attribute, an index, a conversion or a format (or a number of more
  than 18 digits), which no catalogue has, is outside the model.\<close>

datatype fmt_result = Text string | Key_Error | Index_Error | Value_Error | Rich_Field

definition LBRACE :: char where "LBRACE = CHR 0x7B"
definition RBRACE :: char where "RBRACE = CHR 0x7D"

fun fmt_app :: "string \<Rightarrow> fmt_result \<Rightarrow> fmt_result" where
  "fmt_app s (Text t) = Text (s @ t)"
| "fmt_app s e = e"

definition field_value :: "(string, string) dict \<Rightarrow> string \<Rightarrow> fmt_result" where
  "field_value kwargs name =
     (if list_ex (\<lambda>c. c \<in> {LBRACE, CHR ''['', CHR ''.'', CHR ''!'', CHR '':''}) name then Rich_Field
      else if list_all (\<lambda>c. CHR ''0'' \<le> c \<and> c \<le> CHR ''9'') name
           then (if 18 < length name then Rich_Field else Index_Error)
      else case dget kwargs name of Some v \<Rightarrow> Text v | None \<Rightarrow> Key_Error)"

lemma split1_shorter: "split1 sep s = (t, Some r) \<Longrightarrow> length r < length s"
proof -
  assume a: "split1 sep s = (t, Some r)"
  then have r: "r = tl (dropWhile (\<lambda>c. c \<noteq> sep) s)" and s: "sep \<in> set s"
    by (simp_all add: split1_def split: if_splits)
  show ?thesis
    unfolding r using s length_dropWhile_le [of "\<lambda>c. c \<noteq> sep" s] by (cases "dropWhile (\<lambda>c. c \<noteq> sep) s") auto
qed

function py_format :: "(string, string) dict \<Rightarrow> string \<Rightarrow> fmt_result" where
  "py_format kwargs s =
     (case s of
        [] \<Rightarrow> Text []
      | c # s1 \<Rightarrow>
          if c = RBRACE then
            (case s1 of [] \<Rightarrow> Value_Error
             | d # s2 \<Rightarrow> if d = RBRACE then fmt_app [c] (py_format kwargs s2) else Value_Error)
          else if c = LBRACE then
            (case s1 of [] \<Rightarrow> Value_Error
             | d # s2 \<Rightarrow> if d = LBRACE then fmt_app [c] (py_format kwargs s2)
                        else case split1 RBRACE s1 of
                               (name, None) \<Rightarrow> Value_Error
                             | (name, Some rest) \<Rightarrow>
                                 (case field_value kwargs name of Text v \<Rightarrow> fmt_app v (py_format kwargs rest) | e \<Rightarrow> e))
          else fmt_app [c] (py_format kwargs s1))"
  by pat_completeness auto

termination
  by (relation "measure (length \<circ> snd)") (auto dest!: split1_shorter [OF sym])

declare py_format.simps [simp del]

section \<open>The translator\<close>

definition DEFAULT_LANGUAGE :: string where "DEFAULT_LANGUAGE = ''fr''"

definition VALID_LANGUAGE_CODES :: "string list" where
  "VALID_LANGUAGE_CODES = [''fr'', ''en'', ''es'', ''de'', ''pt'', ''it'', ''zh'', ''ja'', ''ko'', ''pl'', ''ru'']"

type_synonym catalog = "(string, string) dict"

text \<open>The module's \<open>_catalogs\<close> and \<open>_current_language\<close>.\<close>

record translator =
  tl_catalogs :: "(string, catalog) dict"
  tl_language :: string

definition translator_init :: translator where
  "translator_init = \<lparr>tl_catalogs = [], tl_language = DEFAULT_LANGUAGE\<rparr>"

definition catalog_of :: "(string \<Rightarrow> catalog option) \<Rightarrow> string \<Rightarrow> catalog" where
  "catalog_of files code = (case files code of Some c \<Rightarrow> c | None \<Rightarrow> [])"

definition load_catalog :: "(string \<Rightarrow> catalog option) \<Rightarrow> string \<Rightarrow> translator \<Rightarrow> catalog \<times> translator" where
  "load_catalog files code st =
     (case dget (tl_catalogs st) code of
        Some c \<Rightarrow> (c, st)
      | None \<Rightarrow> let c = catalog_of files code in (c, st\<lparr>tl_catalogs := dset code c (tl_catalogs st)\<rparr>))"

definition select_language :: "(string \<Rightarrow> catalog option) \<Rightarrow> string option \<Rightarrow> translator \<Rightarrow> translator" where
  "select_language files code st =
     (let lang = (case code of Some c \<Rightarrow> if c \<in> set VALID_LANGUAGE_CODES then c else DEFAULT_LANGUAGE | None \<Rightarrow> DEFAULT_LANGUAGE)
      in snd (load_catalog files lang (st\<lparr>tl_language := lang\<rparr>)))"

definition dict_update :: "('k, 'v) dict \<Rightarrow> ('k, 'v) dict \<Rightarrow> ('k, 'v) dict" where
  "dict_update d e = foldl (\<lambda>d kv. dset (fst kv) (snd kv) d) d e"

definition effective_catalog :: "(string \<Rightarrow> catalog option) \<Rightarrow> translator \<Rightarrow> catalog \<times> translator" where
  "effective_catalog files st =
     (let (merged, st1) = load_catalog files DEFAULT_LANGUAGE st;
          (current, st2) = load_catalog files (tl_language st1) st1
      in (dict_update merged current, st2))"

text \<open>\<open>KeyError\<close> and \<open>IndexError\<close> are caught and give the text unformatted.\<close>

definition format_text :: "string \<Rightarrow> (string, string) dict \<Rightarrow> fmt_result" where
  "format_text t kwargs =
     (if kwargs = [] then Text t
      else case py_format kwargs t of Key_Error \<Rightarrow> Text t | Index_Error \<Rightarrow> Text t | x \<Rightarrow> x)"

definition tr :: "(string \<Rightarrow> catalog option) \<Rightarrow> string \<Rightarrow> (string, string) dict \<Rightarrow> translator \<Rightarrow> fmt_result \<times> translator" where
  "tr files key kwargs st =
     (let (current, st1) = load_catalog files (tl_language st) st;
          (text, st2) = (if dget current key = None \<and> tl_language st \<noteq> DEFAULT_LANGUAGE
                         then let (french, st2) = load_catalog files DEFAULT_LANGUAGE st1 in (dget french key, st2)
                         else (dget current key, st1))
      in (format_text (opt_or text key) kwargs, st2))"

text \<open>\<open>getCatalog\<close> of the page, and the labels of the modes, which are translated.\<close>

definition page_get_catalog :: "(string \<Rightarrow> catalog option) \<Rightarrow> translator \<Rightarrow> catalog \<times> translator" where
  "page_get_catalog files st = effective_catalog files st"

definition appearance_mode_labels :: "(string \<Rightarrow> catalog option) \<Rightarrow> translator \<Rightarrow> (fmt_result \<times> string) list \<times> translator" where
  "appearance_mode_labels files st =
     (let (light, st1) = tr files ''appearance_mode.light'' [] st;
          (dark, st2) = tr files ''appearance_mode.dark'' [] st1;
          (dark_hc, st3) = tr files ''appearance_mode.dark_hc'' [] st2
      in ([(light, ''light''), (dark, ''dark''), (dark_hc, ''dark_hc'')], st3))"

section \<open>Numbers\<close>

text \<open>\<open>f\"{x:.nf}\"\<close>: the nearest decimal with \<open>n\<close> digits, ties to the even one.\<close>

definition zeros :: "nat \<Rightarrow> string \<Rightarrow> string" where
  "zeros n s = replicate (n - length s) CHR ''0'' @ s"

definition fixed :: "nat \<Rightarrow> rat \<Rightarrow> string" where
  "fixed n x =
     (let m = nat (py_round (\<bar>x\<bar> * 10 ^ n))
      in (if x < 0 then ''-'' else []) @ show_nat (m div 10 ^ n) @ CHR ''.'' # zeros n (show_nat (m mod 10 ^ n)))"

definition int_of_float :: "rat \<Rightarrow> int" where
  "int_of_float x = (if x < 0 then - \<lfloor>- x\<rfloor> else \<lfloor>x\<rfloor>)"

fun human_units :: "string list \<Rightarrow> rat \<Rightarrow> string" where
  "human_units [] v = fixed 2 v @ '' To''"
| "human_units (u # us) v =
     (if v < 1024 \<or> us = []
      then (if u = ''o'' then show_dec (int_of_float v) @ '' '' @ u else fixed 2 v @ '' '' @ u)
      else human_units us (fdiv v 1024))"

definition human_size :: "rat \<Rightarrow> string" where
  "human_size num_bytes = human_units [''o'', ''Ko'', ''Mo'', ''Go'', ''To''] (fl num_bytes)"

definition human_rate :: "rat \<Rightarrow> string" where
  "human_rate bytes_per_sec = human_size bytes_per_sec @ ''/s''"

text \<open>\<open>None\<close> stands for \<open>None\<close> and for infinity; the answer then is an em dash.\<close>

definition human_eta :: "rat option \<Rightarrow> string" where
  "human_eta seconds =
     (case seconds of
        None \<Rightarrow> [CHR 0xE2, CHR 0x80, CHR 0x94]
      | Some x \<Rightarrow>
          if x < 0 then [CHR 0xE2, CHR 0x80, CHR 0x94]
          else let s = nat (int_of_float x); hours = s div 3600; minutes = s mod 3600 div 60; secs = s mod 3600 mod 60
               in if 0 < hours then show_nat hours @ ''h '' @ zeros 2 (show_nat minutes) @ ''m''
                  else if 0 < minutes then show_nat minutes @ ''m '' @ zeros 2 (show_nat secs) @ ''s''
                  else show_nat secs @ ''s'')"

definition human_percent :: "rat \<Rightarrow> string" where
  "human_percent progress = fixed 1 (fmul progress 100) @ ''%''"

section \<open>Facts\<close>

text \<open>What is cached is what is on disk.\<close>

definition translator_ok :: "(string \<Rightarrow> catalog option) \<Rightarrow> translator \<Rightarrow> bool" where
  "translator_ok files st \<longleftrightarrow> (\<forall>code c. dget (tl_catalogs st) code = Some c \<longrightarrow> c = catalog_of files code)"

lemma load_catalog_ok:
  assumes "translator_ok files st"
  shows "fst (load_catalog files code st) = catalog_of files code" "translator_ok files (snd (load_catalog files code st))"
    "tl_language (snd (load_catalog files code st)) = tl_language st"
  using assms by (auto simp: load_catalog_def translator_ok_def Let_def split: option.splits)

lemma dget_dict_update:
  "dict_ok e \<Longrightarrow> dget (dict_update d e) k = (case dget e k of Some v \<Rightarrow> Some v | None \<Rightarrow> dget d k)"
  unfolding dict_update_def
proof (induction e arbitrary: d)
  case (Cons kv e)
  have "k = fst kv \<Longrightarrow> dget e k = None" using Cons.prems dhas_iff_key [of e k] by auto
  then show ?case using Cons by (auto split: option.split)
qed simp

text \<open>What happens to the translator: the language is set, or a text or the catalogue is asked for.\<close>

datatype language_event = Select_Language "string option" | Translate string "(string, string) dict" | Give_Catalog

fun language_step :: "(string \<Rightarrow> catalog option) \<Rightarrow> translator \<Rightarrow> language_event \<Rightarrow> translator" where
  "language_step files st (Select_Language code) = select_language files code st"
| "language_step files st (Translate key kwargs) = snd (tr files key kwargs st)"
| "language_step files st Give_Catalog = snd (page_get_catalog files st)"

lemma tr_effect:
  assumes "translator_ok files st"
  shows "translator_ok files (snd (tr files key kwargs st)) \<and> tl_language (snd (tr files key kwargs st)) = tl_language st
    \<and> fst (tr files key kwargs st) = format_text
         (opt_or (case dget (catalog_of files (tl_language st)) key of
                    Some t \<Rightarrow> Some t | None \<Rightarrow> dget (catalog_of files DEFAULT_LANGUAGE) key) key) kwargs"
proof -
  obtain c st1 where l: "load_catalog files (tl_language st) st = (c, st1)" by (metis prod.exhaust)
  have c: "c = catalog_of files (tl_language st)" "translator_ok files st1" "tl_language st1 = tl_language st"
    using load_catalog_ok [OF assms, of "tl_language st"] by (simp_all add: l)
  obtain f st2 where m: "load_catalog files DEFAULT_LANGUAGE st1 = (f, st2)" by (metis prod.exhaust)
  have f: "f = catalog_of files DEFAULT_LANGUAGE" "translator_ok files st2" "tl_language st2 = tl_language st1"
    using load_catalog_ok [OF c(2), of DEFAULT_LANGUAGE] by (simp_all add: m)
  show ?thesis
  proof (cases "dget c key = None \<and> tl_language st \<noteq> DEFAULT_LANGUAGE")
    case True
    then show ?thesis unfolding tr_def l prod.case Let_def m if_P [OF True] using c f by simp
  next
    case False
    then show ?thesis unfolding tr_def l prod.case Let_def if_not_P [OF False] using c by (cases "dget c key") simp_all
  qed
qed

lemma effective_catalog_effect:
  assumes "translator_ok files st"
  shows "translator_ok files (snd (effective_catalog files st)) \<and> tl_language (snd (effective_catalog files st)) = tl_language st
    \<and> fst (effective_catalog files st) = dict_update (catalog_of files DEFAULT_LANGUAGE) (catalog_of files (tl_language st))"
proof -
  obtain f st1 where l: "load_catalog files DEFAULT_LANGUAGE st = (f, st1)" by (metis prod.exhaust)
  have f: "f = catalog_of files DEFAULT_LANGUAGE" "translator_ok files st1" "tl_language st1 = tl_language st"
    using load_catalog_ok [OF assms, of DEFAULT_LANGUAGE] by (simp_all add: l)
  obtain c st2 where m: "load_catalog files (tl_language st1) st1 = (c, st2)" by (metis prod.exhaust)
  have "c = catalog_of files (tl_language st)" "translator_ok files st2" "tl_language st2 = tl_language st"
    using load_catalog_ok [OF f(2), of "tl_language st1"] unfolding m by (simp_all add: f(3))
  then show ?thesis unfolding effective_catalog_def l prod.case Let_def m f(1) by simp
qed

lemma language_step_ok: "translator_ok files st \<Longrightarrow> translator_ok files (language_step files st e)"
proof (cases e)
  case (Select_Language code)
  assume "translator_ok files st"
  then have "translator_ok files (st\<lparr>tl_language := l\<rparr>)" for l by (simp add: translator_ok_def)
  then show ?thesis by (simp add: Select_Language select_language_def Let_def load_catalog_ok)
qed (use tr_effect effective_catalog_effect in \<open>simp_all add: page_get_catalog_def\<close>)

lemma translator_ok_run: "translator_ok files (foldl (language_step files) translator_init es)"
proof -
  have "translator_ok files st \<Longrightarrow> translator_ok files (foldl (language_step files) st es)" for st
    by (induction es arbitrary: st) (simp_all add: language_step_ok)
  moreover have "translator_ok files translator_init" by (simp add: translator_ok_def translator_init_def)
  ultimately show ?thesis by blast
qed

section \<open>Properties\<close>

text \<open>C40: whatever languages were chosen and whatever was cached on the way, the text the program shows
  for a key is the one the page finds in the catalogue it is given, or the key itself when the page
  finds none: the text of the language, else the French one.\<close>

theorem page_translates_alike:
  assumes "\<And>code c. files code = Some c \<Longrightarrow> dict_ok c"
  shows "let st = foldl (language_step files) translator_init es; catalogue = fst (page_get_catalog files st)
     in fst (tr files key kwargs st) = format_text (opt_or (dget catalogue key) key) kwargs
      \<and> dget catalogue key = (case dget (catalog_of files (tl_language st)) key of
            Some t \<Rightarrow> Some t | None \<Rightarrow> dget (catalog_of files DEFAULT_LANGUAGE) key)"
proof -
  let ?st = "foldl (language_step files) translator_init es"
  have ok: "translator_ok files ?st" by (rule translator_ok_run)
  have "dict_ok (catalog_of files (tl_language ?st))" using assms by (auto simp: catalog_of_def split: option.split)
  then show ?thesis
    using tr_effect [OF ok, of key kwargs] effective_catalog_effect [OF ok]
    by (simp add: Let_def page_get_catalog_def dget_dict_update)
qed

theorem page_translates_alike_witness:
  "let files = (\<lambda>code. if code = ''fr'' then Some [(''quit'', ''Quitter''), (''left'', ''reste {n}'')]
                       else if code = ''en'' then Some [(''quit'', ''Quit'')] else None);
       st = foldl (language_step files) translator_init [Select_Language (Some ''en''), Translate ''quit'' []]
   in fst (tr files ''left'' [(''n'', ''3'')] st) = Text ''reste 3'' \<and> dget (fst (page_get_catalog files st)) ''quit'' = Some ''Quit''"
proof -
  let ?files = "\<lambda>code. if code = ''fr'' then Some [(''quit'', ''Quitter''), (''left'', ''reste {n}'')]
                       else if code = ''en'' then Some [(''quit'', ''Quit'')] else None"
  let ?es = "[Select_Language (Some ''en''), Translate ''quit'' []]"
  let ?st = "foldl (language_step ?files) translator_init ?es"
  have ok: "\<And>code c. ?files code = Some c \<Longrightarrow> dict_ok c" by (auto split: if_splits)
  have lang: "tl_language ?st = ''en''"
    by (simp add: select_language_def tr_def load_catalog_def translator_init_def VALID_LANGUAGE_CODES_def DEFAULT_LANGUAGE_def catalog_of_def Let_def)
  have "format_text ''reste {n}'' [(''n'', ''3'')] = Text ''reste 3''" by code_simp
  then show ?thesis
    using page_translates_alike [of ?files ?es "''left''" "[(''n'', ''3'')]", OF ok]
      page_translates_alike [of ?files ?es "''quit''" "[]", OF ok] lang
    unfolding Let_def by (simp add: DEFAULT_LANGUAGE_def catalog_of_def)
qed

end
