(* ===== verification/Security_Center.thy ===== *)
theory Security_Center
  imports Session_Reach Page_Settings Language
begin

text \<open>
  The overview of \<open>ui/widgets/security_center_section.py\<close>: what each of its labels shows and in which
  colour, and what its count of dangerous torrents can be in a session the program can reach. With
  it the log the security page copies to the clipboard.
\<close>

section \<open>The labels\<close>

text \<open>\<open>None\<close>: no style sheet on the label.\<close>

datatype status_colour = Colour_Good | Colour_Warn | Colour_Bad

type_synonym styled = "fmt_result \<times> status_colour option"

record security_view =
  sv_proxy :: styled
  sv_proxy_note :: fmt_result
  sv_discovery :: styled
  sv_encryption :: styled
  sv_interface :: styled
  sv_risk :: styled

definition ENCRYPTION_LABEL_KEYS :: "(string, string) dict" where
  "ENCRYPTION_LABEL_KEYS =
     [(''forced'', ''encryption_mode.forced''), (''enabled'', ''encryption_mode.enabled''), (''disabled'', ''encryption_mode.disabled'')]"

definition ENCRYPTION_COLORS :: "(string, status_colour) dict" where
  "ENCRYPTION_COLORS = [(''forced'', Colour_Good), (''enabled'', Colour_Warn), (''disabled'', Colour_Bad)]"

text \<open>\<open>text\<close> is \<open>tr\<close> in the language in force.\<close>

definition set_status :: "(string \<Rightarrow> (string, string) dict \<Rightarrow> fmt_result) \<Rightarrow> bool \<Rightarrow> styled" where
  "set_status text active =
     (text (if active then ''security_center.status_active'' else ''security_center.status_inactive'') [],
      Some (if active then Colour_Good else Colour_Bad))"

definition security_refresh :: "(string \<Rightarrow> (string, string) dict \<Rightarrow> fmt_result) \<Rightarrow> settings \<Rightarrow> session \<Rightarrow> security_view" where
  "security_refresh text cfg sess =
     (let proxy = cfg_proxy cfg; (scanned, flagged) = risk_report_summary sess; mode = cfg_encryption_mode cfg
      in \<lparr>sv_proxy = set_status text (px_enabled proxy),
          sv_proxy_note = text (if \<not> px_enabled proxy then ''security_center.proxy_disabled_note''
                                else if px_force_proxy proxy then ''security_center.kill_switch_active_note''
                                else ''security_center.kill_switch_inactive_note'') [],
          sv_discovery = set_status text (cfg_restrict_discovery cfg),
          sv_encryption = (text (opt_or (dget ENCRYPTION_LABEL_KEYS mode) ''encryption_mode.enabled'') [],
                           Some (opt_or (dget ENCRYPTION_COLORS mode) Colour_Warn)),
          sv_interface = (if cfg_network_interface cfg \<noteq> [] then Text (cfg_network_interface cfg)
                          else text ''profile_tab.interface_default'' [], None),
          sv_risk = (if scanned = 0 then (text ''security_center.risk_no_scans'' [], None)
                     else (text ''security_center.risk_summary'' [(''scanned'', show_dec (int scanned)), (''flagged'', show_dec (int flagged))],
                           Some (if 0 < flagged then Colour_Bad else Colour_Good)))\<rparr>)"

section \<open>The log on the clipboard\<close>

text \<open>\<open>copyLogToClipboard\<close>: \<open>file_text\<close> is what reading the log gives (\<open>None\<close>: \<open>OSError\<close>), \<open>put\<close> what the
  clipboard holds after a text was set.\<close>

datatype copy_answer = Copied | Clipboard_Failed | Log_Unreadable

definition copy_log_to_clipboard :: "string option \<Rightarrow> (string \<Rightarrow> string) \<Rightarrow> copy_answer" where
  "copy_log_to_clipboard file_text put =
     (case file_text of None \<Rightarrow> Log_Unreadable
      | Some content \<Rightarrow> if put content \<noteq> content then Clipboard_Failed else Copied)"

section \<open>Properties\<close>

text \<open>In no session the program can reach does a record hold the report of a danger scan, so whatever
  was scanned and whatever was found the security centre says that nothing was scanned, and the page
  counts no torrent as scanned and none as flagged.\<close>

theorem security_center_blind:
  assumes "reachable_session s"
  shows "risk_report_summary s = (0, 0)
       \<and> sv_risk (security_refresh text cfg s) = (text ''security_center.risk_no_scans'' [], None)
       \<and> dget (security_snapshot cfg s) ''scannedCount'' = Some (JInt 0)
       \<and> dget (security_snapshot cfg s) ''flaggedCount'' = Some (JInt 0)"
proof -
  have "\<forall>x\<in>set (ss_records s). record_ok (fst x) (snd x)" by (rule session_okD(6) [OF session_ok_reachable [OF assms]])
  then have none: "filter (\<lambda>r. tr_danger_report r \<noteq> None) (all_records s) = []"
    by (auto simp: filter_empty_conv all_records_def record_ok_def)
  then have "risk_report_summary s = (0, 0)" unfolding risk_report_summary_def none by simp
  then show ?thesis by (simp add: security_refresh_def security_snapshot_def Let_def)
qed

theorem security_center_blind_witness:
  "risk_report_summary (session_init any_consts ''2'' (\<lambda>_. True) [Some resumed_params]
         (session_fields DEFAULT_SETTINGS \<lparr>ct_map = [], ct_file = Missing\<rparr>
            \<lparr>rs_records = [], rs_dirty = False, rs_last_saved_at = 0, rs_file = Missing\<rparr>
            \<lparr>ls_entries = [], ls_last_saved_at = 0, ls_dirty = False, ls_file = Missing\<rparr> [])) = (0, 0)"
  by (rule security_center_blind [OF reachable_session.started, THEN conjunct1])

end
