(* ===== verification/Themes.thy ===== *)
theory Themes
  imports Language
begin

text \<open>
  The native themes of \<open>ui/theme/theme_manager.py\<close>: the style of the title bar for each theme and
  appearance mode, the style sheet and the cursor. Colours are the strings of the source; which
  files exist is a parameter.
\<close>

section \<open>The tables\<close>

definition DEFAULT_THEME :: string where "DEFAULT_THEME = ''luna_xp''"
definition DEFAULT_APPEARANCE_MODE :: string where "DEFAULT_APPEARANCE_MODE = ''light''"

definition THEME_LABELS :: "(string \<times> string) list" where
  "THEME_LABELS =
     [(''Windows XP (Luna)'', ''luna_xp''), (''Windows 7 (Aero)'', ''win7_aero''), (''Windows 10'', ''win10_fluent''),
      (''Windows 11'', ''win11_mica''), (''Windows 95'', ''win95_classic''), (''macOS'', MACOS_THEME_ID), (''CCCP'', CCCP_THEME_ID)]"

definition APPEARANCE_SUFFIX :: "(string, string) dict" where
  "APPEARANCE_SUFFIX = [(''light'', []), (''dark'', ''_dark''), (''dark_hc'', ''_dark_hc'')]"

definition QSS_BASENAMES :: "(string, string) dict" where
  "QSS_BASENAMES =
     [(''luna_xp'', ''luna''), (''win7_aero'', ''win7''), (''win10_fluent'', ''win10''), (''win11_mica'', ''win11''),
      (''win95_classic'', ''win95''), (MACOS_THEME_ID, ''macos''), (CCCP_THEME_ID, ''cccp'')]"

definition CURSOR_HOTSPOTS :: "(string, nat \<times> nat) dict" where
  "CURSOR_HOTSPOTS =
     [(''luna'', (4, 3)), (''win7'', (2, 2)), (''win10'', (1, 1)), (''win11'', (4, 3)), (''win95'', (0, 0)),
      (''macos'', (4, 3)), (''cccp'', (4, 3))]"

record title_bar_style =
  tb_caption_gradient :: "(string \<times> string) option"
  tb_caption_flat_color :: string
  tb_title_text_color :: string
  tb_font_family :: string
  tb_font_bold :: bool
  tb_button_variant :: string
  tb_button_hover_radius :: nat
  tb_window_corner_radius :: nat
  tb_minmax_fill_color :: string
  tb_minmax_hover_color :: string
  tb_close_fill_color :: string
  tb_close_hover_color :: string
  tb_button_glyph_color :: string
  tb_button_hover_glyph_color :: "string option"
  tb_close_glyph :: string

text \<open>The constructor with the defaults of the class.\<close>

definition title_bar ::
  "(string \<times> string) option \<Rightarrow> string \<Rightarrow> string \<Rightarrow> string \<Rightarrow> bool \<Rightarrow> string \<Rightarrow> nat \<Rightarrow> nat \<Rightarrow> title_bar_style" where
  "title_bar gradient flat text_color family bold variant hover corner =
     \<lparr>tb_caption_gradient = gradient, tb_caption_flat_color = flat, tb_title_text_color = text_color, tb_font_family = family,
      tb_font_bold = bold, tb_button_variant = variant, tb_button_hover_radius = hover, tb_window_corner_radius = corner,
      tb_minmax_fill_color = ''#3D6FC9'', tb_minmax_hover_color = ''#5C8CE0'', tb_close_fill_color = ''#D42A2A'',
      tb_close_hover_color = ''#F04A3C'', tb_button_glyph_color = ''#FFFFFF'', tb_button_hover_glyph_color = None,
      tb_close_glyph = ''x''\<rparr>"

definition TITLE_BAR_STYLES :: "(string, title_bar_style) dict" where
  "TITLE_BAR_STYLES =
     [(''luna_xp'', title_bar (Some (''#3169C6'', ''#0A246A'')) ''#0A246A'' ''#FFFFFF'' ''Tahoma'' True ''xp'' 0 0),
      (''win7_aero'', title_bar (Some (''#DBEAFB'', ''#7EB0E8'')) ''#8CB6E8'' ''#000000'' ''Segoe UI'' False ''modern'' 0 6),
      (''win10_fluent'', title_bar None ''#FFFFFF'' ''#000000'' ''Segoe UI'' False ''modern'' 0 0),
      (''win11_mica'', title_bar None ''#F3F3F3'' ''#000000'' ''Segoe UI'' False ''modern'' 4 8),
      (''win95_classic'', (title_bar None ''#000080'' ''#FFFFFF'' ''MS Sans Serif'' True ''xp'' 0 0)
         \<lparr>tb_minmax_fill_color := ''#C0C0C0'', tb_minmax_hover_color := ''#D4D0C8'', tb_close_fill_color := ''#C0C0C0'',
          tb_close_hover_color := ''#D4D0C8'', tb_button_glyph_color := ''#000000''\<rparr>),
      (MACOS_THEME_ID, title_bar None ''#ECECEC'' ''#1D1D1F'' ''Segoe UI'' False ''mac'' 0 10),
      (CCCP_THEME_ID, (title_bar None ''#7A0C0C'' ''#F2E4C4'' ''Arial'' True ''xp'' 0 0)
         \<lparr>tb_minmax_fill_color := ''#A31515'', tb_minmax_hover_color := ''#D4AF37'', tb_close_fill_color := ''#A31515'',
          tb_close_hover_color := ''#D4AF37'', tb_button_glyph_color := ''#F2E4C4'', tb_close_glyph := ''hammer_sickle''\<rparr>)]"

text \<open>Caption colour and text colour.\<close>

definition DARK_TITLE_BAR_OVERRIDES :: "(string, string \<times> string) dict" where
  "DARK_TITLE_BAR_OVERRIDES =
     [(''win10_fluent'', (''#202020'', ''#FFFFFF'')), (''win11_mica'', (''#202020'', ''#FFFFFF'')),
      (MACOS_THEME_ID, (''#2B2B2D'', ''#F2F2F2''))]"

section \<open>The look of a theme\<close>

text \<open>\<open>TITLE_BAR_STYLES[DEFAULT_THEME]\<close> would raise without that entry; it is there.\<close>

definition title_bar_style_for :: "string \<Rightarrow> string \<Rightarrow> title_bar_style" where
  "title_bar_style_for theme_id appearance_mode =
     (let base = opt_or (dget TITLE_BAR_STYLES theme_id) (the (dget TITLE_BAR_STYLES DEFAULT_THEME))
      in if appearance_mode = ''dark_hc''
         then base\<lparr>tb_caption_gradient := None, tb_caption_flat_color := ''#000000'', tb_title_text_color := ''#FFFFFF'',
                   tb_minmax_fill_color := ''#000000'', tb_minmax_hover_color := ''#FFFF00'', tb_close_fill_color := ''#000000'',
                   tb_close_hover_color := ''#FFFF00'', tb_button_glyph_color := ''#FFFFFF'',
                   tb_button_hover_glyph_color := Some ''#000000''\<rparr>
         else if appearance_mode = ''dark''
         then (case dget DARK_TITLE_BAR_OVERRIDES theme_id of
                 Some (flat, text_color) \<Rightarrow> base\<lparr>tb_caption_flat_color := flat, tb_title_text_color := text_color\<rparr>
               | None \<Rightarrow> base)
         else base)"

definition qss_path :: "string \<Rightarrow> string \<Rightarrow> string" where
  "qss_path theme_id appearance_mode =
     ''resources/styles/'' @ opt_or (dget QSS_BASENAMES theme_id) (the (dget QSS_BASENAMES DEFAULT_THEME))
       @ opt_or (dget APPEARANCE_SUFFIX appearance_mode) [] @ ''.qss''"

text \<open>\<open>apply_theme\<close>: the style sheet in force, given what the file holds.\<close>

definition apply_theme :: "(string \<Rightarrow> string option) \<Rightarrow> string \<Rightarrow> string \<Rightarrow> string \<Rightarrow> string" where
  "apply_theme files theme_id appearance_mode sheet = opt_or (files (qss_path theme_id appearance_mode)) sheet"

text \<open>\<open>cursor_for_theme\<close>: the picture (\<open>None\<close> when it is missing or is null) and its hot spot.\<close>

definition cursor_for_theme :: "(string \<Rightarrow> 'pixmap option) \<Rightarrow> string \<Rightarrow> ('pixmap \<times> nat \<times> nat) option" where
  "cursor_for_theme pictures theme_id =
     (let basename = opt_or (dget QSS_BASENAMES theme_id) (the (dget QSS_BASENAMES DEFAULT_THEME))
      in case pictures (''assets/cursors/'' @ basename @ ''/arrow.png'') of
           None \<Rightarrow> None
         | Some pixmap \<Rightarrow> Some (pixmap, opt_or (dget CURSOR_HOTSPOTS basename) (0, 0)))"

section \<open>Facts\<close>

lemmas theme_tables = TITLE_BAR_STYLES_def DARK_TITLE_BAR_OVERRIDES_def QSS_BASENAMES_def APPEARANCE_SUFFIX_def CURSOR_HOTSPOTS_def
  MACOS_THEME_ID_def CCCP_THEME_ID_def DEFAULT_THEME_def

text \<open>Every table knows the same themes.\<close>

lemma tables_agree:
  "dkeys TITLE_BAR_STYLES = map snd THEME_LABELS" "dkeys QSS_BASENAMES = map snd THEME_LABELS"
  "dkeys CURSOR_HOTSPOTS = dvals QSS_BASENAMES" "set (dkeys DARK_TITLE_BAR_OVERRIDES) \<subseteq> set (map snd THEME_LABELS)"
  by (simp_all add: theme_tables THEME_LABELS_def)

text \<open>Different themes and modes have different style sheets.\<close>

lemma qss_paths_distinct:
  "distinct (map (\<lambda>(t, m). qss_path t m) (List.product (map snd THEME_LABELS) (dkeys APPEARANCE_SUFFIX)))"
  by code_simp

lemma qss_path_inj:
  assumes "t \<in> set (map snd THEME_LABELS)" "t' \<in> set (map snd THEME_LABELS)"
    and "m \<in> set (dkeys APPEARANCE_SUFFIX)" "m' \<in> set (dkeys APPEARANCE_SUFFIX)" and "qss_path t m = qss_path t' m'"
  shows "t = t' \<and> m = m'"
proof -
  have "inj_on (\<lambda>(t, m). qss_path t m) (set (map snd THEME_LABELS) \<times> set (dkeys APPEARANCE_SUFFIX))"
    using qss_paths_distinct unfolding distinct_map set_product by (rule conjunct2)
  from inj_onD [OF this, of "(t, m)" "(t', m')"] show ?thesis using assms by simp
qed

text \<open>No text and no glyph has the colour of what is behind it.\<close>

definition readable :: "title_bar_style \<Rightarrow> bool" where
  "readable b \<longleftrightarrow>
     tb_title_text_color b \<noteq> tb_caption_flat_color b
   \<and> tb_button_glyph_color b \<noteq> tb_minmax_fill_color b \<and> tb_button_glyph_color b \<noteq> tb_close_fill_color b
   \<and> opt_or (tb_button_hover_glyph_color b) (tb_button_glyph_color b) \<notin> {tb_minmax_hover_color b, tb_close_hover_color b}"

text \<open>High contrast looks alike under every theme but for the shapes.\<close>

lemma high_contrast_uniform:
  "let b = title_bar_style_for t ''dark_hc''
   in tb_caption_gradient b = None \<and> tb_caption_flat_color b = ''#000000'' \<and> tb_title_text_color b = ''#FFFFFF''
    \<and> tb_button_glyph_color b = ''#FFFFFF'' \<and> tb_button_hover_glyph_color b = Some ''#000000''
    \<and> tb_minmax_hover_color b = ''#FFFF00'' \<and> tb_close_hover_color b = ''#FFFF00''"
  by (simp add: title_bar_style_for_def Let_def)

lemma base_readable:
  "readable (opt_or (dget TITLE_BAR_STYLES t) (the (dget TITLE_BAR_STYLES DEFAULT_THEME)))"
  by (simp add: theme_tables readable_def title_bar_def)

lemma title_bar_readable: "readable (title_bar_style_for t m)"
proof (cases "m = ''dark_hc''")
  case True
  then show ?thesis by (simp add: title_bar_style_for_def Let_def readable_def)
next
  case False
  have "readable ((the (dget TITLE_BAR_STYLES t))\<lparr>tb_caption_flat_color := c, tb_title_text_color := d\<rparr>)"
    if "dget DARK_TITLE_BAR_OVERRIDES t = Some (c, d)" for c d
    using that by (auto simp: theme_tables readable_def title_bar_def split: if_splits)
  then show ?thesis using False base_readable [of t]
    by (auto simp: title_bar_style_for_def Let_def theme_tables split: option.split if_splits)
qed

end
