(* ===== verification/Platform.thy ===== *)
theory Platform
  imports Remote "HOL-Library.Word"
begin

text \<open>
  The program's use of the operating system: \<open>config/paths.py\<close> (the memo of the folders it has
  created), \<open>engine/disk_allocation.py\<close> and \<open>engine/volume_serial.py\<close> (32-bit answers of Windows),
  \<open>ui/web/dropped_file.py\<close> (temporary torrent files), \<open>engine/startup_registration.py\<close> (the Run key) and
  \<open>engine/single_instance.py\<close>. The calls themselves are parameters.
\<close>

section \<open>The folders of the program\<close>

text \<open>A path is its list of parts. \<open>ps_dirs\<close>: the folders there are; \<open>ps_locked\<close>: the calls of
  \<open>icacls\<close>, with the user the folder is left to.\<close>

type_synonym path = "string list"

record paths_state =
  ps_ensured :: "path set"
  ps_dirs :: "path set"
  ps_locked :: "(path \<times> string) list"

record paths_env =
  pe_override :: "path option"
  pe_appdata :: "path option"
  pe_home :: path
  pe_username :: string

text \<open>\<open>mkdir(parents=True, exist_ok=True)\<close>\<close>

definition mkdir_parents :: "path \<Rightarrow> path set \<Rightarrow> path set" where
  "mkdir_parents p dirs = dirs \<union> set (prefixes p)"

text \<open>\<open>_ensure_dir\<close>; the flag: the folder did not exist.\<close>

definition ensure_dir :: "path \<Rightarrow> paths_state \<Rightarrow> bool \<times> paths_state" where
  "ensure_dir p s =
     (if p \<in> ps_ensured s then (False, s)
      else (p \<notin> ps_dirs s, s\<lparr>ps_dirs := mkdir_parents p (ps_dirs s), ps_ensured := insert p (ps_ensured s)\<rparr>))"

definition lock_down_acl :: "paths_env \<Rightarrow> path \<Rightarrow> paths_state \<Rightarrow> paths_state" where
  "lock_down_acl e p s = (if pe_username e = [] then s else s\<lparr>ps_locked := ps_locked s @ [(p, pe_username e)]\<rparr>)"

definition app_data_path :: "paths_env \<Rightarrow> path" where
  "app_data_path e =
     (case pe_override e of
        Some p \<Rightarrow> p
      | None \<Rightarrow> (case pe_appdata e of Some b \<Rightarrow> b | None \<Rightarrow> pe_home e @ [''AppData'', ''Roaming'']) @ [''Torrent2000''])"

definition get_app_data_dir :: "paths_env \<Rightarrow> paths_state \<Rightarrow> path \<times> paths_state" where
  "get_app_data_dir e s =
     (let p = app_data_path e; (just_created, s') = ensure_dir p s
      in (p, if just_created then lock_down_acl e p s' else s'))"

text \<open>\<open>get_resume_dir\<close>, \<open>get_logs_dir\<close>, \<open>get_config_backups_dir\<close>: a folder of the data directory.\<close>

definition get_sub_dir :: "string \<Rightarrow> paths_env \<Rightarrow> paths_state \<Rightarrow> path \<times> paths_state" where
  "get_sub_dir n e s =
     (let (base, s1) = get_app_data_dir e s; d = base @ [n] in (d, snd (ensure_dir d s1)))"

definition get_resume_dir :: "paths_env \<Rightarrow> paths_state \<Rightarrow> path \<times> paths_state" where
  "get_resume_dir = get_sub_dir ''resume''"

definition get_logs_dir :: "paths_env \<Rightarrow> paths_state \<Rightarrow> path \<times> paths_state" where
  "get_logs_dir = get_sub_dir ''logs''"

definition get_config_backups_dir :: "paths_env \<Rightarrow> paths_state \<Rightarrow> path \<times> paths_state" where
  "get_config_backups_dir = get_sub_dir ''config_backups''"

text \<open>The state files: each lies in the data directory.\<close>

definition DATA_FILES :: "string list" where
  "DATA_FILES = [''config.json'', ''stats.sqlite3'', ''history.sqlite3'', ''session_state.bin'', ''rss_seen.sqlite3'',
     ''share_limits.json'', ''categories.json'', ''tags.json'', ''torrent_search_sources.json'', ''settings_profiles.json'',
     ''routing_rules.json'', ''known_disks.json'', ''network_profiles.json'', ''peer_reputation.json'', ''lan_peer_cache.json'',
     ''decision_journal.jsonl'']"

definition get_data_file :: "string \<Rightarrow> paths_env \<Rightarrow> paths_state \<Rightarrow> path \<times> paths_state" where
  "get_data_file n e s = (let (base, s1) = get_app_data_dir e s in (base @ [n], s1))"

definition get_default_download_dir :: "paths_env \<Rightarrow> paths_state \<Rightarrow> path \<times> paths_state" where
  "get_default_download_dir e s =
     (let d = pe_home e @ [''Downloads'', ''Torrent2000''] in (d, s\<lparr>ps_dirs := mkdir_parents d (ps_dirs s)\<rparr>))"

text \<open>A write that asks its getter for the folder and then opens a file in it: it raises
  \<open>FileNotFoundError\<close> (False) when the folder is not there. \<open>write_into\<close> under
  \<open>retry_if_dir_vanished\<close>.\<close>

definition write_into :: "(paths_state \<Rightarrow> path \<times> paths_state) \<Rightarrow> paths_state \<Rightarrow> bool \<times> paths_state" where
  "write_into getter s = (let (d, s') = getter s in (d \<in> ps_dirs s', s'))"

definition retry_write :: "(paths_state \<Rightarrow> path \<times> paths_state) \<Rightarrow> paths_state \<Rightarrow> bool \<times> paths_state" where
  "retry_write getter s =
     (let (ok, s') = write_into getter s
      in if ok then (True, s') else write_into getter (s'\<lparr>ps_ensured := {}\<rparr>))"

section \<open>Facts\<close>

lemma mem_mkdir: "p \<in> mkdir_parents p dirs"
  by (simp add: mkdir_parents_def)

lemma ensure_dir_there:
  "ps_ensured s = {} \<or> p \<notin> ps_ensured s \<Longrightarrow> p \<in> ps_dirs (snd (ensure_dir p s))"
  by (auto simp: ensure_dir_def mem_mkdir)

lemma sub_dir_path: "fst (get_sub_dir n e s) = app_data_path e @ [n]"
  by (simp add: get_sub_dir_def get_app_data_dir_def Let_def split: prod.split)

lemma app_data_ensured: "ps_ensured (snd (get_app_data_dir e s)) = insert (app_data_path e) (ps_ensured s)"
  by (auto simp: get_app_data_dir_def ensure_dir_def lock_down_acl_def Let_def)

lemma sub_dir_fresh:
  assumes "ps_ensured s = {}"
  shows "fst (get_sub_dir n e s) \<in> ps_dirs (snd (get_sub_dir n e s))"
proof -
  define s1 where "s1 = snd (get_app_data_dir e s)"
  have "fst (get_app_data_dir e s) = app_data_path e" by (simp add: get_app_data_dir_def Let_def split: prod.split)
  then have s1: "get_app_data_dir e s = (app_data_path e, s1)" by (simp add: s1_def prod_eq_iff)
  have "app_data_path e @ [n] \<notin> ps_ensured s1" using app_data_ensured [of e s] assms by (simp add: s1)
  then have "app_data_path e @ [n] \<in> ps_dirs (snd (ensure_dir (app_data_path e @ [n]) s1))" by (simp add: ensure_dir_there)
  then show ?thesis by (simp add: get_sub_dir_def s1 Let_def)
qed

text \<open>A folder that vanished under the memo is made again by the second attempt, whatever was
  deleted.\<close>

lemma retry_write_succeeds: "fst (retry_write (get_sub_dir n e) s)"
proof -
  obtain d s' where g: "get_sub_dir n e s = (d, s')" by (cases "get_sub_dir n e s")
  have "fst (get_sub_dir n e (s'\<lparr>ps_ensured := {}\<rparr>)) \<in> ps_dirs (snd (get_sub_dir n e (s'\<lparr>ps_ensured := {}\<rparr>)))"
    by (rule sub_dir_fresh) simp
  then show ?thesis by (auto simp: retry_write_def write_into_def g Let_def split: prod.split)
qed

lemma sub_dir_locked:
  "ps_locked (snd (get_sub_dir n e s)) = ps_locked s @
     (if app_data_path e \<notin> ps_ensured s \<and> app_data_path e \<notin> ps_dirs s \<and> pe_username e \<noteq> [] then [(app_data_path e, pe_username e)] else [])
   \<and> ps_dirs s \<subseteq> ps_dirs (snd (get_sub_dir n e s))"
  by (auto simp: get_sub_dir_def get_app_data_dir_def ensure_dir_def lock_down_acl_def mkdir_parents_def Let_def)

text \<open>Without the retry a write fails from then on: the memo says the folder is there.\<close>

lemma write_without_retry_fails:
  assumes "app_data_path e \<in> ps_ensured s" "app_data_path e @ [n] \<in> ps_ensured s" "app_data_path e @ [n] \<notin> ps_dirs s"
  shows "\<not> fst (write_into (get_sub_dir n e) s)"
  using assms by (simp add: write_into_def get_sub_dir_def get_app_data_dir_def ensure_dir_def Let_def)

section \<open>Sizes on disk\<close>

definition INVALID_FILE_SIZE :: int where "INVALID_FILE_SIZE = 0xFFFFFFFF"

text \<open>\<open>compressed_file_size\<close>. \<open>query\<close>: the two words \<open>GetCompressedFileSizeW\<close> gives, \<open>None\<close> when it
  is missing or raises; \<open>ctypes\<close> reads the result of a function without a \<open>restype\<close> as a signed
  \<open>int\<close>, the out-parameter is a \<open>c_uint32\<close>. \<open>stat\<close>: the apparent size.\<close>

definition compressed_file_size :: "bool \<Rightarrow> (32 word \<times> 32 word) option \<Rightarrow> int option \<Rightarrow> int" where
  "compressed_file_size exists query stat =
     (if \<not> exists then 0
      else let low = (case query of Some (lo, _) \<Rightarrow> sint lo | None \<Rightarrow> INVALID_FILE_SIZE);
               high = (case query of Some (_, hi) \<Rightarrow> uint hi | None \<Rightarrow> 0)
           in if low = INVALID_FILE_SIZE then (case stat of Some n \<Rightarrow> n | None \<Rightarrow> 0)
              else high * 2 ^ 32 + low)"

section \<open>Volumes\<close>

definition BACKSLASH :: char where "BACKSLASH = CHR 0x5C"

definition index_from :: "char \<Rightarrow> nat \<Rightarrow> string \<Rightarrow> nat option" where
  "index_from c k s = (if c \<in> set (drop k s) then Some (k + length (takeWhile (\<lambda>x. x \<noteq> c) (drop k s))) else None)"

text \<open>The drive of \<open>os.path.splitdrive\<close> on Windows.\<close>

definition splitdrive :: "string \<Rightarrow> string" where
  "splitdrive p =
     (let n = map (\<lambda>c. if c = CHR ''/'' then BACKSLASH else c) p
      in if take 1 n = [BACKSLASH]
         then (if take 1 (drop 1 n) = [BACKSLASH]
               then (let start = (if map ascii_lower (take 8 n) = [BACKSLASH, BACKSLASH, CHR ''?'', BACKSLASH] @ ''unc'' @ [BACKSLASH] then 8 else 2)
                     in case index_from BACKSLASH start n of
                          None \<Rightarrow> p
                        | Some i \<Rightarrow> (case index_from BACKSLASH (i + 1) n of None \<Rightarrow> p | Some j \<Rightarrow> take j p))
               else [])
         else if take 1 (drop 1 n) = '':'' then take 2 p else [])"

text \<open>\<open>GetVolumeInformationW\<close> on the root: \<open>None\<close> when the call raises, and whether it succeeded.\<close>

definition get_volume_serial :: "(string \<Rightarrow> (bool \<times> 32 word) option) \<Rightarrow> string \<Rightarrow> int option" where
  "get_volume_serial api p =
     (let drive = splitdrive p
      in if drive = [] then None
         else case api (drive @ [BACKSLASH]) of
                Some (ok, serial) \<Rightarrow> if ok then Some (uint serial) else None
              | None \<Rightarrow> None)"

definition get_volume_label :: "(string \<Rightarrow> (bool \<times> string) option) \<Rightarrow> string \<Rightarrow> string option" where
  "get_volume_label api p =
     (let drive = splitdrive p
      in if drive = [] then None
         else case api (drive @ [BACKSLASH]) of
                Some (ok, n) \<Rightarrow> if ok \<and> n \<noteq> [] then Some n else None
              | None \<Rightarrow> None)"

section \<open>Dropped torrent files\<close>

definition DROPPED_MAX_BYTES :: int where "DROPPED_MAX_BYTES = 8 * 1024 * 1024"
definition STALE_TEMP_TORRENT_SECONDS :: rat where "STALE_TEMP_TORRENT_SECONDS = 24 * 60 * 60"
definition TEMP_TORRENT_PREFIXES :: "string list" where
  "TEMP_TORRENT_PREFIXES = [''dropped_'', ''remote_add_'', ''torrent2000_rss_'']"

text \<open>\<open>fresh\<close>: the path \<open>mkstemp\<close> makes. The answer is empty when nothing was written.\<close>

definition save_dropped_bytes :: "string \<Rightarrow> string \<Rightarrow> (string \<times> string) list \<Rightarrow> string \<times> (string \<times> string) list" where
  "save_dropped_bytes fresh base64_data files =
     (case b64decode_strict base64_data of
        None \<Rightarrow> ([], files)
      | Some data \<Rightarrow> if int (length data) > DROPPED_MAX_BYTES then ([], files) else (fresh, files @ [(fresh, data)]))"

text \<open>A file of the temporary folder: \<open>tf_mtime\<close> is \<open>None\<close> when \<open>stat\<close> raises, \<open>tf_free\<close> whether it can
  be deleted.\<close>

record temp_file =
  tf_name :: string
  tf_mtime :: "rat option"
  tf_free :: bool

definition stale_temp_torrent :: "rat \<Rightarrow> temp_file \<Rightarrow> bool" where
  "stale_temp_torrent now f \<longleftrightarrow>
     suffix ''.torrent'' (py_lower (tf_name f)) \<and> list_ex (\<lambda>p. prefix p (tf_name f)) TEMP_TORRENT_PREFIXES
     \<and> (case tf_mtime f of None \<Rightarrow> False | Some t \<Rightarrow> t < fsub now STALE_TEMP_TORRENT_SECONDS)"

definition cleanup_stale_temp_torrents :: "rat \<Rightarrow> temp_file list \<Rightarrow> temp_file list" where
  "cleanup_stale_temp_torrents now files = filter (\<lambda>f. \<not> (stale_temp_torrent now f \<and> tf_free f)) files"

section \<open>Launch at startup\<close>

definition launch_command :: "bool \<Rightarrow> string \<Rightarrow> string \<Rightarrow> string" where
  "launch_command frozen executable script =
     (if frozen then CHR 0x22 # executable @ [CHR 0x22]
      else CHR 0x22 # executable @ [CHR 0x22, CHR '' '', CHR 0x22] @ script @ [CHR 0x22])"

text \<open>The Run key, \<open>None\<close> when it does not exist, with the program's value. The flag is False when
  \<open>OpenKey\<close> raises.\<close>

type_synonym run_key = "string option option"

definition set_launch_at_startup :: "string \<Rightarrow> bool \<Rightarrow> run_key \<Rightarrow> run_key \<times> bool" where
  "set_launch_at_startup command enabled key =
     (case key of None \<Rightarrow> (None, False) | Some _ \<Rightarrow> (Some (if enabled then Some command else None), True))"

definition is_launch_at_startup_enabled :: "run_key \<Rightarrow> bool" where
  "is_launch_at_startup_enabled key = (case key of None \<Rightarrow> False | Some v \<Rightarrow> v \<noteq> None)"

section \<open>One instance\<close>

text \<open>\<open>gd_sockets\<close>: the accepted connections that have not closed; \<open>gd_received\<close>: what
  \<open>argument_received\<close> announced. Strings are their UTF-8 bytes.\<close>

record guard =
  gd_server :: bool
  gd_listening :: bool
  gd_sockets :: "nat list"
  gd_received :: "string list"

definition new_guard :: guard where
  "new_guard = \<lparr>gd_server = False, gd_listening = False, gd_sockets = [], gd_received = []\<rparr>"

definition CONNECT_TIMEOUT_MS :: nat where "CONNECT_TIMEOUT_MS = 500"
definition FORWARD_TIMEOUT_MS :: nat where "FORWARD_TIMEOUT_MS = 10000"

text \<open>The calls of a launch on its \<open>QLocalSocket\<close>.\<close>

datatype client_call =
    ConnectToServer
  | WaitForConnected nat
  | AbortSocket
  | WriteBytes string
  | WaitForBytesWritten nat
  | DisconnectFromServer

text \<open>\<open>_forward_to_running_instance\<close>: \<open>answered\<close> is what \<open>waitForConnected\<close> answers.\<close>

definition forward_to_running_instance :: "string \<Rightarrow> bool \<Rightarrow> client_call list \<times> bool" where
  "forward_to_running_instance forward_argument answered =
     (let probe = [ConnectToServer, WaitForConnected CONNECT_TIMEOUT_MS]
      in if \<not> answered then (probe @ [AbortSocket], False)
         else (probe @ [WriteBytes forward_argument, WaitForBytesWritten FORWARD_TIMEOUT_MS, DisconnectFromServer], True))"

text \<open>\<open>_start_listening\<close>: the outcomes of the two attempts.\<close>

definition start_listening :: "bool \<Rightarrow> bool \<Rightarrow> guard \<Rightarrow> guard" where
  "start_listening first second g = g\<lparr>gd_server := True, gd_listening := (first \<or> second)\<rparr>"

text \<open>\<open>try_become_primary\<close>: its calls as a client, and the guard when it becomes a primary.\<close>

definition try_become_primary :: "string \<Rightarrow> bool \<Rightarrow> bool \<Rightarrow> bool \<Rightarrow> guard \<Rightarrow> client_call list \<times> guard option" where
  "try_become_primary forward_argument answered first second g =
     (let (calls, forwarded) = forward_to_running_instance forward_argument answered
      in if forwarded then (calls, None) else (calls, Some (start_listening first second g)))"

definition accept_pending_connection :: "nat option \<Rightarrow> guard \<Rightarrow> guard" where
  "accept_pending_connection pending g =
     (if \<not> gd_server g then g
      else case pending of None \<Rightarrow> g | Some socket \<Rightarrow> g\<lparr>gd_sockets := gd_sockets g @ [socket]\<rparr>)"

text \<open>\<open>raw\<close> is what \<open>readAll\<close> returns, \<open>decode\<close> the decoding that replaces what is not UTF-8.\<close>

definition on_socket_disconnected :: "(string \<Rightarrow> string) \<Rightarrow> nat \<Rightarrow> string \<Rightarrow> guard \<Rightarrow> guard" where
  "on_socket_disconnected decode socket raw g =
     g\<lparr>gd_received := gd_received g @ [decode raw], gd_sockets := remove1 socket (gd_sockets g)\<rparr>"

definition close_guard :: "guard \<Rightarrow> guard" where
  "close_guard g = g\<lparr>gd_sockets := [], gd_server := False, gd_listening := False\<rparr>"

text \<open>What the primary sees of a connection. The guard connects \<open>newConnection\<close> and \<open>disconnected\<close> to its
  slots and nothing to \<open>readyRead\<close>: what has come stays in the buffer of the socket.\<close>

datatype server_event =
    NewConnection nat
  | ReadyRead nat string
  | Disconnected nat

fun server_slot :: "(string \<Rightarrow> string) \<Rightarrow> guard \<times> (nat \<Rightarrow> string) \<Rightarrow> server_event \<Rightarrow> guard \<times> (nat \<Rightarrow> string)" where
  "server_slot decode (g, buffers) (NewConnection k) = (accept_pending_connection (Some k) g, buffers(k := []))"
| "server_slot decode (g, buffers) (ReadyRead k data) = (g, buffers(k := buffers k @ data))"
| "server_slot decode (g, buffers) (Disconnected k) =
     (if k \<in> set (gd_sockets g) then (on_socket_disconnected decode k (buffers k) g, buffers(k := [])) else (g, buffers))"

section \<open>Launching the program again and again\<close>

text \<open>Qt's local sockets are not under \<open>src/\<close>: \<open>sl_connects\<close> says which instance a probe reaches in time, by
  which of them listen, \<open>sl_events\<close> what the calls of a client bring about at the other end, and
  \<open>sl_decode\<close> is \<open>bytes.decode\<close> with \<open>errors="replace"\<close>.\<close>

record socket_layer =
  sl_connects :: "bool list \<Rightarrow> nat option"
  sl_events :: "nat \<Rightarrow> client_call list \<Rightarrow> server_event list"
  sl_decode :: "string \<Rightarrow> string"

text \<open>Launches interleave: a process probes for a running instance, and, if none answered, listens some
  time later, when others may have probed. The state: the processes that have still to listen, and the
  running guards, oldest first.\<close>

datatype launch_event = Probe nat string | Listen bool bool

fun launch_step :: "socket_layer \<Rightarrow> nat \<times> guard list \<Rightarrow> launch_event \<Rightarrow> nat \<times> guard list" where
  "launch_step L (starting, running) (Probe k argument) =
     (case sl_connects L (map gd_listening running) of
        None \<Rightarrow> (Suc starting, running)
      | Some i \<Rightarrow> (starting, running[i := fst (foldl (server_slot (sl_decode L)) (running ! i, \<lambda>_. [])
                      (sl_events L k (fst (try_become_primary argument True False False new_guard))))]))"
| "launch_step L (starting, running) (Listen first second) =
     (case starting of
        0 \<Rightarrow> (0, running)
      | Suc n \<Rightarrow> (case snd (try_become_primary [] False first second new_guard) of
                    Some g \<Rightarrow> (n, running @ [g])
                  | None \<Rightarrow> (n, running)))"

definition launch_run :: "socket_layer \<Rightarrow> launch_event list \<Rightarrow> nat \<times> guard list \<Rightarrow> nat \<times> guard list" where
  "launch_run L events x = foldl (launch_step L) x events"

text \<open>What Qt documents of them. A probe reaches an instance that listens, if there is one. What a client
  writes reaches the other end before the disconnection, in pieces (none, for no byte) or whole, when
  the client waits for its bytes to be written before it disconnects; of any other sequence of calls
  nothing is assumed. That the wait of ten seconds is long enough is part of it.\<close>

definition reaches_listener :: "socket_layer \<Rightarrow> bool" where
  "reaches_listener L \<longleftrightarrow> (\<forall>ls. (\<forall>i. sl_connects L ls = Some i \<longrightarrow> i < length ls \<and> ls ! i)
     \<and> (True \<in> set ls \<longrightarrow> sl_connects L ls \<noteq> None))"

definition delivers_flushed :: "socket_layer \<Rightarrow> bool" where
  "delivers_flushed L \<longleftrightarrow> (\<forall>k b. \<exists>pieces. concat pieces = b
     \<and> sl_events L k [ConnectToServer, WaitForConnected 500, WriteBytes b, WaitForBytesWritten 10000, DisconnectFromServer]
         = NewConnection k # map (ReadyRead k) pieces @ [Disconnected k])"

definition decodes_utf8 :: "socket_layer \<Rightarrow> bool" where
  "decodes_utf8 L \<longleftrightarrow> (\<forall>b. utf8_ok b \<longrightarrow> sl_decode L b = b)"

lemma remove1_last: "k \<notin> set xs \<Longrightarrow> remove1 k (xs @ [k]) = xs"
  by (simp add: remove1_append)

lemma pieces_buffered:
  "foldl (server_slot decode) (g, buffers) (map (ReadyRead k) pieces) = (g, buffers(k := buffers k @ concat pieces))"
  by (induction pieces arbitrary: buffers) simp_all

lemma forwarded_received:
  assumes "delivers_flushed L" "decodes_utf8 L" "utf8_ok a" and "gd_server g" "gd_sockets g = []"
  shows "fst (foldl (server_slot (sl_decode L)) (g, \<lambda>_. []) (sl_events L k (fst (try_become_primary a True False False new_guard))))
     = g\<lparr>gd_received := gd_received g @ [a]\<rparr>"
proof -
  have calls: "fst (try_become_primary a True False False new_guard)
      = [ConnectToServer, WaitForConnected 500, WriteBytes a, WaitForBytesWritten 10000, DisconnectFromServer]"
    by (simp add: try_become_primary_def forward_to_running_instance_def Let_def CONNECT_TIMEOUT_MS_def FORWARD_TIMEOUT_MS_def)
  obtain pieces where "concat pieces = a" "sl_events L k (fst (try_become_primary a True False False new_guard))
      = NewConnection k # map (ReadyRead k) pieces @ [Disconnected k]"
    using assms(1) unfolding calls delivers_flushed_def by blast
  moreover have "sl_decode L a = a" using assms(2,3) by (simp add: decodes_utf8_def)
  ultimately show ?thesis
    using assms(4,5) by (simp add: pieces_buffered accept_pending_connection_def on_socket_disconnected_def)
qed

text \<open>The arguments of the launches of a run, and how many of its processes come to listen.\<close>

fun launch_arguments :: "launch_event list \<Rightarrow> string list" where
  "launch_arguments [] = []"
| "launch_arguments (Probe k a # es) = a # launch_arguments es"
| "launch_arguments (Listen f s # es) = launch_arguments es"

fun listen_calls :: "launch_event list \<Rightarrow> nat" where
  "listen_calls [] = 0"
| "listen_calls (Probe k a # es) = listen_calls es"
| "listen_calls (Listen f s # es) = Suc (listen_calls es)"

definition taken :: "launch_event \<Rightarrow> bool" where
  "taken e \<longleftrightarrow> (case e of Listen first second \<Rightarrow> \<not> first \<and> \<not> second | Probe k a \<Rightarrow> utf8_ok a)"

abbreviation deaf_guard :: guard where
  "deaf_guard \<equiv> \<lparr>gd_server = True, gd_listening = False, gd_sockets = [], gd_received = []\<rparr>"

lemma launch_run_forwards:
  assumes "reaches_listener L" "delivers_flushed L" "decodes_utf8 L" and "list_all taken es"
  shows "launch_run L es (n, \<lparr>gd_server = True, gd_listening = True, gd_sockets = [], gd_received = received\<rparr> # replicate m deaf_guard)
     = (n - listen_calls es, \<lparr>gd_server = True, gd_listening = True, gd_sockets = [], gd_received = received @ launch_arguments es\<rparr>
          # replicate (m + min n (listen_calls es)) deaf_guard)"
  using assms(4)
proof (induction es arbitrary: n m received)
  case Nil
  then show ?case by (simp add: launch_run_def)
next
  case (Cons e es)
  let ?g = "\<lparr>gd_server = True, gd_listening = True, gd_sockets = [], gd_received = received\<rparr>"
  have rest: "launch_run L (e # es) x = launch_run L es (launch_step L x e)" for x by (simp add: launch_run_def)
  show ?case
  proof (cases e)
    case (Probe k a)
    have ls: "map gd_listening (?g # replicate m deaf_guard) = True # replicate m False" by simp
    have "sl_connects L (True # replicate m False) \<noteq> None" using assms(1) by (simp add: reaches_listener_def)
    then obtain i where i: "sl_connects L (True # replicate m False) = Some i" by blast
    then have "i < length (True # replicate m False) \<and> (True # replicate m False) ! i" using assms(1) by (simp only: reaches_listener_def)
    then have "i = 0" by (cases i) auto
    with i have step: "launch_step L (n, ?g # replicate m deaf_guard) e = (n, ?g\<lparr>gd_received := received @ [a]\<rparr> # replicate m deaf_guard)"
      using forwarded_received [OF assms(2,3), of a ?g k] Cons.prems by (simp add: Probe ls taken_def)
    show ?thesis using Cons.IH [of n "received @ [a]" m] Cons.prems unfolding rest step by (simp add: Probe)
  next
    case (Listen f s)
    then have fail: "\<not> f" "\<not> s" using Cons.prems by (simp_all add: taken_def)
    show ?thesis
    proof (cases n)
      case 0
      then show ?thesis using Cons.IH [of 0 received m] Cons.prems unfolding rest by (simp add: Listen)
    next
      case (Suc n')
      have deaf: "snd (try_become_primary [] False f s new_guard) = Some deaf_guard"
        using fail by (simp add: try_become_primary_def forward_to_running_instance_def start_listening_def new_guard_def Let_def)
      have more: "replicate m deaf_guard @ [deaf_guard] = replicate (Suc m) deaf_guard" by (simp add: replicate_append_same)
      have step: "launch_step L (n, ?g # replicate m deaf_guard) e = (n', ?g # replicate (Suc m) deaf_guard)"
        unfolding Listen Suc launch_step.simps nat.case deaf option.case append_Cons more by (rule refl)
      show ?thesis using Cons.IH [of n' received "Suc m"] Cons.prems unfolding rest step by (simp add: Listen Suc)
    qed
  qed
qed

text \<open>Before the first instance listens every probe goes unanswered.\<close>

lemma launch_run_early:
  "reaches_listener L \<Longrightarrow> list_all (\<lambda>e. \<exists>k a. e = Probe k a) es \<Longrightarrow> launch_run L es (n, []) = (n + length es, [])"
proof (induction es arbitrary: n)
  case (Cons e es)
  have "sl_connects L [] = None"
    using Cons.prems(1) by (cases "sl_connects L []") (auto simp: reaches_listener_def, metis less_nat_zero_code list.size(3))
  with Cons show ?case by (auto simp: launch_run_def)
qed (simp add: launch_run_def)

text \<open>The low word of a size, read as ctypes reads it.\<close>

lemma sint_low_word:
  "sint (of_nat n :: 32 word) = (if n mod 2 ^ 32 < 2 ^ 31 then int (n mod 2 ^ 32) else int (n mod 2 ^ 32) - 2 ^ 32)"
proof -
  have shift: "(l + 2 ^ 31) mod 2 ^ 32 - 2 ^ 31 = (if l < 2 ^ 31 then l else l - 2 ^ 32)" if "0 \<le> l" "l < 2 ^ 32" for l :: int
  proof (cases "l < 2 ^ 31")
    case True
    then show ?thesis using that by (simp add: mod_pos_pos_trivial)
  next
    case False
    have "(l + 2 ^ 31) mod 2 ^ 32 = (l - 2 ^ 31 + 2 ^ 32) mod 2 ^ 32" by (simp add: add.commute)
    also have "\<dots> = l - 2 ^ 31" unfolding mod_add_self2 using False that by (intro mod_pos_pos_trivial) simp_all
    finally show ?thesis using False by simp
  qed
  have "sint (of_nat n :: 32 word) = (int n + 2 ^ 31) mod 2 ^ 32 - 2 ^ 31"
    by (simp add: signed_of_nat signed_take_bit_eq_take_bit_shift take_bit_eq_mod)
  also have "\<dots> = (int (n mod 2 ^ 32) + 2 ^ 31) mod 2 ^ 32 - 2 ^ 31" by (simp add: zmod_int mod_add_left_eq)
  also have "\<dots> = (if int (n mod 2 ^ 32) < 2 ^ 31 then int (n mod 2 ^ 32) else int (n mod 2 ^ 32) - 2 ^ 32)"
    by (rule shift) (simp_all add: zmod_int)
  finally show ?thesis by simp
qed

section \<open>Properties\<close>

text \<open>C34: the size on disk of a file is exact only while the low half of it is below 2 GiB: at 2 GiB and
  more in that half it comes out 4 GiB short, and a query that fails gives one byte less than the
  high half says, never the apparent size the function means to fall back on, which is used only
  where the query itself is missing.\<close>

theorem allocated_size_exact:
  fixes size :: nat
  assumes "size < 2 ^ 64" and "lo = of_nat size" and "hi = of_nat (size div 2 ^ 32)"
  shows "compressed_file_size True (Some (lo, hi)) stat = (if size mod 2 ^ 32 < 2 ^ 31 then int size else int size - 2 ^ 32)
       \<and> compressed_file_size True (Some (- 1, hi)) stat = int (size div 2 ^ 32) * 2 ^ 32 - 1
       \<and> compressed_file_size True None (Some n) = n \<and> compressed_file_size False q stat = 0"
proof -
  let ?lo = "size mod 2 ^ 32"
  have "size div 2 ^ 32 < 2 ^ LENGTH(32)" using assms(1) by simp
  then have "unat hi = size div 2 ^ 32" unfolding assms(3) by (simp add: unsigned_of_nat take_bit_nat_eq_self)
  then have hi: "uint hi = int (size div 2 ^ 32)" by (metis uint_nat)
  have size: "int size = int (size div 2 ^ 32) * 2 ^ 32 + int ?lo"
    unfolding zdiv_int zmod_int of_nat_power of_nat_numeral by (rule div_mult_mod_eq [symmetric])
  have "sint lo < 2 ^ 31" using sint_lt [of lo] by simp
  then have "compressed_file_size True (Some (lo, hi)) stat = int (size div 2 ^ 32) * 2 ^ 32 + sint lo"
    by (auto simp: compressed_file_size_def hi INVALID_FILE_SIZE_def)
  also have "\<dots> = (if ?lo < 2 ^ 31 then int size else int size - 2 ^ 32)"
    unfolding assms(2) sint_low_word using size by (auto simp only: add_diff_eq split: if_split)
  finally have "compressed_file_size True (Some (lo, hi)) stat = (if ?lo < 2 ^ 31 then int size else int size - 2 ^ 32)" .
  then show ?thesis by (simp add: compressed_file_size_def hi INVALID_FILE_SIZE_def)
qed


text \<open>A folder of the program that was deleted while it runs is made again by the write that needs
  it: the write succeeds whatever was deleted and whatever the memo says, the folder is there
  afterwards, and the data directory is locked down again exactly when it had to be made again.\<close>

theorem vanished_folder_recreated:
  "fst (retry_write (get_sub_dir n e) s)
   \<and> app_data_path e @ [n] \<in> ps_dirs (snd (retry_write (get_sub_dir n e) s))
   \<and> (\<forall>p u. (p, u) \<in> set (ps_locked (snd (retry_write (get_sub_dir n e) s))) - set (ps_locked s)
        \<longrightarrow> p = app_data_path e \<and> u = pe_username e \<and> p \<notin> ps_dirs s)"
proof -
  obtain d s1 where g: "get_sub_dir n e s = (d, s1)" by (cases "get_sub_dir n e s")
  define s2 where "s2 = snd (get_sub_dir n e (s1\<lparr>ps_ensured := {}\<rparr>))"
  have d: "d = app_data_path e @ [n]" using sub_dir_path [of n e s] by (simp add: g)
  have again: "get_sub_dir n e (s1\<lparr>ps_ensured := {}\<rparr>) = (d, s2)"
    using sub_dir_path [of n e "s1\<lparr>ps_ensured := {}\<rparr>"] by (simp add: s2_def d prod_eq_iff)
  have there: "d \<in> ps_dirs s2" using sub_dir_fresh [of "s1\<lparr>ps_ensured := {}\<rparr>" n e] by (simp add: again)
  have locked1: "(p, u) \<in> set (ps_locked s1) \<Longrightarrow> (p, u) \<in> set (ps_locked s) \<or> (p = app_data_path e \<and> u = pe_username e \<and> p \<notin> ps_dirs s)"
    for p u using sub_dir_locked [of n e s] by (auto simp: g split: if_splits)
  have locked2: "(p, u) \<in> set (ps_locked s2) \<Longrightarrow> (p, u) \<in> set (ps_locked s1) \<or> (p = app_data_path e \<and> u = pe_username e \<and> p \<notin> ps_dirs s)"
    for p u using sub_dir_locked [of n e "s1\<lparr>ps_ensured := {}\<rparr>"] sub_dir_locked [of n e s] by (auto simp: g again split: if_splits)
  have r: "retry_write (get_sub_dir n e) s = (if d \<in> ps_dirs s1 then (True, s1) else (True, s2))"
    using there by (simp add: retry_write_def write_into_def g again)
  show ?thesis
  proof (cases "d \<in> ps_dirs s1")
    case True
    then show ?thesis unfolding r d [symmetric] using locked1 by auto
  next
    case False
    then show ?thesis unfolding r d [symmetric] using there locked1 locked2 by auto
  qed
qed

theorem allocated_size_exact_witness:
  "compressed_file_size True (Some (of_nat 3000000000, of_nat (3000000000 div 2 ^ 32))) None = 3000000000 - 2 ^ 32"
  using allocated_size_exact [of 3000000000 "of_nat 3000000000" "of_nat (3000000000 div 2 ^ 32)" None 0] by simp

text \<open>A layer that loses what is not flushed and brings the rest byte by byte.\<close>

definition bytewise_layer :: socket_layer where
  "bytewise_layer = \<lparr>sl_connects = (\<lambda>ls. if True \<in> set ls then Some (length (takeWhile Not ls)) else None),
     sl_events = (\<lambda>k calls. case calls of
        [ConnectToServer, WaitForConnected c, WriteBytes b, WaitForBytesWritten w, DisconnectFromServer]
          \<Rightarrow> NewConnection k # map (\<lambda>x. ReadyRead k [x]) b @ [Disconnected k]
      | _ \<Rightarrow> [NewConnection k, Disconnected k]),
     sl_decode = (\<lambda>b. b)\<rparr>"

lemma bytewise_layer_ok: "reaches_listener bytewise_layer" "delivers_flushed bytewise_layer" "decodes_utf8 bytewise_layer"
proof -
  have "length (takeWhile Not ls) < length ls \<and> ls ! length (takeWhile Not ls)" if "True \<in> set ls" for ls
    using that by (induction ls) auto
  then show "reaches_listener bytewise_layer" by (simp add: reaches_listener_def bytewise_layer_def)
  have pieces: "concat (map (\<lambda>x. [x]) b) = b" "map (\<lambda>x. ReadyRead k [x]) b = map (ReadyRead k) (map (\<lambda>x. [x]) b)" for b :: string and k
    by (induction b) simp_all
  show "delivers_flushed bytewise_layer" unfolding delivers_flushed_def
  proof (intro allI)
    fix k b
    show "\<exists>pieces. concat pieces = b
     \<and> sl_events bytewise_layer k [ConnectToServer, WaitForConnected 500, WriteBytes b, WaitForBytesWritten 10000, DisconnectFromServer]
         = NewConnection k # map (ReadyRead k) pieces @ [Disconnected k]"
      by (rule exI [of _ "map (\<lambda>x. [x]) b"]) (simp add: bytewise_layer_def pieces)
  qed
  show "decodes_utf8 bytewise_layer" by (simp add: decodes_utf8_def bytewise_layer_def)
qed


end
