(* ===== verification/Window.thy ===== *)
theory Window
  imports Views Platform Automation
begin

text \<open>
  The window and the life of the process: \<open>ui/web/spike_window.py\<close> (the frozen picture during a resize,
  the sources handed over by the system, what is sent to a hidden page), \<open>ui/web/window_bridge.py\<close>,
  \<open>engine/anthem_player.py\<close>, \<open>ui/web/bridge_auto_shutdown.py\<close>, the installer's slots of
  \<open>ui/web/bridge_update.py\<close> and the quit of \<open>run_web_spike.py\<close>. Painting and the page's own scripts are
  not modelled: what the window asks of the page is a list of calls.
\<close>

section \<open>The window\<close>

type_synonym rect = "int \<times> int"

datatype page_script = Analyze_Magnet string | Select_Torrent_File string | Show_Countdown int string

text \<open>\<open>wd_overlay\<close>: the geometry of the picture, with whether it is shown. \<open>wd_releases\<close>: the 80 ms
  timers still to fire. The two live flags are the bridges' own.\<close>

record window =
  wd_rect :: rect
  wd_view :: rect
  wd_overlay :: "rect \<times> bool"
  wd_resizing :: bool
  wd_releases :: nat
  wd_freeze_enabled :: bool
  wd_visible :: bool
  wd_minimized :: bool
  wd_downloads_live :: bool
  wd_share_live :: bool
  wd_page_loaded :: bool
  wd_pending_source :: "string option"
  wd_scripts :: "page_script list"

definition window_init :: "bool \<Rightarrow> window" where
  "window_init freeze = \<lparr>wd_rect = (980, 640), wd_view = (980, 640), wd_overlay = ((0, 0), False), wd_resizing = False,
     wd_releases = 0, wd_freeze_enabled = freeze, wd_visible = False, wd_minimized = False, wd_downloads_live = True,
     wd_share_live = True, wd_page_loaded = False, wd_pending_source = None, wd_scripts = []\<rparr>"

section \<open>Resizing\<close>

text \<open>\<open>blank\<close>: the grabbed picture is null.\<close>

definition begin_resize_freeze :: "bool \<Rightarrow> window \<Rightarrow> window" where
  "begin_resize_freeze blank w =
     (if wd_resizing w then w
      else if blank then w
      else w\<lparr>wd_overlay := (wd_view w, True), wd_resizing := True\<rparr>)"

definition end_resize_freeze :: "window \<Rightarrow> window" where
  "end_resize_freeze w =
     (if \<not> wd_resizing w then w
      else w\<lparr>wd_resizing := False, wd_view := wd_rect w, wd_releases := wd_releases w + 1\<rparr>)"

text \<open>\<open>_release_resize_overlay\<close>, when a timer fires.\<close>

definition release_resize_overlay :: "window \<Rightarrow> window" where
  "release_resize_overlay w =
     (if wd_releases w = 0 then w
      else let w' = w\<lparr>wd_releases := wd_releases w - 1\<rparr>
           in if wd_resizing w' then w' else w'\<lparr>wd_overlay := (fst (wd_overlay w'), False)\<rparr>)"

definition resize_event :: "rect \<Rightarrow> window \<Rightarrow> window" where
  "resize_event r w =
     (let w' = w\<lparr>wd_rect := r\<rparr>
      in if wd_resizing w' then w'\<lparr>wd_overlay := (r, snd (wd_overlay w'))\<rparr> else w'\<lparr>wd_view := r\<rparr>)"

datatype native_message = Enter_Size_Move bool | Exit_Size_Move | Other_Message

definition native_event :: "native_message \<Rightarrow> window \<Rightarrow> window" where
  "native_event m w =
     (case m of
        Enter_Size_Move blank \<Rightarrow> if wd_freeze_enabled w then begin_resize_freeze blank w else w
      | Exit_Size_Move \<Rightarrow> if wd_freeze_enabled w then end_resize_freeze w else w
      | Other_Message \<Rightarrow> w)"

section \<open>Sources to open\<close>

definition run_open_source :: "string \<Rightarrow> window \<Rightarrow> window" where
  "run_open_source source w =
     w\<lparr>wd_scripts := wd_scripts w @
        [if prefix ''magnet:'' (py_lower source) then Analyze_Magnet source else Select_Torrent_File source]\<rparr>"

definition open_source :: "string \<Rightarrow> window \<Rightarrow> window" where
  "open_source source w = (if \<not> wd_page_loaded w then w\<lparr>wd_pending_source := Some source\<rparr> else run_open_source source w)"

definition on_page_loaded :: "bool \<Rightarrow> window \<Rightarrow> window" where
  "on_page_loaded ok w =
     (let w' = w\<lparr>wd_page_loaded := True\<rparr>
      in case wd_pending_source w' of
           Some source \<Rightarrow> if ok then run_open_source source (w'\<lparr>wd_pending_source := None\<rparr>) else w'
         | None \<Rightarrow> w')"

text \<open>What \<open>run_web_spike\<close> connects to the guard: an empty argument opens nothing.\<close>

definition on_argument_received :: "string \<Rightarrow> window \<Rightarrow> window" where
  "on_argument_received source w = (if source \<noteq> [] then open_source source w else w)"

definition on_shutdown_countdown_started :: "settings \<Rightarrow> int \<Rightarrow> window \<Rightarrow> window" where
  "on_shutdown_countdown_started cfg delay w = w\<lparr>wd_scripts := wd_scripts w @ [Show_Countdown delay (cfg_auto_shutdown_action cfg)]\<rparr>"

section \<open>Shown and hidden\<close>

text \<open>What the two pages are sent.\<close>

definition set_bridges_live :: "rat \<Rightarrow> session \<Rightarrow> share_service \<Rightarrow> bool \<Rightarrow> window \<Rightarrow> window \<times> row_message list \<times> row_message list" where
  "set_bridges_live now sess sh live w =
     (let (d, rows) = dl_set_live sess live (wd_downloads_live w);
          (s, share_rows) = sp_set_live now sess sh live (wd_share_live w)
      in (w\<lparr>wd_downloads_live := d, wd_share_live := s\<rparr>, rows, share_rows))"

datatype show_event = Show_Event | Hide_Event | State_Change bool | Other_Change

definition show_state :: "show_event \<Rightarrow> window \<Rightarrow> window" where
  "show_state e w =
     (case e of Show_Event \<Rightarrow> w\<lparr>wd_visible := True\<rparr> | Hide_Event \<Rightarrow> w\<lparr>wd_visible := False\<rparr>
      | State_Change minimized \<Rightarrow> w\<lparr>wd_minimized := minimized\<rparr> | Other_Change \<Rightarrow> w)"

definition on_show_event :: "rat \<Rightarrow> session \<Rightarrow> share_service \<Rightarrow> show_event \<Rightarrow> window \<Rightarrow> window \<times> row_message list \<times> row_message list" where
  "on_show_event now sess sh e w =
     (let w' = show_state e w
      in case e of
           Show_Event \<Rightarrow> set_bridges_live now sess sh (\<not> wd_minimized w') w'
         | Hide_Event \<Rightarrow> set_bridges_live now sess sh False w'
         | State_Change _ \<Rightarrow> set_bridges_live now sess sh (wd_visible w' \<and> \<not> wd_minimized w') w'
         | Other_Change \<Rightarrow> (w', [], []))"

text \<open>\<open>closeEvent\<close>; the flag: the close is accepted. Otherwise the window is hidden.\<close>

definition close_event :: "settings \<Rightarrow> bool \<Rightarrow> rat \<Rightarrow> session \<Rightarrow> share_service \<Rightarrow> window
    \<Rightarrow> bool \<times> window \<times> row_message list \<times> row_message list" where
  "close_event cfg tray_available now sess sh w =
     (if cfg_minimize_to_tray cfg \<and> tray_available then (False, on_show_event now sess sh Hide_Event w)
      else (True, w, [], []))"

text \<open>\<open>launchInstaller\<close>: the installer is started, then the window closed. \<open>discardInstaller\<close> over the
  files there are.\<close>

definition launch_installer :: "settings \<Rightarrow> bool \<Rightarrow> rat \<Rightarrow> session \<Rightarrow> share_service \<Rightarrow> string \<Rightarrow> window
    \<Rightarrow> string list \<times> bool \<times> window \<times> row_message list \<times> row_message list" where
  "launch_installer cfg tray_available now sess sh local_path w = ([local_path], close_event cfg tray_available now sess sh w)"

definition discard_installer :: "string \<Rightarrow> string set \<Rightarrow> string set" where
  "discard_installer local_path files = files - {local_path}"

text \<open>The query of the page's address: a known theme, and a mode other than the default.\<close>

definition WEB_THEME_IDS :: "string list" where
  "WEB_THEME_IDS = [''luna_xp'', ''win7_aero'', ''win10_fluent'', ''win11_mica'', ''win95_classic'', ''macos_modern'',
     ''cccp_soviet'', ''windows-8'', ''amiga-workbench'', ''art-deco'', ''bauhaus'', ''beos-r5'', ''blueprint'', ''cde-motif'',
     ''chromeos'', ''frutiger-aero'', ''kde-plasma'', ''gnome-adwaita'', ''linux-mint'', ''macos-9'', ''macos-x-aqua'',
     ''macos-x-leopard'', ''macintosh-system-1'', ''memphis'', ''nextstep'', ''palm-os'', ''soviet-cosmic'',
     ''swiss-international'', ''synthwave'', ''tui-dos'', ''terminal-phosphor'', ''ubuntu'', ''ubuntu-unity'', ''web-brutalism'']"

definition index_query :: "settings \<Rightarrow> (string \<times> string) list" where
  "index_query cfg =
     (if cfg_theme cfg \<in> set WEB_THEME_IDS then [(''theme'', cfg_theme cfg)] else [])
     @ (if cfg_appearance_mode cfg \<in> {''dark'', ''dark_hc''} then [(''mode'', cfg_appearance_mode cfg)] else [])"

section \<open>The panel and the anthem\<close>

text \<open>\<open>an_player\<close>: the player was built; \<open>an_output\<close>: the volume it plays at, once it was.\<close>

record anthem =
  an_volume :: rat
  an_output :: "rat option"
  an_playing :: bool

definition anthem_set_volume :: "int \<Rightarrow> anthem \<Rightarrow> anthem" where
  "anthem_set_volume percent a =
     (let v = int_truediv (max 0 (min 100 percent)) 100
      in a\<lparr>an_volume := v, an_output := (case an_output a of None \<Rightarrow> None | Some _ \<Rightarrow> Some v)\<rparr>)"

definition anthem_init :: "int \<Rightarrow> anthem" where
  "anthem_init percent = anthem_set_volume percent \<lparr>an_volume = 0, an_output = None, an_playing = False\<rparr>"

definition anthem_start :: "anthem \<Rightarrow> anthem" where
  "anthem_start a =
     (let a' = (case an_output a of Some _ \<Rightarrow> a | None \<Rightarrow> a\<lparr>an_output := Some (an_volume a)\<rparr>) in a'\<lparr>an_playing := True\<rparr>)"

definition anthem_stop :: "anthem \<Rightarrow> anthem" where
  "anthem_stop a = (case an_output a of None \<Rightarrow> a | Some _ \<Rightarrow> a\<lparr>an_playing := False\<rparr>)"

definition PROPAGANDA_PANEL_WIDTH :: int where "PROPAGANDA_PANEL_WIDTH = 220"
definition MINIMUM_WIDTH :: int where "MINIMUM_WIDTH = 640"

text \<open>\<open>setPropagandaPanelActive\<close> over whether the panel is active, the window and the anthem.\<close>

definition set_propaganda_panel :: "bool \<Rightarrow> bool \<times> window \<times> anthem \<Rightarrow> bool \<times> window \<times> anthem" where
  "set_propaganda_panel active x =
     (let (was_active, w, a) = x
      in if active = was_active then x
         else if active then (True, resize_event (fst (wd_rect w) + PROPAGANDA_PANEL_WIDTH, snd (wd_rect w)) w, anthem_start a)
         else (False, resize_event (max MINIMUM_WIDTH (fst (wd_rect w) - PROPAGANDA_PANEL_WIDTH), snd (wd_rect w)) w, anthem_stop a))"

definition mark_onboarding_seen :: "settings_env \<Rightarrow> live \<Rightarrow> live \<times> bool" where
  "mark_onboarding_seen env x = save_then env (\<lambda>s. s) (change_settings (\<lambda>c. c\<lparr>cfg_first_launch_seen := True\<rparr>) x)"

section \<open>Facts\<close>

datatype resize_input = Native native_message | Resized rect | Release_Timer

fun resize_step :: "resize_input \<Rightarrow> window \<Rightarrow> window" where
  "resize_step (Native m) w = native_event m w"
| "resize_step (Resized r) w = resize_event r w"
| "resize_step Release_Timer w = release_resize_overlay w"

text \<open>One picture is in front exactly while a gesture runs, and follows the window; a picture left over
  from a finished gesture still has a timer to remove it.\<close>

definition resize_ok :: "window \<Rightarrow> bool" where
  "resize_ok w \<longleftrightarrow> (if wd_resizing w then wd_overlay w = (wd_rect w, True)
     else wd_view w = wd_rect w \<and> (snd (wd_overlay w) \<longrightarrow> 0 < wd_releases w))"

lemma resize_ok_step: "resize_ok w \<Longrightarrow> resize_ok (resize_step e w)"
proof (cases e)
  case (Native m)
  assume "resize_ok w"
  then show ?thesis
    by (cases m) (auto simp: Native native_event_def begin_resize_freeze_def end_resize_freeze_def resize_ok_def)
next
  case (Resized r)
  assume "resize_ok w"
  then show ?thesis by (auto simp: Resized resize_event_def resize_ok_def Let_def)
next
  case Release_Timer
  assume "resize_ok w"
  then show ?thesis by (auto simp: Release_Timer release_resize_overlay_def resize_ok_def Let_def)
qed

lemma resize_ok_run: "resize_ok w \<Longrightarrow> resize_ok (foldl (\<lambda>w e. resize_step e w) w es)"
  by (induction es arbitrary: w) (simp_all add: resize_ok_step)

lemma releases_run_out:
  "resize_ok w \<Longrightarrow> \<not> wd_resizing w \<Longrightarrow>
   let w' = (release_resize_overlay ^^ wd_releases w) w
   in \<not> snd (wd_overlay w') \<and> wd_view w' = wd_rect w \<and> wd_releases w' = 0"
proof (induction "wd_releases w" arbitrary: w)
  case 0
  then show ?case by (auto simp: resize_ok_def Let_def)
next
  case (Suc n)
  let ?w = "release_resize_overlay w"
  have w: "wd_releases ?w = n" "\<not> wd_resizing ?w" "wd_rect ?w = wd_rect w"
    using Suc.hyps(2) [symmetric] Suc.prems(2) by (simp_all add: release_resize_overlay_def)
  have ok: "resize_ok ?w" using resize_ok_step [OF Suc.prems(1), of Release_Timer] by simp
  show ?case
    using Suc.hyps(1) [OF w(1) [symmetric] ok w(2)] w Suc.hyps(2) [symmetric] by (simp add: funpow_Suc_right Let_def del: funpow.simps)
qed

text \<open>With the window hidden to the tray instead of closed, the installer runs while the program it is
  to replace does too.\<close>

lemma installer_runs_beside_program:
  assumes "cfg_minimize_to_tray cfg"
  shows "let (started, accepted, w', rows) = launch_installer cfg True now sess sh p w
         in started = [p] \<and> \<not> accepted \<and> \<not> wd_visible w'"
  using assms by (simp add: launch_installer_def close_event_def on_show_event_def show_state_def set_bridges_live_def
      dl_set_live_def sp_set_live_def Let_def)

section \<open>Properties\<close>

text \<open>However gestures, resizes and timers interleave, the page fills the window whenever no gesture
  runs, one picture covers the whole window while one does, and once the timers that are due have
  fired no picture is left.\<close>

theorem resize_never_stuck:
  "let w = foldl (\<lambda>w e. resize_step e w) (window_init freeze) es;
       w' = (release_resize_overlay ^^ wd_releases w) w
   in (wd_resizing w \<longrightarrow> wd_overlay w = (wd_rect w, True))
      \<and> (\<not> wd_resizing w \<longrightarrow> wd_view w = wd_rect w \<and> \<not> snd (wd_overlay w') \<and> wd_view w' = wd_rect w)"
proof -
  have "resize_ok (window_init freeze)" by (simp add: resize_ok_def window_init_def)
  then have ok: "resize_ok (foldl (\<lambda>w e. resize_step e w) (window_init freeze) es)" by (rule resize_ok_run)
  show ?thesis using ok releases_run_out [OF ok] by (simp add: resize_ok_def Let_def)
qed

definition opened :: "page_script list \<Rightarrow> string list" where
  "opened js = List.map_filter (\<lambda>j. case j of Analyze_Magnet s \<Rightarrow> Some s | Select_Torrent_File s \<Rightarrow> Some s | _ \<Rightarrow> None) js"

lemma opened_run: "opened (wd_scripts (run_open_source s w)) = opened (wd_scripts w) @ [s]"
  by (simp add: opened_def run_open_source_def map_filter_append List.map_filter_simps)

lemma open_before:
  "\<not> wd_page_loaded w \<Longrightarrow> foldl (\<lambda>w s. on_argument_received s w) w ss =
     (if filter (\<lambda>s. s \<noteq> []) ss = [] then w else w\<lparr>wd_pending_source := Some (last (filter (\<lambda>s. s \<noteq> []) ss))\<rparr>)"
  by (induction ss arbitrary: w) (auto simp: on_argument_received_def open_source_def)

lemma open_after:
  "wd_page_loaded w \<Longrightarrow> opened (wd_scripts (foldl (\<lambda>w s. on_argument_received s w) w ss))
     = opened (wd_scripts w) @ filter (\<lambda>s. s \<noteq> []) ss"
proof (induction ss arbitrary: w)
  case (Cons s ss)
  have "wd_page_loaded (on_argument_received s w)" using Cons.prems
    by (simp add: on_argument_received_def open_source_def run_open_source_def)
  moreover have "opened (wd_scripts (on_argument_received s w)) = opened (wd_scripts w) @ (if s \<noteq> [] then [s] else [])"
    using Cons.prems opened_run [of s w] by (simp add: on_argument_received_def open_source_def)
  ultimately show ?case using Cons.IH by simp
qed simp

text \<open>Of the torrents handed over before the page has loaded only the last one is opened, the others
  are lost; if the page fails to load it is not opened either. Every one handed over afterwards is
  opened, in order, and an empty argument opens nothing.\<close>

theorem only_last_early_source_opened:
  "opened (wd_scripts (foldl (\<lambda>w s. on_argument_received s w)
       (on_page_loaded ok (foldl (\<lambda>w s. on_argument_received s w) (window_init freeze) early)) late))
     = (if filter (\<lambda>s. s \<noteq> []) early \<noteq> [] \<and> ok then [last (filter (\<lambda>s. s \<noteq> []) early)] else []) @ filter (\<lambda>s. s \<noteq> []) late"
proof -
  let ?w = "foldl (\<lambda>w s. on_argument_received s w) (window_init freeze) early"
  let ?p = "if filter (\<lambda>s. s \<noteq> []) early = [] then None else Some (last (filter (\<lambda>s. s \<noteq> []) early))"
  have w: "wd_scripts ?w = []" "wd_pending_source ?w = ?p"
    using open_before [of "window_init freeze" early] by (simp_all add: window_init_def)
  have l: "wd_page_loaded (on_page_loaded ok ?w)"
    by (simp add: on_page_loaded_def run_open_source_def Let_def split: option.split)
  have "opened (wd_scripts (on_page_loaded ok ?w)) = (case ?p of Some s \<Rightarrow> if ok then [s] else [] | None \<Rightarrow> [])"
    using w opened_run by (simp add: on_page_loaded_def Let_def opened_def List.map_filter_simps)
  then show ?thesis unfolding open_after [OF l] by simp
qed

text \<open>After any events of the window both pages are live exactly while it is visible and not
  minimized; hidden, they are sent no status rows at all, and the event that brings the window back
  sends every row as it then is, once.\<close>

theorem hidden_page_sent_nothing:
  assumes "wd_downloads_live w = (wd_visible w \<and> \<not> wd_minimized w)" and "wd_share_live w = (wd_visible w \<and> \<not> wd_minimized w)"
    and "on_show_event now sess sh e w = (w', rows, share_rows)"
  shows "wd_downloads_live w' = (wd_visible w' \<and> \<not> wd_minimized w') \<and> wd_share_live w' = (wd_visible w' \<and> \<not> wd_minimized w')
    \<and> (if \<not> wd_downloads_live w \<and> wd_downloads_live w'
        then rows = [Rows_Updated (list_rows sess)] \<and> share_rows = [Rows_Updated (list_share_rows now sess sh)]
        else rows = [] \<and> share_rows = [])
    \<and> (\<not> wd_downloads_live w' \<longrightarrow> dl_on_signal sess (StatusBatchUpdated rs) (wd_downloads_live w') = []
         \<and> sp_on_signal now sess sh (StatusBatchUpdated rs) (wd_share_live w') = [])"
proof -
  define v where "v = show_state e w"
  have live: "wd_downloads_live v = wd_downloads_live w" "wd_share_live v = wd_downloads_live w"
    using assms(1,2) by (simp_all add: v_def show_state_def split: show_event.split)
  show ?thesis
  proof (cases "e = Other_Change")
    case True
    then have "w' = v" "rows = []" "share_rows = []" "v = w"
      using assms(3) by (simp_all add: on_show_event_def v_def show_state_def)
    then show ?thesis using assms(1,2) by (simp add: dl_on_signal_def sp_on_signal_def)
  next
    case False
    have e: "(w', rows, share_rows) = set_bridges_live now sess sh (wd_visible v \<and> \<not> wd_minimized v) v"
      using assms(3) False by (cases e) (simp_all add: on_show_event_def v_def show_state_def Let_def)
    have sent: "w' = v\<lparr>wd_downloads_live := (wd_visible v \<and> \<not> wd_minimized v), wd_share_live := (wd_visible v \<and> \<not> wd_minimized v)\<rparr>"
      "rows = (if (wd_visible v \<and> \<not> wd_minimized v) \<and> \<not> wd_downloads_live w then [Rows_Updated (list_rows sess)] else [])"
      "share_rows = (if (wd_visible v \<and> \<not> wd_minimized v) \<and> \<not> wd_downloads_live w then [Rows_Updated (list_share_rows now sess sh)] else [])"
      using e by (simp_all add: set_bridges_live_def dl_set_live_def sp_set_live_def Let_def live)
    show ?thesis unfolding sent by (simp add: dl_on_signal_def sp_on_signal_def)
  qed
qed

theorem hidden_page_sent_nothing_witness:
  "\<exists>w' rows share_rows. on_show_event 0 small_session \<lparr>sh_limits = [], sh_file = Missing, sh_timer = False, sh_sigs = []\<rparr> Show_Event
       ((window_init True)\<lparr>wd_downloads_live := False, wd_share_live := False\<rparr>) = (w', rows, share_rows)
     \<and> rows = [Rows_Updated (list_rows small_session)]"
proof -
  let ?w = "(window_init True)\<lparr>wd_downloads_live := False, wd_share_live := False\<rparr>"
  let ?sh = "\<lparr>sh_limits = [], sh_file = Missing, sh_timer = False, sh_sigs = []\<rparr>"
  obtain w' rows share_rows where e: "on_show_event 0 small_session ?sh Show_Event ?w = (w', rows, share_rows)"
    by (metis prod.exhaust)
  have l: "wd_downloads_live ?w = (wd_visible ?w \<and> \<not> wd_minimized ?w)" "wd_share_live ?w = (wd_visible ?w \<and> \<not> wd_minimized ?w)"
    by (simp_all add: window_init_def)
  have "wd_downloads_live w'"
    using e by (auto simp: on_show_event_def show_state_def set_bridges_live_def dl_set_live_def sp_set_live_def window_init_def Let_def)
  then show ?thesis using hidden_page_sent_nothing [OF l e] e by (simp add: window_init_def)
qed

theorem resize_never_stuck_witness:
  "let w = foldl (\<lambda>w e. resize_step e w) (window_init True) [Native (Enter_Size_Move False), Resized (700, 500), Native Exit_Size_Move]
   in wd_view w = (700, 500) \<and> \<not> snd (wd_overlay ((release_resize_overlay ^^ wd_releases w) w))"
proof -
  let ?w = "foldl (\<lambda>w e. resize_step e w) (window_init True) [Native (Enter_Size_Move False), Resized (700, 500), Native Exit_Size_Move]"
  have w: "\<not> wd_resizing ?w" "wd_rect ?w = (700, 500)"
    by (simp_all add: window_init_def native_event_def begin_resize_freeze_def end_resize_freeze_def resize_event_def)
  show ?thesis
    using resize_never_stuck [of True "[Native (Enter_Size_Move False), Resized (700, 500), Native Exit_Size_Move]"] w
    unfolding Let_def by simp
qed

end
