(* ===== verification/App.thy ===== *)
theory App
  imports Window Session_Reach
begin

text \<open>
  The start and the end of the process, \<open>main\<close> of \<open>run_web_spike.py\<close>: which services it starts, and
  \<open>_shutdown\<close>, what \<open>aboutToQuit\<close> runs. The services are the records of their own theories; Qt's pool
  is the number of tasks that have not started, and the four cancellations are one flag each.
\<close>

section \<open>Quitting\<close>

record app =
  qt_started :: bool
  qt_auto :: shutdown_service
  qt_queued :: nat
  qt_fetches_cancelled :: bool
  qt_scans_cancelled :: bool
  qt_extractions_cancelled :: bool
  qt_blocklist_cancelled :: bool
  qt_share :: share_service
  qt_server :: remote_server
  qt_session :: session
  qt_unsaved :: "handle list"

text \<open>\<open>_shutdown\<close>: \<open>rounds\<close> is what each pass of the session's wait sees, with what the slots that run during
  it do to the session. The handles still owed their resume data at the end are \<open>qt_unsaved\<close>.\<close>

definition app_quit :: "world \<Rightarrow> wait_round list \<Rightarrow> 'a app_scheme \<Rightarrow> 'a app_scheme" where
  "app_quit w rounds a =
     (if qt_started a then a
      else let (sess, unsaved) = shutdown w 3000 rounds (qt_session a)
           in a\<lparr>qt_started := True,
                qt_auto := stop_shutdown (qt_auto a),
                qt_queued := 0,
                qt_fetches_cancelled := True,
                qt_scans_cancelled := True,
                qt_extractions_cancelled := True,
                qt_blocklist_cancelled := True,
                qt_share := flush_pending_save (qt_share a),
                qt_server := server_stop (qt_server a),
                qt_session := sess,
                qt_unsaved := unsaved\<rparr>)"

section \<open>Starting\<close>

text \<open>The services of a launch that becomes the primary: the session of the saved settings, the web
  server only when it is enabled, and the source of the command line. \<open>fresh_token\<close> and \<open>bound\<close> are
  \<open>server_start\<close>'s.\<close>

definition app_start :: "string \<Rightarrow> bool \<Rightarrow> session \<Rightarrow> share_service \<Rightarrow> app" where
  "app_start fresh_token bound sess share =
     (let cfg = ss_settings sess; idle = \<lparr>rm_running = False, rm_saves = 0\<rparr>;
          (server, cfg') = (if cfg_remote_access_enabled cfg then snd (server_start fresh_token bound idle cfg) else (idle, cfg))
      in \<lparr>qt_started = False, qt_auto = shutdown_init, qt_queued = 0, qt_fetches_cancelled = False, qt_scans_cancelled = False,
          qt_extractions_cancelled = False, qt_blocklist_cancelled = False, qt_share = share, qt_server = server,
          qt_session = sess\<lparr>ss_settings := cfg'\<rparr>, qt_unsaved = []\<rparr>)"

text \<open>The window of the launch, given the arguments of the command line.\<close>

definition app_window :: "bool \<Rightarrow> string list \<Rightarrow> window" where
  "app_window freeze argv = (case argv of _ # source # _ \<Rightarrow> open_source source (window_init freeze) | _ \<Rightarrow> window_init freeze)"

section \<open>Facts\<close>

text \<open>Once stopped, nothing starts a countdown and nothing runs a command.\<close>

definition quiet_output :: "sd_out \<Rightarrow> bool" where
  "quiet_output x \<longleftrightarrow> (case x of RetryNextTurn \<Rightarrow> True | _ \<Rightarrow> False)"

lemma stopped_step:
  assumes "sd_stopped s" "sd_pending s = None"
  shows "sd_stopped (sd_step e s) \<and> sd_pending (sd_step e s) = None
       \<and> filter (\<lambda>x. \<not> quiet_output x) (sd_out (sd_step e s)) = filter (\<lambda>x. \<not> quiet_output x) (sd_out s)"
  using assms
  by (cases e) (simp_all add: maybe_start_countdown_def on_busy_source_idle_def cancel_shutdown_def stop_shutdown_def
      on_countdown_elapsed_def sd_emit_def quiet_output_def)

lemma stopped_run:
  assumes "sd_stopped s" "sd_pending s = None"
  shows "filter (\<lambda>x. \<not> quiet_output x) (sd_out (foldl (\<lambda>s e. sd_step e s) s es)) = filter (\<lambda>x. \<not> quiet_output x) (sd_out s)"
  using assms by (induction es arbitrary: s) (simp_all add: stopped_step)

lemma shutdown_alerts_keeps:
  "ss_cmds (fst (fst (shutdown_alerts w as x))) = ss_cmds (fst x)
   \<and> ss_timer_active (fst (fst (shutdown_alerts w as x))) = ss_timer_active (fst x)"
proof (induction as arbitrary: x)
  case (Cons a as)
  obtain s p where "x = (s, p)" by (cases x)
  then show ?case using Cons.IH by (cases a) (auto simp: save_resume_params_def split: option.split)
qed simp

text \<open>The wait itself calls nothing: what the slots keep of the calls and of the timer, it keeps.\<close>

lemma shutdown_wait_invariant:
  assumes "\<forall>f\<in>round_slots rounds. \<forall>s. P (ss_cmds s) (ss_timer_active s) \<longrightarrow> P (ss_cmds (f s)) (ss_timer_active (f s))"
    and "P (ss_cmds (fst x)) (ss_timer_active (fst x))"
  shows "P (ss_cmds (fst (shutdown_wait w t rounds x))) (ss_timer_active (fst (shutdown_wait w t rounds x)))"
  using assms
proof (induction rounds arbitrary: x)
  case (Cons r rounds)
  obtain u slots alerts s pending where x: "r = (u, slots, alerts)" "x = (s, pending)" by (metis prod.exhaust)
  obtain s' p' ok where a: "shutdown_alerts w alerts (slots s, pending) = ((s', p'), ok)" by (metis prod.exhaust)
  have "P (ss_cmds (slots s)) (ss_timer_active (slots s))" using Cons.prems by (simp add: x round_slots_def)
  then have s': "P (ss_cmds s') (ss_timer_active s')"
    using shutdown_alerts_keeps [of w alerts "(slots s, pending)"] by (simp add: a)
  moreover have "\<forall>f\<in>round_slots rounds. \<forall>s. P (ss_cmds s) (ss_timer_active s) \<longrightarrow> P (ss_cmds (f s)) (ss_timer_active (f s))"
    using Cons.prems(1) by (simp add: round_slots_def)
  ultimately show ?case using Cons.IH [of "(s', p')"] Cons.prems(2) by (cases ok) (simp_all add: x a)
qed simp

lemma shutdown_effect:
  "\<forall>f\<in>round_slots rounds. \<forall>s. ss_cmds (f s) = ss_cmds s \<and> ss_timer_active (f s) = ss_timer_active s \<Longrightarrow>
   ss_cmds (fst (shutdown w timeout_ms rounds s)) = ss_cmds s @ map (\<lambda>h. SaveResumeData h False) (filter (w_valid w) (dvals (ss_handles s)))
   \<and> \<not> ss_timer_active (fst (shutdown w timeout_ms rounds s))"
  unfolding shutdown_def
  by (rule shutdown_wait_invariant [where P = "\<lambda>cs b. cs = ss_cmds s @ map (\<lambda>h. SaveResumeData h False) (filter (w_valid w) (dvals (ss_handles s))) \<and> \<not> b"])
    (simp_all add: shutdown_start_def Let_def)

text \<open>Slots that only add calls add them after the requests.\<close>

lemma shutdown_requests:
  "\<forall>f\<in>round_slots rounds. \<forall>s. prefix (ss_cmds s) (ss_cmds (f s)) \<Longrightarrow>
   prefix (ss_cmds s @ map (\<lambda>h. SaveResumeData h False) (filter (w_valid w) (dvals (ss_handles s))))
     (ss_cmds (fst (shutdown w timeout_ms rounds s)))"
  unfolding shutdown_def
  by (rule shutdown_wait_invariant [where P = "\<lambda>cs b. prefix (ss_cmds s @ map (\<lambda>h. SaveResumeData h False) (filter (w_valid w) (dvals (ss_handles s)))) cs"])
    (auto simp: shutdown_start_def Let_def intro: prefix_order.trans)

section \<open>Properties\<close>

text \<open>C31: quitting stops everything, once: whatever asks for the shutdown again changes nothing, no
  countdown starts and no shutdown command runs whatever still happens to the service, the share
  limits on disk are those in memory, the web server is off, and every torrent with a valid handle
  is asked for its resume data once and by nothing else after the timer has stopped. The slots that
  run while the session waits for the answers change none of this when they call nothing on libtorrent;
  what they call comes after the requests.\<close>

theorem quit_stops_everything:
  assumes "\<not> qt_started a" and "share_synced (qt_share a)"
  shows "let a' = app_quit w rounds a;
             requests = map (\<lambda>h. SaveResumeData h False) (filter (w_valid w) (dvals (ss_handles (qt_session a)))) in
     app_quit w' rounds' a' = a'
     \<and> filter (\<lambda>x. \<not> quiet_output x) (sd_out (foldl (\<lambda>s e. sd_step e s) (qt_auto a') es)) = filter (\<lambda>x. \<not> quiet_output x) (sd_out (qt_auto a))
     \<and> share_load (sh_file (qt_share a')) = Loaded (sh_limits (qt_share a))
     \<and> \<not> rm_running (qt_server a') \<and> qt_queued a' = 0
     \<and> ((\<forall>f\<in>round_slots rounds. \<forall>s. ss_cmds (f s) = ss_cmds s \<and> ss_timer_active (f s) = ss_timer_active s) \<longrightarrow>
          ss_cmds (qt_session a') = ss_cmds (qt_session a) @ requests \<and> \<not> ss_timer_active (qt_session a'))
     \<and> ((\<forall>f\<in>round_slots rounds. \<forall>s. prefix (ss_cmds s) (ss_cmds (f s))) \<longrightarrow>
          prefix (ss_cmds (qt_session a) @ requests) (ss_cmds (qt_session a')))"
proof -
  obtain sess unsaved where s: "shutdown w 3000 rounds (qt_session a) = (sess, unsaved)" by (metis prod.exhaust)
  define a' where "a' = app_quit w rounds a"
  have f: "qt_started a'" "qt_auto a' = stop_shutdown (qt_auto a)" "qt_share a' = flush_pending_save (qt_share a)"
    "qt_server a' = server_stop (qt_server a)" "qt_queued a' = 0" "qt_session a' = sess"
    using assms(1) by (simp_all add: a'_def app_quit_def s)
  have again: "app_quit w' rounds' a' = a'" using f(1) by (simp add: app_quit_def)
  have sd: "sd_stopped (stop_shutdown z)" "sd_pending (stop_shutdown z) = None" "sd_out (stop_shutdown z) = sd_out z" for z
    by (simp_all add: stop_shutdown_def cancel_shutdown_def)
  have quiet: "filter (\<lambda>x. \<not> quiet_output x) (sd_out (foldl (\<lambda>s e. sd_step e s) (qt_auto a') es)) = filter (\<lambda>x. \<not> quiet_output x) (sd_out (qt_auto a))"
    unfolding f stopped_run [OF sd(1,2)] sd(3) by (rule refl)
  have saved: "share_load (sh_file (qt_share a')) = Loaded (sh_limits (qt_share a))"
    using assms(2) share_load_save [of "qt_share a\<lparr>sh_timer := False\<rparr>"]
    by (auto simp: f flush_pending_save_def share_synced_def share_save_def)
  show ?thesis
    unfolding a'_def [symmetric] Let_def
    using again quiet saved shutdown_effect [of rounds w 3000 "qt_session a"] shutdown_requests [of rounds "qt_session a" w 3000]
    by (simp add: f s server_stop_def)
qed

theorem quit_stops_everything_witness:
  "let a = app_start ''token'' True small_session \<lparr>sh_limits = [], sh_file = Missing, sh_timer = False, sh_sigs = []\<rparr>;
       a' = app_quit small_world [(50, id, [SaveResumeDataFailedAlert 1])] a
   in app_quit small_world [] a' = a' \<and> \<not> rm_running (qt_server a')
     \<and> ss_cmds (qt_session a') = [SaveResumeData 1 False, SaveResumeData 3 False]"
proof -
  let ?a = "app_start ''token'' True small_session \<lparr>sh_limits = [], sh_file = Missing, sh_timer = False, sh_sigs = []\<rparr>"
  have n: "\<not> qt_started ?a" by (simp add: app_start_def Let_def split: prod.split)
  have s: "share_synced (qt_share ?a)"
    by (simp add: app_start_def Let_def share_synced_def split: prod.split)
  have c: "ss_cmds (qt_session ?a) = []" "ss_handles (qt_session ?a) = [(''A'', 1), (''B'', 2), (''C'', 3)]"
    by (simp_all add: app_start_def Let_def small_session_def session_fields_def split: prod.split)
  show ?thesis
    using quit_stops_everything [OF n s, where w = small_world and rounds = "[(50, id, [SaveResumeDataFailedAlert 1])]"
        and w' = small_world and rounds' = "[]"]
    unfolding Let_def by (simp add: c small_world_def round_slots_def)
qed

end
