(* ===== verification/Session_Disk.thy ===== *)
theory Session_Disk
  imports Session_Reach
begin

text \<open>
  The files the session writes on the way, beside the resume files: the categories, the reputation of
  the peers and the peers of the local network. In every state what is on disk can be read again,
  the categories on disk are those in memory, and so is the reputation once it is not dirty.
\<close>

section \<open>The stores of the session\<close>

definition persisted :: "session \<Rightarrow> categories \<times> rep_tracker \<times> lan_store" where
  "persisted s = (ss_categories s, ss_rep s, ss_lan s)"

interpretation persisted: store_view persisted
  by unfold_locales (simp_all add: persisted_def)

definition categories_synced :: "categories \<Rightarrow> bool" where
  "categories_synced c \<longleftrightarrow> categories_load (ct_file c) = Some c"

definition rep_synced :: "rep_store \<Rightarrow> bool" where
  "rep_synced r \<longleftrightarrow> (\<exists>d. load_map reputation_of_json (rs_file r) = Some d \<and> (\<not> rs_dirty r \<longrightarrow> d = rs_records r))"

definition lan_readable :: "lan_store \<Rightarrow> bool" where
  "lan_readable l \<longleftrightarrow> load_map by_ip_of_json (ls_file l) \<noteq> None"

definition disk_ok :: "session \<Rightarrow> bool" where
  "disk_ok s \<longleftrightarrow> categories_synced (ss_categories s) \<and> rep_synced (rt_store (ss_rep s)) \<and> lan_readable (ss_lan s)"

lemma disk_ok_persisted:
  assumes "persisted s' = persisted s"
  shows "disk_ok s' = disk_ok s"
  using assms by (simp only: disk_ok_def persisted_def prod.inject)

lemma disk_ok_keep: "disk_ok s \<Longrightarrow> persisted s' = persisted s \<Longrightarrow> disk_ok s'"
  by (rule disk_ok_persisted [THEN iffD2])

lemma disk_okI:
  "categories_synced (ss_categories s) \<Longrightarrow> rep_synced (rt_store (ss_rep s)) \<Longrightarrow> lan_readable (ss_lan s) \<Longrightarrow> disk_ok s"
  by (simp add: disk_ok_def)

lemma disk_okD:
  assumes "disk_ok s"
  shows "categories_synced (ss_categories s)" "rep_synced (rt_store (ss_rep s))" "lan_readable (ss_lan s)"
  using assms by (simp_all add: disk_ok_def)

section \<open>The categories\<close>

lemma synced_set_category: "categories_synced (set_category ih c cats)"
  by (simp add: categories_synced_def set_category_def categories_reload)

lemma synced_remove_category: "categories_synced cats \<Longrightarrow> categories_synced (remove_category ih cats)"
  by (auto simp: categories_synced_def remove_category_def categories_reload split: option.split)

lemma synced_loaded: "categories_load f = Some c \<Longrightarrow> categories_synced c"
  by (auto simp: categories_synced_def categories_load_def)

section \<open>The reputation\<close>

lemma rep_synced_save: "rep_synced (rep_save now r)"
  by (simp add: rep_synced_def rep_save_def reputation_codec.reload_map)

lemma rep_synced_flush: "rep_synced r \<Longrightarrow> rep_synced (rep_flush now m r)"
  by (simp add: rep_flush_def rep_synced_save)

lemma rep_synced_record: "rep_synced r \<Longrightarrow> rep_synced (record_disconnect now ip t b f False r)"
  by (auto simp: rep_synced_def record_disconnect_def Let_def)

lemma rep_synced_gone:
  "rep_synced r \<Longrightarrow> fold_gone now ips (d, r) = (d', r') \<Longrightarrow> rep_synced r'"
proof (induction ips arbitrary: d r)
  case (Cons ip ips)
  show ?case
  proof (cases "dget d ip")
    case None
    then show ?thesis using Cons by simp
  next
    case (Some x)
    obtain f b h where x: "x = (f, b, h)" by (cases x)
    have rest: "fold_gone now ips (dpop ip d, record_disconnect now ip (fsub now f) b h False r) = (d', r')"
      using Cons.prems(2) by (simp add: Some x)
    show ?thesis by (rule Cons.IH [OF rep_synced_record [OF Cons.prems(1)] rest])
  qed
qed simp

lemma rep_synced_observe: "rep_synced (rt_store t) \<Longrightarrow> rep_synced (rt_store (observe now ih raw t))"
  by (auto simp: observe_def Let_def rep_synced_flush dest: rep_synced_gone split: prod.split)

lemma rep_synced_loaded: "rep_load f = Some r \<Longrightarrow> rep_synced r"
  by (auto simp: rep_synced_def rep_load_def)

section \<open>The peers of the local network\<close>

lemma lan_readable_save: "lan_readable (lan_save l)"
proof -
  have "by_ip_of_json (map_json lan_peer_json d) = Inr d" for d
    using lan_peer_codec.reload_map [of d] by (simp add: map_json_def)
  then show ?thesis by (simp add: lan_readable_def lan_save_def load_map_enc)
qed

lemma lan_readable_ops:
  assumes "lan_readable l"
  shows "lan_readable (record_peers wall tick ih raw l)" "lan_readable (lan_flush l)"
    "reconnect_cached_peers ok wall ih l = (eps, n, l') \<Longrightarrow> lan_readable l'"
proof -
  have "lan_readable (l\<lparr>ls_entries := es\<rparr>)" "lan_readable (l\<lparr>ls_entries := es, ls_dirty := b\<rparr>)" for es b
    using assms by (simp_all add: lan_readable_def)
  moreover have "lan_readable ((lan_save l0)\<lparr>ls_last_saved_at := t\<rparr>)" for l0 t
    using lan_readable_save [of l0] by (simp add: lan_readable_def)
  ultimately show "lan_readable (record_peers wall tick ih raw l)"
    by (auto simp: record_peers_def Let_def split: prod.split)
  show "lan_readable (lan_flush l)" by (simp add: lan_flush_def assms lan_readable_save)
  show "lan_readable l'" if "reconnect_cached_peers ok wall ih l = (eps, n, l')"
    using that assms by (auto simp: reconnect_cached_peers_def get_peers_def Let_def lan_readable_def)
qed

lemma lan_readable_loaded: "lan_load wall f = Some l \<Longrightarrow> lan_readable l"
  by (auto simp: lan_readable_def lan_load_def)

section \<open>The operations that write\<close>

lemma disk_ok_category: "disk_ok s \<Longrightarrow> disk_ok (set_torrent_category ih category s)"
  using persisted.on_record [of ih "\<lambda>r. r\<lparr>tr_category := category\<rparr>" s]
  by (simp add: set_torrent_category_def Let_def disk_ok_def persisted_def synced_set_category)

lemma disk_ok_removed: "disk_ok s \<Longrightarrow> disk_ok (on_torrent_removed ih s)"
  by (simp add: on_torrent_removed_def disk_ok_persisted [OF persisted.emit] disk_ok_persisted [OF persisted.resume_files(2)])
    (simp add: disk_ok_def synced_remove_category)

lemma disk_ok_peers:
  assumes "disk_ok s"
  shows "disk_ok (snd (get_peer_info show_int w ih s))" "disk_ok (flush_peer_stores w s)"
  using disk_okD [OF assms] assms
  by (auto simp: get_peer_info_def flush_peer_stores_def Let_def disk_ok_def rep_synced_observe rep_synced_flush lan_readable_ops
      split: option.split)

lemma disk_ok_add:
  assumes "disk_ok s"
  shows "disk_ok (fst (add w added a aw s))"
proof -
  let ?r = "(new_record (info_hash_hex a))\<lparr>tr_name := ap_name a, tr_save_path := ap_save_path a, tr_awaiting_analysis := aw,
     tr_is_magnet_awaiting_metadata := (ap_ti a = None)\<rparr>"
  define s1 where "s1 = set_record (info_hash_hex a) ?r s"
  have ok1: "disk_ok s1" unfolding s1_def by (rule disk_ok_keep [OF assms persisted.set_record])
  have ok2: "disk_ok ((cmd c s1)\<lparr>ss_handles := hs\<rparr>)" for c hs
    by (rule disk_ok_keep [OF ok1]) (simp add: persisted.view_records persisted.cmd)
  have "disk_ok (x\<lparr>ss_lan := lan', ss_cmds := cs\<rparr>)"
    if "disk_ok x" "reconnect_cached_peers ok wall ih (ss_lan x) = (eps, n, lan')" for x ok wall ih eps n lan' cs
    using disk_okD [OF that(1)] lan_readable_ops(3) [OF _ that(2)] by (simp add: disk_ok_def)
  then show ?thesis using ok1 ok2
    by (auto simp: add_def s1_def [symmetric] Let_def disk_ok_persisted [OF persisted.emit] split: option.split prod.split)
qed

lemma disk_ok_dispatch: "disk_ok s \<Longrightarrow> disk_ok (fst (dispatch w a s))"
  by (cases a)
    (auto simp: with_hash_def disk_ok_removed disk_ok_persisted [OF persisted.state_update] disk_ok_persisted [OF persisted.emit]
      disk_ok_persisted [OF persisted.resume_files(1)] disk_ok_persisted [OF persisted.file_error]
      disk_ok_persisted [OF persisted.alert_handlers(1)] disk_ok_persisted [OF persisted.alert_handlers(2)]
      disk_ok_persisted [OF persisted.alert_handlers(3)] disk_ok_persisted [OF persisted.alert_handlers(4)] split: option.split)

lemma disk_ok_dispatch_alerts: "disk_ok s \<Longrightarrow> disk_ok (dispatch_alerts w as s)"
proof -
  have "disk_ok s \<Longrightarrow> disk_ok (dispatch_all w as s)"
    unfolding dispatch_all_def by (induction as arbitrary: s) (simp_all add: disk_ok_dispatch)
  then show "disk_ok s \<Longrightarrow> disk_ok (dispatch_alerts w as s)" by (simp add: dispatch_alerts_def)
qed

lemma disk_ok_tick: "disk_ok s \<Longrightarrow> disk_ok (on_tick w as s)"
proof -
  assume "disk_ok s"
  then have "disk_ok (dispatch_alerts w as (cmd PostTorrentUpdates s))"
    by (intro disk_ok_dispatch_alerts) (rule disk_ok_keep [OF _ persisted.cmd])
  then have "disk_ok (fst (apply_deadline_priorities w (dispatch_alerts w as (cmd PostTorrentUpdates s))))"
    by (rule disk_ok_keep) (rule persisted.deadlines)
  then show ?thesis by (auto simp: on_tick_def disk_ok_persisted [OF persisted.autosave(2)] split: prod.split)
qed

lemma disk_ok_added:
  assumes "disk_ok s"
  shows "disk_ok (fst (add_torrent_from_file w added blank ti sp excl s))" "disk_ok (fst (add_torrent_from_magnet w added parsed sp s))"
proof -
  show "disk_ok (fst (add_torrent_from_magnet w added parsed sp s))"
    by (simp add: add_torrent_from_magnet_def disk_ok_add [OF assms])
  show "disk_ok (fst (add_torrent_from_file w added blank ti sp excl s))"
    using disk_ok_add [OF assms]
    by (simp add: add_torrent_from_file_def andthen_def Let_def disk_ok_persisted [OF persisted.emit])
qed

section \<open>Every step\<close>

lemma disk_ok_step:
  assumes "session_step s s'" and "disk_ok s"
  shows "disk_ok s'"
  using assms
proof (induction rule: session_step.induct)
  case (restore_poll w as s)
  then show ?case by (simp add: bind_restored_handles_def Let_def disk_ok_dispatch_alerts)
next
  case (settings_edited s cfg)
  then show ?case by (simp add: disk_ok_def)
qed (auto intro: disk_ok_tick disk_ok_category disk_ok_added disk_ok_peers disk_ok_keep simp: frame)

lemma disk_ok_steps: "session_step\<^sup>*\<^sup>* s s' \<Longrightarrow> disk_ok s \<Longrightarrow> disk_ok s'"
  by (induction rule: rtranclp_induct) (auto intro: disk_ok_step)

lemma disk_ok_init:
  assumes "categories_load f1 = Some cats" "rep_load f2 = Some rep" "lan_load wall f3 = Some lan"
  shows "disk_ok (session_init c v async_ok rows (session_fields cfg cats rep lan resume_dir))"
proof (rule disk_ok_keep [OF _ persisted.init], rule disk_okI)
  show "categories_synced (ss_categories (session_fields cfg cats rep lan resume_dir))"
    by (simp add: session_fields_def synced_loaded [OF assms(1)])
  show "rep_synced (rt_store (ss_rep (session_fields cfg cats rep lan resume_dir)))"
    by (simp add: session_fields_def rep_synced_loaded [OF assms(2)])
  show "lan_readable (ss_lan (session_fields cfg cats rep lan resume_dir))"
    by (simp add: session_fields_def lan_readable_loaded [OF assms(3)])
qed

end
