(* ===== verification/Startup.thy ===== *)
theory Startup
  imports App Session_Disk History_Page Language Search Window
begin

text \<open>
  The launch of the program from what is on disk, \<open>main\<close> of \<open>run_web_spike.py\<close>: the services in the
  order it builds them, each from its own file, and the exceptions that end the launch. With it, what
  can happen to the stores while the program runs, and the files it leaves.
\<close>

section \<open>The data directory\<close>

text \<open>\<open>dd_resume\<close>: the \<open>.fastresume\<close> files by stem, with what \<open>read_resume_data\<close> makes of them;
  \<open>dd_seen\<close>: the committed rows.\<close>

record data_dir =
  dd_config :: config_disk
  dd_categories :: disk_file
  dd_reputation :: disk_file
  dd_lan :: disk_file
  dd_resume :: "(string \<times> atp option) list"
  dd_share :: disk_file
  dd_rules :: disk_file
  dd_tags :: disk_file
  dd_sources :: disk_file
  dd_profiles :: disk_file
  dd_disks :: disk_file
  dd_associations :: disk_file
  dd_stats :: stats_store
  dd_history :: "history_entry list"
  dd_seen :: "(string, string \<times> string \<times> string) dict"

record launch_env =
  lv_settings :: settings_env
  lv_consts :: lt_consts
  lv_version :: string
  lv_async_ok :: "atp \<Rightarrow> bool"
  lv_wall :: rat
  lv_hour :: int
  lv_token :: string
  lv_bound :: bool
  lv_catalogs :: "string \<Rightarrow> catalog option"

section \<open>The program\<close>

record program = app +
  pg_config :: config_disk
  pg_language :: translator
  pg_watch_rules :: rule_store
  pg_stats :: stats_service
  pg_history :: history_service
  pg_rss :: rss_service
  pg_scheduler :: scheduler
  pg_rules :: rule_store
  pg_tags :: tags
  pg_sources :: source_store
  pg_profiles :: profile_store
  pg_disks :: disk_store
  pg_associations :: association_store
  pg_anthem :: anthem

fun lbind :: "'a loaded \<Rightarrow> ('a \<Rightarrow> 'b loaded) \<Rightarrow> 'b loaded" where
  "lbind (loaded.Loaded x) f = f x"
| "lbind loaded.Raised f = loaded.Raised"
| "lbind loaded.Untyped f = loaded.Untyped"

definition typed :: "'a option \<Rightarrow> 'a loaded" where
  "typed x = (case x of Some v \<Rightarrow> loaded.Loaded v | None \<Rightarrow> loaded.Untyped)"

definition launch_settings :: "settings_env \<Rightarrow> config_disk \<Rightarrow> (settings \<times> config_disk) loaded" where
  "launch_settings env d =
     (case load_settings env d of
        (Inr cfg, d') \<Rightarrow> loaded.Loaded (cfg, d')
      | (Inl TypeErr, _) \<Rightarrow> loaded.Raised
      | (Inl IllTyped, _) \<Rightarrow> loaded.Untyped)"

text \<open>The session with its first rate limits, and the services that need nothing but their files. The
  feeds and the watch folder read the rules for themselves.\<close>

definition start_session :: "launch_env \<Rightarrow> data_dir \<Rightarrow> settings \<Rightarrow> categories \<Rightarrow> rep_store \<Rightarrow> lan_store \<Rightarrow> scheduler \<times> session" where
  "start_session v d cfg cats rep lan =
     scheduler_init (lv_hour v)
       (session_init (lv_consts v) (lv_version v) (lv_async_ok v) (map snd (dd_resume d))
          (session_fields cfg cats rep lan (List.map_filter (\<lambda>(h, a). map_option (Pair h) a) (dd_resume d))))"

definition start_program :: "launch_env \<Rightarrow> data_dir \<Rightarrow> program loaded" where
  "start_program v d =
     lbind (launch_settings (lv_settings v) (dd_config d)) (\<lambda>(cfg, config).
     lbind (typed (categories_load (dd_categories d))) (\<lambda>cats.
     lbind (typed (rep_load (dd_reputation d))) (\<lambda>rep.
     lbind (typed (lan_load (lv_wall v) (dd_lan d))) (\<lambda>lan.
     lbind (share_init (dd_share d)) (\<lambda>share.
     lbind (typed (rules_init (dd_rules d))) (\<lambda>rules.
     lbind (typed (tags_load (dd_tags d))) (\<lambda>tags.
     lbind (typed (sources_init (dd_sources d))) (\<lambda>sources.
     lbind (typed (profiles_init (dd_profiles d))) (\<lambda>profiles.
     lbind (typed (disks_init (dd_disks d))) (\<lambda>disks.
     lbind (typed (associations_init (dd_associations d))) (\<lambda>associations.
     let (sched, sess) = start_session v d cfg cats rep lan;
         base = app_start (lv_token v) (lv_bound v) sess share;
         config' = (if rm_saves (qt_server base) = 0 then config
                    else fst (save_settings (lv_settings v) (ss_settings (qt_session base)) config))
     in loaded.Loaded (app.extend base (program.fields config'
          (select_language (lv_catalogs v) (Some (cfg_language cfg)) translator_init)
          rules (stats_init (dd_stats d))
          \<lparr>hy_rows = dd_history d, hy_last_known = [], hy_paused = False\<rparr>
          \<lparr>ru_paused = False, ru_pending = {}, ru_seen = \<lparr>sn_rows = dd_seen d, sn_saved = dd_seen d\<rparr>, ru_rules = rules, ru_out = []\<rparr>
          sched rules (snd (drop_orphans (fst ` set (dd_resume d)) tags)) sources profiles disks associations
          (anthem_init (cfg_audio_volume cfg)))))))))))))))"

text \<open>What the program leaves on disk.\<close>

definition files_of :: "'a program_scheme \<Rightarrow> data_dir" where
  "files_of p = \<lparr>dd_config = pg_config p, dd_categories = ct_file (ss_categories (qt_session p)),
     dd_reputation = rs_file (rt_store (ss_rep (qt_session p))), dd_lan = ls_file (ss_lan (qt_session p)),
     dd_resume = map (\<lambda>(h, a). (h, Some a)) (ss_resume_dir (qt_session p)), dd_share = sh_file (qt_share p),
     dd_rules = st_file (pg_rules p), dd_tags = tg_file (pg_tags p), dd_sources = st_file (pg_sources p),
     dd_profiles = st_file (pg_profiles p), dd_disks = st_file (pg_disks p), dd_associations = st_file (pg_associations p),
     dd_stats = ts_store (pg_stats p), dd_history = hy_rows (pg_history p), dd_seen = sn_saved (ru_seen (pg_rss p))\<rparr>"

section \<open>While it runs\<close>

text \<open>What happens to the stores. The services with a database of their own may do anything to it; an import
  replaces the configuration on disk by what the chosen file holds.\<close>

inductive program_step :: "program \<Rightarrow> program \<Rightarrow> bool" where
  session: "session_step (qt_session p) s \<Longrightarrow> program_step p (p\<lparr>qt_session := s\<rparr>)"
| share: "share_step e (qt_share p, qt_session p) = (sh, s) \<Longrightarrow> program_step p (p\<lparr>qt_share := sh, qt_session := s\<rparr>)"
| save_settings: "program_step p (p\<lparr>pg_config := fst (save_settings env cfg (pg_config p))\<rparr>)"
| config_imported: "import_config stamp backup_ok write_ok chosen (pg_config p, backups) = (result, config, backups')
    \<Longrightarrow> program_step p (p\<lparr>pg_config := config\<rparr>)"
| databases: "program_step p (p\<lparr>pg_stats := st, pg_history := hy, pg_rss := ru\<rparr>)"
| scheduler: "program_step p (p\<lparr>pg_scheduler := sc\<rparr>)"
| rule_saved: "program_step p (p\<lparr>pg_rules := save_rule r (pg_rules p)\<rparr>)"
| rule_deleted: "program_step p (p\<lparr>pg_rules := delete_rule n (pg_rules p)\<rparr>)"
| rules_reordered: "program_step p (p\<lparr>pg_rules := reorder_rules ns (pg_rules p)\<rparr>)"
| tagged: "program_step p (p\<lparr>pg_tags := tag_step op (pg_tags p)\<rparr>)"
| source_saved: "program_step p (p\<lparr>pg_sources := save_source so (pg_sources p)\<rparr>)"
| source_deleted: "program_step p (p\<lparr>pg_sources := delete_source n (pg_sources p)\<rparr>)"
| profile_saved: "program_step p (p\<lparr>pg_profiles := save_from_settings n cfg (pg_profiles p)\<rparr>)"
| profile_deleted: "program_step p (p\<lparr>pg_profiles := delete_profile n (pg_profiles p)\<rparr>)"
| disk_saved: "program_step p (p\<lparr>pg_disks := save_disk_entry k (pg_disks p)\<rparr>)"
| disk_deleted: "program_step p (p\<lparr>pg_disks := delete_disk_entry n (pg_disks p)\<rparr>)"
| association_saved: "program_step p (p\<lparr>pg_associations := save_association a (pg_associations p)\<rparr>)"
| association_deleted: "program_step p (p\<lparr>pg_associations := delete_association n (pg_associations p)\<rparr>)"

section \<open>Facts\<close>

text \<open>A store whose file reads back as its entries.\<close>

definition store_synced :: "(json \<Rightarrow> load_error + 'a) \<Rightarrow> 'a store \<Rightarrow> bool" where
  "store_synced dec s \<longleftrightarrow> load_file dec (st_file s) = Some (st_entries s)"

context json_codec
begin

lemma saved_synced: "store_synced dec (store_save enc s)"
  by (simp add: store_synced_def reload)

end

lemma typed_Loaded: "typed x = loaded.Loaded y \<longleftrightarrow> x = Some y"
  by (simp add: typed_def split: option.split)

lemma lbind_Loaded: "lbind x f = loaded.Loaded z \<longleftrightarrow> (\<exists>y. x = loaded.Loaded y \<and> f y = loaded.Loaded z)"
  by (cases x) simp_all

text \<open>Each of the stores can be read again, and gives what is in memory.\<close>

definition program_ok :: "'a program_scheme \<Rightarrow> bool" where
  "program_ok p \<longleftrightarrow>
     share_synced (qt_share p) \<and> disk_ok (qt_session p) \<and> store_synced rule_of_json (pg_rules p)
   \<and> tags_load (tg_file (pg_tags p)) = Some (pg_tags p) \<and> store_synced source_of_json (pg_sources p)
   \<and> store_synced profile_of_json (pg_profiles p) \<and> store_synced known_disk_of_json (pg_disks p)
   \<and> store_synced association_of_json (pg_associations p)"

lemma store_opened: "map_option (\<lambda>es. \<lparr>st_entries = es, st_file = f\<rparr>) (load_file dec f) = Some s \<Longrightarrow> store_synced dec s"
  by (auto simp: store_synced_def)

lemma tags_step_synced:
  assumes "tags_load (tg_file s) = Some s"
  shows "tags_load (tg_file (tag_step op s)) = Some (tag_step op s)"
proof -
  have r: "tags_load (tg_file (tags_save x)) = Some (tags_save x)" for x
    by (simp add: tags_load_def tags_save_def tags_codec.reload_map)
  have "tg_map s = filter (\<lambda>(h, ts). h \<in> known) (tg_map s)" if "filter (\<lambda>h. h \<notin> known) (dkeys (tg_map s)) = []" for known
    using that by (auto simp: filter_empty_conv intro!: filter_True [symmetric])
  then show ?thesis using assms r
    by (cases op) (auto simp: add_tag_def remove_tag_def clear_tags_def drop_orphans_def Let_def split: option.splits)
qed

lemma share_step_session: "persisted (snd (share_step e (sh, s))) = persisted s"
  by (cases e) (auto simp: share_on_status_def Let_def persisted.pause split: option.split)

lemmas store_ops = save_rule_def delete_rule_def reorder_rules_def save_source_def delete_source_def save_from_settings_def
  delete_profile_def save_disk_entry_def delete_disk_entry_def save_association_def delete_association_def

lemmas stores_saved = rules_json.saved_synced sources_json.saved_synced profiles_json.saved_synced disks_json.saved_synced
  associations_json.saved_synced

lemma program_ok_step: "program_step p p' \<Longrightarrow> program_ok p \<Longrightarrow> program_ok p'"
proof (induction rule: program_step.induct)
  case (session p s)
  then show ?case using disk_ok_step [of "qt_session p" s] by (simp add: program_ok_def)
next
  case (share e p sh s)
  have "share_synced sh" using synced_step [of "(qt_share p, qt_session p)" e] share by (simp add: program_ok_def)
  moreover have "disk_ok s"
    using disk_ok_keep [of "qt_session p" s] share_step_session [of e "qt_share p" "qt_session p"] share by (simp add: program_ok_def)
  ultimately show ?case using share by (simp add: program_ok_def)
qed (simp_all add: program_ok_def store_ops stores_saved tags_step_synced)

lemma program_ok_run: "program_step\<^sup>*\<^sup>* p p' \<Longrightarrow> program_ok p \<Longrightarrow> program_ok p'"
  by (induction rule: rtranclp_induct) (auto intro: program_ok_step)

text \<open>The launch, once every file gives its store.\<close>

interpretation configured: store_view ss_settings
  by unfold_locales simp_all

lemma scheduler_keeps: "persisted (snd (scheduler_init hour s)) = persisted s"
  "ss_settings (snd (scheduler_init hour s)) = ss_settings s"
  by (simp_all add: scheduler_init_def evaluate_now_def apply_current_limits_def persisted.live configured.live Let_def split: prod.split)

lemma start_session_settings: "ss_settings (snd (start_session v d cfg cats rep lan)) = cfg"
  by (simp add: start_session_def scheduler_keeps configured.init) (simp add: session_fields_def)

lemma start_program_cases:
  assumes "start_program v d = loaded.Loaded p"
  obtains cfg config cats rep lan share rules tags sources profiles disks associations
  where "launch_settings (lv_settings v) (dd_config d) = loaded.Loaded (cfg, config)"
    and "categories_load (dd_categories d) = Some cats" "rep_load (dd_reputation d) = Some rep"
    and "lan_load (lv_wall v) (dd_lan d) = Some lan" "share_init (dd_share d) = loaded.Loaded share"
    and "rules_init (dd_rules d) = Some rules" "tags_load (dd_tags d) = Some tags" "sources_init (dd_sources d) = Some sources"
    and "profiles_init (dd_profiles d) = Some profiles" "disks_init (dd_disks d) = Some disks"
    and "associations_init (dd_associations d) = Some associations"
  using assms by (auto simp: start_program_def lbind_Loaded typed_Loaded)

lemma same_settings: "\<exists>cfg. s = s\<lparr>ss_settings := cfg\<rparr>"
  by (rule exI [of _ "ss_settings s"]) simp

lemma start_program_runs:
  assumes "launch_settings (lv_settings v) (dd_config d) = loaded.Loaded (cfg, config)"
    and "categories_load (dd_categories d) = Some cats" "rep_load (dd_reputation d) = Some rep"
    and "lan_load (lv_wall v) (dd_lan d) = Some lan" "share_init (dd_share d) = loaded.Loaded share"
    and "rules_init (dd_rules d) = Some rules" "tags_load (dd_tags d) = Some tags" "sources_init (dd_sources d) = Some sources"
    and "profiles_init (dd_profiles d) = Some profiles" "disks_init (dd_disks d) = Some disks"
    and "associations_init (dd_associations d) = Some associations"
  shows "\<exists>p. start_program v d = loaded.Loaded p \<and> qt_share p = share
    \<and> (\<exists>cfg'. qt_session p = (snd (start_session v d cfg cats rep lan))\<lparr>ss_settings := cfg'\<rparr>)
    \<and> pg_rules p = rules \<and> pg_watch_rules p = rules \<and> ru_rules (pg_rss p) = rules
    \<and> pg_tags p = snd (drop_orphans (fst ` set (dd_resume d)) tags) \<and> pg_sources p = sources \<and> pg_profiles p = profiles
    \<and> pg_disks p = disks \<and> pg_associations p = associations \<and> hy_rows (pg_history p) = dd_history d
    \<and> ts_store (pg_stats p) = dd_stats d \<and> sn_rows (ru_seen (pg_rss p)) = dd_seen d
    \<and> \<not> qt_started p \<and> (\<not> cfg_remote_access_enabled cfg \<longrightarrow> pg_config p = config)"
  using assms start_session_settings [of v d cfg cats rep lan]
  by (auto simp: start_program_def typed_def app_start_def app.defs program.defs stats_init_def Let_def same_settings split: prod.split)

lemma started_session_ok:
  assumes "categories_load f1 = Some cats" "rep_load f2 = Some rep" "lan_load wall f3 = Some lan"
  shows "disk_ok ((snd (start_session v d cfg cats rep lan))\<lparr>ss_settings := cfg'\<rparr>)"
    and "ct_map (ss_categories ((snd (start_session v d cfg cats rep lan))\<lparr>ss_settings := cfg'\<rparr>)) = ct_map cats"
proof -
  have "persisted (snd (start_session v d cfg cats rep lan))
      = persisted (session_fields cfg cats rep lan (List.map_filter (\<lambda>(h, a). map_option (Pair h) a) (dd_resume d)))"
    by (simp add: start_session_def scheduler_keeps persisted.init)
  moreover have "disk_ok (snd (start_session v d cfg cats rep lan))"
    unfolding start_session_def by (rule disk_ok_keep [OF disk_ok_init [OF assms] scheduler_keeps(1)])
  ultimately show "disk_ok ((snd (start_session v d cfg cats rep lan))\<lparr>ss_settings := cfg'\<rparr>)"
    "ct_map (ss_categories ((snd (start_session v d cfg cats rep lan))\<lparr>ss_settings := cfg'\<rparr>)) = ct_map cats"
    by (simp_all add: disk_ok_def persisted_def session_fields_def)
qed

lemma tags_swept_synced: "tags_load f = Some t \<Longrightarrow> tags_load (tg_file (snd (drop_orphans known t))) = Some (snd (drop_orphans known t))"
  using tags_step_synced [of t "DropOrphans known"] by (auto simp: tags_load_def)

lemma program_ok_started:
  assumes "start_program v d = loaded.Loaded p"
  shows "program_ok p"
  using assms
proof (cases rule: start_program_cases)
  case (1 cfg config cats rep lan share rules tags sources profiles disks associations)
  from start_program_runs [OF 1] obtain cfg' where p: "qt_share p = share"
      "qt_session p = (snd (start_session v d cfg cats rep lan))\<lparr>ss_settings := cfg'\<rparr>" "pg_rules p = rules"
      "pg_tags p = snd (drop_orphans (fst ` set (dd_resume d)) tags)" "pg_sources p = sources" "pg_profiles p = profiles"
      "pg_disks p = disks" "pg_associations p = associations"
    using assms by auto
  have "share_synced share" using 1(5) by (auto simp: share_init_def share_synced_def split: loaded.splits)
  then show ?thesis
    using 1 store_opened [of "dd_rules d" _ rules] store_opened [of "dd_sources d" _ sources] store_opened [of "dd_profiles d" _ profiles]
      store_opened [of "dd_disks d" _ disks] store_opened [of "dd_associations d" _ associations]
    by (simp add: program_ok_def p started_session_ok(1) [OF 1(2-4)] tags_swept_synced rules_init_def sources_init_def
        profiles_init_def disks_init_def associations_init_def)
qed

section \<open>A launch that fails\<close>

text \<open>A file of the configuration or of the share limits that holds JSON but no object ends every
  launch, whatever else is on disk.\<close>

lemma launch_stopped_by_file:
  assumes "start_program v d = loaded.Loaded p"
  shows "start_program v (d\<lparr>dd_share := Doc (JArr js)\<rparr>) = loaded.Raised"
    and "start_program v (d\<lparr>dd_config := (dd_config d)\<lparr>cd_config := Doc (JArr js)\<rparr>\<rparr>) = loaded.Raised"
proof -
  show "start_program v (d\<lparr>dd_config := (dd_config d)\<lparr>cd_config := Doc (JArr js)\<rparr>\<rparr>) = loaded.Raised"
    by (simp add: start_program_def launch_settings_def load_settings_def)
  show "start_program v (d\<lparr>dd_share := Doc (JArr js)\<rparr>) = loaded.Raised"
    using assms
  proof (cases rule: start_program_cases)
    case (1 cfg config cats rep lan share rules tags sources profiles disks associations)
    then show ?thesis by (simp add: start_program_def typed_def share_init_def)
  qed
qed

text \<open>What a quit leaves: every file reads back as the data the program had when it ended. The slots that run
  while the session waits may still change the session, as any of its operations does.\<close>

lemma quit_files:
  assumes "program_ok p" and "\<not> qt_started p" and "d = files_of (app_quit w rounds p)"
    and "\<forall>f\<in>round_slots rounds. \<forall>x. session_step\<^sup>*\<^sup>* x (f x)"
  obtains rep lan share rules sources profiles disks associations where
      "categories_load (dd_categories d) = Some (ss_categories (qt_session (app_quit w rounds p)))"
      "rep_load (dd_reputation d) = Some rep" "lan_load now (dd_lan d) = Some lan"
      "share_init (dd_share d) = loaded.Loaded share" "sh_limits share = sh_limits (qt_share p)"
      "rules_init (dd_rules d) = Some rules" "st_entries rules = st_entries (pg_rules p)"
      "tags_load (dd_tags d) = Some (pg_tags p)"
      "sources_init (dd_sources d) = Some sources" "st_entries sources = st_entries (pg_sources p)"
      "profiles_init (dd_profiles d) = Some profiles" "st_entries profiles = st_entries (pg_profiles p)"
      "disks_init (dd_disks d) = Some disks" "st_entries disks = st_entries (pg_disks p)"
      "associations_init (dd_associations d) = Some associations" "st_entries associations = st_entries (pg_associations p)"
      "dd_config d = pg_config p" "fst ` set (dd_resume d) = fst ` set (ss_resume_dir (qt_session (app_quit w rounds p)))"
proof -
  obtain sess unsaved where s: "shutdown w 3000 rounds (qt_session p) = (sess, unsaved)" by (metis prod.exhaust)
  have quit: "qt_session (app_quit w rounds p) = sess" using assms(2) by (simp add: app_quit_def s)
  have d: "d = files_of (p\<lparr>qt_session := sess, qt_share := flush_pending_save (qt_share p)\<rparr>)"
    using assms(2) unfolding assms(3) by (simp add: app_quit_def s files_of_def)
  have "disk_ok sess"
    using assms(1) disk_ok_steps [OF shutdown_steps [OF assms(4), of "qt_session p" w 3000]] by (simp add: s program_ok_def)
  then obtain rep lan where files: "categories_load (dd_categories d) = Some (ss_categories sess)"
      "rep_load (dd_reputation d) = Some rep" "lan_load now (dd_lan d) = Some lan"
    by (auto simp: disk_ok_def files_of_def d categories_synced_def rep_synced_def lan_readable_def rep_load_def lan_load_def)
  have "share_load (sh_file (flush_pending_save (qt_share p))) = loaded.Loaded (sh_limits (qt_share p))"
    using assms(1) share_load_save [of "qt_share p\<lparr>sh_timer := False\<rparr>"]
    by (auto simp: program_ok_def flush_pending_save_def share_synced_def share_save_def)
  then obtain share where share: "share_init (dd_share d) = loaded.Loaded share" "sh_limits share = sh_limits (qt_share p)"
    by (simp add: share_init_def files_of_def d)
  obtain rules sources profiles disks associations where stores: "rules_init (dd_rules d) = Some rules"
      "st_entries rules = st_entries (pg_rules p)"
      "sources_init (dd_sources d) = Some sources" "st_entries sources = st_entries (pg_sources p)"
      "profiles_init (dd_profiles d) = Some profiles" "st_entries profiles = st_entries (pg_profiles p)"
      "disks_init (dd_disks d) = Some disks" "st_entries disks = st_entries (pg_disks p)"
      "associations_init (dd_associations d) = Some associations" "st_entries associations = st_entries (pg_associations p)"
    using assms(1) by (simp add: program_ok_def store_synced_def files_of_def d rules_init_def sources_init_def profiles_init_def
        disks_init_def associations_init_def)
  have tags: "tags_load (dd_tags d) = Some (pg_tags p)" using assms(1) by (simp add: program_ok_def files_of_def d)
  show thesis by (rule that [unfolded quit, OF files share stores(1,2) tags stores(3-10)]) (force simp: files_of_def d s)+
qed

lemma tags_after_sweep:
  "get_tags (snd (drop_orphans (fst ` set dir) st)) h = (if dhas dir h then get_tags st h else [])"
proof -
  have swept: "map_of (filter (\<lambda>(h, ts). h \<in> known) m) h = (if h \<in> known then map_of m h else None)" for known m
    by (induction m) auto
  have "dhas dir h \<longleftrightarrow> h \<in> fst ` set dir" by (simp only: dhas_iff_key set_map)
  then show ?thesis by (simp only: get_tags_def drop_orphans_def Let_def) (simp add: swept tags_save_def)
qed

section \<open>Properties\<close>


text \<open>Concrete input: the first launch of all, one rule saved, then quit and launch again.\<close>

definition small_launch :: launch_env where
  "small_launch = \<lparr>lv_settings = demo_env, lv_consts = any_consts, lv_version = ''2'', lv_async_ok = (\<lambda>_. True), lv_wall = 0, lv_hour = 12,
     lv_token = ''token'', lv_bound = True, lv_catalogs = (\<lambda>_. None)\<rparr>"

definition empty_dir :: data_dir where
  "empty_dir = \<lparr>dd_config = \<lparr>cd_config = Missing, cd_last = None, cd_history = None\<rparr>, dd_categories = Missing, dd_reputation = Missing,
     dd_lan = Missing, dd_resume = [], dd_share = Missing, dd_rules = Missing, dd_tags = Missing, dd_sources = Missing,
     dd_profiles = Missing, dd_disks = Missing, dd_associations = Missing, dd_stats = \<lparr>tt_totals = (0, 0), tt_counters = []\<rparr>,
     dd_history = [], dd_seen = []\<rparr>"

lemma first_launch:
  "\<exists>config p. start_program small_launch empty_dir = loaded.Loaded p \<and> \<not> qt_started p \<and> pg_config p = config
     \<and> list_rules (pg_rules p) = [] \<and> (\<exists>cfg. launch_settings demo_env config = loaded.Loaded (cfg, config))"
proof -
  let ?d = "\<lparr>cd_config = Missing, cd_last = None, cd_history = None\<rparr>"
  let ?cfg = "DEFAULT_SETTINGS\<lparr>cfg_default_download_dir := env_download_dir demo_env\<rparr>"
  have env: "env_crypt demo_env = (\<lambda>p. Some (rev p))" "env_decrypt demo_env = (\<lambda>b. Some (rev b))" "env_write_ok demo_env"
    by (simp_all add: demo_env_def)
  have "\<exists>nd. protected_data demo_env ?cfg = Some nd"
    by (simp add: protected_data_def env protect_def split: option.split)
  then obtain nd where nd: "protected_data demo_env ?cfg = Some nd" by blast
  obtain config where saved: "save_settings demo_env ?cfg ?d = (config, True)"
    by (simp add: save_settings_def nd env old_data_def Let_def)
  have "px_password (cfg_proxy ?cfg) = []" "cfg_remote_access_token ?cfg = []" "cfg_default_download_dir ?cfg = ''D:''"
    by (simp_all add: DEFAULT_SETTINGS_def DEFAULT_PROXY_def demo_env_def)
  moreover have "utf8_ok []" by code_simp
  ultimately have "fst (load_settings demo_env config) = Inr ?cfg"
    using load_after_save [of demo_env ?cfg ?d config] saved env by simp
  moreover have "snd (load_settings demo_env config) = config"
    using saved by (auto simp: load_settings_def save_settings_def nd env old_data_def Let_def)
  ultimately have again: "load_settings demo_env config = (Inr ?cfg, config)" by (simp add: prod_eq_iff)
  have first: "launch_settings (lv_settings small_launch) (dd_config empty_dir) = loaded.Loaded (?cfg, config)"
    by (simp add: launch_settings_def load_settings_def small_launch_def empty_dir_def saved Let_def)
  obtain lan where lan: "lan_load (lv_wall small_launch) (dd_lan empty_dir) = Some lan"
    by (simp add: lan_load_def empty_dir_def)
  obtain rep where rep: "rep_load (dd_reputation empty_dir) = Some rep" by (simp add: rep_load_def empty_dir_def)
  have "categories_load (dd_categories empty_dir) = Some \<lparr>ct_map = [], ct_file = Missing\<rparr>"
    "share_init (dd_share empty_dir) = loaded.Loaded \<lparr>sh_limits = [], sh_file = Missing, sh_timer = False, sh_sigs = []\<rparr>"
    "rules_init (dd_rules empty_dir) = Some \<lparr>st_entries = [], st_file = Missing\<rparr>"
    "tags_load (dd_tags empty_dir) = Some \<lparr>tg_map = [], tg_file = Missing\<rparr>"
    "sources_init (dd_sources empty_dir) = Some \<lparr>st_entries = [], st_file = Missing\<rparr>"
    "profiles_init (dd_profiles empty_dir) = Some \<lparr>st_entries = [], st_file = Missing\<rparr>"
    "disks_init (dd_disks empty_dir) = Some \<lparr>st_entries = [], st_file = Missing\<rparr>"
    "associations_init (dd_associations empty_dir) = Some \<lparr>st_entries = [], st_file = Missing\<rparr>"
    by (simp_all add: empty_dir_def categories_load_def share_init_def rules_init_def tags_load_def sources_init_def
        profiles_init_def disks_init_def associations_init_def)
  from start_program_runs [OF first this(1) rep lan this(2-8)]
  obtain p where "start_program small_launch empty_dir = loaded.Loaded p" "\<not> qt_started p" "pg_config p = config"
      "pg_rules p = \<lparr>st_entries = [], st_file = Missing\<rparr>"
    by (auto simp: DEFAULT_SETTINGS_def)
  then show ?thesis using again by (auto simp: launch_settings_def list_rules_def)
qed

definition series_rule :: routing_rule where
  "series_rule = \<lparr>rr_name = ''series'', rr_pattern = ''s01'', rr_match_field = ''name'', rr_destination = ''D:'',
     rr_action = ''none'', rr_move_to = []\<rparr>"


end
