(* ===== verification/Page_Rows.thy ===== *)
theory Page_Rows
  imports Views Search Disk Rss
begin

text \<open>
  The rows the pages are given for scanned files, feeds, search sources and known disks, the reads of
  the add and share pages, and the title bar's slots of \<open>ui/web/window_bridge.py\<close>.
\<close>

section \<open>Rows\<close>

definition level_name :: "risk_level \<Rightarrow> string" where
  "level_name l = (case l of SAFE \<Rightarrow> ''SAFE'' | LOW \<Rightarrow> ''LOW'' | MEDIUM \<Rightarrow> ''MEDIUM'' | HIGH \<Rightarrow> ''HIGH'' | CRITICAL \<Rightarrow> ''CRITICAL'')"

definition file_risk_row :: "file_risk \<Rightarrow> (string \<times> json) list" where
  "file_risk_row r =
     [(''index'', JInt (fe_index (fr_file r))), (''path'', JStr (fe_path (fr_file r))), (''size'', JInt (fe_size (fr_file r))),
      (''score'', JInt (fr_score r)), (''level'', JStr (level_name (fr_level r))), (''reasons'', JArr (map JStr (fr_reasons r)))]"

definition feed_row :: "rss_feed \<Rightarrow> (string \<times> json) list" where
  "feed_row f =
     [(''url'', JStr (rf_url f)), (''filterKeyword'', JStr (rf_filter_keyword f)), (''enabled'', JBool (rf_enabled f)),
      (''regexInclude'', JStr (rf_regex_include f)), (''regexExclude'', JStr (rf_regex_exclude f)),
      (''resolutionMin'', JInt (rf_resolution_min f)), (''resolutionMax'', JInt (rf_resolution_max f)),
      (''latestEpisodeOnly'', JBool (rf_latest_episode_only f))]"

definition page_list_feeds :: "settings \<Rightarrow> (string \<times> json) list list" where
  "page_list_feeds cfg = map feed_row (cfg_rss_feeds cfg)"

definition source_row :: "search_source \<Rightarrow> (string \<times> json) list" where
  "source_row s = [(''name'', JStr (so_name s)), (''urlTemplate'', JStr (so_url_template s)), (''enabled'', JBool (so_enabled s))]"

definition page_list_sources :: "source_store \<Rightarrow> (string \<times> json) list list" where
  "page_list_sources s = map source_row (st_entries s)"

definition page_delete_source :: "string \<Rightarrow> source_store \<Rightarrow> source_store" where
  "page_delete_source n s = delete_source n s"

definition page_list_disks :: "disk_store \<Rightarrow> (string \<times> json) list list" where
  "page_list_disks s = map (\<lambda>d. [(''label'', JStr (kd_label d)), (''action'', JStr (kd_action d))]) (list_disks s)"

definition page_delete_disk :: "string \<Rightarrow> disk_store \<Rightarrow> disk_store" where
  "page_delete_disk label s = delete_disk_entry label s"

section \<open>Reads of the add, share and downloads pages\<close>

definition add_default_destination :: "settings \<Rightarrow> string" where
  "add_default_destination cfg = cfg_default_download_dir cfg"

definition add_default_threshold :: "add_page \<Rightarrow> int" where
  "add_default_threshold p = pg_threshold p"

definition add_list_categories :: "session \<Rightarrow> string list" where
  "add_list_categories s = list_categories s"

definition share_default_data_dir :: "settings \<Rightarrow> string" where
  "share_default_data_dir cfg = cfg_default_download_dir cfg"

text \<open>The share page's \<open>_torrent_path\<close>, which \<open>start_share\<close> is given.\<close>

definition share_select_torrent_file :: "string \<Rightarrow> string \<Rightarrow> string" where
  "share_select_torrent_file path selected = path"

definition page_allocated_size :: "world \<Rightarrow> session \<Rightarrow> string \<Rightarrow> int" where
  "page_allocated_size w s ih = get_allocated_size w s ih"

definition page_waits_for_blocklist :: "session \<Rightarrow> bool" where
  "page_waits_for_blocklist s = ss_blocklist_wait s"

section \<open>The title bar\<close>

datatype edge = Top_Edge | Bottom_Edge | Left_Edge | Right_Edge

definition RESIZE_EDGES :: "(string, edge list) dict" where
  "RESIZE_EDGES =
     [(''top'', [Top_Edge]), (''bottom'', [Bottom_Edge]), (''left'', [Left_Edge]), (''right'', [Right_Edge]),
      (''top-left'', [Top_Edge, Left_Edge]), (''top-right'', [Top_Edge, Right_Edge]),
      (''bottom-left'', [Bottom_Edge, Left_Edge]), (''bottom-right'', [Bottom_Edge, Right_Edge])]"

text \<open>What the slots ask of the window system; \<open>handle\<close>: the native window exists.\<close>

datatype window_call = System_Move | System_Resize "edge list" | Show_Minimized | Show_Normal | Show_Maximized | Close_Window

definition start_move :: "bool \<Rightarrow> window_call list" where
  "start_move has_handle = (if has_handle then [System_Move] else [])"

definition start_resize :: "bool \<Rightarrow> string \<Rightarrow> window_call list" where
  "start_resize has_handle edge_name =
     (if \<not> has_handle then []
      else case dget RESIZE_EDGES edge_name of Some flags \<Rightarrow> [System_Resize flags] | None \<Rightarrow> [])"

definition minimize_window :: "window_call list" where "minimize_window = [Show_Minimized]"

definition toggle_maximize :: "bool \<Rightarrow> window_call list" where
  "toggle_maximize maximized = [if maximized then Show_Normal else Show_Maximized]"

definition close_window :: "window_call list" where "close_window = [Close_Window]"

definition should_show_onboarding :: "settings \<Rightarrow> bool" where
  "should_show_onboarding cfg \<longleftrightarrow> \<not> cfg_first_launch_seen cfg"

end
