(* ===== verification/Wiring.thy ===== *)
theory Wiring
  imports Startup Notices Page_Rows
begin

text \<open>
  The services together: the connections \<open>main\<close> of \<open>run_web_spike.py\<close> and the services' \<open>__init__\<close>
  make between the signals of the session and the slots of everything that listens. Qt calls the
  slots of a signal in the order of the connections, that is of the constructions, before \<open>emit\<close>
  returns; an exception in a slot is printed and the next slot runs. Every handler of the session but
  the one of the status updates emits as its last act, so its signals are delivered after it.
\<close>

section \<open>The program with its listeners\<close>

record wiring_env = page_env +
  we_volume :: "string \<Rightarrow> int option"
  we_exists :: "string \<Rightarrow> bool"
  we_journal :: journal_env
  we_show_int :: "int \<Rightarrow> string"
  we_time :: string

text \<open>\<open>wd_creating\<close>: whether the page that creates torrents is busy; \<open>wd_history_changed\<close>: how often the
  statistics page was told.\<close>

record wired = program +
  wd_reconnect :: reconnect
  wd_post :: post_complete
  wd_scans :: "string list"
  wd_posts :: "webhook_post list"
  wd_journal :: journal
  wd_live :: bool
  wd_rows :: "row_message list"
  wd_add :: add_page
  wd_share_rows :: "row_message list"
  wd_creating :: bool
  wd_history_changed :: nat
  wd_notifier :: notifier

definition wire :: "program \<Rightarrow> jsonl \<Rightarrow> bool \<Rightarrow> wired" where
  "wire p lines tray = program.extend p (wired.fields
     \<lparr>rc_last_known = [], rc_pending = []\<rparr> \<lparr>pc_pending = 0, pc_jobs = []\<rparr> [] []
     \<lparr>jn_file_errors = {}, jn_file = lines\<rparr> True [] (add_page_init (ss_settings (qt_session p))) [] False 0
     \<lparr>nt_tray = tray, nt_tracker_errors = {}, nt_file_errors = {}, nt_shown = []\<rparr>)"

section \<open>The slots of each signal\<close>

text \<open>\<open>limit_reached\<close> of the share limits, which have already paused the torrent.\<close>

definition limit_reached_slots :: "wiring_env \<Rightarrow> string \<Rightarrow> string \<Rightarrow> wired \<Rightarrow> wired" where
  "limit_reached_slots v ih reason p =
     p\<lparr>wd_posts := wd_posts p @ webhook_on_limit_reached (qt_session p) ih reason,
       wd_journal := jn_on_limit_reached (we_journal v) (qt_session p) ih reason (wd_journal p),
       wd_share_rows := wd_share_rows p @ sp_on_limit_reached (w_now (pv_world v)) (qt_session p) (qt_share p) ih,
       wd_notifier := nt_on_limit_reached (qt_session p) ih reason (wd_notifier p)\<rparr>"

definition status_slots :: "wiring_env \<Rightarrow> string \<Rightarrow> torrent_record \<Rightarrow> wired \<Rightarrow> wired" where
  "status_slots v ih r p =
     (let (sh, sess) = share_on_status (pv_world v) ih r (qt_share p, qt_session p);
          p1 = foldl (\<lambda>p (h, reason). limit_reached_slots v h reason p) (p\<lparr>qt_share := sh, qt_session := sess\<rparr>)
                 (drop (length (sh_sigs (qt_share p))) (sh_sigs sh))
      in p1\<lparr>pg_stats := stats_on_status ih r (pg_stats p1), pg_history := history_on_status ih r (pg_history p1)\<rparr>)"

text \<open>The pages that show rows of torrents.\<close>

definition row_slots :: "wiring_env \<Rightarrow> signal \<Rightarrow> wired \<Rightarrow> wired" where
  "row_slots v sig p =
     p\<lparr>wd_rows := wd_rows p @ dl_on_signal (qt_session p) sig (wd_live p),
       wd_share_rows := wd_share_rows p @ sp_on_signal (w_now (pv_world v)) (qt_session p) (qt_share p) sig (wd_live p)\<rparr>"

definition notify_slots :: "wiring_env \<Rightarrow> signal \<Rightarrow> wired \<Rightarrow> wired" where
  "notify_slots v sig p = p\<lparr>wd_notifier := nt_on_signal (we_show_int v) (qt_session p) sig (wd_notifier p)\<rparr>"

definition webhook_slots :: "signal \<Rightarrow> wired \<Rightarrow> wired" where
  "webhook_slots sig p = p\<lparr>wd_posts := wd_posts p @ webhook_on_signal (qt_session p) sig\<rparr>"

definition removed_slots :: "wiring_env \<Rightarrow> string \<Rightarrow> wired \<Rightarrow> wired" where
  "removed_slots v ih p =
     (let p1 = p\<lparr>qt_share := share_untrack ih (qt_share p), wd_reconnect := reconnect_on_removed ih (wd_reconnect p),
                 pg_stats := stats_on_removed ih (pg_stats p)\<rparr>;
          (history, added) = history_on_removed (we_time v) ih (pg_history p1);
          p2 = p1\<lparr>pg_history := history, wd_history_changed := wd_history_changed p1 + (if added then 1 else 0),
                  wd_journal := jn_on_removed ih (wd_journal p1), pg_tags := clear_tags ih (pg_tags p1)\<rparr>
      in notify_slots v (TorrentRemoved ih) (row_slots v (TorrentRemoved ih) p2))"

text \<open>The countdown's signal, and the slot that may start it: the busy sources are the extractions and
  the page that creates torrents.\<close>

definition countdown_slots :: "wiring_env \<Rightarrow> sd_out list \<Rightarrow> wired \<Rightarrow> wired" where
  "countdown_slots v outs p =
     p\<lparr>wd_journal := foldl (\<lambda>j x. case x of CountdownStarted d ms \<Rightarrow> jn_on_countdown (we_journal v) d j | _ \<Rightarrow> j) (wd_journal p) outs\<rparr>"

definition shutdown_slot :: "wiring_env \<Rightarrow> wired \<Rightarrow> wired" where
  "shutdown_slot v p =
     (let auto = maybe_start_countdown (ss_settings (qt_session p)) (all_records (qt_session p))
                   [has_pending_extractions (wd_post p), wd_creating p] (qt_auto p)
      in countdown_slots v (drop (length (sd_out (qt_auto p))) (sd_out auto)) (p\<lparr>qt_auto := auto\<rparr>))"

definition scan_slot :: "wiring_env \<Rightarrow> string \<Rightarrow> wired \<Rightarrow> wired" where
  "scan_slot v ih p =
     (case av_on_torrent_finished (pv_world v) (we_exists v) (qt_session p) ih of
        None \<Rightarrow> p | Some target \<Rightarrow> p\<lparr>wd_scans := wd_scans p @ [target]\<rparr>)"

definition action_slot :: "wiring_env \<Rightarrow> string \<Rightarrow> wired \<Rightarrow> wired" where
  "action_slot v ih p =
     (let ((post, sess), ok) = post_on_finished (pv_world v) (list_rules (pg_rules p)) ih (wd_post p, qt_session p)
      in p\<lparr>wd_post := post, qt_session := sess\<rparr>)"

definition finished_slots :: "wiring_env \<Rightarrow> string \<Rightarrow> wired \<Rightarrow> wired" where
  "finished_slots v ih p =
     notify_slots v (TorrentFinished ih)
       (shutdown_slot v (webhook_slots (TorrentFinished ih) (action_slot v ih (scan_slot v ih p))))"

text \<open>Starting the torrent may emit \<open>download_blocked_by_theme\<close> on the way.\<close>

definition blocked_slots :: "signal list \<Rightarrow> add_page \<Rightarrow> add_page" where
  "blocked_slots sigs page = foldl (\<lambda>p g. case g of DownloadBlockedByTheme ih \<Rightarrow> say Blocked_By_Theme p | _ \<Rightarrow> p) page sigs"

definition metadata_slots :: "wiring_env \<Rightarrow> string \<Rightarrow> wired \<Rightarrow> wired" where
  "metadata_slots v ih p =
     (let ((rss, sess), ok) = on_rss_metadata_received (pv_world v) ih (pg_rss p, qt_session p);
          page = blocked_slots (drop (length (ss_sigs (qt_session p))) (ss_sigs sess)) (wd_add p)
      in p\<lparr>pg_rss := rss, qt_session := sess,
           wd_add := add_on_metadata_received (page_env.truncate v) (pg_rules p) sess ih page\<rparr>)"

definition file_error_slots :: "wiring_env \<Rightarrow> string \<Rightarrow> string \<Rightarrow> wired \<Rightarrow> wired" where
  "file_error_slots v ih message p =
     (let p1 = webhook_slots (FileError ih message)
                 (p\<lparr>wd_reconnect := reconnect_on_file_error (we_volume v) (qt_session p) ih (wd_reconnect p)\<rparr>)
      in notify_slots v (FileError ih message)
           (p1\<lparr>wd_journal := jn_on_file_error (we_journal v) (qt_session p1) ih message (wd_journal p1)\<rparr>))"

fun deliver_signal :: "wiring_env \<Rightarrow> signal \<Rightarrow> wired \<Rightarrow> wired" where
  "deliver_signal v (TorrentRemoved ih) p = removed_slots v ih p"
| "deliver_signal v (StatusUpdated ih r) p = status_slots v ih r p"
| "deliver_signal v (TorrentFinished ih) p = finished_slots v ih p"
| "deliver_signal v (MetadataReceived ih) p = metadata_slots v ih p"
| "deliver_signal v (TrackerError ih m) p = notify_slots v (TrackerError ih m) (webhook_slots (TrackerError ih m) p)"
| "deliver_signal v (FileError ih m) p = file_error_slots v ih m p"
| "deliver_signal v (DownloadBlockedByTheme ih) p = p\<lparr>wd_add := blocked_slots [DownloadBlockedByTheme ih] (wd_add p)\<rparr>"
| "deliver_signal v (ThemeDownloadsPaused n) p = notify_slots v (ThemeDownloadsPaused n) p"
| "deliver_signal v (StorageMoved ih path) p = notify_slots v (StorageMoved ih path) p"
| "deliver_signal v sig p = row_slots v sig p"

section \<open>An alert, a tick\<close>

text \<open>What the session has emitted since it was \<open>old\<close>.\<close>

definition deliver_news :: "wiring_env \<Rightarrow> session \<Rightarrow> wired \<Rightarrow> wired" where
  "deliver_news v old p = foldl (\<lambda>p g. deliver_signal v g p) p (drop (length (ss_sigs old)) (ss_sigs (qt_session p)))"

text \<open>\<open>_on_state_update\<close> emits inside its loop: the share limits may pause the torrent before the next
  status is read.\<close>

definition wired_status :: "wiring_env \<Rightarrow> lt_status \<Rightarrow> wired \<times> torrent_record list \<Rightarrow> wired \<times> torrent_record list" where
  "wired_status v status x =
     (let (p, updated) = x; (s, updated') = state_update_one (pv_world v) status (qt_session p, updated)
      in (deliver_news v (qt_session p) (p\<lparr>qt_session := s\<rparr>), updated'))"

definition wired_state_update :: "wiring_env \<Rightarrow> lt_status list \<Rightarrow> wired \<Rightarrow> wired" where
  "wired_state_update v statuses p =
     (let (p', updated) = foldl (\<lambda>x st. wired_status v st x) (p, []) statuses
      in if updated = [] then p'
         else deliver_news v (qt_session p') (p'\<lparr>qt_session := emit (StatusBatchUpdated updated) (qt_session p')\<rparr>))"

definition wired_alert :: "wiring_env \<Rightarrow> alert \<Rightarrow> wired \<Rightarrow> wired" where
  "wired_alert v a p =
     (case a of
        StateUpdateAlert statuses \<Rightarrow> if statuses = [] then p else wired_state_update v statuses p
      | _ \<Rightarrow> deliver_news v (qt_session p) (p\<lparr>qt_session := fst (dispatch (pv_world v) a (qt_session p))\<rparr>))"

definition wired_alerts :: "wiring_env \<Rightarrow> alert list \<Rightarrow> wired \<Rightarrow> wired" where
  "wired_alerts v alerts p = foldl (\<lambda>p a. wired_alert v a p) p alerts"

definition wired_tick :: "wiring_env \<Rightarrow> alert list \<Rightarrow> wired \<Rightarrow> wired" where
  "wired_tick v alerts p =
     (let p1 = wired_alerts v alerts (p\<lparr>qt_session := cmd PostTorrentUpdates (qt_session p)\<rparr>);
          (s, ok) = apply_deadline_priorities (pv_world v) (qt_session p1)
      in p1\<lparr>qt_session := if ok then drain_resume_save_queue (pv_world v) s else s\<rparr>)"

section \<open>The end of the background work\<close>

definition extraction_finished :: "wired \<Rightarrow> wired" where
  "extraction_finished p =
     (let (post, idle) = on_extraction_finished (qt_extractions_cancelled p) (wd_post p)
      in p\<lparr>wd_post := post, qt_auto := if idle then on_busy_source_idle (qt_auto p) else qt_auto p\<rparr>)"

definition creation_finished :: "wired \<Rightarrow> wired" where
  "creation_finished p = p\<lparr>wd_creating := False, qt_auto := on_busy_source_idle (qt_auto p)\<rparr>"

definition countdown_elapsed :: "wired \<Rightarrow> wired" where
  "countdown_elapsed p = p\<lparr>qt_auto := on_countdown_elapsed (ss_settings (qt_session p)) (qt_auto p)\<rparr>"


section \<open>Events\<close>

datatype wired_event =
    AlertPopped alert
  | ExtractionEnded
  | CreationStarted
  | CreationEnded
  | RetryTurn
  | CountdownCancelled
  | CountdownElapsed

fun wired_step :: "wiring_env \<Rightarrow> wired_event \<Rightarrow> wired \<Rightarrow> wired" where
  "wired_step v (AlertPopped a) p = wired_alert v a p"
| "wired_step v ExtractionEnded p = extraction_finished p"
| "wired_step v CreationStarted p = p\<lparr>wd_creating := True\<rparr>"
| "wired_step v CreationEnded p = creation_finished p"
| "wired_step v RetryTurn p = shutdown_slot v p"
| "wired_step v CountdownCancelled p = p\<lparr>qt_auto := cancel_shutdown (qt_auto p)\<rparr>"
| "wired_step v CountdownElapsed p = countdown_elapsed p"

section \<open>Facts\<close>

text \<open>Only a completion reaches the countdown.\<close>

lemma limit_slots_keep:
  "qt_auto (foldl (\<lambda>p (h, reason). limit_reached_slots v h reason p) p xs) = qt_auto p"
  by (induction xs arbitrary: p) (auto simp: limit_reached_slots_def)

lemma slots_keep_auto [simp]:
  "qt_auto (status_slots v ih r p) = qt_auto p" "qt_auto (row_slots v sig p) = qt_auto p"
  "qt_auto (notify_slots v sig p) = qt_auto p" "qt_auto (webhook_slots sig p) = qt_auto p"
  "qt_auto (removed_slots v ih p) = qt_auto p" "qt_auto (scan_slot v ih p) = qt_auto p"
  "qt_auto (action_slot v ih p) = qt_auto p" "qt_auto (metadata_slots v ih p) = qt_auto p"
  "qt_auto (file_error_slots v ih m p) = qt_auto p" "qt_auto (countdown_slots v outs p) = qt_auto p"
  by (simp_all add: status_slots_def row_slots_def notify_slots_def webhook_slots_def removed_slots_def scan_slot_def action_slot_def
      metadata_slots_def file_error_slots_def countdown_slots_def limit_slots_keep Let_def split: prod.split option.split)

definition completion :: "signal \<Rightarrow> bool" where
  "completion g \<longleftrightarrow> (case g of TorrentFinished ih \<Rightarrow> True | _ \<Rightarrow> False)"

lemma deliver_keeps_auto: "\<not> completion g \<Longrightarrow> qt_auto (deliver_signal v g p) = qt_auto p"
  by (cases g) (simp_all add: completion_def)

definition news :: "session \<Rightarrow> session \<Rightarrow> signal list" where
  "news old s = drop (length (ss_sigs old)) (ss_sigs s)"

lemma deliver_all_keeps_auto: "\<forall>g \<in> set gs. \<not> completion g \<Longrightarrow> qt_auto (foldl (\<lambda>p g. deliver_signal v g p) p gs) = qt_auto p"
  by (induction gs arbitrary: p) (simp_all add: deliver_keeps_auto)

lemma deliver_news_keeps_auto:
  "\<forall>g \<in> set (news old (qt_session p)). \<not> completion g \<Longrightarrow> qt_auto (deliver_news v old p) = qt_auto p"
  by (simp add: deliver_news_def deliver_all_keeps_auto news_def)

lemma news_simps:
  "news s (emit g s) = [g]" "news s s = []" "ss_sigs s' = ss_sigs s \<Longrightarrow> news s s' = []"
  "ss_sigs s' = ss_sigs s \<Longrightarrow> news s (emit g s') = [g]"
  by (simp_all add: news_def)

text \<open>What each alert emits.\<close>

lemma state_update_news:
  "news s (fst (state_update_one w st (s, us))) = [] \<or> (\<exists>ih r. news s (fst (state_update_one w st (s, us))) = [StatusUpdated ih r])"
  by (auto simp: state_update_one_def news_def Let_def split: option.split prod.split)

lemma dispatch_news:
  assumes "\<And>sts. a \<noteq> StateUpdateAlert sts" and "\<And>h. a \<noteq> TorrentFinishedAlert h"
  shows "\<forall>g \<in> set (news s (fst (dispatch w a s))). \<not> completion g"
  using assms
  by (cases a) (auto simp: with_hash_def news_simps completion_def on_metadata_received_def save_resume_params_def on_torrent_removed_def
      delete_resume_file_def on_torrent_added_def on_storage_moved_def on_file_error_def Let_def split: option.split)

lemma finished_news:
  "news s (on_torrent_finished w ih s) = (if ih \<in> ss_pending_confirm s then [] else [TorrentFinished ih])"
  by (auto simp: on_torrent_finished_def news_def Let_def split: option.split)

lemma wired_status_keeps_auto: "qt_auto (fst (wired_status v st x)) = qt_auto (fst x)"
proof -
  obtain p us where x: "x = (p, us)" by (cases x)
  obtain s us' where s: "state_update_one (pv_world v) st (qt_session p, us) = (s, us')" by (metis prod.exhaust)
  have "\<forall>g \<in> set (news (qt_session p) s). \<not> completion g"
    using state_update_news [of "qt_session p" "pv_world v" st us] by (auto simp: s completion_def)
  then show ?thesis by (simp add: x wired_status_def s deliver_news_keeps_auto)
qed

lemma wired_state_update_keeps_auto: "qt_auto (wired_state_update v sts p) = qt_auto p"
proof -
  have "qt_auto (fst (foldl (\<lambda>x st. wired_status v st x) x sts)) = qt_auto (fst x)" for x
    by (induction sts arbitrary: x) (simp_all add: wired_status_keeps_auto)
  from this [of "(p, [])"] show ?thesis
    by (auto simp: wired_state_update_def news_simps completion_def deliver_news_keeps_auto split: prod.splits)
qed

lemma wired_alert_keeps_auto: "(\<And>h. a \<noteq> TorrentFinishedAlert h) \<Longrightarrow> qt_auto (wired_alert v a p) = qt_auto p"
  using dispatch_news [of a "qt_session p" "pv_world v"]
  by (cases a) (simp_all add: wired_alert_def wired_state_update_keeps_auto deliver_news_keeps_auto)

text \<open>A completion, in full.\<close>

lemma wired_finished:
  "wired_alert v (TorrentFinishedAlert h) p =
     (case hash_of (pv_world v) h of
        None \<Rightarrow> p
      | Some ih \<Rightarrow> (let q = p\<lparr>qt_session := on_torrent_finished (pv_world v) ih (qt_session p)\<rparr>
                    in if ih \<in> ss_pending_confirm (qt_session p) then q else finished_slots v ih q))"
  using finished_news [of "qt_session p" "pv_world v"]
  by (auto simp: wired_alert_def with_hash_def deliver_news_def news_def [symmetric] news_simps(2) Let_def split: option.split)

lemma on_handle_records [simp]:
  "ss_records (fst (move_storage w ih path s)) = ss_records s" "ss_settings (fst (move_storage w ih path s)) = ss_settings s"
  by (simp_all add: move_storage_def on_handle_def hcall_def split: option.split)

lemma action_slot_session [simp]:
  "ss_records (qt_session (action_slot v ih p)) = ss_records (qt_session p)"
  "ss_settings (qt_session (action_slot v ih p)) = ss_settings (qt_session p)"
  by (auto simp: action_slot_def post_on_finished_def unzip_files_def Let_def split: prod.splits option.splits if_splits
      dest: arg_cong [where f = "\<lambda>x. ss_records (fst x)"] arg_cong [where f = "\<lambda>x. ss_settings (fst x)"])

lemma slots_session [simp]:
  "qt_session (scan_slot v ih p) = qt_session p" "qt_session (webhook_slots sig p) = qt_session p"
  "qt_session (notify_slots v sig p) = qt_session p" "qt_session (shutdown_slot v p) = qt_session p"
  "wd_post (notify_slots v sig p) = wd_post p" "wd_post (shutdown_slot v p) = wd_post p" "wd_post (webhook_slots sig p) = wd_post p"
  "wd_creating (notify_slots v sig p) = wd_creating p" "wd_creating (shutdown_slot v p) = wd_creating p"
  "wd_post (scan_slot v ih p) = wd_post p"
  by (simp_all add: scan_slot_def webhook_slots_def notify_slots_def shutdown_slot_def countdown_slots_def Let_def split: option.split)

lemma shutdown_slot_auto:
  "qt_auto (shutdown_slot v p) = maybe_start_countdown (ss_settings (qt_session p)) (all_records (qt_session p))
     [has_pending_extractions (wd_post p), wd_creating p] (qt_auto p)"
  by (simp add: shutdown_slot_def Let_def)

lemma not_idle_keeps: "\<not> all_torrents_idle records \<Longrightarrow> maybe_start_countdown cfg records busy s = s"
  by (simp add: maybe_start_countdown_def)

text \<open>The record of a torrent that has just finished, before the next status update.\<close>

definition finishes_active :: "world \<Rightarrow> session \<Rightarrow> alert \<Rightarrow> bool" where
  "finishes_active w s a =
     (case a of
        TorrentFinishedAlert h \<Rightarrow>
          (case hash_of w h of
             None \<Rightarrow> True
           | Some ih \<Rightarrow> (case get_record s ih of None \<Rightarrow> False | Some r \<Rightarrow> tr_state r \<in> set ACTIVE_DOWNLOAD_STATES))
      | _ \<Rightarrow> True)"

fun finish_while_active :: "wiring_env \<Rightarrow> alert list \<Rightarrow> wired \<Rightarrow> bool" where
  "finish_while_active v [] p = True"
| "finish_while_active v (a # as) p = (finishes_active (pv_world v) (qt_session p) a \<and> finish_while_active v as (wired_alert v a p))"

lemma finished_keeps_state:
  "get_record s ih = Some r \<Longrightarrow> \<exists>r'. get_record (on_torrent_finished w ih s) ih = Some r' \<and> tr_state r' = tr_state r"
  by (auto simp: on_torrent_finished_def get_record_def write_provenance_manifest_def Let_def)

lemma active_not_idle:
  assumes "get_record s ih = Some r" and "tr_state r \<in> set ACTIVE_DOWNLOAD_STATES"
  shows "\<not> all_torrents_idle (all_records s)"
  using assms dget_in_dvals [of "ss_records s" ih r] by (auto simp: all_torrents_idle_def all_records_def get_record_def list_ex_iff)

lemma finished_slots_auto:
  "qt_auto (finished_slots v ih p) = maybe_start_countdown (ss_settings (qt_session p)) (all_records (qt_session p))
     [has_pending_extractions (wd_post (finished_slots v ih p)), wd_creating (finished_slots v ih p)] (qt_auto p)"
proof -
  have "wd_creating (webhook_slots g q) = wd_creating q" for g q by (simp add: webhook_slots_def)
  then show ?thesis by (simp add: finished_slots_def shutdown_slot_auto all_records_def)
qed

lemma finish_while_active_step:
  assumes "finishes_active (pv_world v) (qt_session p) a"
  shows "qt_auto (wired_alert v a p) = qt_auto p"
proof (cases "\<exists>h. a = TorrentFinishedAlert h")
  case True
  then obtain h where a: "a = TorrentFinishedAlert h" by blast
  show ?thesis
  proof (cases "hash_of (pv_world v) h")
    case (Some ih)
    then obtain r where "get_record (qt_session p) ih = Some r" "tr_state r \<in> set ACTIVE_DOWNLOAD_STATES"
      using assms by (auto simp: finishes_active_def a split: option.splits)
    then have "\<not> all_torrents_idle (all_records (on_torrent_finished (pv_world v) ih (qt_session p)))"
      using finished_keeps_state [of "qt_session p" ih r "pv_world v"] active_not_idle by auto
    then show ?thesis by (simp add: a wired_finished Some Let_def finished_slots_auto not_idle_keeps)
  qed (simp add: a wired_finished)
qed (simp add: wired_alert_keeps_auto)

lemma finished_slots_session:
  "all_records (qt_session (finished_slots v ih p)) = all_records (qt_session p)"
  "ss_settings (qt_session (finished_slots v ih p)) = ss_settings (qt_session p)"
  by (simp_all add: finished_slots_def all_records_def)

text \<open>What the services keep of a removed torrent.\<close>

lemma removed_in_services:
  "share_limit_for (share_untrack ih sh) k = (if k = ih then None else share_limit_for sh k)"
  "get_tags (clear_tags ih tg) k = (if k = ih then [] else get_tags tg k)"
  "dget (ts_current (stats_on_removed ih st)) k = (if k = ih then None else dget (ts_current st) k)"
  "dget (ts_last_seen (stats_on_removed ih st)) k = (if k = ih then None else dget (ts_last_seen st) k)"
  "dget (hy_last_known (fst (history_on_removed now ih hy))) k = (if k = ih then None else dget (hy_last_known hy) k)"
  by (auto simp: share_limit_for_def share_untrack_def share_schedule_save_def get_tags_def clear_tags_def tags_save_def stats_on_removed_def
      flush_one_def last_seen_for_def history_on_removed_def add_entry_def Let_def split: option.split)

lemma wired_removed:
  "wired_alert v (TorrentRemovedAlert hashes) p =
     removed_slots v (info_hash_hex_of hashes) (p\<lparr>qt_session := on_torrent_removed (info_hash_hex_of hashes) (qt_session p)\<rparr>)"
  by (simp add: wired_alert_def deliver_news_def on_torrent_removed_def delete_resume_file_def)

text \<open>What a state says when its countdown may start.\<close>

definition may_shut_down :: "wired \<Rightarrow> bool" where
  "may_shut_down p \<longleftrightarrow> \<not> has_pending_extractions (wd_post p) \<and> \<not> wd_creating p
     \<and> all_torrents_idle (all_records (qt_session p)) \<and> cfg_auto_shutdown_enabled (ss_settings (qt_session p))"

lemma maybe_start_outs:
  assumes "sd_out (maybe_start_countdown cfg records busy s) = sd_out s @ outs" and "CountdownStarted d ms \<in> set outs"
  shows "\<not> list_ex id busy \<and> all_torrents_idle records \<and> cfg_auto_shutdown_enabled cfg"
  using assms by (auto simp: maybe_start_countdown_def sd_emit_def split: if_splits)

lemma finished_slots_waits:
  assumes "sd_out (qt_auto (finished_slots v ih p)) = sd_out (qt_auto p) @ outs" and "CountdownStarted d ms \<in> set outs"
  shows "may_shut_down (finished_slots v ih p)"
  using maybe_start_outs [OF assms(1) [unfolded finished_slots_auto] assms(2)] by (simp add: may_shut_down_def finished_slots_session)

lemma shutdown_slot_waits:
  assumes "sd_out (qt_auto (shutdown_slot v p)) = sd_out (qt_auto p) @ outs" and "CountdownStarted d ms \<in> set outs"
  shows "may_shut_down (shutdown_slot v p)"
  using maybe_start_outs [OF assms(1) [unfolded shutdown_slot_auto] assms(2)] by (simp add: may_shut_down_def)

section \<open>The files\<close>

text \<open>The listeners leave every store as readable as they found it.\<close>

definition stores_of :: "'a program_scheme \<Rightarrow> share_service \<times> session \<times> rule_store \<times> tags \<times> source_store \<times> profile_store \<times> disk_store \<times> association_store" where
  "stores_of p = (qt_share p, qt_session p, pg_rules p, pg_tags p, pg_sources p, pg_profiles p, pg_disks p, pg_associations p)"

definition stores_ok :: "share_service \<times> session \<times> rule_store \<times> tags \<times> source_store \<times> profile_store \<times> disk_store \<times> association_store \<Rightarrow> bool" where
  "stores_ok x \<longleftrightarrow> (case x of (sh, s, rules, tags, sources, profiles, disks, associations) \<Rightarrow>
     share_synced sh \<and> disk_ok s \<and> store_synced rule_of_json rules \<and> tags_load (tg_file tags) = Some tags
   \<and> store_synced source_of_json sources \<and> store_synced profile_of_json profiles \<and> store_synced known_disk_of_json disks
   \<and> store_synced association_of_json associations)"

lemma program_ok_stores: "program_ok p \<longleftrightarrow> stores_ok (stores_of p)"
  by (simp only: program_ok_def stores_ok_def stores_of_def prod.case)

lemma slots_stores [simp]:
  "stores_of (row_slots v sig p) = stores_of p" "stores_of (notify_slots v sig p) = stores_of p"
  "stores_of (webhook_slots sig p) = stores_of p" "stores_of (scan_slot v ih p) = stores_of p"
  "stores_of (shutdown_slot v p) = stores_of p" "stores_of (file_error_slots v ih m p) = stores_of p"
  "stores_of (limit_reached_slots v ih reason p) = stores_of p"
  by (simp_all add: row_slots_def notify_slots_def webhook_slots_def scan_slot_def shutdown_slot_def countdown_slots_def
      file_error_slots_def limit_reached_slots_def stores_of_def Let_def split: option.split)

lemma listeners_stores [simp]:
  "stores_of (p\<lparr>pg_stats := st\<rparr>) = stores_of p" "stores_of (p\<lparr>pg_history := hy\<rparr>) = stores_of p" "stores_of (p\<lparr>pg_rss := ru\<rparr>) = stores_of p"
  "stores_of (q\<lparr>wd_add := page\<rparr>) = stores_of q" "stores_of (q\<lparr>wd_post := post\<rparr>) = stores_of q"
  by (simp_all add: stores_of_def)

lemma limit_slots_stores: "stores_of (foldl (\<lambda>p (h, reason). limit_reached_slots v h reason p) p xs) = stores_of p"
  by (induction xs arbitrary: p) auto

lemma stores_ok_share: "stores_ok (stores_of p) \<Longrightarrow> share_synced sh \<Longrightarrow> disk_ok s \<Longrightarrow> stores_ok (stores_of (p\<lparr>qt_share := sh, qt_session := s\<rparr>))"
  by (simp add: stores_ok_def stores_of_def)

lemma stores_ok_session: "stores_ok (stores_of p) \<Longrightarrow> disk_ok s \<Longrightarrow> stores_ok (stores_of (p\<lparr>qt_session := s\<rparr>))"
  by (simp add: stores_ok_def stores_of_def)

lemma stores_ok_parts: "stores_ok (stores_of p) \<Longrightarrow> share_synced (qt_share p)" "stores_ok (stores_of p) \<Longrightarrow> disk_ok (qt_session p)"
  by (simp_all add: stores_ok_def stores_of_def)

lemma stores_ok_persisted:
  assumes "stores_ok (stores_of p)" and "persisted s = persisted (qt_session p)"
  shows "stores_ok (stores_of (p\<lparr>qt_session := s\<rparr>))"
  by (rule stores_ok_session [OF assms(1) disk_ok_keep [OF stores_ok_parts(2) [OF assms(1)] assms(2)]])

lemma status_slots_ok:
  assumes "stores_ok (stores_of p)"
  shows "stores_ok (stores_of (status_slots v ih r p))"
proof -
  obtain sh sess where s: "share_on_status (pv_world v) ih r (qt_share p, qt_session p) = (sh, sess)" by (metis prod.exhaust)
  have "share_synced sh" using synced_on_status [of "qt_share p" "pv_world v" ih r "qt_session p"] stores_ok_parts(1) [OF assms] by (simp add: s)
  moreover have "persisted sess = persisted (qt_session p)"
    using share_step_session [of "ShareStatus (pv_world v) ih r" "qt_share p" "qt_session p"] by (simp add: s)
  then have "disk_ok sess" by (rule disk_ok_keep [OF stores_ok_parts(2) [OF assms]])
  ultimately have "stores_ok (stores_of (p\<lparr>qt_share := sh, qt_session := sess\<rparr>))" by (rule stores_ok_share [OF assms])
  then show ?thesis by (simp add: status_slots_def s limit_slots_stores Let_def)
qed

lemma removed_slots_ok:
  assumes "stores_ok (stores_of p)"
  shows "stores_ok (stores_of (removed_slots v ih p))"
proof -
  have "share_synced (share_untrack ih (qt_share p))"
    using synced_step [of "(qt_share p, qt_session p)" "ShareUntrack ih"] stores_ok_parts(1) [OF assms] by simp
  moreover have "tags_load (tg_file (clear_tags ih (pg_tags p))) = Some (clear_tags ih (pg_tags p))"
    using tags_step_synced [of "pg_tags p" "ClearTags ih"] assms by (simp add: stores_ok_def stores_of_def)
  ultimately show ?thesis using assms by (simp add: removed_slots_def notify_slots_def row_slots_def Let_def stores_ok_def stores_of_def split: prod.split)
qed

lemma action_slot_ok:
  assumes "stores_ok (stores_of p)"
  shows "stores_ok (stores_of (action_slot v ih p))"
proof -
  obtain post sess ok where a: "post_on_finished (pv_world v) (list_rules (pg_rules p)) ih (wd_post p, qt_session p) = ((post, sess), ok)"
    by (metis prod.exhaust)
  have "persisted (snd (fst (post_on_finished w rules ih (pc, s)))) = persisted s" for w rules pc s
    by (auto simp: post_on_finished_def unzip_files_def Let_def case_prod_unfold frame split: option.split)
  from this [of "pv_world v" "list_rules (pg_rules p)" "wd_post p" "qt_session p"]
  have "persisted sess = persisted (qt_session p)" by (simp add: a)
  with stores_ok_persisted [of "p\<lparr>wd_post := post\<rparr>" sess] assms show ?thesis by (simp add: action_slot_def a)
qed

lemma metadata_slots_ok:
  assumes "stores_ok (stores_of p)"
  shows "stores_ok (stores_of (metadata_slots v ih p))"
proof -
  obtain rss sess ok where m: "on_rss_metadata_received (pv_world v) ih (pg_rss p, qt_session p) = ((rss, sess), ok)" by (metis prod.exhaust)
  have "persisted (snd (fst (on_rss_metadata_received w ih (ru, s)))) = persisted s" for w ru s
    by (auto simp: on_rss_metadata_received_def Let_def case_prod_unfold frame)
  from this [of "pv_world v" "pg_rss p" "qt_session p"] have "persisted sess = persisted (qt_session p)" by (simp add: m)
  with stores_ok_persisted [of "p\<lparr>pg_rss := rss\<rparr>" sess] assms show ?thesis by (simp add: metadata_slots_def m Let_def)
qed

lemma deliver_ok: "stores_ok (stores_of p) \<Longrightarrow> stores_ok (stores_of (deliver_signal v g p))"
  by (cases g) (simp_all add: status_slots_ok removed_slots_ok finished_slots_def action_slot_ok metadata_slots_ok)

lemma deliver_news_ok: "stores_ok (stores_of p) \<Longrightarrow> stores_ok (stores_of (deliver_news v old p))"
proof -
  have "stores_ok (stores_of p) \<Longrightarrow> stores_ok (stores_of (foldl (\<lambda>p g. deliver_signal v g p) p gs))" for gs p
    by (induction gs arbitrary: p) (simp_all add: deliver_ok)
  then show "stores_ok (stores_of p) \<Longrightarrow> stores_ok (stores_of (deliver_news v old p))" by (simp add: deliver_news_def)
qed

lemma wired_status_ok: "stores_ok (stores_of (fst x)) \<Longrightarrow> stores_ok (stores_of (fst (wired_status v st x)))"
proof -
  assume ok: "stores_ok (stores_of (fst x))"
  obtain p us where x: "x = (p, us)" by (cases x)
  obtain s us' where s: "state_update_one (pv_world v) st (qt_session p, us) = (s, us')" by (metis prod.exhaust)
  have "persisted s = persisted (qt_session p)" using persisted.status_update [of "pv_world v" st "(qt_session p, us)"] by (simp add: s)
  then have "stores_ok (stores_of (p\<lparr>qt_session := s\<rparr>))"
    using stores_ok_persisted [of p s] ok by (simp add: x)
  then show "stores_ok (stores_of (fst (wired_status v st x)))" by (simp add: x wired_status_def s deliver_news_ok)
qed

lemma wired_alert_ok:
  assumes "stores_ok (stores_of p)"
  shows "stores_ok (stores_of (wired_alert v a p))"
proof -
  have "stores_ok (stores_of (fst x)) \<Longrightarrow> stores_ok (stores_of (fst (foldl (\<lambda>x st. wired_status v st x) x sts)))" for x sts
    by (induction sts arbitrary: x) (simp_all add: wired_status_ok)
  from this [of "(p, [])"] assms have loop: "stores_ok (stores_of q)" if "foldl (\<lambda>x st. wired_status v st x) (p, []) sts = (q, us)" for sts q us
    using that by (metis fst_conv)
  have batch: "stores_ok (stores_of (q\<lparr>qt_session := emit g (qt_session q)\<rparr>))" if "stores_ok (stores_of q)" for q :: wired and g
    by (rule stores_ok_persisted [OF that persisted.emit])
  have "stores_ok (stores_of (wired_state_update v sts p))" for sts
  proof -
    obtain q us where q: "foldl (\<lambda>x st. wired_status v st x) (p, []) sts = (q, us)" by (metis prod.exhaust)
    show ?thesis by (simp add: wired_state_update_def q loop [OF q] deliver_news_ok [OF batch [OF loop [OF q]]])
  qed
  moreover have "stores_ok (stores_of (p\<lparr>qt_session := fst (dispatch w a (qt_session p))\<rparr>))" for w
    by (intro stores_ok_session disk_ok_dispatch stores_ok_parts assms)
  ultimately show ?thesis using assms by (cases a) (simp_all add: wired_alert_def deliver_news_ok)
qed

lemma wired_alerts_ok: "program_ok p \<Longrightarrow> program_ok (wired_alerts v alerts p)"
  unfolding wired_alerts_def program_ok_stores by (induction alerts arbitrary: p) (simp_all add: wired_alert_ok)

section \<open>Properties\<close>

text \<open>C38: the test that starts the countdown of the automatic shutdown counts the torrent that has just
  finished: while its record still says that it downloads, which the completion does not change, no
  completion starts the countdown, defers it or does anything to it, whatever other alerts come
  between. The record changes with the next status update, which does not start the countdown.\<close>

theorem finished_record_holds_countdown:
  assumes "finish_while_active v alerts p"
  shows "qt_auto (wired_alerts v alerts p) = qt_auto p"
  using assms unfolding wired_alerts_def by (induction alerts arbitrary: p) (simp_all add: finish_while_active_step)

text \<open>C36: whatever happens, the countdown starts only when no extraction is running, no torrent is being
  created and every torrent is idle: the service of the actions after completion is told of a
  completion before the automatic shutdown is.\<close>

theorem countdown_waits_for_work:
  assumes "sd_out (qt_auto (wired_step v e p)) = sd_out (qt_auto p) @ outs" and "CountdownStarted d ms \<in> set outs"
  shows "may_shut_down (wired_step v e p)"
proof (cases e)
  case (AlertPopped a)
  show ?thesis
  proof (cases "\<exists>h. a = TorrentFinishedAlert h")
    case True
    then obtain h where a: "a = TorrentFinishedAlert h" by blast
    show ?thesis using assms
      by (auto simp: AlertPopped a wired_finished Let_def intro!: finished_slots_waits split: option.splits if_splits)
  next
    case False
    then show ?thesis using assms by (simp add: AlertPopped wired_alert_keeps_auto)
  qed
next
  case ExtractionEnded
  then show ?thesis using assms
    by (auto simp: extraction_finished_def on_busy_source_idle_def sd_emit_def split: prod.splits if_splits)
next
  case RetryTurn
  then show ?thesis using assms by (auto intro: shutdown_slot_waits)
qed (use assms in \<open>auto simp: creation_finished_def on_busy_source_idle_def sd_emit_def cancel_shutdown_def countdown_elapsed_def
    on_countdown_elapsed_def execute_def Let_def split: option.splits if_splits\<close>)



text \<open>The completion of the last torrent, when its rule unpacks archives, starts no countdown but defers
  it; the end of the extraction asks for another try, and that one starts the countdown.\<close>

theorem archive_then_countdown:
  assumes "get_record (qt_session p) ih = Some r" and "tr_matched_rule_name r = Some n" and "n \<noteq> []"
    and "find (\<lambda>x. rr_name x = n) (list_rules (pg_rules p)) = Some rule" and "rr_action rule = ''unzip''"
    and "zip_paths (pv_world v) (tr_save_path r) ih (qt_session p) \<noteq> []" and "pc_pending (wd_post p) = 0"
    and "\<not> wd_creating p" and "\<not> qt_extractions_cancelled p"
    and "\<not> sd_stopped (qt_auto p)" and "sd_pending (qt_auto p) = None"
    and "cfg_auto_shutdown_enabled (ss_settings (qt_session p))" and "all_torrents_idle (all_records (qt_session p))"
  shows "let p1 = deliver_signal v (TorrentFinished ih) p; p2 = wired_step v ExtractionEnded p1; p3 = wired_step v RetryTurn p2;
             delay = cfg_auto_shutdown_delay_seconds (ss_settings (qt_session p)) in
     qt_auto p1 = (qt_auto p)\<lparr>sd_deferred := True\<rparr>
     \<and> sd_out (qt_auto p2) = sd_out (qt_auto p) @ [RetryNextTurn]
     \<and> sd_out (qt_auto p3) = sd_out (qt_auto p) @ [RetryNextTurn, CountdownStarted delay (max 0 delay * 1000)]
     \<and> sd_pending (qt_auto p3) = Some (cfg_auto_shutdown_action (ss_settings (qt_session p)))"
proof -
  let ?p1 = "finished_slots v ih p" and ?p2 = "extraction_finished (finished_slots v ih p)"
  have post: "pc_pending (wd_post ?p1) = 1" "wd_creating ?p1 = wd_creating p" "qt_extractions_cancelled ?p1 = qt_extractions_cancelled p"
    using assms(1-7) by (simp_all add: finished_slots_def action_slot_def scan_slot_def post_on_finished_def unzip_files_def Let_def
        notify_slots_def shutdown_slot_def countdown_slots_def webhook_slots_def split: option.split)
  have p1: "qt_auto ?p1 = (qt_auto p)\<lparr>sd_deferred := True\<rparr>"
    using assms(10-13) by (simp add: finished_slots_auto maybe_start_countdown_def has_pending_extractions_def post)
  have p2: "qt_auto ?p2 = sd_emit RetryNextTurn ((qt_auto p)\<lparr>sd_deferred := False\<rparr>)" "pc_pending (wd_post ?p2) = 0"
      "wd_creating ?p2 = wd_creating p" "qt_session ?p2 = qt_session ?p1"
    using assms(9) post by (simp_all add: extraction_finished_def on_extraction_finished_def p1 on_busy_source_idle_def Let_def)
  have p3: "qt_auto (shutdown_slot v ?p2)
      = sd_emit (CountdownStarted (cfg_auto_shutdown_delay_seconds (ss_settings (qt_session p)))
            (max 0 (cfg_auto_shutdown_delay_seconds (ss_settings (qt_session p))) * 1000))
          ((qt_auto ?p2)\<lparr>sd_pending := Some (cfg_auto_shutdown_action (ss_settings (qt_session p)))\<rparr>)"
    using assms(8,10-13)
    by (simp add: shutdown_slot_auto p2 finished_slots_session maybe_start_countdown_def has_pending_extractions_def sd_emit_def)
  show ?thesis by (simp add: Let_def p1 p2 p3 sd_emit_def)
qed

section \<open>What the connections do not do\<close>

text \<open>The busy sources hold the start of a countdown only: one that has started runs its command at the end,
  whatever extraction has begun since.\<close>

lemma elapsed_countdown_ignores_extractions:
  assumes "sd_pending (qt_auto p) = Some action" and "\<not> sd_stopped (qt_auto p)"
    and "cfg_auto_shutdown_enabled (ss_settings (qt_session p))"
  shows "\<exists>c. sd_out (qt_auto (wired_step v CountdownElapsed (p\<lparr>wd_post := post\<rparr>))) = sd_out (qt_auto p) @ [SystemCommand c]"
  using assms by (simp add: countdown_elapsed_def on_countdown_elapsed_def execute_def sd_emit_def)

text \<open>Once the private flag of a torrent was read it is never read again, not even for the new record of a
  torrent that was removed and added again.\<close>

lemma private_flag_read_once:
  assumes "ih \<in> ss_private_checked s" and "info_hash_hex_of (sx_info_hashes st) = ih" and "get_record s ih = Some r"
  shows "\<exists>r'. get_record (fst (state_update_one w st (s, us))) ih = Some r' \<and> tr_is_private r' = tr_is_private r
       \<and> ss_private_checked (fst (state_update_one w st (s, us))) = ss_private_checked s"
  using assms by (auto simp: state_update_one_def get_record_def Let_def set_record_def emit_def status_to_record_def)


text \<open>The feeds do not forget a magnet that is removed before its metadata arrives: added again by hand, it
  starts by itself as soon as they do.\<close>

lemma pending_magnet_starts:
  assumes "ih \<in> ru_pending (pg_rss p)" and "hash_of (pv_world v) h = Some ih"
    and "dget (ss_handles (qt_session p)) ih = Some h" and "dget (ss_records (qt_session p)) ih = Some r"
    and "\<not> is_download_start_blocked (cfg_theme (ss_settings (qt_session p))) (tr_progress r)"
  shows "HResume h \<in> set (new_cmds (qt_session p) (qt_session (wired_alert v (MetadataReceivedAlert h) p)))"
proof -
  let ?w = "pv_world v" and ?s = "on_metadata_received ih (qt_session p)"
  have valid: "w_valid ?w h" using assms(2) by (simp add: hash_of_def split: if_splits)
  obtain rss sess ok where m: "on_rss_metadata_received ?w ih (pg_rss p, ?s) = ((rss, sess), ok)" by (metis prod.exhaust)
  have s: "ss_handles ?s = ss_handles (qt_session p)" "ss_settings ?s = ss_settings (qt_session p)" "ss_cmds ?s = ss_cmds (qt_session p)"
    "dget (ss_records ?s) ih = Some (r\<lparr>tr_is_magnet_awaiting_metadata := False\<rparr>)"
    using assms(4) by (simp_all add: on_metadata_received_def on_record_def)
  have "ok \<and> HResume h \<in> set (new_cmds ?s sess)"
    using m assms(1,3,5) valid
    by (auto simp: on_rss_metadata_received_def Let_def exclude_files_def hcall_def start_after_analysis_def andthen_def s split: prod.splits if_splits)
  moreover have "wired_alert v (MetadataReceivedAlert h) p = metadata_slots v ih (p\<lparr>qt_session := ?s\<rparr>)"
    using assms(2) by (simp add: wired_alert_def with_hash_def deliver_news_def on_metadata_received_def)
  ultimately show ?thesis by (simp add: metadata_slots_def m Let_def s)
qed

section \<open>The launch\<close>

definition start_wired :: "launch_env \<Rightarrow> data_dir \<Rightarrow> jsonl \<Rightarrow> bool \<Rightarrow> wired loaded" where
  "start_wired v d lines tray = lbind (start_program v d) (\<lambda>p. loaded.Loaded (wire p lines tray))"

lemma wire_stores: "stores_of (wire p lines tray) = stores_of p"
  by (simp add: stores_of_def wire_def program.defs)

lemma wired_run_ok:
  assumes "start_wired v d lines tray = loaded.Loaded p"
  shows "program_ok (wired_alerts v' alerts p)"
proof -
  obtain p0 where "start_program v d = loaded.Loaded p0" "p = wire p0 lines tray"
    using assms by (auto simp: start_wired_def lbind_Loaded)
  then show ?thesis
    using program_ok_started [of v d p0] wired_alerts_ok [of p v' alerts] by (simp add: program_ok_stores wire_stores)
qed

section \<open>Concrete inputs\<close>

text \<open>The last torrent, an archive, is complete; its rule unpacks it.\<close>

definition zip_world :: world where
  "zip_world = small_world\<lparr>w_info := (\<lambda>_. Some \<lparr>ti_hashes = \<lparr>hs_v1 = Some ''A'', hs_v2 = []\<rparr>,
        ti_files = [\<lparr>lf_path = ''a.zip'', lf_size = 10, lf_offset = 0, lf_pad = False, lf_hidden = False, lf_executable = False\<rparr>],
        ti_priv = False, ti_num_pieces = 1, ti_piece_length = 16\<rparr>)\<rparr>"

definition zip_wiring :: wiring_env where
  "zip_wiring = page_env.extend (demo_page_env\<lparr>pv_world := zip_world\<rparr>) (wiring_env.fields (\<lambda>_. None) (\<lambda>_. False)
     \<lparr>jn_dumps = (\<lambda>_. []), jn_io = \<lparr>io_append = Done, io_again = Done, io_read = True, io_write = True, io_tell = 0\<rparr>,
      jn_now = [], jn_show_int = (\<lambda>_. [])\<rparr> (\<lambda>_. []) [])"

definition zip_rule :: routing_rule where
  "zip_rule = series_rule\<lparr>rr_action := ''unzip''\<rparr>"

definition zip_session :: "torrent_state \<Rightarrow> session" where
  "zip_session state = small_session\<lparr>ss_settings := DEFAULT_SETTINGS\<lparr>cfg_auto_shutdown_enabled := True\<rparr>,
     ss_records := [(''A'', (new_record ''A'')\<lparr>tr_state := state, tr_matched_rule_name := Some ''series''\<rparr>)], ss_pending_confirm := {}\<rparr>"

definition zip_program :: "torrent_state \<Rightarrow> program \<Rightarrow> wired" where
  "zip_program state p0 = (wire p0 None False)\<lparr>qt_session := zip_session state, pg_rules := \<lparr>st_entries = [zip_rule], st_file = Missing\<rparr>,
     qt_auto := shutdown_init, qt_extractions_cancelled := False\<rparr>"

lemma wire_simps:
  "wd_post (wire p lines tray) = \<lparr>pc_pending = 0, pc_jobs = []\<rparr>" "\<not> wd_creating (wire p lines tray)"
  by (simp_all add: wire_def program.defs wired.defs)

lemma zip_wiring_world: "pv_world zip_wiring = zip_world"
  by (simp add: zip_wiring_def page_env.defs)

theorem finished_record_holds_countdown_witness:
  "\<forall>p0. finish_while_active zip_wiring [TorrentFinishedAlert 1] (zip_program DOWNLOADING p0)
     \<and> qt_auto (wired_alerts zip_wiring [TorrentFinishedAlert 1] (zip_program DOWNLOADING p0)) = shutdown_init"
proof
  fix p0
  have f: "finish_while_active zip_wiring [TorrentFinishedAlert 1] (zip_program DOWNLOADING p0)"
    by (simp add: finishes_active_def zip_wiring_world zip_world_def small_world_def hash_of_def zip_program_def zip_session_def
        get_record_def ACTIVE_DOWNLOAD_STATES_def info_hash_hex_of_def)
  with finished_record_holds_countdown [OF f]
  show "finish_while_active zip_wiring [TorrentFinishedAlert 1] (zip_program DOWNLOADING p0)
     \<and> qt_auto (wired_alerts zip_wiring [TorrentFinishedAlert 1] (zip_program DOWNLOADING p0)) = shutdown_init"
    by (simp add: zip_program_def)
qed


lemma zip_ready:
  "get_record (zip_session FINISHED) ''A'' = Some ((new_record ''A'')\<lparr>tr_state := FINISHED, tr_matched_rule_name := Some ''series''\<rparr>)"
  "zip_paths zip_world [] ''A'' (zip_session FINISHED) \<noteq> []"
  "cfg_auto_shutdown_enabled (ss_settings (zip_session FINISHED))"
  "all_torrents_idle (all_records (zip_session FINISHED))"
  "cfg_auto_shutdown_delay_seconds (ss_settings (zip_session FINISHED)) = 60"
  by (simp_all add: zip_session_def get_record_def zip_paths_def get_torrent_files_def small_session_def zip_world_def
      files_from_torrent_info_def ascii_lower_def all_torrents_idle_def all_records_def ACTIVE_DOWNLOAD_STATES_def DEFAULT_SETTINGS_def suffix_def)

theorem archive_then_countdown_witness:
  "\<forall>p0. let p1 = deliver_signal zip_wiring (TorrentFinished ''A'') (zip_program FINISHED p0);
     p3 = wired_step zip_wiring RetryTurn (wired_step zip_wiring ExtractionEnded p1) in
   sd_out (qt_auto p1) = [] \<and> sd_out (qt_auto p3) = [RetryNextTurn, CountdownStarted 60 60000]"
proof
  fix p0
  let ?p = "zip_program FINISHED p0"
  have p: "qt_session ?p = zip_session FINISHED" "pg_rules ?p = \<lparr>st_entries = [zip_rule], st_file = Missing\<rparr>" "qt_auto ?p = shutdown_init"
    "wd_post ?p = \<lparr>pc_pending = 0, pc_jobs = []\<rparr>" "\<not> wd_creating ?p" "\<not> qt_extractions_cancelled ?p"
    by (simp_all add: zip_program_def wire_simps)
  show "let p1 = deliver_signal zip_wiring (TorrentFinished ''A'') ?p; p3 = wired_step zip_wiring RetryTurn (wired_step zip_wiring ExtractionEnded p1) in
   sd_out (qt_auto p1) = [] \<and> sd_out (qt_auto p3) = [RetryNextTurn, CountdownStarted 60 60000]"
    using archive_then_countdown [of ?p "''A''" _ "''series''" zip_rule zip_wiring, unfolded p zip_wiring_world, OF zip_ready(1)] zip_ready(2-5) p(5,6)
    by (simp add: list_rules_def zip_rule_def series_rule_def new_record_def shutdown_init_def Let_def)
qed

theorem countdown_waits_for_work_witness:
  "\<forall>p0. sd_out (qt_auto (wired_step zip_wiring RetryTurn (zip_program FINISHED p0))) = [CountdownStarted 60 60000]
     \<and> may_shut_down (wired_step zip_wiring RetryTurn (zip_program FINISHED p0))"
proof
  fix p0
  have "sd_out (qt_auto (wired_step zip_wiring RetryTurn (zip_program FINISHED p0)))
      = sd_out (qt_auto (zip_program FINISHED p0)) @ [CountdownStarted 60 60000]"
    using zip_ready(3-5)
    by (simp add: shutdown_slot_auto zip_program_def wire_simps maybe_start_countdown_def shutdown_init_def has_pending_extractions_def sd_emit_def)
  from this countdown_waits_for_work [OF this]
  show "sd_out (qt_auto (wired_step zip_wiring RetryTurn (zip_program FINISHED p0))) = [CountdownStarted 60 60000]
     \<and> may_shut_down (wired_step zip_wiring RetryTurn (zip_program FINISHED p0))"
    by (simp add: zip_program_def shutdown_init_def)
qed

end
