(* ===== verification/Rss_Workers.thy ===== *)
theory Rss_Workers
  imports Rss Fetch
begin

text \<open>
  The workers of \<open>engine/rss_feed_service.py\<close>, \<open>_FetchFeedRunnable\<close> and \<open>_DownloadTorrentRunnable\<close>: what each
  makes of its download and which slot of the service that reaches. \<open>show_error\<close> is \<open>str\<close> of the
  exception; the folder of temporary files is the name the file gets and whether it can be written.
\<close>

section \<open>The workers\<close>

datatype worker_signal =
    Feed_Fetched string "rss_item list"
  | Feed_Failed string string
  | Torrent_Downloaded string rss_item string string
  | Torrent_Download_Failed string rss_item string

record worker_env =
  wk_show_int :: "int \<Rightarrow> string"
  wk_show_error :: "fetch_error \<Rightarrow> string"
  wk_connection :: connection
  wk_deadline :: rat
  wk_xml :: "string \<Rightarrow> xml option"
  wk_temp_path :: string
  wk_write_error :: "string option"

text \<open>\<open>None\<close>: an \<open>HTTPException\<close> ends the run without a signal.\<close>

definition fetch_feed_run :: "worker_env \<Rightarrow> string \<Rightarrow> proxy_settings option \<Rightarrow> worker_signal option" where
  "fetch_feed_run v feed_url proxy =
     (case fetch_url (wk_show_int v) (wk_connection v) feed_url (wk_deadline v) proxy of
        Inl (Fetch_Error e) \<Rightarrow> Some (Feed_Failed feed_url (wk_show_error v e))
      | Inl _ \<Rightarrow> None
      | Inr body \<Rightarrow> Some (Feed_Fetched feed_url (parse_rss_items (wk_xml v) body)))"

definition download_torrent_run :: "worker_env \<Rightarrow> string \<Rightarrow> rss_item \<Rightarrow> string \<Rightarrow> proxy_settings option \<Rightarrow> worker_signal option" where
  "download_torrent_run v feed_url it save_path proxy =
     (case fetch_url (wk_show_int v) (wk_connection v) (it_link it) (wk_deadline v) proxy of
        Inl (Fetch_Error e) \<Rightarrow> Some (Torrent_Download_Failed feed_url it (wk_show_error v e))
      | Inl _ \<Rightarrow> None
      | Inr body \<Rightarrow> (case wk_write_error v of
                       Some message \<Rightarrow> Some (Torrent_Download_Failed feed_url it message)
                     | None \<Rightarrow> Some (Torrent_Downloaded feed_url it (wk_temp_path v) save_path)))"

text \<open>The slot a signal reaches; \<open>ti\<close> is what the temporary file is read as.\<close>

fun on_worker_signal :: "rss_env \<Rightarrow> atp \<Rightarrow> torrent_info option \<Rightarrow> worker_signal \<Rightarrow> rss_service \<times> session \<Rightarrow> rss_service \<times> session" where
  "on_worker_signal v blank ti (Feed_Fetched url items) x = fst (on_feed_fetched v url items x)"
| "on_worker_signal v blank ti (Feed_Failed url message) x = (on_feed_failed url message (fst x), snd x)"
| "on_worker_signal v blank ti (Torrent_Downloaded url it temp save_path) x = on_torrent_downloaded v blank ti url it temp save_path x"
| "on_worker_signal v blank ti (Torrent_Download_Failed url it message) x = (on_torrent_download_failed url it message (fst x), snd x)"

definition worker_ends :: "rss_env \<Rightarrow> atp \<Rightarrow> torrent_info option \<Rightarrow> worker_signal option \<Rightarrow> rss_service \<times> session \<Rightarrow> rss_service \<times> session" where
  "worker_ends v blank ti sig x = (case sig of None \<Rightarrow> x | Some g \<Rightarrow> on_worker_signal v blank ti g x)"

section \<open>What becomes of a linked torrent\<close>

lemma emit_out [simp]: "ru_out (rss_emit m s) = ru_out s @ [m]" "ru_seen (rss_emit m s) = ru_seen s"
  by (simp_all add: rss_emit_def)

text \<open>A download ends in one of three ways: the torrent is added and announced, its failure is reported,
  or nothing is said at all; a file that reached the disk is removed.\<close>

lemma download_outcomes:
  assumes "worker_ends v blank ti (download_torrent_run w url it save_path proxy) (s, sess) = (s', sess')"
  shows "ru_seen s' = ru_seen s \<and>
     (ru_out s' = ru_out s @ [UnlinkTemp (wk_temp_path w), ItemsFound url [it]]
    \<or> ru_out s' = ru_out s @ [UnlinkTemp (wk_temp_path w)]
    \<or> (\<exists>message. ru_out s' = ru_out s @ [FeedCheckFailed url message]) \<and> sess' = sess
    \<or> s' = s \<and> sess' = sess)"
  using assms
  by (auto simp: worker_ends_def download_torrent_run_def on_torrent_download_failed_def on_torrent_downloaded_def Let_def
      split: sum.splits exn.splits option.splits prod.splits if_splits)

text \<open>The feed's item counts as seen before its download begins, so a download that failed is not tried again:
  no later document gives that item to the second loop.\<close>

lemma feed_item_tried_once:
  assumes "handle_item v url it (s, sess, newly) = (s1, sess1, newly1)"
    and "prefix ''http://'' (it_link it) \<or> prefix ''https://'' (it_link it)"
    and "worker_ends v blank ti (download_torrent_run w url it save_path proxy) (s1, sess1) = (s2, sess2)"
    and "rss_candidates re (ru_seen s2) feed items = Some candidates"
  shows "it_guid it \<notin> it_guid ` set candidates"
proof -
  have "\<not> prefix ''magnet:'' (it_link it)" using assms(2) by (auto simp: prefix_def)
  then have "is_seen (ru_seen s1) (it_guid it)" using assms(1,2) by (auto simp: handle_item_def Let_def)
  moreover have "ru_seen s2 = ru_seen s1" using download_outcomes [OF assms(3)] by blast
  ultimately show ?thesis using candidates_subseq [OF assms(4)] by auto
qed

end
