(* ===== verification/Session_Starts.thy ===== *)
theory Session_Starts
  imports Session_Reach
begin

text \<open>
  What makes a torrent run: of all the operations, timers and alerts of the session manager only adding
  a torrent, confirming it after the analysis and resuming it add or un-pause one, and each of them asks
  the theme first. Beside these only two calls let libtorrent's queue run more of what it holds: the end
  of the wait for the block list un-pauses the session, and a new number of active downloads is passed on.
\<close>

section \<open>The calls that start a torrent\<close>

definition started :: "session \<Rightarrow> lt_cmd list" where
  "started s = filter starts (ss_cmds s)"

interpretation started: start_store_view started
  by unfold_locales (simp_all add: started_def list_all_iff filter_empty_conv)

lemma started_simps [frame]:
  "started (s\<lparr>ss_categories := cats\<rparr>) = started s" "started (s\<lparr>ss_settings := cfg\<rparr>) = started s"
  "started (s\<lparr>ss_rep := rep\<rparr>) = started s" "started (s\<lparr>ss_lan := lan\<rparr>) = started s"
  "started (cmd c s) = started s @ (if starts c then [c] else [])"
  by (simp_all add: started_def cmd_def)

lemma started_category [frame]: "started (set_torrent_category ih category s) = started s"
  by (simp add: set_torrent_category_def Let_def frame)

lemma started_peers [frame]:
  "started (snd (get_peer_info show_int w ih s)) = started s" "started (flush_peer_stores w s) = started s"
  by (auto simp: get_peer_info_def flush_peer_stores_def started_def Let_def split: option.split)

lemma started_removed: "started (on_torrent_removed ih s) = started s"
  by (simp add: on_torrent_removed_def frame) (simp add: started_def)

lemma started_dispatch: "started (fst (dispatch w a s)) = started s"
  by (cases a) (auto simp: with_hash_def frame started.state_update started_removed split: option.split)

lemma started_alerts: "started (dispatch_alerts w as s) = started s"
proof -
  have "started (foldl (\<lambda>s a. fst (dispatch w a s)) s as) = started s"
    by (induction as arbitrary: s) (simp_all add: started_dispatch)
  then show ?thesis by (simp add: dispatch_alerts_def dispatch_all_def)
qed

lemma started_tick [frame]: "started (on_tick w as s) = started s"
proof -
  have "started (fst (apply_deadline_priorities w (dispatch_alerts w as (cmd PostTorrentUpdates s)))) = started s"
    by (simp add: started.deadlines started_alerts frame)
  then show ?thesis by (auto simp: on_tick_def started.autosave split: prod.split)
qed

lemma started_restore_poll [frame]: "started (fst (bind_restored_handles w as s)) = started s"
  by (simp add: bind_restored_handles_def started_alerts Let_def)

section \<open>The operations that start one\<close>

lemma started_blocklist:
  "started (on_ip_blocklist_loaded ip_filter s)
     = started s @ (if ss_timer_active s \<and> ss_blocklist_wait s then [SessionResume] else [])"
  by (simp add: on_ip_blocklist_loaded_def started_def cmd_def emit_def Let_def split: option.split)

lemma started_active:
  "started (set_max_active_downloads k s) = started s @
     [ApplySettings [(''active_downloads'', JInt k), (''active_seeds'', JInt k), (''active_checking'', JInt k), (''active_limit'', JInt (k * 2))]]"
  by (simp add: set_max_active_downloads_def frame)

lemma started_add:
  "started (fst (add w added a aw s)) = started s @ (if added = None then [] else [AddTorrent a])"
proof (cases added)
  case None
  then show ?thesis by (simp add: add_def Let_def started.set_record)
next
  case (Some h)
  have quiet: "filter starts (map (ConnectPeer h) eps) = []" for eps by (simp add: filter_empty_conv)
  show ?thesis
    by (auto simp: add_def Let_def Some started_def cmd_def emit_def set_record_def quiet split: prod.split)
qed

lemma started_resume:
  "started (resume_torrent w ih s) = started s
   \<or> (\<exists>h. dget (ss_handles s) ih = Some h \<and> started (resume_torrent w ih s) = started s @ [SetAutoManaged h, HResume h]
        \<and> (\<forall>r. dget (ss_records s) ih = Some r \<longrightarrow> \<not> is_download_start_blocked (cfg_theme (ss_settings s)) (tr_progress r)))"
  by (auto simp: resume_torrent_def frame split: option.split)

lemma started_confirm:
  "started (fst (start_after_analysis w ih s)) = started s
   \<or> (\<exists>h r. dget (ss_handles s) ih = Some h \<and> dget (ss_records s) ih = Some r
        \<and> started (fst (start_after_analysis w ih s)) = started s @ [SetAutoManaged h, HResume h]
        \<and> \<not> is_download_start_blocked (cfg_theme (ss_settings s)) (tr_progress r))"
  by (auto simp: start_after_analysis_def andthen_def hcall_def frame split: option.split)

text \<open>What entitles a step from \<open>s\<close> to \<open>s'\<close> to a starting call: the operation it is, and what the theme allows.
  The block list un-pauses the session only while it is waited for and the session is not shut down.\<close>

abbreviation sharing_only :: "session \<Rightarrow> bool" where
  "sharing_only s \<equiv> cfg_theme (ss_settings s) = CCCP_THEME_ID"

inductive entitled :: "session \<Rightarrow> session \<Rightarrow> lt_cmd \<Rightarrow> bool" where
  from_file: "(sharing_only s \<Longrightarrow> ap_paused a \<and> \<not> ap_auto_managed a)
    \<Longrightarrow> entitled s (fst (add_torrent_from_file w added blank ti sp excl s)) (AddTorrent a)"
| from_magnet: "ap_paused a \<and> \<not> ap_auto_managed a
    \<Longrightarrow> entitled s (fst (add_torrent_from_magnet w added parsed sp s)) (AddTorrent a)"
| confirmed: "dget (ss_handles s) ih = Some h \<Longrightarrow> dget (ss_records s) ih = Some r \<Longrightarrow> (sharing_only s \<Longrightarrow> 1 \<le> tr_progress r)
    \<Longrightarrow> c \<in> {SetAutoManaged h, HResume h} \<Longrightarrow> entitled s (fst (start_after_analysis w ih s)) c"
| resumed: "dget (ss_handles s) ih = Some h \<Longrightarrow> (\<And>r. sharing_only s \<Longrightarrow> dget (ss_records s) ih = Some r \<Longrightarrow> 1 \<le> tr_progress r)
    \<Longrightarrow> c \<in> {SetAutoManaged h, HResume h} \<Longrightarrow> entitled s (resume_torrent w ih s) c"
| list_loaded: "ss_timer_active s \<Longrightarrow> ss_blocklist_wait s \<Longrightarrow> entitled s (on_ip_blocklist_loaded ip_filter s) SessionResume"
| active: "dget st ''active_downloads'' = Some (JInt k) \<Longrightarrow> entitled s (set_max_active_downloads k s) (ApplySettings st)"

lemma confirm_entitled:
  "\<exists>cs. started (fst (start_after_analysis w ih s)) = started s @ cs \<and> (\<forall>c \<in> set cs. entitled s (fst (start_after_analysis w ih s)) c)"
proof (cases "started (fst (start_after_analysis w ih s)) = started s")
  case True
  then show ?thesis by (intro exI [of _ "[]"]) simp
next
  case False
  with started_confirm [of w ih s] obtain h r where h: "dget (ss_handles s) ih = Some h" "dget (ss_records s) ih = Some r"
      "started (fst (start_after_analysis w ih s)) = started s @ [SetAutoManaged h, HResume h]"
      "\<not> is_download_start_blocked (cfg_theme (ss_settings s)) (tr_progress r)"
    by blast
  have "entitled s (fst (start_after_analysis w ih s)) c" if "c \<in> {SetAutoManaged h, HResume h}" for c
    using h(4) by (intro entitled.confirmed [OF h(1,2) _ that]) (simp add: is_download_start_blocked_def)
  then show ?thesis by (intro exI [of _ "[SetAutoManaged h, HResume h]"]) (simp add: h(3))
qed

lemma resume_entitled:
  "\<exists>cs. started (resume_torrent w ih s) = started s @ cs \<and> (\<forall>c \<in> set cs. entitled s (resume_torrent w ih s) c)"
proof (cases "started (resume_torrent w ih s) = started s")
  case True
  then show ?thesis by (intro exI [of _ "[]"]) simp
next
  case False
  with started_resume [of w ih s] obtain h where h: "dget (ss_handles s) ih = Some h"
      "started (resume_torrent w ih s) = started s @ [SetAutoManaged h, HResume h]"
      "\<forall>r. dget (ss_records s) ih = Some r \<longrightarrow> \<not> is_download_start_blocked (cfg_theme (ss_settings s)) (tr_progress r)"
    by blast
  have "entitled s (resume_torrent w ih s) c" if "c \<in> {SetAutoManaged h, HResume h}" for c
    using h(3) by (intro entitled.resumed [OF h(1) _ that]) (simp add: is_download_start_blocked_def)
  then show ?thesis by (intro exI [of _ "[SetAutoManaged h, HResume h]"]) (simp add: h(2))
qed

text \<open>A held magnet can be resumed, from the details of the downloads page or the remote interface: it runs
  unanalysed, its record still says that it awaits the analysis, and turning on the theme that forbids
  downloading passes over it.\<close>

lemma resumed_magnet_escapes:
  assumes "ss_records s = [(ih, r)]" "tr_awaiting_analysis r" "dget (ss_handles s) ih = Some h" "w_valid w h" "\<not> sharing_only s"
  defines "s' \<equiv> resume_torrent w ih s"
  shows "started s' = started s @ [SetAutoManaged h, HResume h] \<and> ss_records s' = [(ih, r)]
    \<and> enforce_theme_download_policy w (s'\<lparr>ss_settings := cfg\<rparr>) = s'\<lparr>ss_settings := cfg\<rparr>"
proof -
  have s': "s' = cmd (HResume h) (cmd (SetAutoManaged h) s)"
    using assms by (simp add: resume_torrent_def is_download_start_blocked_def)
  show ?thesis using assms(1,2) by (simp add: s' frame enforce_theme_download_policy_def Let_def)
qed

section \<open>Properties\<close>

text \<open>C2: of everything that can happen to the session, the slots that run while it shuts down included, only
  three things add a torrent, un-pause one or hand one to libtorrent's queue: adding it, confirming it
  after its analysis and resuming it. A magnet is always added held, and under the theme that forbids
  downloading so is every torrent, while only a complete one is confirmed or resumed. The session itself
  is un-paused only by the end of the wait for the block list, and how many torrents the queue runs at a
  time changes only when the number of active downloads is set.\<close>

theorem starts_only_on_request:
  assumes "session_step s s'"
  shows "\<exists>cs. started s' = started s @ cs \<and> (\<forall>c \<in> set cs. entitled s s' c)"
  using assms
proof (induction rule: session_step.induct)
  case (add_file s w added blank ti sp excl)
  let ?a = "from_torrent_file blank ti (save_path_or_default w sp) excl (cfg_restrict_discovery (ss_settings s))"
  let ?b = "if is_download_start_blocked (cfg_theme (ss_settings s)) 0 then hold_paused ?a else ?a"
  have "started (fst (add_torrent_from_file w added blank ti sp excl s)) = started s @ (if added = None then [] else [AddTorrent ?b])"
    using started_add [of w added ?b False s] by (auto simp: add_torrent_from_file_def andthen_def Let_def frame)
  moreover have "cfg_theme (ss_settings s) = CCCP_THEME_ID \<longrightarrow> ap_paused ?b \<and> \<not> ap_auto_managed ?b"
    by (simp add: is_download_start_blocked_def hold_paused_def)
  then have "entitled s (fst (add_torrent_from_file w added blank ti sp excl s)) (AddTorrent ?b)"
    by (intro entitled.from_file) blast
  ultimately show ?case by - (rule exI [of _ "if added = None then [] else [AddTorrent ?b]"], simp)
next
  case (add_magnet s w added parsed sp)
  let ?a = "hold_paused (from_magnet_uri parsed (save_path_or_default w sp) (cfg_restrict_discovery (ss_settings s)))"
  have "started (fst (add_torrent_from_magnet w added parsed sp s)) = started s @ (if added = None then [] else [AddTorrent ?a])"
    by (simp add: add_torrent_from_magnet_def Let_def started_add)
  moreover have "entitled s (fst (add_torrent_from_magnet w added parsed sp s)) (AddTorrent ?a)"
    by (rule entitled.from_magnet) (simp add: hold_paused_def)
  ultimately show ?case by - (rule exI [of _ "if added = None then [] else [AddTorrent ?a]"], simp)
next
  case (start s w ih)
  show ?case by (rule confirm_entitled)
next
  case (resume s w ih)
  show ?case by (rule resume_entitled)
next
  case (blocklist s ip_filter)
  show ?case
    by (rule exI [of _ "if ss_timer_active s \<and> ss_blocklist_wait s then [SessionResume] else []"])
      (simp add: started_blocklist entitled.list_loaded)
next
  case (max_active s k)
  show ?case
    by (rule exI [of _ "[ApplySettings [(''active_downloads'', JInt k), (''active_seeds'', JInt k), (''active_checking'', JInt k),
          (''active_limit'', JInt (k * 2))]]"]) (simp add: started_active entitled.active)
qed (intro exI [of _ "[]"], simp add: frame)+

theorem starts_only_on_request_witness:
  "let s = small_session\<lparr>ss_settings := DEFAULT_SETTINGS\<rparr>; s' = resume_torrent small_world ''A'' s
   in session_step s s' \<and> started s' = [SetAutoManaged 1, HResume 1] \<and> (\<forall>c \<in> {SetAutoManaged 1, HResume 1}. entitled s s' c)"
proof -
  let ?s = "small_session\<lparr>ss_settings := DEFAULT_SETTINGS\<rparr>"
  let ?t = "resume_torrent small_world ''A'' ?s"
  have step: "session_step ?s ?t" by (rule session_step.resume)
  have now: "started ?s = []" "started ?t = [SetAutoManaged 1, HResume 1]"
    by (simp_all add: started_def small_session_def session_fields_def resume_torrent_def small_world_def
        is_download_start_blocked_def DEFAULT_SETTINGS_def CCCP_THEME_ID_def new_record_def)
  from starts_only_on_request [OF step] have "\<forall>c \<in> {SetAutoManaged 1, HResume 1}. entitled ?s ?t c"
    unfolding now by auto
  then show ?thesis using step now by simp
qed

end
