(* ===== verification/Wiring_Refinement.thy ===== *)
theory Wiring_Refinement
  imports Wiring Session_Starts
begin

text \<open>
  The session with its listeners refines the session alone: \<open>silent\<close> hides the calls on libtorrent, and
  behind it the pump of \<open>Wiring\<close> and the one of \<open>Session\<close> compute the same. None of the calls that are
  added starts a torrent.
\<close>

section \<open>The session without its calls\<close>

definition silent :: "session \<Rightarrow> session" where
  "silent s = s\<lparr>ss_cmds := []\<rparr>"

lemma silent_simps [simp]:
  "silent (s\<lparr>ss_cmds := cs\<rparr>) = silent s" "silent (cmd c s) = silent s" "silent (pause_torrent w ih s) = silent s"
  by (simp_all add: silent_def cmd_def pause_torrent_def split: option.split)

lemma silent_sigs: "silent s = silent t \<Longrightarrow> ss_sigs s = ss_sigs t"
  by (metis (no_types) silent_def session.select_convs(19) session.update_convs(18) session.surjective)

lemma silent_eqD: "silent s = silent t \<Longrightarrow> t = s\<lparr>ss_cmds := ss_cmds t\<rparr>"
  by (cases s; cases t) (simp add: silent_def)

lemma silent_cong:
  assumes "\<And>c. silent (f (s\<lparr>ss_cmds := c\<rparr>)) = silent (f s)" and "silent s = silent t"
  shows "silent (f s) = silent (f t)"
  using assms(1) [of "ss_cmds t"] silent_eqD [OF assms(2)] by simp

text \<open>No handler reads what was called before.\<close>

lemma state_update_one_cmds:
  "state_update_one w st (s\<lparr>ss_cmds := c\<rparr>, us)
     = ((fst (state_update_one w st (s, us)))\<lparr>ss_cmds := c\<rparr>, snd (state_update_one w st (s, us)))"
  by (simp add: state_update_one_def Let_def emit_def set_record_def split: option.split)

lemma on_state_update_cmds: "on_state_update w sts (s\<lparr>ss_cmds := c\<rparr>) = (on_state_update w sts s)\<lparr>ss_cmds := c\<rparr>"
proof -
  have "foldl (\<lambda>acc st. state_update_one w st acc) (s\<lparr>ss_cmds := c\<rparr>, us) sts
      = ((fst (foldl (\<lambda>acc st. state_update_one w st acc) (s, us) sts))\<lparr>ss_cmds := c\<rparr>,
         snd (foldl (\<lambda>acc st. state_update_one w st acc) (s, us) sts))" for us
    by (induction sts arbitrary: s us) (simp_all add: state_update_one_cmds)
  then show ?thesis by (simp add: on_state_update_def emit_def split: prod.split)
qed

lemma dispatch_ignores_calls:
  assumes "silent s = silent t"
  shows "silent (fst (dispatch w a s)) = silent (fst (dispatch w a t))"
proof (rule silent_cong [OF _ assms])
  fix c
  let ?t = "s\<lparr>ss_cmds := c\<rparr>"
  have recorded: "silent (on_record ih f ?t) = silent (on_record ih f s)" for ih f
    by (simp add: on_record_def set_record_def silent_def split: option.split)
  have emits: "silent x = silent y \<Longrightarrow> silent (emit g x) = silent (emit g y)" for g x y
    by (rule silent_cong) (simp_all add: emit_def silent_def)
  have finished: "silent (on_torrent_finished w ih ?t) = silent (on_torrent_finished w ih s)" for ih
    by (simp add: on_torrent_finished_def write_provenance_manifest_def Let_def set_record_def emit_def cmd_def silent_def split: option.split)
  have added: "silent (on_torrent_added ih h e ?t) = silent (on_torrent_added ih h e s)" for ih h e
    by (simp add: on_torrent_added_def emit_def silent_def Let_def)
  have removed: "silent (on_torrent_removed ih ?t) = silent (on_torrent_removed ih s)" for ih
    by (simp add: on_torrent_removed_def delete_resume_file_def emit_def silent_def)
  have metadata: "silent (on_metadata_received ih ?t) = silent (on_metadata_received ih s)" for ih
    unfolding on_metadata_received_def by (rule emits) (rule recorded)
  have moved: "silent (on_storage_moved ih p ?t) = silent (on_storage_moved ih p s)" for ih p
    unfolding on_storage_moved_def by (rule emits) (rule recorded)
  have failed: "silent (on_file_error w ih m ?t) = silent (on_file_error w ih m s)" for ih m
    unfolding on_file_error_def by (rule emits) simp
  have saved: "silent (save_resume_params ih params ?t) = silent (save_resume_params ih params s)" for ih params
    by (simp add: save_resume_params_def silent_def)
  have emitted: "silent (emit g ?t) = silent (emit g s)" for g by (rule emits) simp
  show "silent (fst (dispatch w a ?t)) = silent (fst (dispatch w a s))"
    by (cases a) (simp_all add: with_hash_def on_state_update_cmds finished added removed metadata moved failed saved emitted split: option.split)
qed

section \<open>The listeners\<close>

text \<open>No feed waits for the metadata of a magnet.\<close>

abbreviation no_pending :: "'a program_scheme \<Rightarrow> bool" where
  "no_pending p \<equiv> ru_pending (pg_rss p) = {}"

lemma share_on_status_silent:
  "silent (snd (share_on_status w ih r (sh, s))) = silent s" "started (snd (share_on_status w ih r (sh, s))) = started s"
proof -
  have "snd (case dget (sh_limits t) ih of None \<Rightarrow> (t, s)
     | Some l \<Rightarrow> if sl_reached l then (t, s)
         else case limit_reason now l r of None \<Rightarrow> (t, s) | Some reason \<Rightarrow> (f t l reason, pause_torrent w ih s))
     \<in> {s, pause_torrent w ih s}" for t now and f :: "share_service \<Rightarrow> share_limit \<Rightarrow> string \<Rightarrow> share_service"
    by (cases "dget (sh_limits t) ih"; cases "limit_reason now (the (dget (sh_limits t) ih)) r") simp_all
  then have "snd (share_on_status w ih r (sh, s)) \<in> {s, pause_torrent w ih s}"
    unfolding share_on_status_def Let_def prod.case .
  then show "silent (snd (share_on_status w ih r (sh, s))) = silent s" "started (snd (share_on_status w ih r (sh, s))) = started s"
    by (auto simp: started.pause)
qed

lemma post_on_finished_silent:
  "silent (snd (fst (post_on_finished w rules ih (pc, s)))) = silent s"
  "started (snd (fst (post_on_finished w rules ih (pc, s)))) = started s"
proof -
  have zip: "snd (unzip_files w d ih (pc, s)) = s" for d by (simp add: unzip_files_def Let_def)
  have "snd (fst (post_on_finished w rules ih (pc, s))) = s \<or> (\<exists>p. snd (fst (post_on_finished w rules ih (pc, s))) = fst (move_storage w ih p s))"
    unfolding post_on_finished_def Let_def prod.case
    by (cases "get_record s ih"; cases "tr_matched_rule_name (the (get_record s ih))";
        cases "find (\<lambda>r. rr_name r = the (tr_matched_rule_name (the (get_record s ih)))) rules")
      (auto simp: zip case_prod_unfold)
  moreover have "silent (fst (move_storage w ih p s)) = silent s" for p
    by (simp add: move_storage_def on_handle_def hcall_def split: option.split)
  ultimately show "silent (snd (fst (post_on_finished w rules ih (pc, s)))) = silent s"
    "started (snd (fst (post_on_finished w rules ih (pc, s)))) = started s"
    using started.files(4) by fastforce+
qed

text \<open>What the listeners leave alone of the program.\<close>

definition unmoved :: "wired \<Rightarrow> wired \<Rightarrow> bool" where
  "unmoved p q \<longleftrightarrow> silent (qt_session q) = silent (qt_session p) \<and> started (qt_session q) = started (qt_session p) \<and> pg_rss q = pg_rss p"

lemma unmoved_refl [simp]: "unmoved p p"
  by (simp add: unmoved_def)

lemma unmoved_trans: "unmoved p q \<Longrightarrow> unmoved q r \<Longrightarrow> unmoved p r"
  by (simp add: unmoved_def)

lemma unmoved_pending: "unmoved p q \<Longrightarrow> no_pending q = no_pending p"
  by (simp add: unmoved_def)

lemma limit_slots_session:
  "qt_session (foldl (\<lambda>p (h, reason). limit_reached_slots v h reason p) p xs) = qt_session p"
  "pg_rss (foldl (\<lambda>p (h, reason). limit_reached_slots v h reason p) p xs) = pg_rss p"
  by (induction xs arbitrary: p) (auto simp: limit_reached_slots_def)

lemma simple_slots_rss [simp]:
  "qt_session (row_slots v sig p) = qt_session p" "pg_rss (row_slots v sig p) = pg_rss p" "pg_rss (notify_slots v sig p) = pg_rss p"
  "pg_rss (webhook_slots sig p) = pg_rss p" "pg_rss (scan_slot v ih p) = pg_rss p" "pg_rss (action_slot v ih p) = pg_rss p"
  "pg_rss (shutdown_slot v p) = pg_rss p"
  by (simp_all add: row_slots_def notify_slots_def webhook_slots_def scan_slot_def action_slot_def shutdown_slot_def
      countdown_slots_def Let_def split: option.split prod.split)

lemma status_slots_unmoved: "unmoved p (status_slots v ih r p)"
proof -
  obtain sh sess where s: "share_on_status (pv_world v) ih r (qt_share p, qt_session p) = (sh, sess)" by (metis prod.exhaust)
  with share_on_status_silent [of "pv_world v" ih r "qt_share p" "qt_session p"] show ?thesis
    by (simp add: unmoved_def status_slots_def s limit_slots_session Let_def)
qed

lemma action_slot_unmoved: "unmoved p (action_slot v ih p)"
proof -
  obtain post sess ok where s: "post_on_finished (pv_world v) (list_rules (pg_rules p)) ih (wd_post p, qt_session p) = ((post, sess), ok)"
    by (metis prod.exhaust)
  with post_on_finished_silent [of "pv_world v" "list_rules (pg_rules p)" ih "wd_post p" "qt_session p"] show ?thesis
    by (simp add: unmoved_def action_slot_def s)
qed

lemma deliver_unmoved:
  assumes "no_pending p"
  shows "unmoved p (deliver_signal v g p)"
  using assms status_slots_unmoved [of p v] action_slot_unmoved [of "scan_slot v _ p" v]
  by (cases g) (simp_all add: unmoved_def finished_slots_def removed_slots_def metadata_slots_def on_rss_metadata_received_def
      file_error_slots_def Let_def split: prod.split)

lemma deliver_news_unmoved:
  assumes "no_pending p"
  shows "unmoved p (deliver_news v old p)"
proof -
  have "no_pending p \<Longrightarrow> unmoved p (foldl (\<lambda>p g. deliver_signal v g p) p gs)" for gs
  proof (induction gs arbitrary: p)
    case (Cons g gs)
    note step = deliver_unmoved [OF Cons.prems, of v g]
    show ?case using unmoved_trans [OF step Cons.IH] unmoved_pending [OF step] Cons.prems by simp
  qed simp
  with assms show ?thesis by (simp add: deliver_news_def)
qed

text \<open>The program after an alert, against the session \<open>s\<close> alone after the same.\<close>

definition refines :: "wired \<Rightarrow> wired \<Rightarrow> session \<Rightarrow> bool" where
  "refines p q s \<longleftrightarrow> silent (qt_session q) = silent s \<and> started (qt_session q) = started (qt_session p) \<and> pg_rss q = pg_rss p"

lemma refines_delivered:
  assumes "no_pending p" and "silent s' = silent s" and "started s' = started (qt_session p)"
  shows "refines p (deliver_news v old (p\<lparr>qt_session := s'\<rparr>)) s"
  using deliver_news_unmoved [of "p\<lparr>qt_session := s'\<rparr>" v old] assms by (simp add: unmoved_def refines_def)

lemma wired_status_refines:
  assumes "no_pending p" and "silent (qt_session p) = silent s"
  shows "refines p (fst (wired_status v st (p, us))) (fst (state_update_one (pv_world v) st (s, us)))
     \<and> snd (wired_status v st (p, us)) = snd (state_update_one (pv_world v) st (s, us))"
proof -
  obtain s1 us1 where one: "state_update_one (pv_world v) st (qt_session p, us) = (s1, us1)" by (metis prod.exhaust)
  have "state_update_one (pv_world v) st (s, us) = (s1\<lparr>ss_cmds := ss_cmds s\<rparr>, us1)"
    using state_update_one_cmds [where s = "qt_session p" and c = "ss_cmds s"] silent_eqD [OF assms(2)] by (simp add: one)
  moreover have "started s1 = started (qt_session p)" using started.status_update [of "pv_world v" st "(qt_session p, us)"] by (simp add: one)
  ultimately show ?thesis using refines_delivered [OF assms(1), of s1 "s1\<lparr>ss_cmds := ss_cmds s\<rparr>" v "qt_session p"]
    by (simp add: wired_status_def one)
qed

lemma wired_state_update_refines:
  assumes "no_pending p" and "silent (qt_session p) = silent s"
  shows "refines p (wired_state_update v sts p) (on_state_update (pv_world v) sts s)"
proof -
  let ?f = "\<lambda>x st. wired_status v st x" and ?g = "\<lambda>acc st. state_update_one (pv_world v) st acc"
  have "no_pending p \<Longrightarrow> silent (qt_session p) = silent s \<Longrightarrow>
      refines p (fst (foldl ?f (p, us) sts)) (fst (foldl ?g (s, us) sts)) \<and> snd (foldl ?f (p, us) sts) = snd (foldl ?g (s, us) sts)" for p s us
  proof (induction sts arbitrary: p s us)
    case (Cons st sts)
    obtain q us1 t us2 where "wired_status v st (p, us) = (q, us1)" "state_update_one (pv_world v) st (s, us) = (t, us2)"
      by (metis prod.exhaust)
    with wired_status_refines [OF Cons.prems, of v st us] Cons.IH [of q t us1] Cons.prems(1) show ?case by (simp add: refines_def)
  qed (simp add: refines_def)
  from this [OF assms, of "[]"] obtain q t us where r: "foldl ?f (p, []) sts = (q, us)" "foldl ?g (s, []) sts = (t, us)" "refines p q t"
    by (metis prod.collapse)
  have "silent (emit g (qt_session q)) = silent (emit g t)" for g
    by (rule silent_cong) (use r(3) in \<open>simp_all add: refines_def emit_def silent_def\<close>)
  then have "refines q (deliver_news v (qt_session q) (q\<lparr>qt_session := emit (StatusBatchUpdated us) (qt_session q)\<rparr>)) (emit (StatusBatchUpdated us) t)"
    using assms(1) r(3) by (intro refines_delivered) (simp_all add: refines_def frame)
  with r show ?thesis by (simp add: wired_state_update_def on_state_update_def refines_def)
qed

lemma wired_alert_refines:
  assumes "no_pending p" and "silent (qt_session p) = silent s"
  shows "refines p (wired_alert v a p) (fst (dispatch (pv_world v) a s))"
proof (cases "\<exists>sts. a = StateUpdateAlert sts")
  case True
  then show ?thesis using wired_state_update_refines [OF assms] assms(2) by (auto simp: wired_alert_def refines_def)
next
  case False
  then have "wired_alert v a p = deliver_news v (qt_session p) (p\<lparr>qt_session := fst (dispatch (pv_world v) a (qt_session p))\<rparr>)"
    by (cases a) (simp_all add: wired_alert_def)
  then show ?thesis using refines_delivered [OF assms(1) dispatch_ignores_calls [OF assms(2)]] by (simp add: started_dispatch)
qed

section \<open>Properties\<close>

text \<open>C37: with everything that listens connected, the session manager keeps exactly the books it keeps alone:
  hidden the calls on libtorrent, which is all the listeners add, the pump with its listeners and the
  pump without them end in the same session, and not one of the calls starts a torrent, as long as no
  feed waits for the metadata of a magnet (a feed starts that torrent itself).\<close>

theorem listeners_only_add_calls:
  assumes "ru_pending (pg_rss p) = {}"
  shows "silent (qt_session (wired_alerts v alerts p)) = silent (dispatch_all (pv_world v) alerts (qt_session p))
    \<and> started (qt_session (wired_alerts v alerts p)) = started (qt_session p)"
proof -
  have "no_pending p \<Longrightarrow> silent (qt_session p) = silent s
      \<Longrightarrow> refines p (wired_alerts v alerts p) (dispatch_all (pv_world v) alerts s)" for s
    unfolding wired_alerts_def dispatch_all_def
  proof (induction alerts arbitrary: p s)
    case (Cons a as)
    from wired_alert_refines [OF Cons.prems, of v a] Cons.IH [of "wired_alert v a p" "fst (dispatch (pv_world v) a s)"] Cons.prems(1)
    show ?case by (simp add: refines_def)
  qed (simp add: refines_def)
  from this [OF assms refl] show ?thesis by (simp add: refines_def)
qed

theorem listeners_only_add_calls_witness:
  "\<forall>p0. let q = zip_program DOWNLOADING p0; p = q\<lparr>pg_rss := (pg_rss q)\<lparr>ru_pending := {}\<rparr>\<rparr> in
     ru_pending (pg_rss p) = {}
     \<and> silent (qt_session (wired_alerts zip_wiring [TorrentFinishedAlert 1] p)) = silent (dispatch_all zip_world [TorrentFinishedAlert 1] (zip_session DOWNLOADING))
     \<and> started (qt_session (wired_alerts zip_wiring [TorrentFinishedAlert 1] p)) = []"
proof
  fix p0
  let ?q = "zip_program DOWNLOADING p0"
  let ?p = "?q\<lparr>pg_rss := (pg_rss ?q)\<lparr>ru_pending := {}\<rparr>\<rparr>"
  have s: "qt_session ?p = zip_session DOWNLOADING" by (simp add: zip_program_def)
  have idle: "started (zip_session DOWNLOADING) = []" by (simp add: zip_session_def small_session_def session_fields_def started_def)
  from listeners_only_add_calls [of ?p zip_wiring "[TorrentFinishedAlert 1]", unfolded s zip_wiring_world]
  show "let q = ?q; p = q\<lparr>pg_rss := (pg_rss q)\<lparr>ru_pending := {}\<rparr>\<rparr> in
     ru_pending (pg_rss p) = {}
     \<and> silent (qt_session (wired_alerts zip_wiring [TorrentFinishedAlert 1] p)) = silent (dispatch_all zip_world [TorrentFinishedAlert 1] (zip_session DOWNLOADING))
     \<and> started (qt_session (wired_alerts zip_wiring [TorrentFinishedAlert 1] p)) = []"
    by (simp add: idle)
qed

end
