(* ===== verification/Session_Removal.thy ===== *)
theory Session_Removal
  imports Session_Reach
begin

text \<open>
  What a removal leaves of a torrent in the session manager and in its files, and what can bring
  something of it back: the whole of \<open>engine/session_manager.py\<close> after the alert of a removal.
\<close>

section \<open>Forgotten torrents\<close>

text \<open>Nothing in the session or in its files belongs to the torrent any more.\<close>

definition forgotten :: "string \<Rightarrow> session \<Rightarrow> bool" where
  "forgotten ih s \<longleftrightarrow>
     dget (ss_records s) ih = None \<and> dget (ss_handles s) ih = None \<and> dget (ss_speed s) ih = None
   \<and> dget (ss_files_cache s) ih = None \<and> ih \<notin> ss_pending_confirm s \<and> ih \<notin> ss_pending_restore s
   \<and> get_category (ss_categories s) ih = [] \<and> dget (ss_resume_dir s) ih = None"

text \<open>What brings something of a torrent back: adding it, choosing a category for it, and an alert with its
  resume data, which is saved as long as libtorrent still holds its handle for valid.\<close>

definition resume_data_for :: "world \<Rightarrow> string \<Rightarrow> alert \<Rightarrow> bool" where
  "resume_data_for w ih a \<longleftrightarrow> (case a of SaveResumeDataAlert h params \<Rightarrow> hash_of w h = Some ih | _ \<Rightarrow> False)"

inductive revives :: "string \<Rightarrow> session \<Rightarrow> session \<Rightarrow> bool" where
  from_file: "info_hash_hex (from_torrent_file blank ti (save_path_or_default w sp) excl (cfg_restrict_discovery (ss_settings s))) = ih
    \<Longrightarrow> revives ih s (fst (add_torrent_from_file w added blank ti sp excl s))"
| from_magnet: "info_hash_hex (from_magnet_uri parsed (save_path_or_default w sp) (cfg_restrict_discovery (ss_settings s))) = ih
    \<Longrightarrow> revives ih s (fst (add_torrent_from_magnet w added parsed sp s))"
| categorised: "revives ih s (set_torrent_category ih category s)"
| saved_tick: "list_ex (resume_data_for w ih) as \<Longrightarrow> revives ih s (on_tick w as s)"
| saved_poll: "list_ex (resume_data_for w ih) as \<Longrightarrow> revives ih s (fst (bind_restored_handles w as s))"
| saved_pass: "list_ex (resume_data_for w ih) as \<Longrightarrow> revives ih s (fst (fst (shutdown_alerts w as (s, pending))))"

section \<open>Views\<close>

definition traces :: "string \<Rightarrow> session \<Rightarrow> torrent_record option \<times> handle option \<times> (int \<times> int) list option \<times> file_entry list option
    \<times> bool \<times> bool \<times> string" where
  "traces ih s = (dget (ss_records s) ih, dget (ss_handles s) ih, dget (ss_speed s) ih, dget (ss_files_cache s) ih,
     ih \<in> ss_pending_confirm s, ih \<in> ss_pending_restore s, get_category (ss_categories s) ih)"

interpretation traces: session_view "traces ih" for ih
  by unfold_locales (simp_all add: traces_def)

interpretation resume_files: cmd_store_view ss_resume_dir
  by unfold_locales simp_all

lemma forgotten_traces:
  "forgotten ih s \<longleftrightarrow> traces ih s = (None, None, None, None, False, False, []) \<and> dget (ss_resume_dir s) ih = None"
  by (auto simp: forgotten_def traces_def)

lemma forgotten_keep: "forgotten ih s \<Longrightarrow> traces ih s' = traces ih s \<Longrightarrow> ss_resume_dir s' = ss_resume_dir s \<Longrightarrow> forgotten ih s'"
  by (simp add: forgotten_traces)

lemma untouched [frame]:
  "traces ih (s\<lparr>ss_queue := q\<rparr>) = traces ih s" "traces ih (s\<lparr>ss_private_checked := p\<rparr>) = traces ih s"
  "traces ih (s\<lparr>ss_settings := cfg\<rparr>) = traces ih s" "traces ih (s\<lparr>ss_rep := rep\<rparr>) = traces ih s"
  "traces ih (s\<lparr>ss_lan := lan\<rparr>) = traces ih s"
  by (simp_all add: traces_def)

lemma forgotten_record: "forgotten ih s \<Longrightarrow> dget (ss_records s) k \<noteq> None \<Longrightarrow> k \<noteq> ih"
  by (auto simp: forgotten_def)

lemma forgotten_set_record: "forgotten ih s \<Longrightarrow> k \<noteq> ih \<Longrightarrow> forgotten ih (set_record k r s)"
  by (simp add: forgotten_def set_record_def)

lemma forgotten_on_record: "forgotten ih s \<Longrightarrow> forgotten ih (on_record k f s)"
  using forgotten_record [of ih s k] by (auto simp: on_record_def forgotten_set_record split: option.split)

lemma forgotten_emit: "forgotten ih (emit g s) = forgotten ih s"
  by (simp add: forgotten_def emit_def)

lemma forgotten_flags:
  assumes "forgotten ih s"
  shows "forgotten ih (set_matched_rule_name k n s)" "forgotten ih (pin_torrent k s)" "forgotten ih (unpin_torrent k s)"
    "forgotten ih (set_deadline k t s)" "forgotten ih (lock_torrent w k s)" "forgotten ih (unlock_torrent w k s)"
proof -
  have "forgotten ih (chmod_torrent_files w k ro s)" for ro by (rule forgotten_keep [OF assms]) (simp_all add: frame)
  with assms show "forgotten ih (set_matched_rule_name k n s)" "forgotten ih (pin_torrent k s)" "forgotten ih (unpin_torrent k s)"
    "forgotten ih (set_deadline k t s)" "forgotten ih (lock_torrent w k s)" "forgotten ih (unlock_torrent w k s)"
    by (simp_all add: set_matched_rule_name_def pin_torrent_def unpin_torrent_def set_deadline_def lock_torrent_def
        unlock_torrent_def forgotten_on_record)
qed

section \<open>The operations\<close>

lemma forgotten_add: "forgotten ih s \<Longrightarrow> info_hash_hex a \<noteq> ih \<Longrightarrow> forgotten ih (fst (add w added a aw s))"
  by (auto simp: add_def Let_def set_record_def forgotten_def emit_def cmd_def split: option.split prod.split)

lemma hold_paused_hash [simp]: "info_hash_hex (hold_paused a) = info_hash_hex a"
  by (simp add: hold_paused_def info_hash_hex_def split: option.split)

lemma forgotten_added:
  assumes "forgotten ih s"
  shows "info_hash_hex (from_torrent_file blank ti (save_path_or_default w sp) excl (cfg_restrict_discovery (ss_settings s))) \<noteq> ih
      \<Longrightarrow> forgotten ih (fst (add_torrent_from_file w added blank ti sp excl s))"
    "info_hash_hex (from_magnet_uri parsed (save_path_or_default w sp) (cfg_restrict_discovery (ss_settings s))) \<noteq> ih
      \<Longrightarrow> forgotten ih (fst (add_torrent_from_magnet w added parsed sp s))"
  using assms
  by (simp_all add: add_torrent_from_file_def add_torrent_from_magnet_def andthen_def Let_def forgotten_emit forgotten_add)

lemma forgotten_start:
  assumes "forgotten ih s"
  shows "forgotten ih (fst (start_after_analysis w k s))"
proof (cases "dget (ss_handles s) k = None \<or> dget (ss_records s) k = None")
  case True
  then show ?thesis using assms by (auto simp: start_after_analysis_def split: option.split)
next
  case False
  obtain h r where hr: "dget (ss_handles s) k = Some h" "dget (ss_records s) k = Some r" using False by (meson not_Some_eq)
  have called: "traces ih (fst (andthen (hcall w h (SetAutoManaged h) x) (hcall w h (HResume h)))) = traces ih x"
    "ss_resume_dir (fst (andthen (hcall w h (SetAutoManaged h) x) (hcall w h (HResume h)))) = ss_resume_dir x" for x
    by (rule traces.andthen resume_files.andthen, simp_all only: traces.hcall resume_files.hcall)+
  have "forgotten ih (set_record k r' s)" for r'
    by (rule forgotten_set_record [OF assms forgotten_record [OF assms]]) (simp add: hr)
  then have "forgotten ih (fst (andthen (hcall w h (SetAutoManaged h) (set_record k r' s)) (hcall w h (HResume h))))" for r'
    by (rule forgotten_keep [OF _ called])
  then show ?thesis using assms by (simp add: start_after_analysis_def hr forgotten_emit)
qed

lemma forgotten_progress:
  assumes "forgotten ih s"
  shows "forgotten ih (snd (get_file_downloaded w k s))" "forgotten ih (snd (get_file_progress w k s))"
proof -
  show d: "forgotten ih (snd (get_file_downloaded w k s))"
    using assms by (auto simp: get_file_downloaded_def Let_def forgotten_def split: option.split)
  show "forgotten ih (snd (get_file_progress w k s))"
    using d by (auto simp: get_file_progress_def Let_def split: prod.split)
qed

lemma forgotten_autosave: "forgotten ih s \<Longrightarrow> forgotten ih (save_all_resume_data s)" "forgotten ih s \<Longrightarrow> forgotten ih (drain_resume_save_queue w s)"
  by (simp_all add: save_all_resume_data_def drain_tick forgotten_def)

lemma forgotten_peers:
  "forgotten ih s \<Longrightarrow> forgotten ih (snd (get_peer_info show_int w k s))" "forgotten ih s \<Longrightarrow> forgotten ih (flush_peer_stores w s)"
  by (auto simp: get_peer_info_def flush_peer_stores_def Let_def forgotten_def split: option.split)

lemma forgotten_category: "forgotten ih s \<Longrightarrow> k \<noteq> ih \<Longrightarrow> forgotten ih (set_torrent_category k c s)"
  using forgotten_on_record [of ih s k "\<lambda>r. r\<lparr>tr_category := c\<rparr>"]
  by (simp add: set_torrent_category_def Let_def) (simp add: forgotten_def)

section \<open>The alerts\<close>

lemma forgotten_state_update:
  assumes "forgotten ih s"
  shows "forgotten ih (on_state_update w sts s)"
proof -
  have one: "forgotten ih (fst (state_update_one w st acc))" if f: "forgotten ih (fst acc)" for st acc
  proof (cases "dget (ss_records (fst acc)) (info_hash_hex_of (sx_info_hashes st))")
    case None
    then show ?thesis using f by (cases acc) (simp add: state_update_one_def Let_def)
  next
    case (Some r)
    then have "info_hash_hex_of (sx_info_hashes st) \<noteq> ih" using forgotten_record [OF f] by simp
    then show ?thesis
      using f Some by (cases acc) (simp add: state_update_one_def Let_def forgotten_def emit_def set_record_def split: option.split)
  qed
  have "forgotten ih (fst acc) \<Longrightarrow> forgotten ih (fst (foldl (\<lambda>acc st. state_update_one w st acc) acc sts))" for acc
    by (induction sts arbitrary: acc) (simp_all add: one)
  note all = this [of "(s, [])"]
  obtain s' us where fold: "foldl (\<lambda>acc st. state_update_one w st acc) (s, []) sts = (s', us)" by fastforce
  show ?thesis using all assms unfolding on_state_update_def fold by (simp add: forgotten_emit)
qed

lemma forgotten_finished:
  assumes "forgotten ih s"
  shows "forgotten ih (on_torrent_finished w k s)"
proof (cases "dget (ss_records s) k")
  case None
  then show ?thesis using assms by (simp add: on_torrent_finished_def Let_def forgotten_emit) (simp add: forgotten_def)
next
  case (Some r)
  have "forgotten ih (set_record k r' s)" for r'
    by (rule forgotten_set_record [OF assms forgotten_record [OF assms]]) (simp add: Some)
  moreover have "forgotten ih x \<Longrightarrow> forgotten ih (write_provenance_manifest w r' x)" for r' x
    by (rule forgotten_keep) (simp_all add: frame)
  ultimately show ?thesis
    using assms by (simp add: on_torrent_finished_def Some Let_def forgotten_emit) (simp add: forgotten_def)
qed

lemma forgotten_added_alert: "forgotten ih s \<Longrightarrow> forgotten ih (on_torrent_added k h e s)"
  by (auto simp: on_torrent_added_def Let_def forgotten_def emit_def)

lemma forgotten_removed: "forgotten ih s \<Longrightarrow> forgotten ih (on_torrent_removed k s)"
  by (simp add: on_torrent_removed_def delete_resume_file_def forgotten_emit) (simp add: forgotten_def)

lemma forgotten_saved: "forgotten ih s \<Longrightarrow> k \<noteq> ih \<Longrightarrow> forgotten ih (save_resume_params k params s)"
  by (simp add: save_resume_params_def forgotten_def)

lemma forgotten_file_error: "forgotten ih s \<Longrightarrow> forgotten ih (on_file_error w k m s)"
  by (erule forgotten_keep) (simp_all add: frame)

lemma forgotten_dispatch: "forgotten ih s \<Longrightarrow> \<not> resume_data_for w ih a \<Longrightarrow> forgotten ih (fst (dispatch w a s))"
  by (cases a)
    (auto simp: with_hash_def resume_data_for_def forgotten_state_update forgotten_finished forgotten_added_alert forgotten_removed
      forgotten_saved forgotten_file_error forgotten_emit forgotten_on_record on_metadata_received_def on_storage_moved_def
      split: option.split)

lemma forgotten_alerts: "forgotten ih s \<Longrightarrow> \<not> list_ex (resume_data_for w ih) as \<Longrightarrow> forgotten ih (dispatch_all w as s)"
  by (induction as arbitrary: s) (simp_all add: dispatch_all_Cons forgotten_dispatch, simp add: dispatch_all_def)

lemma forgotten_tick:
  assumes "forgotten ih (dispatch_alerts w as (cmd PostTorrentUpdates s))"
  shows "forgotten ih (on_tick w as s)"
proof -
  have "forgotten ih (fst (apply_deadline_priorities w (dispatch_alerts w as (cmd PostTorrentUpdates s))))"
    by (rule forgotten_keep [OF assms]) (simp_all add: frame)
  then show ?thesis by (auto simp: on_tick_def forgotten_autosave split: prod.split)
qed

lemma forgotten_pass:
  "forgotten ih s \<Longrightarrow> \<not> list_ex (resume_data_for w ih) as \<Longrightarrow> forgotten ih (fst (fst (shutdown_alerts w as (s, pending))))"
proof (induction as arbitrary: s pending)
  case (Cons a as)
  then show ?case
    by (cases a) (auto simp: resume_data_for_def forgotten_saved split: option.split)
qed simp

section \<open>Every step\<close>

lemma forgotten_step:
  assumes "session_step s s'" and "forgotten ih s"
  shows "forgotten ih s' \<or> revives ih s s'"
  using assms
proof (induction rule: session_step.induct)
  case (tick w as s)
  have "forgotten ih (cmd PostTorrentUpdates s)" by (rule forgotten_keep [OF tick.prems]) (simp_all add: frame)
  then show ?case
    using revives.saved_tick [of w ih as s] forgotten_alerts [of ih "cmd PostTorrentUpdates s" w as]
    by (intro disjCI forgotten_tick) (auto simp: dispatch_alerts_def)
next
  case (restore_poll w as s)
  show ?case
  proof (cases "list_ex (resume_data_for w ih) as")
    case True
    then show ?thesis by (intro disjI2 revives.saved_poll)
  next
    case False
    then have "forgotten ih (dispatch_alerts w as s)"
      using restore_poll.prems forgotten_alerts [of ih s w as] by (simp add: dispatch_alerts_def)
    then show ?thesis using restore_poll.prems by (simp add: bind_restored_handles_def Let_def)
  qed
next
  case (add_file s w added blank ti sp excl)
  then show ?case using forgotten_added(1) revives.from_file by blast
next
  case (add_magnet s w added parsed sp)
  then show ?case using forgotten_added(2) revives.from_magnet by blast
next
  case (category s k c)
  then show ?case by (cases "k = ih") (auto simp: forgotten_category intro: revives.categorised)
next
  case (shut_pass s w alerts pending)
  then show ?case using forgotten_pass revives.saved_pass by blast
next
  case (settings_edited s cfg)
  then show ?case by (simp add: forgotten_def)
qed (auto intro: forgotten_autosave forgotten_flags forgotten_start forgotten_progress forgotten_peers forgotten_keep simp: frame)

lemma forgotten_run:
  "session_step\<^sup>*\<^sup>* s t \<Longrightarrow> forgotten ih s
    \<Longrightarrow> forgotten ih t \<or> (\<exists>u v. session_step\<^sup>*\<^sup>* s u \<and> forgotten ih u \<and> revives ih u v \<and> session_step\<^sup>*\<^sup>* v t)"
proof (induction rule: rtranclp_induct)
  case (step t t')
  from step.IH [OF step.prems] show ?case
  proof (elim disjE exE conjE)
    assume "forgotten ih t"
    then show ?thesis using forgotten_step [OF step.hyps(2)] step.hyps(1) by blast
  next
    fix u v
    assume "session_step\<^sup>*\<^sup>* s u" "forgotten ih u" "revives ih u v" "session_step\<^sup>*\<^sup>* v t"
    then show ?thesis using step.hyps(2) by (blast intro: rtranclp.rtrancl_into_rtrancl)
  qed
qed simp

text \<open>The alert itself, anywhere in the batch of a tick.\<close>

lemma removed_forgotten: "ih \<notin> ss_pending_restore s \<Longrightarrow> forgotten ih (on_torrent_removed ih s)"
  by (simp add: on_torrent_removed_def delete_resume_file_def forgotten_emit) (simp add: forgotten_def)

lemma removed_keeps_others:
  "k \<noteq> ih \<Longrightarrow> traces k (on_torrent_removed ih s) = traces k s \<and> dget (ss_resume_dir (on_torrent_removed ih s)) k = dget (ss_resume_dir s) k"
  by (simp add: on_torrent_removed_def delete_resume_file_def traces_def)

lemma removed_keeps_books:
  "ss_private_checked (on_torrent_removed ih s) = ss_private_checked s" "ss_queue (on_torrent_removed ih s) = ss_queue s"
  by (simp_all add: on_torrent_removed_def delete_resume_file_def emit_def)

lemma alerts_ordered_append:
  "alerts_ordered w (as @ bs) s \<longleftrightarrow> alerts_ordered w as s \<and> alerts_ordered w bs (dispatch_all w as s)"
  by (induction as arbitrary: s) (simp_all add: dispatch_all_Cons, simp add: dispatch_all_def)

lemma dispatch_all_append: "dispatch_all w (as @ bs) s = dispatch_all w bs (dispatch_all w as s)"
  by (simp add: dispatch_all_def)

text \<open>A removal whose alert has not come by the time of the quit is lost: the wait of \<open>shutdown\<close> drops every
  alert but those of resume data, so the torrent keeps its resume file and the next launch restores it.\<close>

lemma removal_lost_in_quit:
  "ss_resume_dir (fst (shutdown w timeout_ms [(t, id, [TorrentRemovedAlert hashes])] s)) = ss_resume_dir s
   \<and> ss_records (fst (shutdown w timeout_ms [(t, id, [TorrentRemovedAlert hashes])] s)) = ss_records s"
  by (simp add: shutdown_def shutdown_start_def Let_def)

section \<open>Properties\<close>

text \<open>C3: the tick that brings the alert of a removal leaves nothing of the torrent (record, handle, speed
  history, cached file list, category, resume file, wait for the confirmation or the restore) and
  everything of any other. It stays forgotten whatever happens then, until it is added again, a
  category is chosen for it or libtorrent still answers with its resume data for a handle it holds for
  valid. It assumes that the removal is reported after the addition (\<open>alerts_ordered\<close>) and that no such
  answer follows it in the same batch. Two things are not forgotten: that the private flag of the
  torrent was read, and its place in the queue of the periodic save.\<close>

theorem removal_forgets:
  assumes "alerts_ordered w (before @ TorrentRemovedAlert hashes # after) (cmd PostTorrentUpdates s)"
    and "\<not> list_ex (resume_data_for w (info_hash_hex_of hashes)) after"
  shows "let ih = info_hash_hex_of hashes; s' = on_tick w (before @ TorrentRemovedAlert hashes # after) s
     in forgotten ih s'
      \<and> (session_step\<^sup>*\<^sup>* s' t \<longrightarrow>
           forgotten ih t \<or> (\<exists>u v. session_step\<^sup>*\<^sup>* s' u \<and> forgotten ih u \<and> revives ih u v \<and> session_step\<^sup>*\<^sup>* v t))
      \<and> (k \<noteq> ih \<longrightarrow> traces k (on_torrent_removed ih x) = traces k x
           \<and> dget (ss_resume_dir (on_torrent_removed ih x)) k = dget (ss_resume_dir x) k)
      \<and> ss_private_checked (on_torrent_removed ih x) = ss_private_checked x \<and> ss_queue (on_torrent_removed ih x) = ss_queue x"
proof -
  let ?ih = "info_hash_hex_of hashes" and ?as = "before @ TorrentRemovedAlert hashes # after"
  define y where "y = dispatch_all w before (cmd PostTorrentUpdates s)"
  have "?ih \<notin> ss_pending_restore y" using assms(1) by (simp add: alerts_ordered_append y_def)
  then have "forgotten ?ih (on_torrent_removed ?ih y)" by (rule removed_forgotten)
  from forgotten_alerts [OF this assms(2)] have "forgotten ?ih (dispatch_alerts w ?as (cmd PostTorrentUpdates s))"
    by (simp add: dispatch_alerts_def dispatch_all_append dispatch_all_Cons y_def)
  then have now: "forgotten ?ih (on_tick w ?as s)" by (rule forgotten_tick)
  then show ?thesis
    using forgotten_run [OF _ now, of t] removed_keeps_others [of k ?ih x] by (simp add: Let_def removed_keeps_books)
qed

theorem removal_forgets_witness:
  "let s' = on_tick small_world [TorrentRemovedAlert \<lparr>hs_v1 = Some ''A'', hs_v2 = []\<rparr>] small_session
   in forgotten ''A'' s' \<and> traces ''B'' (on_torrent_removed ''A'' small_session) = traces ''B'' small_session
     \<and> \<not> forgotten ''A'' small_session"
proof -
  have "\<not> forgotten ''A'' small_session" by (simp add: forgotten_def small_session_def session_fields_def)
  moreover have "ss_pending_restore small_session = {}" by (simp add: small_session_def session_fields_def)
  ultimately show ?thesis
    using removal_forgets [of small_world "[]" "\<lparr>hs_v1 = Some ''A'', hs_v2 = []\<rparr>" "[]" small_session undefined "''B''" small_session]
    by (simp add: info_hash_hex_of_def Let_def)
qed

end
