(* ===== verification/Probe.thy ===== *)
theory Probe
  imports Stats Window
begin

text \<open>
  The measuring aid of the live resize, \<open>ui/web/resize_probe.py\<close>: what it records of a gesture and how it
  sums it up. Times are milliseconds; the clock readings, the page's answers and the properties of the
  native window are arguments, the calls on the page are a list. \<open>median\<close> and \<open>quantiles\<close> are those of
  Python's \<open>statistics\<close>.
\<close>

section \<open>The summary\<close>

type_synonym sample = "rat \<times> int \<times> int"

text \<open>\<open>round(x, 1)\<close>: the exact value is rounded to a decimal, ties to even, and that to a float.\<close>

definition round1 :: "rat \<Rightarrow> rat" where
  "round1 x = fl (of_int (py_round (x * 10)) / 10)"

text \<open>The first frame of a size painted from a millisecond before \<open>t\<close> on.\<close>

definition painted_at :: "rat \<Rightarrow> int \<times> int \<Rightarrow> sample list \<Rightarrow> rat option" where
  "painted_at t size_wh frames = map_option fst (find (\<lambda>(ft, fs). fs = size_wh \<and> fsub t 1 \<le> ft) frames)"

definition lags :: "sample list \<Rightarrow> sample list \<Rightarrow> rat list" where
  "lags steps frames = List.map_filter (\<lambda>(t, s). map_option (\<lambda>hit. fsub hit t) (painted_at t s frames)) steps"

definition missed :: "sample list \<Rightarrow> sample list \<Rightarrow> nat" where
  "missed steps frames = length (filter (\<lambda>(t, s). painted_at t s frames = None) steps)"

fun gaps :: "rat list \<Rightarrow> rat list" where
  "gaps (a # b # ts) = fsub b a # gaps (b # ts)"
| "gaps _ = []"

definition median :: "rat list \<Rightarrow> rat" where
  "median xs = (let d = sort xs; n = length xs; i = n div 2
                in if odd n then d ! i else fdiv (fadd (d ! (i - 1)) (d ! i)) 2)"

text \<open>\<open>quantiles(xs, n=10)[8]\<close>, of at least two values.\<close>

definition ninth_decile :: "rat list \<Rightarrow> rat" where
  "ninth_decile xs =
     (let d = sort xs; ld = length xs; m = ld + 1; q = 9 * m div 10; j = (if q < 1 then 1 else if q > ld - 1 then ld - 1 else q);
          delta = int (9 * m) - int (j * 10)
      in fdiv (fadd (fmul (d ! (j - 1)) (of_int (10 - delta))) (fmul (d ! j) (of_int delta))) 10)"

record gesture_summary =
  gs_duration_ms :: int
  gs_resize_steps :: nat
  gs_step_rate_hz :: "rat option"
  gs_step_gap_ms_p50 :: "rat option"
  gs_chromium_frames :: nat
  gs_steps_never_rendered :: nat
  gs_lag_ms_p50 :: "rat option"
  gs_lag_ms_p90 :: "rat option"
  gs_lag_ms_max :: "rat option"
  gs_final_frame_after_release_ms :: "rat option"

definition measured :: "bool \<Rightarrow> 'a \<Rightarrow> 'a option" where
  "measured b x = (if b then Some x else None)"

definition summarize :: "sample list \<Rightarrow> sample list \<Rightarrow> rat \<Rightarrow> rat \<Rightarrow> gesture_summary" where
  "summarize steps frames enter_t exit_t =
     (let ls = lags steps frames; gs = gaps (map fst steps) in
      \<lparr>gs_duration_ms = py_round (fsub exit_t enter_t),
       gs_resize_steps = length steps,
       gs_step_rate_hz = measured (enter_t < exit_t) (round1 (fdiv (of_int (int (length steps) * 1000)) (fsub exit_t enter_t))),
       gs_step_gap_ms_p50 = measured (gs \<noteq> []) (round1 (median gs)),
       gs_chromium_frames = length (filter (\<lambda>(ft, _). enter_t \<le> ft \<and> ft \<le> exit_t) frames),
       gs_steps_never_rendered = missed steps frames,
       gs_lag_ms_p50 = measured (ls \<noteq> []) (round1 (median ls)),
       gs_lag_ms_p90 = measured (10 \<le> length ls) (round1 (ninth_decile ls)),
       gs_lag_ms_max = measured (ls \<noteq> []) (round1 (Max (set ls))),
       gs_final_frame_after_release_ms =
         (if steps = [] then None
          else map_option (\<lambda>ft. round1 (fsub ft exit_t)) (painted_at (fst (last steps)) (snd (last steps)) frames))\<rparr>)"

section \<open>The probe\<close>

text \<open>\<open>Install_Log\<close> is the script that logs the painted sizes, \<open>Drain_Log\<close> the one that empties the log half a
  second after a gesture, with the gesture it belongs to.\<close>

type_synonym gesture = "rat \<times> rat \<times> sample list \<times> rat option"

datatype probe_call = Install_Log | Read_Clock | Drain_Log gesture

record probe =
  pr_freeze :: bool
  pr_offset :: "rat option"
  pr_rtt :: rat
  pr_enter :: "rat option"
  pr_steps :: "sample list"
  pr_grab_ms :: "rat option"
  pr_calls :: "probe_call list"

definition probe_init :: "bool \<Rightarrow> probe" where
  "probe_init freeze_enabled = \<lparr>pr_freeze = freeze_enabled, pr_offset = None, pr_rtt = 0, pr_enter = None, pr_steps = [],
     pr_grab_ms = None, pr_calls = []\<rparr>"

definition probe_on_page_loaded :: "probe \<Rightarrow> probe" where
  "probe_on_page_loaded p = p\<lparr>pr_calls := pr_calls p @ [Install_Log]\<rparr>"

definition calibrate :: "probe \<Rightarrow> probe" where
  "calibrate p = p\<lparr>pr_calls := pr_calls p @ [Read_Clock]\<rparr>"

text \<open>The page's answer: its clock \<open>js_now\<close>, asked at \<open>t0\<close> and received at \<open>t1\<close>.\<close>

definition calibrated :: "rat \<Rightarrow> rat \<Rightarrow> rat \<Rightarrow> probe \<Rightarrow> probe" where
  "calibrated t0 t1 js_now p = p\<lparr>pr_offset := Some (fsub js_now (fdiv (fadd t0 t1) 2)), pr_rtt := fsub t1 t0\<rparr>"

definition on_enter :: "rat \<Rightarrow> probe \<Rightarrow> probe" where
  "on_enter now p = p\<lparr>pr_enter := Some now, pr_steps := [], pr_grab_ms := None\<rparr>"

definition on_resize :: "rat \<Rightarrow> int \<Rightarrow> int \<Rightarrow> probe \<Rightarrow> probe" where
  "on_resize now w h p = (if pr_enter p \<noteq> None then p\<lparr>pr_steps := pr_steps p @ [(now, w, h)]\<rparr> else p)"

definition note_grab :: "rat \<Rightarrow> probe \<Rightarrow> probe" where
  "note_grab ms p = p\<lparr>pr_grab_ms := Some (round1 ms)\<rparr>"

definition on_exit :: "rat \<Rightarrow> probe \<Rightarrow> probe" where
  "on_exit now p =
     (case pr_enter p of
        None \<Rightarrow> p
      | Some t \<Rightarrow> p\<lparr>pr_enter := None, pr_calls := pr_calls p @ [Drain_Log (t, now, pr_steps p, pr_grab_ms p)]\<rparr>)"

text \<open>The line of the report; \<open>frames\<close> is the log of the page, on its clock. \<open>None\<close>: the clocks are not aligned
  yet. The time of day and the three properties of the native window are arguments.\<close>

record probe_line =
  pl_time :: string
  pl_swap_interval :: int
  pl_surface :: string
  pl_layered :: bool
  pl_freeze :: bool
  pl_freeze_grab_ms :: "rat option"
  pl_clock_rtt_ms :: rat
  pl_summary :: gesture_summary

definition report :: "string \<Rightarrow> int \<Rightarrow> string \<Rightarrow> int \<Rightarrow> sample list \<Rightarrow> gesture \<Rightarrow> probe \<Rightarrow> probe_line option" where
  "report time_text swap_interval surface exstyle frames g p =
     (case (pr_offset p, g) of
        (None, _) \<Rightarrow> None
      | (Some offset, enter_t, exit_t, steps, grab_ms) \<Rightarrow>
          Some \<lparr>pl_time = time_text, pl_swap_interval = swap_interval, pl_surface = surface,
             pl_layered = (exstyle div 0x80000 mod 2 = 1), pl_freeze = pr_freeze p, pl_freeze_grab_ms = grab_ms,
             pl_clock_rtt_ms = round1 (pr_rtt p),
             pl_summary = summarize steps (map (\<lambda>(t, s). (fsub t offset, s)) frames) enter_t exit_t\<rparr>)"

section \<open>The window and its probe\<close>

text \<open>The window of \<open>ui/web/spike_window.py\<close> with its probe, if it has one: what its handlers tell it. \<open>now\<close> is
  the clock, \<open>grab_ms\<close> the time the picture took.\<close>

type_synonym probed = "window \<times> probe option"

definition probed_native :: "rat \<Rightarrow> rat \<Rightarrow> native_message \<Rightarrow> probed \<Rightarrow> probed" where
  "probed_native now grab_ms m x =
     (let (w, probe) = x
      in (native_event m w,
          case m of
            Enter_Size_Move blank \<Rightarrow>
              let entered = map_option (on_enter now) probe
              in if wd_freeze_enabled w \<and> \<not> wd_resizing w then map_option (note_grab grab_ms) entered else entered
          | Exit_Size_Move \<Rightarrow> map_option (on_exit now) probe
          | Other_Message \<Rightarrow> probe))"

definition probed_resize :: "rat \<Rightarrow> rect \<Rightarrow> probed \<Rightarrow> probed" where
  "probed_resize now r x = (resize_event r (fst x), map_option (on_resize now (fst r) (snd r)) (snd x))"

definition probed_page_loaded :: "bool \<Rightarrow> probed \<Rightarrow> probed" where
  "probed_page_loaded ok x = (on_page_loaded ok (fst x), if ok then map_option probe_on_page_loaded (snd x) else snd x)"

section \<open>Facts\<close>

text \<open>Every size the window was given is accounted for once: painted, with its lag, or never.\<close>

lemma steps_accounted: "length (lags steps frames) + missed steps frames = length steps"
  by (induction steps) (auto simp: lags_def missed_def map_filter_simps split: option.split)

lemma painted_not_before:
  assumes "painted_at t s frames = Some ft"
  shows "fsub t 1 \<le> ft \<and> (ft, s) \<in> set frames"
  using assms by (induction frames) (auto simp: painted_at_def split: if_splits)

text \<open>The median of floats lies between the least and the greatest of them.\<close>

lemma fl_form_any: "\<exists>m k. fl x = of_int m * 2 powi k \<and> \<bar>m\<bar> \<le> 2 ^ 53"
proof -
  consider "x = 0" | "0 < x" | "0 < - x" by linarith
  then show ?thesis
  proof cases
    case 1
    have "fl x = of_int 0 * 2 powi 0" by (simp add: 1)
    then show ?thesis by (intro exI [of _ 0]) auto
  next
    case 3
    then obtain m k where "fl (- x) = of_int m * 2 powi k" "\<bar>m\<bar> \<le> 2 ^ 53" using fl_form [of "- x"] by auto
    then have "fl x = of_int (- m) * 2 powi k" "\<bar>- m\<bar> \<le> 2 ^ 53" by (simp_all add: fl_minus)
    then show ?thesis by blast
  qed (rule fl_form)
qed

lemma double_exact:
  assumes "fl x = x"
  shows "fl (2 * x) = 2 * x"
proof -
  obtain m k where x: "x = of_int m * 2 powi k" and m: "\<bar>m\<bar> \<le> 2 ^ 53" using fl_form_any [of x] assms by metis
  have "2 * x = of_int m * 2 powi (k + 1)" unfolding x by (simp add: power_int_add)
  then show ?thesis using m by (rule fl_exact)
qed

lemma half_sum_between:
  assumes "fl a = a" "fl b = b" "a \<le> b"
  shows "a \<le> fdiv (fadd a b) 2 \<and> fdiv (fadd a b) 2 \<le> b"
proof -
  have "fl (2 * a) \<le> fadd a b" "fadd a b \<le> fl (2 * b)" unfolding fadd_def using assms(3) by (intro fl_mono; simp)+
  then have "a \<le> fadd a b / 2" "fadd a b / 2 \<le> b" using double_exact assms(1,2) by simp_all
  from this [THEN fl_mono] have "fl a \<le> fl (fadd a b / 2)" "fl (fadd a b / 2) \<le> fl b" .
  then show ?thesis by (simp add: fdiv_def assms(1,2))
qed

lemma median_between:
  assumes "xs \<noteq> []" and "\<forall>x \<in> set xs. fl x = x"
  shows "Min (set xs) \<le> median xs \<and> median xs \<le> Max (set xs)"
proof -
  let ?d = "sort xs" and ?i = "length xs div 2"
  have mem: "?d ! i \<in> set xs" if "i < length xs" for i using nth_mem [of i ?d] that by simp
  have i: "?i < length xs" "?i - 1 \<le> ?i" using assms(1) by simp_all
  have "\<exists>lo hi. lo \<in> set xs \<and> hi \<in> set xs \<and> lo \<le> median xs \<and> median xs \<le> hi"
  proof (cases "odd (length xs)")
    case True
    then show ?thesis using mem [OF i(1)] by (auto simp: median_def Let_def)
  next
    case False
    have le: "?d ! (?i - 1) \<le> ?d ! ?i" using sorted_nth_mono [of ?d "?i - 1" ?i] i by simp
    have in_set: "?d ! (?i - 1) \<in> set xs" "?d ! ?i \<in> set xs" using mem i by simp_all
    from half_sum_between [OF _ _ le] assms(2) in_set False show ?thesis by (auto simp: median_def Let_def)
  qed
  then show ?thesis by (meson List.finite_set Max.coboundedI Min.coboundedI order_trans)
qed

lemma summarize_counts:
  "gs_resize_steps (summarize steps frames t0 t1) = length steps"
  "gs_steps_never_rendered (summarize steps frames t0 t1) + length (lags steps frames) = length steps"
  using steps_accounted [of steps frames] by (simp_all add: summarize_def Let_def)

lemma report_summary:
  assumes "report txt k surf ex frames (t0, t1, steps, grab) p = Some line"
  obtains shown where "pl_summary line = summarize steps shown t0 t1" and "length shown = length frames"
  using assms by (cases "pr_offset p") (auto simp: report_def intro: that)

text \<open>A gesture is reported with exactly the sizes the window had between its two ends.\<close>

theorem probe_reports_gesture:
  assumes "pr_enter p = None"
  shows "let q = on_exit t1 (foldl (\<lambda>p (t, w, h). on_resize t w h p) (on_enter t0 (foldl (\<lambda>p (t, w, h). on_resize t w h p) p before)) during) in
     pr_calls q = pr_calls p @ [Drain_Log (t0, t1, during, None)] \<and> pr_enter q = None
     \<and> (\<forall>line frames. report txt k surf ex frames (t0, t1, during, None) q = Some line \<longrightarrow>
          (\<exists>painted. gs_steps_never_rendered (pl_summary line) + painted = gs_resize_steps (pl_summary line)
            \<and> gs_resize_steps (pl_summary line) = length during))"
proof -
  have idle: "pr_enter r = None \<Longrightarrow> foldl (\<lambda>p (t, w, h). on_resize t w h p) r xs = r" for r xs
    by (induction xs) (auto simp: on_resize_def)
  have busy: "pr_enter r = Some t \<Longrightarrow> foldl (\<lambda>p (t, w, h). on_resize t w h p) r xs = r\<lparr>pr_steps := pr_steps r @ xs\<rparr>" for r t xs
    by (induction xs arbitrary: r) (auto simp: on_resize_def)
  have counts: "\<exists>painted. gs_steps_never_rendered (pl_summary line) + painted = gs_resize_steps (pl_summary line)
      \<and> gs_resize_steps (pl_summary line) = length during"
    if "report txt k surf ex frames (t0, t1, during, None) q = Some line" for frames q line
    using report_summary [OF that] summarize_counts by metis
  show ?thesis using assms
    by (auto simp: idle busy [of _ t0] on_enter_def on_exit_def Let_def dest: counts)
qed

text \<open>With the picture frozen, the page keeps its size while the probe notes each size of the window, and gets
  the last one when the gesture ends.\<close>

theorem probed_gesture:
  assumes "wd_freeze_enabled w" and "\<not> wd_resizing w" and "during \<noteq> []"
    and "foldl (\<lambda>x (t, r). probed_resize t r x) (probed_native t0 ms (Enter_Size_Move False) (w, Some p)) during = (w1, p1)"
  shows "wd_view w1 = wd_view w \<and> wd_overlay w1 = (snd (last during), True)
     \<and> (let (w2, p2) = probed_native t1 ms Exit_Size_Move (w1, p1)
        in wd_view w2 = snd (last during) \<and> \<not> wd_resizing w2
         \<and> map_option pr_calls p2 = Some (pr_calls p @ [Drain_Log (t0, t1, during, Some (round1 ms))]))"
proof -
  define w0 where "w0 = begin_resize_freeze False w"
  define p0 where "p0 = note_grab ms (on_enter t0 p)"
  have w0: "wd_resizing w0" "wd_view w0 = wd_view w" "wd_freeze_enabled w0" "snd (wd_overlay w0)"
    using assms(1,2) by (simp_all add: w0_def begin_resize_freeze_def)
  have start: "probed_native t0 ms (Enter_Size_Move False) (w, Some p) = (w0, Some p0)"
    using assms(1,2) by (simp add: probed_native_def native_event_def w0_def p0_def)
  have go: "foldl (\<lambda>x (t, r). probed_resize t r x) (v, Some q) xs
      = (foldl (\<lambda>w (t, r). resize_event r w) v xs, Some (q\<lparr>pr_steps := pr_steps q @ xs\<rparr>))"
    if "pr_enter q = Some t0" for v q xs
    using that by (induction xs arbitrary: v q) (auto simp: probed_resize_def on_resize_def)
  have frozen: "wd_resizing v \<and> snd (wd_overlay v) \<Longrightarrow> xs \<noteq> [] \<Longrightarrow>
      (let u = foldl (\<lambda>w (t, r). resize_event r w) v xs in wd_resizing u \<and> wd_view u = wd_view v \<and> wd_rect u = snd (last xs)
         \<and> wd_freeze_enabled u = wd_freeze_enabled v \<and> wd_overlay u = (snd (last xs), True))" for v xs
    by (induction xs arbitrary: v) (auto simp: resize_event_def Let_def)
  have p0: "pr_enter p0 = Some t0" "pr_steps p0 = []" "pr_grab_ms p0 = Some (round1 ms)" "pr_calls p0 = pr_calls p"
    by (simp_all add: p0_def note_grab_def on_enter_def)
  from assms(4) have "w1 = foldl (\<lambda>w (t, r). resize_event r w) w0 during" "p1 = Some (p0\<lparr>pr_steps := during\<rparr>)"
    by (simp_all add: start go p0)
  then show ?thesis using frozen [of w0 during] w0 assms(3) p0
    by (simp add: probed_native_def native_event_def end_resize_freeze_def on_exit_def Let_def)
qed

end
