(* ===== verification/Remote_Wire.thy ===== *)
theory Remote_Wire
  imports Remote
begin

text \<open>
  What the remote server of \<open>engine/remote_server.py\<close> puts on the wire and in the log: the status, the two
  headers and the body of each answer, the line logged for a request, and what the server says of itself.
  \<open>json.dumps\<close>, the text of the page and the texts of exceptions are parameters; a body is its bytes.
\<close>

section \<open>Answers\<close>

record http_reply =
  hr_status :: int
  hr_content_type :: string
  hr_content_length :: nat
  hr_body :: string

definition send_json :: "(json \<Rightarrow> string) \<Rightarrow> int \<Rightarrow> json \<Rightarrow> http_reply" where
  "send_json dumps status payload =
     (let body = dumps payload
      in \<lparr>hr_status = status, hr_content_type = ''application/json; charset=utf-8'', hr_content_length = length body, hr_body = body\<rparr>)"

definition send_html :: "string \<Rightarrow> http_reply" where
  "send_html html = \<lparr>hr_status = 200, hr_content_type = ''text/html; charset=utf-8'', hr_content_length = length html, hr_body = html\<rparr>"

text \<open>What a client reads of a response; nothing of a request whose handler raised.\<close>

definition reply_of :: "(json \<Rightarrow> string) \<Rightarrow> string \<Rightarrow> string \<Rightarrow> http_response \<Rightarrow> http_reply option" where
  "reply_of dumps page exception_text resp =
     (case resp of
        HtmlPage \<Rightarrow> Some (send_html page)
      | JsonBody status payload \<Rightarrow> Some (send_json dumps status payload)
      | ErrorText status \<Rightarrow> Some (send_json dumps status (JObj [(''error'', JStr exception_text)]))
      | Dropped \<Rightarrow> None)"

section \<open>The log\<close>

text \<open>\<open>log_message\<close>: the address, the method and the path of the target; \<open>None\<close> when \<open>urlsplit\<close> raises.\<close>

definition log_message :: "string \<Rightarrow> string \<Rightarrow> string \<Rightarrow> (string \<times> string \<times> string) option" where
  "log_message address command target = map_option (\<lambda>u. (address, command, us_path u)) (urlsplit target)"

section \<open>The server\<close>

definition is_running :: "remote_server \<Rightarrow> bool" where
  "is_running srv = rm_running srv"

text \<open>\<open>port\<close>: the one the operating system gave the socket.\<close>

definition bound_port :: "int \<Rightarrow> remote_server \<Rightarrow> int" where
  "bound_port port srv = (if rm_running srv then port else 0)"

section \<open>Facts\<close>

text \<open>The token never reaches the log, and the page is served to its holder only.\<close>

lemma token_not_logged:
  assumes "list_all (\<lambda>c. plain_char c \<or> c = CHR ''/'') p" "prefix ''/'' p" "\<not> prefix ''//'' p" "list_all plain_char t"
  shows "log_message address command (p @ ''?token='' @ t) = Some (address, command, p)"
  unfolding log_message_def urlsplit_plain [OF assms] by simp

lemma refused_reply:
  assumes "list_all (\<lambda>c. plain_char c \<or> c = CHR ''/'') p" "prefix ''/'' p" "\<not> prefix ''//'' p" "list_all plain_char t"
    and "list_all plain_char (cfg_remote_access_token (ss_settings sess))" "t \<noteq> cfg_remote_access_token (ss_settings sess)"
  shows "map_option hr_status (reply_of dumps page e (fst (do_GET (p @ ''?token='' @ t) sess))) = Some 401
    \<and> map_option hr_body (reply_of dumps page e (fst (do_GET (p @ ''?token='' @ t) sess))) = Some (dumps (JObj [(''error'', JStr ''unauthorized'')]))"
proof -
  have "with_token (cfg_remote_access_token (ss_settings sess)) (p @ ''?token='' @ t) handler sess = (unauthorized, sess)" for handler
  proof (cases "cfg_remote_access_token (ss_settings sess) = []")
    case True
    then show ?thesis unfolding with_token_def urlsplit_plain [OF assms(1-4)] by (simp add: token_is_valid_def)
  next
    case False
    then show ?thesis using with_token_plain [OF assms(1-5) False] assms(6) by simp
  qed
  then show ?thesis by (simp add: do_GET_def reply_of_def unauthorized_def send_json_def Let_def)
qed

lemma replies_measured:
  "reply_of dumps page e resp = Some r \<Longrightarrow> hr_content_length r = length (hr_body r)"
  by (auto simp: reply_of_def send_json_def send_html_def Let_def split: http_response.splits)

lemma server_states:
  "is_running (fst (snd (server_start fresh bound srv cfg))) = fst (server_start fresh bound srv cfg)"
  "bound_port port (server_stop srv) = 0"
  by (auto simp: is_running_def bound_port_def server_start_def server_stop_def Let_def)

end
