(* ===== verification/Shell.thy ===== *)
theory Shell
  imports Themes Window
begin

text \<open>
  The thin parts around the pages: the native dialogs (\<open>ui/web/dialog_bridge.py\<close>), the objects the page finds
  on its channel (\<open>ui/web/spike_window.py\<close>), the log and its hook (\<open>logging_setup.py\<close>), the timers
  (\<open>utils/qt_timers.py\<close>), the bundled files (\<open>utils/resource_path.py\<close>) and what the themes set once at the
  launch (\<open>ui/theme/theme_manager.py\<close>). What Qt shows and answers is a parameter: a call is a value.
\<close>

section \<open>Dialogs\<close>

text \<open>A native dialog with its title, folder or name, and filter; the answer is the path, empty when cancelled.\<close>

datatype dialog = Open_File string string string | Existing_Directory string string | Save_File string string string

definition browse_torrent_file :: "(dialog \<Rightarrow> string) \<Rightarrow> string" where
  "browse_torrent_file ask = ask (Open_File ''Choisir un fichier .torrent'' [] ''Torrent (*.torrent)'')"

definition browse_folder :: "(dialog \<Rightarrow> string) \<Rightarrow> string \<Rightarrow> string" where
  "browse_folder ask current_path = ask (Existing_Directory ''Choisir un dossier'' current_path)"

definition browse_save_file :: "(dialog \<Rightarrow> string) \<Rightarrow> string \<Rightarrow> string \<Rightarrow> string" where
  "browse_save_file ask default_name filter_str = ask (Save_File ''Enregistrer sous'' default_name filter_str)"

definition browse_open_file :: "(dialog \<Rightarrow> string) \<Rightarrow> string \<Rightarrow> string" where
  "browse_open_file ask filter_str = ask (Open_File ''Choisir un fichier'' [] filter_str)"

text \<open>The URLs handed to the system, in order.\<close>

definition open_external_url :: "string \<Rightarrow> string list \<Rightarrow> string list" where
  "open_external_url url urls = urls @ [url]"

section \<open>Bundled files\<close>

text \<open>\<open>frozen\<close>: the folder a frozen executable unpacks to, if it is one; \<open>source_root\<close> the third parent of the
  module's folder. A path is its folder and what is below it.\<close>

definition resource_path :: "string option \<Rightarrow> string \<Rightarrow> string \<Rightarrow> string \<times> string" where
  "resource_path frozen source_root relative = (case frozen of Some base \<Rightarrow> (base, relative) | None \<Rightarrow> (source_root, relative))"

text \<open>\<open>init_theme_runtime\<close>: the folder the style sheets' \<open>theme:\<close> stands for and the icon, when they exist.\<close>

record theme_runtime =
  th_search_paths :: "(string \<times> (string \<times> string)) list"
  th_icon :: "(string \<times> string) option"

definition init_theme_runtime :: "(string \<Rightarrow> string \<times> string) \<Rightarrow> (string \<times> string \<Rightarrow> bool) \<Rightarrow> theme_runtime \<Rightarrow> theme_runtime" where
  "init_theme_runtime resource exists_path th =
     (let assets = resource ''assets'';
          th1 = (if exists_path assets then th\<lparr>th_search_paths := th_search_paths th @ [(''theme'', assets)]\<rparr> else th);
          icon = resource ''assets/icon.ico''
      in if exists_path icon then th1\<lparr>th_icon := Some icon\<rparr> else th1)"

section \<open>Timers\<close>

datatype timer_call = Connect_Timeout | Start_Timer int

definition start_periodic_timer :: "int \<Rightarrow> timer_call list" where
  "start_periodic_timer interval_ms = [Connect_Timeout, Start_Timer interval_ms]"

section \<open>The log\<close>

datatype log_handler = Rotating_File string int nat | Console

record logging =
  lg_level :: string
  lg_format :: string
  lg_handlers :: "log_handler list"
  lg_hooked :: bool
  lg_critical :: "string list"
  lg_default_hook :: "string list"

definition logging_init :: logging where
  "logging_init = \<lparr>lg_level = ''WARNING'', lg_format = [], lg_handlers = [], lg_hooked = False, lg_critical = [], lg_default_hook = []\<rparr>"

definition install_excepthook :: "logging \<Rightarrow> logging" where
  "install_excepthook l = l\<lparr>lg_hooked := True\<rparr>"

text \<open>\<open>basicConfig\<close> configures a logger that has no handler yet, and no other.\<close>

definition setup_logging :: "string \<Rightarrow> logging \<Rightarrow> logging" where
  "setup_logging logs_dir l =
     (let configured = (if lg_handlers l \<noteq> [] then l
        else l\<lparr>lg_level := ''INFO'', lg_format := ''%(asctime)s [%(levelname)s] %(name)s: %(message)s'',
               lg_handlers := [Rotating_File (logs_dir @ ''/torrent2000.log'') (5 * 1024 * 1024) 3, Console]\<rparr>)
      in install_excepthook configured)"

text \<open>An exception nobody caught: logged first, then given to Python's own hook.\<close>

definition uncaught_exception :: "string \<Rightarrow> logging \<Rightarrow> logging" where
  "uncaught_exception e l =
     (if lg_hooked l then l\<lparr>lg_critical := lg_critical l @ [e], lg_default_hook := lg_default_hook l @ [e]\<rparr>
      else l\<lparr>lg_default_hook := lg_default_hook l @ [e]\<rparr>)"

section \<open>The channel\<close>

text \<open>The names under which the page finds the bridges, in the order they are registered.\<close>

definition channel_objects :: "string list" where
  "channel_objects =
     [''windowBridge'', ''autoShutdown'', ''downloads'', ''add'', ''share'', ''dialogs'', ''i18n'', ''rss'', ''search'',
      ''profileGeneral'', ''profileNetwork'', ''profileAutomation'', ''profileSecurity'', ''profileAdvanced'', ''profileStats'',
      ''filePriority'', ''peerList'', ''speedGraph'', ''swarmConstellation'', ''storageSunburst'', ''pieceMap'', ''createTorrent'',
      ''trackerEditor'', ''update'', ''knownDisk'']"

text \<open>What the constructor of the window connects to its bridges: a magnet seen on the clipboard goes to the page
  when the service is there, the countdown to the window, the volume to the player, and the creation of
  a torrent keeps the machine on.\<close>

datatype window_connection = Magnet_To_Page | Countdown_To_Window | Volume_To_Player | Creation_Busy_Source

definition window_connections :: "bool \<Rightarrow> window_connection list" where
  "window_connections clipboard_watched =
     (if clipboard_watched then [Magnet_To_Page] else []) @ [Countdown_To_Window, Volume_To_Player, Creation_Busy_Source]"

text \<open>A message of the page's console is printed when the window is a debugging one; the page always gets it.\<close>

definition console_message :: "bool \<Rightarrow> string \<Rightarrow> string list \<times> string list \<Rightarrow> string list \<times> string list" where
  "console_message debug message x = (if debug then fst x @ [message] else fst x, snd x @ [message])"

section \<open>Facts\<close>

lemma channel_objects_distinct: "distinct channel_objects"
  by (simp add: channel_objects_def)

text \<open>No uncaught exception is lost to the log, in whatever order the two entry points set it up, and the
  file handler is there once.\<close>

lemma setup_logging_twice: "setup_logging d (setup_logging d' l) = setup_logging d' l"
  by (simp add: setup_logging_def install_excepthook_def)

lemma uncaught_logged:
  "lg_critical (foldl (\<lambda>l e. uncaught_exception e l) (setup_logging d l) es) = lg_critical l @ es"
  "lg_default_hook (foldl (\<lambda>l e. uncaught_exception e l) (setup_logging d l) es) = lg_default_hook l @ es"
proof -
  have "lg_hooked m \<Longrightarrow> lg_critical (foldl (\<lambda>l e. uncaught_exception e l) m es) = lg_critical m @ es
      \<and> lg_default_hook (foldl (\<lambda>l e. uncaught_exception e l) m es) = lg_default_hook m @ es" for m
    by (induction es arbitrary: m) (simp_all add: uncaught_exception_def)
  from this [of "setup_logging d l"]
  show "lg_critical (foldl (\<lambda>l e. uncaught_exception e l) (setup_logging d l) es) = lg_critical l @ es"
    "lg_default_hook (foldl (\<lambda>l e. uncaught_exception e l) (setup_logging d l) es) = lg_default_hook l @ es"
    by (simp_all add: setup_logging_def install_excepthook_def)
qed

text \<open>A style sheet's image resolves against a folder that exists.\<close>

lemma theme_paths_exist:
  "\<forall>(name, path) \<in> set (th_search_paths th). exists_path path \<Longrightarrow>
   \<forall>(name, path) \<in> set (th_search_paths (init_theme_runtime resource exists_path th)). exists_path path"
  by (auto simp: init_theme_runtime_def Let_def)

end
