(* ===== verification/Self_Checks.thy ===== *)
theory Self_Checks
  imports Peers
begin

text \<open>
  The self-checks the two modules on peers bring along (\<open>_demo\<close> of \<open>engine/peer_reputation.py\<close> and of
  \<open>engine/lan_peer_cache.py\<close>), run on the model: \<open>True\<close> when every assertion holds. The readings of the clocks
  are arguments, in the order the calls take them; the data directory starts empty.
\<close>

section \<open>The reputation of the peers\<close>

definition fake_peer :: "string \<Rightarrow> int \<Rightarrow> int \<Rightarrow> int \<Rightarrow> raw_peer" where
  "fake_peer ip port total_download num_hashfails =
     \<lparr>pi_addr = ip, pi_port = port, pi_total_download = total_download, pi_num_hashfails = num_hashfails, pi_client = [],
      pi_progress = 0, pi_payload_down_speed = 0, pi_payload_up_speed = 0\<rparr>"

definition holds :: "'a option \<Rightarrow> ('a \<Rightarrow> bool) \<Rightarrow> bool" where
  "holds x P = (case x of None \<Rightarrow> False | Some v \<Rightarrow> P v)"

definition reputation_demo :: "rat \<Rightarrow> rat \<Rightarrow> rat \<Rightarrow> rat \<Rightarrow> rat \<Rightarrow> rat \<Rightarrow> bool" where
  "reputation_demo t0 t1 t2 t3 t4 t5 =
     holds (rep_load Missing) (\<lambda>store.
       let tracker = \<lparr>rt_active = [], rt_store = store\<rparr>;
           seen = observe t0 ''hashA'' [fake_peer ''1.2.3.4'' 6881 1000 0] tracker;
           left = observe t1 ''hashA'' [] seen;
           sent = observe t2 ''hashA'' [fake_peer ''5.6.7.8'' 6881 500 3] left;
           gone = observe t3 ''hashA'' [] sent;
           other = observe t4 ''hashB'' [fake_peer ''9.9.9.9'' 6881 10 0] gone;
           unrelated = observe t5 ''hashA'' [] other
       in rep_get store ''1.2.3.4'' = None \<and> score_label (rep_get store ''1.2.3.4'') = ''neutral''
        \<and> rep_get (rt_store seen) ''1.2.3.4'' = None
        \<and> holds (rep_get (rt_store left) ''1.2.3.4'') (\<lambda>r.
            rp_disconnect_count r = 1 \<and> rp_total_bytes_received r = 1000 \<and> rp_total_hashfails r = 0)
        \<and> score_label (rep_get (rt_store gone) ''5.6.7.8'') = ''bad''
        \<and> holds (rep_load (rs_file (rt_store gone))) (\<lambda>reloaded.
            holds (rep_get reloaded ''1.2.3.4'') (\<lambda>r. rp_total_bytes_received r = 1000))
        \<and> holds (dget (rt_active unrelated) ''hashB'') (\<lambda>d. dhas d ''9.9.9.9'')
        \<and> ip_from_display ''203.0.113.7:6881'' = ''203.0.113.7'' \<and> ip_from_display ''fe80::1:6881'' = ''fe80::1'')"

section \<open>The peers of the local network\<close>

definition rfc1918_demo :: bool where
  "rfc1918_demo \<longleftrightarrow>
     is_rfc1918 ''10.0.0.1'' \<and> is_rfc1918 ''172.16.0.1'' \<and> is_rfc1918 ''172.31.255.255'' \<and> is_rfc1918 ''192.168.1.1''
   \<and> \<not> is_rfc1918 ''172.32.0.1'' \<and> \<not> is_rfc1918 ''172.15.255.255'' \<and> \<not> is_rfc1918 ''8.8.8.8'' \<and> \<not> is_rfc1918 ''127.0.0.1''
   \<and> \<not> is_rfc1918 ''169.254.1.1'' \<and> \<not> is_rfc1918 ''fe80::1'' \<and> \<not> is_rfc1918 ''not-an-ip''"

text \<open>\<open>w\<close> are the readings of \<open>time.time()\<close>, \<open>t\<close> those of \<open>time.monotonic()\<close>. The entry of \<open>hashB\<close> is set back
  in the store, as the check does.\<close>

definition set_back :: "rat \<Rightarrow> string \<Rightarrow> string \<Rightarrow> lan_store \<Rightarrow> lan_store" where
  "set_back last_seen info_hash ip s =
     s\<lparr>ls_entries := map (\<lambda>(h, d). (h, if h = info_hash then map (\<lambda>(k, p). (k, if k = ip then p\<lparr>lp_last_seen := last_seen\<rparr> else p)) d else d))
         (ls_entries s)\<rparr>"

definition lan_cache_demo :: "(nat \<Rightarrow> rat) \<Rightarrow> (nat \<Rightarrow> rat) \<Rightarrow> bool" where
  "lan_cache_demo w t =
     (rfc1918_demo \<and>
      holds (lan_load (w 0) Missing) (\<lambda>store.
       let (none, store) = get_peers (w 1) ''hashA'' store;
           store = record_peers (w 2) (t 0) ''hashA'' [fake_peer ''8.8.8.8'' 6881 0 0, fake_peer ''192.168.1.50'' 51413 0 0] store;
           (mixed, store) = get_peers (w 3) ''hashA'' store
       in none = [] \<and> mixed = [(''192.168.1.50'', 51413)]
        \<and> holds (lan_load (w 4) (ls_file store)) (\<lambda>reloaded. fst (get_peers (w 5) ''hashA'' reloaded) = [(''192.168.1.50'', 51413)])
        \<and> holds (lan_load (w 6) (ls_file store)) (\<lambda>stale.
            let stale = record_peers (w 7) (t 1) ''hashB'' [fake_peer ''10.1.2.3'' 6881 0 0] stale;
                stale = set_back (fsub (fsub (w 8) MAX_AGE_SECONDS) 1) ''hashB'' ''10.1.2.3'' stale;
                (purged, stale) = get_peers (w 9) ''hashB'' stale
            in purged = [] \<and> \<not> dhas (ls_entries stale) ''hashB'')
        \<and> (let store = record_peers (w 10) (t 2) ''hashC'' [fake_peer ''192.168.0.9'' 6882 0 0, fake_peer ''192.168.0.10'' 6883 0 0] store;
               (connected, attempted, store) = reconnect_cached_peers (\<lambda>_. True) (w 11) ''hashC'' store
           in attempted = 2 \<and> set connected = {(''192.168.0.9'', 6882), (''192.168.0.10'', 6883)}
            \<and> fst (snd (reconnect_cached_peers (\<lambda>_. True) (w 12) ''unknown-hash'' store)) = 0)))"

section \<open>When they pass\<close>

text \<open>One poll of the check's tracker, by what it finds.\<close>

lemma observe_one:
  "dget A h = None \<Longrightarrow> observe t h [fake_peer ip port n k] \<lparr>rt_active = A, rt_store = s\<rparr>
     = \<lparr>rt_active = dset h [(ip, (t, n, k))] A, rt_store = rep_flush t 30 s\<rparr>"
  "dget A h = Some [(ip, (f, n, k))] \<Longrightarrow> observe t h [] \<lparr>rt_active = A, rt_store = s\<rparr>
     = \<lparr>rt_active = dpop h A, rt_store = rep_flush t 30 (record_disconnect t ip (fsub t f) n k False s)\<rparr>"
  "dget A h = None \<Longrightarrow> observe t h [] \<lparr>rt_active = A, rt_store = s\<rparr> = \<lparr>rt_active = dpop h A, rt_store = rep_flush t 30 s\<rparr>"
  by (simp_all add: observe_def fake_peer_def Let_def SAVE_MIN_INTERVAL_SECONDS_def)

text \<open>The first write of a store is held back while the machine's clock reads less than thirty seconds, as
  no write is as old as \<open>0.0\<close> says: only then does the check of the reputation find nothing to reload.\<close>

theorem reputation_demo_passes:
  "reputation_demo t0 t1 t2 t3 t4 t5 \<longleftrightarrow> 30 \<le> fl t1 \<or> 30 \<le> fl t2 \<or> 30 \<le> fl t3"
proof -
  define a b x y z where names: "a = ''hashA''" "b = ''hashB''" "x = ''1.2.3.4''" "y = ''5.6.7.8''" "z = ''9.9.9.9''"
  have diff: "a \<noteq> b" "b \<noteq> a" "x \<noteq> y" "y \<noteq> x" by (simp_all add: names)
  have display: "ip_from_display ''203.0.113.7:6881'' = ''203.0.113.7''" "ip_from_display ''fe80::1:6881'' = ''fe80::1''"
    by code_simp+
  define r where "r ip s d h = \<lparr>rp_ip = ip, rp_disconnect_count = 1, rp_total_connected_seconds = fadd 0 s,
      rp_total_bytes_received = d, rp_total_hashfails = h\<rparr>" for ip s d h
  define S where "S d dirty saved disk = \<lparr>rs_records = d, rs_dirty = dirty, rs_last_saved_at = saved, rs_file = disk\<rparr>"
    for d dirty saved disk
  let ?doc = "\<lambda>d. Doc (map_json reputation_json d)"
  have rec: "record_disconnect t ip s n k False (S d dirty saved disk) = S (d @ [(ip, r ip s n k)]) True saved disk"
    if "dget d ip = None" for t ip s n k d dirty saved disk
    using that by (simp add: record_disconnect_def S_def r_def Let_def dkeys_dset_absent)
  have flush: "rep_flush t 30 (S d dirty saved disk)
      = (if \<not> dirty \<or> fsub t saved < 30 then S d dirty saved disk else S d False t (?doc d))" for t d dirty saved disk
    by (simp add: rep_flush_def rep_save_def S_def)
  have start: "rep_load Missing = Some (S [] False 0 Missing)" by (simp add: rep_load_def S_def)
  have reload: "rep_load (?doc d) = Some (S d False 0 (?doc d))" for d
    by (simp add: rep_load_def reputation_codec.reload_map S_def)
  have get: "rep_get (S d dirty saved disk) ip = dget d ip" "rs_file (S d dirty saved disk) = disk" for d dirty saved disk ip
    by (simp_all add: rep_get_def S_def)
  have parts: "rp_disconnect_count (r ip s n k) = 1" "rp_total_bytes_received (r ip s n k) = n" "rp_total_hashfails (r ip s n k) = k"
      "score_label (Some (r ip s 500 3)) = ''bad''" "score_label None = ''neutral''" for ip s n k
    by (simp_all add: r_def score_label_def)
  have zero: "fsub t 0 = fl t" for t by (simp add: fsub_def)
  show ?thesis
    unfolding reputation_demo_def names [symmetric] start holds_def option.case Let_def
    using diff
    by (cases "fl t1 < 30"; cases "fl t2 < 30"; cases "fl t3 < 30"; cases "fsub t3 t1 < 30"; cases "fsub t3 t2 < 30")
      (auto simp: observe_one rec flush start reload get parts zero display holds_def)
qed

text \<open>The times of the check lie within the two days an entry is kept, and the clock resolves a second.\<close>

definition clock_ok :: "(nat \<Rightarrow> rat) \<Rightarrow> bool" where
  "clock_ok w \<longleftrightarrow> (\<forall>i \<le> 12. \<forall>j \<le> 12. fsub (w i) MAX_AGE_SECONDS \<le> w j) \<and> fsub (fsub (w 8) MAX_AGE_SECONDS) 1 < fsub (w 9) MAX_AGE_SECONDS"

lemma rfc1918_demo_passes: rfc1918_demo
  unfolding rfc1918_demo_def by (intro conjI) code_simp+

text \<open>The entries alone: what a round of peers and a question leave of them.\<close>

definition kept :: "rat \<Rightarrow> (string, (string, lan_peer) dict) dict \<Rightarrow> bool" where
  "kept wall es \<longleftrightarrow> (\<forall>(h, d) \<in> set es. d \<noteq> [] \<and> (\<forall>(ip, p) \<in> set d. \<not> lp_last_seen p < fsub wall MAX_AGE_SECONDS))"

lemma purge_kept: "kept wall es \<Longrightarrow> purge_expired wall es = es"
proof (induction es)
  case (Cons e es)
  obtain h d where e: "e = (h, d)" by (cases e)
  have "filter (\<lambda>(ip, p). \<not> lp_last_seen p < fsub wall MAX_AGE_SECONDS) d = d"
    using Cons.prems by (auto simp: kept_def e filter_id_conv)
  then show ?case using Cons by (auto simp: kept_def e purge_expired_def Let_def)
qed (simp add: purge_expired_def)

lemma entries_recorded:
  assumes "note_lan wall ps (case dget (ls_entries s) h of Some d \<Rightarrow> d | None \<Rightarrow> [], False) = (d, True)"
    and "kept wall (dset h d (ls_entries s))"
  shows "ls_entries (record_peers wall tick h ps s) = dset h d (ls_entries s)"
    "\<not> fsub tick (ls_last_saved_at s) < 30
      \<Longrightarrow> ls_file (record_peers wall tick h ps s) = Doc (map_json (map_json lan_peer_json) (dset h d (ls_entries s)))"
  using purge_kept [OF assms(2)] by (auto simp: record_peers_def assms(1) Let_def lan_save_def SAVE_MIN_INTERVAL_SECONDS_def)

lemma peers_kept:
  assumes "kept wall (ls_entries s)"
  shows "get_peers wall h s = (map (\<lambda>p. (lp_ip p, lp_port p)) (dvals (case dget (ls_entries s) h of Some d \<Rightarrow> d | None \<Rightarrow> [])), s)"
  using purge_kept [OF assms] by (simp add: get_peers_def)

lemma entries_reloaded:
  assumes "kept wall es"
  shows "\<exists>s. lan_load wall (Doc (map_json (map_json lan_peer_json) es)) = Some s \<and> ls_entries s = es"
proof -
  have "by_ip_of_json (map_json lan_peer_json d) = Inr d" for d
    using lan_peer_codec.reload_map [of d] by (simp add: map_json_def)
  then have "load_map by_ip_of_json (Doc (map_json (map_json lan_peer_json) es)) = Some es" by (rule load_map_enc)
  moreover have "filter (\<lambda>(h, d). d \<noteq> []) es = es" using assms by (auto simp: kept_def filter_id_conv)
  ultimately show ?thesis using purge_kept [OF assms] by (simp add: lan_load_def)
qed

theorem lan_cache_demo_passes:
  assumes "clock_ok w" and "30 \<le> fl (t 0)"
  shows "lan_cache_demo w t"
proof -
  have fresh: "\<not> w j < fsub (w i) MAX_AGE_SECONDS" if "i \<le> 12" "j \<le> 12" for i j
    using assms(1) that by (auto simp: clock_ok_def not_less)
  have older: "fsub (fsub (w 8) MAX_AGE_SECONDS) 1 < fsub (w 9) MAX_AGE_SECONDS" using assms(1) by (simp add: clock_ok_def)
  define a b c unk where names: "a = ''hashA''" "b = ''hashB''" "c = ''hashC''" "unk = ''unknown-hash''"
  define p1 p2 p3 p4 p5 where ips: "p1 = ''8.8.8.8''" "p2 = ''192.168.1.50''" "p3 = ''10.1.2.3''" "p4 = ''192.168.0.9''" "p5 = ''192.168.0.10''"
  have diff: "a \<noteq> b" "a \<noteq> c" "a \<noteq> unk" "c \<noteq> unk" "p4 \<noteq> p5" by (simp_all add: names ips)
  have nets: "\<not> is_rfc1918 p1" "is_rfc1918 p2" "is_rfc1918 p3" "is_rfc1918 p4" "is_rfc1918 p5"
    unfolding ips by code_simp+
  define P where "P ip port t = \<lparr>lp_ip = ip, lp_port = port, lp_last_seen = t\<rparr>" for ip port t
  define E where "E = [(a, [(p2, P p2 51413 (w 2))])]"
  have kept_E: "kept (w i) (E @ [(h, d)])" if "i \<le> 12" "d \<noteq> []" "\<forall>(ip, p) \<in> set d. \<exists>j \<le> 12. lp_last_seen p = w j" for i h d
    using that fresh by (fastforce simp: kept_def E_def P_def)
  have kept_1: "kept (w i) E" if "i \<le> 12" for i using fresh [OF that, of 2] by (simp add: kept_def E_def P_def)
  obtain s0 where s0: "lan_load (w 0) Missing = Some s0" "ls_entries s0 = []" "ls_last_saved_at s0 = 0"
    by (simp add: lan_load_def purge_expired_def)
  define s1 where "s1 = record_peers (w 2) (t 0) a [fake_peer p1 6881 0 0, fake_peer p2 51413 0 0] s0"
  have mixed: "note_lan (w 2) [fake_peer p1 6881 0 0, fake_peer p2 51413 0 0] ([], False) = ([(p2, P p2 51413 (w 2))], True)"
    using nets by (simp add: fake_peer_def P_def)
  have s1: "ls_entries s1 = E" "ls_file s1 = Doc (map_json (map_json lan_peer_json) E)"
    using entries_recorded [of "w 2" _ s0 a, OF _ , of _ "[(p2, P p2 51413 (w 2))]" "t 0"] mixed kept_1 [of 2] assms(2) s0
    by (simp_all add: s1_def E_def fsub_def)
  have asked: "get_peers (w 1) a s0 = ([], s0)" "get_peers (w 3) a s1 = ([(p2, 51413)], s1)"
    using peers_kept [of "w 1" s0 a] peers_kept [of "w 3" s1 a] kept_1 [of 3] s0 s1 by (simp_all add: kept_def E_def P_def)
  obtain s4 where s4: "lan_load (w 4) (ls_file s1) = Some s4" "ls_entries s4 = E" using entries_reloaded [OF kept_1 [of 4]] s1 by auto
  have again: "fst (get_peers (w 5) a s4) = [(p2, 51413)]"
    using peers_kept [of "w 5" s4 a] kept_1 [of 5] s4 by (simp add: E_def P_def)
  obtain s6 where s6: "lan_load (w 6) (ls_file s1) = Some s6" "ls_entries s6 = E" using entries_reloaded [OF kept_1 [of 6]] s1 by auto
  define s7 where "s7 = set_back (fsub (fsub (w 8) MAX_AGE_SECONDS) 1) b p3 (record_peers (w 7) (t 1) b [fake_peer p3 6881 0 0] s6)"
  have kept_b: "kept (w 7) (E @ [(b, [(p3, P p3 6881 (w 7))])])" by (rule kept_E) (auto simp: P_def intro: exI [of _ 7])
  have "ls_entries (record_peers (w 7) (t 1) b [fake_peer p3 6881 0 0] s6) = E @ [(b, [(p3, P p3 6881 (w 7))])]"
    using entries_recorded(1) [of "w 7" "[fake_peer p3 6881 0 0]" s6 b "[(p3, P p3 6881 (w 7))]" "t 1"] nets diff s6
      kept_b
    by (auto simp: fake_peer_def E_def P_def)
  then have "ls_entries s7 = E @ [(b, [(p3, P p3 6881 (fsub (fsub (w 8) MAX_AGE_SECONDS) 1))])]"
    using diff by (simp add: s7_def set_back_def E_def P_def)
  then have purged: "get_peers (w 9) b s7 = ([], s7\<lparr>ls_entries := E\<rparr>)"
    using older fresh [of 9 2] diff by (simp add: get_peers_def purge_expired_def Let_def E_def P_def)
  define s10 where "s10 = record_peers (w 10) (t 2) c [fake_peer p4 6882 0 0, fake_peer p5 6883 0 0] s1"
  let ?c = "[(p4, P p4 6882 (w 10)), (p5, P p5 6883 (w 10))]"
  have kept_c: "kept (w i) (E @ [(c, ?c)])" if "i \<le> 12" for i
    by (rule kept_E [OF that]) (auto simp: P_def intro: exI [of _ 10])
  have s10: "ls_entries s10 = E @ [(c, ?c)]"
    using entries_recorded(1) [of "w 10" "[fake_peer p4 6882 0 0, fake_peer p5 6883 0 0]" s1 c ?c "t 2"] nets diff s1 kept_c [of 10]
    by (auto simp: s10_def fake_peer_def E_def P_def)
  have tried: "get_peers (w i) h s10 = (if h = c then [(p4, 6882), (p5, 6883)] else if h = a then [(p2, 51413)] else [], s10)" if "i \<le> 12" for i h
    using peers_kept [of "w i" s10 h] kept_c [OF that] s10 diff by (auto simp: E_def P_def)
  show ?thesis
    unfolding lan_cache_demo_def holds_def names [symmetric] ips [symmetric] s0 option.case Let_def asked prod.case
      s1_def [symmetric] s4 s6 s7_def [symmetric] s10_def [symmetric] again purged
    using rfc1918_demo_passes tried [of 11] tried [of 12] diff by (simp add: reconnect_cached_peers_def E_def)
qed

end
