(* ===== verification/Theme_Metrics.thy ===== *)
theory Theme_Metrics
  imports Url Stores PyFloat
begin

text \<open>
  \<open>scripts/theme_review/compare_metrics.py\<close>: two runs of the in-page metrics, which combinations of theme and
  mode pass before and after, and every regression. A run is the JSON document as nested mappings; a
  comparison of a list or a mapping with a number raises \<open>TypeError\<close>. The printing is left out, the lines
  printed are the result.
\<close>

section \<open>One metric\<close>

type_synonym metrics_run = "(string, (string, (string, json) dict) dict) dict"

definition CONTRAST :: "(string, rat) dict" where
  "CONTRAST = map (\<lambda>m. (m, 9/2))
     [''dl_selected_min'', ''dl_warning_min'', ''dl_critical_min'', ''dl_plain_min'', ''share_name'', ''rss_keyword'',
      ''search_result_source'', ''rss_error'', ''field_note'', ''status_line'', ''drop_zone'', ''scan_reasons'', ''info_hint'',
      ''profile_checkbox_label'', ''modal_msg'', ''tooltip'']"

text \<open>The value as a number; a \<open>bool\<close> is one.\<close>

fun number_of :: "json \<Rightarrow> rat option" where
  "number_of (JBool b) = Some (if b then 1 else 0)"
| "number_of (JInt n) = Some (of_int n)"
| "number_of (JFloat x) = Some x"
| "number_of _ = None"

definition at_least :: "rat \<Rightarrow> json \<Rightarrow> load_error + bool option" where
  "at_least lo v = (case number_of v of None \<Rightarrow> Inl TypeErr | Some x \<Rightarrow> Inr (Some (lo \<le> x)))"

definition metric_ok :: "string \<Rightarrow> json \<Rightarrow> load_error + bool option" where
  "metric_ok metric v =
     (if v = JNull \<or> (case v of JStr _ \<Rightarrow> True | _ \<Rightarrow> False) then Inr None
      else case dget CONTRAST metric of
             Some lo \<Rightarrow> at_least lo v
           | None \<Rightarrow>
               if metric = ''dl_name_min_width'' then at_least 40 v
               else if metric = ''form_select_mosaic'' then Inr (Some (number_of v = Some 0))
               else if metric = ''form_select_no_image'' then Inr (Some (number_of v = Some 0))
               else if metric = ''scan_visible_rows'' then at_least 5 v
               else if metric = ''start_reachable'' then Inr (Some (json_truthy v))
               else Inr None)"

section \<open>Two runs\<close>

type_synonym regression = "string \<times> string \<times> string \<times> json \<times> json"

record tally =
  ty_n :: nat
  ty_before :: nat
  ty_after :: nat
  ty_regressions :: "regression list"
  ty_failing :: "(string \<times> string \<times> json) list"

definition or_null :: "json option \<Rightarrow> json" where
  "or_null v = (case v of None \<Rightarrow> JNull | Some j \<Rightarrow> j)"

definition after_value :: "metrics_run \<Rightarrow> string \<Rightarrow> string \<Rightarrow> string \<Rightarrow> json" where
  "after_value a theme_id mode m =
     (case dget a theme_id of None \<Rightarrow> JNull
      | Some modes \<Rightarrow> (case dget modes mode of None \<Rightarrow> JNull | Some ms \<Rightarrow> or_null (dget ms m)))"

definition dropped :: "string \<Rightarrow> json \<Rightarrow> json \<Rightarrow> bool" where
  "dropped m vb va =
     (dhas CONTRAST m \<and> (case (number_of vb, number_of va) of (Some x, Some y) \<Rightarrow> y < fsub x (fl (3/10)) | _ \<Rightarrow> False))"

definition review_one :: "string \<Rightarrow> string \<Rightarrow> string \<Rightarrow> json \<Rightarrow> json \<Rightarrow> tally \<Rightarrow> load_error + tally" where
  "review_one m theme_id mode vb va t =
     sbind (metric_ok m vb) (\<lambda>ob. sbind (metric_ok m va) (\<lambda>oa.
       Inr (if ob = None \<and> oa = None then t
            else \<lparr>ty_n = ty_n t + 1,
                  ty_before = ty_before t + (if ob = Some True then 1 else 0),
                  ty_after = ty_after t + (if oa = Some True then 1 else 0),
                  ty_regressions = ty_regressions t @
                    (if ob = Some True \<and> oa = Some False \<or> dropped m vb va then [(m, theme_id, mode, vb, va)] else []),
                  ty_failing = ty_failing t @ (if oa = Some False then [(theme_id, mode, va)] else [])\<rparr>)))"

definition combos :: "metrics_run \<Rightarrow> (string \<times> string \<times> (string, json) dict) list" where
  "combos b = concat (map (\<lambda>(theme_id, modes). map (\<lambda>(mode, ms). (theme_id, mode, ms)) modes) b)"

fun review_metric :: "string \<Rightarrow> metrics_run \<Rightarrow> (string \<times> string \<times> (string, json) dict) list \<Rightarrow> tally \<Rightarrow> load_error + tally" where
  "review_metric m a [] t = Inr t"
| "review_metric m a ((theme_id, mode, ms) # cs) t =
     sbind (review_one m theme_id mode (or_null (dget ms m)) (after_value a theme_id mode m) t) (review_metric m a cs)"

definition tally_init :: tally where
  "tally_init = \<lparr>ty_n = 0, ty_before = 0, ty_after = 0, ty_regressions = [], ty_failing = []\<rparr>"

fun review_metrics :: "metrics_run \<Rightarrow> metrics_run \<Rightarrow> string list \<Rightarrow> load_error + (string \<times> tally) list" where
  "review_metrics b a [] = Inr []"
| "review_metrics b a (m # ms) =
     sbind (review_metric m a (combos b) tally_init) (\<lambda>t. sbind (review_metrics b a ms) (\<lambda>ts. Inr ((m, t) # ts)))"

text \<open>\<open>main\<close>: a line for each metric of the first combination; \<open>None\<close> when there is none (\<open>StopIteration\<close>).\<close>

definition compare_metrics :: "metrics_run \<Rightarrow> metrics_run \<Rightarrow> (load_error + (string \<times> tally) list) option" where
  "compare_metrics b a =
     (case b of (_, (_, ms) # _) # _ \<Rightarrow> Some (review_metrics b a (dkeys ms)) | _ \<Rightarrow> None)"

text \<open>The rows that still fail, worst first, and how many are not shown.\<close>

definition worst_first :: "(string \<times> string \<times> json) list \<Rightarrow> (string \<times> string \<times> json) list \<times> nat" where
  "worst_first rows =
     (let sorted_rows = sort_key (\<lambda>(_, _, v). case number_of v of Some x \<Rightarrow> x | None \<Rightarrow> 0) rows
      in (take 14 sorted_rows, length rows - 14))"

section \<open>Facts\<close>

text \<open>A regression is reported exactly for the combinations of the earlier run that passed and fail now, or whose
  contrast dropped, and the totals count each combination a metric is measured in once.\<close>

definition regressed :: "string \<Rightarrow> json \<Rightarrow> json \<Rightarrow> bool" where
  "regressed m vb va \<longleftrightarrow> metric_ok m vb = Inr (Some True) \<and> metric_ok m va = Inr (Some False) \<or> dropped m vb va"

lemma dropped_measured:
  assumes "dropped m vb va"
  shows "metric_ok m vb \<noteq> Inr None"
proof -
  obtain lo x where "dget CONTRAST m = Some lo" "number_of vb = Some x"
    using assms by (auto simp: dropped_def split: option.splits)
  then have "metric_ok m vb = Inr (Some (lo \<le> x))" by (cases vb) (simp_all add: metric_ok_def at_least_def)
  then show ?thesis by simp
qed

lemma review_one_regressions:
  assumes "review_one m theme_id mode vb va t = Inr t'"
  shows "ty_regressions t' = ty_regressions t @ (if regressed m vb va then [(m, theme_id, mode, vb, va)] else [])"
    "ty_before t' + ty_after t' \<le> ty_before t + ty_after t + 2 * (ty_n t' - ty_n t)" "ty_n t \<le> ty_n t'"
proof -
  obtain ob oa where o: "metric_ok m vb = Inr ob" "metric_ok m va = Inr oa"
    using assms by (cases "metric_ok m vb"; cases "metric_ok m va") (auto simp: review_one_def)
  show "ty_regressions t' = ty_regressions t @ (if regressed m vb va then [(m, theme_id, mode, vb, va)] else [])"
    "ty_before t' + ty_after t' \<le> ty_before t + ty_after t + 2 * (ty_n t' - ty_n t)" "ty_n t \<le> ty_n t'"
    using assms dropped_measured [of m vb va] by (auto simp: review_one_def o regressed_def split: if_splits)
qed

theorem regressions_reported:
  assumes "review_metric m a cs t = Inr t'"
  shows "ty_regressions t' = ty_regressions t @
    [(m, theme_id, mode, or_null (dget ms m), after_value a theme_id mode m).
       (theme_id, mode, ms) \<leftarrow> cs, regressed m (or_null (dget ms m)) (after_value a theme_id mode m)]"
  using assms
proof (induction cs arbitrary: t)
  case (Cons c cs)
  obtain theme_id mode ms where c: "c = (theme_id, mode, ms)" by (cases c)
  obtain t1 where t1: "review_one m theme_id mode (or_null (dget ms m)) (after_value a theme_id mode m) t = Inr t1"
      "review_metric m a cs t1 = Inr t'"
    using Cons.prems by (cases "review_one m theme_id mode (or_null (dget ms m)) (after_value a theme_id mode m) t") (simp_all add: c)
  show ?case using Cons.IH [OF t1(2)] review_one_regressions(1) [OF t1(1)] by (simp add: c)
qed simp

end
