(* ===== verification/Spec2Isabelle.thy ===== *)
theory Spec2Isabelle
  imports Routing Danger_Scanner Session_Reach Share_Limits Bandwidth Automation Remote Fetch Disk Profiles Search
    Notices Pages Creator Security_Center Themes Startup Page_Rows Wiring Rss_Workers Wiring_Refinement Session_Starts Session_Removal Probe
    Remote_Wire Shell Self_Checks Theme_Metrics
begin

text \<open>
  A model of Torrent 2000, a BitTorrent client written in Python with Qt and libtorrent
  (\<open>src/src/torrent2000\<close> and \<open>src/run_web_spike.py\<close>), and the properties that make its parts correct.

  \<^bold>\<open>The program.\<close> \<open>run_web_spike.py\<close> loads the settings and builds the session manager, the services and
  the window. The session manager (\<open>engine/session_manager.py\<close>) owns libtorrent: it restores the torrents
  of the last session, pumps libtorrent's alerts on a timer, keeps one record per torrent, and announces
  what happens as Qt signals. The services listen to these signals and call back: they limit shares, read
  feeds, watch a folder, schedule the bandwidth, recheck, journal, notify, count, and shut the machine
  down. The pages are objects a web page calls (\<open>ui/web/bridge_*.py\<close>): they read the session and the
  settings and call the same operations.

  \<^bold>\<open>Conventions.\<close> A dataclass is a record and an enumeration a datatype, with the source's fields and cases.
  A dictionary is an association list with distinct keys, in insertion order. A float is the rational it
  denotes and every operation rounds (\<open>fl\<close>). A Python \<open>int\<close> is an \<open>int\<close>; the 32-bit tick counters, the
  words Windows returns and the addresses are words. Strings are UTF-8. A signal a method emits and a call
  it makes on libtorrent, Qt or Windows are appended to an output list; what it reads from them, the clocks
  and the file system are arguments (the record \<open>world\<close> for libtorrent). An exception is a case of a sum, an
  option or a flag, and every handler is a branch. A service that acts on the session takes and returns
  both states. A file is a \<open>disk_file\<close>: missing, unreadable, not JSON, or a document.

  \<^bold>\<open>The theories, lowest first.\<close>
  \<^item> \<open>Prelude\<close>, \<open>PyFloat\<close>, \<open>PyRegex\<close>, \<open>Url\<close>: Python's dictionaries, strings, JSON, floats, the part of \<open>re\<close> and
    of \<open>urllib.parse\<close> the source uses. The rounding is proved monotone and exact on 53-bit values, and the
    matcher is proved equivalent to the relation a pattern denotes.
  \<^item> \<open>Stores\<close>, \<open>Jsonl\<close>, \<open>Dpapi\<close>: what the JSON stores share. The locales \<open>json_codec\<close> (what is written reads back),
    \<open>named_store\<close> (saving and deleting under a name) and \<open>capped_log\<close> (a log of JSON lines with a cap) are the
    interfaces the stores below interpret; \<open>Dpapi\<close> is the encryption of the two secrets.
  \<^item> \<open>Settings_Data\<close>, \<open>Settings\<close>: \<open>config/settings.py\<close> and \<open>config/settings_history.py\<close>, all fields, load, save, the
    journal of changes and its undo (locale \<open>field_table\<close>).
  \<^item> \<open>Routing\<close>, \<open>Danger_Scanner\<close>, \<open>Net\<close>, \<open>Peers\<close>, \<open>Tags\<close>: the routing rules; the ten rules and the score of the danger
    scanner; the block list; the reputation of peers and the LAN cache; categories and tags.
  \<^item> \<open>Torrent_Item\<close>, \<open>Session\<close>, \<open>Session_Ops\<close>: the session manager with its alert handlers, tick, start-up, shutdown
    and every operation on a torrent. \<open>Session_Props\<close> holds its properties; \<open>Session_Frame\<close> proves once, for any
    view of the session (locales \<open>call_view\<close>, \<open>start_view\<close>, \<open>cmd_view\<close>, \<open>session_view\<close> and their versions for
    what is stored), what each operation leaves alone; \<open>Session_Reach\<close> is the step relation over all operations, its reachable states and their
    invariant; \<open>Session_Starts\<close> shows which steps make a torrent, or the
    session, run; \<open>Session_Removal\<close> what a removal forgets and what may bring it back; \<open>Session_Disk\<close> is the invariant of the files
    the session writes.
  \<^item> \<open>Share_Limits\<close>, \<open>Rss\<close>, \<open>Rss_Workers\<close>, \<open>Stats\<close>, \<open>Bandwidth\<close>, \<open>Automation\<close>, \<open>Disk\<close>, \<open>Profiles\<close>, \<open>Fetch\<close>, \<open>Search\<close>, \<open>Notices\<close>, \<open>Creator\<close>,
    \<open>Remote\<close>: the services, one group of definitions per module (each theory names its modules). \<open>Stats\<close> has the
    refinement of the batched counters to one counter per torrent and the locale \<open>level_powers\<close>; \<open>Bandwidth\<close> the
    locale \<open>edge_toggle\<close> of the services that act on a change only; \<open>Automation\<close> the state machine of the
    automatic shutdown with its traces; \<open>Remote\<close> the HTTP interface with its token and \<open>Remote_Wire\<close> what it
    puts on the wire and in the log; \<open>Self_Checks\<close> runs the checks two modules bring along on the model.
  \<^item> \<open>Pages\<close>, \<open>Views\<close>, \<open>Page_Rows\<close>, \<open>Config_Pages\<close>, \<open>Page_Settings\<close>, \<open>History_Page\<close>, \<open>Security_Center\<close>, \<open>Language\<close>, \<open>Themes\<close>: the
    pages, the texts they show and the native themes. \<open>Theme_Metrics\<close> is the comparison of two measurements of the
    pages (\<open>src/scripts/theme_review/compare_metrics.py\<close>).
  \<^item> \<open>Platform\<close>, \<open>Window\<close>, \<open>Probe\<close>, \<open>Shell\<close>, \<open>App\<close>, \<open>Startup\<close>: the use of the operating system, the window and the probe
    that measures its resizing, the dialogs, the log and the page's channel, the quit, and the launch of the
    whole program from the files on disk.
  \<^item> \<open>Wiring\<close>: the connections between the session's signals and everything that listens, in the order \<open>main\<close>
    makes them, with the alerts, ticks and ends of background work delivered through them.
    \<open>Wiring_Refinement\<close> compares it with the session alone.

  \<^bold>\<open>What is shown.\<close> Of the session: its maps agree in every reachable state, only adding, confirming and
  resuming make a torrent run and each of them asks the theme that forbids downloading first, a removal leaves
  nothing of the torrent, a completion is announced once, every torrent's resume data is asked for, two a tick,
  file operations stay under the torrent's folder.
  Of the data on disk: what is saved is what is loaded, for the settings, their undo, the profiles, the
  exported configuration and history, and for the JSON stores of the whole program over a quit and a relaunch. Of the services:
  the danger scan reports every file and bounds its score, the block list blocks what its lines say, a share
  limit fires once, a feed item is started at most as often as one document repeats it and only after its scan, the counters count every byte once,
  the rate limits in force are those that should be as long as no profile sets them, a fetch is bounded, complete
  and keeps to its proxy, the shutdown runs only after an uncancelled countdown and
  never after quit, the remote interface does nothing without the token, an installer stays on disk only when
  its checksum is right, the streamed hashes are those of the whole content. Of the services together: they
  add calls on libtorrent to what the session does and change nothing else of it, a removal reaches each of
  them, the shutdown's countdown waits for the extractions of the very completion that asks for it, and what
  is on disk stays readable whatever is delivered (\<open>wired_run_ok\<close>). Of the window: no frozen picture outlives
  a resize, the probe notes each size of a gesture, nothing is sent to a hidden page, an instance that listens gets the argument of every later launch. The
  lemmas that a property rests on stand in the same theory before its section \<open>Properties\<close>; some lemmas show
  where the code does not do what it means to (\<open>blocklist_mixed_range_disables\<close>, \<open>launch_stopped_by_file\<close>,
  \<open>installer_runs_beside_program\<close>, \<open>failed_save_half_applied\<close>, \<open>profile_lifts_throttle\<close>,
  \<open>refused_moves_counted\<close>, \<open>only_last_early_source_opened\<close>, \<open>finished_record_holds_countdown\<close>,
  \<open>elapsed_countdown_ignores_extractions\<close>, \<open>private_flag_read_once\<close>, \<open>pending_magnet_starts\<close>,
  \<open>resumed_magnet_escapes\<close>, \<open>removal_lost_in_quit\<close>, \<open>start_before_metadata\<close>).

  \<^bold>\<open>Bounds and termination.\<close> No definition takes fuel. Loops are structural recursion over what they consume,
  or \<open>function\<close> with a measure: the hashing loop by the bytes left, \<open>str.format\<close> by the text left, and the
  search for a level by the distance to the level, whatever the floating logarithm estimates
  (\<open>level_search_exact\<close>). Waits (the shutdown, the countdown, a download) are driven by an explicit list of
  what each round sees, so that a wait ends with its list or its deadline; a round of the shutdown is the clock,
  the slots \<open>processEvents\<close> runs, as a function on the session, and the alerts.

  \<^bold>\<open>Parameters.\<close> libtorrent (the record \<open>world\<close>, what \<open>add_torrent\<close> returns, the alerts), Qt's dialogs and
  local sockets (the record \<open>socket_layer\<close>), the SQLite databases of the statistics, the history and the seen items
  (over a relaunch their committed rows are the data itself), the XML parser, urllib's connections, SHA-1 and SHA-256, DPAPI, Windows' answers, the user's
  own regular expressions and C's \<open>pow\<close>. Assumed of them where a theorem needs it: decryption undoes
  encryption, \<open>pow\<close> grows by at least 13/10 a step (proved of the correctly rounded one), libtorrent reports a
  torrent's removal after its addition, a local socket brings what its client waited to see written (\<open>delivers_flushed\<close>), the keys of a JSON object are distinct.

  \<^bold>\<open>Not modelled.\<close> Overflow, NaN and infinities of floats. A file whose bytes are not UTF-8, and a stored
  value of a type no version of the program wrote (the case \<open>IllTyped\<close> or \<open>None\<close>). The pictures, layouts and
  window handles of Qt, its event loop (the events of \<open>Wiring\<close> come in any order), and the rotation of the
  log's files. The HTML of the remote page and the JavaScript under \<open>src/resources\<close> are not Python. The
  other scripts under \<open>src/scripts\<close> are tools of the developers: they drive a browser, compare pictures and
  search the French texts of the JavaScript.
\<close>

end
